(* ===== verification/Prelude.thy ===== *)
theory Prelude
  imports Complex_Main "HOL-Library.Word"
begin

text \<open>
  Names, automation and platform data shared by all components.

  The program is written against Qt. Its value classes (QString, QJsonValue,
  QJsonObject, QJsonArray, QHash) are the program's standard library, so this
  theory models the operations of them that the sources call: strings are
  lists of 8-bit code units, a JSON object or a hash is a finite-domain map,
  a JSON array is a list. Unsigned machine integers are words.
\<close>

type_synonym u32 = "32 word"
type_synonym u64 = "64 word"
type_synonym i64 = "64 word"

named_theorems qt_simps \<open>unfolding rules of the Qt value classes\<close>
named_theorems inv_intros \<open>preservation of a component's invariant by its operations\<close>


section \<open>QString\<close>

definition is_space :: "char \<Rightarrow> bool" where
  "is_space c \<longleftrightarrow> c \<in> set [CHR 0x20, CHR 0x09, CHR 0x0A, CHR 0x0B, CHR 0x0C, CHR 0x0D]"

definition trimmed :: "string \<Rightarrow> string" where
  "trimmed s = rev (dropWhile is_space (rev (dropWhile is_space s)))"

definition is_trimmed :: "string \<Rightarrow> bool" where
  "is_trimmed s \<longleftrightarrow> trimmed s = s"

definition starts_with :: "string \<Rightarrow> string \<Rightarrow> bool" where
  "starts_with s p \<longleftrightarrow> take (length p) s = p"

definition ends_with :: "string \<Rightarrow> string \<Rightarrow> bool" where
  "ends_with s p \<longleftrightarrow> length p \<le> length s \<and> drop (length s - length p) s = p"

lemma dropWhile_id_hd:
  assumes "xs \<noteq> [] \<Longrightarrow> \<not> P (hd xs)"
  shows "dropWhile P xs = xs"
  using assms by (cases xs) auto

lemma hd_dropWhile_not:
  assumes "dropWhile P xs \<noteq> []"
  shows "\<not> P (hd (dropWhile P xs))"
  using assms by (induction xs) (auto split: if_splits)

lemma trimmed_Nil [simp]: "trimmed [] = []"
  by (simp add: trimmed_def)

lemma dropWhile_rev_dropWhile:
  assumes "dropWhile P ys = ys"
  shows "dropWhile P (rev (dropWhile P (rev ys))) = rev (dropWhile P (rev ys))"
proof (rule dropWhile_id_hd)
  let ?z = "rev (dropWhile P (rev ys))"
  assume ne: "?z \<noteq> []"
  have "takeWhile P (rev ys) @ dropWhile P (rev ys) = rev ys"
    by simp
  then have split: "ys = ?z @ rev (takeWhile P (rev ys))"
    by (metis rev_append rev_rev_ident)
  then have "hd ys = hd ?z"
    using ne by (metis hd_append)
  moreover have "ys \<noteq> []"
    using ne by auto
  ultimately show "\<not> P (hd ?z)"
    using assms hd_dropWhile_not by metis
qed

lemma trimmed_idem [simp]: "trimmed (trimmed s) = trimmed s"
proof -
  let ?y = "dropWhile is_space s"
  have "dropWhile is_space ?y = ?y"
    by simp
  then have "dropWhile is_space (rev (dropWhile is_space (rev ?y))) = rev (dropWhile is_space (rev ?y))"
    by (rule dropWhile_rev_dropWhile)
  then show ?thesis
    by (simp add: trimmed_def)
qed

lemma is_trimmed_trimmed [simp, intro]: "is_trimmed (trimmed s)"
  by (simp add: is_trimmed_def)


section \<open>JSON values\<close>

text \<open>
  The constructors are the types of QJsonValue. Numbers are doubles; the only
  numbers the program stores are integers, which a double holds exactly.
\<close>

datatype json =
    JUndefined
  | JNull
  | JBool bool
  | JDouble rat
  | JString string
  | JArray "json list"
  | JObject "string \<Rightarrow> json option"

type_synonym jobject = "string \<Rightarrow> json option"

definition jvalue :: "jobject \<Rightarrow> string \<Rightarrow> json" where
  "jvalue ob k = (case ob k of None \<Rightarrow> JUndefined | Some v \<Rightarrow> v)"

fun json_toString :: "json \<Rightarrow> string" where
  "json_toString (JString s) = s"
| "json_toString _ = []"

fun json_toBool :: "bool \<Rightarrow> json \<Rightarrow> bool" where
  "json_toBool d (JBool b) = b"
| "json_toBool d _ = d"

fun json_toArray :: "json \<Rightarrow> json list" where
  "json_toArray (JArray xs) = xs"
| "json_toArray _ = []"

fun json_toObject :: "json \<Rightarrow> jobject" where
  "json_toObject (JObject m) = m"
| "json_toObject _ = Map.empty"

text \<open>QJsonValue::toInt returns the default unless the double is an integer in the range of int.\<close>

fun json_toInt :: "int \<Rightarrow> json \<Rightarrow> int" where
  "json_toInt d (JDouble r) =
     (if of_int \<lfloor>r\<rfloor> = r \<and> - (2 ^ 31) \<le> \<lfloor>r\<rfloor> \<and> \<lfloor>r\<rfloor> < 2 ^ 31 then \<lfloor>r\<rfloor> else d)"
| "json_toInt d _ = d"

text \<open>The non-const operator[] of QJsonObject creates a missing key with a null value.\<close>

definition jref :: "jobject \<Rightarrow> string \<Rightarrow> jobject" where
  "jref ob k = (case ob k of None \<Rightarrow> ob(k \<mapsto> JNull) | Some _ \<Rightarrow> ob)"

definition int_range :: "int \<Rightarrow> bool" where
  "int_range n \<longleftrightarrow> - (2 ^ 31) \<le> n \<and> n < 2 ^ 31"

lemma jvalue_upd [simp, qt_simps]: "jvalue (ob(k \<mapsto> v)) k' = (if k' = k then v else jvalue ob k')"
  by (simp add: jvalue_def)

lemma jvalue_empty [simp, qt_simps]: "jvalue Map.empty k = JUndefined"
  by (simp add: jvalue_def)

lemma json_toArray_jref [simp]: "json_toArray (jvalue (jref ob k) k') = json_toArray (jvalue ob k')"
  by (auto simp: jref_def jvalue_def split: option.splits)

lemma json_toObject_jref [simp]: "json_toObject (jvalue (jref ob k) k') = json_toObject (jvalue ob k')"
  by (auto simp: jref_def jvalue_def split: option.splits)

lemma json_toInt_of_int [simp]: "int_range n \<Longrightarrow> json_toInt d (JDouble (of_int n)) = n"
  by (simp add: int_range_def)


section \<open>Lists\<close>

definition remove_at :: "nat \<Rightarrow> 'a list \<Rightarrow> 'a list" where
  "remove_at i xs = take i xs @ drop (Suc i) xs"

lemma length_remove_at [simp]: "i < length xs \<Longrightarrow> length (remove_at i xs) = length xs - 1"
  by (simp add: remove_at_def)

lemma nth_remove_at:
  assumes "i < length xs" "j < length xs - 1"
  shows "remove_at i xs ! j = (if j < i then xs ! j else xs ! Suc j)"
  using assms by (auto simp: remove_at_def nth_append min_def)

lemma map_remove_at: "map f (remove_at i xs) = remove_at i (map f xs)"
  by (simp add: remove_at_def take_map drop_map)

lemma set_remove_at_subset: "set (remove_at i xs) \<subseteq> set xs"
  unfolding remove_at_def by (auto dest: in_set_takeD in_set_dropD)

text \<open>Position of the first element that satisfies a test, the loop of the program's searches.\<close>

fun find_index :: "('a \<Rightarrow> bool) \<Rightarrow> 'a list \<Rightarrow> nat option" where
  "find_index P [] = None"
| "find_index P (x # xs) = (if P x then Some 0 else map_option Suc (find_index P xs))"

lemma all_less_Suc_conv: "(\<forall>j<Suc k. P j) \<longleftrightarrow> P 0 \<and> (\<forall>j<k. P (Suc j))"
  by (metis Suc_less_eq Suc_less_SucD less_Suc_eq_0_disj not0_implies_Suc zero_less_Suc)

lemma find_index_Some:
  "find_index P xs = Some i \<longleftrightarrow> i < length xs \<and> P (xs ! i) \<and> (\<forall>j<i. \<not> P (xs ! j))"
proof (induction xs arbitrary: i)
  case (Cons x xs)
  show ?case
  proof (cases i)
    case (Suc k)
    then show ?thesis
      using Cons.IH [of k] by (auto simp: all_less_Suc_conv)
  qed simp
qed simp

lemma find_index_None: "find_index P xs = None \<longleftrightarrow> (\<forall>x\<in>set xs. \<not> P x)"
  by (induction xs) auto



section \<open>Words\<close>

lemma unat_bound_64: "unat (a :: u64) < 2 ^ 64"
proof -
  have "unat a < 2 ^ LENGTH(64)"
    by (rule unsigned_less)
  then show ?thesis by simp
qed

lemma unat_bound_32: "unat (a :: u32) < 2 ^ 32"
proof -
  have "unat a < 2 ^ LENGTH(32)"
    by (rule unsigned_less)
  then show ?thesis by simp
qed


section \<open>Calls of the CryptoNote library\<close>

text \<open>
  A call on a library object of state 'w changes that state and returns or
  throws. The sources catch std::system_error, whose code they read, and every
  other std::exception.
\<close>

datatype wexc = SystemError int | StdException

type_synonym ('w, 'a) call = "'w \<Rightarrow> 'w \<times> (wexc + 'a)"

text \<open>Sequencing of calls: the first exception ends the sequence.\<close>

definition then_call :: "('w, 'a) call \<Rightarrow> ('a \<Rightarrow> ('w, 'b) call) \<Rightarrow> ('w, 'b) call" where
  "then_call f k w = (case f w of (w1, Inl e) \<Rightarrow> (w1, Inl e) | (w1, Inr a) \<Rightarrow> k a w1)"

primrec repeat_call :: "nat \<Rightarrow> ('w, 'a) call \<Rightarrow> ('w, unit) call" where
  "repeat_call 0 f = (\<lambda>w. (w, Inr ()))"
| "repeat_call (Suc n) f = then_call f (\<lambda>_. repeat_call n f)"

definition query_call :: "('w \<Rightarrow> wexc + 'a) \<Rightarrow> ('w, 'a) call" where
  "query_call q w = (w, q w)"

end
