(* ===== verification/ItemModel.thy ===== *)
theory ItemModel
  imports Prelude
begin

text \<open>
  The contract between an item model and the views attached to it.

  A Qt item model announces each change of its rows (begin/endInsertRows,
  begin/endRemoveRows, dataChanged, begin/endResetModel) and a view keeps its
  own row count from the announcements alone. The locale states the contract
  of a model driven by events: every event's announcements, replayed on the old
  row count, are valid and give the new one. Its client lemma extends this to
  every run of events. The models of src/src/Models are interpreted against it.
\<close>

datatype notice =
    RowsInserted nat nat
  | RowsRemoved nat nat
  | DataChanged nat nat
  | ModelReset nat
  | SignalSent string

text \<open>What a view does with an announcement; None when the announcement is invalid for it.\<close>

fun apply_note :: "notice \<Rightarrow> nat \<Rightarrow> nat option" where
  "apply_note (RowsInserted f l) n = (if f \<le> n \<and> f \<le> l then Some (n + (l - f + 1)) else None)"
| "apply_note (RowsRemoved f l) n = (if f \<le> l \<and> l < n then Some (n - (l - f + 1)) else None)"
| "apply_note (DataChanged f l) n = (if f \<le> l \<and> l < n then Some n else None)"
| "apply_note (ModelReset k) n = Some k"
| "apply_note (SignalSent g) n = Some n"

fun replay :: "notice list \<Rightarrow> nat \<Rightarrow> nat option" where
  "replay [] n = Some n"
| "replay (x # xs) n = (case apply_note x n of None \<Rightarrow> None | Some m \<Rightarrow> replay xs m)"

lemma replay_append:
  "replay (xs @ ys) n = (case replay xs n of None \<Rightarrow> None | Some m \<Rightarrow> replay ys m)"
  by (induction xs arbitrary: n) (auto split: option.splits)

fun run_events :: "('e \<Rightarrow> 's \<Rightarrow> 's \<times> notice list) \<Rightarrow> 'e list \<Rightarrow> 's \<Rightarrow> 's \<times> notice list" where
  "run_events step [] s = (s, [])"
| "run_events step (e # es) s =
     (let (t, ns) = step e s; (u, ms) = run_events step es t in (u, ns @ ms))"

fun ok_run :: "('e \<Rightarrow> 's \<Rightarrow> bool) \<Rightarrow> ('e \<Rightarrow> 's \<Rightarrow> 's \<times> notice list) \<Rightarrow> 'e list \<Rightarrow> 's \<Rightarrow> bool" where
  "ok_run ok step [] s = True"
| "ok_run ok step (e # es) s \<longleftrightarrow> ok e s \<and> ok_run ok step es (fst (step e s))"

locale item_model =
  fixes rows :: "'s \<Rightarrow> nat"
    and step :: "'e \<Rightarrow> 's \<Rightarrow> 's \<times> notice list"
    and ok :: "'e \<Rightarrow> 's \<Rightarrow> bool"
    and inv :: "'s \<Rightarrow> bool"
  assumes announced: "inv s \<Longrightarrow> ok e s \<Longrightarrow> replay (snd (step e s)) (rows s) = Some (rows (fst (step e s)))"
    and preserved: "inv s \<Longrightarrow> ok e s \<Longrightarrow> inv (fst (step e s))"
begin

lemma run_in_step:
  "inv s \<Longrightarrow> ok_run ok step es s \<Longrightarrow>
   replay (snd (run_events step es s)) (rows s) = Some (rows (fst (run_events step es s))) \<and>
   inv (fst (run_events step es s))"
proof (induction es arbitrary: s)
  case (Cons e es)
  have "replay (snd (step e s)) (rows s) = Some (rows (fst (step e s)))" "inv (fst (step e s))"
    using announced [of s e] preserved [of s e] Cons.prems by simp_all
  moreover from this Cons.prems
  have "replay (snd (run_events step es (fst (step e s)))) (rows (fst (step e s))) =
          Some (rows (fst (run_events step es (fst (step e s)))))"
    "inv (fst (run_events step es (fst (step e s))))"
    using Cons.IH [of "fst (step e s)"] by simp_all
  ultimately show ?case
    by (simp add: replay_append case_prod_beta Let_def)
qed simp

end


section \<open>Roles, alignments and cell values\<close>

datatype role =
    DisplayRole | EditRole | DecorationRole | TextAlignmentRole | SizeHintRole | ToolTipRole
  | BackgroundRole | ForegroundRole | FontRole | UserRole nat

datatype qvariant =
    QNull
  | QStr string
  | QInt int
  | QU64 u64
  | QBool bool
  | QPixmap string
  | QDate i64
  | QNullDate
  | QU32 u32
  | QReal rat
  | QBytes string
  | QTextList "string list"

abbreviation AlignLeftV :: qvariant where "AlignLeftV \<equiv> QInt 0x81"
abbreviation AlignRightV :: qvariant where "AlignRightV \<equiv> QInt 0x82"
abbreviation AlignCenterV :: qvariant where "AlignCenterV \<equiv> QInt 0x84"


section \<open>Models of one row\<close>

text \<open>
  The state models have one row, and a view of it keeps the cells it has read
  and reads a cell again only when an announced range of columns contains it.
  The contract: a cell whose value changes is announced. The client lemma: the
  view then shows the model's cells after every run of events.
\<close>

type_synonym ranges = "(nat \<times> nat) list"

definition announced_in :: "nat \<Rightarrow> ranges \<Rightarrow> bool" where
  "announced_in c rs \<longleftrightarrow> list_ex (\<lambda>r. fst r \<le> c \<and> c \<le> snd r) rs"

definition refresh :: "(nat \<Rightarrow> 'v) \<Rightarrow> ranges \<Rightarrow> (nat \<Rightarrow> 'v) \<Rightarrow> nat \<Rightarrow> 'v" where
  "refresh now rs view c = (if announced_in c rs then now c else view c)"

fun run_view :: "('s \<Rightarrow> nat \<Rightarrow> 'v) \<Rightarrow> ('e \<Rightarrow> 's \<Rightarrow> 's \<times> ranges) \<Rightarrow> 'e list \<Rightarrow> 's \<times> (nat \<Rightarrow> 'v) \<Rightarrow> 's \<times> (nat \<Rightarrow> 'v)" where
  "run_view cell step [] sv = sv"
| "run_view cell step (e # es) sv =
     (let (t, rs) = step e (fst sv) in run_view cell step es (t, refresh (cell t) rs (snd sv)))"

locale row_model =
  fixes cell :: "'s \<Rightarrow> nat \<Rightarrow> 'v"
    and step :: "'e \<Rightarrow> 's \<Rightarrow> 's \<times> ranges"
    and shown :: "nat \<Rightarrow> bool"
    and ok :: "'e \<Rightarrow> bool"
  assumes complete: "ok e \<Longrightarrow> shown c \<Longrightarrow> \<not> announced_in c (snd (step e s)) \<Longrightarrow> cell (fst (step e s)) c = cell s c"
begin

lemma view_fresh:
  "\<forall>e\<in>set es. ok e \<Longrightarrow> \<forall>c. shown c \<longrightarrow> snd sv c = cell (fst sv) c \<Longrightarrow> shown c \<Longrightarrow>
   snd (run_view cell step es sv) c = cell (fst (run_view cell step es sv)) c"
proof (induction es arbitrary: sv)
  case (Cons e es)
  obtain t rs where step: "step e (fst sv) = (t, rs)"
    by (cases "step e (fst sv)")
  have "\<forall>c. shown c \<longrightarrow> refresh (cell t) rs (snd sv) c = cell t c"
    using complete [of e _ "fst sv"] Cons.prems(1,2) by (simp add: refresh_def step)
  then show ?case
    using Cons.IH [of "(t, refresh (cell t) rs (snd sv))"] Cons.prems by (simp add: step)
qed simp

end


section \<open>Numbers\<close>

text \<open>static_cast to a 32-bit int.\<close>

definition to_int32 :: "u64 \<Rightarrow> int" where
  "to_int32 w = sint (ucast w :: 32 word)"

lemma sint32_of_nat: "n < 2 ^ 31 \<Longrightarrow> sint (of_nat n :: 32 word) = int n"
  by transfer (simp add: signed_take_bit_int_eq_self)

lemma ucast_of_nat_64_32: "(ucast (of_nat n :: 64 word) :: 32 word) = of_nat n"
  by transfer (simp add: take_bit_of_nat)

lemma to_int32_small: "n < 2 ^ 31 \<Longrightarrow> to_int32 (of_nat n) = int n"
  by (simp add: to_int32_def ucast_of_nat_64_32 sint32_of_nat)

end
