(* ===== verification/HashIndex.thy ===== *)
theory HashIndex
  imports Prelude
begin

text \<open>
  The QHash members by which a manager finds the row of an entry from its key.

  The hash interface (lookup, insert, remove) is a locale; its client lemmas
  say when an index is exact for a list of keys, that is, when looking a key
  up gives its position and nothing else, and how appending, overwriting,
  removing with renumbering, and building from scratch keep it exact. The
  locale is interpreted on the QHash operations the sources use.
\<close>

type_synonym index = "string \<Rightarrow> nat option"

definition qhash_value :: "index \<Rightarrow> string \<Rightarrow> nat \<Rightarrow> nat" where
  "qhash_value h k d = (case h k of None \<Rightarrow> d | Some i \<Rightarrow> i)"

definition qhash_insert :: "string \<Rightarrow> nat \<Rightarrow> index \<Rightarrow> index" where
  "qhash_insert k i h = h(k \<mapsto> i)"

definition qhash_remove :: "string \<Rightarrow> index \<Rightarrow> index" where
  "qhash_remove k h = h(k := None)"

definition qhash_empty :: index where
  "qhash_empty = Map.empty"

text \<open>
  An index is exact on the keys that satisfy P: such a key is found at a
  position exactly when the list holds it there. In particular no such key
  occurs twice.
\<close>

definition exact_on :: "('k \<Rightarrow> bool) \<Rightarrow> ('k \<Rightarrow> nat option) \<Rightarrow> 'k list \<Rightarrow> bool" where
  "exact_on P f xs \<longleftrightarrow> (\<forall>a. P a \<longrightarrow> (\<forall>i. f a = Some i \<longleftrightarrow> i < length xs \<and> xs ! i = a))"

lemma exact_onD: "exact_on P f xs \<Longrightarrow> P a \<Longrightarrow> f a = Some i \<longleftrightarrow> i < length xs \<and> xs ! i = a"
  by (auto simp: exact_on_def)

lemma exact_on_unique:
  "exact_on P f xs \<Longrightarrow> P (xs ! i) \<Longrightarrow> i < length xs \<Longrightarrow> j < length xs \<Longrightarrow> xs ! i = xs ! j \<Longrightarrow> i = j"
  by (metis exact_onD option.inject)

lemma exact_on_None:
  assumes "exact_on P f xs" "P a"
  shows "f a = None \<longleftrightarrow> a \<notin> set xs"
proof (cases "f a")
  case None
  then have "\<not> (i < length xs \<and> xs ! i = a)" for i
    using exact_onD [OF assms, of i] by simp
  then show ?thesis
    using None by (auto simp: in_set_conv_nth)
next
  case (Some i)
  then show ?thesis
    using exact_onD [OF assms, of i] by auto
qed

lemma exact_on_cong: "(\<And>a. P a \<Longrightarrow> f a = g a) \<Longrightarrow> exact_on P f xs = exact_on P g xs"
  by (simp add: exact_on_def)

lemma exact_on_distinct: "exact_on (\<lambda>_. True) f xs \<Longrightarrow> distinct xs"
  by (metis distinct_conv_nth exact_on_unique)

locale hash_index =
  fixes lookup :: "'h \<Rightarrow> 'k \<Rightarrow> nat option"
    and insert :: "'k \<Rightarrow> nat \<Rightarrow> 'h \<Rightarrow> 'h"
    and remove :: "'k \<Rightarrow> 'h \<Rightarrow> 'h"
    and empty :: 'h
  assumes lookup_insert: "lookup (insert k i h) = (lookup h)(k \<mapsto> i)"
    and lookup_remove: "lookup (remove k h) = (lookup h)(k := None)"
    and lookup_empty: "lookup empty = Map.empty"
begin

lemma exact_empty: "exact_on P (lookup empty) []"
  by (simp add: exact_on_def lookup_empty)

lemma exact_insert_other: "exact_on P (lookup h) xs \<Longrightarrow> \<not> P k \<Longrightarrow> exact_on P (lookup (insert k i h)) xs"
  by (auto simp: exact_on_def lookup_insert)

lemma exact_remove_other: "exact_on P (lookup h) xs \<Longrightarrow> \<not> P k \<Longrightarrow> exact_on P (lookup (remove k h)) xs"
  by (auto simp: exact_on_def lookup_remove)

lemma exact_append:
  assumes "exact_on P (lookup h) xs" "P a \<Longrightarrow> lookup h a = None"
  shows "exact_on P (lookup (insert a (length xs) h)) (xs @ [a])"
  using assms exact_on_None [OF assms(1)]
  by (auto simp: exact_on_def lookup_insert nth_append less_Suc_eq)

lemma exact_update:
  assumes ex: "exact_on P (lookup h) xs" and i: "i < length xs"
    and fresh: "\<And>j. P a \<Longrightarrow> j < length xs \<Longrightarrow> j \<noteq> i \<Longrightarrow> xs ! j \<noteq> a"
  shows "exact_on P (lookup (insert a i (remove (xs ! i) h))) (xs[i := a])"
  unfolding exact_on_def
proof (intro allI impI)
  fix b j
  assume "P b"
  show "lookup (insert a i (remove (xs ! i) h)) b = Some j \<longleftrightarrow>
        j < length (xs[i := a]) \<and> xs[i := a] ! j = b"
  proof (cases "b = a")
    case True
    then have "\<forall>j<length xs. j \<noteq> i \<longrightarrow> xs ! j \<noteq> a"
      using fresh \<open>P b\<close> by blast
    then show ?thesis
      using i True by (auto simp: lookup_insert nth_list_update)
  next
    case False
    have "xs[i := a] ! j = b \<longleftrightarrow> j \<noteq> i \<and> xs ! j = b" if "j < length xs"
      using False i that by (simp add: nth_list_update)
    moreover have "lookup h b = Some j \<longleftrightarrow> j < length xs \<and> xs ! j = b"
      using exact_onD [OF ex \<open>P b\<close>] .
    moreover have "lookup h b = Some j \<and> b \<noteq> xs ! i \<longleftrightarrow> lookup h b = Some j \<and> j \<noteq> i"
      using exact_onD [OF ex \<open>P b\<close>, of i] exact_onD [OF ex \<open>P b\<close>, of j] i by auto
    ultimately show ?thesis
      using False by (auto simp: lookup_insert lookup_remove)
  qed
qed

lemma lookup_fold_insert:
  assumes "\<And>j k. j \<in> set js \<Longrightarrow> k \<in> set js \<Longrightarrow> g j = a \<Longrightarrow> g k = a \<Longrightarrow> j = k"
  shows "lookup (fold (\<lambda>j h. insert (g j) j h) js h) a = Some i \<longleftrightarrow>
         i \<in> set js \<and> g i = a \<or> (\<forall>j\<in>set js. g j \<noteq> a) \<and> lookup h a = Some i"
  using assms
proof (induction js arbitrary: h)
  case (Cons j js)
  have "lookup (fold (\<lambda>j h. insert (g j) j h) js (insert (g j) j h)) a = Some i \<longleftrightarrow>
        i \<in> set js \<and> g i = a \<or> (\<forall>k\<in>set js. g k \<noteq> a) \<and> lookup (insert (g j) j h) a = Some i"
    by (rule Cons.IH) (auto intro: Cons.prems)
  then show ?case
    using Cons.prems by (auto simp: lookup_insert)
qed simp

lemma exact_build:
  assumes "\<And>j k. P (xs ! j) \<Longrightarrow> j < length xs \<Longrightarrow> k < length xs \<Longrightarrow> xs ! j = xs ! k \<Longrightarrow> j = k"
    and "\<And>a. P a \<Longrightarrow> lookup h a = None"
  shows "exact_on P (lookup (fold (\<lambda>j h. insert (xs ! j) j h) [0..<length xs] h)) xs"
  unfolding exact_on_def
proof (intro allI impI)
  fix a i
  assume a: "P a"
  have "lookup (fold (\<lambda>j h. insert (xs ! j) j h) [0..<length xs] h) a = Some i \<longleftrightarrow>
        i \<in> set [0..<length xs] \<and> xs ! i = a \<or>
        (\<forall>j\<in>set [0..<length xs]. xs ! j \<noteq> a) \<and> lookup h a = Some i"
    by (rule lookup_fold_insert) (use a assms(1) in auto)
  then show "lookup (fold (\<lambda>j h. insert (xs ! j) j h) [0..<length xs] h) a = Some i \<longleftrightarrow>
             i < length xs \<and> xs ! i = a"
    using assms(2) [OF a] by auto
qed

lemma exact_remove_at:
  assumes ex: "exact_on P (lookup h) xs" and i: "i < length xs"
  defines "ys \<equiv> remove_at i xs"
  shows "exact_on P (lookup (fold (\<lambda>j h. insert (ys ! j) j h) [i..<length ys] (remove (xs ! i) h))) ys"
  unfolding exact_on_def
proof (intro allI impI)
  fix a k
  assume a: "P a"
  have len: "length ys = length xs - 1"
    using i by (simp add: ys_def)
  have ys: "ys ! j = (if j < i then xs ! j else xs ! Suc j)" if "j < length ys" for j
    using that i nth_remove_at [of i xs j] by (simp add: ys_def)
  have uniq: "j = l" if "j < length xs" "l < length xs" "xs ! j = a" "xs ! l = a" for j l
    using that a exact_on_unique [OF ex, of j l] by simp
  have "lookup (fold (\<lambda>j h. insert (ys ! j) j h) [i..<length ys] (remove (xs ! i) h)) a = Some k \<longleftrightarrow>
        k \<in> set [i..<length ys] \<and> ys ! k = a \<or>
        (\<forall>j\<in>set [i..<length ys]. ys ! j \<noteq> a) \<and> lookup (remove (xs ! i) h) a = Some k"
  proof (rule lookup_fold_insert)
    fix j l
    assume "j \<in> set [i..<length ys]" "l \<in> set [i..<length ys]" "ys ! j = a" "ys ! l = a"
    then have "Suc j = Suc l"
      using ys len by (intro uniq) auto
    then show "j = l" by simp
  qed
  moreover have "lookup (remove (xs ! i) h) a = Some k \<longleftrightarrow> k < length xs \<and> xs ! k = a \<and> k \<noteq> i"
    using exact_onD [OF ex a, of k] uniq i by (auto simp: lookup_remove)
  moreover have "k < length xs \<and> xs ! k = a \<and> k \<noteq> i \<and> (\<forall>j\<in>set [i..<length ys]. ys ! j \<noteq> a) \<longleftrightarrow>
                 k < length ys \<and> ys ! k = a \<and> k < i" (is "?L \<longleftrightarrow> ?R")
  proof
    assume L: ?L
    have "k < i"
    proof (rule ccontr)
      assume "\<not> k < i"
      then have "k - 1 \<in> set [i..<length ys]" "ys ! (k - 1) = a"
        using L len ys [of "k - 1"] by auto
      then show False using L by blast
    qed
    then show ?R using L i len ys [of k] by auto
  next
    assume R: ?R
    then have k: "k < length xs" "xs ! k = a" "k < i"
      using i ys [of k] len by auto
    moreover have "ys ! j \<noteq> a" if "j \<in> set [i..<length ys]" for j
      using that k ys [of j] len uniq [of "Suc j" k] by fastforce
    ultimately show ?L by auto
  qed
  ultimately show "lookup (fold (\<lambda>j h. insert (ys ! j) j h) [i..<length ys] (remove (xs ! i) h)) a = Some k
                   \<longleftrightarrow> k < length ys \<and> ys ! k = a"
    by auto
qed

end

interpretation qh: hash_index "\<lambda>h. h" qhash_insert qhash_remove qhash_empty
  by unfold_locales (simp_all add: qhash_insert_def qhash_remove_def qhash_empty_def)

end
