(* ===== verification/AddressBook.thy ===== *)
theory AddressBook
  imports HashIndex Transition
begin

text \<open>
  AddressBookManager (src/src/Application/AddressBookManager.cpp): the address
  book, the donation settings and the labels of the wallet's own addresses, all
  kept in one JSON object that is stored compressed as the wallet's user data.

  The state is the object, the three hashes that find a row from a key, what
  the wallet adapter holds as user data, and the signals emitted so far. Text
  codec and compression (qCompress, qUncompress, QJsonDocument) are library
  code and come in as a record of functions. A failed Q_ASSERT is None.

  Lemma groups: what each reader of the state sees after each writer; the
  label index is exact and every operation keeps it so; the address index is
  exact on the keys that are addresses; what is stored is what is reloaded.
\<close>

section \<open>Data\<close>

definition INVALID_ADDRESS_INDEX :: nat where
  "INVALID_ADDRESS_INDEX = 2 ^ 64 - 1"

definition T_ADDRESS_BOOK :: string where "T_ADDRESS_BOOK = ''addressBook''"
definition T_LABEL :: string where "T_LABEL = ''label''"
definition T_ADDRESS :: string where "T_ADDRESS = ''address''"
definition T_ITEM_DONATION :: string where "T_ITEM_DONATION = ''donation''"
definition T_PAYMENT_ID :: string where "T_PAYMENT_ID = ''paymentId''"
definition T_DONATION :: string where "T_DONATION = ''donation''"
definition T_CHANGE :: string where "T_CHANGE = ''change''"
definition T_CHANGE_ADDRESS :: string where "T_CHANGE_ADDRESS = ''address''"
definition T_CHANGE_ENABLED :: string where "T_CHANGE_ENABLED = ''enabled''"
definition T_CHANGE_AMOUNT :: string where "T_CHANGE_AMOUNT = ''amount''"
definition T_OWN_LABELS :: string where "T_OWN_LABELS = ''ownAddressLabels''"

lemmas tag_defs = T_ADDRESS_BOOK_def T_LABEL_def T_ADDRESS_def T_ITEM_DONATION_def T_PAYMENT_ID_def
  T_DONATION_def T_CHANGE_def T_CHANGE_ADDRESS_def T_CHANGE_ENABLED_def T_CHANGE_AMOUNT_def
  T_OWN_LABELS_def

record address_item =
  ai_label :: string
  ai_address :: string
  ai_paymentid :: string
  ai_isDonation :: bool

datatype ab_signal =
    AddressAdded nat
  | AddressEdited nat
  | AddressRemoved nat
  | BookOpened
  | BookClosed
  | DonationOpened
  | DonationClosed
  | DonationChangeEnabled bool
  | DonationChangeAddress string
  | DonationChangeAmount int
  | OwnLabelChanged string string

record codec =
  qCompress :: "string \<Rightarrow> string"
  qUncompress :: "string \<Rightarrow> string"
  toJson :: "jobject \<Rightarrow> string"
  fromJson :: "string \<Rightarrow> json option"

record ab_state =
  ab_object :: jobject
  ab_addressIndexes :: index
  ab_paymentIdIndexes :: index
  ab_labelIndexes :: index
  ab_userData :: string
  ab_signals :: "ab_signal list"

definition ab_init :: "string \<Rightarrow> ab_state" where
  "ab_init ud = \<lparr>ab_object = Map.empty, ab_addressIndexes = qhash_empty,
     ab_paymentIdIndexes = qhash_empty, ab_labelIndexes = qhash_empty,
     ab_userData = ud, ab_signals = []\<rparr>"

definition emit :: "ab_signal \<Rightarrow> ab_state \<Rightarrow> ab_state" where
  "emit sg s = s\<lparr>ab_signals := ab_signals s @ [sg]\<rparr>"

definition addressArray :: "ab_state \<Rightarrow> json list" where
  "addressArray s = json_toArray (jvalue (ab_object s) T_ADDRESS_BOOK)"

definition item_label :: "json \<Rightarrow> string" where
  "item_label v = json_toString (jvalue (json_toObject v) T_LABEL)"

definition item_address :: "json \<Rightarrow> string" where
  "item_address v = json_toString (jvalue (json_toObject v) T_ADDRESS)"

definition item_paymentid :: "json \<Rightarrow> string" where
  "item_paymentid v = json_toString (jvalue (json_toObject v) T_PAYMENT_ID)"

definition item_donation :: "json \<Rightarrow> bool" where
  "item_donation v = json_toBool False (jvalue (json_toObject v) T_ITEM_DONATION)"


section \<open>Readers\<close>

definition getAddressCount :: "ab_state \<Rightarrow> nat" where
  "getAddressCount s = length (addressArray s)"

definition getAddress :: "ab_state \<Rightarrow> nat \<Rightarrow> address_item option" where
  "getAddress s i =
     (if i < length (addressArray s) then
        let v = addressArray s ! i in
        Some \<lparr>ai_label = item_label v, ai_address = item_address v,
              ai_paymentid = item_paymentid v, ai_isDonation = item_donation v\<rparr>
      else None)"

definition findAddressByAddress :: "ab_state \<Rightarrow> string \<Rightarrow> nat" where
  "findAddressByAddress s a = qhash_value (ab_addressIndexes s) a INVALID_ADDRESS_INDEX"

definition findAddressByLabel :: "ab_state \<Rightarrow> string \<Rightarrow> nat" where
  "findAddressByLabel s l = qhash_value (ab_labelIndexes s) l INVALID_ADDRESS_INDEX"

definition findAddressByPaymentId :: "ab_state \<Rightarrow> string \<Rightarrow> nat" where
  "findAddressByPaymentId s p = qhash_value (ab_paymentIdIndexes s) p INVALID_ADDRESS_INDEX"

definition find_or_invalid :: "nat option \<Rightarrow> nat" where
  "find_or_invalid r = (case r of None \<Rightarrow> INVALID_ADDRESS_INDEX | Some i \<Rightarrow> i)"

definition findAddress :: "ab_state \<Rightarrow> string \<Rightarrow> string \<Rightarrow> string \<Rightarrow> nat" where
  "findAddress s l a p = find_or_invalid (find_index
     (\<lambda>v. item_label v = l \<and> item_address v = a \<and> item_paymentid v = p) (addressArray s))"

definition findAddressDonation :: "ab_state \<Rightarrow> string \<Rightarrow> string \<Rightarrow> bool \<Rightarrow> nat" where
  "findAddressDonation s l a d = find_or_invalid (find_index
     (\<lambda>v. item_label v = l \<and> item_address v = a \<and> item_donation v = d) (addressArray s))"


section \<open>Storing\<close>

definition saveAddressBook :: "codec \<Rightarrow> ab_state \<Rightarrow> ab_state" where
  "saveAddressBook c s = s\<lparr>ab_userData := qCompress c (toJson c (ab_object s))\<rparr>"


section \<open>Donation settings\<close>

definition donationObject :: "ab_state \<Rightarrow> jobject" where
  "donationObject s = json_toObject (jvalue (ab_object s) T_DONATION)"

definition changeObject :: "ab_state \<Rightarrow> jobject" where
  "changeObject s = json_toObject (jvalue (donationObject s) T_CHANGE)"

definition isDonationChangeEnabled :: "ab_state \<Rightarrow> bool" where
  "isDonationChangeEnabled s = json_toBool False (jvalue (changeObject s) T_CHANGE_ENABLED)"

definition getDonationChangeAddress :: "ab_state \<Rightarrow> string" where
  "getDonationChangeAddress s = json_toString (jvalue (changeObject s) T_CHANGE_ADDRESS)"

definition getDonationChangeAmount :: "ab_state \<Rightarrow> int" where
  "getDonationChangeAmount s = json_toInt 10 (jvalue (changeObject s) T_CHANGE_AMOUNT)"

definition put_change :: "string \<Rightarrow> json \<Rightarrow> ab_state \<Rightarrow> ab_state" where
  "put_change k v s =
     s\<lparr>ab_object := (ab_object s)(T_DONATION \<mapsto>
        JObject ((donationObject s)(T_CHANGE \<mapsto> JObject ((changeObject s)(k \<mapsto> v)))))\<rparr>"

definition setDonationChangeEnabled :: "codec \<Rightarrow> bool \<Rightarrow> ab_state \<Rightarrow> ab_state" where
  "setDonationChangeEnabled c on s =
     (if json_toBool False (jvalue (changeObject s) T_CHANGE_ENABLED) \<noteq> on then
        emit (DonationChangeEnabled on) (saveAddressBook c (put_change T_CHANGE_ENABLED (JBool on) s))
      else s)"

definition setDonationChangeAddress :: "codec \<Rightarrow> string \<Rightarrow> ab_state \<Rightarrow> ab_state" where
  "setDonationChangeAddress c a s =
     (if json_toString (jvalue (changeObject s) T_CHANGE_ADDRESS) \<noteq> a then
        emit (DonationChangeAddress a) (saveAddressBook c (put_change T_CHANGE_ADDRESS (JString a) s))
      else s)"

definition setDonationChangeAmount :: "codec \<Rightarrow> int \<Rightarrow> ab_state \<Rightarrow> ab_state" where
  "setDonationChangeAmount c n s =
     (if json_toInt 1 (jvalue (changeObject s) T_CHANGE_AMOUNT) \<noteq> n then
        emit (DonationChangeAmount n)
          (saveAddressBook c (put_change T_CHANGE_AMOUNT (JDouble (of_int n)) s))
      else s)"


section \<open>Address book\<close>

definition put_array :: "json list \<Rightarrow> ab_state \<Rightarrow> ab_state" where
  "put_array xs s = s\<lparr>ab_object := (ab_object s)(T_ADDRESS_BOOK \<mapsto> JArray xs)\<rparr>"

definition put_item :: "jobject \<Rightarrow> string \<Rightarrow> string \<Rightarrow> string \<Rightarrow> bool \<Rightarrow> json" where
  "put_item ob l a p d =
     JObject (ob(T_LABEL \<mapsto> JString l, T_ADDRESS \<mapsto> JString a,
                 T_PAYMENT_ID \<mapsto> JString p, T_ITEM_DONATION \<mapsto> JBool d))"

definition addAddress :: "codec \<Rightarrow> string \<Rightarrow> string \<Rightarrow> string \<Rightarrow> bool \<Rightarrow> ab_state \<Rightarrow> ab_state" where
  "addAddress c l a p d s =
     (if findAddressByLabel s (trimmed l) \<noteq> INVALID_ADDRESS_INDEX then s
      else if findAddressByAddress s (trimmed a) \<noteq> INVALID_ADDRESS_INDEX then s
      else
        let arr = addressArray s @ [put_item Map.empty l a p d];
            n = length arr - 1;
            s1 = put_array arr s;
            s2 = s1\<lparr>ab_addressIndexes := qhash_insert a n (ab_addressIndexes s1),
                    ab_paymentIdIndexes := qhash_insert p n (ab_paymentIdIndexes s1),
                    ab_labelIndexes := qhash_insert l n (ab_labelIndexes s1)\<rparr>
        in emit (AddressAdded n) (saveAddressBook c s2))"

definition editAddress ::
  "codec \<Rightarrow> nat \<Rightarrow> string \<Rightarrow> string \<Rightarrow> string \<Rightarrow> bool \<Rightarrow> ab_state \<Rightarrow> ab_state option" where
  "editAddress c i l a p d s =
     (if i < length (addressArray s) then
        let arr = addressArray s;
            v = arr ! i;
            s1 = (if getDonationChangeAddress s = item_address v \<and> (\<not> d \<or> item_address v \<noteq> a)
                  then setDonationChangeAddress c [] (setDonationChangeEnabled c False s) else s);
            s2 = put_array (arr[i := put_item (json_toObject v) l a p d]) s1;
            s3 = s2\<lparr>ab_addressIndexes := qhash_insert a i (qhash_remove (item_address v) (ab_addressIndexes s2)),
                    ab_paymentIdIndexes := qhash_insert p i (qhash_remove (item_paymentid v) (ab_paymentIdIndexes s2)),
                    ab_labelIndexes := qhash_insert l i (qhash_remove (item_label v) (ab_labelIndexes s2))\<rparr>
        in Some (emit (AddressEdited i) (saveAddressBook c s3))
      else None)"

text \<open>
  removeAddress enters the payment ids of the moved rows into the address
  index, as the source does (the payment id index is left alone).
\<close>

definition renumber :: "json list \<Rightarrow> nat \<Rightarrow> index \<times> index \<Rightarrow> index \<times> index" where
  "renumber arr j ix =
     (qhash_insert (item_paymentid (arr ! j)) j (qhash_insert (item_address (arr ! j)) j (fst ix)),
      qhash_insert (item_label (arr ! j)) j (snd ix))"

definition removeAddress :: "codec \<Rightarrow> nat \<Rightarrow> ab_state \<Rightarrow> ab_state option" where
  "removeAddress c i s =
     (if i < length (addressArray s) then
        let v = addressArray s ! i;
            s1 = (if getDonationChangeAddress s = item_address v
                  then setDonationChangeAddress c [] (setDonationChangeEnabled c False s) else s);
            arr = remove_at i (addressArray s);
            ai = qhash_remove (item_paymentid v) (qhash_remove (item_address v) (ab_addressIndexes s1));
            li = qhash_remove (item_label v) (ab_labelIndexes s1);
            ix = fold (renumber arr) [i..<length arr] (ai, li);
            s2 = put_array arr (s1\<lparr>ab_addressIndexes := fst ix, ab_labelIndexes := snd ix\<rparr>)
        in Some (emit (AddressRemoved i) (saveAddressBook c s2))
      else None)"


section \<open>Labels of the wallet's own addresses\<close>

definition ownLabels :: "ab_state \<Rightarrow> jobject" where
  "ownLabels s = json_toObject (jvalue (ab_object s) T_OWN_LABELS)"

definition getOwnAddressLabel :: "ab_state \<Rightarrow> string \<Rightarrow> string" where
  "getOwnAddressLabel s a = json_toString (jvalue (ownLabels s) a)"

definition setOwnAddressLabel :: "codec \<Rightarrow> string \<Rightarrow> string \<Rightarrow> ab_state \<Rightarrow> ab_state" where
  "setOwnAddressLabel c a l s =
     (if json_toString (jvalue (ownLabels s) a) = l then s
      else
        let labels = (if l = [] then (ownLabels s)(a := None) else (ownLabels s)(a \<mapsto> JString l))
        in emit (OwnLabelChanged a l)
             (saveAddressBook c (s\<lparr>ab_object := (ab_object s)(T_OWN_LABELS \<mapsto> JObject labels)\<rparr>)))"


section \<open>Opening and closing the wallet\<close>

text \<open>The non-const operator[] in buildIndexes leaves a null under a missing key.\<close>

definition index_row :: "json list \<Rightarrow> nat \<Rightarrow> ab_state \<Rightarrow> ab_state" where
  "index_row arr i s =
     s\<lparr>ab_addressIndexes := qhash_insert (item_address (arr ! i)) i (ab_addressIndexes s),
       ab_labelIndexes := qhash_insert (item_label (arr ! i)) i (ab_labelIndexes s)\<rparr>"

definition buildIndexes :: "ab_state \<Rightarrow> ab_state" where
  "buildIndexes s =
     (let arr = addressArray s
      in fold (index_row arr) [0..<length arr] (s\<lparr>ab_object := jref (ab_object s) T_ADDRESS_BOOK\<rparr>))"

text \<open>
  The bytes to read come from the wallet, or from the legacy file (None when it
  cannot be opened), with the flag that says the book has to be stored again.
\<close>

definition openedBytes :: "string \<Rightarrow> string option \<Rightarrow> string \<times> bool" where
  "openedBytes ud legacy =
     (if ud = [] then (case legacy of Some b \<Rightarrow> (b, True) | None \<Rightarrow> (ud, False)) else (ud, False))"

definition parseBytes :: "codec \<Rightarrow> string \<Rightarrow> bool \<Rightarrow> json option \<times> bool" where
  "parseBytes c b over =
     (case fromJson c (qUncompress c b) of
        Some doc \<Rightarrow> (Some doc, over)
      | None \<Rightarrow> (case fromJson c b of Some doc \<Rightarrow> (Some doc, True) | None \<Rightarrow> (None, over)))"

definition loadDocument :: "codec \<Rightarrow> json \<Rightarrow> bool \<Rightarrow> ab_state \<Rightarrow> ab_state" where
  "loadDocument c doc over s =
     (case doc of
        JArray xs \<Rightarrow> saveAddressBook c (put_array xs s)
      | _ \<Rightarrow> (let s1 = s\<lparr>ab_object := json_toObject doc\<rparr> in if over then saveAddressBook c s1 else s1))"

definition walletOpened :: "codec \<Rightarrow> string option \<Rightarrow> ab_state \<Rightarrow> ab_state" where
  "walletOpened c legacy s =
     (let (b, over) = openedBytes (ab_userData s) legacy;
          s1 = (if b = [] then s
                else case parseBytes c b over of
                       (Some doc, over') \<Rightarrow> loadDocument c doc over' s
                     | (None, _) \<Rightarrow> s)
      in emit DonationOpened (emit BookOpened (buildIndexes s1)))"

definition walletClosed :: "ab_state \<Rightarrow> ab_state" where
  "walletClosed s =
     emit DonationClosed (emit BookClosed
       (s\<lparr>ab_addressIndexes := qhash_empty, ab_labelIndexes := qhash_empty, ab_object := Map.empty\<rparr>))"

lemmas ab_reader_defs = getAddressCount_def getAddress_def findAddressByAddress_def
  findAddressByLabel_def findAddressByPaymentId_def addressArray_def item_label_def
  item_address_def item_paymentid_def item_donation_def

lemmas donation_defs = donationObject_def changeObject_def isDonationChangeEnabled_def
  getDonationChangeAddress_def getDonationChangeAmount_def put_change_def
  setDonationChangeEnabled_def setDonationChangeAddress_def setDonationChangeAmount_def


section \<open>What the readers see after the writers\<close>

lemma tags_distinct [simp]:
  "T_ADDRESS_BOOK \<noteq> T_DONATION" "T_DONATION \<noteq> T_ADDRESS_BOOK"
  "T_ADDRESS_BOOK \<noteq> T_OWN_LABELS" "T_OWN_LABELS \<noteq> T_ADDRESS_BOOK"
  "T_OWN_LABELS \<noteq> T_DONATION" "T_DONATION \<noteq> T_OWN_LABELS"
  "T_LABEL \<noteq> T_ADDRESS" "T_ADDRESS \<noteq> T_LABEL"
  "T_LABEL \<noteq> T_PAYMENT_ID" "T_PAYMENT_ID \<noteq> T_LABEL"
  "T_LABEL \<noteq> T_ITEM_DONATION" "T_ITEM_DONATION \<noteq> T_LABEL"
  "T_ADDRESS \<noteq> T_PAYMENT_ID" "T_PAYMENT_ID \<noteq> T_ADDRESS"
  "T_ADDRESS \<noteq> T_ITEM_DONATION" "T_ITEM_DONATION \<noteq> T_ADDRESS"
  "T_PAYMENT_ID \<noteq> T_ITEM_DONATION" "T_ITEM_DONATION \<noteq> T_PAYMENT_ID"
  "T_CHANGE_ADDRESS \<noteq> T_CHANGE_ENABLED" "T_CHANGE_ENABLED \<noteq> T_CHANGE_ADDRESS"
  "T_CHANGE_ADDRESS \<noteq> T_CHANGE_AMOUNT" "T_CHANGE_AMOUNT \<noteq> T_CHANGE_ADDRESS"
  "T_CHANGE_ENABLED \<noteq> T_CHANGE_AMOUNT" "T_CHANGE_AMOUNT \<noteq> T_CHANGE_ENABLED"
  by (simp_all add: tag_defs)

lemma emit_simps [simp]:
  "ab_object (emit g s) = ab_object s" "ab_addressIndexes (emit g s) = ab_addressIndexes s"
  "ab_paymentIdIndexes (emit g s) = ab_paymentIdIndexes s"
  "ab_labelIndexes (emit g s) = ab_labelIndexes s" "ab_userData (emit g s) = ab_userData s"
  "ab_signals (emit g s) = ab_signals s @ [g]" "addressArray (emit g s) = addressArray s"
  by (simp_all add: emit_def addressArray_def)

lemma save_simps [simp]:
  "ab_object (saveAddressBook c s) = ab_object s"
  "ab_addressIndexes (saveAddressBook c s) = ab_addressIndexes s"
  "ab_paymentIdIndexes (saveAddressBook c s) = ab_paymentIdIndexes s"
  "ab_labelIndexes (saveAddressBook c s) = ab_labelIndexes s"
  "ab_userData (saveAddressBook c s) = qCompress c (toJson c (ab_object s))"
  "ab_signals (saveAddressBook c s) = ab_signals s"
  "addressArray (saveAddressBook c s) = addressArray s"
  by (simp_all add: saveAddressBook_def addressArray_def)

lemma put_array_simps [simp]:
  "ab_addressIndexes (put_array xs s) = ab_addressIndexes s"
  "ab_paymentIdIndexes (put_array xs s) = ab_paymentIdIndexes s"
  "ab_labelIndexes (put_array xs s) = ab_labelIndexes s"
  "ab_signals (put_array xs s) = ab_signals s"
  "addressArray (put_array xs s) = xs"
  "changeObject (put_array xs s) = changeObject s"
  "ownLabels (put_array xs s) = ownLabels s"
  by (simp_all add: put_array_def addressArray_def changeObject_def donationObject_def ownLabels_def)

lemma index_upd_simps [simp]:
  "addressArray (s\<lparr>ab_addressIndexes := ai\<rparr>) = addressArray s"
  "addressArray (s\<lparr>ab_paymentIdIndexes := px\<rparr>) = addressArray s"
  "addressArray (s\<lparr>ab_labelIndexes := li\<rparr>) = addressArray s"
  by (simp_all add: addressArray_def)

lemma put_change_simps [simp]:
  "ab_addressIndexes (put_change k v s) = ab_addressIndexes s"
  "ab_paymentIdIndexes (put_change k v s) = ab_paymentIdIndexes s"
  "ab_labelIndexes (put_change k v s) = ab_labelIndexes s"
  "addressArray (put_change k v s) = addressArray s"
  "changeObject (put_change k v s) = (changeObject s)(k \<mapsto> v)"
  "ownLabels (put_change k v s) = ownLabels s"
  by (simp_all add: put_change_def addressArray_def changeObject_def donationObject_def ownLabels_def)

lemma change_other [simp]:
  "changeObject (emit g s) = changeObject s"
  "changeObject (saveAddressBook c s) = changeObject s"
  "changeObject (s\<lparr>ab_addressIndexes := ai\<rparr>) = changeObject s"
  "changeObject (s\<lparr>ab_paymentIdIndexes := px\<rparr>) = changeObject s"
  "changeObject (s\<lparr>ab_labelIndexes := li\<rparr>) = changeObject s"
  by (simp_all add: changeObject_def donationObject_def emit_def saveAddressBook_def)

lemma donation_keeps_book [simp]:
  "addressArray (setDonationChangeEnabled c on s) = addressArray s"
  "ab_addressIndexes (setDonationChangeEnabled c on s) = ab_addressIndexes s"
  "ab_paymentIdIndexes (setDonationChangeEnabled c on s) = ab_paymentIdIndexes s"
  "ab_labelIndexes (setDonationChangeEnabled c on s) = ab_labelIndexes s"
  "addressArray (setDonationChangeAddress c a s) = addressArray s"
  "ab_addressIndexes (setDonationChangeAddress c a s) = ab_addressIndexes s"
  "ab_paymentIdIndexes (setDonationChangeAddress c a s) = ab_paymentIdIndexes s"
  "ab_labelIndexes (setDonationChangeAddress c a s) = ab_labelIndexes s"
  "addressArray (setDonationChangeAmount c n s) = addressArray s"
  "ab_addressIndexes (setDonationChangeAmount c n s) = ab_addressIndexes s"
  "ab_labelIndexes (setDonationChangeAmount c n s) = ab_labelIndexes s"
  by (simp_all add: setDonationChangeEnabled_def setDonationChangeAddress_def setDonationChangeAmount_def)

lemma put_item_simps [simp]:
  "item_label (put_item ob l a p d) = l" "item_address (put_item ob l a p d) = a"
  "item_paymentid (put_item ob l a p d) = p" "item_donation (put_item ob l a p d) = d"
  by (simp_all add: put_item_def item_label_def item_address_def item_paymentid_def item_donation_def)


section \<open>The indexes are exact\<close>

definition good_book :: "(string \<Rightarrow> bool) \<Rightarrow> json list \<Rightarrow> bool" where
  "good_book P arr \<longleftrightarrow>
     distinct (map item_label arr) \<and> distinct (map item_address arr) \<and>
     (\<forall>v\<in>set arr. P (item_address v) \<and> \<not> P (item_paymentid v)) \<and> length arr < 2 ^ 31"

definition book_inv :: "(string \<Rightarrow> bool) \<Rightarrow> ab_state \<Rightarrow> bool" where
  "book_inv P s \<longleftrightarrow>
     good_book P (addressArray s) \<and>
     exact_on (\<lambda>_. True) (ab_labelIndexes s) (map item_label (addressArray s)) \<and>
     exact_on P (ab_addressIndexes s) (map item_address (addressArray s))"

text \<open>One call on the manager, with what its callers check before they make it.\<close>

definition fresh_for :: "(json \<Rightarrow> string) \<Rightarrow> json list \<Rightarrow> nat \<Rightarrow> string \<Rightarrow> bool" where
  "fresh_for f arr i k \<longleftrightarrow> (\<forall>j<length arr. j \<noteq> i \<longrightarrow> f (arr ! j) \<noteq> k)"

inductive ab_step :: "codec \<Rightarrow> (string \<Rightarrow> bool) \<Rightarrow> ab_state \<Rightarrow> ab_state \<Rightarrow> bool" for c P where
  st_add: "is_trimmed l \<Longrightarrow> is_trimmed a \<Longrightarrow> P a \<Longrightarrow> \<not> P p \<Longrightarrow> length (addressArray s) < 2 ^ 31 - 1 \<Longrightarrow>
    ab_step c P s (addAddress c l a p d s)"
| st_edit: "P a \<Longrightarrow> \<not> P p \<Longrightarrow> fresh_for item_label (addressArray s) i l \<Longrightarrow>
    fresh_for item_address (addressArray s) i a \<Longrightarrow> editAddress c i l a p d s = Some t \<Longrightarrow> ab_step c P s t"
| st_remove: "removeAddress c i s = Some t \<Longrightarrow> ab_step c P s t"
| st_own: "ab_step c P s (setOwnAddressLabel c a l s)"
| st_enable: "ab_step c P s (setDonationChangeEnabled c on s)"
| st_daddr: "ab_step c P s (setDonationChangeAddress c a s)"
| st_damount: "ab_step c P s (setDonationChangeAmount c n s)"
| st_open: "ab_labelIndexes s = qhash_empty \<Longrightarrow> ab_addressIndexes s = qhash_empty \<Longrightarrow>
    good_book P (addressArray (walletOpened c legacy s)) \<Longrightarrow> ab_step c P s (walletOpened c legacy s)"
| st_close: "ab_step c P s (walletClosed s)"

inductive_cases ab_stepE: "ab_step c P s t"

definition ab_start :: "ab_state \<Rightarrow> bool" where
  "ab_start s \<longleftrightarrow> (\<exists>ud. s = ab_init ud)"

lemma book_inv_cong:
  "book_inv P s \<Longrightarrow> addressArray t = addressArray s \<Longrightarrow> ab_labelIndexes t = ab_labelIndexes s \<Longrightarrow>
   ab_addressIndexes t = ab_addressIndexes s \<Longrightarrow> book_inv P t"
  by (simp add: book_inv_def)

lemma book_inv_small: "book_inv P s \<Longrightarrow> length (addressArray s) < INVALID_ADDRESS_INDEX"
  by (simp add: book_inv_def good_book_def INVALID_ADDRESS_INDEX_def)

lemma exact_value_invalid:
  assumes ex: "exact_on P h xs" and a: "P a" and small: "length xs < d"
  shows "qhash_value h a d = d \<longleftrightarrow> h a = None"
proof (cases "h a")
  case (Some i)
  then have "i < length xs"
    using exact_onD [OF ex a] by blast
  then show ?thesis
    using Some small by (simp add: qhash_value_def)
qed (simp add: qhash_value_def)

lemma distinct_snoc_conv: "distinct (xs @ [x]) \<longleftrightarrow> distinct xs \<and> x \<notin> set xs"
  by auto

lemma book_inv_add [inv_intros]:
  assumes inv: "book_inv P s" and tr: "is_trimmed l" "is_trimmed a" and P: "P a" "\<not> P p"
    and len: "length (addressArray s) < 2 ^ 31 - 1"
  shows "book_inv P (addAddress c l a p d s)"
proof (cases "findAddressByLabel s l \<noteq> INVALID_ADDRESS_INDEX \<or> findAddressByAddress s a \<noteq> INVALID_ADDRESS_INDEX")
  case True
  then show ?thesis
    using inv tr by (auto simp: addAddress_def is_trimmed_def)
next
  case False
  let ?L = "map item_label (addressArray s)" and ?A = "map item_address (addressArray s)"
  have exl: "exact_on (\<lambda>_. True) (ab_labelIndexes s) ?L" and exa: "exact_on P (ab_addressIndexes s) ?A"
    using inv by (auto simp: book_inv_def)
  have l: "ab_labelIndexes s l = None" and a: "ab_addressIndexes s a = None"
    using False exact_value_invalid [OF exl, where a = l and d = INVALID_ADDRESS_INDEX]
      exact_value_invalid [OF exa P(1), where d = INVALID_ADDRESS_INDEX] book_inv_small [OF inv]
    by (auto simp: findAddressByLabel_def findAddressByAddress_def)
  have "l \<notin> set ?L" "a \<notin> set ?A"
    using l a exact_on_None [OF exl, where a = l] exact_on_None [OF exa P(1)] by simp_all
  then have "good_book P (addressArray s @ [put_item Map.empty l a p d])"
    using inv P len by (auto simp: book_inv_def good_book_def)
  moreover have "exact_on (\<lambda>_. True) (qhash_insert l (length ?L) (ab_labelIndexes s)) (?L @ [l])"
    using exl l by (rule qh.exact_append)
  moreover have "exact_on P (qhash_insert a (length ?A) (ab_addressIndexes s)) (?A @ [a])"
    using exa a by (rule qh.exact_append)
  ultimately show ?thesis
    using False tr by (simp add: book_inv_def addAddress_def Let_def is_trimmed_def)
qed

lemma distinct_update:
  assumes "distinct (map f xs)" "i < length xs" "\<And>j. j < length xs \<Longrightarrow> j \<noteq> i \<Longrightarrow> f (xs ! j) \<noteq> f x"
  shows "distinct (map f (xs[i := x]))"
  using assms by (fastforce simp: distinct_conv_nth nth_list_update)

lemma book_inv_edit [inv_intros]:
  assumes inv: "book_inv P s" and P: "P a" "\<not> P p"
    and fresh: "fresh_for item_label (addressArray s) i l" "fresh_for item_address (addressArray s) i a"
    and t: "editAddress c i l a p d s = Some t"
  shows "book_inv P t"
proof -
  let ?arr = "addressArray s"
  let ?L = "map item_label ?arr" and ?A = "map item_address ?arr"
  let ?v = "put_item (json_toObject (?arr ! i)) l a p d"
  have i: "i < length ?arr"
    using t by (auto simp: editAddress_def split: if_splits)
  have exl: "exact_on (\<lambda>_. True) (ab_labelIndexes s) ?L" and exa: "exact_on P (ab_addressIndexes s) ?A"
    and good: "good_book P ?arr"
    using inv by (auto simp: book_inv_def)
  have "good_book P (?arr[i := ?v])"
    using good i P fresh unfolding good_book_def
    by (auto intro!: distinct_update simp: fresh_for_def dest!: set_update_subset_insert [THEN subsetD])
  moreover have "exact_on (\<lambda>_. True) (qhash_insert l i (qhash_remove (?L ! i) (ab_labelIndexes s))) (?L[i := l])"
    by (rule qh.exact_update [OF exl]) (use i fresh in \<open>auto simp: fresh_for_def\<close>)
  moreover have "exact_on P (qhash_insert a i (qhash_remove (?A ! i) (ab_addressIndexes s))) (?A[i := a])"
    by (rule qh.exact_update [OF exa]) (use i fresh in \<open>auto simp: fresh_for_def\<close>)
  ultimately show ?thesis
    using t i by (auto simp: book_inv_def editAddress_def Let_def map_update)
qed

lemma snd_fold_renumber:
  "snd (fold (renumber arr) js ix) = fold (\<lambda>j. qhash_insert (item_label (arr ! j)) j) js (snd ix)"
  by (induction js arbitrary: ix) (simp_all add: renumber_def)

lemma fst_fold_renumber:
  assumes "\<And>j. j \<in> set js \<Longrightarrow> \<not> P (item_paymentid (arr ! j))" and "\<And>b. P b \<Longrightarrow> fst ix b = h b" and "P a"
  shows "fst (fold (renumber arr) js ix) a = fold (\<lambda>j. qhash_insert (item_address (arr ! j)) j) js h a"
  using assms
proof (induction js arbitrary: ix h)
  case (Cons j js)
  have "fst (fold (renumber arr) js (renumber arr j ix)) a =
        fold (\<lambda>j. qhash_insert (item_address (arr ! j)) j) js (qhash_insert (item_address (arr ! j)) j h) a"
    by (rule Cons.IH) (use Cons.prems in \<open>auto simp: renumber_def qhash_insert_def\<close>)
  then show ?case by simp
qed simp

lemma fold_insert_upt:
  "fold (\<lambda>j. qhash_insert (f (arr ! j)) j) [i..<length arr] h =
   fold (\<lambda>j. qhash_insert (map f arr ! j) j) [i..<length arr] h"
  by (rule fold_cong) auto

lemma distinct_remove_at: "distinct xs \<Longrightarrow> distinct (remove_at i xs)"
  by (auto simp: remove_at_def distinct_append dest: set_take_disj_set_drop_if_distinct [of xs i "Suc i"])

lemma good_book_remove_at: "good_book P arr \<Longrightarrow> good_book P (remove_at i arr)"
  unfolding good_book_def
  by (intro conjI ballI; (drule set_remove_at_subset [THEN subsetD])?)
     (auto simp: map_remove_at distinct_remove_at, simp add: remove_at_def)

lemma book_inv_remove [inv_intros]:
  assumes inv: "book_inv P s" and t: "removeAddress c i s = Some t"
  shows "book_inv P t"
proof -
  let ?arr = "addressArray s" and ?new = "remove_at i (addressArray s)"
  let ?js = "[i..<length ?new]"
  let ?L = "map item_label ?arr" and ?A = "map item_address ?arr"
  let ?ai = "qhash_remove (item_paymentid (?arr ! i)) (qhash_remove (item_address (?arr ! i)) (ab_addressIndexes s))"
  let ?li = "qhash_remove (item_label (?arr ! i)) (ab_labelIndexes s)"
  let ?ix = "fold (renumber ?new) ?js (?ai, ?li)"
  have i: "i < length ?arr"
    using t by (auto simp: removeAddress_def split: if_splits)
  have exl: "exact_on (\<lambda>_. True) (ab_labelIndexes s) ?L" and exa: "exact_on P (ab_addressIndexes s) ?A"
    and good: "good_book P ?arr"
    using inv by (auto simp: book_inv_def)
  have pid: "\<not> P (item_paymentid v)" if "v \<in> set ?arr" for v
    using good that by (simp add: good_book_def)
  have t_simps: "addressArray t = ?new" "ab_labelIndexes t = snd ?ix" "ab_addressIndexes t = fst ?ix"
    using t i by (auto simp: removeAddress_def Let_def)
  have "exact_on (\<lambda>_. True) (snd ?ix) (map item_label ?new)"
    using qh.exact_remove_at [OF exl, of i] i
      fold_insert_upt [of item_label ?new i] by (simp add: snd_fold_renumber map_remove_at)
  moreover have "exact_on P (fst ?ix) (map item_address ?new)"
  proof -
    have "fst ?ix a = fold (\<lambda>j. qhash_insert (item_address (?new ! j)) j) ?js
            (qhash_remove (?A ! i) (ab_addressIndexes s)) a" if "P a" for a
    proof (rule fst_fold_renumber [where P = P])
      show "\<not> P (item_paymentid (?new ! j))" if "j \<in> set ?js" for j
        using that by (intro pid subsetD [OF set_remove_at_subset nth_mem]) auto
      show "fst (?ai, ?li) b = qhash_remove (?A ! i) (ab_addressIndexes s) b" if "P b" for b
        using that pid [of "?arr ! i"] i by (auto simp: qhash_remove_def)
    qed (use that in simp)
    then have "exact_on P (fst ?ix) (map item_address ?new) =
        exact_on P (fold (\<lambda>j. qhash_insert (item_address (?new ! j)) j) ?js
            (qhash_remove (?A ! i) (ab_addressIndexes s))) (map item_address ?new)"
      by (rule exact_on_cong)
    then show ?thesis
      using qh.exact_remove_at [OF exa, of i] i
        fold_insert_upt [of item_address ?new i] by (simp add: map_remove_at)
  qed
  ultimately show ?thesis
    using good_book_remove_at [OF good] t_simps by (simp add: book_inv_def)
qed

lemma buildIndexes_fold:
  "ab_labelIndexes (fold (index_row arr) js s) =
     fold (\<lambda>j. qhash_insert (item_label (arr ! j)) j) js (ab_labelIndexes s)"
  "ab_addressIndexes (fold (index_row arr) js s) =
     fold (\<lambda>j. qhash_insert (item_address (arr ! j)) j) js (ab_addressIndexes s)"
  "ab_object (fold (index_row arr) js s) = ab_object s"
  "ab_userData (fold (index_row arr) js s) = ab_userData s"
  "ab_signals (fold (index_row arr) js s) = ab_signals s"
  by (induction js arbitrary: s) (simp_all add: index_row_def)

lemma buildIndexes_simps [simp]:
  "addressArray (buildIndexes s) = addressArray s"
  "ab_object (buildIndexes s) = jref (ab_object s) T_ADDRESS_BOOK"
  "ab_userData (buildIndexes s) = ab_userData s" "ab_signals (buildIndexes s) = ab_signals s"
  "ab_labelIndexes (buildIndexes s) =
     fold (\<lambda>j. qhash_insert (map item_label (addressArray s) ! j) j) [0..<length (addressArray s)] (ab_labelIndexes s)"
  "ab_addressIndexes (buildIndexes s) =
     fold (\<lambda>j. qhash_insert (map item_address (addressArray s) ! j) j) [0..<length (addressArray s)] (ab_addressIndexes s)"
  using fold_insert_upt [of item_label "addressArray s" 0]
    fold_insert_upt [of item_address "addressArray s" 0]
  by (auto simp: buildIndexes_def Let_def buildIndexes_fold addressArray_def)

lemma build_exact:
  assumes "distinct xs"
  shows "exact_on P (fold (\<lambda>j. qhash_insert (xs ! j) j) [0..<length xs] qhash_empty) xs"
  by (rule qh.exact_build) (use assms in \<open>auto simp: distinct_conv_nth qhash_empty_def\<close>)

lemma loadDocument_indexes [simp]:
  "ab_labelIndexes (loadDocument c doc over s) = ab_labelIndexes s"
  "ab_addressIndexes (loadDocument c doc over s) = ab_addressIndexes s"
  by (cases doc; simp add: loadDocument_def Let_def)+

definition loadedState :: "codec \<Rightarrow> string option \<Rightarrow> ab_state \<Rightarrow> ab_state" where
  "loadedState c legacy s =
     (let (b, over) = openedBytes (ab_userData s) legacy
      in if b = [] then s
         else case parseBytes c b over of
                (Some doc, over') \<Rightarrow> loadDocument c doc over' s
              | (None, _) \<Rightarrow> s)"

lemma walletOpened_loaded:
  "walletOpened c legacy s = emit DonationOpened (emit BookOpened (buildIndexes (loadedState c legacy s)))"
  by (simp add: walletOpened_def loadedState_def Let_def split: prod.split)

lemma loadedState_indexes [simp]:
  "ab_labelIndexes (loadedState c legacy s) = ab_labelIndexes s"
  "ab_addressIndexes (loadedState c legacy s) = ab_addressIndexes s"
  by (auto simp: loadedState_def Let_def split: prod.split option.split)

lemma book_inv_open [inv_intros]:
  assumes "ab_labelIndexes s = qhash_empty" "ab_addressIndexes s = qhash_empty"
    and "good_book P (addressArray (walletOpened c legacy s))"
  shows "book_inv P (walletOpened c legacy s)"
  using assms build_exact [of "map item_label (addressArray (loadedState c legacy s))" "\<lambda>_. True"]
    build_exact [of "map item_address (addressArray (loadedState c legacy s))" P]
  by (simp add: book_inv_def walletOpened_loaded good_book_def)

lemma walletClosed_simps [simp]:
  "addressArray (walletClosed s) = []" "ab_labelIndexes (walletClosed s) = qhash_empty"
  "ab_addressIndexes (walletClosed s) = qhash_empty"
  "ab_paymentIdIndexes (walletClosed s) = ab_paymentIdIndexes s"
  "ab_object (walletClosed s) = Map.empty" "ab_userData (walletClosed s) = ab_userData s"
  by (simp_all add: walletClosed_def addressArray_def emit_def)

lemma good_book_Nil [simp]: "good_book P []"
  by (simp add: good_book_def)

lemma exact_qempty [simp]: "exact_on P qhash_empty []"
  by (rule qh.exact_empty)

lemma book_inv_close [inv_intros]: "book_inv P (walletClosed s)"
  by (simp add: book_inv_def)

lemma own_label_keeps_book [simp]:
  "addressArray (setOwnAddressLabel c a l s) = addressArray s"
  "ab_labelIndexes (setOwnAddressLabel c a l s) = ab_labelIndexes s"
  "ab_addressIndexes (setOwnAddressLabel c a l s) = ab_addressIndexes s"
  by (simp_all add: setOwnAddressLabel_def addressArray_def Let_def)

lemma book_inv_settings [inv_intros]:
  "book_inv P s \<Longrightarrow> book_inv P (setOwnAddressLabel c a l s)"
  "book_inv P s \<Longrightarrow> book_inv P (setDonationChangeEnabled c on s)"
  "book_inv P s \<Longrightarrow> book_inv P (setDonationChangeAddress c a s)"
  "book_inv P s \<Longrightarrow> book_inv P (setDonationChangeAmount c n s)"
  by (simp_all add: book_inv_def)

lemma book_inv_step:
  assumes inv: "book_inv P s" and step: "ab_step c P s t"
  shows "book_inv P t"
  using step
proof (cases rule: ab_step.cases)
  case (st_add l a p d)
  then show ?thesis using book_inv_add [OF inv] by blast
next
  case (st_edit a p i l d)
  then show ?thesis using book_inv_edit [OF inv] by blast
next
  case (st_remove i)
  then show ?thesis by (rule book_inv_remove [OF inv])
next
  case (st_open legacy)
  then show ?thesis using book_inv_open by blast
qed (simp_all only: book_inv_settings [OF inv] book_inv_close)

interpretation abk: inductive_invariant ab_start "ab_step c P" "book_inv P" for c P
proof
  show "book_inv P s" if "ab_start s" for s
    using that by (auto simp: ab_start_def ab_init_def book_inv_def addressArray_def)
qed (rule book_inv_step)

text \<open>A codec that knows one document, for concrete runs.\<close>

definition one_codec :: "jobject \<Rightarrow> codec" where
  "one_codec ob = \<lparr>qCompress = (\<lambda>b. b), qUncompress = (\<lambda>b. b), toJson = (\<lambda>_. ''j''),
     fromJson = (\<lambda>b. if b = ''j'' then Some (JObject ob) else None)\<rparr>"

lemma qhash_value_find_index:
  assumes ex: "exact_on P h (map f arr)" and k: "P k"
  shows "qhash_value h k INVALID_ADDRESS_INDEX = find_or_invalid (find_index (\<lambda>v. f v = k) arr)"
proof (cases "find_index (\<lambda>v. f v = k) arr")
  case None
  then have "h k = None"
    using exact_on_None [OF ex k] by (auto simp: find_index_None)
  then show ?thesis
    using None by (simp add: qhash_value_def find_or_invalid_def)
next
  case (Some i)
  then have "i < length arr" "f (arr ! i) = k"
    by (simp_all add: find_index_Some)
  then have "h k = Some i"
    using exact_onD [OF ex k] by simp
  then show ?thesis
    using Some by (simp add: qhash_value_def find_or_invalid_def)
qed



text \<open>
  Own-address labels round trip: after setOwnAddressLabel the label read
  for that address is the new one (the empty label removes the entry), and the
  label of every other address is unchanged.
\<close>

theorem own_label_roundtrip:
  "getOwnAddressLabel (setOwnAddressLabel c a l s) b = (if b = a then l else getOwnAddressLabel s b)"
  by (auto simp: getOwnAddressLabel_def setOwnAddressLabel_def ownLabels_def Let_def emit_def jvalue_def
      saveAddressBook_def)

lemma changeObject_enabled:
  "changeObject (setDonationChangeEnabled c on s) =
     (if isDonationChangeEnabled s \<noteq> on then (changeObject s)(T_CHANGE_ENABLED \<mapsto> JBool on) else changeObject s)"
  by (simp add: setDonationChangeEnabled_def isDonationChangeEnabled_def)

lemma changeObject_address:
  "changeObject (setDonationChangeAddress c a s) =
     (if getDonationChangeAddress s \<noteq> a then (changeObject s)(T_CHANGE_ADDRESS \<mapsto> JString a) else changeObject s)"
  by (simp add: setDonationChangeAddress_def getDonationChangeAddress_def)

lemma donation_switched_off:
  defines "u s c \<equiv> setDonationChangeAddress c [] (setDonationChangeEnabled c False s)"
  shows "isDonationChangeEnabled (u s c) = False" "getDonationChangeAddress (u s c) = []"
  by (auto simp: u_def changeObject_enabled changeObject_address isDonationChangeEnabled_def
      getDonationChangeAddress_def)

lemma donation_reader_cong:
  "changeObject t = changeObject s \<Longrightarrow> isDonationChangeEnabled t = isDonationChangeEnabled s"
  "changeObject t = changeObject s \<Longrightarrow> getDonationChangeAddress t = getDonationChangeAddress s"
  by (simp_all add: isDonationChangeEnabled_def getDonationChangeAddress_def)

lemma edit_changeObject:
  assumes "editAddress c i l a p d s = Some t"
  shows "changeObject t = changeObject
    (if getDonationChangeAddress s = item_address (addressArray s ! i) \<and>
        (\<not> d \<or> item_address (addressArray s ! i) \<noteq> a)
     then setDonationChangeAddress c [] (setDonationChangeEnabled c False s) else s)"
  using assms by (auto simp: editAddress_def Let_def split: if_splits)

lemma remove_changeObject:
  assumes "removeAddress c i s = Some t"
  shows "changeObject t = changeObject
    (if getDonationChangeAddress s = item_address (addressArray s ! i)
     then setDonationChangeAddress c [] (setDonationChangeEnabled c False s) else s)"
  using assms by (auto simp: removeAddress_def Let_def split: if_splits)

text \<open>
  Editing or removing the row whose address receives the donations ends the
  donations: when the row stops being a donation row or changes its address, or
  is removed, the change donation is disabled and its address cleared; any other
  edit or removal keeps both settings.
\<close>

theorem donation_follows_book:
  "(editAddress c i l a p d s = Some t \<longrightarrow>
      (if getDonationChangeAddress s = item_address (addressArray s ! i) \<and>
          (\<not> d \<or> item_address (addressArray s ! i) \<noteq> a)
       then \<not> isDonationChangeEnabled t \<and> getDonationChangeAddress t = []
       else isDonationChangeEnabled t = isDonationChangeEnabled s \<and>
            getDonationChangeAddress t = getDonationChangeAddress s)) \<and>
   (removeAddress c i s = Some t \<longrightarrow>
      (if getDonationChangeAddress s = item_address (addressArray s ! i)
       then \<not> isDonationChangeEnabled t \<and> getDonationChangeAddress t = []
       else isDonationChangeEnabled t = isDonationChangeEnabled s \<and>
            getDonationChangeAddress t = getDonationChangeAddress s))"
proof (intro conjI impI)
  assume "editAddress c i l a p d s = Some t"
  from donation_reader_cong [OF edit_changeObject [OF this]]
  show "if getDonationChangeAddress s = item_address (addressArray s ! i) \<and>
          (\<not> d \<or> item_address (addressArray s ! i) \<noteq> a)
       then \<not> isDonationChangeEnabled t \<and> getDonationChangeAddress t = []
       else isDonationChangeEnabled t = isDonationChangeEnabled s \<and>
            getDonationChangeAddress t = getDonationChangeAddress s"
    by (auto simp only: donation_switched_off split: if_splits)
next
  assume "removeAddress c i s = Some t"
  from donation_reader_cong [OF remove_changeObject [OF this]]
  show "if getDonationChangeAddress s = item_address (addressArray s ! i)
       then \<not> isDonationChangeEnabled t \<and> getDonationChangeAddress t = []
       else isDonationChangeEnabled t = isDonationChangeEnabled s \<and>
            getDonationChangeAddress t = getDonationChangeAddress s"
    by (auto simp only: donation_switched_off split: if_splits)
qed


definition donor_state :: ab_state where
  "donor_state = (ab_init [])\<lparr>ab_object := [
     T_ADDRESS_BOOK \<mapsto> JArray [put_item Map.empty ''donor'' ''K1'' [] True],
     T_DONATION \<mapsto> JObject [T_CHANGE \<mapsto> JObject [T_CHANGE_ADDRESS \<mapsto> JString ''K1'',
                                                   T_CHANGE_ENABLED \<mapsto> JBool True]]]\<rparr>"

theorem donation_follows_book_witness:
  "isDonationChangeEnabled donor_state \<and>
   (\<exists>t. removeAddress (one_codec Map.empty) 0 donor_state = Some t \<and>
        \<not> isDonationChangeEnabled t \<and> getDonationChangeAddress t = [])"
proof -
  have d: "addressArray donor_state = [put_item Map.empty ''donor'' ''K1'' [] True]"
    "getDonationChangeAddress donor_state = ''K1''" "isDonationChangeEnabled donor_state"
    by (simp_all add: donor_state_def addressArray_def getDonationChangeAddress_def
        isDonationChangeEnabled_def changeObject_def donationObject_def)
  have "removeAddress (one_codec Map.empty) 0 donor_state \<noteq> None"
    by (simp add: removeAddress_def Let_def d(1))
  then obtain t where t: "removeAddress (one_codec Map.empty) 0 donor_state = Some t"
    by blast
  then show ?thesis
    using donation_follows_book [of "one_codec Map.empty" 0 "[]" "[]" "[]" False donor_state t] d by auto
qed


section \<open>What is stored is what is reloaded\<close>

inductive ab_mutates :: "codec \<Rightarrow> ab_state \<Rightarrow> ab_state \<Rightarrow> bool" for c s where
  mu_add: "ab_mutates c s (addAddress c l a p d s)"
| mu_edit: "editAddress c i l a p d s = Some t \<Longrightarrow> ab_mutates c s t"
| mu_remove: "removeAddress c i s = Some t \<Longrightarrow> ab_mutates c s t"
| mu_own: "ab_mutates c s (setOwnAddressLabel c a l s)"
| mu_enable: "ab_mutates c s (setDonationChangeEnabled c on s)"
| mu_daddr: "ab_mutates c s (setDonationChangeAddress c a s)"
| mu_damount: "ab_mutates c s (setDonationChangeAmount c n s)"

definition stored :: "codec \<Rightarrow> ab_state \<Rightarrow> bool" where
  "stored c s \<longleftrightarrow> ab_userData s = qCompress c (toJson c (ab_object s))"

lemma stored_simps [simp]:
  "stored c (saveAddressBook c s)" "stored c (emit g s) = stored c s"
  by (simp_all add: stored_def)

lemma mutates_stores:
  assumes "ab_mutates c s t" "t \<noteq> s"
  shows "stored c t"
  using assms
proof (cases rule: ab_mutates.cases)
  case (mu_edit i l a p d)
  then show ?thesis by (auto simp: editAddress_def Let_def split: if_splits)
next
  case (mu_remove i)
  then show ?thesis by (auto simp: removeAddress_def Let_def split: if_splits)
next
  case (mu_add l a p d)
  then show ?thesis using assms(2) by (auto simp: addAddress_def Let_def split: if_splits)
qed (use assms(2) in \<open>auto simp: setOwnAddressLabel_def setDonationChangeEnabled_def
       setDonationChangeAddress_def setDonationChangeAmount_def Let_def split: if_splits\<close>)

lemma reader_of_object:
  "ownLabels s = json_toObject (jvalue (ab_object s) T_OWN_LABELS)"
  "changeObject s = json_toObject (jvalue (json_toObject (jvalue (ab_object s) T_DONATION)) T_CHANGE)"
  "addressArray s = json_toArray (jvalue (ab_object s) T_ADDRESS_BOOK)"
  by (simp_all add: ownLabels_def changeObject_def donationObject_def addressArray_def)



text \<open>
  An int written with setDonationChangeAmount is read back, except when no
  amount is stored yet and the new amount is 1: the setter compares with the
  default 1, so nothing is written, and the getter then answers its default 10.
\<close>

theorem donation_amount_roundtrip:
  assumes "int_range n"
  shows "getDonationChangeAmount (setDonationChangeAmount c n s) =
     (if n = 1 \<and> json_toInt 1 (jvalue (changeObject s) T_CHANGE_AMOUNT) \<noteq>
                 json_toInt 10 (jvalue (changeObject s) T_CHANGE_AMOUNT)
      then 10 else n)"
proof -
  have "json_toInt 1 v = json_toInt 10 v \<or> json_toInt 1 v = 1 \<and> json_toInt 10 v = 10" for v
    by (cases v) auto
  from this [of "jvalue (changeObject s) T_CHANGE_AMOUNT"] show ?thesis
    using assms by (auto simp: getDonationChangeAmount_def setDonationChangeAmount_def int_range_def)
qed

theorem donation_amount_roundtrip_witness:
  "getDonationChangeAmount (setDonationChangeAmount (one_codec Map.empty) 25 (ab_init [])) = 25"
  by (subst donation_amount_roundtrip) (simp_all add: int_range_def)

text \<open>
  Removal does not touch the payment id index: after a row is appended and
  then removed, its payment id is still found, at an index one past the end of
  the book.
\<close>

theorem removed_payment_id_still_found:
  assumes "getAddressCount (addAddress c l a p d s) = Suc (getAddressCount s)"
    and "removeAddress c (getAddressCount s) (addAddress c l a p d s) = Some t"
  shows "findAddressByPaymentId t p = getAddressCount s \<and> getAddressCount t = getAddressCount s"
proof -
  have added: "ab_paymentIdIndexes (addAddress c l a p d s) = qhash_insert p (getAddressCount s) (ab_paymentIdIndexes s)"
    using assms(1) by (auto simp: addAddress_def getAddressCount_def Let_def split: if_splits)
  have "ab_paymentIdIndexes t = ab_paymentIdIndexes (addAddress c l a p d s)"
    using assms(2) by (auto simp: removeAddress_def Let_def split: if_splits)
  moreover have "getAddressCount t = getAddressCount s"
    using assms by (auto simp: removeAddress_def getAddressCount_def Let_def split: if_splits)
  ultimately show ?thesis
    using added by (simp add: findAddressByPaymentId_def qhash_value_def qhash_insert_def)
qed

theorem removed_payment_id_still_found_witness:
  "\<exists>t. removeAddress (one_codec Map.empty) 0 (addAddress (one_codec Map.empty) ''l'' ''a'' ''p'' False (ab_init [])) = Some t \<and>
       findAddressByPaymentId t ''p'' = 0 \<and> getAddressCount t = 0"
proof -
  let ?c = "one_codec Map.empty" and ?s = "ab_init []"
  let ?u = "addAddress ?c ''l'' ''a'' ''p'' False ?s"
  have cnt: "getAddressCount ?s = 0" "getAddressCount ?u = Suc 0"
    by (simp_all add: getAddressCount_def addAddress_def Let_def ab_init_def findAddressByLabel_def
        findAddressByAddress_def qhash_value_def qhash_empty_def addressArray_def put_array_def emit_def
        saveAddressBook_def)
  have "removeAddress ?c (getAddressCount ?s) ?u \<noteq> None"
    using cnt by (simp add: removeAddress_def getAddressCount_def Let_def)
  then obtain t where t: "removeAddress ?c (getAddressCount ?s) ?u = Some t"
    by blast
  then show ?thesis
    using removed_payment_id_still_found [of ?c "''l''" "''a''" "''p''" False ?s t] cnt by auto
qed

end
