(* ===== verification/AddressBookModel.thy ===== *)
theory AddressBookModel
  imports ItemModel AddressBook
begin

text \<open>
  AddressBookModel (src/src/Models/AddressBookModel.cpp): the item model over
  the address book. It keeps only a row count and reads every cell from the
  manager. Lemmas: after each call on the manager that reaches the model as a
  signal, the row count is the manager's address count and the announcements
  replay to it.
\<close>

type_synonym abm_state = nat

definition abm_init :: abm_state where "abm_init = 0"

definition abm_addressBookOpened :: "nat \<Rightarrow> abm_state \<Rightarrow> abm_state \<times> notice list" where
  "abm_addressBookOpened cnt n = (if cnt > 0 then (cnt, [RowsInserted 0 (cnt - 1)]) else (n, []))"

definition abm_addressBookClosed :: "abm_state \<Rightarrow> abm_state \<times> notice list" where
  "abm_addressBookClosed n = (if n > 0 then (0, [RowsRemoved 0 (n - 1)]) else (n, []))"

definition abm_addressAdded :: "nat \<Rightarrow> nat \<Rightarrow> abm_state \<Rightarrow> abm_state \<times> notice list" where
  "abm_addressAdded cnt i n = (if n < cnt then (cnt, [RowsInserted n (cnt - 1)]) else (n, []))"

definition abm_addressEdited :: "nat \<Rightarrow> abm_state \<Rightarrow> abm_state \<times> notice list" where
  "abm_addressEdited i n = (n, [DataChanged i i])"

definition abm_addressRemoved :: "nat \<Rightarrow> nat \<Rightarrow> abm_state \<Rightarrow> abm_state \<times> notice list" where
  "abm_addressRemoved cnt i n = (cnt, [RowsRemoved i i])"

text \<open>The slots the model has connected; cnt is the manager's count when the signal arrives.\<close>

fun abm_slot :: "nat \<Rightarrow> ab_signal \<Rightarrow> abm_state \<Rightarrow> abm_state \<times> notice list" where
  "abm_slot cnt BookOpened n = abm_addressBookOpened cnt n"
| "abm_slot cnt BookClosed n = abm_addressBookClosed n"
| "abm_slot cnt (AddressAdded i) n = abm_addressAdded cnt i n"
| "abm_slot cnt (AddressEdited i) n = abm_addressEdited i n"
| "abm_slot cnt (AddressRemoved i) n = abm_addressRemoved cnt i n"
| "abm_slot cnt _ n = (n, [])"

fun abm_deliver :: "nat \<Rightarrow> ab_signal list \<Rightarrow> abm_state \<Rightarrow> abm_state \<times> notice list" where
  "abm_deliver cnt [] n = (n, [])"
| "abm_deliver cnt (g # gs) n =
     (let (m, ns) = abm_slot cnt g n; (k, ms) = abm_deliver cnt gs m in (k, ns @ ms))"

text \<open>The signals of one call are those it appended.\<close>

definition new_signals :: "ab_state \<Rightarrow> ab_state \<Rightarrow> ab_signal list" where
  "new_signals s t = drop (length (ab_signals s)) (ab_signals t)"


section \<open>Cells\<close>

abbreviation ABM_LABEL :: int where "ABM_LABEL \<equiv> 0"
abbreviation ABM_ADDRESS :: int where "ABM_ADDRESS \<equiv> 1"
abbreviation ABM_PAYMENT_ID :: int where "ABM_PAYMENT_ID \<equiv> 2"
abbreviation ABM_DONATION :: int where "ABM_DONATION \<equiv> 3"

definition abm_columnCount :: nat where "abm_columnCount = 5"

abbreviation ABM_ROLE_LABEL :: role where "ABM_ROLE_LABEL \<equiv> UserRole 0"
abbreviation ABM_ROLE_ADDRESS :: role where "ABM_ROLE_ADDRESS \<equiv> UserRole 1"
abbreviation ABM_ROLE_PAYMENT_ID :: role where "ABM_ROLE_PAYMENT_ID \<equiv> UserRole 2"
abbreviation ABM_ROLE_IS_DONATION :: role where "ABM_ROLE_IS_DONATION \<equiv> UserRole 3"
abbreviation ABM_ROLE_COLUMN :: role where "ABM_ROLE_COLUMN \<equiv> UserRole 4"
abbreviation ABM_ROLE_ROW :: role where "ABM_ROLE_ROW \<equiv> UserRole 5"

definition abm_headerData :: "int \<Rightarrow> bool \<Rightarrow> role \<Rightarrow> qvariant" where
  "abm_headerData sec horizontal r =
     (if \<not> horizontal then QNull
      else if r = DisplayRole then
        (if sec = ABM_LABEL then QStr ''Label''
         else if sec = ABM_ADDRESS then QStr ''Address''
         else if sec = ABM_PAYMENT_ID then QStr ''Payment ID''
         else if sec = ABM_DONATION then QStr ''Donation''
         else QNull)
      else if r = TextAlignmentRole then
        (if sec = ABM_LABEL then AlignLeftV
         else if sec = ABM_ADDRESS then AlignRightV
         else if sec = ABM_PAYMENT_ID then AlignRightV
         else if sec = ABM_DONATION then AlignCenterV
         else QNull)
      else if r = ABM_ROLE_COLUMN then QInt sec
      else QNull)"

definition abm_getUserRole :: "ab_state \<Rightarrow> nat \<Rightarrow> int \<Rightarrow> role \<Rightarrow> qvariant option" where
  "abm_getUserRole b row col r =
     (case getAddress b row of
        None \<Rightarrow> None
      | Some it \<Rightarrow> Some (
          if r = ABM_ROLE_LABEL then QStr (ai_label it)
          else if r = ABM_ROLE_ADDRESS then QStr (ai_address it)
          else if r = ABM_ROLE_PAYMENT_ID then QStr (ai_paymentid it)
          else if r = ABM_ROLE_IS_DONATION then QBool (ai_isDonation it)
          else if r = ABM_ROLE_COLUMN then abm_headerData col True r
          else if r = ABM_ROLE_ROW then QInt (int row)
          else QNull))"

definition abm_getDisplayRole :: "ab_state \<Rightarrow> nat \<Rightarrow> int \<Rightarrow> qvariant option" where
  "abm_getDisplayRole b row col =
     (if col = ABM_LABEL then abm_getUserRole b row col ABM_ROLE_LABEL
      else if col = ABM_ADDRESS then abm_getUserRole b row col ABM_ROLE_ADDRESS
      else if col = ABM_PAYMENT_ID then abm_getUserRole b row col ABM_ROLE_PAYMENT_ID
      else Some QNull)"

definition abm_getDecorationRole :: "ab_state \<Rightarrow> nat \<Rightarrow> int \<Rightarrow> qvariant option" where
  "abm_getDecorationRole b row col =
     (if col = ABM_DONATION then
        (case abm_getUserRole b row col ABM_ROLE_IS_DONATION of
           Some (QBool True) \<Rightarrow> Some (QPixmap '':icons/donation'')
         | None \<Rightarrow> None
         | _ \<Rightarrow> Some QNull)
      else Some QNull)"

text \<open>None is the failed Q_ASSERT of getAddress on a row that does not exist.\<close>

definition abm_data :: "ab_state \<Rightarrow> nat \<Rightarrow> int \<Rightarrow> role \<Rightarrow> qvariant option" where
  "abm_data b row col r =
     (if r = DisplayRole then abm_getDisplayRole b row col
      else if r = DecorationRole then abm_getDecorationRole b row col
      else if r = TextAlignmentRole then Some (abm_headerData col True r)
      else abm_getUserRole b row col r)"


section \<open>In step with the manager\<close>

definition abm_ok :: "ab_state \<Rightarrow> ab_state \<Rightarrow> nat \<Rightarrow> bool" where
  "abm_ok s t n \<longleftrightarrow>
     (let (m, ns) = abm_deliver (getAddressCount t) (new_signals s t) n
      in m = getAddressCount t \<and> replay ns n = Some m)"

lemma signals_of_donation:
  "\<exists>gs. ab_signals (setDonationChangeAddress c a (setDonationChangeEnabled c on s)) = ab_signals s @ gs \<and>
        (\<forall>cnt n ts. abm_deliver cnt (gs @ ts) n = abm_deliver cnt ts n)"
  by (auto simp: setDonationChangeEnabled_def setDonationChangeAddress_def put_change_def)

lemma count_of_array: "getAddressCount s = length (addressArray s)"
  by (simp add: getAddressCount_def)

lemma abm_ok_add:
  "abm_ok s (addAddress c l a p d s) (getAddressCount s)"
  by (simp add: abm_ok_def addAddress_def Let_def new_signals_def count_of_array abm_addressAdded_def)

lemma abm_ok_edit:
  assumes "editAddress c i l a p d s = Some t"
  shows "abm_ok s t (getAddressCount s)"
proof -
  let ?u = "setDonationChangeAddress c [] (setDonationChangeEnabled c False s)"
  obtain gs where gs: "ab_signals ?u = ab_signals s @ gs"
    "\<And>cnt n ts. abm_deliver cnt (gs @ ts) n = abm_deliver cnt ts n"
    using signals_of_donation by blast
  have "ab_signals t = ab_signals s @ [AddressEdited i] \<or> ab_signals t = ab_signals s @ gs @ [AddressEdited i]"
    "addressArray t \<noteq> []" "i < length (addressArray t)" "length (addressArray t) = length (addressArray s)"
    using assms gs(1) by (auto simp: editAddress_def Let_def split: if_splits)
  then show ?thesis
    by (auto simp: abm_ok_def new_signals_def count_of_array abm_addressEdited_def gs(2))
qed

lemma abm_ok_remove:
  assumes "removeAddress c i s = Some t"
  shows "abm_ok s t (getAddressCount s)"
proof -
  let ?u = "setDonationChangeAddress c [] (setDonationChangeEnabled c False s)"
  obtain gs where gs: "ab_signals ?u = ab_signals s @ gs"
    "\<And>cnt n ts. abm_deliver cnt (gs @ ts) n = abm_deliver cnt ts n"
    using signals_of_donation by blast
  have "ab_signals t = ab_signals s @ [AddressRemoved i] \<or> ab_signals t = ab_signals s @ gs @ [AddressRemoved i]"
    "i < length (addressArray s)" "length (addressArray t) = length (addressArray s) - 1"
    using assms gs(1) by (auto simp: removeAddress_def Let_def split: if_splits)
  then show ?thesis
    by (auto simp: abm_ok_def new_signals_def count_of_array abm_addressRemoved_def gs(2))
qed

lemma loaded_signals [simp]: "ab_signals (loadedState c legacy s) = ab_signals s"
proof -
  have "ab_signals (loadDocument c doc over y) = ab_signals y" for doc over y
    by (cases doc) (simp_all add: loadDocument_def Let_def)
  then show ?thesis
    by (auto simp: loadedState_def Let_def split: prod.split option.split)
qed

lemma abm_ok_open: "abm_ok s (walletOpened c legacy s) 0"
  by (simp add: abm_ok_def new_signals_def walletOpened_loaded count_of_array
      abm_addressBookOpened_def)

lemma abm_ok_close: "abm_ok s (walletClosed s) (getAddressCount s)"
  by (simp add: abm_ok_def new_signals_def walletClosed_def emit_def count_of_array
      abm_addressBookClosed_def addressArray_def)

lemma abm_ok_settings:
  "abm_ok s (setOwnAddressLabel c a l s) (getAddressCount s)"
  "abm_ok s (setDonationChangeEnabled c on s) (getAddressCount s)"
  "abm_ok s (setDonationChangeAddress c a s) (getAddressCount s)"
  "abm_ok s (setDonationChangeAmount c n s) (getAddressCount s)"
  by (simp_all add: abm_ok_def new_signals_def count_of_array setOwnAddressLabel_def
      setDonationChangeEnabled_def setDonationChangeAddress_def setDonationChangeAmount_def Let_def
      put_change_def addressArray_def)

text \<open>
  After every call on the manager from a state whose rows the model shows
  (opening from a closed book included), delivering the call's signals leaves
  the model with exactly the manager's address count, and its insert, remove
  and change announcements are valid and replay to that count.
\<close>

theorem address_book_model_in_step:
  assumes "reach ab_start (ab_step c P) s" "ab_step c P s t"
  shows "fst (abm_deliver (getAddressCount t) (new_signals s t) (getAddressCount s)) = getAddressCount t \<and>
         replay (snd (abm_deliver (getAddressCount t) (new_signals s t) (getAddressCount s))) (getAddressCount s)
           = Some (getAddressCount t)"
proof -
  have "abm_ok s t (getAddressCount s)"
    using assms(2)
  proof (cases rule: ab_step.cases)
    case (st_open legacy)
    have "exact_on (\<lambda>_. True) qhash_empty (map item_label (addressArray s))"
      using abk.reach_inv [OF assms(1)] st_open by (simp add: book_inv_def)
    then have "\<And>a. a \<notin> set (map item_label (addressArray s))"
      using exact_on_None by (metis qhash_empty_def)
    then have "addressArray s = []"
      by (cases "addressArray s") auto
    then show ?thesis using st_open abm_ok_open by (simp add: count_of_array)
  qed (simp_all only: abm_ok_add abm_ok_edit abm_ok_remove abm_ok_settings abm_ok_close)
  then show ?thesis
    by (simp add: abm_ok_def case_prod_beta Let_def)
qed

theorem address_book_model_in_step_witness:
  "fst (abm_deliver 0 (new_signals (ab_init []) (walletClosed (ab_init []))) 0) = 0"
  using address_book_model_in_step [OF reach_start st_close, of "ab_init []"]
  by (simp add: getAddressCount_def ab_init_def addressArray_def ab_start_def)

end
