(* ===== verification/AddressListModel.thy ===== *)
theory AddressListModel
  imports ItemModel AddressBook
begin

text \<open>
  AddressListModel (src/src/Models/AddressListModel.cpp): the list of the
  wallet's own addresses with label and balances.

  The wallet adapter is what the model asks: whether a wallet is open, its
  addresses and their balances (None when there is no node or wallet adapter).
  Lemmas: every event's announcements match the row count (an item_model), and
  the rows stay the wallet's address list under the wallet's own operations.
\<close>

record wallet_view =
  wv_isOpen :: bool
  wv_addresses :: "string list"
  wv_actual :: "nat \<Rightarrow> u64"
  wv_pending :: "nat \<Rightarrow> u64"

record entry =
  e_address :: string
  e_actual :: u64
  e_pending :: u64

type_synonym alm_state = "entry list"

definition entry_of :: "wallet_view \<Rightarrow> nat \<Rightarrow> string \<Rightarrow> entry" where
  "entry_of w i a = \<lparr>e_address = a, e_actual = wv_actual w i, e_pending = wv_pending w i\<rparr>"

definition wallet_entries :: "wallet_view option \<Rightarrow> entry list" where
  "wallet_entries wo =
     (case wo of
        Some w \<Rightarrow> if wv_isOpen w
                   then map (\<lambda>i. entry_of w i (wv_addresses w ! i)) [0..<length (wv_addresses w)]
                   else []
      | None \<Rightarrow> [])"

definition listChanged :: notice where
  "listChanged = SignalSent ''addressListChanged''"

definition alm_repopulate :: "wallet_view option \<Rightarrow> alm_state \<Rightarrow> alm_state \<times> notice list" where
  "alm_repopulate wo s = (wallet_entries wo, [ModelReset (length (wallet_entries wo)), listChanged])"

definition alm_init :: "wallet_view option \<Rightarrow> alm_state" where
  "alm_init wo = (case wo of Some w \<Rightarrow> if wv_isOpen w then fst (alm_repopulate wo []) else [] | None \<Rightarrow> [])"

definition alm_walletClosed :: "alm_state \<Rightarrow> alm_state \<times> notice list" where
  "alm_walletClosed s = (if s = [] then (s, []) else ([], [ModelReset 0, listChanged]))"

definition alm_refreshBalances :: "wallet_view option \<Rightarrow> alm_state \<Rightarrow> alm_state \<times> notice list" where
  "alm_refreshBalances wo s =
     (case wo of
        None \<Rightarrow> (s, [])
      | Some w \<Rightarrow>
          if \<not> wv_isOpen w \<or> s = [] then (s, [])
          else (map (\<lambda>i. entry_of w i (e_address (s ! i))) [0..<length s], [DataChanged 0 (length s - 1)]))"

definition insert_at :: "nat \<Rightarrow> 'a \<Rightarrow> 'a list \<Rightarrow> 'a list" where
  "insert_at i x xs = take i xs @ x # drop i xs"

definition alm_addressCreated ::
  "wallet_view option \<Rightarrow> u64 \<Rightarrow> string \<Rightarrow> alm_state \<Rightarrow> alm_state \<times> notice list" where
  "alm_addressCreated wo ix a s =
     (case wo of
        None \<Rightarrow> (s, [])
      | Some w \<Rightarrow>
          let row = to_int32 ix in
          if row < 0 \<or> row > int (length s) then alm_repopulate wo s
          else (insert_at (nat row) \<lparr>e_address = a, e_actual = wv_actual w (unat ix),
                                      e_pending = wv_pending w (unat ix)\<rparr> s,
                [RowsInserted (nat row) (nat row), listChanged]))"

definition alm_addressDeleted ::
  "wallet_view option \<Rightarrow> u64 \<Rightarrow> string \<Rightarrow> alm_state \<Rightarrow> alm_state \<times> notice list" where
  "alm_addressDeleted wo ix a s =
     (let row = to_int32 ix in
      if row < 0 \<or> row \<ge> int (length s) then alm_repopulate wo s
      else (remove_at (nat row) s, [RowsRemoved (nat row) (nat row), listChanged]))"

definition alm_ownAddressLabelChanged :: "string \<Rightarrow> alm_state \<Rightarrow> alm_state \<times> notice list" where
  "alm_ownAddressLabelChanged a s =
     (s, case find_index (\<lambda>e. e_address e = a) s of None \<Rightarrow> [] | Some i \<Rightarrow> [DataChanged i i])"

datatype alm_event =
    ALWalletOpened
  | ALWalletClosed
  | ALSynchronizationCompleted
  | ALBalanceUpdated u64 u64
  | ALTransactionCreated
  | ALTransactionUpdated
  | ALAddressCreated u64 string
  | ALAddressDeleted u64 string
  | ALLabelChanged string string

text \<open>An event comes with the wallet as the model finds it at that moment.\<close>

fun alm_step :: "wallet_view option \<times> alm_event \<Rightarrow> alm_state \<Rightarrow> alm_state \<times> notice list" where
  "alm_step (wo, ALWalletOpened) s = alm_repopulate wo s"
| "alm_step (wo, ALWalletClosed) s = alm_walletClosed s"
| "alm_step (wo, ALSynchronizationCompleted) s = alm_refreshBalances wo s"
| "alm_step (wo, ALBalanceUpdated a p) s = alm_refreshBalances wo s"
| "alm_step (wo, ALTransactionCreated) s = alm_refreshBalances wo s"
| "alm_step (wo, ALTransactionUpdated) s = alm_refreshBalances wo s"
| "alm_step (wo, ALAddressCreated ix a) s = alm_addressCreated wo ix a s"
| "alm_step (wo, ALAddressDeleted ix a) s = alm_addressDeleted wo ix a s"
| "alm_step (wo, ALLabelChanged a l) s = alm_ownAddressLabelChanged a s"


section \<open>Cells\<close>

abbreviation (input) ALM_COLUMN_ADDRESS :: int where "ALM_COLUMN_ADDRESS \<equiv> 0"
abbreviation (input) ALM_COLUMN_LABEL :: int where "ALM_COLUMN_LABEL \<equiv> 1"
abbreviation (input) ALM_COLUMN_ACTUAL_BALANCE :: int where "ALM_COLUMN_ACTUAL_BALANCE \<equiv> 2"
abbreviation (input) ALM_COLUMN_PENDING_BALANCE :: int where "ALM_COLUMN_PENDING_BALANCE \<equiv> 3"
abbreviation (input) ALM_COLUMN_TOTAL_BALANCE :: int where "ALM_COLUMN_TOTAL_BALANCE \<equiv> 4"

definition alm_headerData :: "int \<Rightarrow> bool \<Rightarrow> role \<Rightarrow> qvariant" where
  "alm_headerData sec horizontal r =
     (if r \<noteq> DisplayRole \<or> \<not> horizontal then QNull
      else if sec = ALM_COLUMN_ADDRESS then QStr ''Address''
      else if sec = ALM_COLUMN_LABEL then QStr ''Label''
      else if sec = ALM_COLUMN_ACTUAL_BALANCE then QStr ''Unlocked''
      else if sec = ALM_COLUMN_PENDING_BALANCE then QStr ''Pending''
      else if sec = ALM_COLUMN_TOTAL_BALANCE then QStr ''Total''
      else QNull)"

definition alm_labelForAddress :: "ab_state option \<Rightarrow> string \<Rightarrow> string" where
  "alm_labelForAddress labels a = (case labels of None \<Rightarrow> [] | Some m \<Rightarrow> getOwnAddressLabel m a)"

definition alm_setLabelForAddress ::
  "codec \<Rightarrow> string \<Rightarrow> string \<Rightarrow> ab_state option \<Rightarrow> ab_state option" where
  "alm_setLabelForAddress c a l labels = map_option (setOwnAddressLabel c a l) labels"

definition alm_data ::
  "(u64 \<Rightarrow> string) \<Rightarrow> ab_state option \<Rightarrow> alm_state \<Rightarrow> int \<Rightarrow> int \<Rightarrow> role \<Rightarrow> qvariant" where
  "alm_data fmt labels s row col r =
     (if row < 0 \<or> row \<ge> int (length s) then QNull
      else
        let e = s ! nat row; total = e_actual e + e_pending e in
        if r = DisplayRole \<or> r = EditRole then
          (if col = ALM_COLUMN_ADDRESS then QStr (e_address e)
           else if col = ALM_COLUMN_LABEL then QStr (alm_labelForAddress labels (e_address e))
           else if col = ALM_COLUMN_ACTUAL_BALANCE then QStr (fmt (e_actual e))
           else if col = ALM_COLUMN_PENDING_BALANCE then QStr (fmt (e_pending e))
           else if col = ALM_COLUMN_TOTAL_BALANCE then QStr (fmt total)
           else QNull)
        else if r = UserRole 0 then QStr (e_address e)
        else if r = UserRole 1 then QStr (alm_labelForAddress labels (e_address e))
        else if r = UserRole 2 then QU64 (e_actual e)
        else if r = UserRole 3 then QU64 (e_pending e)
        else if r = UserRole 4 then QU64 total
        else if r = UserRole 5 then QInt row
        else QNull)"


section \<open>Announcements\<close>

lemma length_insert_at [simp]: "length (insert_at i x xs) = Suc (length xs)"
  by (simp add: insert_at_def)

lemma repopulate_announced:
  "replay (snd (alm_repopulate wo s)) n = Some (length (fst (alm_repopulate wo s)))"
  by (simp add: alm_repopulate_def listChanged_def)

lemma refresh_announced:
  "replay (snd (alm_refreshBalances wo s)) (length s) = Some (length (fst (alm_refreshBalances wo s)))"
  by (auto simp: alm_refreshBalances_def split: option.split)

lemma created_announced:
  "replay (snd (alm_addressCreated wo ix a s)) (length s) = Some (length (fst (alm_addressCreated wo ix a s)))"
  by (auto simp: alm_addressCreated_def Let_def repopulate_announced listChanged_def nat_le_iff
      split: option.split)

lemma deleted_announced:
  "replay (snd (alm_addressDeleted wo ix a s)) (length s) = Some (length (fst (alm_addressDeleted wo ix a s)))"
  by (auto simp: alm_addressDeleted_def Let_def repopulate_announced listChanged_def nat_less_iff)

lemma label_announced:
  "replay (snd (alm_ownAddressLabelChanged a s)) (length s) = Some (length (fst (alm_ownAddressLabelChanged a s)))"
  by (auto simp: alm_ownAddressLabelChanged_def find_index_Some split: option.split)

interpretation alm: item_model length alm_step "\<lambda>_ _. True" "\<lambda>_. True"
proof
  fix s :: alm_state and e :: "wallet_view option \<times> alm_event"
  obtain wo ev where e: "e = (wo, ev)"
    by fastforce
  show "replay (snd (alm_step e s)) (length s) = Some (length (fst (alm_step e s)))"
    by (cases ev) (simp_all add: e repopulate_announced refresh_announced created_announced
        deleted_announced label_announced alm_walletClosed_def listChanged_def)
qed simp

lemma ok_run_True [simp]: "ok_run (\<lambda>_ _. True) step es s"
  by (induction es arbitrary: s) auto

text \<open>
  A view of the address list that follows the model's announcements has
  the model's row count after any sequence of events, whatever the wallet
  answers meanwhile: no announcement is ever out of range and none is missing.
\<close>

theorem address_list_views_in_step:
  "replay (snd (run_events alm_step es s)) (length s) = Some (length (fst (run_events alm_step es s)))"
  using alm.run_in_step [where s = s and es = es] by simp



section \<open>The rows are the wallet's addresses\<close>

abbreviation alm_abs :: "alm_state \<Rightarrow> string list" where
  "alm_abs s \<equiv> map e_address s"

lemma insert_at_map: "map f (insert_at i x xs) = insert_at i (f x) (map f xs)"
  by (simp add: insert_at_def take_map drop_map)

lemma created_refines:
  assumes "i \<le> length s" "length s < 2 ^ 31"
  shows "alm_abs (fst (alm_addressCreated (Some w) (of_nat i) a s)) = insert_at i a (alm_abs s)"
  using assms by (simp add: alm_addressCreated_def to_int32_small Let_def insert_at_map)

lemma deleted_refines:
  assumes "i < length s" "length s < 2 ^ 31"
  shows "alm_abs (fst (alm_addressDeleted wo (of_nat i) a s)) = remove_at i (alm_abs s)"
  using assms by (simp add: alm_addressDeleted_def to_int32_small Let_def map_remove_at)

lemma refresh_refines:
  assumes "wv_isOpen w" "alm_abs s = wv_addresses w"
  shows "fst (alm_refreshBalances (Some w) s) = wallet_entries (Some w)"
proof (cases "s = []")
  case False
  have "length (wv_addresses w) = length s" "i < length s \<Longrightarrow> wv_addresses w ! i = e_address (s ! i)" for i
    unfolding assms(2) [symmetric] by simp_all
  then show ?thesis
    using assms(1) False by (simp add: alm_refreshBalances_def wallet_entries_def)
qed (use assms in \<open>simp add: alm_refreshBalances_def wallet_entries_def\<close>)

text \<open>
  C23. The list simulates the wallet's address list. If its rows are the
  addresses of the open wallet, then after the wallet appended an address and
  sent addressCreated, or removed the address at i and sent addressDeleted, the
  rows are the new address list; a refresh then gives exactly the wallet's
  entries with their balances.
\<close>

theorem address_list_simulates_wallet:
  assumes "alm_abs s = wv_addresses w" "length s < 2 ^ 31" "wv_isOpen w'"
  shows "(wv_addresses w' = wv_addresses w @ [a] \<longrightarrow>
            (let t = fst (alm_addressCreated (Some w') (of_nat (length (wv_addresses w))) a s) in
             alm_abs t = wv_addresses w' \<and> fst (alm_refreshBalances (Some w') t) = wallet_entries (Some w'))) \<and>
         (i < length (wv_addresses w) \<and> wv_addresses w' = remove_at i (wv_addresses w) \<longrightarrow>
            (let t = fst (alm_addressDeleted (Some w') (of_nat i) a s) in
             alm_abs t = wv_addresses w' \<and> fst (alm_refreshBalances (Some w') t) = wallet_entries (Some w')))"
proof -
  have len: "length (wv_addresses w) = length s"
    unfolding assms(1) [symmetric] by simp
  show ?thesis
    using created_refines [of "length s" s w' a] deleted_refines [of i s "Some w'" a] assms len
    by (auto simp: Let_def insert_at_def intro!: refresh_refines)
qed

theorem address_list_simulates_wallet_witness:
  "alm_abs (fst (alm_addressDeleted
      (Some \<lparr>wv_isOpen = True, wv_addresses = [''K2''], wv_actual = (\<lambda>_. 0), wv_pending = (\<lambda>_. 0)\<rparr>) 0 ''K1''
      [\<lparr>e_address = ''K1'', e_actual = 5, e_pending = 0\<rparr>, \<lparr>e_address = ''K2'', e_actual = 7, e_pending = 1\<rparr>]))
   = [''K2'']"
  using address_list_simulates_wallet
    [of "[\<lparr>e_address = ''K1'', e_actual = 5, e_pending = 0\<rparr>, \<lparr>e_address = ''K2'', e_actual = 7, e_pending = 1\<rparr>]"
        "\<lparr>wv_isOpen = True, wv_addresses = [''K1'', ''K2''], wv_actual = (\<lambda>_. 0), wv_pending = (\<lambda>_. 0)\<rparr>"
        "\<lparr>wv_isOpen = True, wv_addresses = [''K2''], wv_actual = (\<lambda>_. 0), wv_pending = (\<lambda>_. 0)\<rparr>"
        "''K1''" 0]
  by (simp add: remove_at_def Let_def)

end
