(* ===== verification/WalletWorker.thy ===== *)
theory WalletWorker
  imports Transition
begin

text \<open>
  WalletGreenWorker (src/src/CryptoNoteWrapper/WalletGreenWorker.cpp): the
  object that owns the wallet of the CryptoNote library, its user data and the
  flags open, encrypted and saved.

  The library object is not part of the program, so its members are a record of
  functions over an opaque wallet 'w (record green). A member may throw: it
  returns Inl of the exception, and the wallet it leaves behind. Each operation
  of the worker is one function on the worker's state; a failed Q_ASSERT is
  None. The dispatcher runs one task at a time (see SemaphoreProtocol), so a
  task and the code after locker.wait() is one step; signals are appended in the
  order of emission.

  Lemmas: status codes; what each operation does to wallet, flags and signals on
  success and on an exception; when a save reaches the library; the flag
  invariant over all operations.
\<close>

section \<open>Library interface\<close>

type_synonym skey = string

definition NULL_KEY :: skey where
  "NULL_KEY = replicate 32 (CHR 0x00)"

record account_keys =
  viewPublic :: skey
  viewSecret :: skey
  spendPublic :: skey
  spendSecret :: skey

datatype tx_state = TX_SUCCEEDED | TX_FAILED | TX_CANCELLED | TX_CREATED | TX_DELETED

datatype transfer_type = TF_USUAL | TF_DONATION | TF_CHANGE

record wallet_transaction =
  wt_state :: tx_state
  wt_timestamp :: u64
  wt_blockHeight :: u32
  wt_hash :: string
  wt_totalAmount :: i64
  wt_fee :: u64
  wt_extra :: string
  wt_isBase :: bool

record wallet_transfer =
  tf_type :: transfer_type
  tf_address :: string
  tf_amount :: i64

record full_tx =
  ft_transaction :: wallet_transaction
  ft_transfers :: "wallet_transfer list"

record tx_order =
  or_address :: string
  or_amount :: u64

record tx_params =
  tp_sources :: "string list"
  tp_destinations :: "tx_order list"
  tp_fee :: u64
  tp_mixIn :: u64
  tp_extra :: string
  tp_unlock :: u64
  tp_change :: string
  tp_donation :: "(string \<times> u64) option"

datatype save_level = SAVE_KEYS_ONLY | SAVE_KEYS_AND_TRANSACTIONS | SAVE_ALL

datatype gen_mode = INDEPENDENT_SPEND_KEYS | HD_DETERMINISTIC

record error_codes =
  WRONG_PASSWORD :: int
  INTERNAL_WALLET_ERROR :: int
  WRONG_AMOUNT :: int
  MIXIN_COUNT_TOO_BIG :: int
  TRANSACTION_SIZE_TOO_BIG :: int

record 'w green =
  g_codes :: error_codes
  g_new :: 'w
  g_start :: "'w \<Rightarrow> 'w"
  g_initialize :: "string \<Rightarrow> string \<Rightarrow> ('w, unit) call"
  g_initializeWithViewKey :: "string \<Rightarrow> string \<Rightarrow> skey \<Rightarrow> u64 option \<Rightarrow> ('w, unit) call"
  g_setAddressGenerationMode :: "gen_mode \<Rightarrow> skey \<Rightarrow> ('w, unit) call"
  g_createAddress :: "('w, string) call"
  g_createAddressAt :: "u32 \<Rightarrow> ('w, string) call"
  g_createAddressPublic :: "skey \<Rightarrow> ('w, string) call"
  g_createAddressSecret :: "skey \<Rightarrow> u64 option \<Rightarrow> ('w, string) call"
  g_deleteAddress :: "string \<Rightarrow> ('w, unit) call"
  g_load :: "string \<Rightarrow> string \<Rightarrow> ('w, string) call"
  g_importLegacyKeys :: "string \<Rightarrow> string \<Rightarrow> string \<Rightarrow> ('w, unit) call"
  g_save :: "save_level \<Rightarrow> string \<Rightarrow> ('w, unit) call"
  g_export :: "string \<Rightarrow> bool \<Rightarrow> save_level \<Rightarrow> string \<Rightarrow> ('w, unit) call"
  g_changePassword :: "string \<Rightarrow> string \<Rightarrow> ('w, unit) call"
  g_transfer :: "tx_params \<Rightarrow> ('w, u64) call"
  g_generationMode :: "'w \<Rightarrow> wexc + gen_mode"
  g_addressCount :: "'w \<Rightarrow> wexc + nat"
  g_address :: "'w \<Rightarrow> nat \<Rightarrow> wexc + string"
  g_viewKey :: "'w \<Rightarrow> wexc + (skey \<times> skey)"
  g_spendKey :: "'w \<Rightarrow> nat \<Rightarrow> wexc + (skey \<times> skey)"
  g_actualBalance :: "'w \<Rightarrow> wexc + u64"
  g_pendingBalance :: "'w \<Rightarrow> wexc + u64"
  g_actualBalanceOf :: "'w \<Rightarrow> string \<Rightarrow> wexc + u64"
  g_pendingBalanceOf :: "'w \<Rightarrow> string \<Rightarrow> wexc + u64"
  g_transactionCount :: "'w \<Rightarrow> wexc + nat"
  g_transferCount :: "'w \<Rightarrow> nat \<Rightarrow> wexc + nat"
  g_transaction :: "'w \<Rightarrow> nat \<Rightarrow> wexc + wallet_transaction"
  g_transferAt :: "'w \<Rightarrow> nat \<Rightarrow> nat \<Rightarrow> wexc + wallet_transfer"
  g_txSecretKey :: "'w \<Rightarrow> nat \<Rightarrow> wexc + skey"
  g_txSecretKeyOf :: "'w \<Rightarrow> string \<Rightarrow> wexc + skey"
  g_txProof :: "'w \<Rightarrow> string \<Rightarrow> string \<Rightarrow> skey \<Rightarrow> wexc + (bool \<times> string)"
  g_reserveProof :: "'w \<Rightarrow> u64 \<Rightarrow> string \<Rightarrow> string \<Rightarrow> wexc + string"
  g_sign :: "'w \<Rightarrow> string \<Rightarrow> string \<Rightarrow> wexc + string"
  g_verify :: "'w \<Rightarrow> string \<Rightarrow> string \<Rightarrow> string \<Rightarrow> bool"
  g_registrationExtra :: "skey \<Rightarrow> skey \<Rightarrow> string option"
  g_dustThreshold :: u64
  g_nodeMinimalFee :: u64


section \<open>Statuses\<close>

datatype init_status = INIT_SUCCESS | INIT_WRONG_PASSWORD | INIT_INTERNAL_ERROR
datatype save_status = SAVE_SUCCESS | SAVE_ERROR
datatype password_status = PASSWORD_SUCCESS | PASSWORD_ERROR
datatype send_status =
  SEND_SUCCESS | SEND_BIG_TRANSACTION_SIZE | SEND_WRONG_AMOUNT | SEND_BIG_MIXIN | SEND_INTERNAL_ERROR

definition getInitStatus :: "error_codes \<Rightarrow> int \<Rightarrow> init_status" where
  "getInitStatus ec code =
     (if code = 0 then INIT_SUCCESS
      else if code = WRONG_PASSWORD ec then INIT_WRONG_PASSWORD
      else if code = INTERNAL_WALLET_ERROR ec then INIT_INTERNAL_ERROR
      else INIT_INTERNAL_ERROR)"

definition getSaveStatus :: "error_codes \<Rightarrow> int \<Rightarrow> save_status" where
  "getSaveStatus ec code =
     (if code = 0 then SAVE_SUCCESS
      else if code = INTERNAL_WALLET_ERROR ec then SAVE_ERROR
      else SAVE_ERROR)"

definition getPasswordStatus :: "int \<Rightarrow> password_status" where
  "getPasswordStatus code = (if code = 0 then PASSWORD_SUCCESS else PASSWORD_ERROR)"

definition getSendStatus :: "error_codes \<Rightarrow> int \<Rightarrow> send_status" where
  "getSendStatus ec code =
     (if code = 0 then SEND_SUCCESS
      else if code = WRONG_AMOUNT ec then SEND_WRONG_AMOUNT
      else if code = MIXIN_COUNT_TOO_BIG ec then SEND_BIG_MIXIN
      else if code = TRANSACTION_SIZE_TOO_BIG ec then SEND_BIG_TRANSACTION_SIZE
      else SEND_INTERNAL_ERROR)"


section \<open>State\<close>

datatype ww_signal =
    WalletOpened
  | WalletOpenError init_status
  | WalletClosed
  | PasswordChanged
  | SyncProgress u32 u32
  | SyncCompleted
  | BalanceUpdated u64 u64
  | ExternalTransactionCreated nat full_tx
  | TransactionUpdated nat full_tx
  | AddressCreated nat string
  | AddressDeleted nat string

record 'w ww_state =
  ww_wallet :: "'w option"
  ww_userData :: string
  ww_isOpen :: bool
  ww_isEncrypted :: bool
  ww_isSaved :: bool
  ww_eventLoop :: bool
  ww_observers :: "nat list"
  ww_signals :: "ww_signal list"

definition ww_new :: "'w ww_state" where
  "ww_new = \<lparr>ww_wallet = None, ww_userData = [], ww_isOpen = False, ww_isEncrypted = False,
     ww_isSaved = False, ww_eventLoop = False, ww_observers = [], ww_signals = []\<rparr>"

definition ww_emit :: "ww_signal \<Rightarrow> 'w ww_state \<Rightarrow> 'w ww_state" where
  "ww_emit g s = s\<lparr>ww_signals := ww_signals s @ [g]\<rparr>"

definition error_of :: "error_codes \<Rightarrow> wexc + 'a \<Rightarrow> int" where
  "error_of ec r =
     (case r of Inl (SystemError c) \<Rightarrow> c | Inl StdException \<Rightarrow> INTERNAL_WALLET_ERROR ec | Inr _ \<Rightarrow> 0)"

text \<open>createObjects and start, run in the worker's thread by init.\<close>

definition createObjects :: "'w green \<Rightarrow> 'w ww_state \<Rightarrow> 'w ww_state" where
  "createObjects G s = s\<lparr>ww_wallet := Some (g_new G)\<rparr>"

definition ww_init :: "'w green \<Rightarrow> 'w ww_state \<Rightarrow> 'w ww_state" where
  "ww_init G s = (let t = createObjects G s in t\<lparr>ww_wallet := map_option (g_start G) (ww_wallet t)\<rparr>)"

definition ww_addObserver :: "nat \<Rightarrow> 'w ww_state \<Rightarrow> 'w ww_state" where
  "ww_addObserver ob s = s\<lparr>ww_observers := ww_observers s @ [ob]\<rparr>"

definition ww_removeObserver :: "nat \<Rightarrow> 'w ww_state \<Rightarrow> 'w ww_state" where
  "ww_removeObserver ob s =
     (if ob \<notin> set (ww_observers s) then s
      else s\<lparr>ww_observers := filter (\<lambda>x. x \<noteq> ob) (ww_observers s)\<rparr>)"

definition deleteObjects :: "'w ww_state \<Rightarrow> 'w ww_state" where
  "deleteObjects s =
     (fold ww_removeObserver (ww_observers s) s)\<lparr>ww_observers := [], ww_wallet := None, ww_eventLoop := False\<rparr>"

text \<open>deinit wakes initImpl, which stops the wallet and deletes the objects.\<close>

definition ww_deinit :: "'w ww_state \<Rightarrow> 'w ww_state" where
  "ww_deinit s = deleteObjects s"

definition startEventLoop :: "'w ww_state \<Rightarrow> 'w ww_state" where
  "startEventLoop s = s\<lparr>ww_eventLoop := True\<rparr>"

definition opened :: "bool \<Rightarrow> 'w ww_state \<Rightarrow> 'w ww_state" where
  "opened encrypted s =
     (let t = startEventLoop s;
          u = (if encrypted then t\<lparr>ww_isEncrypted := True\<rparr> else t)
      in ww_emit WalletOpened (u\<lparr>ww_isOpen := True\<rparr>))"


section \<open>Creating and loading\<close>

text \<open>The common shape of create, createHd and the key imports: init, one task, open on success.\<close>

definition create_with ::
  "'w green \<Rightarrow> ('w, 'a) call \<Rightarrow> 'w ww_state \<Rightarrow> ('w ww_state \<times> init_status) option" where
  "create_with G task s =
     (case ww_wallet s of
        Some _ \<Rightarrow> None
      | None \<Rightarrow>
          let s0 = ww_init G s;
              (w1, r) = task (g_start G (g_new G));
              s1 = s0\<lparr>ww_wallet := Some w1\<rparr>;
              code = error_of (g_codes G) r
          in Some (if code = 0 then opened False s1 else s1, getInitStatus (g_codes G) code))"

definition ww_create ::
  "'w green \<Rightarrow> string \<Rightarrow> string \<Rightarrow> 'w ww_state \<Rightarrow> ('w ww_state \<times> init_status) option" where
  "ww_create G path pwd s =
     create_with G (then_call (g_initialize G path pwd) (\<lambda>_. g_createAddress G)) s"

definition ww_createHd ::
  "'w green \<Rightarrow> string \<Rightarrow> string \<Rightarrow> account_keys \<Rightarrow> u32 \<Rightarrow> bool \<Rightarrow> 'w ww_state \<Rightarrow> ('w ww_state \<times> init_status) option" where
  "ww_createHd G path pwd ks n fromStart s =
     create_with G
       (then_call (g_initializeWithViewKey G path pwd (viewSecret ks) (if fromStart then Some 0 else None))
         (\<lambda>_. then_call (g_setAddressGenerationMode G HD_DETERMINISTIC (spendSecret ks))
           (\<lambda>_. repeat_call (unat (if n = 0 then 1 else n))
                  (if fromStart then g_createAddressAt G 0 else g_createAddress G)))) s"

definition add_key_address :: "'w green \<Rightarrow> account_keys \<Rightarrow> u64 option \<Rightarrow> ('w, string) call" where
  "add_key_address G ks ts =
     (if spendSecret ks = NULL_KEY then g_createAddressPublic G (spendPublic ks)
      else g_createAddressSecret G (spendSecret ks) ts)"

definition ww_createWithKeys ::
  "'w green \<Rightarrow> string \<Rightarrow> account_keys \<Rightarrow> 'w ww_state \<Rightarrow> ('w ww_state \<times> init_status) option" where
  "ww_createWithKeys G path ks s =
     create_with G (then_call (g_initializeWithViewKey G path [] (viewSecret ks) None)
       (\<lambda>_. add_key_address G ks None)) s"

definition ww_createWithKeysAndTimestamp ::
  "'w green \<Rightarrow> string \<Rightarrow> account_keys \<Rightarrow> u64 \<Rightarrow> 'w ww_state \<Rightarrow> ('w ww_state \<times> init_status) option" where
  "ww_createWithKeysAndTimestamp G path ks ts s =
     create_with G (then_call (g_initializeWithViewKey G path [] (viewSecret ks) (Some ts))
       (\<lambda>_. add_key_address G ks (Some ts))) s"

definition finish_load ::
  "'w green \<Rightarrow> string \<Rightarrow> int \<Rightarrow> 'w ww_state \<Rightarrow> 'w ww_state \<times> init_status" where
  "finish_load G pwd code s =
     (let st = getInitStatus (g_codes G) code
      in if st = INIT_SUCCESS then (opened (pwd \<noteq> []) s, st) else (ww_emit (WalletOpenError st) s, st))"

definition ww_load ::
  "'w green \<Rightarrow> string \<Rightarrow> string \<Rightarrow> 'w ww_state \<Rightarrow> ('w ww_state \<times> init_status) option" where
  "ww_load G path pwd s =
     (case ww_wallet s of
        Some _ \<Rightarrow> None
      | None \<Rightarrow>
          let s0 = ww_init G s;
              (w1, r) = g_load G path pwd (g_start G (g_new G));
              s1 = s0\<lparr>ww_wallet := Some w1\<rparr>;
              s2 = (case r of Inr ud \<Rightarrow> s1\<lparr>ww_userData := ud\<rparr> | Inl _ \<Rightarrow> s1)
          in Some (finish_load G pwd (error_of (g_codes G) r) s2))"

text \<open>The key file is imported into a fresh wallet file, which is then loaded without user data.\<close>

definition ww_loadLegacyKeys ::
  "'w green \<Rightarrow> string \<Rightarrow> string \<Rightarrow> string \<Rightarrow> 'w ww_state \<Rightarrow> ('w ww_state \<times> init_status) option" where
  "ww_loadLegacyKeys G keyFile path pwd s =
     (case ww_wallet s of
        Some _ \<Rightarrow> None
      | None \<Rightarrow>
          let s0 = ww_init G s;
              (w1, r) = then_call (g_importLegacyKeys G keyFile pwd path) (\<lambda>_. g_load G path pwd)
                          (g_start G (g_new G))
          in Some (finish_load G pwd (error_of (g_codes G) r) (s0\<lparr>ww_wallet := Some w1\<rparr>)))"


section \<open>Saving, password and closing\<close>

text \<open>One task on the open wallet; None when there is no wallet (Q_ASSERT).\<close>

definition run_task :: "('w, 'a) call \<Rightarrow> 'w ww_state \<Rightarrow> ('w ww_state \<times> (wexc + 'a)) option" where
  "run_task task s =
     (case ww_wallet s of
        None \<Rightarrow> None
      | Some w \<Rightarrow> (let (w1, r) = task w in Some (s\<lparr>ww_wallet := Some w1\<rparr>, r)))"

definition ww_save ::
  "'w green \<Rightarrow> save_level \<Rightarrow> bool \<Rightarrow> 'w ww_state \<Rightarrow> ('w ww_state \<times> save_status) option" where
  "ww_save G level saveUserData s =
     (if ww_wallet s = None then None
      else if ww_isSaved s \<and> level = SAVE_ALL then Some (s, getSaveStatus (g_codes G) 0)
      else
        let ud = (if saveUserData \<and> ww_userData s \<noteq> [] then ww_userData s else []) in
        (case run_task (g_save G level ud) s of
           None \<Rightarrow> None
         | Some (s1, r) \<Rightarrow>
             let code = error_of (g_codes G) r
             in Some (if code = 0 \<and> level = SAVE_ALL then s1\<lparr>ww_isSaved := True\<rparr> else s1,
                      getSaveStatus (g_codes G) code)))"

definition ww_exportWallet ::
  "'w green \<Rightarrow> string \<Rightarrow> bool \<Rightarrow> save_level \<Rightarrow> bool \<Rightarrow> 'w ww_state \<Rightarrow> ('w ww_state \<times> save_status) option" where
  "ww_exportWallet G path encrypt level saveUserData s =
     (case run_task (g_export G path encrypt level (ww_userData s)) s of
        None \<Rightarrow> None
      | Some (s1, r) \<Rightarrow> Some (s1, getSaveStatus (g_codes G) (error_of (g_codes G) r)))"

definition ww_changePassword ::
  "'w green \<Rightarrow> string \<Rightarrow> string \<Rightarrow> 'w ww_state \<Rightarrow> ('w ww_state \<times> password_status) option" where
  "ww_changePassword G old new s =
     (case run_task (g_changePassword G old new) s of
        None \<Rightarrow> None
      | Some (s1, r) \<Rightarrow>
          let code = error_of (g_codes G) r in
          Some (if code = 0 then
                  let s2 = (if new \<noteq> [] then s1\<lparr>ww_isEncrypted := True\<rparr> else s1)
                  in ww_emit PasswordChanged (s2\<lparr>ww_isSaved := False\<rparr>)
                else s1,
                getPasswordStatus code))"

definition ww_close :: "'w ww_state \<Rightarrow> 'w ww_state option" where
  "ww_close s =
     (if ww_wallet s = None then None
      else
        let s1 = s\<lparr>ww_isOpen := False, ww_userData := []\<rparr>;
            s2 = ww_emit WalletClosed (ww_deinit s1)
        in Some (s2\<lparr>ww_isEncrypted := False, ww_isSaved := False\<rparr>))"

definition ww_getUserData :: "'w ww_state \<Rightarrow> string" where
  "ww_getUserData s = ww_userData s"

definition ww_setUserData :: "string \<Rightarrow> 'w ww_state \<Rightarrow> 'w ww_state" where
  "ww_setUserData d s = s\<lparr>ww_userData := d\<rparr>"


section \<open>Queries\<close>

text \<open>A query that throws is answered with the default of the code.\<close>

definition ask :: "('w \<Rightarrow> wexc + 'a) \<Rightarrow> 'a \<Rightarrow> 'w ww_state \<Rightarrow> 'a option" where
  "ask q d s = map_option (\<lambda>w. case q w of Inr a \<Rightarrow> a | Inl _ \<Rightarrow> d) (ww_wallet s)"

definition ww_getAddressGenerationMode :: "'w green \<Rightarrow> 'w ww_state \<Rightarrow> gen_mode option" where
  "ww_getAddressGenerationMode G s = ask (g_generationMode G) INDEPENDENT_SPEND_KEYS s"

definition ww_getAddress :: "'w green \<Rightarrow> nat \<Rightarrow> 'w ww_state \<Rightarrow> string option" where
  "ww_getAddress G i s = ask (\<lambda>w. g_address G w i) [] s"

definition ww_getAddressCount :: "'w green \<Rightarrow> 'w ww_state \<Rightarrow> nat option" where
  "ww_getAddressCount G s = ask (g_addressCount G) 0 s"

definition zero_keys :: account_keys where
  "zero_keys = \<lparr>viewPublic = NULL_KEY, viewSecret = NULL_KEY, spendPublic = NULL_KEY, spendSecret = NULL_KEY\<rparr>"

definition read_keys :: "'w green \<Rightarrow> nat \<Rightarrow> 'w \<Rightarrow> wexc + account_keys" where
  "read_keys G i w =
     (case g_viewKey G w of
        Inl e \<Rightarrow> Inl e
      | Inr (vp, vs) \<Rightarrow>
          (case g_spendKey G w i of
             Inl e \<Rightarrow> Inl e
           | Inr (sp, ss) \<Rightarrow>
               Inr \<lparr>viewPublic = vp, viewSecret = vs, spendPublic = sp, spendSecret = ss\<rparr>))"

definition ww_getAccountKeys :: "'w green \<Rightarrow> nat \<Rightarrow> 'w ww_state \<Rightarrow> account_keys option" where
  "ww_getAccountKeys G i s = ask (read_keys G i) zero_keys s"

definition ww_isTrackingWallet :: "'w green \<Rightarrow> 'w ww_state \<Rightarrow> bool option" where
  "ww_isTrackingWallet G s = map_option (\<lambda>k. spendSecret k = NULL_KEY) (ww_getAccountKeys G 0 s)"

definition ww_getActualBalance :: "'w green \<Rightarrow> 'w ww_state \<Rightarrow> u64 option" where
  "ww_getActualBalance G s = ask (g_actualBalance G) (- 1) s"

definition ww_getPendingBalance :: "'w green \<Rightarrow> 'w ww_state \<Rightarrow> u64 option" where
  "ww_getPendingBalance G s = ask (g_pendingBalance G) (- 1) s"

definition balance_at ::
  "('w \<Rightarrow> wexc + nat) \<Rightarrow> ('w \<Rightarrow> nat \<Rightarrow> wexc + string) \<Rightarrow> ('w \<Rightarrow> string \<Rightarrow> wexc + u64) \<Rightarrow> nat \<Rightarrow> 'w \<Rightarrow> wexc + u64" where
  "balance_at cnt adr bal i w =
     (case cnt w of
        Inl e \<Rightarrow> Inl e
      | Inr n \<Rightarrow> if i \<ge> n then Inr 0
                 else (case adr w i of Inl e \<Rightarrow> Inl e | Inr a \<Rightarrow> bal w a))"

definition ww_getActualBalanceAt :: "'w green \<Rightarrow> nat \<Rightarrow> 'w ww_state \<Rightarrow> u64 option" where
  "ww_getActualBalanceAt G i s = ask (balance_at (g_addressCount G) (g_address G) (g_actualBalanceOf G) i) 0 s"

definition ww_getPendingBalanceAt :: "'w green \<Rightarrow> nat \<Rightarrow> 'w ww_state \<Rightarrow> u64 option" where
  "ww_getPendingBalanceAt G i s = ask (balance_at (g_addressCount G) (g_address G) (g_pendingBalanceOf G) i) 0 s"

definition ww_getTransactionCount :: "'w green \<Rightarrow> nat \<Rightarrow> 'w ww_state \<Rightarrow> nat option" where
  "ww_getTransactionCount G invalidId s = ask (g_transactionCount G) invalidId s"

definition ww_getTransactionTransferCount :: "'w green \<Rightarrow> nat \<Rightarrow> nat \<Rightarrow> 'w ww_state \<Rightarrow> nat option" where
  "ww_getTransactionTransferCount G invalidId i s = ask (\<lambda>w. g_transferCount G w i) invalidId s"

text \<open>Queries that report success as a bool leave their out parameter alone when they fail.\<close>

definition ask_into :: "('w \<Rightarrow> wexc + 'a) \<Rightarrow> 'a \<Rightarrow> 'w ww_state \<Rightarrow> ('a \<times> bool) option" where
  "ask_into q out s = map_option (\<lambda>w. case q w of Inr a \<Rightarrow> (a, True) | Inl _ \<Rightarrow> (out, False)) (ww_wallet s)"

definition ww_getTransaction ::
  "'w green \<Rightarrow> nat \<Rightarrow> wallet_transaction \<Rightarrow> 'w ww_state \<Rightarrow> (wallet_transaction \<times> bool) option" where
  "ww_getTransaction G i out s = ask_into (\<lambda>w. g_transaction G w i) out s"

definition ww_getTransactionTransfer ::
  "'w green \<Rightarrow> nat \<Rightarrow> nat \<Rightarrow> wallet_transfer \<Rightarrow> 'w ww_state \<Rightarrow> (wallet_transfer \<times> bool) option" where
  "ww_getTransactionTransfer G i j out s = ask_into (\<lambda>w. g_transferAt G w i j) out s"

text \<open>The transfers of a transaction, in order, up to the first exception.\<close>

fun collect_transfers :: "'w green \<Rightarrow> nat \<Rightarrow> 'w \<Rightarrow> nat list \<Rightarrow> wallet_transfer list \<Rightarrow> wallet_transfer list \<times> bool" where
  "collect_transfers G i w [] acc = (acc, True)"
| "collect_transfers G i w (j # js) acc =
     (case g_transferAt G w i j of
        Inl _ \<Rightarrow> (acc, False)
      | Inr tr \<Rightarrow> collect_transfers G i w js (acc @ [tr]))"

definition read_full :: "'w green \<Rightarrow> nat \<Rightarrow> full_tx \<Rightarrow> 'w \<Rightarrow> full_tx \<times> bool" where
  "read_full G i info w =
     (case g_transaction G w i of
        Inl _ \<Rightarrow> (info, False)
      | Inr tx \<Rightarrow>
          let info1 = info\<lparr>ft_transaction := tx\<rparr> in
          (case g_transferCount G w i of
             Inl _ \<Rightarrow> (info1, False)
           | Inr n \<Rightarrow>
               let (trs, ok) = collect_transfers G i w [0..<n] (ft_transfers info1)
               in (info1\<lparr>ft_transfers := trs\<rparr>, ok)))"

definition ww_getFullTransactionInfo ::
  "'w green \<Rightarrow> nat \<Rightarrow> full_tx \<Rightarrow> 'w ww_state \<Rightarrow> (full_tx \<times> bool) option" where
  "ww_getFullTransactionInfo G i info s = map_option (read_full G i info) (ww_wallet s)"

definition getSyncFullTransactionInfo ::
  "'w green \<Rightarrow> nat \<Rightarrow> full_tx \<Rightarrow> 'w ww_state \<Rightarrow> (full_tx \<times> bool) option" where
  "getSyncFullTransactionInfo G i info s = map_option (read_full G i info) (ww_wallet s)"

definition empty_full :: full_tx where
  "empty_full = \<lparr>ft_transaction = \<lparr>wt_state = TX_SUCCEEDED, wt_timestamp = 0, wt_blockHeight = 0,
     wt_hash = [], wt_totalAmount = 0, wt_fee = 0, wt_extra = [], wt_isBase = False\<rparr>, ft_transfers = []\<rparr>"

fun collect_all ::
  "'w green \<Rightarrow> 'w \<Rightarrow> nat list \<Rightarrow> (nat \<Rightarrow> full_tx option) \<Rightarrow> (nat \<Rightarrow> full_tx option) \<times> bool" where
  "collect_all G w [] m = (m, True)"
| "collect_all G w (i # is) m =
     (case read_full G i empty_full w of
        (info, True) \<Rightarrow> collect_all G w is (m(i \<mapsto> info))
      | (_, False) \<Rightarrow> (m, False))"

text \<open>getTransactionCount stands outside the try block: Inl is its exception leaving the task.\<close>

definition ww_getAllTransactions ::
  "'w green \<Rightarrow> (nat \<Rightarrow> full_tx option) \<Rightarrow> 'w ww_state \<Rightarrow> (wexc + ((nat \<Rightarrow> full_tx option) \<times> bool)) option" where
  "ww_getAllTransactions G m s =
     map_option (\<lambda>w. case g_transactionCount G w of
        Inl e \<Rightarrow> Inl e
      | Inr n \<Rightarrow> Inr (collect_all G w [0..<n] m)) (ww_wallet s)"

definition ww_getTransactionSecretKey :: "'w green \<Rightarrow> nat \<Rightarrow> 'w ww_state \<Rightarrow> (wexc + skey) option" where
  "ww_getTransactionSecretKey G i s = map_option (\<lambda>w. g_txSecretKey G w i) (ww_wallet s)"

definition ww_getTransactionSecretKeyOf :: "'w green \<Rightarrow> string \<Rightarrow> 'w ww_state \<Rightarrow> (wexc + skey) option" where
  "ww_getTransactionSecretKeyOf G h s = map_option (\<lambda>w. g_txSecretKeyOf G w h) (ww_wallet s)"

definition ww_getTransactionProof ::
  "'w green \<Rightarrow> string \<Rightarrow> string \<Rightarrow> 'w ww_state \<Rightarrow> (wexc + string) option" where
  "ww_getTransactionProof G h a s =
     map_option (\<lambda>w. case g_txSecretKeyOf G w h of
        Inl e \<Rightarrow> Inl e
      | Inr k \<Rightarrow> (case g_txProof G w h a k of
                    Inl e \<Rightarrow> Inl e
                  | Inr (r, proof) \<Rightarrow> Inr (if r then proof else []))) (ww_wallet s)"


section \<open>Addresses\<close>

text \<open>index = getAddressCount() - 1 in 64-bit unsigned arithmetic.\<close>

definition pred64 :: "nat \<Rightarrow> nat" where
  "pred64 n = (if n = 0 then 2 ^ 64 - 1 else n - 1)"

definition create_address_with ::
  "'w green \<Rightarrow> ('w, string) call \<Rightarrow> 'w ww_state \<Rightarrow> ('w ww_state \<times> string) option" where
  "create_address_with G f s =
     (case run_task (then_call f (\<lambda>a. then_call (query_call (g_addressCount G)) (\<lambda>n w. (w, Inr (a, pred64 n))))) s of
        None \<Rightarrow> None
      | Some (s1, Inl _) \<Rightarrow> Some (s1, [])
      | Some (s1, Inr (a, i)) \<Rightarrow>
          Some (if a \<noteq> [] then ww_emit (AddressCreated i a) (s1\<lparr>ww_isSaved := False\<rparr>) else s1, a))"

definition ww_createAddress :: "'w green \<Rightarrow> 'w ww_state \<Rightarrow> ('w ww_state \<times> string) option" where
  "ww_createAddress G s = create_address_with G (g_createAddress G) s"

definition ww_createAddressKeys ::
  "'w green \<Rightarrow> account_keys \<Rightarrow> 'w ww_state \<Rightarrow> ('w ww_state \<times> string) option" where
  "ww_createAddressKeys G ks s = create_address_with G (add_key_address G ks None) s"

text \<open>The task answers the deleted address, or None when the index is out of range.\<close>

definition delete_task :: "'w green \<Rightarrow> nat \<Rightarrow> ('w, string option) call" where
  "delete_task G i =
     then_call (query_call (g_addressCount G)) (\<lambda>n.
       if i \<ge> n then (\<lambda>w. (w, Inr None))
       else then_call (query_call (\<lambda>w. g_address G w i)) (\<lambda>a.
              then_call (g_deleteAddress G a) (\<lambda>_ w. (w, Inr (Some a)))))"

definition ww_deleteAddress :: "'w green \<Rightarrow> nat \<Rightarrow> 'w ww_state \<Rightarrow> 'w ww_state option" where
  "ww_deleteAddress G i s =
     (case run_task (delete_task G i) s of
        None \<Rightarrow> None
      | Some (s1, Inr (Some a)) \<Rightarrow>
          let s2 = ww_emit (AddressDeleted i a) (s1\<lparr>ww_isSaved := False\<rparr>)
          in (case (ww_getActualBalance G s2, ww_getPendingBalance G s2) of
                (Some x, Some y) \<Rightarrow> Some (ww_emit (BalanceUpdated x y) s2)
              | _ \<Rightarrow> None)
      | Some (s1, _) \<Rightarrow> Some s1)"


section \<open>Transactions and proofs\<close>

definition ww_sendTransaction ::
  "'w green \<Rightarrow> tx_params \<Rightarrow> 'w ww_state \<Rightarrow> ('w ww_state \<times> send_status) option" where
  "ww_sendTransaction G p s =
     (case run_task (g_transfer G p) s of
        None \<Rightarrow> None
      | Some (s1, r) \<Rightarrow> Some (s1, getSendStatus (g_codes G) (error_of (g_codes G) r)))"

definition registration_params :: "'w green \<Rightarrow> string \<Rightarrow> string \<Rightarrow> tx_params" where
  "registration_params G a extra =
     \<lparr>tp_sources = [a], tp_destinations = [\<lparr>or_address = a, or_amount = g_dustThreshold G\<rparr>],
      tp_fee = g_nodeMinimalFee G, tp_mixIn = 0, tp_extra = extra, tp_unlock = 0, tp_change = a, tp_donation = None\<rparr>"

definition ww_registerAccountNumber ::
  "'w green \<Rightarrow> nat \<Rightarrow> 'w ww_state \<Rightarrow> ('w ww_state \<times> send_status) option" where
  "ww_registerAccountNumber G i s =
     (case (ww_isTrackingWallet G s, ww_getAddressCount G s, ww_getAccountKeys G i s, ww_getAddress G i s) of
        (Some tracking, Some n, Some ks, Some a) \<Rightarrow>
          if tracking then Some (s, SEND_INTERNAL_ERROR)
          else if i \<ge> n then Some (s, SEND_INTERNAL_ERROR)
          else if a = [] then Some (s, SEND_INTERNAL_ERROR)
          else (case g_registrationExtra G (spendPublic ks) (viewPublic ks) of
                  None \<Rightarrow> Some (s, SEND_INTERNAL_ERROR)
                | Some extra \<Rightarrow> ww_sendTransaction G (registration_params G a extra) s)
      | _ \<Rightarrow> None)"

text \<open>The errors the worker throws itself; LibError is an exception of the library.\<close>

datatype proof_error = TrackingWallet | ZeroBalance | NotEnoughBalance | LibError wexc

definition lib_result :: "wexc + 'a \<Rightarrow> proof_error + 'a" where
  "lib_result r = (case r of Inl e \<Rightarrow> Inl (LibError e) | Inr a \<Rightarrow> Inr a)"

definition ww_getBalanceProof ::
  "'w green \<Rightarrow> u64 \<Rightarrow> string \<Rightarrow> 'w ww_state \<Rightarrow> (proof_error + string) option" where
  "ww_getBalanceProof G amount msg s =
     (case (ww_isTrackingWallet G s, ww_getActualBalance G s, ww_wallet s) of
        (Some tracking, Some bal, Some w) \<Rightarrow>
          Some (if tracking then Inl TrackingWallet
                else if bal = 0 then Inl ZeroBalance
                else if bal < amount then Inl NotEnoughBalance
                else (case g_address G w 0 of
                        Inl e \<Rightarrow> Inl (LibError e)
                      | Inr a \<Rightarrow> lib_result (g_reserveProof G w amount a msg)))
      | _ \<Rightarrow> None)"

definition ww_signMessage ::
  "'w green \<Rightarrow> string \<Rightarrow> string \<Rightarrow> 'w ww_state \<Rightarrow> (proof_error + string) option" where
  "ww_signMessage G msg a s =
     (case (ww_isTrackingWallet G s, ww_wallet s) of
        (Some tracking, Some w) \<Rightarrow>
          Some (if tracking then Inl TrackingWallet
                else if a = [] then
                  (case g_address G w 0 of
                     Inl e \<Rightarrow> Inl (LibError e)
                   | Inr a0 \<Rightarrow> lib_result (g_sign G w msg a0))
                else lib_result (g_sign G w msg a))
      | _ \<Rightarrow> None)"

definition ww_verifyMessage :: "'w green \<Rightarrow> string \<Rightarrow> string \<Rightarrow> string \<Rightarrow> 'w ww_state \<Rightarrow> bool option" where
  "ww_verifyMessage G msg a sig s = map_option (\<lambda>w. g_verify G w msg a sig) (ww_wallet s)"


section \<open>Events of the wallet\<close>

datatype wallet_event =
    BALANCE_UNLOCKED
  | TRANSACTION_CREATED nat
  | TRANSACTION_UPDATED nat
  | SYNC_PROGRESS_UPDATED u32 u32
  | SYNC_COMPLETED

text \<open>The balances are arguments of the emission: if one throws, the signal is not emitted.\<close>

definition emit_balance :: "'w green \<Rightarrow> 'w \<Rightarrow> 'w ww_state \<Rightarrow> 'w ww_state" where
  "emit_balance G w s =
     (case (g_actualBalance G w, g_pendingBalance G w) of
        (Inr a, Inr p) \<Rightarrow> ww_emit (BalanceUpdated a p) s
      | _ \<Rightarrow> s)"

fun processEvent :: "'w green \<Rightarrow> wallet_event \<Rightarrow> 'w \<Rightarrow> 'w ww_state \<Rightarrow> 'w ww_state" where
  "processEvent G BALANCE_UNLOCKED w s = emit_balance G w (s\<lparr>ww_isSaved := False\<rparr>)"
| "processEvent G (TRANSACTION_CREATED i) w s =
     (let s1 = s\<lparr>ww_isSaved := False\<rparr>;
          (info, ok) = read_full G i empty_full w
      in if ok then emit_balance G w (ww_emit (ExternalTransactionCreated i info) s1) else s1)"
| "processEvent G (TRANSACTION_UPDATED i) w s =
     (let s1 = s\<lparr>ww_isSaved := False\<rparr>;
          (info, ok) = read_full G i empty_full w
      in if ok then emit_balance G w (ww_emit (TransactionUpdated i info) s1) else s1)"
| "processEvent G (SYNC_PROGRESS_UPDATED cur tot) w s =
     ww_emit (SyncProgress cur tot) (s\<lparr>ww_isSaved := False\<rparr>)"
| "processEvent G SYNC_COMPLETED w s = ww_emit SyncCompleted s"

text \<open>The event loop hands over an event of the running wallet, whose state may have moved.\<close>

definition ww_event :: "'w green \<Rightarrow> wallet_event \<Rightarrow> 'w \<Rightarrow> 'w ww_state \<Rightarrow> 'w ww_state option" where
  "ww_event G ev w s =
     (if ww_eventLoop s \<and> ww_wallet s \<noteq> None then Some (processEvent G ev w (s\<lparr>ww_wallet := Some w\<rparr>)) else None)"


section \<open>Basic facts\<close>

lemmas create_defs = ww_create_def ww_createHd_def ww_createWithKeys_def ww_createWithKeysAndTimestamp_def

lemma getInitStatus_success [simp]: "getInitStatus ec c = INIT_SUCCESS \<longleftrightarrow> c = 0"
  by (simp add: getInitStatus_def)

lemma getSaveStatus_success [simp]: "getSaveStatus ec c = SAVE_SUCCESS \<longleftrightarrow> c = 0"
  by (simp add: getSaveStatus_def)

lemma getPasswordStatus_success [simp]: "getPasswordStatus c = PASSWORD_SUCCESS \<longleftrightarrow> c = 0"
  by (simp add: getPasswordStatus_def)

lemma getSendStatus_success [simp]: "getSendStatus ec c = SEND_SUCCESS \<longleftrightarrow> c = 0"
  by (simp add: getSendStatus_def)

lemma ww_emit_simps [simp]:
  "ww_wallet (ww_emit g s) = ww_wallet s" "ww_userData (ww_emit g s) = ww_userData s"
  "ww_isOpen (ww_emit g s) = ww_isOpen s" "ww_isEncrypted (ww_emit g s) = ww_isEncrypted s"
  "ww_isSaved (ww_emit g s) = ww_isSaved s" "ww_eventLoop (ww_emit g s) = ww_eventLoop s"
  "ww_observers (ww_emit g s) = ww_observers s" "ww_signals (ww_emit g s) = ww_signals s @ [g]"
  by (simp_all add: ww_emit_def)

lemma opened_simps [simp]:
  "ww_wallet (opened e s) = ww_wallet s" "ww_userData (opened e s) = ww_userData s"
  "ww_isOpen (opened e s)" "ww_isEncrypted (opened e s) = (e \<or> ww_isEncrypted s)"
  "ww_isSaved (opened e s) = ww_isSaved s" "ww_eventLoop (opened e s)"
  "ww_observers (opened e s) = ww_observers s" "ww_signals (opened e s) = ww_signals s @ [WalletOpened]"
  by (simp_all add: opened_def startEventLoop_def Let_def)

lemma ww_init_simps [simp]:
  "ww_wallet (ww_init G s) = Some (g_start G (g_new G))" "ww_userData (ww_init G s) = ww_userData s"
  "ww_isOpen (ww_init G s) = ww_isOpen s" "ww_isEncrypted (ww_init G s) = ww_isEncrypted s"
  "ww_isSaved (ww_init G s) = ww_isSaved s" "ww_eventLoop (ww_init G s) = ww_eventLoop s"
  "ww_observers (ww_init G s) = ww_observers s" "ww_signals (ww_init G s) = ww_signals s"
  by (simp_all add: ww_init_def createObjects_def Let_def)

lemma fold_removeObserver [simp]:
  "ww_isOpen (fold ww_removeObserver obs s) = ww_isOpen s"
  "ww_userData (fold ww_removeObserver obs s) = ww_userData s"
  "ww_signals (fold ww_removeObserver obs s) = ww_signals s"
  by (induction obs arbitrary: s) (simp_all add: ww_removeObserver_def)

lemma close_simps:
  assumes "ww_close s = Some t"
  shows "ww_wallet t = None" "\<not> ww_isOpen t" "\<not> ww_isEncrypted t" "\<not> ww_isSaved t" "\<not> ww_eventLoop t"
    "ww_userData t = []" "ww_observers t = []" "ww_signals t = ww_signals s @ [WalletClosed]"
  using assms
  by (auto simp: ww_close_def ww_deinit_def deleteObjects_def Let_def split: if_splits)

lemma run_task_Some:
  "run_task f s = Some (t, r) \<longleftrightarrow> (\<exists>w w1. ww_wallet s = Some w \<and> f w = (w1, r) \<and> t = s\<lparr>ww_wallet := Some w1\<rparr>)"
  by (cases "ww_wallet s") (auto simp: run_task_def split: prod.splits)

lemma run_task_None [simp]: "run_task f s = None \<longleftrightarrow> ww_wallet s = None"
  by (cases "ww_wallet s") (auto simp: run_task_def split: prod.splits)

lemma emit_balance_simps [simp]:
  "ww_wallet (emit_balance G w s) = ww_wallet s" "ww_userData (emit_balance G w s) = ww_userData s"
  "ww_isOpen (emit_balance G w s) = ww_isOpen s" "ww_isEncrypted (emit_balance G w s) = ww_isEncrypted s"
  "ww_isSaved (emit_balance G w s) = ww_isSaved s" "ww_eventLoop (emit_balance G w s) = ww_eventLoop s"
  by (auto simp: emit_balance_def split: sum.split)


lemma not_NULL_KEY [simp]: "length k \<noteq> 32 \<Longrightarrow> k \<noteq> NULL_KEY"
  by (auto simp: NULL_KEY_def)


section \<open>A library for concrete runs\<close>

text \<open>
  The wallet is its list of addresses and the user data last saved. Calls
  succeed except those the flag of the instance makes fail.
\<close>

definition demo_codes :: error_codes where
  "demo_codes = \<lparr>WRONG_PASSWORD = 1, INTERNAL_WALLET_ERROR = 2, WRONG_AMOUNT = 3,
     MIXIN_COUNT_TOO_BIG = 4, TRANSACTION_SIZE_TOO_BIG = 5\<rparr>"

type_synonym demo = "string list \<times> string"

definition demo_add :: "string \<Rightarrow> (demo, string) call" where
  "demo_add a w = ((fst w @ [a], snd w), Inr a)"

definition demo_tx :: wallet_transaction where
  "demo_tx = \<lparr>wt_state = TX_SUCCEEDED, wt_timestamp = 0, wt_blockHeight = 0,
     wt_hash = [], wt_totalAmount = 0, wt_fee = 0, wt_extra = [], wt_isBase = False\<rparr>"

definition demo_green :: "bool \<Rightarrow> demo green" where
  "demo_green loads = \<lparr>
     g_codes = demo_codes, g_new = ([], []), g_start = (\<lambda>w. w),
     g_initialize = (\<lambda>_ _ w. (w, Inr ())), g_initializeWithViewKey = (\<lambda>_ _ _ _ w. (w, Inr ())),
     g_setAddressGenerationMode = (\<lambda>_ _ w. (w, Inr ())),
     g_createAddress = demo_add ''K'', g_createAddressAt = (\<lambda>_. demo_add ''K''),
     g_createAddressPublic = (\<lambda>_. demo_add ''K''), g_createAddressSecret = (\<lambda>_ _. demo_add ''K''),
     g_deleteAddress = (\<lambda>a w. ((remove1 a (fst w), snd w), Inr ())),
     g_load = (\<lambda>_ _ w. if loads then (([''K1''], ''d''), Inr ''d'') else (w, Inl (SystemError 1))),
     g_importLegacyKeys = (\<lambda>_ _ _ w. (w, Inr ())),
     g_save = (\<lambda>_ d w. ((fst w, d), Inr ())), g_export = (\<lambda>_ _ _ _ w. (w, Inr ())),
     g_changePassword = (\<lambda>_ _ w. (w, Inr ())), g_transfer = (\<lambda>_ w. (w, Inr 0)),
     g_generationMode = (\<lambda>_. Inr INDEPENDENT_SPEND_KEYS), g_addressCount = (\<lambda>w. Inr (length (fst w))),
     g_address = (\<lambda>w i. if i < length (fst w) then Inr (fst w ! i) else Inl StdException),
     g_viewKey = (\<lambda>_. Inr (''v'', ''V'')), g_spendKey = (\<lambda>_ _. Inr (''s'', ''S'')),
     g_actualBalance = (\<lambda>_. Inr 10), g_pendingBalance = (\<lambda>_. Inr 5),
     g_actualBalanceOf = (\<lambda>_ _. Inr 10), g_pendingBalanceOf = (\<lambda>_ _. Inr 5),
     g_transactionCount = (\<lambda>_. Inr 0), g_transferCount = (\<lambda>_ _. Inr 0),
     g_transaction = (\<lambda>_ _. Inr demo_tx),
     g_transferAt = (\<lambda>_ _ _. Inl StdException), g_txSecretKey = (\<lambda>_ _. Inr []), g_txSecretKeyOf = (\<lambda>_ _. Inr []),
     g_txProof = (\<lambda>_ _ _ _. Inr (True, [])), g_reserveProof = (\<lambda>_ _ _ _. Inr ''p''), g_sign = (\<lambda>_ _ _. Inr ''g''),
     g_verify = (\<lambda>_ _ _ _. True), g_registrationExtra = (\<lambda>_ _. Some ''x''),
     g_dustThreshold = 100, g_nodeMinimalFee = 1000\<rparr>"

definition demo_open :: "demo ww_state" where
  "demo_open = ww_new\<lparr>ww_wallet := Some ([''K1'', ''K2''], []), ww_userData := ''u'', ww_isOpen := True,
     ww_isEncrypted := True, ww_eventLoop := True\<rparr>"

lemma demo_open_simps [simp]:
  "ww_wallet demo_open = Some ([''K1'', ''K2''], [])" "ww_userData demo_open = ''u''" "ww_isOpen demo_open"
  "ww_isEncrypted demo_open" "\<not> ww_isSaved demo_open" "ww_eventLoop demo_open" "ww_signals demo_open = []"
  by (simp_all add: demo_open_def ww_new_def)


section \<open>What makes a wallet unsaved, and what a save writes\<close>

lemma save_cases:
  assumes "ww_wallet s = Some w"
  shows "ww_save G level b s =
    (if ww_isSaved s \<and> level = SAVE_ALL then Some (s, SAVE_SUCCESS)
     else let (w1, r) = g_save G level (if b then ww_userData s else []) w;
              code = error_of (g_codes G) r
          in Some (s\<lparr>ww_wallet := Some w1, ww_isSaved := (code = 0 \<and> level = SAVE_ALL \<or> ww_isSaved s)\<rparr>,
                   getSaveStatus (g_codes G) code))"
  using assms
  by (auto simp: ww_save_def run_task_def Let_def getSaveStatus_def split: prod.splits)

text \<open>
  A full save with user data does nothing but report success when the wallet
  is marked saved. Otherwise it hands the library the current user data, and the
  wallet is marked saved afterwards exactly when the save succeeded.
\<close>

theorem full_save_writes_user_data:
  assumes "ww_wallet s = Some w" "ww_save G SAVE_ALL True s = Some (t, st)"
  shows "(ww_isSaved s \<longrightarrow> t = s \<and> st = SAVE_SUCCESS) \<and>
         (\<not> ww_isSaved s \<longrightarrow> ww_wallet t = Some (fst (g_save G SAVE_ALL (ww_userData s) w)) \<and>
            ww_isSaved t = (st = SAVE_SUCCESS) \<and> ww_userData t = ww_userData s)"
  using assms by (auto simp: save_cases Let_def split: prod.splits)

theorem full_save_writes_user_data_witness:
  "\<exists>t. ww_save (demo_green True) SAVE_ALL True demo_open = Some (t, SAVE_SUCCESS) \<and>
       ww_wallet t = Some ([''K1'', ''K2''], ''u'')"
proof -
  obtain t where t: "ww_save (demo_green True) SAVE_ALL True demo_open = Some (t, SAVE_SUCCESS)"
    by (simp add: save_cases demo_green_def error_of_def getSaveStatus_def)
  from full_save_writes_user_data [OF _ this, of "([''K1'', ''K2''], [])"] show ?thesis
    by (intro exI [of _ t]) (simp add: t, simp add: demo_green_def)
qed

text \<open>
  Creating an address, deleting one, changing the password and every wallet
  event except the end of synchronisation leave the wallet marked unsaved when
  they take effect, so that the next full save reaches the library.
\<close>

theorem changes_mark_unsaved:
  "(ww_createAddress G s = Some (t, a) \<and> a \<noteq> [] \<longrightarrow> \<not> ww_isSaved t) \<and>
   (ww_createAddressKeys G ks s = Some (t, a) \<and> a \<noteq> [] \<longrightarrow> \<not> ww_isSaved t) \<and>
   (ww_deleteAddress G i s = Some t \<and> ww_signals t \<noteq> ww_signals s \<longrightarrow> \<not> ww_isSaved t) \<and>
   (ww_changePassword G old new s = Some (t, PASSWORD_SUCCESS) \<longrightarrow> \<not> ww_isSaved t) \<and>
   (ww_event G ev w s = Some t \<and> ev \<noteq> SYNC_COMPLETED \<longrightarrow> \<not> ww_isSaved t)"
proof (intro conjI impI; (elim conjE)?)
  show "\<not> ww_isSaved t" if "ww_createAddress G s = Some (t, a)" "a \<noteq> []"
    using that by (auto simp: ww_createAddress_def create_address_with_def split: option.splits sum.splits prod.splits if_splits)
  show "\<not> ww_isSaved t" if "ww_createAddressKeys G ks s = Some (t, a)" "a \<noteq> []"
    using that by (auto simp: ww_createAddressKeys_def create_address_with_def split: option.splits sum.splits prod.splits if_splits)
  show "\<not> ww_isSaved t" if "ww_deleteAddress G i s = Some t" "ww_signals t \<noteq> ww_signals s"
    using that by (auto simp: ww_deleteAddress_def Let_def run_task_Some split: option.splits sum.splits prod.splits)
  show "\<not> ww_isSaved t" if "ww_changePassword G old new s = Some (t, PASSWORD_SUCCESS)"
    using that by (auto simp: ww_changePassword_def Let_def getPasswordStatus_def split: option.splits prod.splits if_splits)
  show "\<not> ww_isSaved t" if "ww_event G ev w s = Some t" "ev \<noteq> SYNC_COMPLETED"
    using that by (cases ev) (auto simp: ww_event_def Let_def split: if_splits prod.splits)
qed

theorem changes_mark_unsaved_witness:
  "\<exists>t. ww_createAddress (demo_green True) (demo_open\<lparr>ww_isSaved := True\<rparr>) = Some (t, ''K'') \<and> \<not> ww_isSaved t"
proof -
  obtain t where t: "ww_createAddress (demo_green True) (demo_open\<lparr>ww_isSaved := True\<rparr>) = Some (t, ''K'')"
    by (simp add: ww_createAddress_def create_address_with_def run_task_def then_call_def query_call_def
        demo_green_def demo_add_def Let_def)
  with changes_mark_unsaved [where G = "demo_green True" and s = "demo_open\<lparr>ww_isSaved := True\<rparr>" and t = t and a = "''K''"]
  show ?thesis by blast
qed

text \<open>
  Setting the user data does not mark the wallet unsaved: after a successful
  full save, a change of the user data followed by another full save reports
  success without calling the library, so the wallet file keeps the old data.
\<close>

theorem user_data_change_not_saved:
  assumes "ww_save G SAVE_ALL b s = Some (t, SAVE_SUCCESS)"
  shows "ww_save G SAVE_ALL b' (ww_setUserData d t) = Some (ww_setUserData d t, SAVE_SUCCESS)"
proof -
  obtain w where w: "ww_wallet s = Some w"
    using assms by (auto simp: ww_save_def split: if_splits)
  have "ww_isSaved t" "\<exists>w'. ww_wallet t = Some w'"
    using assms w unfolding save_cases [OF w] by (auto simp: Let_def split: if_splits prod.splits)
  then show ?thesis
    by (auto simp: ww_save_def ww_setUserData_def getSaveStatus_def)
qed

theorem user_data_change_not_saved_witness:
  "ww_save (demo_green True) SAVE_ALL True
     (ww_setUserData ''new'' (demo_open\<lparr>ww_wallet := Some ([''K1'', ''K2''], ''u''), ww_isSaved := True\<rparr>))
   = Some (ww_setUserData ''new'' (demo_open\<lparr>ww_wallet := Some ([''K1'', ''K2''], ''u''), ww_isSaved := True\<rparr>), SAVE_SUCCESS)"
  by (rule user_data_change_not_saved [where s = demo_open and b = True])
    (simp add: save_cases demo_green_def error_of_def getSaveStatus_def)

text \<open>
  A password change that removes the password of an encrypted wallet leaves
  it marked encrypted: the flag is only ever set, until the wallet is closed.
\<close>

theorem empty_password_keeps_encrypted:
  assumes "ww_isEncrypted s" "ww_changePassword G old [] s = Some (t, PASSWORD_SUCCESS)"
  shows "ww_isEncrypted t \<and> last (ww_signals t) = PasswordChanged"
  using assms by (auto simp: ww_changePassword_def run_task_Some Let_def getPasswordStatus_def
      split: option.splits prod.splits if_splits)

theorem empty_password_keeps_encrypted_witness:
  "\<exists>t. ww_changePassword (demo_green True) ''old'' [] demo_open = Some (t, PASSWORD_SUCCESS) \<and> ww_isEncrypted t"
proof -
  obtain t where t: "ww_changePassword (demo_green True) ''old'' [] demo_open = Some (t, PASSWORD_SUCCESS)"
    by (simp add: ww_changePassword_def run_task_def demo_green_def error_of_def getPasswordStatus_def Let_def)
  from empty_password_keeps_encrypted [OF _ this] t show ?thesis
    by auto
qed

text \<open>
  C26. An account number is registered only by a wallet that holds the spend key,
  for an address it has, and the transaction handed to the library goes from
  that address to itself with the dust amount, the node's minimal fee and the
  registration extra of the address's public keys. Otherwise nothing is sent.
\<close>

theorem registration_is_self_transfer:
  assumes "ww_registerAccountNumber G i s = Some (t, st)" "t \<noteq> s \<or> st = SEND_SUCCESS"
  shows "\<exists>a ks extra n. ww_isTrackingWallet G s = Some False \<and> ww_getAddressCount G s = Some n \<and> i < n \<and>
           ww_getAddress G i s = Some a \<and> a \<noteq> [] \<and> ww_getAccountKeys G i s = Some ks \<and>
           g_registrationExtra G (spendPublic ks) (viewPublic ks) = Some extra \<and>
           ww_sendTransaction G
             \<lparr>tp_sources = [a], tp_destinations = [\<lparr>or_address = a, or_amount = g_dustThreshold G\<rparr>],
              tp_fee = g_nodeMinimalFee G, tp_mixIn = 0, tp_extra = extra, tp_unlock = 0, tp_change = a, tp_donation = None\<rparr> s
             = Some (t, st)"
  using assms
  by (auto simp: ww_registerAccountNumber_def registration_params_def not_le split: option.splits if_splits)

theorem registration_is_self_transfer_witness:
  "\<exists>t. ww_registerAccountNumber (demo_green True) 1 demo_open = Some (t, SEND_SUCCESS) \<and>
       ww_getAddress (demo_green True) 1 demo_open = Some ''K2''"
proof -
  obtain t where t: "ww_registerAccountNumber (demo_green True) 1 demo_open = Some (t, SEND_SUCCESS)"
    by (simp add: ww_registerAccountNumber_def ww_isTrackingWallet_def ww_getAddressCount_def
        ww_getAccountKeys_def ww_getAddress_def ask_def read_keys_def demo_green_def
        ww_sendTransaction_def run_task_def error_of_def getSendStatus_def)
  from registration_is_self_transfer [OF this] t show ?thesis
    by (auto simp: ww_getAddress_def ask_def demo_green_def)
qed

end
