(* ===== verification/WalletAdapter.thy ===== *)
theory WalletAdapter
  imports WalletWorker
begin

text \<open>
  WalletGreenAdapter (src/src/CryptoNoteWrapper/WalletGreenAdapter.cpp): the
  wallet as the rest of the program sees it. It creates a worker (and its
  thread) for each attempt to open a wallet, deletes it when the attempt fails
  or the wallet is closed, and passes every other call on.

  Lemmas: a worker exists exactly while a wallet is open, and then no assertion
  of the worker or the adapter fails.
\<close>

record 'w wa_state =
  wa_worker :: "'w ww_state option"
  wa_closedEmitted :: nat

definition wa_new :: "'w wa_state" where
  "wa_new = \<lparr>wa_worker = None, wa_closedEmitted = 0\<rparr>"

text \<open>The adapter observes its worker under this name.\<close>

definition ADAPTER :: nat where "ADAPTER = 0"

definition createWorker :: "'w wa_state \<Rightarrow> 'w ww_state option" where
  "createWorker a = (case wa_worker a of Some _ \<Rightarrow> None | None \<Rightarrow> Some (ww_addObserver ADAPTER ww_new))"

definition deleteWorker :: "'w wa_state \<Rightarrow> 'w wa_state option" where
  "deleteWorker a =
     (case wa_worker a of
        None \<Rightarrow> None
      | Some s \<Rightarrow> (case ww_close s of None \<Rightarrow> None | Some _ \<Rightarrow> Some (a\<lparr>wa_worker := None\<rparr>)))"

text \<open>create, createHd, load and the key imports have this shape; the worker's operation is op.\<close>

definition wa_open ::
  "('w ww_state \<Rightarrow> ('w ww_state \<times> init_status) option) \<Rightarrow> 'w wa_state \<Rightarrow> ('w wa_state \<times> init_status) option" where
  "wa_open op a =
     (case createWorker a of
        None \<Rightarrow> None
      | Some s \<Rightarrow>
          (case op s of
             None \<Rightarrow> None
           | Some (s1, st) \<Rightarrow>
               let a1 = a\<lparr>wa_worker := Some s1\<rparr> in
               if st \<noteq> INIT_SUCCESS then map_option (\<lambda>a2. (a2, st)) (deleteWorker a1) else Some (a1, st)))"

definition wa_create where "wa_create G path pwd = wa_open (ww_create G path pwd)"

definition wa_createHd where
  "wa_createHd G path pwd ks n fromStart = wa_open (ww_createHd G path pwd ks n fromStart)"

definition wa_load where "wa_load G path pwd = wa_open (ww_load G path pwd)"

definition wa_loadLegacyKeys where
  "wa_loadLegacyKeys G keyFile path pwd = wa_open (ww_loadLegacyKeys G keyFile path pwd)"

definition wa_createWithKeys where "wa_createWithKeys G path ks = wa_open (ww_createWithKeys G path ks)"

definition wa_createWithKeysAndTimestamp where
  "wa_createWithKeysAndTimestamp G path ks ts = wa_open (ww_createWithKeysAndTimestamp G path ks ts)"

text \<open>Every other call is passed on to the worker, which has to exist.\<close>

definition on_worker ::
  "('w ww_state \<Rightarrow> ('w ww_state \<times> 'a) option) \<Rightarrow> 'w wa_state \<Rightarrow> ('w wa_state \<times> 'a) option" where
  "on_worker op a =
     (case wa_worker a of
        None \<Rightarrow> None
      | Some s \<Rightarrow> map_option (\<lambda>(s1, r). (a\<lparr>wa_worker := Some s1\<rparr>, r)) (op s))"

definition wa_save where "wa_save G level b = on_worker (ww_save G level b)"

definition wa_exportWallet where
  "wa_exportWallet G path enc level b = on_worker (ww_exportWallet G path enc level b)"

definition wa_changePassword where "wa_changePassword G old new = on_worker (ww_changePassword G old new)"

definition wa_createAddress where "wa_createAddress G = on_worker (ww_createAddress G)"

definition wa_createAddressKeys where "wa_createAddressKeys G ks = on_worker (ww_createAddressKeys G ks)"

definition wa_deleteAddress where
  "wa_deleteAddress G i = on_worker (\<lambda>s. map_option (\<lambda>t. (t, ())) (ww_deleteAddress G i s))"

definition wa_sendTransaction where "wa_sendTransaction G p = on_worker (ww_sendTransaction G p)"

definition wa_registerAccountNumber where
  "wa_registerAccountNumber G i = on_worker (ww_registerAccountNumber G i)"

definition wa_setUserData where
  "wa_setUserData d = on_worker (\<lambda>s. Some (ww_setUserData d s, ()))"

definition wa_getUserData :: "'w wa_state \<Rightarrow> string option" where
  "wa_getUserData a = map_option ww_getUserData (wa_worker a)"

definition wa_query :: "('w ww_state \<Rightarrow> 'a option) \<Rightarrow> 'w wa_state \<Rightarrow> 'a option" where
  "wa_query q a = Option.bind (wa_worker a) q"

definition wa_isOpen :: "'w wa_state \<Rightarrow> bool" where
  "wa_isOpen a = (case wa_worker a of None \<Rightarrow> False | Some s \<Rightarrow> ww_isOpen s)"

definition wa_isEncrypted :: "'w wa_state \<Rightarrow> bool option" where
  "wa_isEncrypted a = map_option ww_isEncrypted (wa_worker a)"

text \<open>close stops observing the worker, deletes it, and emits walletClosed itself.\<close>

definition wa_close :: "'w wa_state \<Rightarrow> 'w wa_state option" where
  "wa_close a =
     (case wa_worker a of
        None \<Rightarrow> None
      | Some s \<Rightarrow>
          map_option (\<lambda>a1. a1\<lparr>wa_closedEmitted := Suc (wa_closedEmitted a1)\<rparr>)
            (deleteWorker (a\<lparr>wa_worker := Some (ww_removeObserver ADAPTER s)\<rparr>)))"


section \<open>Workers and open wallets\<close>

definition worker_ok :: "'w ww_state \<Rightarrow> bool" where
  "worker_ok s \<longleftrightarrow> ww_isOpen s \<and> ww_wallet s \<noteq> None \<and> ww_eventLoop s"

definition wa_inv :: "'w wa_state \<Rightarrow> bool" where
  "wa_inv a \<longleftrightarrow> (\<forall>s. wa_worker a = Some s \<longrightarrow> worker_ok s)"

text \<open>What an opening operation of the worker promises on a new worker.\<close>

definition opens :: "('w ww_state \<Rightarrow> ('w ww_state \<times> init_status) option) \<Rightarrow> bool" where
  "opens op \<longleftrightarrow> (\<forall>s. ww_wallet s = None \<longrightarrow>
     (\<exists>t st. op s = Some (t, st) \<and> ww_wallet t \<noteq> None \<and> (st = INIT_SUCCESS \<longrightarrow> worker_ok t)))"

lemma create_with_opens: "opens (create_with G task)"
  by (auto simp: opens_def create_with_def worker_ok_def Let_def split: prod.split)

lemma finish_load_opens:
  "ww_wallet s \<noteq> None \<Longrightarrow> ww_wallet (fst (finish_load G pwd code s)) \<noteq> None \<and>
   (snd (finish_load G pwd code s) = INIT_SUCCESS \<longrightarrow> worker_ok (fst (finish_load G pwd code s)))"
  by (auto simp: finish_load_def worker_ok_def Let_def)

lemma load_opens: "opens (ww_load G path pwd)"
  unfolding opens_def
proof (intro allI impI)
  fix s :: "'a ww_state"
  assume "ww_wallet s = None"
  moreover obtain w1 r where "g_load G path pwd (g_start G (g_new G)) = (w1, r)"
    by fastforce
  ultimately obtain u code where "ww_load G path pwd s = Some (finish_load G pwd code u)" "ww_wallet u \<noteq> None"
    by (cases r) (auto simp: ww_load_def Let_def)
  then show "\<exists>t st. ww_load G path pwd s = Some (t, st) \<and> ww_wallet t \<noteq> None \<and> (st = INIT_SUCCESS \<longrightarrow> worker_ok t)"
    using finish_load_opens [of u G pwd code] by (metis prod.collapse)
qed

lemma legacy_opens: "opens (ww_loadLegacyKeys G kf path pwd)"
  unfolding opens_def
proof (intro allI impI)
  fix s :: "'a ww_state"
  assume "ww_wallet s = None"
  moreover obtain w1 r where
    "then_call (g_importLegacyKeys G kf pwd path) (\<lambda>_. g_load G path pwd) (g_start G (g_new G)) = (w1, r)"
    by fastforce
  ultimately obtain u code where "ww_loadLegacyKeys G kf path pwd s = Some (finish_load G pwd code u)" "ww_wallet u \<noteq> None"
    by (auto simp: ww_loadLegacyKeys_def Let_def)
  then show "\<exists>t st. ww_loadLegacyKeys G kf path pwd s = Some (t, st) \<and> ww_wallet t \<noteq> None \<and>
      (st = INIT_SUCCESS \<longrightarrow> worker_ok t)"
    using finish_load_opens [of u G pwd code] by (metis prod.collapse)
qed

lemma create_opens:
  "opens (ww_create G path pwd)" "opens (ww_createHd G path pwd ks n b)"
  "opens (ww_createWithKeys G path ks)" "opens (ww_createWithKeysAndTimestamp G path ks ts)"
  unfolding create_defs by (rule create_with_opens)+

lemmas all_open = create_opens load_opens legacy_opens

lemma wa_open_result:
  assumes "opens op" "wa_worker a = None"
  shows "\<exists>b st. wa_open op a = Some (b, st) \<and> wa_inv b \<and> (st = INIT_SUCCESS \<longleftrightarrow> wa_worker b \<noteq> None) \<and>
           wa_closedEmitted b = wa_closedEmitted a"
proof -
  let ?s = "ww_addObserver ADAPTER ww_new :: 'a ww_state"
  have "ww_wallet ?s = None"
    by (simp add: ww_addObserver_def ww_new_def)
  then obtain t st where t: "op ?s = Some (t, st)" "ww_wallet t \<noteq> None" "st = INIT_SUCCESS \<longrightarrow> worker_ok t"
    using assms(1) unfolding opens_def by blast
  then show ?thesis
    using assms(2)
    by (auto simp: wa_open_def createWorker_def deleteWorker_def ww_close_def wa_inv_def Let_def)
qed

text \<open>What a call that is passed on keeps.\<close>

definition keeps :: "('w ww_state \<Rightarrow> ('w ww_state \<times> 'a) option) \<Rightarrow> bool" where
  "keeps op \<longleftrightarrow> (\<forall>s. worker_ok s \<longrightarrow> (\<exists>t r. op s = Some (t, r) \<and> worker_ok t))"

lemma run_task_ok: "worker_ok s \<Longrightarrow> run_task f s = Some (t, r) \<Longrightarrow> worker_ok t"
  by (auto simp: worker_ok_def run_task_Some)

lemma ask_Some: "worker_ok s \<Longrightarrow> \<exists>a. ask q d s = Some a"
  by (auto simp: worker_ok_def ask_def)

lemma worker_ok_upd [simp]:
  "worker_ok (ww_emit g s) = worker_ok s" "worker_ok (s\<lparr>ww_isSaved := b\<rparr>) = worker_ok s"
  "worker_ok (s\<lparr>ww_isEncrypted := b\<rparr>) = worker_ok s" "worker_ok (s\<lparr>ww_userData := d\<rparr>) = worker_ok s"
  by (simp_all add: worker_ok_def)

lemma run_task_total: "worker_ok s \<Longrightarrow> \<exists>t r. run_task f s = Some (t, r) \<and> worker_ok t"
  using run_task_ok [of s f] by (cases "run_task f s") (auto simp: worker_ok_def)

lemma keeps_task:
  fixes f :: "'w ww_state \<Rightarrow> ('w, 'b) call"
  assumes "\<And>t r. worker_ok t \<Longrightarrow> \<exists>u q. k (t, r) = Some (u, q) \<and> worker_ok u"
  shows "keeps (\<lambda>s. case run_task (f s) s of None \<Rightarrow> None | Some p \<Rightarrow> k p)"
  unfolding keeps_def
proof (intro allI impI)
  fix s :: "'w ww_state"
  assume "worker_ok s"
  then obtain t r where "run_task (f s) s = Some (t, r)" "worker_ok t"
    using run_task_total by blast
  then show "\<exists>t r. (case run_task (f s) s of None \<Rightarrow> None | Some p \<Rightarrow> k p) = Some (t, r) \<and> worker_ok t"
    using assms by simp
qed

lemma keeps_save: "keeps (ww_save G level b)"
  by (auto simp: keeps_def worker_ok_def save_cases Let_def split: prod.split)

lemma keeps_export: "keeps (ww_exportWallet G path enc level b)"
  unfolding ww_exportWallet_def by (rule keeps_task) auto

lemma keeps_password: "keeps (ww_changePassword G old new)"
  unfolding ww_changePassword_def by (rule keeps_task) (auto simp: Let_def)

lemma keeps_create_address_with: "keeps (create_address_with G f)"
proof -
  have "create_address_with G f = (\<lambda>s. case run_task (then_call f (\<lambda>a. then_call (query_call (g_addressCount G))
      (\<lambda>n w. (w, Inr (a, pred64 n))))) s of None \<Rightarrow> None
    | Some (s1, r) \<Rightarrow> (case r of Inl _ \<Rightarrow> Some (s1, [])
        | Inr (a, i) \<Rightarrow> Some (if a \<noteq> [] then ww_emit (AddressCreated i a) (s1\<lparr>ww_isSaved := False\<rparr>) else s1, a)))"
    by (rule ext) (auto simp: create_address_with_def split: option.split prod.split sum.split)
  then show ?thesis
    by (simp only:) (rule keeps_task, auto split: sum.split)
qed

lemma keeps_createAddress: "keeps (ww_createAddress G)" "keeps (ww_createAddressKeys G ks)"
  using keeps_create_address_with [of G] by (simp_all add: keeps_def ww_createAddress_def ww_createAddressKeys_def)

lemma keeps_deleteAddress: "keeps (\<lambda>s. map_option (\<lambda>t. (t, ())) (ww_deleteAddress G i s))"
  unfolding keeps_def
proof (intro allI impI)
  fix s :: "'a ww_state"
  assume ok: "worker_ok s"
  then obtain t r where tr: "run_task (delete_task G i) s = Some (t, r)" "worker_ok t"
    using run_task_total by blast
  let ?u = "\<lambda>a. ww_emit (AddressDeleted i a) (t\<lparr>ww_isSaved := False\<rparr>)"
  have bal: "\<exists>x y. ww_getActualBalance G (?u a) = Some x \<and> ww_getPendingBalance G (?u a) = Some y" for a
    using ask_Some [of "?u a"] tr(2) by (auto simp: ww_getActualBalance_def ww_getPendingBalance_def)
  have "\<exists>v. ww_deleteAddress G i s = Some v \<and> worker_ok v"
  proof (cases r)
    case (Inr q)
    then show ?thesis
      using tr bal [of "the q"] by (cases q) (auto simp: ww_deleteAddress_def Let_def)
  qed (use tr in \<open>simp add: ww_deleteAddress_def\<close>)
  then show "\<exists>t r. map_option (\<lambda>t. (t, ())) (ww_deleteAddress G i s) = Some (t, r) \<and> worker_ok t"
    by auto
qed

lemma keeps_send: "keeps (ww_sendTransaction G p)"
  unfolding ww_sendTransaction_def by (rule keeps_task) auto

lemma keeps_register: "keeps (ww_registerAccountNumber G i)"
  unfolding keeps_def
proof (intro allI impI)
  fix s :: "'a ww_state"
  assume ok: "worker_ok s"
  obtain b n ks a where q: "ww_isTrackingWallet G s = Some b" "ww_getAddressCount G s = Some n"
    "ww_getAccountKeys G i s = Some ks" "ww_getAddress G i s = Some a"
    using ok by (auto simp: ww_isTrackingWallet_def ww_getAddressCount_def
        ww_getAccountKeys_def ww_getAddress_def ask_def worker_ok_def)
  show "\<exists>t r. ww_registerAccountNumber G i s = Some (t, r) \<and> worker_ok t"
    using ok keeps_send [of G] unfolding keeps_def
    by (auto simp: ww_registerAccountNumber_def q split: option.split)
qed

lemma keeps_setUserData: "keeps (\<lambda>s. Some (ww_setUserData d s, ()))"
  by (simp add: keeps_def ww_setUserData_def)

lemmas all_keep = keeps_save keeps_export keeps_password keeps_createAddress keeps_deleteAddress
  keeps_send keeps_register keeps_setUserData

lemma on_worker_result:
  assumes "keeps op" "wa_inv a" "wa_worker a \<noteq> None"
  shows "\<exists>b r. on_worker op a = Some (b, r) \<and> wa_inv b \<and> wa_worker b \<noteq> None \<and>
           wa_closedEmitted b = wa_closedEmitted a"
  using assms by (fastforce simp: on_worker_def wa_inv_def keeps_def)

lemma wa_close_result:
  assumes "wa_inv a" "wa_worker a \<noteq> None"
  shows "\<exists>b. wa_close a = Some b \<and> wa_worker b = None \<and> wa_closedEmitted b = Suc (wa_closedEmitted a)"
  using assms
  by (auto simp: wa_close_def deleteWorker_def ww_close_def wa_inv_def worker_ok_def ww_removeObserver_def Let_def)

lemma ww_event_ok: "worker_ok s \<Longrightarrow> ww_event G ev w s = Some t \<Longrightarrow> worker_ok t"
  by (cases ev) (auto simp: ww_event_def worker_ok_def Let_def split: if_splits prod.splits)


section \<open>All calls\<close>

text \<open>
  A call of the program on the adapter, or an event of the wallet. Opening
  calls are made when no wallet is open and the others when one is, which is
  what the callers check with isOpen.
\<close>

inductive wa_step :: "'w green \<Rightarrow> 'w wa_state \<Rightarrow> 'w wa_state \<Rightarrow> bool" for G where
  "\<not> wa_isOpen a \<Longrightarrow> wa_create G path pwd a = Some (b, st) \<Longrightarrow> wa_step G a b"
| "\<not> wa_isOpen a \<Longrightarrow> wa_createHd G path pwd ks n fs a = Some (b, st) \<Longrightarrow> wa_step G a b"
| "\<not> wa_isOpen a \<Longrightarrow> wa_load G path pwd a = Some (b, st) \<Longrightarrow> wa_step G a b"
| "\<not> wa_isOpen a \<Longrightarrow> wa_loadLegacyKeys G kf path pwd a = Some (b, st) \<Longrightarrow> wa_step G a b"
| "\<not> wa_isOpen a \<Longrightarrow> wa_createWithKeys G path ks a = Some (b, st) \<Longrightarrow> wa_step G a b"
| "\<not> wa_isOpen a \<Longrightarrow> wa_createWithKeysAndTimestamp G path ks ts a = Some (b, st) \<Longrightarrow> wa_step G a b"
| "wa_isOpen a \<Longrightarrow> wa_save G level ud a = Some (b, sv) \<Longrightarrow> wa_step G a b"
| "wa_isOpen a \<Longrightarrow> wa_exportWallet G path enc level ud a = Some (b, sv) \<Longrightarrow> wa_step G a b"
| "wa_isOpen a \<Longrightarrow> wa_changePassword G old new a = Some (b, ps) \<Longrightarrow> wa_step G a b"
| "wa_isOpen a \<Longrightarrow> wa_createAddress G a = Some (b, adr) \<Longrightarrow> wa_step G a b"
| "wa_isOpen a \<Longrightarrow> wa_createAddressKeys G ks a = Some (b, adr) \<Longrightarrow> wa_step G a b"
| "wa_isOpen a \<Longrightarrow> wa_deleteAddress G i a = Some (b, u) \<Longrightarrow> wa_step G a b"
| "wa_isOpen a \<Longrightarrow> wa_sendTransaction G p a = Some (b, ss) \<Longrightarrow> wa_step G a b"
| "wa_isOpen a \<Longrightarrow> wa_registerAccountNumber G i a = Some (b, ss) \<Longrightarrow> wa_step G a b"
| "wa_isOpen a \<Longrightarrow> wa_setUserData d a = Some (b, u) \<Longrightarrow> wa_step G a b"
| "wa_isOpen a \<Longrightarrow> wa_close a = Some b \<Longrightarrow> wa_step G a b"
| "wa_worker a = Some s \<Longrightarrow> ww_event G ev w s = Some t \<Longrightarrow> wa_step G a (a\<lparr>wa_worker := Some t\<rparr>)"

inductive_cases wa_stepE: "wa_step G a b"

lemma inv_isOpen: "wa_inv a \<Longrightarrow> wa_isOpen a \<longleftrightarrow> wa_worker a \<noteq> None"
  by (auto simp: wa_inv_def wa_isOpen_def worker_ok_def split: option.split)

lemmas wa_call_defs = wa_create_def wa_createHd_def wa_load_def wa_loadLegacyKeys_def wa_createWithKeys_def
  wa_createWithKeysAndTimestamp_def wa_save_def wa_exportWallet_def wa_changePassword_def wa_createAddress_def
  wa_createAddressKeys_def wa_deleteAddress_def wa_sendTransaction_def wa_registerAccountNumber_def wa_setUserData_def

lemma open_inv: "opens op \<Longrightarrow> wa_inv a \<Longrightarrow> \<not> wa_isOpen a \<Longrightarrow> wa_open op a = Some (b, st) \<Longrightarrow> wa_inv b"
  using wa_open_result [of op a] inv_isOpen [of a] by auto

lemma worker_inv: "keeps op \<Longrightarrow> wa_inv a \<Longrightarrow> wa_isOpen a \<Longrightarrow> on_worker op a = Some (b, r) \<Longrightarrow> wa_inv b"
  using on_worker_result [of op a] inv_isOpen [of a] by auto

lemma close_inv: "wa_inv a \<Longrightarrow> wa_isOpen a \<Longrightarrow> wa_close a = Some b \<Longrightarrow> wa_inv b"
  using wa_close_result [of a] inv_isOpen [of a] by (auto simp: wa_inv_def)

lemma event_inv: "wa_inv a \<Longrightarrow> wa_worker a = Some s \<Longrightarrow> ww_event G ev w s = Some t \<Longrightarrow> wa_inv (a\<lparr>wa_worker := Some t\<rparr>)"
  using ww_event_ok by (auto simp: wa_inv_def)

lemmas call_inv = create_opens [THEN open_inv] load_opens [THEN open_inv] legacy_opens [THEN open_inv]
  keeps_save [THEN worker_inv] keeps_export [THEN worker_inv] keeps_password [THEN worker_inv]
  keeps_createAddress [THEN worker_inv] keeps_deleteAddress [THEN worker_inv] keeps_send [THEN worker_inv]
  keeps_register [THEN worker_inv] keeps_setUserData [THEN worker_inv] close_inv event_inv

lemma wa_step_inv: "wa_step G a b \<Longrightarrow> wa_inv a \<Longrightarrow> wa_inv b"
  apply (erule wa_step.cases; hypsubst)
  apply (unfold wa_call_defs)
  apply (rule call_inv, assumption, assumption, assumption)+
  done

definition wa_start :: "'w wa_state \<Rightarrow> bool" where
  "wa_start a \<longleftrightarrow> a = wa_new"

interpretation wal: inductive_invariant wa_start "wa_step G" wa_inv for G :: "'w green"
proof
  show "wa_inv a" if "wa_start a" for a :: "'w wa_state"
    using that by (simp add: wa_start_def wa_inv_def wa_new_def)
qed (rule wa_step_inv)

definition succeeds :: "('a \<times> 'b) option \<Rightarrow> bool" where
  "succeeds r \<longleftrightarrow> r \<noteq> None"

lemma open_succeeds:
  assumes "opens op" "wa_inv a" "\<not> wa_isOpen a"
  shows "\<exists>b st. wa_open op a = Some (b, st) \<and> (st = INIT_SUCCESS \<longleftrightarrow> wa_isOpen b)"
  using wa_open_result [OF assms(1), of a] inv_isOpen [of a] assms(2,3) inv_isOpen by blast

lemma worker_succeeds:
  "keeps op \<Longrightarrow> wa_inv a \<Longrightarrow> wa_isOpen a \<Longrightarrow> succeeds (on_worker op a)"
  using on_worker_result [of op a] inv_isOpen [of a] by (auto simp: succeeds_def)

text \<open>
  C5. In every state the adapter can reach, a worker exists exactly while a
  wallet is open. With no wallet open, every way of opening one runs without a
  failed assertion and leaves a wallet open exactly when it reports success.
  With a wallet open, no call on it can fail an assertion (a missing worker or
  wallet object), and closing it succeeds and leaves none.
\<close>

theorem adapter_calls_are_safe:
  assumes "reach wa_start (wa_step G) a"
  shows "(wa_isOpen a \<longleftrightarrow> wa_worker a \<noteq> None) \<and>
    (\<not> wa_isOpen a \<longrightarrow>
       (\<exists>b st. wa_create G path pwd a = Some (b, st) \<and> (st = INIT_SUCCESS \<longleftrightarrow> wa_isOpen b)) \<and>
       (\<exists>b st. wa_createHd G path pwd ks n fs a = Some (b, st) \<and> (st = INIT_SUCCESS \<longleftrightarrow> wa_isOpen b)) \<and>
       (\<exists>b st. wa_load G path pwd a = Some (b, st) \<and> (st = INIT_SUCCESS \<longleftrightarrow> wa_isOpen b)) \<and>
       (\<exists>b st. wa_loadLegacyKeys G kf path pwd a = Some (b, st) \<and> (st = INIT_SUCCESS \<longleftrightarrow> wa_isOpen b)) \<and>
       (\<exists>b st. wa_createWithKeys G path ks a = Some (b, st) \<and> (st = INIT_SUCCESS \<longleftrightarrow> wa_isOpen b)) \<and>
       (\<exists>b st. wa_createWithKeysAndTimestamp G path ks ts a = Some (b, st) \<and> (st = INIT_SUCCESS \<longleftrightarrow> wa_isOpen b))) \<and>
    (wa_isOpen a \<longrightarrow>
       succeeds (wa_save G level ud a) \<and> succeeds (wa_exportWallet G path enc level ud a) \<and>
       succeeds (wa_changePassword G old new a) \<and> succeeds (wa_createAddress G a) \<and>
       succeeds (wa_createAddressKeys G ks a) \<and> succeeds (wa_deleteAddress G i a) \<and>
       succeeds (wa_sendTransaction G p a) \<and> succeeds (wa_registerAccountNumber G i a) \<and>
       succeeds (wa_setUserData d a) \<and> (\<exists>b. wa_close a = Some b \<and> \<not> wa_isOpen b))"
proof -
  have inv: "wa_inv a"
    using assms by (rule wal.reach_inv)
  have "\<exists>b. wa_close a = Some b \<and> \<not> wa_isOpen b" if "wa_isOpen a"
    using wa_close_result [OF inv] inv_isOpen [OF inv] that by (auto simp: wa_isOpen_def)
  then show ?thesis
    unfolding wa_call_defs
    by (simp only: inv_isOpen [OF inv, symmetric])
       (intro conjI impI; ((rule open_succeeds [OF _ inv] worker_succeeds [OF _ inv]); (assumption | rule all_open all_keep))?; simp?)
qed

theorem adapter_calls_are_safe_witness:
  "\<exists>b. wa_load (demo_green False) [] [] (wa_new :: demo wa_state) = Some (b, INIT_WRONG_PASSWORD) \<and> \<not> wa_isOpen b"
proof -
  have "reach wa_start (wa_step (demo_green False)) wa_new"
    by (rule reach_start) (simp add: wa_start_def)
  moreover have "\<not> wa_isOpen (wa_new :: demo wa_state)"
    by (simp add: wa_isOpen_def wa_new_def)
  ultimately obtain b st where
    b: "wa_load (demo_green False) [] [] wa_new = Some (b, st)" "st = INIT_SUCCESS \<longleftrightarrow> wa_isOpen b"
    using adapter_calls_are_safe [of "demo_green False" wa_new "[]" "[]"] by blast
  have "st = INIT_WRONG_PASSWORD"
    using b(1) by (simp add: wa_load_def wa_open_def createWorker_def wa_new_def ww_load_def ww_addObserver_def
        ww_new_def Let_def demo_green_def finish_load_def getInitStatus_def error_of_def demo_codes_def
        deleteWorker_def ww_close_def ww_init_def createObjects_def ww_emit_def)
  then show ?thesis
    using b by auto
qed

end
