(* ===== verification/SemaphoreProtocol.thy ===== *)
theory SemaphoreProtocol
  imports Transition
begin

text \<open>
  The lock protocol of the wallet worker (src/src/CryptoNoteWrapper/
  SemaphoreUtils.cpp and its use in WalletGreenWorker.cpp). One binary semaphore
  serialises the callers and the tasks they hand to the dispatcher: a caller's
  SemaphoreLocker takes the permit, the task's SemaphoreUnlocker gives it back
  when the task ends, the caller's wait() takes it again and the locker's
  destructor gives it back. Any waiting thread can take a released permit, so
  another caller may get in between; the interleavings are sequences of actions
  of any number of callers.

  Lemmas: permits are conserved; tasks exclude each other, the assertions on
  the number of free permits never fail, wait() returns only after the caller's
  own task, and some action is always possible while a call is under way.
\<close>

datatype phase = Idle | Locked | Queued | Running | TaskDone | Finishing

record sem_state =
  available :: nat
  phases :: "phase list"

datatype action =
    Lock nat
  | Spawn nat
  | TaskStart nat
  | TaskEnd nat
  | Wait nat
  | Unlock nat

datatype outcome = Blocked | AssertFails | Next sem_state

definition goto :: "nat \<Rightarrow> phase \<Rightarrow> sem_state \<Rightarrow> sem_state" where
  "goto i p s = s\<lparr>phases := (phases s)[i := p]\<rparr>"

definition in_phase :: "nat \<Rightarrow> phase \<Rightarrow> sem_state \<Rightarrow> bool" where
  "in_phase i p s \<longleftrightarrow> i < length (phases s) \<and> phases s ! i = p"

definition acquire :: "sem_state \<Rightarrow> sem_state option" where
  "acquire s = (if available s \<ge> 1 then Some (s\<lparr>available := available s - 1\<rparr>) else None)"

definition release :: "sem_state \<Rightarrow> sem_state" where
  "release s = s\<lparr>available := available s + 1\<rparr>"

text \<open>SemaphoreLocker: the constructor, wait and the destructor.\<close>

definition locker_new :: "nat \<Rightarrow> sem_state \<Rightarrow> outcome" where
  "locker_new i s =
     (if in_phase i Idle s then (case acquire s of None \<Rightarrow> Blocked | Some t \<Rightarrow> Next (goto i Locked t)) else Blocked)"

definition locker_wait :: "nat \<Rightarrow> sem_state \<Rightarrow> outcome" where
  "locker_wait i s =
     (if in_phase i Queued s \<or> in_phase i Running s \<or> in_phase i TaskDone s
      then (case acquire s of None \<Rightarrow> Blocked | Some t \<Rightarrow> Next (goto i Finishing t)) else Blocked)"

definition locker_delete :: "nat \<Rightarrow> sem_state \<Rightarrow> outcome" where
  "locker_delete i s =
     (if in_phase i Locked s \<or> in_phase i Finishing s
      then (if available s = 0 then Next (goto i Idle (release s)) else AssertFails) else Blocked)"

text \<open>SemaphoreUnlocker: the constructor and the destructor, at the ends of a task.\<close>

definition unlocker_new :: "nat \<Rightarrow> sem_state \<Rightarrow> outcome" where
  "unlocker_new i s =
     (if in_phase i Queued s then (if available s = 0 then Next (goto i Running s) else AssertFails) else Blocked)"

definition unlocker_delete :: "nat \<Rightarrow> sem_state \<Rightarrow> outcome" where
  "unlocker_delete i s =
     (if in_phase i Running s
      then (if available s = 0 then Next (goto i TaskDone (release s)) else AssertFails) else Blocked)"

definition spawn :: "nat \<Rightarrow> sem_state \<Rightarrow> outcome" where
  "spawn i s = (if in_phase i Locked s then Next (goto i Queued s) else Blocked)"

fun sem_step :: "action \<Rightarrow> sem_state \<Rightarrow> outcome" where
  "sem_step (Lock i) s = locker_new i s"
| "sem_step (Spawn i) s = spawn i s"
| "sem_step (TaskStart i) s = unlocker_new i s"
| "sem_step (TaskEnd i) s = unlocker_delete i s"
| "sem_step (Wait i) s = locker_wait i s"
| "sem_step (Unlock i) s = locker_delete i s"

lemmas sem_defs = locker_new_def locker_wait_def locker_delete_def unlocker_new_def unlocker_delete_def
  spawn_def acquire_def release_def

definition sem_start :: "sem_state \<Rightarrow> bool" where
  "sem_start s \<longleftrightarrow> available s = 1 \<and> (\<forall>p\<in>set (phases s). p = Idle)"

definition sem_rel :: "sem_state \<Rightarrow> sem_state \<Rightarrow> bool" where
  "sem_rel s t \<longleftrightarrow> (\<exists>a. sem_step a s = Next t)"


section \<open>Permits are conserved\<close>

fun held :: "phase \<Rightarrow> nat" where
  "held Locked = 1"
| "held Queued = 1"
| "held Running = 1"
| "held Finishing = 1"
| "held _ = 0"

definition held_total :: "phase list \<Rightarrow> nat" where
  "held_total xs = sum_list (map held xs)"

definition sem_inv :: "sem_state \<Rightarrow> bool" where
  "sem_inv s \<longleftrightarrow> available s + held_total (phases s) = 1"

lemma sum_list_goto:
  assumes "i < length xs"
  shows "held_total (xs[i := p]) + held (xs ! i) = held_total xs + held p"
  using assms
proof (induction xs arbitrary: i)
  case (Cons x xs)
  then show ?case by (cases i) (auto simp: held_total_def)
qed simp

lemma sem_simps [simp]:
  "available (goto i p s) = available s" "phases (goto i p s) = (phases s)[i := p]"
  by (simp_all add: goto_def)

lemma held_le: "i < length xs \<Longrightarrow> held (xs ! i) \<le> held_total xs"
  by (simp add: held_total_def member_le_sum_list)

lemma sem_inv_zero: "sem_inv s \<Longrightarrow> i < length (phases s) \<Longrightarrow> held (phases s ! i) = 1 \<Longrightarrow> available s = 0"
  using held_le [of i "phases s"] by (simp add: sem_inv_def)

lemma sem_inv_step:
  assumes inv: "sem_inv s" and step: "sem_rel s t"
  shows "sem_inv t"
proof -
  obtain a where a: "sem_step a s = Next t"
    using step by (auto simp: sem_rel_def)
  have upd: "held_total ((phases s)[i := p]) + held (phases s ! i) = held_total (phases s) + held p"
    if "i < length (phases s)" for i p
    using that by (rule sum_list_goto)
  show ?thesis
  proof (cases a)
    case (Lock i)
    then show ?thesis using a inv upd [of i Locked]
      by (auto simp: sem_defs in_phase_def sem_inv_def split: if_splits)
  next
    case (Spawn i)
    then show ?thesis using a inv upd [of i Queued]
      by (auto simp: sem_defs in_phase_def sem_inv_def split: if_splits)
  next
    case (TaskStart i)
    then show ?thesis using a inv upd [of i Running]
      by (auto simp: sem_defs in_phase_def sem_inv_def split: if_splits)
  next
    case (TaskEnd i)
    then show ?thesis using a inv upd [of i TaskDone]
      by (auto simp: sem_defs in_phase_def sem_inv_def split: if_splits)
  next
    case (Wait i)
    have "in_phase i TaskDone s \<and> available s = 1"
      using a Wait inv sem_inv_zero [OF inv, of i] held_le
      by (auto simp: sem_defs in_phase_def sem_inv_def split: if_splits)
    then show ?thesis using a inv upd [of i Finishing] Wait
      by (auto simp: sem_defs in_phase_def sem_inv_def split: if_splits)
  next
    case (Unlock i)
    then show ?thesis using a inv upd [of i Idle]
      by (auto simp: sem_defs in_phase_def sem_inv_def split: if_splits)
  qed
qed

lemma sum_list_idle: "\<forall>p\<in>set xs. p = Idle \<Longrightarrow> held_total xs = 0"
  by (induction xs) (auto simp: held_total_def)

interpretation sem: inductive_invariant sem_start sem_rel sem_inv
proof
  show "sem_inv s" if "sem_start s" for s
    using that by (simp add: sem_start_def sem_inv_def sum_list_idle)
qed (rule sem_inv_step)

lemma held_unique:
  assumes "i < length xs" "j < length xs" "i \<noteq> j" "held (xs ! i) = 1" "held (xs ! j) = 1"
  shows "held_total xs \<ge> 2"
proof -
  have "held_total (xs[i := Idle]) + 1 = held_total xs"
    using sum_list_goto [OF assms(1), of Idle] assms(4) by simp
  moreover have "held (xs[i := Idle] ! j) \<le> held_total (xs[i := Idle])"
    using assms(2) by (intro held_le) simp
  ultimately show ?thesis
    using assms(2,3,5) by simp
qed

text \<open>
  C6. Whatever the interleaving of any number of callers: no assertion of the
  semaphore helpers fails, at most one task runs at a time and no caller is
  between taking and giving back the permit while a task of another runs, and
  wait() returns only after the caller's own task has ended.
\<close>

theorem tasks_are_exclusive:
  assumes "reach sem_start sem_rel s"
  shows "sem_step a s \<noteq> AssertFails \<and>
         (in_phase i Running s \<and> j \<noteq> i \<longrightarrow>
            \<not> in_phase j Running s \<and> \<not> in_phase j Locked s \<and> \<not> in_phase j Finishing s) \<and>
         (sem_step (Wait i) s = Next t \<longrightarrow> in_phase i TaskDone s)"
proof -
  have inv: "sem_inv s"
    using assms by (rule sem.reach_inv)
  have zero: "available s = 0" if "in_phase k p s" "held p = 1" for k p
    using sem_inv_zero [OF inv, of k] that by (auto simp: in_phase_def)
  have "sem_step a s \<noteq> AssertFails"
    by (cases a) (auto simp: sem_defs dest: zero)
  moreover have "\<not> (in_phase i Running s \<and> j \<noteq> i \<and> (in_phase j Running s \<or> in_phase j Locked s \<or> in_phase j Finishing s))"
    using held_unique [of i "phases s" j] inv by (auto simp: in_phase_def sem_inv_def)
  moreover have "in_phase i TaskDone s" if "sem_step (Wait i) s = Next t"
    using that by (auto simp: sem_defs split: if_splits dest: zero)
  ultimately show ?thesis
    by blast
qed

theorem tasks_are_exclusive_witness:
  "sem_step (Unlock 0) \<lparr>available = 0, phases = [Locked, Idle]\<rparr> \<noteq> AssertFails"
proof -
  have "reach sem_start sem_rel \<lparr>available = 0, phases = [Locked, Idle]\<rparr>"
    by (rule reach_step [of _ _ "\<lparr>available = 1, phases = [Idle, Idle]\<rparr>"], rule reach_start)
       (simp_all add: sem_start_def sem_rel_def exI [of _ "Lock 0"] sem_defs in_phase_def goto_def)
  then show ?thesis
    using tasks_are_exclusive by blast
qed

text \<open>
  The protocol cannot deadlock: while some caller is inside a call, some
  caller can move (and does so without failing an assertion).
\<close>

theorem protocol_never_stuck:
  assumes "reach sem_start sem_rel s" "i < length (phases s)" "phases s ! i \<noteq> Idle"
  shows "\<exists>a t. sem_step a s = Next t"
proof (cases "\<exists>j<length (phases s). held (phases s ! j) = 1")
  case True
  then obtain j where j: "j < length (phases s)" "held (phases s ! j) = 1"
    by blast
  have "available s = 0"
    using sem_inv_zero [OF sem.reach_inv [OF assms(1)] j] .
  then have "(\<exists>t. sem_step (Spawn j) s = Next t) \<or> (\<exists>t. sem_step (TaskStart j) s = Next t) \<or>
        (\<exists>t. sem_step (TaskEnd j) s = Next t) \<or> (\<exists>t. sem_step (Unlock j) s = Next t)"
    using j by (cases "phases s ! j") (auto simp: sem_defs in_phase_def)
  then show ?thesis by blast
next
  case False
  have "held_total (phases s) = 0"
    unfolding held_total_def sum_list_eq_0_iff
  proof
    fix x
    assume "x \<in> set (map held (phases s))"
    then obtain j where "j < length (phases s)" "x = held (phases s ! j)"
      by (auto simp: in_set_conv_nth)
    then show "x = 0"
      using False by (cases "phases s ! j") auto
  qed
  then have "available s = 1"
    using sem.reach_inv [OF assms(1)] by (simp add: sem_inv_def)
  moreover have "phases s ! i = TaskDone"
    using False assms(2,3) by (cases "phases s ! i") auto
  ultimately have "\<exists>t. sem_step (Wait i) s = Next t"
    using assms(2) by (simp add: sem_defs in_phase_def)
  then show ?thesis by blast
qed

theorem protocol_never_stuck_witness:
  "\<exists>a t. sem_step a \<lparr>available = 0, phases = [Locked, Idle]\<rparr> = Next t"
proof -
  have "reach sem_start sem_rel \<lparr>available = 0, phases = [Locked, Idle]\<rparr>"
    by (rule reach_step [of _ _ "\<lparr>available = 1, phases = [Idle, Idle]\<rparr>"], rule reach_start)
       (simp_all add: sem_start_def sem_rel_def exI [of _ "Lock 0"] sem_defs in_phase_def goto_def)
  from protocol_never_stuck [OF this, of 0] show ?thesis
    by simp
qed

end
