(* ===== verification/AmountFormat.thy ===== *)
theory AmountFormat
  imports Prelude
begin

text \<open>
  Amounts and payment ids of CryptoNoteAdapter (src/src/CryptoNoteWrapper/
  CryptoNoteAdapter.cpp): formatting an amount of atomic units with the
  currency's number of decimal places, the short form, reading amounts, the
  payment id test and the payment id in the transaction extra. The currency's
  parser and the extra codec are library functions and are parameters.

  Lemmas: the decimal digits of a number and their value; the formatted string
  denotes exactly the amount, with at least two decimals and no superfluous
  zero; the short form truncates to four decimals; formatting then parsing is
  the identity; which strings the payment id test accepts.
\<close>

section \<open>Decimal digits\<close>

definition digit :: "nat \<Rightarrow> char" where
  "digit d = char_of (48 + d)"

definition digit_value :: "char \<Rightarrow> nat" where
  "digit_value c = of_char c - 48"

definition is_digit :: "char \<Rightarrow> bool" where
  "is_digit c \<longleftrightarrow> 48 \<le> (of_char c :: nat) \<and> (of_char c :: nat) \<le> 57"

text \<open>QString::number on an unsigned and on a signed number.\<close>

fun dec :: "nat \<Rightarrow> string" where
  "dec n = (if n < 10 then [digit n] else dec (n div 10) @ [digit (n mod 10)])"

declare dec.simps [simp del]

definition dec_int :: "int \<Rightarrow> string" where
  "dec_int n = (if n < 0 then CHR ''-'' # dec (nat (- n)) else dec (nat n))"

definition undec :: "string \<Rightarrow> nat" where
  "undec s = foldl (\<lambda>a c. 10 * a + digit_value c) 0 s"

lemma of_char_digit: "d < 10 \<Longrightarrow> (of_char (digit d) :: nat) = 48 + d"
  by (simp add: digit_def)

lemma digit_value_digit [simp]: "d < 10 \<Longrightarrow> digit_value (digit d) = d"
  by (simp add: digit_value_def of_char_digit)

lemma is_digit_digit [simp]: "d < 10 \<Longrightarrow> is_digit (digit d)"
  by (simp add: is_digit_def of_char_digit)

lemma undec_Nil [simp]: "undec [] = 0"
  by (simp add: undec_def)

lemma undec_snoc [simp]: "undec (s @ [c]) = 10 * undec s + digit_value c"
  by (simp add: undec_def)

lemma undec_append: "undec (s @ t) = undec s * 10 ^ length t + undec t"
proof (induction t rule: rev_induct)
  case (snoc c t)
  have "undec (s @ t @ [c]) = 10 * undec (s @ t) + digit_value c"
    using undec_snoc [of "s @ t" c] by simp
  then show ?case
    using snoc by (simp add: algebra_simps)
qed simp

lemma undec_dec [simp]: "undec (dec n) = n"
proof (induction n rule: dec.induct)
  case (1 n)
  show ?case
  proof (cases "n < 10")
    case True
    then show ?thesis
      using undec_snoc [of "[]" "digit n"] by (simp add: dec.simps)
  next
    case False
    then show ?thesis
      using 1 by (subst dec.simps) simp
  qed
qed

lemma dec_digits: "c \<in> set (dec n) \<Longrightarrow> is_digit c"
proof (induction n rule: dec.induct)
  case (1 n)
  then show ?case
    by (subst (asm) (2) dec.simps) (auto split: if_splits)
qed

lemma undec_bound: "\<forall>c\<in>set s. is_digit c \<Longrightarrow> undec s < 10 ^ length s"
proof (induction s rule: rev_induct)
  case (snoc c s)
  then have "undec s < 10 ^ length s" "digit_value c < 10"
    by (auto simp: is_digit_def digit_value_def)
  then show ?case
    by simp
qed simp

lemma dec_not_Nil [simp]: "dec n \<noteq> []"
  by (subst dec.simps) simp

lemma digit_value_0 [simp]: "digit_value (CHR ''0'') = 0"
  by (simp add: digit_value_def)

lemma is_digit_0 [simp]: "is_digit (CHR ''0'')"
  by (simp add: is_digit_def)

lemma undec_zeros [simp]: "undec (replicate k (CHR ''0'')) = 0"
proof (induction k)
  case (Suc k)
  have "undec (replicate k (CHR ''0'') @ [CHR ''0'']) = 10 * undec (replicate k (CHR ''0''))"
    by simp
  then show ?case
    using Suc by (simp add: replicate_append_same)
qed simp


section \<open>Formatting\<close>

text \<open>QString::rightJustified fills on the left up to the width.\<close>

definition rightJustified :: "string \<Rightarrow> nat \<Rightarrow> char \<Rightarrow> string" where
  "rightJustified s w c = replicate (w - length s) c @ s"

text \<open>The loop over pos that removes zeros from the end, keeping two decimals.\<close>

fun strip_loop :: "nat \<Rightarrow> string \<Rightarrow> nat \<Rightarrow> string" where
  "strip_loop dotPos s 0 = s"
| "strip_loop dotPos s (Suc p) =
     (if Suc p > dotPos + 1 then
        (if s ! Suc p = CHR ''0'' then strip_loop dotPos (remove_at (Suc p) s) p else s)
      else s)"

definition insert_dot :: "nat \<Rightarrow> string \<Rightarrow> string" where
  "insert_dot dotPos s = take dotPos s @ CHR ''.'' # drop dotPos s"

text \<open>
  Both formatters put the dot into the digits of the number. The loop over digit
  groups that follows in the source only reads characters (its insertion is
  commented out) and has no counterpart here.
\<close>

definition format_digits :: "nat \<Rightarrow> string \<Rightarrow> string" where
  "format_digits ndp number =
     (let r = (if length number < ndp + 1 then rightJustified number (ndp + 1) (CHR ''0'') else number);
          dotPos = length r - ndp
      in insert_dot dotPos (strip_loop dotPos r (length r - 1)))"

definition formatUnsignedAmount :: "nat \<Rightarrow> u64 \<Rightarrow> string" where
  "formatUnsignedAmount ndp amount = format_digits ndp (dec (unat amount))"

text \<open>qAbs on a 64-bit two's complement number: the least number is its own negation.\<close>

definition qAbs :: "i64 \<Rightarrow> i64" where
  "qAbs a = (if sint a \<ge> 0 then a else - a)"

definition formatAmount :: "nat \<Rightarrow> i64 \<Rightarrow> string" where
  "formatAmount ndp amount =
     (let r = format_digits ndp (dec_int (sint (qAbs amount)))
      in if sint amount < 0 then CHR ''-'' # r else r)"

definition index_of :: "char \<Rightarrow> string \<Rightarrow> int" where
  "index_of c s = (case find_index (\<lambda>x. x = c) s of None \<Rightarrow> -1 | Some i \<Rightarrow> int i)"

definition formatAmountToShort :: "nat \<Rightarrow> i64 \<Rightarrow> string" where
  "formatAmountToShort ndp amount =
     (let s = formatAmount ndp amount; dotPos = index_of (CHR ''.'') s
      in if int (length s) - dotPos \<le> 5 then s
         else take (nat (dotPos + 1)) s @ map (\<lambda>i. s ! i) [nat (dotPos + 1)..<nat (dotPos + 5)])"


section \<open>Reading\<close>

text \<open>Currency::parseAmount is the parameter; None is its failure, read as 0.\<close>

definition parseUnsignedAmount :: "(string \<Rightarrow> u64 option) \<Rightarrow> string \<Rightarrow> u64" where
  "parseUnsignedAmount cur s =
     (case cur (filter (\<lambda>c. c \<noteq> CHR '','') (trimmed s)) of None \<Rightarrow> 0 | Some a \<Rightarrow> a)"

definition parseAmount :: "(string \<Rightarrow> u64 option) \<Rightarrow> string \<Rightarrow> i64" where
  "parseAmount cur s0 =
     (let s = filter (\<lambda>c. c \<noteq> CHR '','') (trimmed s0);
          negative = starts_with s ''-'';
          s1 = (if negative then drop 1 s else s);
          amount = (case cur s1 of None \<Rightarrow> 0 | Some a \<Rightarrow> a)
      in if negative then - amount else amount)"


text \<open>
  QString::toUInt and toUShort with the bound of the type: white space around and
  a plus sign before the decimal digits are allowed.
\<close>

definition read_unsigned :: "nat \<Rightarrow> string \<Rightarrow> nat option" where
  "read_unsigned bound s =
     (let t = trimmed s; u = (if starts_with t ''+'' then drop 1 t else t)
      in if u \<noteq> [] \<and> list_all is_digit u \<and> undec u < bound then Some (undec u) else None)"

lemma read_unsigned_bound: "read_unsigned b s = Some n \<Longrightarrow> n < b"
  by (auto simp: read_unsigned_def Let_def split: if_splits)


section \<open>Payment ids\<close>

definition is_hex :: "char \<Rightarrow> bool" where
  "is_hex c \<longleftrightarrow> is_digit c \<or> c \<in> set ''abcdefABCDEF''"

text \<open>QByteArray::fromHex skips characters that are not hex digits.\<close>

definition fromHex_size :: "string \<Rightarrow> nat" where
  "fromHex_size s = (length (filter is_hex s) + 1) div 2"

definition isValidPaymentId :: "string \<Rightarrow> bool" where
  "isValidPaymentId p = (if length p \<noteq> 2 * 32 then False else fromHex_size p = 32)"

definition isValidAddress :: "(string \<Rightarrow> 'a option) \<Rightarrow> string \<Rightarrow> bool" where
  "isValidAddress parse a = (parse a \<noteq> None)"

definition convertPaymentToExtra ::
  "(string \<Rightarrow> 'h option) \<Rightarrow> ('h \<Rightarrow> string) \<Rightarrow> (string \<Rightarrow> string option) \<Rightarrow> string \<Rightarrow> string" where
  "convertPaymentToExtra parsePaymentId setNonce addNonce p =
     (if p = [] then []
      else case parsePaymentId p of
             None \<Rightarrow> []
           | Some h \<Rightarrow> (case addNonce (setNonce h) of None \<Rightarrow> [] | Some extra \<Rightarrow> extra))"

definition extractPaymentIdFromExtra ::
  "(string \<Rightarrow> 'f list option) \<Rightarrow> ('f list \<Rightarrow> string option) \<Rightarrow> (string \<Rightarrow> 'h option) \<Rightarrow> ('h \<Rightarrow> string) \<Rightarrow> string \<Rightarrow> string" where
  "extractPaymentIdFromExtra parseExtra findNonce getPaymentId toHex extra =
     (case parseExtra extra of
        None \<Rightarrow> []
      | Some fields \<Rightarrow>
          (case findNonce fields of
             None \<Rightarrow> []
           | Some nonce \<Rightarrow> (case getPaymentId nonce of None \<Rightarrow> [] | Some h \<Rightarrow> toHex h)))"


section \<open>What a formatted amount denotes\<close>

text \<open>
  The value of a decimal string in atomic units: the digits before the dot, and
  those after it filled up to the number of decimal places.
\<close>

definition decimal_value :: "nat \<Rightarrow> string \<Rightarrow> nat" where
  "decimal_value ndp s =
     (let i = takeWhile (\<lambda>c. c \<noteq> CHR ''.'') s; f = drop (length i + 1) s
      in undec i * 10 ^ ndp + undec f * 10 ^ (ndp - length f))"

definition decimals :: "string \<Rightarrow> string" where
  "decimals s = drop (length (takeWhile (\<lambda>c. c \<noteq> CHR ''.'') s) + 1) s"

lemma strip_loop_take:
  assumes "p < length s" "\<forall>j. p < j \<longrightarrow> j < length s \<longrightarrow> False"
  shows "\<exists>m \<le> length s. strip_loop d s p = take m s \<and> min (length s) (d + 2) \<le> m \<and>
           (\<forall>j. m \<le> j \<and> j < length s \<longrightarrow> s ! j = CHR ''0'') \<and>
           (m > d + 2 \<longrightarrow> s ! (m - 1) \<noteq> CHR ''0'')"
  using assms
proof (induction p arbitrary: s)
  case 0
  then show ?case
    by (intro exI [of _ "length s"]) (auto intro: Suc_leI)
next
  case (Suc p)
  have len: "length s = Suc (Suc p)"
    using Suc.prems by (metis lessI not_less_eq Suc_lessI)
  show ?case
  proof (cases "Suc p > d + 1 \<and> s ! Suc p = CHR ''0''")
    case False
    then show ?thesis
      using len by (intro exI [of _ "length s"]) auto
  next
    case True
    let ?t = "take (Suc p) s"
    have t: "remove_at (Suc p) s = ?t"
      using len by (simp add: remove_at_def)
    have "\<exists>m \<le> length ?t. strip_loop d ?t p = take m ?t \<and> min (length ?t) (d + 2) \<le> m \<and>
           (\<forall>j. m \<le> j \<and> j < length ?t \<longrightarrow> ?t ! j = CHR ''0'') \<and> (m > d + 2 \<longrightarrow> ?t ! (m - 1) \<noteq> CHR ''0'')"
      by (rule Suc.IH) (use len in auto)
    then obtain m where m: "m \<le> Suc p" "strip_loop d ?t p = take m ?t" "min (Suc p) (d + 2) \<le> m"
      "\<forall>j. m \<le> j \<and> j < Suc p \<longrightarrow> s ! j = CHR ''0''" "m > d + 2 \<longrightarrow> s ! (m - 1) \<noteq> CHR ''0''"
      using len by auto
    have "s ! j = CHR ''0''" if "m \<le> j" "j < length s" for j
      using that m(4) True len by (cases "j = Suc p") auto
    then show ?thesis
      using m True len t by (intro exI [of _ m]) (auto simp: min_def split: if_splits)
  qed
qed

definition padded :: "nat \<Rightarrow> string \<Rightarrow> string" where
  "padded ndp number =
     (if length number < ndp + 1 then rightJustified number (ndp + 1) (CHR ''0'') else number)"

lemma padded_facts:
  "undec (padded ndp number) = undec number"
  "ndp < length (padded ndp number)"
  "(\<forall>c\<in>set number. is_digit c) \<Longrightarrow> c \<in> set (padded ndp number) \<Longrightarrow> is_digit c"
  by (auto simp: padded_def rightJustified_def undec_append split: if_splits)

lemma dot_not_digit: "is_digit c \<Longrightarrow> c \<noteq> CHR ''.''"
  by (auto simp: is_digit_def)

lemma format_digits_shape:
  fixes ndp :: nat
  assumes digits: "\<forall>c\<in>set number. is_digit c"
  defines "P \<equiv> padded ndp number"
  defines "d \<equiv> length P - ndp"
  shows "\<exists>m. d \<le> m \<and> m \<le> length P \<and> format_digits ndp number = take d P @ CHR ''.'' # drop d (take m P) \<and>
     min (length P) (d + 2) \<le> m \<and> (\<forall>j. m \<le> j \<and> j < length P \<longrightarrow> P ! j = CHR ''0'') \<and>
     (m > d + 2 \<longrightarrow> P ! (m - 1) \<noteq> CHR ''0'') \<and>
     takeWhile (\<lambda>c. c \<noteq> CHR ''.'') (format_digits ndp number) = take d P"
proof -
  have len: "ndp < length P"
    by (simp add: P_def padded_facts)
  have a1: "length P - 1 < length P" and a2: "\<forall>j. length P - 1 < j \<longrightarrow> j < length P \<longrightarrow> False"
    using len by auto
  obtain m where m: "m \<le> length P" "strip_loop d P (length P - 1) = take m P" "min (length P) (d + 2) \<le> m"
    "\<forall>j. m \<le> j \<and> j < length P \<longrightarrow> P ! j = CHR ''0''" "m > d + 2 \<longrightarrow> P ! (m - 1) \<noteq> CHR ''0''"
    using strip_loop_take [OF a1 a2, of d] by blast
  have dm: "d \<le> m"
    using m(3) by (auto simp: d_def min_def split: if_splits)
  have "format_digits ndp number = insert_dot d (take m P)"
    using m(2) by (simp add: format_digits_def Let_def P_def d_def padded_def)
  then have f: "format_digits ndp number = take d P @ CHR ''.'' # drop d (take m P)"
    using dm by (simp add: insert_dot_def min_def)
  have "\<forall>c\<in>set (take d P). c \<noteq> CHR ''.''"
    using padded_facts(3) [OF digits] dot_not_digit by (auto simp: P_def dest!: in_set_takeD)
  then have "takeWhile (\<lambda>c. c \<noteq> CHR ''.'') (format_digits ndp number) = take d P"
    by (simp add: f takeWhile_append)
  then show ?thesis
    using m dm f by blast
qed

lemma decimal_value_format:
  assumes digits: "\<forall>c\<in>set number. is_digit c"
  shows "decimal_value ndp (format_digits ndp number) = undec number"
proof -
  define P where "P = padded ndp number"
  define d where "d = length P - ndp"
  obtain m where m: "d \<le> m" "m \<le> length P"
    "format_digits ndp number = take d P @ CHR ''.'' # drop d (take m P)"
    "\<forall>j. m \<le> j \<and> j < length P \<longrightarrow> P ! j = CHR ''0''"
    "takeWhile (\<lambda>c. c \<noteq> CHR ''.'') (format_digits ndp number) = take d P"
    using format_digits_shape [OF digits, of ndp] unfolding P_def d_def by blast
  have len: "length P = d + ndp"
    using padded_facts(2) [of ndp number] by (simp add: P_def d_def)
  have zeros: "drop m P = replicate (length P - m) (CHR ''0'')"
    using m(2,4) by (intro nth_equalityI) auto
  have "drop d P = drop d (take m P) @ drop m P"
    using m(1,2) by (metis append_take_drop_id drop_append drop_take length_take min.absorb2 diff_is_0_eq drop0)
  then have "undec (drop d P) = undec (drop d (take m P)) * 10 ^ (length P - m)"
    by (simp add: undec_append zeros)
  moreover have "undec P = undec (take d P) * 10 ^ ndp + undec (drop d P)"
    using undec_append [of "take d P" "drop d P"] len by simp
  moreover have "decimal_value ndp (format_digits ndp number) =
      undec (take d P) * 10 ^ ndp + undec (drop d (take m P)) * 10 ^ (ndp - (m - d))"
    unfolding decimal_value_def m(5) unfolding m(3) using m(1,2) len by (simp add: Let_def min_def)
  moreover have "ndp - (m - d) = length P - m"
    using len m(1,2) by simp
  ultimately show ?thesis
    by (simp add: P_def padded_facts(1))
qed

lemma decimals_format:
  assumes digits: "\<forall>c\<in>set number. is_digit c"
  shows "min 2 ndp \<le> length (decimals (format_digits ndp number)) \<and>
     length (decimals (format_digits ndp number)) \<le> ndp \<and>
     (length (decimals (format_digits ndp number)) > 2 \<longrightarrow> last (format_digits ndp number) \<noteq> CHR ''0'')"
proof -
  define P where "P = padded ndp number"
  define d where "d = length P - ndp"
  obtain m where m: "d \<le> m" "m \<le> length P"
    "format_digits ndp number = take d P @ CHR ''.'' # drop d (take m P)" "min (length P) (d + 2) \<le> m"
    "m > d + 2 \<longrightarrow> P ! (m - 1) \<noteq> CHR ''0''"
    "takeWhile (\<lambda>c. c \<noteq> CHR ''.'') (format_digits ndp number) = take d P"
    using format_digits_shape [OF digits, of ndp] unfolding P_def d_def by blast
  have len: "length P = d + ndp"
    using padded_facts(2) [of ndp number] by (simp add: P_def d_def)
  have dec: "decimals (format_digits ndp number) = drop d (take m P)"
    unfolding decimals_def m(6) unfolding m(3) using m(1,2) by simp
  have "last (format_digits ndp number) = P ! (m - 1)" if "m > d + 2"
    unfolding m(3) using that m(2) by (simp add: last_conv_nth nth_append)
  then show ?thesis
    unfolding dec using m(1,2,4,5) len by (auto simp: min_def split: if_splits)
qed

text \<open>
  C28. The string shown for an unsigned amount denotes exactly that amount: read
  back with the currency's number of decimal places it gives the number of
  atomic units. It has at least two decimals (all, if the currency has fewer),
  at most the currency's, and does not end in a zero beyond the second.
\<close>

theorem formatUnsignedAmount_exact:
  "decimal_value ndp (formatUnsignedAmount ndp a) = unat a \<and>
   min 2 ndp \<le> length (decimals (formatUnsignedAmount ndp a)) \<and>
   length (decimals (formatUnsignedAmount ndp a)) \<le> ndp \<and>
   (last (formatUnsignedAmount ndp a) = CHR ''0'' \<longrightarrow> length (decimals (formatUnsignedAmount ndp a)) \<le> 2)"
  unfolding formatUnsignedAmount_def
  using decimal_value_format [of "dec (unat a)" ndp] decimals_format [of "dec (unat a)" ndp] dec_digits
  by (auto simp: not_le)

theorem formatUnsignedAmount_exact_witness:
  "decimal_value 12 (formatUnsignedAmount 12 1500000000000) = 1500000000000"
  using formatUnsignedAmount_exact [of 12 1500000000000] by simp


section \<open>Signed amounts, the short form and reading back\<close>

lemma sint_range: "- (2 ^ 63) \<le> sint (a :: i64)" "sint (a :: i64) < 2 ^ 63"
  using sint_ge [of a] sint_lt [of a] by simp_all

lemma sint_qAbs:
  assumes "sint (a :: i64) > - (2 ^ 63)"
  shows "sint (qAbs a) = \<bar>sint a\<bar>"
proof (cases "sint a \<ge> 0")
  case False
  have "- (2 ^ 63) \<le> - sint a" "- sint a < 2 ^ 63"
    using assms sint_range [of a] False by auto
  then have "sint (- a) = - sint a"
    by (simp add: sint_word_ariths signed_take_bit_int_eq_self)
  then show ?thesis
    using False by (simp add: qAbs_def)
qed (simp add: qAbs_def)

lemma formatAmount_conv:
  assumes "sint a > - (2 ^ 63)"
  shows "formatAmount ndp a =
    (if sint a < 0 then CHR ''-'' # format_digits ndp (dec (nat \<bar>sint a\<bar>)) else format_digits ndp (dec (nat \<bar>sint a\<bar>)))"
  by (simp add: formatAmount_def Let_def sint_qAbs [OF assms] dec_int_def)

text \<open>
  A signed amount other than the least 64-bit number is shown as its
  absolute value, with a leading minus sign exactly when it is negative.
\<close>

theorem formatAmount_exact:
  assumes "sint a > - (2 ^ 63)"
  shows "(sint a \<ge> 0 \<longrightarrow> int (decimal_value ndp (formatAmount ndp a)) = sint a) \<and>
         (sint a < 0 \<longrightarrow> hd (formatAmount ndp a) = CHR ''-'' \<and>
            - int (decimal_value ndp (tl (formatAmount ndp a))) = sint a)"
  using decimal_value_format [of "dec (nat \<bar>sint a\<bar>)" ndp] dec_digits
  by (auto simp: formatAmount_conv [OF assms])

theorem formatAmount_exact_witness:
  "hd (formatAmount 12 (- 5)) = CHR ''-'' \<and> - int (decimal_value 12 (tl (formatAmount 12 (- 5)))) = - 5"
  using formatAmount_exact [of "- 5" 12] by simp

definition reads_decimals :: "(string \<Rightarrow> u64 option) \<Rightarrow> nat \<Rightarrow> bool" where
  "reads_decimals cur ndp \<longleftrightarrow>
     (\<forall>i f. i \<noteq> [] \<and> (\<forall>c\<in>set (i @ f). is_digit c) \<and> length f \<le> ndp \<and>
            undec i * 10 ^ ndp + undec f * 10 ^ (ndp - length f) < 2 ^ 64 \<longrightarrow>
            cur (i @ CHR ''.'' # f) = Some (of_nat (undec i * 10 ^ ndp + undec f * 10 ^ (ndp - length f))))"

lemma trimmed_no_space: "\<forall>c\<in>set s. \<not> is_space c \<Longrightarrow> trimmed s = s"
proof -
  assume ns: "\<forall>c\<in>set s. \<not> is_space c"
  have "dropWhile is_space s = s"
    using ns by (intro dropWhile_id_hd) auto
  moreover have "dropWhile is_space (rev s) = rev s"
    using ns by (intro dropWhile_id_hd) (auto simp: hd_rev)
  ultimately show ?thesis
    by (simp add: trimmed_def)
qed

lemma digit_plain: "is_digit c \<Longrightarrow> \<not> is_space c \<and> c \<noteq> CHR '',''"
  by (auto simp: is_digit_def is_space_def)

lemma format_parts:
  assumes digits: "\<forall>c\<in>set number. is_digit c"
  obtains i f where "format_digits ndp number = i @ CHR ''.'' # f" "i \<noteq> []"
    "\<forall>c\<in>set (i @ f). is_digit c" "length f \<le> ndp"
    "undec i * 10 ^ ndp + undec f * 10 ^ (ndp - length f) = undec number"
proof -
  define P where "P = padded ndp number"
  define d where "d = length P - ndp"
  obtain m where m: "d \<le> m" "m \<le> length P"
    "format_digits ndp number = take d P @ CHR ''.'' # drop d (take m P)"
    "takeWhile (\<lambda>c. c \<noteq> CHR ''.'') (format_digits ndp number) = take d P"
    using format_digits_shape [OF digits, of ndp] unfolding P_def d_def by blast
  have len: "length P = d + ndp" "0 < d"
    using padded_facts(2) [of ndp number] by (simp_all add: P_def d_def)
  have "decimal_value ndp (format_digits ndp number) =
      undec (take d P) * 10 ^ ndp + undec (drop d (take m P)) * 10 ^ (ndp - length (drop d (take m P)))"
    unfolding decimal_value_def m(4) unfolding m(3) using m(1,2) len by (simp add: Let_def min_def)
  moreover have "take d P \<noteq> []"
    using len by auto
  moreover have "\<forall>c\<in>set (take d P @ drop d (take m P)). is_digit c"
    using padded_facts(3) [OF digits] by (auto simp: P_def dest!: in_set_takeD in_set_dropD)
  moreover have "length (drop d (take m P)) \<le> ndp"
    using m(2) len by simp
  ultimately show thesis
    using that m(3) decimal_value_format [OF digits, of ndp] by metis
qed

text \<open>
  C29. If the currency's parser reads decimal strings (digits, a dot and at most
  the currency's number of decimals, when the value fits 64 bits), then parsing
  the string shown for an unsigned amount gives the amount back.
\<close>

theorem format_parse_roundtrip:
  assumes "reads_decimals cur ndp"
  shows "parseUnsignedAmount cur (formatUnsignedAmount ndp a) = a"
proof -
  obtain i f where f: "formatUnsignedAmount ndp a = i @ CHR ''.'' # f" "i \<noteq> []"
    "\<forall>c\<in>set (i @ f). is_digit c" "length f \<le> ndp"
    "undec i * 10 ^ ndp + undec f * 10 ^ (ndp - length f) = unat a"
    using format_parts [of "dec (unat a)" ndp] dec_digits unfolding formatUnsignedAmount_def by auto
  have "\<forall>c\<in>set (i @ CHR ''.'' # f). \<not> is_space c" "\<forall>c\<in>set (i @ CHR ''.'' # f). c \<noteq> CHR '',''"
    using f(3) digit_plain by (auto simp: is_space_def)
  then have "filter (\<lambda>c. c \<noteq> CHR '','') (trimmed (i @ CHR ''.'' # f)) = i @ CHR ''.'' # f"
    by (simp add: trimmed_no_space)
  moreover have "unat a < 2 ^ 64"
    by (rule unat_bound_64)
  then have "cur (i @ CHR ''.'' # f) = Some (of_nat (unat a))"
    using assms f(2-4) unfolding reads_decimals_def f(5) [symmetric] by blast
  then have "cur (i @ CHR ''.'' # f) = Some a"
    by simp
  ultimately show ?thesis
    by (simp add: parseUnsignedAmount_def f(1))
qed

definition decimal_reader :: "nat \<Rightarrow> string \<Rightarrow> u64 option" where
  "decimal_reader ndp s = Some (of_nat (decimal_value ndp s))"

lemma decimal_reader_reads: "reads_decimals (decimal_reader ndp) ndp"
proof -
  have "takeWhile (\<lambda>c. c \<noteq> CHR ''.'') (i @ CHR ''.'' # f) = i" if "\<forall>c\<in>set (i @ f). is_digit c" for i f
    using that dot_not_digit by (subst takeWhile_append2) auto
  then show ?thesis
    by (simp add: reads_decimals_def decimal_reader_def decimal_value_def Let_def)
qed

theorem format_parse_roundtrip_witness:
  "parseUnsignedAmount (decimal_reader 12) (formatUnsignedAmount 12 1234567) = 1234567"
  by (rule format_parse_roundtrip) (rule decimal_reader_reads)

lemma format_short_digits:
  assumes digits: "\<forall>c\<in>set number. is_digit c" and "4 \<le> ndp"
  defines "s \<equiv> format_digits ndp number"
  defines "p \<equiv> length (takeWhile (\<lambda>c. c \<noteq> CHR ''.'') s)"
  shows "decimal_value ndp (if length s \<le> p + 5 then s else take (p + 5) s) = undec number div 10 ^ (ndp - 4) * 10 ^ (ndp - 4)"
proof -
  obtain i f where f: "s = i @ CHR ''.'' # f" "\<forall>c\<in>set (i @ f). is_digit c" "length f \<le> ndp"
    "undec i * 10 ^ ndp + undec f * 10 ^ (ndp - length f) = undec number"
    using format_parts [OF digits, of ndp] unfolding s_def by metis
  have tw: "takeWhile (\<lambda>c. c \<noteq> CHR ''.'') (i @ CHR ''.'' # g) = i" for g
    using f(2) dot_not_digit by (subst takeWhile_append2) auto
  have val: "decimal_value ndp (i @ CHR ''.'' # g) = undec i * 10 ^ ndp + undec g * 10 ^ (ndp - length g)" for g
    unfolding decimal_value_def tw by simp
  have p: "p = length i"
    unfolding p_def f(1) tw by simp
  have pw: "(10::nat) ^ ndp = 10 ^ 4 * 10 ^ (ndp - 4)"
    using power_add [of "10::nat" 4 "ndp - 4"] assms(2) by simp
  show ?thesis
  proof (cases "length f \<le> 4")
    case True
    have "(10::nat) ^ (ndp - length f) = 10 ^ (4 - length f) * 10 ^ (ndp - 4)"
      using True assms(2) by (simp flip: power_add)
    then have "undec number = (undec i * 10 ^ 4 + undec f * 10 ^ (4 - length f)) * 10 ^ (ndp - 4)"
      using f(4) pw by (simp add: algebra_simps)
    then show ?thesis
      using True f(1) p val f(4) by simp
  next
    case False
    have g: "take (p + 5) s = i @ CHR ''.'' # take 4 f"
      unfolding f(1) p by simp
    have fs: "f = take 4 f @ drop 4 f"
      by simp
    have "undec f = undec (take 4 f) * 10 ^ (length f - 4) + undec (drop 4 f)"
      using undec_append [of "take 4 f" "drop 4 f"] by simp
    moreover have "(10::nat) ^ (ndp - 4) = 10 ^ (length f - 4) * 10 ^ (ndp - length f)"
      using False f(3) by (simp flip: power_add)
    ultimately have "undec number = (undec i * 10 ^ 4 + undec (take 4 f)) * 10 ^ (ndp - 4) + undec (drop 4 f) * 10 ^ (ndp - length f)"
      using f(4) pw by (simp add: algebra_simps)
    moreover have "undec (drop 4 f) * 10 ^ (ndp - length f) < 10 ^ (ndp - 4)"
    proof -
      have "undec (drop 4 f) < 10 ^ length (drop 4 f)"
        using f(2) by (intro undec_bound) (auto dest: in_set_dropD)
      then show ?thesis
        using \<open>(10::nat) ^ (ndp - 4) = _\<close> by simp
    qed
    ultimately have "undec number div 10 ^ (ndp - 4) = undec i * 10 ^ 4 + undec (take 4 f)"
      by simp
    then show ?thesis
      using False f(1) p g val [of "take 4 f"] pw by (simp add: algebra_simps)
  qed
qed

text \<open>
  For a currency with at least four decimals the short form of an amount
  that is not negative denotes the amount cut off (never rounded up) after the
  fourth decimal.
\<close>

theorem formatAmountToShort_truncates:
  assumes "0 \<le> sint a" "4 \<le> ndp"
  shows "decimal_value ndp (formatAmountToShort ndp a) = nat (sint a) div 10 ^ (ndp - 4) * 10 ^ (ndp - 4)"
proof -
  let ?n = "dec (nat (sint a))"
  let ?s = "format_digits ndp ?n"
  let ?p = "length (takeWhile (\<lambda>c. c \<noteq> CHR ''.'') ?s)"
  have s: "formatAmount ndp a = ?s"
    using assms(1) formatAmount_conv [of a ndp] by simp
  obtain i f where f: "?s = i @ CHR ''.'' # f" "\<forall>c\<in>set (i @ f). is_digit c"
    using format_parts [of ?n ndp] dec_digits by metis
  have tw: "takeWhile (\<lambda>c. c \<noteq> CHR ''.'') ?s = i"
    unfolding f(1) using f(2) dot_not_digit by (subst takeWhile_append2) auto
  have "find_index (\<lambda>x. x = CHR ''.'') ?s = Some (length i)"
    unfolding find_index_Some f(1) using f(2) dot_not_digit by (auto simp: nth_append)
  then have ix: "index_of (CHR ''.'') ?s = int ?p"
    by (simp add: index_of_def tw)
  have tk: "take (Suc n) xs @ map (\<lambda>i. xs ! i) [Suc n..<n + 5] = take (n + 5) xs" if "n + 5 \<le> length xs" for n and xs :: string
    using that by (intro nth_equalityI) (auto simp: nth_append min_def)
  have "formatAmountToShort ndp a = (if length ?s \<le> ?p + 5 then ?s else take (?p + 5) ?s)"
    using tk [of ?p ?s] by (auto simp: formatAmountToShort_def s Let_def ix nat_add_distrib)
  then show ?thesis
    using format_short_digits [of ?n ndp] dec_digits assms(2) by simp
qed

theorem formatAmountToShort_truncates_witness:
  "decimal_value 12 (formatAmountToShort 12 1234567890123) = 1234500000000"
  using formatAmountToShort_truncates [of 1234567890123 12] by simp

text \<open>
  The payment id test accepts exactly the strings of 64 characters of which
  at least 63 are hex digits: the hex decoder skips other characters and rounds
  an odd number of digits up, so one character that is no hex digit goes unnoticed.
\<close>

theorem isValidPaymentId_accepts:
  "isValidPaymentId p \<longleftrightarrow> length p = 64 \<and> 63 \<le> length (filter is_hex p)"
proof -
  have "(k + 1) div 2 = 32 \<longleftrightarrow> 63 \<le> k" if "k \<le> 64" for k :: nat
    using that by linarith
  moreover have "length (filter is_hex p) \<le> 64" if "length p = 64"
    using that by (metis length_filter_le)
  ultimately show ?thesis
    by (auto simp: isValidPaymentId_def fromHex_size_def simp del: One_nat_def add_Suc_right)
qed

end
