(* ===== verification/NodeConnection.thy ===== *)
theory NodeConnection
  imports AmountFormat Transition
begin

text \<open>
  Choosing and starting a node: the connection state machine of
  CryptoNoteAdapter (src/src/CryptoNoteWrapper/CryptoNoteAdapter.cpp). With the
  automatic method a local daemon is tried first; when it does not answer within
  the timer's interval, or reports that it is not connected, the adapter falls
  back to the embedded node.

  State: the connection method and its parameters, the current node adapter (its
  type, its URL and whether this object observes it), the id of the auto
  connection timer (-1 when there is none) and the signals emitted. Events of
  the node adapter reach the handlers only while it is observed.

  Lemmas: one completion per start, the timer lives only with an observed RPC
  adapter that has not completed, the node type that results, and that a
  running attempt always has an event that ends it.
\<close>

datatype connection_method = AUTO | EMBEDDED | LOCAL | REMOTE

datatype node_type = RPC | IN_PROCESS

datatype conn_signal = InitCompletedSignal int | DeinitCompletedSignal

record node_adapter =
  na_type :: node_type
  na_url :: string
  na_observed :: bool

record conn_state =
  cs_method :: connection_method
  cs_localPort :: nat
  cs_remoteUrl :: string
  cs_node :: "node_adapter option"
  cs_timer :: int
  cs_onRemote :: bool
  cs_explorerInits :: nat
  cs_signals :: "conn_signal list"

definition cs_new :: "nat \<Rightarrow> conn_state" where
  "cs_new defaultPort = \<lparr>cs_method = AUTO, cs_localPort = defaultPort, cs_remoteUrl = [], cs_node = None,
     cs_timer = -1, cs_onRemote = False, cs_explorerInits = 0, cs_signals = []\<rparr>"

definition INIT_OK :: int where "INIT_OK = 0"

definition cs_emit :: "conn_signal \<Rightarrow> conn_state \<Rightarrow> conn_state" where
  "cs_emit g s = s\<lparr>cs_signals := cs_signals s @ [g]\<rparr>"

definition local_url :: "nat \<Rightarrow> string" where
  "local_url port = ''http://127.0.0.1:'' @ dec port"

definition new_node :: "node_type \<Rightarrow> string \<Rightarrow> conn_state \<Rightarrow> conn_state" where
  "new_node ty url s = s\<lparr>cs_node := Some \<lparr>na_type = ty, na_url = url, na_observed = True\<rparr>\<rparr>"

text \<open>startTimer answers a timer id, which is positive; it is a parameter.\<close>

definition initAutoConnection :: "nat \<Rightarrow> nat \<Rightarrow> conn_state \<Rightarrow> conn_state" where
  "initAutoConnection defaultPort timerId s =
     (new_node RPC (local_url defaultPort) s)\<lparr>cs_timer := int timerId\<rparr>"

definition initInProcessNode :: "conn_state \<Rightarrow> conn_state" where
  "initInProcessNode s = new_node IN_PROCESS [] s"

definition initLocalRpcNode :: "conn_state \<Rightarrow> conn_state" where
  "initLocalRpcNode s = new_node RPC (local_url (cs_localPort s)) s"

definition initRemoteRpcNode :: "conn_state \<Rightarrow> conn_state" where
  "initRemoteRpcNode s = (new_node RPC (cs_remoteUrl s) s)\<lparr>cs_onRemote := True\<rparr>"

definition initNode :: "nat \<Rightarrow> nat \<Rightarrow> conn_state \<Rightarrow> conn_state option" where
  "initNode defaultPort timerId s =
     (if cs_node s \<noteq> None then None
      else Some (case cs_method s of
             AUTO \<Rightarrow> initAutoConnection defaultPort timerId s
           | EMBEDDED \<Rightarrow> initInProcessNode s
           | LOCAL \<Rightarrow> initLocalRpcNode s
           | REMOTE \<Rightarrow> initRemoteRpcNode s))"

definition conn_init ::
  "nat \<Rightarrow> nat \<Rightarrow> connection_method \<Rightarrow> nat \<Rightarrow> string \<Rightarrow> conn_state \<Rightarrow> conn_state option" where
  "conn_init defaultPort timerId m port url s =
     (if cs_node s \<noteq> None then None
      else initNode defaultPort timerId (s\<lparr>cs_method := m, cs_localPort := port, cs_remoteUrl := url\<rparr>))"

text \<open>The result of init: the status of the completion that ended the nested loop, -1 without one.\<close>

fun init_result :: "conn_signal list \<Rightarrow> int" where
  "init_result [] = -1"
| "init_result (InitCompletedSignal st # gs) = st"
| "init_result (g # gs) = init_result gs"

definition stop_observing :: "conn_state \<Rightarrow> conn_state" where
  "stop_observing s = s\<lparr>cs_node := map_option (\<lambda>n. n\<lparr>na_observed := False\<rparr>) (cs_node s)\<rparr>"

definition onLocalDaemonNotFound :: "conn_state \<Rightarrow> conn_state" where
  "onLocalDaemonNotFound s = initInProcessNode (s\<lparr>cs_timer := -1, cs_node := None\<rparr>)"

text \<open>hasExplorer says whether the node adapter has a blockchain explorer adapter.\<close>

definition initCompleted :: "bool \<Rightarrow> int \<Rightarrow> conn_state \<Rightarrow> conn_state option" where
  "initCompleted hasExplorer st s =
     (case cs_node s of
        None \<Rightarrow> None
      | Some n \<Rightarrow>
          let s1 = (if st = INIT_OK \<and> hasExplorer then s\<lparr>cs_explorerInits := Suc (cs_explorerInits s)\<rparr> else s)
          in Some (if na_type n = IN_PROCESS \<or> cs_timer s1 = -1
                   then cs_emit (InitCompletedSignal st) (stop_observing s1) else s1))"

text \<open>peerCountUpdated, localBlockchainUpdated and lastKnownBlockHeightUpdated have the same body.\<close>

definition daemon_answered :: "conn_state \<Rightarrow> conn_state option" where
  "daemon_answered s =
     (case cs_node s of
        None \<Rightarrow> None
      | Some n \<Rightarrow>
          Some (if na_type n = RPC \<and> cs_timer s \<noteq> -1
                then cs_emit (InitCompletedSignal INIT_OK) (stop_observing (s\<lparr>cs_timer := -1\<rparr>)) else s))"

definition connectionStatusUpdated :: "bool \<Rightarrow> conn_state \<Rightarrow> conn_state option" where
  "connectionStatusUpdated isUp s =
     (case cs_node s of
        None \<Rightarrow> None
      | Some n \<Rightarrow>
          Some (if na_type n = RPC \<and> cs_timer s \<noteq> -1 \<and> \<not> isUp then onLocalDaemonNotFound s else s))"

definition timerEvent :: "int \<Rightarrow> conn_state \<Rightarrow> conn_state" where
  "timerEvent i s = (if i = cs_timer s then onLocalDaemonNotFound s else s)"

definition conn_deinit :: "conn_state \<Rightarrow> conn_state option" where
  "conn_deinit s =
     (case cs_node s of
        None \<Rightarrow> None
      | Some n \<Rightarrow> Some (cs_emit DeinitCompletedSignal (s\<lparr>cs_node := None\<rparr>)))"

datatype conn_event =
    EvInitCompleted bool int
  | EvPeerCountUpdated nat
  | EvLocalBlockchainUpdated
  | EvLastKnownBlockHeightUpdated nat
  | EvConnectionStatusUpdated bool
  | EvTimer int

definition observing :: "conn_state \<Rightarrow> bool" where
  "observing s \<longleftrightarrow> (\<exists>n. cs_node s = Some n \<and> na_observed n)"

fun handle_event :: "conn_event \<Rightarrow> conn_state \<Rightarrow> conn_state option" where
  "handle_event (EvInitCompleted hx st) s = (if observing s then initCompleted hx st s else None)"
| "handle_event (EvPeerCountUpdated n) s = (if observing s then daemon_answered s else None)"
| "handle_event EvLocalBlockchainUpdated s = (if observing s then daemon_answered s else None)"
| "handle_event (EvLastKnownBlockHeightUpdated h) s = (if observing s then daemon_answered s else None)"
| "handle_event (EvConnectionStatusUpdated c) s = (if observing s then connectionStatusUpdated c s else None)"
| "handle_event (EvTimer i) s = (if i > 0 \<and> i = cs_timer s then Some (timerEvent i s) else None)"


section \<open>One attempt to start\<close>

definition completions :: "conn_signal list \<Rightarrow> int list" where
  "completions gs = concat (map (\<lambda>g. case g of InitCompletedSignal st \<Rightarrow> [st] | _ \<Rightarrow> []) gs)"

lemma completions_simps [simp]:
  "completions [] = []" "completions (gs @ [InitCompletedSignal st]) = completions gs @ [st]"
  by (simp_all add: completions_def)

inductive conn_start :: "nat \<Rightarrow> conn_state \<Rightarrow> bool" for defaultPort where
  "timerId > 0 \<Longrightarrow> cs_node s = None \<Longrightarrow> cs_timer s = -1 \<Longrightarrow> cs_signals s = [] \<Longrightarrow>
   conn_init defaultPort timerId m port url s = Some t \<Longrightarrow> conn_start defaultPort t"

definition conn_step :: "conn_state \<Rightarrow> conn_state \<Rightarrow> bool" where
  "conn_step s t \<longleftrightarrow> (\<exists>e. handle_event e s = Some t)"

text \<open>
  The timer runs only during an automatic attempt that still waits for the
  daemon; a completion ends the observation; the type of node follows the method.
\<close>

definition node_ok :: "node_adapter \<Rightarrow> conn_state \<Rightarrow> bool" where
  "node_ok n s \<longleftrightarrow>
     (cs_timer s \<noteq> -1 \<longrightarrow> cs_timer s > 0 \<and> cs_method s = AUTO \<and> na_type n = RPC \<and> na_observed n) \<and>
     (if na_observed n then completions (cs_signals s) = [] else length (completions (cs_signals s)) = 1) \<and>
     (case cs_method s of
        EMBEDDED \<Rightarrow> na_type n = IN_PROCESS
      | LOCAL \<Rightarrow> na_type n = RPC \<and> na_url n = local_url (cs_localPort s)
      | REMOTE \<Rightarrow> na_type n = RPC \<and> na_url n = cs_remoteUrl s \<and> cs_onRemote s
      | AUTO \<Rightarrow> na_type n = RPC \<longrightarrow>
                  (if na_observed n then cs_timer s \<noteq> -1 else completions (cs_signals s) = [INIT_OK]))"

definition conn_inv :: "conn_state \<Rightarrow> bool" where
  "conn_inv s \<longleftrightarrow> (case cs_node s of None \<Rightarrow> False | Some n \<Rightarrow> node_ok n s)"

lemmas conn_defs = cs_emit_def new_node_def initAutoConnection_def initInProcessNode_def initLocalRpcNode_def
  initRemoteRpcNode_def stop_observing_def onLocalDaemonNotFound_def initCompleted_def daemon_answered_def
  connectionStatusUpdated_def timerEvent_def observing_def

lemma conn_start_inv: "conn_start p s \<Longrightarrow> conn_inv s"
  by (erule conn_start.cases, hypsubst)
     (auto simp: conn_init_def initNode_def conn_defs conn_inv_def node_ok_def split: connection_method.splits if_splits)

lemma conn_step_inv:
  assumes inv: "conn_inv s" and step: "conn_step s t"
  shows "conn_inv t"
proof -
  obtain e where e: "handle_event e s = Some t"
    using step by (auto simp: conn_step_def)
  obtain n where n: "cs_node s = Some n"
    using inv by (auto simp: conn_inv_def split: option.splits)
  have ok: "node_ok n s"
    using inv n by (simp add: conn_inv_def)
  show ?thesis
  proof (cases "na_observed n")
    case False
    then have "cs_timer s = -1"
      using ok by (simp add: node_ok_def)
    then show ?thesis
      using e n False by (cases e) (simp_all add: observing_def split: if_splits)
  next
    case True
    show ?thesis
      using e n ok True
      by (cases e; cases "na_type n"; cases "cs_timer s = -1"; cases "cs_method s")
        (simp_all add: conn_defs conn_inv_def node_ok_def Let_def split: if_splits, safe, simp_all add: node_ok_def)
  qed
qed

interpretation conn: inductive_invariant "conn_start p" conn_step conn_inv for p
  by unfold_locales (auto intro: conn_start_inv conn_step_inv)


lemma auto_started:
  "\<exists>t. conn_init 32348 7 AUTO 1 [] (cs_new 32348) = Some t \<and> cs_timer t = 7 \<and> reach (conn_start 32348) conn_step t"
proof -
  let ?t = "initAutoConnection 32348 7 ((cs_new 32348)\<lparr>cs_method := AUTO, cs_localPort := 1, cs_remoteUrl := []\<rparr>)"
  have i: "conn_init 32348 7 AUTO 1 [] (cs_new 32348) = Some ?t"
    by (simp add: conn_init_def initNode_def cs_new_def)
  then have "reach (conn_start 32348) conn_step ?t"
    by (intro reach_start conn_start.intros [OF _ _ _ _ i]) (simp_all add: cs_new_def)
  then show ?thesis
    using i by (intro exI [of _ ?t]) (simp add: initAutoConnection_def)
qed


text \<open>
  An attempt always ends: in every state of an attempt that has not
  completed, an event that the node or the timer can deliver leads on, and
  either it completes the start or, for the automatic attempt, it replaces the
  daemon by the embedded node, whose own completion then completes the start.
\<close>

theorem node_start_can_complete:
  assumes "reach (conn_start p) conn_step s" "completions (cs_signals s) = []"
  shows "if cs_timer s \<noteq> -1
         then \<exists>t u. handle_event (EvTimer (cs_timer s)) s = Some t \<and> cs_timer t = -1 \<and>
                handle_event (EvInitCompleted hx st) t = Some u \<and> completions (cs_signals u) = [st]
         else \<exists>u. handle_event (EvInitCompleted hx st) s = Some u \<and> completions (cs_signals u) = [st]"
proof -
  have inv: "conn_inv s"
    using assms(1) by (rule conn.reach_inv)
  then obtain n where n: "cs_node s = Some n" "node_ok n s"
    by (auto simp: conn_inv_def split: option.splits)
  then have ob: "na_observed n"
    using assms(2) by (auto simp: node_ok_def split: if_splits)
  show ?thesis
    using n ob assms(2) by (simp add: node_ok_def conn_defs Let_def split: if_splits)
qed

theorem node_start_can_complete_witness:
  "\<exists>s t. conn_init 32348 7 AUTO 1 [] (cs_new 32348) = Some s \<and> handle_event (EvTimer 7) s = Some t"
proof -
  obtain s where s: "conn_init 32348 7 AUTO 1 [] (cs_new 32348) = Some s" "cs_timer s = 7"
    "reach (conn_start 32348) conn_step s"
    using auto_started by blast
  have "cs_signals s = []"
    using s(1) by (auto simp: conn_init_def initNode_def cs_new_def conn_defs)
  then have "completions (cs_signals s) = []"
    by simp
  from node_start_can_complete [OF s(3) this] s show ?thesis
    by auto
qed

end
