(* ===== verification/JsonRpc.thy ===== *)
theory JsonRpc
  imports Prelude
begin

text \<open>
  The JSON-RPC layer (src/src/QJsonRpc): requests, responses and notifications
  as objects with accessors, the tests that tell them apart, the factory that
  parses one, and the server that answers each line of a connection.

  The JSON text codec and the handler object with its methods are parameters.
  A null QString is None. A failed Q_ASSERT is None.

  Lemmas: the three kinds are told apart; what a client writes is what the
  server reads; every line gets at most one answer and which one.
\<close>

section \<open>Objects\<close>

datatype rpc_type = TYPE_REQUEST | TYPE_RESPONSE | TYPE_NOTIFICATION

record rpc_object =
  ro_type :: rpc_type
  ro_json :: jobject

definition jsonRpcVersion :: string where "jsonRpcVersion = ''2.0''"
definition jsonRpcTag :: string where "jsonRpcTag = ''jsonrpc''"
definition idTag :: string where "idTag = ''id''"
definition methodTag :: string where "methodTag = ''method''"
definition paramsTag :: string where "paramsTag = ''params''"
definition resultTag :: string where "resultTag = ''result''"
definition errorTag :: string where "errorTag = ''error''"
definition errorCodeTag :: string where "errorCodeTag = ''code''"
definition errorMessageTag :: string where "errorMessageTag = ''message''"
definition errorDataTag :: string where "errorDataTag = ''data''"

lemmas rpc_tags = jsonRpcTag_def idTag_def methodTag_def paramsTag_def resultTag_def errorTag_def
  errorCodeTag_def errorMessageTag_def errorDataTag_def

definition PARSE_ERROR :: int where "PARSE_ERROR = - 32700"
definition INVALID_REQUEST_ERROR :: int where "INVALID_REQUEST_ERROR = - 32600"
definition METHOD_NOT_FOUND_ERROR :: int where "METHOD_NOT_FOUND_ERROR = - 32601"

definition PARSE_ERROR_MESSAGE :: string where "PARSE_ERROR_MESSAGE = ''Parse error''"
definition INVALID_REQUEST_MESSAGE :: string where "INVALID_REQUEST_MESSAGE = ''Invalid Request''"
definition METHOD_NOT_FOUND_MESSAGE :: string where "METHOD_NOT_FOUND_MESSAGE = ''Method not found''"

definition jcontains :: "jobject \<Rightarrow> string \<Rightarrow> bool" where
  "jcontains ob k \<longleftrightarrow> ob k \<noteq> None"

definition new_object :: "rpc_type \<Rightarrow> rpc_object" where
  "new_object ty = \<lparr>ro_type = ty, ro_json = [jsonRpcTag \<mapsto> JString jsonRpcVersion]\<rparr>"

definition object_from :: "jobject \<Rightarrow> rpc_type \<Rightarrow> rpc_object" where
  "object_from ob ty = \<lparr>ro_type = ty, ro_json = ob(jsonRpcTag \<mapsto> JString jsonRpcVersion)\<rparr>"

definition getValue :: "rpc_object \<Rightarrow> string \<Rightarrow> json" where
  "getValue r k = jvalue (ro_json r) k"

definition setValue :: "string \<Rightarrow> json \<Rightarrow> rpc_object \<Rightarrow> rpc_object" where
  "setValue k v r = r\<lparr>ro_json := (ro_json r)(k \<mapsto> v)\<rparr>"

definition versionMatches :: "jobject \<Rightarrow> bool" where
  "versionMatches ob \<longleftrightarrow> json_toString (jvalue ob jsonRpcTag) = jsonRpcVersion"

definition isValidJsonRpcRequest :: "jobject \<Rightarrow> bool" where
  "isValidJsonRpcRequest ob \<longleftrightarrow>
     versionMatches ob \<and> jcontains ob methodTag \<and> jvalue ob methodTag \<noteq> JNull \<and> jcontains ob idTag"

text \<open>The error code must be an int other than the largest, which marks a missing one.\<close>

definition INT_MAX :: int where "INT_MAX = 2 ^ 31 - 1"

definition isValidJsonRpcResponse :: "jobject \<Rightarrow> bool" where
  "isValidJsonRpcResponse ob \<longleftrightarrow>
     versionMatches ob \<and> jcontains ob idTag \<and>
     (jcontains ob resultTag \<and> \<not> jcontains ob errorTag \<or> \<not> jcontains ob resultTag \<and> jcontains ob errorTag) \<and>
     (jcontains ob errorTag \<longrightarrow>
        (let er = json_toObject (jvalue ob errorTag) in
         jcontains er errorCodeTag \<and> jcontains er errorMessageTag \<and>
         json_toInt INT_MAX (jvalue er errorCodeTag) \<noteq> INT_MAX))"

definition isValidJsonRpcNotification :: "jobject \<Rightarrow> bool" where
  "isValidJsonRpcNotification ob \<longleftrightarrow>
     versionMatches ob \<and> jcontains ob methodTag \<and> jvalue ob methodTag \<noteq> JNull \<and> \<not> jcontains ob idTag"

definition rpc_isValid :: "rpc_object \<Rightarrow> bool" where
  "rpc_isValid r =
     (case ro_type r of
        TYPE_REQUEST \<Rightarrow> isValidJsonRpcRequest (ro_json r)
      | TYPE_RESPONSE \<Rightarrow> isValidJsonRpcResponse (ro_json r)
      | TYPE_NOTIFICATION \<Rightarrow> isValidJsonRpcNotification (ro_json r))"

definition rpc_getJsonRpc :: "rpc_object \<Rightarrow> string" where
  "rpc_getJsonRpc r = json_toString (jvalue (ro_json r) jsonRpcTag)"


section \<open>Accessors\<close>

fun json_toQString :: "json \<Rightarrow> string option" where
  "json_toQString (JString s) = Some s"
| "json_toQString _ = None"

definition getId :: "rpc_object \<Rightarrow> string option" where
  "getId r = json_toQString (getValue r idTag)"

definition setId :: "string option \<Rightarrow> rpc_object \<Rightarrow> rpc_object" where
  "setId i r = setValue idTag (case i of None \<Rightarrow> JNull | Some s \<Rightarrow> JString s) r"

definition getMethod :: "rpc_object \<Rightarrow> string" where
  "getMethod r = json_toString (getValue r methodTag)"

definition setMethod :: "string \<Rightarrow> rpc_object \<Rightarrow> rpc_object" where
  "setMethod m r = setValue methodTag (JString m) r"

definition getParamsAsArray :: "rpc_object \<Rightarrow> json list" where
  "getParamsAsArray r = json_toArray (getValue r paramsTag)"

definition getParamsAsObject :: "rpc_object \<Rightarrow> jobject" where
  "getParamsAsObject r = json_toObject (getValue r paramsTag)"

definition setParamsFromArray :: "json list \<Rightarrow> rpc_object \<Rightarrow> rpc_object" where
  "setParamsFromArray xs r = setValue paramsTag (JArray xs) r"

definition setParamsFromObject :: "jobject \<Rightarrow> rpc_object \<Rightarrow> rpc_object" where
  "setParamsFromObject m r = setValue paramsTag (JObject m) r"

definition getResultAsArray :: "rpc_object \<Rightarrow> json list" where
  "getResultAsArray r = json_toArray (getValue r resultTag)"

text \<open>The source reads the params of the response here.\<close>

definition getResultAsObject :: "rpc_object \<Rightarrow> jobject" where
  "getResultAsObject r = json_toObject (getValue r paramsTag)"

definition setResultFromArray :: "json list \<Rightarrow> rpc_object \<Rightarrow> rpc_object" where
  "setResultFromArray xs r = setValue resultTag (JArray xs) r"

definition setResultFromObject :: "jobject \<Rightarrow> rpc_object \<Rightarrow> rpc_object" where
  "setResultFromObject m r = setValue resultTag (JObject m) r"

definition isErrorResponse :: "rpc_object \<Rightarrow> bool" where
  "isErrorResponse r = jcontains (ro_json r) errorTag"

definition getErrorCode :: "rpc_object \<Rightarrow> int" where
  "getErrorCode r = json_toInt 0 (jvalue (json_toObject (getValue r errorTag)) errorCodeTag)"

definition getErrorMessage :: "rpc_object \<Rightarrow> string" where
  "getErrorMessage r = json_toString (jvalue (json_toObject (getValue r errorTag)) errorMessageTag)"

definition getErrorData :: "rpc_object \<Rightarrow> json" where
  "getErrorData r = jvalue (json_toObject (getValue r errorTag)) errorDataTag"

text \<open>The error data is a variant; None is the null variant.\<close>

definition setError :: "int \<Rightarrow> string \<Rightarrow> string option \<Rightarrow> rpc_object \<Rightarrow> rpc_object" where
  "setError code msg data r =
     (let e = [errorCodeTag \<mapsto> JDouble (of_int code), errorMessageTag \<mapsto> JString msg]
      in setValue errorTag (JObject (case data of None \<Rightarrow> e | Some d \<Rightarrow> e(errorDataTag \<mapsto> JString d))) r)"


section \<open>Factory\<close>

record rpc_failure =
  rf_code :: int
  rf_message :: string
  rf_data :: string

definition parseJsonRpcObject :: "jobject \<Rightarrow> rpc_failure + rpc_object" where
  "parseJsonRpcObject ob =
     (if \<not> jcontains ob jsonRpcTag \<or> \<not> versionMatches ob then
        Inl \<lparr>rf_code = INVALID_REQUEST_ERROR, rf_message = INVALID_REQUEST_MESSAGE,
             rf_data = ''Incorrect JSON RPC version''\<rparr>
      else if isValidJsonRpcRequest ob then Inr (object_from ob TYPE_REQUEST)
      else if isValidJsonRpcResponse ob then Inr (object_from ob TYPE_RESPONSE)
      else if isValidJsonRpcNotification ob then Inr (object_from ob TYPE_NOTIFICATION)
      else Inl \<lparr>rf_code = INVALID_REQUEST_ERROR, rf_message = INVALID_REQUEST_MESSAGE, rf_data = []\<rparr>)"

fun createJsonRpcObject :: "json \<Rightarrow> rpc_failure + rpc_object" where
  "createJsonRpcObject (JObject ob) = parseJsonRpcObject ob"
| "createJsonRpcObject _ = Inl \<lparr>rf_code = INVALID_REQUEST_ERROR, rf_message = INVALID_REQUEST_MESSAGE, rf_data = []\<rparr>"


section \<open>Server\<close>

text \<open>
  The handler: hd_request invokes the method of that name on the request with
  the prepared response and answers the response it fills in, or None when there
  is no such method; hd_notify invokes a notification's method.
\<close>

record 'h handler =
  hd_request :: "string \<Rightarrow> rpc_object \<Rightarrow> rpc_object \<Rightarrow> 'h \<Rightarrow> ('h \<times> rpc_object) option"
  hd_notify :: "string \<Rightarrow> rpc_object \<Rightarrow> 'h \<Rightarrow> 'h"

text \<open>None is the failed assertion that the handler's response is valid; JNull is no answer.\<close>

definition processJsonValue :: "'h handler \<Rightarrow> json \<Rightarrow> 'h \<Rightarrow> ('h \<times> json) option" where
  "processJsonValue H v h =
     (case createJsonRpcObject v of
        Inl f \<Rightarrow>
          Some (h, JObject (ro_json (setError (rf_code f) (rf_message f) (Some (rf_data f)) (new_object TYPE_RESPONSE))))
      | Inr r \<Rightarrow>
          (case ro_type r of
             TYPE_REQUEST \<Rightarrow>
               (let response = setId (getId r) (new_object TYPE_RESPONSE) in
                case hd_request H (getMethod r) r response h of
                  None \<Rightarrow>
                    Some (h, JObject (ro_json (setError METHOD_NOT_FOUND_ERROR METHOD_NOT_FOUND_MESSAGE None response)))
                | Some (h1, answer) \<Rightarrow>
                    if rpc_isValid answer then Some (h1, JObject (ro_json answer)) else None)
           | TYPE_NOTIFICATION \<Rightarrow> Some (hd_notify H (getMethod r) r h, JNull)
           | TYPE_RESPONSE \<Rightarrow> Some (h, JNull)))"

text \<open>sendError builds an error response with a null id; sendObject asserts that it is valid.\<close>

definition sendObject :: "rpc_object \<Rightarrow> json option" where
  "sendObject r = (if rpc_isValid r then Some (JObject (ro_json r)) else None)"

definition sendError :: "int \<Rightarrow> string \<Rightarrow> string \<Rightarrow> json option" where
  "sendError code msg data = sendObject (setError code msg (Some data) (setId None (new_object TYPE_RESPONSE)))"

fun process_batch :: "'h handler \<Rightarrow> json list \<Rightarrow> 'h \<Rightarrow> ('h \<times> json list) option" where
  "process_batch H [] h = Some (h, [])"
| "process_batch H (v # vs) h =
     (case processJsonValue H v h of
        None \<Rightarrow> None
      | Some (h1, a) \<Rightarrow>
          (case process_batch H vs h1 of
             None \<Rightarrow> None
           | Some (h2, as) \<Rightarrow> Some (h2, if a \<noteq> JNull then a # as else as)))"

text \<open>
  One line of the connection; the parser answers the error string or the
  document, which is an array, an object or neither.
\<close>

definition process_line ::
  "(string \<Rightarrow> string + json) \<Rightarrow> 'h handler \<Rightarrow> string \<Rightarrow> 'h \<Rightarrow> ('h \<times> json list) option" where
  "process_line parse H line h =
     (case parse line of
        Inl err \<Rightarrow> map_option (\<lambda>m. (h, [m])) (sendError PARSE_ERROR PARSE_ERROR_MESSAGE err)
      | Inr (JArray vs) \<Rightarrow>
          if vs = [] then map_option (\<lambda>m. (h, [m])) (sendError INVALID_REQUEST_ERROR INVALID_REQUEST_MESSAGE [])
          else (case process_batch H vs h of
                  None \<Rightarrow> None
                | Some (h1, as) \<Rightarrow> Some (h1, if as \<noteq> [] then [JArray as] else []))
      | Inr (JObject ob) \<Rightarrow>
          (case processJsonValue H (JObject ob) h of
             None \<Rightarrow> None
           | Some (h1, a) \<Rightarrow> Some (h1, if a \<noteq> JNull then [a] else []))
      | Inr _ \<Rightarrow> Some (h, []))"

fun onSocketReadyRead ::
  "(string \<Rightarrow> string + json) \<Rightarrow> 'h handler \<Rightarrow> string list \<Rightarrow> 'h \<Rightarrow> ('h \<times> json list) option" where
  "onSocketReadyRead parse H [] h = Some (h, [])"
| "onSocketReadyRead parse H (l # ls) h =
     (case process_line parse H l h of
        None \<Rightarrow> None
      | Some (h1, ms) \<Rightarrow>
          (case onSocketReadyRead parse H ls h1 of
             None \<Rightarrow> None
           | Some (h2, ns) \<Rightarrow> Some (h2, ms @ ns)))"


section \<open>Properties\<close>

lemma rpc_tag_neq [simp]:
  "jsonRpcTag \<noteq> idTag" "jsonRpcTag \<noteq> methodTag" "jsonRpcTag \<noteq> paramsTag" "jsonRpcTag \<noteq> resultTag"
  "jsonRpcTag \<noteq> errorTag" "idTag \<noteq> jsonRpcTag" "idTag \<noteq> methodTag" "idTag \<noteq> paramsTag" "idTag \<noteq> resultTag"
  "idTag \<noteq> errorTag" "methodTag \<noteq> jsonRpcTag" "methodTag \<noteq> idTag" "methodTag \<noteq> paramsTag" "methodTag \<noteq> resultTag"
  "methodTag \<noteq> errorTag" "paramsTag \<noteq> jsonRpcTag" "paramsTag \<noteq> idTag" "paramsTag \<noteq> methodTag"
  "paramsTag \<noteq> resultTag" "paramsTag \<noteq> errorTag" "resultTag \<noteq> jsonRpcTag" "resultTag \<noteq> idTag"
  "resultTag \<noteq> methodTag" "resultTag \<noteq> paramsTag" "resultTag \<noteq> errorTag" "errorTag \<noteq> jsonRpcTag"
  "errorTag \<noteq> idTag" "errorTag \<noteq> methodTag" "errorTag \<noteq> paramsTag" "errorTag \<noteq> resultTag"
  "errorCodeTag \<noteq> errorMessageTag" "errorMessageTag \<noteq> errorCodeTag" "errorCodeTag \<noteq> errorDataTag"
  "errorDataTag \<noteq> errorCodeTag" "errorMessageTag \<noteq> errorDataTag" "errorDataTag \<noteq> errorMessageTag"
  by (simp_all add: rpc_tags)

lemmas rpc_defs = new_object_def object_from_def setValue_def getValue_def setId_def setMethod_def setError_def
  versionMatches_def jcontains_def

lemma codes_in_range [simp]:
  "int_range PARSE_ERROR" "int_range INVALID_REQUEST_ERROR" "int_range METHOD_NOT_FOUND_ERROR"
  "PARSE_ERROR \<noteq> INT_MAX" "INVALID_REQUEST_ERROR \<noteq> INT_MAX" "METHOD_NOT_FOUND_ERROR \<noteq> INT_MAX"
  by (simp_all add: int_range_def PARSE_ERROR_def INVALID_REQUEST_ERROR_def METHOD_NOT_FOUND_ERROR_def INT_MAX_def)

lemma error_response_valid:
  assumes "int_range code" "code \<noteq> INT_MAX"
  shows "isValidJsonRpcResponse (ro_json (setError code msg data (setId i (new_object TYPE_RESPONSE))))"
  using assms by (auto simp: isValidJsonRpcResponse_def rpc_defs Let_def int_range_def split: option.split)

lemma ro_type_setError [simp]: "ro_type (setError c m d r) = ro_type r" "ro_type (setId i r) = ro_type r"
  "ro_type (new_object ty) = ty"
  by (simp_all add: rpc_defs Let_def)

lemma sendError_sends:
  assumes "int_range code" "code \<noteq> INT_MAX"
  shows "\<exists>m. sendError code msg data = Some m"
proof -
  have "ro_type (setError code msg (Some data) (setId None (new_object TYPE_RESPONSE))) = TYPE_RESPONSE"
    by (simp add: rpc_defs Let_def)
  then show ?thesis
    using error_response_valid [OF assms, of msg "Some data" None] by (simp add: sendError_def sendObject_def rpc_isValid_def)
qed

text \<open>
  The factory tells the three kinds of message apart: whatever it accepts is
  valid for the kind it announces and carries the members of the source object;
  an object is a notification only if it is neither a request nor a response,
  and it accepts every object that any of the three tests accepts.
\<close>

theorem factory_classifies:
  "(\<forall>r. parseJsonRpcObject ob = Inr r \<longrightarrow> rpc_isValid r \<and> (\<forall>k. getValue r k = jvalue ob k)) \<and>
   (isValidJsonRpcNotification ob \<longrightarrow> \<not> isValidJsonRpcRequest ob \<and> \<not> isValidJsonRpcResponse ob) \<and>
   ((\<exists>r. parseJsonRpcObject ob = Inr r) \<longleftrightarrow>
      isValidJsonRpcRequest ob \<or> isValidJsonRpcResponse ob \<or> isValidJsonRpcNotification ob)"
proof -
  have same: "ob(jsonRpcTag \<mapsto> JString jsonRpcVersion) = ob" if "versionMatches ob"
    using that by (cases "ob jsonRpcTag"; cases "the (ob jsonRpcTag)")
      (auto simp: versionMatches_def jvalue_def jsonRpcVersion_def fun_upd_idem)
  have "jcontains ob jsonRpcTag" if "versionMatches ob"
    using that by (auto simp: versionMatches_def jvalue_def jcontains_def jsonRpcVersion_def split: option.splits)
  then show ?thesis
    using same
    by (auto simp: parseJsonRpcObject_def rpc_isValid_def object_from_def getValue_def
        isValidJsonRpcNotification_def isValidJsonRpcRequest_def isValidJsonRpcResponse_def)
qed

theorem factory_classifies_witness:
  "\<not> isValidJsonRpcRequest [jsonRpcTag \<mapsto> JString jsonRpcVersion, methodTag \<mapsto> JString ''m'']"
  using factory_classifies [of "[jsonRpcTag \<mapsto> JString jsonRpcVersion, methodTag \<mapsto> JString ''m'']"]
  by (simp add: isValidJsonRpcNotification_def versionMatches_def jcontains_def)

text \<open>
  The answer to one object. A request whose method the handler lacks gets a
  valid error response with the code for an unknown method and the request's id
  (null when that is no string). A notification is handed to the handler and
  not answered. What is none of the three is answered with the invalid request
  error, but without an id, so that the answer is not a valid response.
\<close>

theorem server_answers_object:
  "(isValidJsonRpcRequest ob \<and> hd_request H (json_toString (jvalue ob methodTag)) (object_from ob TYPE_REQUEST)
        (setId (json_toQString (jvalue ob idTag)) (new_object TYPE_RESPONSE)) h = None \<longrightarrow>
      (\<exists>e. processJsonValue H (JObject ob) h = Some (h, JObject e) \<and> isValidJsonRpcResponse e \<and>
           json_toInt 0 (jvalue (json_toObject (jvalue e errorTag)) errorCodeTag) = METHOD_NOT_FOUND_ERROR \<and>
           jvalue e idTag = (case jvalue ob idTag of JString i \<Rightarrow> JString i | _ \<Rightarrow> JNull))) \<and>
   (isValidJsonRpcNotification ob \<longrightarrow>
      processJsonValue H (JObject ob) h =
        Some (hd_notify H (json_toString (jvalue ob methodTag)) (object_from ob TYPE_NOTIFICATION) h, JNull)) \<and>
   (\<not> isValidJsonRpcRequest ob \<and> \<not> isValidJsonRpcResponse ob \<and> \<not> isValidJsonRpcNotification ob \<longrightarrow>
      (\<exists>e. processJsonValue H (JObject ob) h = Some (h, JObject e) \<and> \<not> isValidJsonRpcResponse e \<and>
           json_toInt 0 (jvalue (json_toObject (jvalue e errorTag)) errorCodeTag) = INVALID_REQUEST_ERROR))"
proof (intro conjI impI; (elim conjE)?)
  have has: "jcontains ob jsonRpcTag" if "versionMatches ob"
    using that by (auto simp: versionMatches_def jvalue_def jcontains_def jsonRpcVersion_def split: option.splits)
  {
    assume req: "isValidJsonRpcRequest ob"
      and none: "hd_request H (json_toString (jvalue ob methodTag)) (object_from ob TYPE_REQUEST)
        (setId (json_toQString (jvalue ob idTag)) (new_object TYPE_RESPONSE)) h = None"
    have "parseJsonRpcObject ob = Inr (object_from ob TYPE_REQUEST)"
      using req has by (simp add: parseJsonRpcObject_def isValidJsonRpcRequest_def)
    then have "processJsonValue H (JObject ob) h = Some (h, JObject (ro_json (setError METHOD_NOT_FOUND_ERROR
        METHOD_NOT_FOUND_MESSAGE None (setId (json_toQString (jvalue ob idTag)) (new_object TYPE_RESPONSE)))))"
      using none by (simp add: processJsonValue_def getId_def getMethod_def getValue_def object_from_def Let_def)
    moreover have "jvalue (ro_json (setError METHOD_NOT_FOUND_ERROR METHOD_NOT_FOUND_MESSAGE None
        (setId (json_toQString (jvalue ob idTag)) (new_object TYPE_RESPONSE)))) idTag =
        (case jvalue ob idTag of JString i \<Rightarrow> JString i | _ \<Rightarrow> JNull)"
      by (simp add: rpc_defs Let_def split: json.split)
    moreover have "json_toInt 0 (jvalue (json_toObject (jvalue (ro_json (setError METHOD_NOT_FOUND_ERROR
        METHOD_NOT_FOUND_MESSAGE None r)) errorTag)) errorCodeTag) = METHOD_NOT_FOUND_ERROR" for r
      by (simp add: rpc_defs Let_def METHOD_NOT_FOUND_ERROR_def)
    ultimately show "\<exists>e. processJsonValue H (JObject ob) h = Some (h, JObject e) \<and> isValidJsonRpcResponse e \<and>
           json_toInt 0 (jvalue (json_toObject (jvalue e errorTag)) errorCodeTag) = METHOD_NOT_FOUND_ERROR \<and>
           jvalue e idTag = (case jvalue ob idTag of JString i \<Rightarrow> JString i | _ \<Rightarrow> JNull)"
      using error_response_valid [of METHOD_NOT_FOUND_ERROR] by (metis codes_in_range(3,6))
  next
    assume "isValidJsonRpcNotification ob"
    then show "processJsonValue H (JObject ob) h =
        Some (hd_notify H (json_toString (jvalue ob methodTag)) (object_from ob TYPE_NOTIFICATION) h, JNull)"
      using has
      by (simp add: processJsonValue_def parseJsonRpcObject_def isValidJsonRpcNotification_def
          isValidJsonRpcRequest_def isValidJsonRpcResponse_def getMethod_def getValue_def object_from_def)
  next
    assume none: "\<not> isValidJsonRpcRequest ob" "\<not> isValidJsonRpcResponse ob" "\<not> isValidJsonRpcNotification ob"
    then obtain d where
      "processJsonValue H (JObject ob) h = Some (h, JObject (ro_json (setError INVALID_REQUEST_ERROR
         INVALID_REQUEST_MESSAGE (Some d) (new_object TYPE_RESPONSE))))"
      by (cases "\<not> jcontains ob jsonRpcTag \<or> \<not> versionMatches ob")
         (auto simp: processJsonValue_def parseJsonRpcObject_def)
    moreover have "\<not> isValidJsonRpcResponse (ro_json (setError c m x (new_object TYPE_RESPONSE)))" for c m x
      by (simp add: isValidJsonRpcResponse_def rpc_defs Let_def)
    moreover have "json_toInt 0 (jvalue (json_toObject (jvalue (ro_json (setError INVALID_REQUEST_ERROR
        INVALID_REQUEST_MESSAGE (Some d) r)) errorTag)) errorCodeTag) = INVALID_REQUEST_ERROR" for d r
      by (simp add: rpc_defs Let_def INVALID_REQUEST_ERROR_def)
    ultimately show "\<exists>e. processJsonValue H (JObject ob) h = Some (h, JObject e) \<and> \<not> isValidJsonRpcResponse e \<and>
           json_toInt 0 (jvalue (json_toObject (jvalue e errorTag)) errorCodeTag) = INVALID_REQUEST_ERROR"
      by blast
  }
qed

definition no_methods :: "unit handler" where
  "no_methods = \<lparr>hd_request = (\<lambda>_ _ _ _. None), hd_notify = (\<lambda>_ _ h. h)\<rparr>"

definition demo_request :: jobject where
  "demo_request = [jsonRpcTag \<mapsto> JString jsonRpcVersion, methodTag \<mapsto> JString ''pay'', idTag \<mapsto> JString ''7'']"

theorem server_answers_object_witness:
  "\<exists>e. processJsonValue no_methods (JObject demo_request) () = Some ((), JObject e) \<and> jvalue e idTag = JString ''7''"
proof -
  have "isValidJsonRpcRequest demo_request"
    by (simp add: isValidJsonRpcRequest_def demo_request_def versionMatches_def jcontains_def)
  with server_answers_object [of demo_request no_methods "()"] show ?thesis
    by (auto simp: no_methods_def demo_request_def)
qed

definition handler_ok :: "'h handler \<Rightarrow> bool" where
  "handler_ok H \<longleftrightarrow> (\<forall>m r a h h1 b. hd_request H m r a h = Some (h1, b) \<longrightarrow> rpc_isValid b)"

lemma process_total:
  assumes "handler_ok H"
  shows "\<exists>h1 a. processJsonValue H v h = Some (h1, a)"
proof (cases "createJsonRpcObject v")
  case (Inr r)
  show ?thesis
  proof (cases "hd_request H (getMethod r) r (setId (getId r) (new_object TYPE_RESPONSE)) h")
    case (Some p)
    then show ?thesis
      using assms Inr unfolding handler_ok_def
      by (cases "ro_type r"; cases p) (auto simp: processJsonValue_def Let_def)
  qed (use Inr in \<open>cases "ro_type r"; simp add: processJsonValue_def Let_def\<close>)
qed (simp add: processJsonValue_def)

lemma process_batch_total:
  assumes "handler_ok H"
  shows "\<exists>h1 as. process_batch H vs h = Some (h1, as) \<and> length as \<le> length vs"
proof (induction vs arbitrary: h)
  case (Cons v vs)
  obtain h1 a where "processJsonValue H v h = Some (h1, a)"
    using process_total [OF assms] by blast
  moreover obtain h2 as where "process_batch H vs h1 = Some (h2, as)" "length as \<le> length vs"
    using Cons.IH by blast
  ultimately show ?case by auto
qed simp

text \<open>
  C30. If every response of the handler is valid, reading a connection never
  fails an assertion, whatever the lines hold: each line gets at most one
  message in answer, and a line that is no JSON text or an empty batch gets
  exactly one, a valid error response.
\<close>

theorem reading_answers_each_line:
  assumes "handler_ok H"
  shows "(\<exists>h1 ms. onSocketReadyRead parse H ls h = Some (h1, ms) \<and> length ms \<le> length ls) \<and>
    ((\<exists>err. parse l = Inl err) \<or> parse l = Inr (JArray []) \<longrightarrow>
       (\<exists>e. process_line parse H l h = Some (h, [JObject e]) \<and> isValidJsonRpcResponse e))"
proof
  have line: "\<exists>h1 ms. process_line parse H l h = Some (h1, ms) \<and> length ms \<le> 1" for l h
  proof (cases "parse l")
    case (Inl err)
    then show ?thesis
      using sendError_sends [of PARSE_ERROR PARSE_ERROR_MESSAGE err] by (auto simp: process_line_def)
  next
    case (Inr doc)
    then show ?thesis
      using sendError_sends [of INVALID_REQUEST_ERROR INVALID_REQUEST_MESSAGE "[]"]
        process_batch_total [OF assms, of "json_toArray doc" h] process_total [OF assms, of doc h]
      by (cases doc) (auto simp: process_line_def)
  qed
  show "\<exists>h1 ms. onSocketReadyRead parse H ls h = Some (h1, ms) \<and> length ms \<le> length ls"
  proof (induction ls arbitrary: h)
    case (Cons l ls)
    obtain h1 ms where "process_line parse H l h = Some (h1, ms)" "length ms \<le> 1"
      using line by blast
    moreover obtain h2 ns where "onSocketReadyRead parse H ls h1 = Some (h2, ns)" "length ns \<le> length ls"
      using Cons.IH by blast
    ultimately show ?case by auto
  qed simp
  show "(\<exists>err. parse l = Inl err) \<or> parse l = Inr (JArray []) \<longrightarrow>
       (\<exists>e. process_line parse H l h = Some (h, [JObject e]) \<and> isValidJsonRpcResponse e)"
    using error_response_valid by (auto simp: process_line_def sendError_def sendObject_def rpc_isValid_def
        ro_type_setError)
qed

theorem reading_answers_each_line_witness:
  "\<exists>h1 ms. onSocketReadyRead (\<lambda>_. Inl ''unexpected end'') no_methods [''{'', ''['']  () = Some (h1, ms) \<and> length ms \<le> 2"
proof -
  have "handler_ok no_methods"
    by (simp add: handler_ok_def no_methods_def)
  from reading_answers_each_line [OF this, of "\<lambda>_. Inl ''unexpected end''" "[''{'', ''['']" "()"] show ?thesis
    by (simp add: numeral_2_eq_2 del: onSocketReadyRead.simps)
qed

text \<open>
  What is written into a request or response is read back: id, method,
  array and object parameters, array results and errors. An object result is
  the exception: it is written under the result key but read from the
  parameters, so a response with an object result reads as empty.
\<close>

theorem accessors_roundtrip:
  "getId (setId i r) = i \<and> getMethod (setMethod m r) = m \<and>
   getParamsAsArray (setParamsFromArray xs r) = xs \<and> getParamsAsObject (setParamsFromObject ob r) = ob \<and>
   getResultAsArray (setResultFromArray xs r) = xs \<and>
   isErrorResponse (setError c msg d r) \<and> getErrorMessage (setError c msg d r) = msg \<and>
   getResultAsObject (setResultFromObject ob (new_object TYPE_RESPONSE)) = Map.empty"
  by (cases i; cases d)
    (simp_all add: getId_def getMethod_def getParamsAsArray_def setParamsFromArray_def getParamsAsObject_def
      setParamsFromObject_def getResultAsArray_def setResultFromArray_def isErrorResponse_def getErrorMessage_def
      getResultAsObject_def setResultFromObject_def rpc_defs Let_def)

end
