(* ===== verification/ChainData.thy ===== *)
theory ChainData
  imports Prelude
begin

text \<open>
  The data of the CryptoNote library that the explorer side of the program
  shows: the members of BlockDetails and TransactionDetails that the sources
  read. Hashes and payment ids are byte strings.
\<close>

record tx_details =
  td_hash :: string
  td_size :: u64
  td_fee :: u64
  td_totalInputsAmount :: u64
  td_totalOutputsAmount :: u64
  td_mixin :: u64
  td_unlockTime :: u64
  td_timestamp :: u64
  td_paymentId :: string
  td_inBlockchain :: bool
  td_blockHash :: string
  td_blockHeight :: u32

record block_details =
  bd_height :: u32
  bd_hash :: string
  bd_timestamp :: u64
  bd_difficulty :: u64
  bd_isOrphaned :: bool
  bd_transactions :: "tx_details list"
  bd_transactionsCumulativeSize :: u64
  bd_blockSize :: u64
  bd_majorVersion :: nat
  bd_minorVersion :: nat
  bd_alreadyGeneratedCoins :: u64
  bd_alreadyGeneratedTransactions :: u64
  bd_baseReward :: u64
  bd_penalty :: rat
  bd_reward :: u64
  bd_totalFeeAmount :: u64

text \<open>Concrete values for the examples.\<close>

definition some_tx :: "string \<Rightarrow> tx_details" where
  "some_tx h = \<lparr>td_hash = h, td_size = 300, td_fee = 10, td_totalInputsAmount = 1010, td_totalOutputsAmount = 1000,
     td_mixin = 3, td_unlockTime = 0, td_timestamp = 1500000000, td_paymentId = [], td_inBlockchain = False,
     td_blockHash = [], td_blockHeight = 0\<rparr>"

definition some_block :: "u32 \<Rightarrow> block_details" where
  "some_block k = \<lparr>bd_height = k, bd_hash = [], bd_timestamp = 1500000000, bd_difficulty = 1, bd_isOrphaned = False,
     bd_transactions = [], bd_transactionsCumulativeSize = 0, bd_blockSize = 300, bd_majorVersion = 1,
     bd_minorVersion = 0, bd_alreadyGeneratedCoins = 0, bd_alreadyGeneratedTransactions = 0, bd_baseReward = 0,
     bd_penalty = 0, bd_reward = 0, bd_totalFeeAmount = 0\<rparr>"

lemma some_block_simps [simp]: "bd_height (some_block k) = k" "bd_transactions (some_block k) = []"
  by (simp_all add: some_block_def)

lemma some_tx_hash [simp]: "td_hash (some_tx h) = h"
  by (simp add: some_tx_def)

end
