(* ===== verification/BlockchainModel.thy ===== *)
theory BlockchainModel
  imports ItemModel ChainData
begin

text \<open>
  The tree of blocks and their transactions: BlockchainModel.

  The model's whole state is the height of the last local block; the content of
  a row is asked from the explorer on demand. The explorer's getBlock is the
  argument get of the functions below. A model index is a row, a column and an
  internal id: the invalid height for a block, the block's height for one of
  its transactions. The invalid index is None.
\<close>

datatype bm_column =
    COLUMN_BLOCK_TIME | COLUMN_BLOCK_HEIGHT | COLUMN_BLOCK_SIZE | COLUMN_BLOCK_TRANSACTION_COUNT | COLUMN_BLOCK_HASH
  | COLUMN_BLOCK_TRANSACTIONS_SIZE | COLUMN_BLOCK_DIFFICULTY | COLUMN_BLOCK_IS_ORPHANED | COLUMN_BLOCK_REWARD_PENALTY
  | COLUMN_BLOCK_BASE_REWARD | COLUMN_BLOCK_REWARD | COLUMN_BLOCK_TOTAL_COIN_COUNT
  | COLUMN_BLOCK_TOTAL_TRANSACTION_COUNT | COLUMN_BLOCK_VERSION | COLUMN_BLOCK_FEE
  | COLUMN_TRANSACTION_OUTPUT_AMOUNT | COLUMN_TRANSACTION_HASH | COLUMN_TRANSACTION_SIZE | COLUMN_TRANSACTION_FEE
  | COLUMN_TRANSACTION_PAYMENT_ID | COLUMN_TRANSACTION_INPUT_AMOUNT | COLUMN_TRANSACTION_MIXIN
  | COLUMN_TRANSACTION_UNLOCK_TIME | COLUMN_TRANSACTION_TIME | COLUMN_TRANSACTION_IS_IN_BLOCKCHAIN
  | COLUMN_TRANSACTION_BLOCK_HASH | COLUMN_TRANSACTION_BLOCK_HEIGHT

datatype bm_role =
    ROLE_ITEM_TYPE | ROLE_BLOCK_HEIGHT | ROLE_BLOCK_HASH | ROLE_BLOCK_TIME | ROLE_BLOCK_DIFFICULTY
  | ROLE_BLOCK_IS_ORPHANED | ROLE_BLOCK_TRANSACTION_COUNT | ROLE_BLOCK_TRANSACTIONS_SIZE | ROLE_BLOCK_SIZE
  | ROLE_BLOCK_MAJOR_VERSION | ROLE_BLOCK_MINOR_VERSION | ROLE_BLOCK_TOTAL_COIN_COUNT
  | ROLE_BLOCK_TOTAL_TRANSACTION_COUNT | ROLE_BLOCK_BASE_REWARD | ROLE_BLOCK_REWARD_PENALTY | ROLE_BLOCK_REWARD
  | ROLE_BLOCK_FEE | ROLE_COLUMN | ROLE_TRANSACTION_HASH | ROLE_TRANSACTION_SIZE | ROLE_TRANSACTION_FEE
  | ROLE_TRANSACTION_INPUT_AMOUNT | ROLE_TRANSACTION_OUTPUT_AMOUNT | ROLE_TRANSACTION_MIXIN
  | ROLE_TRANSACTION_UNLOCK_TIME | ROLE_TRANSACTION_TIME | ROLE_TRANSACTION_PAYMENT_ID
  | ROLE_TRANSACTION_IS_IN_BLOCKCHAIN | ROLE_TRANSACTION_BLOCK_HASH | ROLE_TRANSACTION_BLOCK_HEIGHT

definition INVALID_BLOCK_INDEX :: u32 where "INVALID_BLOCK_INDEX = - 1"
definition PRELOADED_BLOCK_COUNT :: u32 where "PRELOADED_BLOCK_COUNT = 100"

record bm_index =
  ix_row :: int
  ix_column :: bm_column
  ix_id :: u32

section \<open>Content of the rows\<close>

definition bm_block_height :: "bm_index \<Rightarrow> u32" where
  "bm_block_height i = (if ix_id i = INVALID_BLOCK_INDEX then of_int (ix_row i) else ix_id i)"

text \<open>The switch over the roles that read the block b or the transaction x.\<close>

fun bm_role_value :: "block_details \<Rightarrow> tx_details \<Rightarrow> (bm_column \<Rightarrow> int) \<Rightarrow> bm_column \<Rightarrow> bm_role \<Rightarrow> qvariant" where
  "bm_role_value b x num col ROLE_BLOCK_HASH = QBytes (bd_hash b)"
| "bm_role_value b x num col ROLE_BLOCK_TIME = (if bd_timestamp b = 0 then QNullDate else QDate (bd_timestamp b))"
| "bm_role_value b x num col ROLE_BLOCK_DIFFICULTY = QU64 (bd_difficulty b)"
| "bm_role_value b x num col ROLE_BLOCK_IS_ORPHANED = QBool (bd_isOrphaned b)"
| "bm_role_value b x num col ROLE_BLOCK_TRANSACTION_COUNT = QU64 (of_nat (length (bd_transactions b)))"
| "bm_role_value b x num col ROLE_BLOCK_TRANSACTIONS_SIZE = QU64 (bd_transactionsCumulativeSize b)"
| "bm_role_value b x num col ROLE_BLOCK_SIZE = QU64 (bd_blockSize b)"
| "bm_role_value b x num col ROLE_BLOCK_MAJOR_VERSION = QInt (int (bd_majorVersion b))"
| "bm_role_value b x num col ROLE_BLOCK_MINOR_VERSION = QInt (int (bd_minorVersion b))"
| "bm_role_value b x num col ROLE_BLOCK_TOTAL_COIN_COUNT = QU64 (bd_alreadyGeneratedCoins b)"
| "bm_role_value b x num col ROLE_BLOCK_TOTAL_TRANSACTION_COUNT = QU64 (bd_alreadyGeneratedTransactions b)"
| "bm_role_value b x num col ROLE_BLOCK_BASE_REWARD = QU64 (bd_baseReward b)"
| "bm_role_value b x num col ROLE_BLOCK_REWARD_PENALTY = QReal (bd_penalty b)"
| "bm_role_value b x num col ROLE_BLOCK_REWARD = QU64 (bd_reward b)"
| "bm_role_value b x num col ROLE_BLOCK_FEE = QU64 (bd_totalFeeAmount b)"
| "bm_role_value b x num col ROLE_COLUMN = QInt (num col)"
| "bm_role_value b x num col ROLE_TRANSACTION_HASH = QBytes (td_hash x)"
| "bm_role_value b x num col ROLE_TRANSACTION_SIZE = QU64 (td_size x)"
| "bm_role_value b x num col ROLE_TRANSACTION_FEE = QU64 (td_fee x)"
| "bm_role_value b x num col ROLE_TRANSACTION_INPUT_AMOUNT = QU64 (td_totalInputsAmount x)"
| "bm_role_value b x num col ROLE_TRANSACTION_OUTPUT_AMOUNT = QU64 (td_totalOutputsAmount x)"
| "bm_role_value b x num col ROLE_TRANSACTION_MIXIN = QU64 (td_mixin x)"
| "bm_role_value b x num col ROLE_TRANSACTION_UNLOCK_TIME = QDate (td_unlockTime x)"
| "bm_role_value b x num col ROLE_TRANSACTION_TIME = QDate (td_timestamp x)"
| "bm_role_value b x num col ROLE_TRANSACTION_PAYMENT_ID = QBytes (td_paymentId x)"
| "bm_role_value b x num col ROLE_TRANSACTION_IS_IN_BLOCKCHAIN = QBool (td_inBlockchain x)"
| "bm_role_value b x num col ROLE_TRANSACTION_BLOCK_HASH = QBytes (td_blockHash x)"
| "bm_role_value b x num col ROLE_TRANSACTION_BLOCK_HEIGHT = QU32 (td_blockHeight x)"
| "bm_role_value b x num col _ = QNull"

text \<open>The numbers of the enumeration Columns.\<close>

definition bm_columns :: "bm_column list" where
  "bm_columns =
    [COLUMN_BLOCK_TIME, COLUMN_BLOCK_HEIGHT, COLUMN_BLOCK_SIZE, COLUMN_BLOCK_TRANSACTION_COUNT, COLUMN_BLOCK_HASH,
     COLUMN_BLOCK_TRANSACTIONS_SIZE, COLUMN_BLOCK_DIFFICULTY, COLUMN_BLOCK_IS_ORPHANED, COLUMN_BLOCK_REWARD_PENALTY,
     COLUMN_BLOCK_BASE_REWARD, COLUMN_BLOCK_REWARD, COLUMN_BLOCK_TOTAL_COIN_COUNT,
     COLUMN_BLOCK_TOTAL_TRANSACTION_COUNT, COLUMN_BLOCK_VERSION, COLUMN_BLOCK_FEE,
     COLUMN_TRANSACTION_OUTPUT_AMOUNT, COLUMN_TRANSACTION_HASH, COLUMN_TRANSACTION_SIZE, COLUMN_TRANSACTION_FEE,
     COLUMN_TRANSACTION_PAYMENT_ID, COLUMN_TRANSACTION_INPUT_AMOUNT, COLUMN_TRANSACTION_MIXIN,
     COLUMN_TRANSACTION_UNLOCK_TIME, COLUMN_TRANSACTION_TIME, COLUMN_TRANSACTION_IS_IN_BLOCKCHAIN,
     COLUMN_TRANSACTION_BLOCK_HASH, COLUMN_TRANSACTION_BLOCK_HEIGHT]"

definition bm_columnCount :: int where
  "bm_columnCount = int (length bm_columns)"

definition bm_section :: "bm_column \<Rightarrow> int" where
  "bm_section c = (case find_index (\<lambda>d. d = c) bm_columns of None \<Rightarrow> - 1 | Some i \<Rightarrow> int i)"

text \<open>
  The user roles of an index. blank stands for the members of a transaction
  record that no row has filled; None is the exception of an access past the
  block's transactions.
\<close>

definition bm_user_data ::
  "(u32 \<Rightarrow> block_details option) \<Rightarrow> tx_details \<Rightarrow> bm_index \<Rightarrow> bm_role \<Rightarrow> qvariant option" where
  "bm_user_data get blank i role =
     (if role = ROLE_BLOCK_HEIGHT then Some (QU32 (bm_block_height i))
      else if role = ROLE_ITEM_TYPE then Some (QInt (if ix_id i \<noteq> INVALID_BLOCK_INDEX then 1 else 0))
      else case get (bm_block_height i) of
          None \<Rightarrow> Some QNull
        | Some b \<Rightarrow>
            (if ix_id i = INVALID_BLOCK_INDEX then Some (bm_role_value b blank bm_section (ix_column i) role)
             else if 0 \<le> ix_row i \<and> nat (ix_row i) < length (bd_transactions b)
             then Some (bm_role_value b (bd_transactions b ! nat (ix_row i)) bm_section (ix_column i) role)
             else None))"

text \<open>QVariant conversions used by the display of the columns.\<close>

fun to_u64 :: "qvariant \<Rightarrow> u64" where
  "to_u64 (QU64 n) = n"
| "to_u64 (QU32 n) = ucast n"
| "to_u64 (QInt n) = of_int n"
| "to_u64 _ = 0"

fun to_bytes :: "qvariant \<Rightarrow> string" where
  "to_bytes (QBytes b) = b"
| "to_bytes _ = []"

fun to_bool :: "qvariant \<Rightarrow> bool" where
  "to_bool (QBool b) = b"
| "to_bool _ = False"

fun to_real :: "qvariant \<Rightarrow> rat" where
  "to_real (QReal r) = r"
| "to_real _ = 0"

text \<open>toDateTime: None is the null date, of which the text is empty.\<close>

fun to_date :: "qvariant \<Rightarrow> i64 option" where
  "to_date (QDate t) = Some t"
| "to_date _ = None"

text \<open>
  The Qt formatters: hex text, the English text of a time and of a real number,
  decimal numbers, and the wallet's amount format.
\<close>

record formats =
  f_hex :: "string \<Rightarrow> string"
  f_time :: "i64 \<Rightarrow> string"
  f_real :: "rat \<Rightarrow> string"
  f_nat :: "u64 \<Rightarrow> string"
  f_amount :: "u64 \<Rightarrow> string"

definition date_text :: "formats \<Rightarrow> qvariant \<Rightarrow> string" where
  "date_text F v = (case to_date v of None \<Rightarrow> [] | Some t \<Rightarrow> f_time F t)"

definition NULL_PAYMENT_ID :: string where
  "NULL_PAYMENT_ID = replicate 32 (CHR 0x00)"

fun bm_display :: "formats \<Rightarrow> (bm_role \<Rightarrow> qvariant option) \<Rightarrow> bm_column \<Rightarrow> qvariant option" where
  "bm_display F d COLUMN_BLOCK_HEIGHT = d ROLE_BLOCK_HEIGHT"
| "bm_display F d COLUMN_BLOCK_HASH = map_option (\<lambda>v. QStr (f_hex F (to_bytes v))) (d ROLE_BLOCK_HASH)"
| "bm_display F d COLUMN_BLOCK_TIME =
     map_option (\<lambda>v. if to_date v = None then QStr ''-'' else QStr (date_text F v)) (d ROLE_BLOCK_TIME)"
| "bm_display F d COLUMN_BLOCK_DIFFICULTY = map_option (\<lambda>v. QU64 (to_u64 v)) (d ROLE_BLOCK_DIFFICULTY)"
| "bm_display F d COLUMN_BLOCK_IS_ORPHANED =
     map_option (\<lambda>v. QStr (if to_bool v then ''Yes'' else ''No'')) (d ROLE_BLOCK_IS_ORPHANED)"
| "bm_display F d COLUMN_BLOCK_TRANSACTION_COUNT = map_option (\<lambda>v. QU64 (to_u64 v)) (d ROLE_BLOCK_TRANSACTION_COUNT)"
| "bm_display F d COLUMN_BLOCK_TRANSACTIONS_SIZE = map_option (\<lambda>v. QU64 (to_u64 v)) (d ROLE_BLOCK_TRANSACTIONS_SIZE)"
| "bm_display F d COLUMN_BLOCK_SIZE = map_option (\<lambda>v. QU64 (to_u64 v)) (d ROLE_BLOCK_SIZE)"
| "bm_display F d COLUMN_BLOCK_VERSION =
     (case (d ROLE_BLOCK_MAJOR_VERSION, d ROLE_BLOCK_MINOR_VERSION) of
        (Some a, Some b) \<Rightarrow> Some (QStr (f_nat F (to_u64 a) @ ''.'' @ f_nat F (to_u64 b)))
      | _ \<Rightarrow> None)"
| "bm_display F d COLUMN_BLOCK_TOTAL_COIN_COUNT =
     map_option (\<lambda>v. QStr (f_amount F (to_u64 v))) (d ROLE_BLOCK_TOTAL_COIN_COUNT)"
| "bm_display F d COLUMN_BLOCK_TOTAL_TRANSACTION_COUNT =
     map_option (\<lambda>v. QU64 (to_u64 v)) (d ROLE_BLOCK_TOTAL_TRANSACTION_COUNT)"
| "bm_display F d COLUMN_BLOCK_BASE_REWARD = map_option (\<lambda>v. QStr (f_amount F (to_u64 v))) (d ROLE_BLOCK_BASE_REWARD)"
| "bm_display F d COLUMN_BLOCK_REWARD_PENALTY =
     map_option (\<lambda>v. QStr (if to_real v * 100 = 0 then ''No'' else f_real F (to_real v * 100) @ '' %''))
       (d ROLE_BLOCK_REWARD_PENALTY)"
| "bm_display F d COLUMN_BLOCK_REWARD = map_option (\<lambda>v. QStr (f_amount F (to_u64 v))) (d ROLE_BLOCK_REWARD)"
| "bm_display F d COLUMN_BLOCK_FEE = map_option (\<lambda>v. QStr (f_amount F (to_u64 v))) (d ROLE_BLOCK_FEE)"
| "bm_display F d COLUMN_TRANSACTION_HASH = map_option (\<lambda>v. QStr (f_hex F (to_bytes v))) (d ROLE_TRANSACTION_HASH)"
| "bm_display F d COLUMN_TRANSACTION_SIZE = map_option (\<lambda>v. QU64 (to_u64 v)) (d ROLE_TRANSACTION_SIZE)"
| "bm_display F d COLUMN_TRANSACTION_FEE = map_option (\<lambda>v. QStr (f_amount F (to_u64 v))) (d ROLE_TRANSACTION_FEE)"
| "bm_display F d COLUMN_TRANSACTION_INPUT_AMOUNT =
     map_option (\<lambda>v. QStr (f_amount F (to_u64 v))) (d ROLE_TRANSACTION_INPUT_AMOUNT)"
| "bm_display F d COLUMN_TRANSACTION_OUTPUT_AMOUNT =
     map_option (\<lambda>v. QStr (f_amount F (to_u64 v))) (d ROLE_TRANSACTION_OUTPUT_AMOUNT)"
| "bm_display F d COLUMN_TRANSACTION_MIXIN = d ROLE_TRANSACTION_MIXIN"
| "bm_display F d COLUMN_TRANSACTION_UNLOCK_TIME =
     map_option (\<lambda>v. QStr (date_text F v)) (d ROLE_TRANSACTION_UNLOCK_TIME)"
| "bm_display F d COLUMN_TRANSACTION_TIME =
     map_option (\<lambda>v. QStr (date_text F v)) (d ROLE_TRANSACTION_UNLOCK_TIME)"
| "bm_display F d COLUMN_TRANSACTION_PAYMENT_ID =
     map_option (\<lambda>v. if to_bytes v = NULL_PAYMENT_ID then QBytes [] else QStr (f_hex F (to_bytes v)))
       (d ROLE_TRANSACTION_PAYMENT_ID)"
| "bm_display F d COLUMN_TRANSACTION_IS_IN_BLOCKCHAIN = d ROLE_TRANSACTION_IS_IN_BLOCKCHAIN"
| "bm_display F d COLUMN_TRANSACTION_BLOCK_HASH =
     map_option (\<lambda>v. QStr (f_hex F (to_bytes v))) (d ROLE_TRANSACTION_BLOCK_HASH)"
| "bm_display F d COLUMN_TRANSACTION_BLOCK_HEIGHT = map_option (\<lambda>v. QU32 (ucast (to_u64 v))) (d ROLE_TRANSACTION_BLOCK_HEIGHT)"

definition bm_alignment :: "bm_column \<Rightarrow> qvariant" where
  "bm_alignment c =
     (if c = COLUMN_BLOCK_TIME \<or> c = COLUMN_TRANSACTION_UNLOCK_TIME \<or> c = COLUMN_TRANSACTION_TIME
      then AlignLeftV else AlignRightV)"

datatype bm_data_role = Display | Foreground | Alignment | User bm_role | OtherRole

definition bm_data ::
  "formats \<Rightarrow> (u32 \<Rightarrow> block_details option) \<Rightarrow> tx_details \<Rightarrow> bm_index option \<Rightarrow> bm_data_role \<Rightarrow> qvariant option" where
  "bm_data F get blank idx role =
     (case idx of
        None \<Rightarrow> Some QNull
      | Some i \<Rightarrow>
          (case role of
             Display \<Rightarrow> bm_display F (bm_user_data get blank i) (ix_column i)
           | Foreground \<Rightarrow> Some (if ix_column i = COLUMN_BLOCK_HASH \<or> ix_column i = COLUMN_BLOCK_HEIGHT
                                 then QStr ''#0580e8'' else QNull)
           | Alignment \<Rightarrow> Some (bm_alignment (ix_column i))
           | User r \<Rightarrow> bm_user_data get blank i r
           | OtherRole \<Rightarrow> Some QNull))"

fun bm_title :: "bm_column \<Rightarrow> string" where
  "bm_title COLUMN_BLOCK_HEIGHT = ''Height''"
| "bm_title COLUMN_BLOCK_HASH = ''Hash''"
| "bm_title COLUMN_BLOCK_TIME = ''Time (UTC)''"
| "bm_title COLUMN_BLOCK_DIFFICULTY = ''Difficulty''"
| "bm_title COLUMN_BLOCK_IS_ORPHANED = ''Orphaned''"
| "bm_title COLUMN_BLOCK_TRANSACTION_COUNT = ''Tx count''"
| "bm_title COLUMN_BLOCK_TRANSACTIONS_SIZE = ''Transactions size''"
| "bm_title COLUMN_BLOCK_SIZE = ''Size''"
| "bm_title COLUMN_BLOCK_VERSION = ''Version''"
| "bm_title COLUMN_BLOCK_TOTAL_COIN_COUNT = ''Total coins''"
| "bm_title COLUMN_BLOCK_TOTAL_TRANSACTION_COUNT = ''Total transactions''"
| "bm_title COLUMN_BLOCK_BASE_REWARD = ''Base reward''"
| "bm_title COLUMN_BLOCK_REWARD_PENALTY = ''Reward penalty''"
| "bm_title COLUMN_BLOCK_REWARD = ''Reward''"
| "bm_title COLUMN_BLOCK_FEE = ''Transactions fee''"
| "bm_title COLUMN_TRANSACTION_HASH = ''Hash''"
| "bm_title COLUMN_TRANSACTION_SIZE = ''Size''"
| "bm_title COLUMN_TRANSACTION_FEE = ''Fee''"
| "bm_title COLUMN_TRANSACTION_INPUT_AMOUNT = ''Input amount''"
| "bm_title COLUMN_TRANSACTION_OUTPUT_AMOUNT = ''Output amount''"
| "bm_title COLUMN_TRANSACTION_MIXIN = ''Mixin''"
| "bm_title COLUMN_TRANSACTION_UNLOCK_TIME = ''Unlock time (UTC)''"
| "bm_title COLUMN_TRANSACTION_TIME = ''Timestamp (UTC)''"
| "bm_title COLUMN_TRANSACTION_PAYMENT_ID = ''Payment ID''"
| "bm_title COLUMN_TRANSACTION_IS_IN_BLOCKCHAIN = ''In blockchain''"
| "bm_title COLUMN_TRANSACTION_BLOCK_HASH = ''Block hash''"
| "bm_title COLUMN_TRANSACTION_BLOCK_HEIGHT = ''Block height''"

definition bm_headerData :: "bm_column \<Rightarrow> bool \<Rightarrow> bm_data_role \<Rightarrow> qvariant" where
  "bm_headerData c horizontal role =
     (if \<not> horizontal then QNull
      else case role of
          Display \<Rightarrow> QStr (bm_title c)
        | Alignment \<Rightarrow> bm_alignment c
        | User ROLE_COLUMN \<Rightarrow> QInt (bm_section c)
        | _ \<Rightarrow> QNull)"


section \<open>Structure and changes\<close>

text \<open>The row count of a parent index is read from the parent's data.\<close>

definition tx_count_role :: "(u32 \<Rightarrow> block_details option) \<Rightarrow> tx_details \<Rightarrow> bm_index \<Rightarrow> u32 option" where
  "tx_count_role get blank p =
     map_option (\<lambda>v. ucast (to_u64 v)) (bm_user_data get blank p ROLE_BLOCK_TRANSACTION_COUNT)"

definition bm_rowCount ::
  "(u32 \<Rightarrow> block_details option) \<Rightarrow> tx_details \<Rightarrow> bm_index option \<Rightarrow> u32 \<Rightarrow> u32 option" where
  "bm_rowCount get blank parent lastBlock =
     (case parent of
        None \<Rightarrow> Some (if lastBlock = INVALID_BLOCK_INDEX then 0 else lastBlock + 1)
      | Some p \<Rightarrow> tx_count_role get blank p)"

definition bm_index_of ::
  "(u32 \<Rightarrow> block_details option) \<Rightarrow> tx_details \<Rightarrow> int \<Rightarrow> bm_column \<Rightarrow> bm_index option \<Rightarrow> u32 \<Rightarrow> bm_index option option" where
  "bm_index_of get blank row col parent lastBlock =
     (case parent of
        None \<Rightarrow> Some (if of_int row > lastBlock then None
                      else Some \<lparr>ix_row = row, ix_column = col, ix_id = INVALID_BLOCK_INDEX\<rparr>)
      | Some p \<Rightarrow>
          (case tx_count_role get blank p of
             None \<Rightarrow> None
           | Some n \<Rightarrow> Some (if of_int row \<ge> n then None
                             else Some \<lparr>ix_row = row, ix_column = col, ix_id = bm_block_height p\<rparr>)))"

definition bm_parent :: "bm_index option \<Rightarrow> bm_index option" where
  "bm_parent idx =
     (case idx of
        None \<Rightarrow> None
      | Some i \<Rightarrow>
          (if ix_id i = INVALID_BLOCK_INDEX then None
           else Some \<lparr>ix_row = uint (ix_id i), ix_column = COLUMN_BLOCK_TIME, ix_id = INVALID_BLOCK_INDEX\<rparr>))"

text \<open>
  The constructor and the end of the node's start. The node state model gives
  the local block count n; None means that the node has no explorer. The second
  component is the interval that is preloaded.
\<close>

definition bm_new :: "u32 option \<Rightarrow> u32" where
  "bm_new count = (case count of None \<Rightarrow> INVALID_BLOCK_INDEX | Some n \<Rightarrow> n - 1)"

definition bm_preload :: "u32 \<Rightarrow> u32 \<times> u32" where
  "bm_preload lastBlock =
     (if lastBlock < PRELOADED_BLOCK_COUNT then (0, lastBlock) else (lastBlock - PRELOADED_BLOCK_COUNT, lastBlock))"

definition bm_initCompleted :: "int \<Rightarrow> u32 option \<Rightarrow> u32 \<Rightarrow> (u32 \<times> (u32 \<times> u32) option) \<times> bool" where
  "bm_initCompleted status count lastBlock =
     (if status = 0 then
        (case count of
           None \<Rightarrow> ((INVALID_BLOCK_INDEX, None), True)
         | Some n \<Rightarrow> ((n - 1, Some (bm_preload (n - 1))), True))
      else ((lastBlock, None), False))"

definition bm_rows :: "u32 \<Rightarrow> nat" where
  "bm_rows lastBlock = unat (if lastBlock = INVALID_BLOCK_INDEX then 0 else lastBlock + 1)"

definition bm_nodeStateChanged :: "bool \<Rightarrow> u32 \<Rightarrow> u32 \<Rightarrow> u32 \<times> notice list" where
  "bm_nodeStateChanged countChanged n lastBlock =
     (if countChanged \<and> bm_rows lastBlock > 0 then
        (let m = n - 1 in
         if lastBlock = INVALID_BLOCK_INDEX then (m, [ModelReset (bm_rows m)])
         else if m > lastBlock then (m, [RowsInserted (unat (lastBlock + 1)) (unat m)])
         else (lastBlock, []))
      else (lastBlock, []))"

datatype bm_event = BmInit int "u32 option" | BmNodeState bool u32

fun bm_step :: "bm_event \<Rightarrow> u32 \<Rightarrow> u32 \<times> notice list" where
  "bm_step (BmInit status count) s =
     (let ((t, _), reset) = bm_initCompleted status count s in (t, if reset then [ModelReset (bm_rows t)] else []))"
| "bm_step (BmNodeState changed n) s = bm_nodeStateChanged changed n s"

text \<open>The node's count of local blocks never is zero once it has blocks: the genesis block stays.\<close>

fun bm_ok :: "bm_event \<Rightarrow> u32 \<Rightarrow> bool" where
  "bm_ok (BmInit _ _) s = True"
| "bm_ok (BmNodeState _ n) s = (n \<noteq> 0)"

lemma bm_rows_Suc: "s \<noteq> INVALID_BLOCK_INDEX \<Longrightarrow> bm_rows s = Suc (unat s) \<and> unat (s + 1) = Suc (unat s)"
proof -
  assume ne: "s \<noteq> INVALID_BLOCK_INDEX"
  then have "1 + s \<noteq> 0"
    by (auto simp: INVALID_BLOCK_INDEX_def add_eq_0_iff)
  from unatSuc [OF this] have "unat (s + 1) = Suc (unat s)"
    by (simp only: add.commute)
  with ne show ?thesis
    by (simp add: bm_rows_def)
qed

interpretation bmi: item_model bm_rows bm_step bm_ok "\<lambda>_. True"
proof
  fix s :: u32 and e
  assume ok: "bm_ok e s"
  show "replay (snd (bm_step e s)) (bm_rows s) = Some (bm_rows (fst (bm_step e s)))"
  proof (cases e)
    case (BmInit status count)
    then show ?thesis
      by (auto simp: bm_initCompleted_def split: option.splits)
  next
    case (BmNodeState changed n)
    with ok have "n - 1 \<noteq> INVALID_BLOCK_INDEX"
      by (simp add: INVALID_BLOCK_INDEX_def)
    from bm_rows_Suc [OF this] bm_rows_Suc [of s] show ?thesis
      by (auto simp: BmNodeState bm_nodeStateChanged_def Let_def word_less_nat_alt bm_rows_def [of INVALID_BLOCK_INDEX])
  qed
qed simp

text \<open>
  Over any sequence of node starts and node state changes, the block rows
  the model announces are valid for a view and add up to its row count, as long
  as the node never reports zero local blocks; and a model without rows ignores
  every node state change until the next start.
\<close>

theorem blockchain_model_in_step:
  assumes "ok_run bm_ok bm_step es s"
  shows "replay (snd (run_events bm_step es s)) (bm_rows s) = Some (bm_rows (fst (run_events bm_step es s))) \<and>
    (bm_rows s = 0 \<longrightarrow> bm_step (BmNodeState changed n) s = (s, []))"
  using bmi.run_in_step [OF _ assms] by (simp add: bm_nodeStateChanged_def)

theorem blockchain_model_in_step_witness:
  "replay (snd (run_events bm_step [BmInit 0 (Some 3), BmNodeState True 5] INVALID_BLOCK_INDEX)) 0 = Some 5"
proof -
  have "bm_rows INVALID_BLOCK_INDEX = 0"
    by (simp add: bm_rows_def)
  moreover have "fst (run_events bm_step [BmInit 0 (Some 3), BmNodeState True 5] INVALID_BLOCK_INDEX) = 4"
    by (simp add: bm_initCompleted_def bm_nodeStateChanged_def bm_rows_def INVALID_BLOCK_INDEX_def Let_def)
  moreover have "bm_rows 4 = 5"
    by (simp add: bm_rows_def INVALID_BLOCK_INDEX_def)
  ultimately show ?thesis
    using blockchain_model_in_step [of "[BmInit 0 (Some 3), BmNodeState True 5]" INVALID_BLOCK_INDEX] by simp
qed

lemma of_nat_less_32: "r < n \<Longrightarrow> n < 2 ^ 32 \<Longrightarrow> (of_nat r :: u32) < of_nat n"
  by (simp add: word_less_nat_alt unat_of_nat)

lemma ucast_of_nat_32: "ucast (of_nat n :: u64) = (of_nat n :: u32)"
  by (rule ucast_of_nat_64_32)

lemma tx_count_role_simp:
  assumes "get (bm_block_height p) = Some b"
    and "ix_id p = INVALID_BLOCK_INDEX \<or> 0 \<le> ix_row p \<and> nat (ix_row p) < length (bd_transactions b)"
  shows "tx_count_role get blank p = Some (of_nat (length (bd_transactions b)))"
  using assms by (auto simp: tx_count_role_def bm_user_data_def ucast_of_nat_32)

text \<open>
  The tree below a block. A block has a row for each of its transactions;
  each of these rows has the block as its parent, answers the block's height
  and shows its own transaction. But a transaction row claims the children of
  its block as its own: they are the same indexes again, whose parent is the
  block.
\<close>

theorem blockchain_tree:
  assumes "ix_id p = INVALID_BLOCK_INDEX" "0 \<le> ix_row p" "ix_row p < 2 ^ 32 - 1"
    and "get (of_int (ix_row p)) = Some b" "length (bd_transactions b) < 2 ^ 31" "r < length (bd_transactions b)"
  shows "bm_rowCount get blank (Some p) s = Some (of_nat (length (bd_transactions b))) \<and>
    (\<exists>i. bm_index_of get blank (int r) c (Some p) s = Some (Some i) \<and>
         bm_parent (Some i) = Some (p\<lparr>ix_column := COLUMN_BLOCK_TIME\<rparr>) \<and>
         bm_user_data get blank i ROLE_TRANSACTION_HASH = Some (QBytes (td_hash (bd_transactions b ! r))) \<and>
         bm_user_data get blank i ROLE_BLOCK_HEIGHT = Some (QU32 (of_int (ix_row p))) \<and>
         bm_rowCount get blank (Some i) s = bm_rowCount get blank (Some p) s \<and>
         (\<forall>r' c'. bm_index_of get blank r' c' (Some i) s = bm_index_of get blank r' c' (Some p) s))"
proof -
  let ?h = "of_int (ix_row p) :: u32"
  let ?i = "\<lparr>ix_row = int r, ix_column = c, ix_id = ?h\<rparr>"
  have u: "uint ?h = ix_row p"
    using assms(2,3) by (simp add: uint_word_of_int)
  have h: "?h \<noteq> INVALID_BLOCK_INDEX"
  proof
    assume "?h = INVALID_BLOCK_INDEX"
    then have "uint ?h = 2 ^ 32 - 1"
      by (simp add: INVALID_BLOCK_INDEX_def unsigned_minus_1_eq_mask mask_eq_exp_minus_1)
    with u assms(3) show False
      by simp
  qed
  have hp: "bm_block_height p = ?h" and hi: "bm_block_height ?i = ?h"
    using assms(1) h by (simp_all add: bm_block_height_def)
  have cp: "tx_count_role get blank p = Some (of_nat (length (bd_transactions b)))"
    using tx_count_role_simp [of get p b blank] assms(1,4) by (simp add: hp)
  have ci: "tx_count_role get blank ?i = Some (of_nat (length (bd_transactions b)))"
    using tx_count_role_simp [of get ?i b blank] assms(4,6) by (simp add: hi)
  have "(of_nat r :: u32) < of_nat (length (bd_transactions b))"
    using assms(5,6) by (intro of_nat_less_32) simp_all
  then have ix: "bm_index_of get blank (int r) c (Some p) s = Some (Some ?i)"
    by (simp add: bm_index_of_def cp hp not_le)
  have par: "bm_parent (Some ?i) = Some (p\<lparr>ix_column := COLUMN_BLOCK_TIME\<rparr>)"
    using h u assms(1) by (simp add: bm_parent_def)
  have dat: "bm_user_data get blank ?i ROLE_TRANSACTION_HASH = Some (QBytes (td_hash (bd_transactions b ! r)))"
    "bm_user_data get blank ?i ROLE_BLOCK_HEIGHT = Some (QU32 ?h)"
    using assms(4,6) h by (simp_all add: bm_user_data_def hi)
  have same: "bm_index_of get blank r' c' (Some ?i) s = bm_index_of get blank r' c' (Some p) s" for r' c'
    by (simp add: bm_index_of_def ci cp hp hi)
  show ?thesis
    by (intro conjI exI [of _ ?i] allI)
      (simp_all add: bm_rowCount_def cp ci ix par dat same)
qed

theorem blockchain_tree_witness:
  "bm_rowCount (\<lambda>k. Some (some_block k\<lparr>bd_transactions := [some_tx ''a'', some_tx ''b'']\<rparr>)) (some_tx [])
     (Some \<lparr>ix_row = 4, ix_column = COLUMN_BLOCK_HASH, ix_id = INVALID_BLOCK_INDEX\<rparr>) 9 = Some 2"
  using blockchain_tree [of "\<lparr>ix_row = 4, ix_column = COLUMN_BLOCK_HASH, ix_id = INVALID_BLOCK_INDEX\<rparr>"
      "\<lambda>k. Some (some_block k\<lparr>bd_transactions := [some_tx ''a'', some_tx ''b'']\<rparr>)"
      "some_block 4\<lparr>bd_transactions := [some_tx ''a'', some_tx ''b'']\<rparr>" 1 "some_tx []" 9]
  by simp

end
