(* ===== verification/TransactionPoolModel.thy ===== *)
theory TransactionPoolModel
  imports BlockchainModel
begin

text \<open>
  The list of transactions waiting in the pool: TransactionPoolModel.

  The rows are hashes, the newest first, and a hash map holds the transactions.
  The explorer's answers (is the chain synchronized, what is in the pool) are
  part of the events.
\<close>

abbreviation (input) COL_TIME :: int where "COL_TIME \<equiv> 0"
abbreviation (input) COL_HASH :: int where "COL_HASH \<equiv> 1"
abbreviation (input) COL_AMOUNT :: int where "COL_AMOUNT \<equiv> 2"
abbreviation (input) COL_FEE :: int where "COL_FEE \<equiv> 3"
abbreviation (input) COL_SIZE :: int where "COL_SIZE \<equiv> 4"
abbreviation (input) COL_MIXIN :: int where "COL_MIXIN \<equiv> 5"
abbreviation (input) COL_PAYMENT_ID :: int where "COL_PAYMENT_ID \<equiv> 6"

datatype tp_role = TP_TIME | TP_AMOUNT | TP_FEE | TP_SIZE | TP_HASH | TP_MIXIN | TP_PAYMENT_ID | TP_COLUMN

record tp_state =
  tp_rows :: "string list"
  tp_txs :: "string \<Rightarrow> tx_details option"
  tp_synchronized :: bool

definition tp_empty :: tp_state where
  "tp_empty = \<lparr>tp_rows = [], tp_txs = Map.empty, tp_synchronized = False\<rparr>"

text \<open>m_rowHashes.prepend(hash) and m_transactions[hash] = transaction.\<close>

definition tp_push :: "tx_details \<Rightarrow> tp_state \<Rightarrow> tp_state" where
  "tp_push x s = s\<lparr>tp_rows := td_hash x # tp_rows s, tp_txs := (tp_txs s)(td_hash x \<mapsto> x)\<rparr>"

definition tp_clear :: "tp_state \<Rightarrow> tp_state" where
  "tp_clear s = s\<lparr>tp_rows := [], tp_txs := Map.empty\<rparr>"

text \<open>
  Filling the model when the chain is synchronized: the pool is asked for (None
  when that fails, and then the model counts as not synchronized).
\<close>

definition tp_new :: "(bool \<times> tx_details list option) option \<Rightarrow> tp_state" where
  "tp_new explorer =
     (case explorer of
        None \<Rightarrow> tp_empty
      | Some (sync, pool) \<Rightarrow>
          (if sync then
             (case pool of
                Some txs \<Rightarrow> fold tp_push txs (tp_clear (tp_empty\<lparr>tp_synchronized := True\<rparr>))
              | None \<Rightarrow> tp_empty\<lparr>tp_synchronized := False\<rparr>)
           else tp_empty\<lparr>tp_synchronized := False\<rparr>))"

definition tp_blockchainSynchronized :: "tx_details list option \<Rightarrow> tp_state \<Rightarrow> tp_state \<times> notice list" where
  "tp_blockchainSynchronized pool s =
     (if \<not> tp_synchronized s then
        (case pool of
           Some txs \<Rightarrow> (fold tp_push txs (tp_clear (s\<lparr>tp_synchronized := True\<rparr>)), [])
         | None \<Rightarrow> (s\<lparr>tp_synchronized := False\<rparr>, []))
      else (s, []))"

definition tp_initCompleted ::
  "int \<Rightarrow> (bool \<times> tx_details list option) option \<Rightarrow> tp_state \<Rightarrow> tp_state \<times> notice list" where
  "tp_initCompleted status explorer s =
     (if status \<noteq> 0 then (s, [])
      else let t = (case explorer of
                      None \<Rightarrow> tp_clear s
                    | Some (sync, pool) \<Rightarrow>
                        (if sync then
                           (case pool of
                              Some txs \<Rightarrow> fold tp_push txs (tp_clear (s\<lparr>tp_synchronized := True\<rparr>))
                            | None \<Rightarrow> tp_clear (s\<lparr>tp_synchronized := False\<rparr>))
                         else tp_clear (s\<lparr>tp_synchronized := False\<rparr>)))
           in (t, [ModelReset (length (tp_rows t))]))"

definition tp_add :: "tx_details \<Rightarrow> tp_state \<Rightarrow> tp_state" where
  "tp_add x s = (if tp_txs s (td_hash x) \<noteq> None then s else tp_push x s)"

definition tp_remove :: "string \<Rightarrow> tp_state \<Rightarrow> tp_state" where
  "tp_remove h s =
     (if tp_txs s h = None then s else s\<lparr>tp_rows := removeAll h (tp_rows s), tp_txs := (tp_txs s)(h := None)\<rparr>)"

definition tp_poolUpdated :: "tx_details list \<Rightarrow> string list \<Rightarrow> tp_state \<Rightarrow> tp_state \<times> notice list" where
  "tp_poolUpdated new removed s =
     (let t = fold tp_remove removed (fold tp_add new s) in (t, [ModelReset (length (tp_rows t))]))"

datatype tp_event =
    TpInit int "(bool \<times> tx_details list option) option"
  | TpSynchronized "tx_details list option"
  | TpPoolUpdated "tx_details list" "string list"

fun tp_step :: "tp_event \<Rightarrow> tp_state \<Rightarrow> tp_state \<times> notice list" where
  "tp_step (TpInit status explorer) s = tp_initCompleted status explorer s"
| "tp_step (TpSynchronized pool) s = tp_blockchainSynchronized pool s"
| "tp_step (TpPoolUpdated new removed) s = tp_poolUpdated new removed s"


section \<open>Cells\<close>

definition tp_headerData :: "int \<Rightarrow> bool \<Rightarrow> role \<Rightarrow> qvariant" where
  "tp_headerData col horizontal role =
     (let align = (if col = COL_TIME then AlignLeftV else AlignRightV) in
      if \<not> horizontal then QNull
      else if role = DisplayRole then
        (if col = COL_TIME then QStr ''Time (UTC)'' else if col = COL_AMOUNT then QStr ''Amount''
         else if col = COL_FEE then QStr ''Fee'' else if col = COL_SIZE then QStr ''Size (bytes)''
         else if col = COL_HASH then QStr ''Hash'' else if col = COL_MIXIN then QStr ''Mixin''
         else if col = COL_PAYMENT_ID then QStr ''Payment ID'' else align)
      else if role = TextAlignmentRole then align
      else if role = UserRole 7 then QInt col
      else QNull)"

text \<open>The transaction of a row; None when the row is out of range, blank when the map lacks it.\<close>

definition tp_transaction :: "tx_details \<Rightarrow> tp_state \<Rightarrow> int \<Rightarrow> tx_details option" where
  "tp_transaction blank s row =
     (if 0 \<le> row \<and> nat row < length (tp_rows s)
      then Some (case tp_txs s (tp_rows s ! nat row) of None \<Rightarrow> blank | Some x \<Rightarrow> x)
      else None)"

fun tp_role_value :: "tx_details \<Rightarrow> int \<Rightarrow> tp_role \<Rightarrow> qvariant" where
  "tp_role_value x col TP_TIME = (if td_timestamp x = 0 then QNullDate else QDate (td_timestamp x))"
| "tp_role_value x col TP_AMOUNT = QU64 (td_totalOutputsAmount x)"
| "tp_role_value x col TP_FEE = QU64 (td_fee x)"
| "tp_role_value x col TP_SIZE = QU64 (td_size x)"
| "tp_role_value x col TP_HASH = QBytes (td_hash x)"
| "tp_role_value x col TP_MIXIN = QU64 (td_mixin x)"
| "tp_role_value x col TP_PAYMENT_ID = QBytes (td_paymentId x)"
| "tp_role_value x col TP_COLUMN = QInt col"

definition tp_getUserRole :: "tx_details \<Rightarrow> tp_state \<Rightarrow> int \<Rightarrow> int \<Rightarrow> tp_role \<Rightarrow> qvariant option" where
  "tp_getUserRole blank s row col role = map_option (\<lambda>x. tp_role_value x col role) (tp_transaction blank s row)"

definition tp_getDisplayRole :: "formats \<Rightarrow> tx_details \<Rightarrow> tp_state \<Rightarrow> int \<Rightarrow> int \<Rightarrow> qvariant option" where
  "tp_getDisplayRole F blank s row col =
     (let d = tp_getUserRole blank s row col in
      if col = COL_TIME then
        map_option (\<lambda>v. if to_date v = None then QStr ''-'' else QStr (date_text F v)) (d TP_TIME)
      else if col = COL_AMOUNT then map_option (\<lambda>v. QStr (f_amount F (to_u64 v))) (d TP_AMOUNT)
      else if col = COL_FEE then map_option (\<lambda>v. QStr (f_amount F (to_u64 v))) (d TP_FEE)
      else if col = COL_SIZE then d TP_SIZE
      else if col = COL_HASH then map_option (\<lambda>v. QBytes (f_hex F (to_bytes v))) (d TP_HASH)
      else if col = COL_MIXIN then map_option (\<lambda>v. QStr (f_nat F (to_u64 v))) (d TP_MIXIN)
      else if col = COL_PAYMENT_ID then
        map_option (\<lambda>v. if to_bytes v \<noteq> NULL_PAYMENT_ID then QBytes (f_hex F (to_bytes v)) else QStr [])
          (d TP_PAYMENT_ID)
      else Some QNull)"

definition tp_role_of :: "role \<Rightarrow> tp_role option" where
  "tp_role_of r =
     (case r of
        UserRole n \<Rightarrow>
          (if n < 8 then Some ([TP_TIME, TP_AMOUNT, TP_FEE, TP_SIZE, TP_HASH, TP_MIXIN, TP_PAYMENT_ID, TP_COLUMN] ! n)
           else None)
      | _ \<Rightarrow> None)"

text \<open>Every role but the display and the alignment reads the row's transaction first.\<close>

definition tp_data :: "formats \<Rightarrow> tx_details \<Rightarrow> tp_state \<Rightarrow> int \<Rightarrow> int \<Rightarrow> role \<Rightarrow> qvariant option" where
  "tp_data F blank s row col role =
     (if role = DisplayRole \<or> role = EditRole then tp_getDisplayRole F blank s row col
      else if role = TextAlignmentRole then Some (tp_headerData col True role)
      else case tp_role_of role of
          Some r \<Rightarrow> tp_getUserRole blank s row col r
        | None \<Rightarrow> map_option (\<lambda>_. QNull) (tp_transaction blank s row))"


section \<open>Rows and transactions agree\<close>

definition tp_inv :: "tp_state \<Rightarrow> bool" where
  "tp_inv s \<longleftrightarrow> distinct (tp_rows s) \<and> set (tp_rows s) = dom (tp_txs s) \<and>
     (\<forall>h x. tp_txs s h = Some x \<longrightarrow> td_hash x = h)"

text \<open>The library lists a transaction once.\<close>

definition once :: "tx_details list option \<Rightarrow> bool" where
  "once pool \<longleftrightarrow> (case pool of None \<Rightarrow> True | Some txs \<Rightarrow> distinct (map td_hash txs))"

fun tp_ok :: "tp_event \<Rightarrow> bool" where
  "tp_ok (TpInit status explorer) = (case explorer of None \<Rightarrow> True | Some (sync, pool) \<Rightarrow> once pool)"
| "tp_ok (TpSynchronized pool) = once pool"
| "tp_ok (TpPoolUpdated new removed) = True"

lemma tp_inv_empty [inv_intros]: "tp_inv tp_empty"
  by (simp add: tp_inv_def tp_empty_def)

lemma tp_push_inv [inv_intros]: "tp_inv s \<Longrightarrow> tp_txs s (td_hash x) = None \<Longrightarrow> tp_inv (tp_push x s)"
  by (auto simp: tp_inv_def tp_push_def)

lemma tp_add_inv [inv_intros]: "tp_inv s \<Longrightarrow> tp_inv (tp_add x s)"
  using tp_push_inv by (simp add: tp_add_def)

lemma tp_remove_inv [inv_intros]: "tp_inv s \<Longrightarrow> tp_inv (tp_remove h s)"
  by (auto simp: tp_inv_def tp_remove_def distinct_removeAll)

lemma fold_inv: "(\<And>x s. P s \<Longrightarrow> P (f x s)) \<Longrightarrow> P s \<Longrightarrow> P (fold f xs s)"
  by (induction xs arbitrary: s) auto

lemma tp_fill_inv [inv_intros]:
  assumes "tp_inv s" "distinct (map td_hash txs)" "\<forall>x\<in>set txs. tp_txs s (td_hash x) = None"
  shows "tp_inv (fold tp_push txs s) \<and> length (tp_rows (fold tp_push txs s)) = length txs + length (tp_rows s)"
  using assms
proof (induction txs arbitrary: s)
  case (Cons x txs)
  have "tp_inv (tp_push x s)"
    using Cons.prems by (simp add: tp_push_inv)
  moreover have "\<forall>y\<in>set txs. tp_txs (tp_push x s) (td_hash y) = None"
    using Cons.prems by (auto simp: tp_push_def image_iff)
  moreover have "length (tp_rows (tp_push x s)) = Suc (length (tp_rows s))"
    by (simp add: tp_push_def)
  ultimately show ?case
    using Cons.IH [of "tp_push x s"] Cons.prems(2) by simp
qed simp

lemma tp_clear_inv [inv_intros]: "tp_inv (tp_clear s)" "tp_txs (tp_clear s) h = None" "tp_rows (tp_clear s) = []"
  by (simp_all add: tp_inv_def tp_clear_def)

lemma tp_sync_inv: "tp_inv (s\<lparr>tp_synchronized := b\<rparr>) = tp_inv s"
  by (simp add: tp_inv_def)

lemma tp_fill_clear:
  "once (Some txs) \<Longrightarrow> tp_inv (fold tp_push txs (tp_clear s)) \<and> length (tp_rows (fold tp_push txs (tp_clear s))) = length txs"
  using tp_fill_inv [of "tp_clear s" txs] by (simp add: once_def tp_clear_inv)

lemma tp_step_inv [inv_intros]: "tp_inv s \<Longrightarrow> tp_ok e \<Longrightarrow> tp_inv (fst (tp_step e s))"
proof (cases e)
  case (TpInit status explorer)
  assume "tp_inv s" "tp_ok e"
  then show ?thesis
    by (auto simp: TpInit tp_initCompleted_def Let_def tp_clear_inv tp_fill_clear split: option.splits prod.splits)
next
  case (TpSynchronized pool)
  assume "tp_inv s" "tp_ok e"
  then show ?thesis
    by (auto simp: TpSynchronized tp_blockchainSynchronized_def tp_sync_inv tp_fill_clear split: option.splits)
next
  case (TpPoolUpdated new removed)
  assume "tp_inv s"
  then show ?thesis
    by (simp add: TpPoolUpdated tp_poolUpdated_def Let_def fold_inv [where P = tp_inv] tp_add_inv tp_remove_inv)
qed

lemma tp_add_dom: "dom (tp_txs (fold tp_add xs s)) = dom (tp_txs s) \<union> td_hash ` set xs"
  by (induction xs arbitrary: s) (auto simp: tp_add_def tp_push_def)

lemma tp_remove_dom: "dom (tp_txs (fold tp_remove hs s)) = dom (tp_txs s) - set hs"
  by (induction hs arbitrary: s) (auto simp: tp_remove_def)

text \<open>
  The contract of the item model holds for the events that are announced: all
  but the synchronization event of a model that is not synchronized yet.
\<close>

fun tp_announced :: "tp_event \<Rightarrow> tp_state \<Rightarrow> bool" where
  "tp_announced (TpSynchronized pool) s = (tp_synchronized s \<or> pool = None)"
| "tp_announced e s = tp_ok e"

interpretation tpm: item_model "\<lambda>s. length (tp_rows s)" tp_step tp_announced tp_inv
proof
  fix s e
  assume ok: "tp_announced e s"
  show "replay (snd (tp_step e s)) (length (tp_rows s)) = Some (length (tp_rows (fst (tp_step e s))))"
    using ok
    by (cases e) (auto simp: tp_initCompleted_def tp_blockchainSynchronized_def tp_poolUpdated_def Let_def
        split: option.splits)
next
  fix s e
  assume inv: "tp_inv s" and ok: "tp_announced e s"
  show "tp_inv (fst (tp_step e s))"
  proof (cases "tp_ok e")
    case False
    then obtain pool where "e = TpSynchronized pool"
      using ok by (cases e) auto
    then show ?thesis
      using ok inv by (auto simp: tp_blockchainSynchronized_def tp_sync_inv)
  qed (use inv tp_step_inv in simp)
qed

text \<open>
  After any sequence of events the rows of the pool model are pairwise
  different and are exactly the hashes of the transactions it holds, each under
  its own hash; a pool update makes them the old ones and the new ones without
  the removed ones. Announced events keep a view in step; but the first
  synchronization of the chain replaces the rows with no announcement at all.
\<close>

theorem pool_rows_exact:
  assumes "tp_inv s" "tp_ok e" "fst (tp_step e s) = t"
  shows "tp_inv t \<and>
    (\<forall>new removed. e = TpPoolUpdated new removed \<longrightarrow>
       set (tp_rows t) = (set (tp_rows s) \<union> td_hash ` set new) - set removed) \<and>
    (tp_announced e s \<longrightarrow> replay (snd (tp_step e s)) (length (tp_rows s)) = Some (length (tp_rows t))) \<and>
    (\<forall>txs. e = TpSynchronized (Some txs) \<and> \<not> tp_synchronized s \<longrightarrow>
       snd (tp_step e s) = [] \<and> length (tp_rows t) = length txs)"
proof (intro conjI allI impI; (elim conjE)?)
  show inv: "tp_inv t"
    using tp_step_inv assms by blast
  show "set (tp_rows t) = (set (tp_rows s) \<union> td_hash ` set new) - set removed" if "e = TpPoolUpdated new removed" for new removed
    using inv assms that by (simp add: tp_inv_def tp_poolUpdated_def Let_def tp_add_dom tp_remove_dom flip: assms(3))
  show "replay (snd (tp_step e s)) (length (tp_rows s)) = Some (length (tp_rows t))" if "tp_announced e s"
    using tpm.announced [OF assms(1) that] assms(3) by simp
next
  fix txs
  assume e: "e = TpSynchronized (Some txs)" and ns: "\<not> tp_synchronized s"
  then show "snd (tp_step e s) = []"
    by (simp add: tp_blockchainSynchronized_def)
  show "length (tp_rows t) = length txs"
    using assms(2) tp_fill_clear [of txs "s\<lparr>tp_synchronized := True\<rparr>"] e ns assms(3)
    by (auto simp: tp_blockchainSynchronized_def)
qed

theorem pool_rows_exact_witness:
  "snd (tp_step (TpSynchronized (Some [some_tx ''a''])) tp_empty) = [] \<and>
   length (tp_rows (fst (tp_step (TpSynchronized (Some [some_tx ''a''])) tp_empty))) = 1"
proof -
  have "tp_ok (TpSynchronized (Some [some_tx ''a'']))" "\<not> tp_synchronized tp_empty"
    by (simp_all add: once_def tp_empty_def)
  with pool_rows_exact [OF tp_inv_empty this(1) refl] show ?thesis
    by auto
qed

end
