(* ===== verification/TransactionsModel.thy ===== *)
theory TransactionsModel
  imports ItemModel AmountFormat WalletWorker "HOL-Library.AList"
begin

text \<open>
  The list of the wallet's transactions: TransactionsModel, and the transfers
  of one of them: TransfersModel.

  The model caches the transactions by index and shows a prefix of them: while
  the wallet synchronizes, new transactions are cached and a timer makes them
  visible from time to time; otherwise they are shown at once.
\<close>

datatype tx_type = MINED | INPUT | OUTPUT | DONATION

definition getTransactionType :: "full_tx \<Rightarrow> tx_type" where
  "getTransactionType x =
     (if wt_isBase (ft_transaction x) then MINED
      else if sint (wt_totalAmount (ft_transaction x)) < 0 then OUTPUT else INPUT)"

fun getIconPrefix :: "tx_type \<Rightarrow> string" where
  "getIconPrefix INPUT = ''inp_''"
| "getIconPrefix OUTPUT = ''out_''"
| "getIconPrefix MINED = ''mined_''"
| "getIconPrefix DONATION = ''donation_''"

text \<open>
  m_transactions is a hash map from indexes, kept here as an association list
  with different keys; m_showTransfers is a bit array; m_lastVisibleTransactionIndex
  is None for the invalid index.
\<close>

record tm_state =
  tm_show :: "bool list"
  tm_txs :: "(nat \<times> full_tx) list"
  tm_timer :: "nat option"
  tm_last :: "nat option"
  tm_synchronized :: bool

definition tm_new :: tm_state where
  "tm_new = \<lparr>tm_show = [], tm_txs = [], tm_timer = None, tm_last = None, tm_synchronized = False\<rparr>"

definition tm_rows :: "tm_state \<Rightarrow> nat" where
  "tm_rows s = (case tm_last s of None \<Rightarrow> 0 | Some n \<Rightarrow> n + 1)"

text \<open>m_transactions.size() - 1, which is the invalid index for an empty map.\<close>

definition tm_size_pred :: "tm_state \<Rightarrow> nat option" where
  "tm_size_pred s = (if tm_txs s = [] then None else Some (length (tm_txs s) - 1))"

text \<open>QBitArray: resize clears the new bits; fill (false, from, to) clears the bits before to.\<close>

definition bit_resize :: "nat \<Rightarrow> bool list \<Rightarrow> bool list" where
  "bit_resize n bs = take n bs @ replicate (n - length bs) False"

definition bit_clear :: "nat \<Rightarrow> nat \<Rightarrow> bool list \<Rightarrow> bool list" where
  "bit_clear from to bs = take from bs @ replicate (to - from) False @ drop to bs"

definition showAllCachedTransactions :: "bool \<Rightarrow> tm_state \<Rightarrow> tm_state \<times> notice list" where
  "showAllCachedTransactions isOpen s =
     (if \<not> isOpen \<or> tm_txs s = [] then (s, [])
      else let first = tm_rows s; last = length (tm_txs s) - 1 in
        if last < first then (s, [])
        else (s\<lparr>tm_show := bit_clear first last (bit_resize (last + 1) (tm_show s)), tm_last := tm_size_pred s\<rparr>,
              [RowsInserted first last]))"

text \<open>The new wallet's transactions; None when they cannot be read. The assertions are the outer option.\<close>

definition tm_walletOpened :: "(nat \<times> full_tx) list option \<Rightarrow> tm_state \<Rightarrow> (tm_state \<times> notice list) option" where
  "tm_walletOpened infos s =
     (if tm_txs s \<noteq> [] \<or> tm_show s \<noteq> [] then None
      else Some (case infos of
          None \<Rightarrow> (s, [])
        | Some txs \<Rightarrow>
            (if txs \<noteq> []
             then (s\<lparr>tm_txs := txs, tm_show := bit_clear 0 (length txs) (bit_resize (length txs) (tm_show s)), tm_last := Some (length txs - 1)\<rparr>,
                   [RowsInserted 0 (length txs - 1)])
             else (s, []))))"

definition ensureSyncTimerStarted :: "nat \<Rightarrow> tm_state \<Rightarrow> tm_state" where
  "ensureSyncTimerStarted fresh s = (if tm_timer s = None then s\<lparr>tm_timer := Some fresh\<rparr> else s)"

definition ensureSyncTimerStopped :: "tm_state \<Rightarrow> tm_state" where
  "ensureSyncTimerStopped s = s\<lparr>tm_timer := None\<rparr>"

definition tm_walletClosed :: "tm_state \<Rightarrow> tm_state \<times> notice list" where
  "tm_walletClosed s =
     ((ensureSyncTimerStopped s)\<lparr>tm_last := None, tm_synchronized := False, tm_txs := [], tm_show := []\<rparr>,
      [ModelReset 0])"

definition tm_synchronizationProgressUpdated :: "nat \<Rightarrow> tm_state \<Rightarrow> tm_state" where
  "tm_synchronizationProgressUpdated fresh s = (ensureSyncTimerStarted fresh s)\<lparr>tm_synchronized := False\<rparr>"

definition tm_synchronizationCompleted :: "bool \<Rightarrow> tm_state \<Rightarrow> tm_state \<times> notice list" where
  "tm_synchronizationCompleted isOpen s =
     (let t = ensureSyncTimerStopped s in
      if tm_synchronized t then (t, [])
      else showAllCachedTransactions isOpen (t\<lparr>tm_synchronized := True\<rparr>))"

definition tm_externalTransactionCreated :: "bool \<Rightarrow> nat \<Rightarrow> full_tx \<Rightarrow> tm_state \<Rightarrow> tm_state \<times> notice list" where
  "tm_externalTransactionCreated isOpen i x s =
     (if i < tm_rows s then (s, [])
      else let t = s\<lparr>tm_txs := AList.update i x (tm_txs s)\<rparr> in
        if tm_synchronized t then showAllCachedTransactions isOpen t else (t, []))"

text \<open>dataChanged of one row; of an invalid index when the row is not visible.\<close>

definition row_changed :: "nat \<Rightarrow> tm_state \<Rightarrow> notice" where
  "row_changed i s = (if i < tm_rows s then DataChanged i i else SignalSent ''dataChanged'')"

definition updateTransaction :: "bool \<Rightarrow> full_tx \<Rightarrow> nat \<Rightarrow> full_tx \<Rightarrow> tm_state \<Rightarrow> tm_state \<times> notice list" where
  "updateTransaction isOpen blank i x s =
     (if \<not> isOpen then (s, [])
      else let old = (case map_of (tm_txs s) i of None \<Rightarrow> blank | Some y \<Rightarrow> y);
               t = s\<lparr>tm_txs := AList.update i x (tm_txs s)\<rparr> in
        (t, (if wt_blockHeight (ft_transaction old) \<noteq> wt_blockHeight (ft_transaction x)
             then [row_changed i t, row_changed i t, row_changed i t] else []) @
            (if wt_state (ft_transaction old) \<noteq> wt_state (ft_transaction x) then [row_changed i t] else []) @
            (if length (ft_transfers old) \<noteq> length (ft_transfers x) then [row_changed i t] else [])))"

definition tm_transactionUpdated :: "bool \<Rightarrow> full_tx \<Rightarrow> nat \<Rightarrow> full_tx \<Rightarrow> tm_state \<Rightarrow> tm_state \<times> notice list" where
  "tm_transactionUpdated isOpen blank i x s =
     (if i < length (tm_txs s) then updateTransaction isOpen blank i x s else (s, []))"

definition tm_timerEvent :: "bool \<Rightarrow> nat \<Rightarrow> tm_state \<Rightarrow> tm_state \<times> notice list" where
  "tm_timerEvent isOpen timer s =
     (if tm_timer s = Some timer then
        (if tm_last s \<noteq> tm_size_pred s then showAllCachedTransactions isOpen s else (s, []))
      else (s, []))"

definition tm_nodeStateChanged :: "bool \<Rightarrow> tm_state \<Rightarrow> tm_state \<times> notice list" where
  "tm_nodeStateChanged knownCountChanged s =
     (if knownCountChanged \<and> tm_rows s > 0
      then (s, [DataChanged 0 (tm_rows s - 1), DataChanged 0 (tm_rows s - 1)]) else (s, []))"

definition tm_setData :: "nat \<Rightarrow> bool \<Rightarrow> bool \<Rightarrow> tm_state \<Rightarrow> (tm_state \<times> notice list \<times> bool) option" where
  "tm_setData row showTransfersRole b s =
     (if showTransfersRole then
        (if row < length (tm_show s) then Some (s\<lparr>tm_show := (tm_show s)[row := b]\<rparr>, [DataChanged row row], True)
         else None)
      else Some (s, [], False))"

text \<open>The events; the flag of some of them is the wallet adapter's isOpen at that time.\<close>

datatype tm_event =
    TmOpened "(nat \<times> full_tx) list option"
  | TmClosed
  | TmProgress nat
  | TmSynchronized bool
  | TmCreated bool nat full_tx
  | TmUpdated bool nat full_tx
  | TmTimer bool nat
  | TmNodeState bool
  | TmSetData nat bool

text \<open>An assertion that fails keeps the state; the sequences below never get there.\<close>

fun tm_step :: "full_tx \<Rightarrow> tm_event \<Rightarrow> tm_state \<Rightarrow> tm_state \<times> notice list" where
  "tm_step blank (TmOpened infos) s = (case tm_walletOpened infos s of None \<Rightarrow> (s, []) | Some r \<Rightarrow> r)"
| "tm_step blank TmClosed s = tm_walletClosed s"
| "tm_step blank (TmProgress fresh) s = (tm_synchronizationProgressUpdated fresh s, [])"
| "tm_step blank (TmSynchronized isOpen) s = tm_synchronizationCompleted isOpen s"
| "tm_step blank (TmCreated isOpen i x) s = tm_externalTransactionCreated isOpen i x s"
| "tm_step blank (TmUpdated isOpen i x) s = tm_transactionUpdated isOpen blank i x s"
| "tm_step blank (TmTimer isOpen n) s = tm_timerEvent isOpen n s"
| "tm_step blank (TmNodeState b) s = tm_nodeStateChanged b s"
| "tm_step blank (TmSetData row b) s =
     (case tm_setData row True b s of None \<Rightarrow> (s, []) | Some (t, ns, _) \<Rightarrow> (t, ns))"


section \<open>The visible rows are a prefix of the cached transactions\<close>

definition indexed :: "(nat \<times> full_tx) list \<Rightarrow> bool" where
  "indexed xs \<longleftrightarrow> distinct (map fst xs) \<and> fst ` set xs = {..<length xs}"

definition tm_inv :: "tm_state \<Rightarrow> bool" where
  "tm_inv s \<longleftrightarrow> indexed (tm_txs s) \<and> tm_rows s \<le> length (tm_txs s) \<and> length (tm_show s) = tm_rows s"

text \<open>
  The wallet numbers its transactions from zero without gaps, it is opened when
  it was closed before, and views set data of rows that exist.
\<close>

fun tm_ok :: "tm_event \<Rightarrow> tm_state \<Rightarrow> bool" where
  "tm_ok (TmOpened infos) s = (tm_txs s = [] \<and> (case infos of None \<Rightarrow> True | Some txs \<Rightarrow> indexed txs))"
| "tm_ok (TmCreated _ i _) s = (i \<le> length (tm_txs s))"
| "tm_ok (TmSetData row _) s = (row < tm_rows s)"
| "tm_ok _ s = True"

lemma indexed_Nil [simp]: "indexed []"
  by (simp add: indexed_def)

lemma map_of_indexed: "indexed xs \<Longrightarrow> map_of xs i \<noteq> None \<longleftrightarrow> i < length xs"
  by (auto simp: indexed_def map_of_eq_None_iff)

lemma length_update: "length (AList.update k v xs) = (if k \<in> fst ` set xs then length xs else Suc (length xs))"
  by (induction xs) auto

lemma keys_update: "fst ` set (AList.update k v xs) = insert k (fst ` set xs)"
  by (induction xs) auto

lemma indexed_update:
  assumes "indexed xs" "i \<le> length xs"
  shows "indexed (AList.update i x xs) \<and> length (AList.update i x xs) = max (Suc i) (length xs)"
proof -
  have l: "length (AList.update i x xs) = max (Suc i) (length xs)"
    using assms by (auto simp: length_update indexed_def)
  have "{..<max (Suc i) (length xs)} = insert i {..<length xs}"
    using assms(2) by auto
  then have "fst ` set (AList.update i x xs) = {..<max (Suc i) (length xs)}"
    using assms(1) by (simp add: keys_update indexed_def)
  moreover have "distinct (map fst (AList.update i x xs))"
    using assms(1) by (simp add: indexed_def AList.distinct_update)
  ultimately show ?thesis
    using l by (simp only: indexed_def)
qed

lemma length_bits: "from \<le> to \<Longrightarrow> to \<le> length bs \<Longrightarrow> length (bit_clear from to bs) = length bs"
  by (simp add: bit_clear_def)

lemma length_bit_resize [simp]: "length (bit_resize n bs) = n"
  by (simp add: bit_resize_def)

lemma show_all_result:
  assumes "tm_inv s"
  shows "let (t, ns) = showAllCachedTransactions isOpen s in
    tm_inv t \<and> replay ns (tm_rows s) = Some (tm_rows t) \<and> tm_txs t = tm_txs s \<and>
    (isOpen \<longrightarrow> tm_rows t = length (tm_txs t))"
proof -
  have le: "tm_rows s \<le> length (tm_txs s)" and ix: "indexed (tm_txs s)" and sh: "length (tm_show s) = tm_rows s"
    using assms by (simp_all add: tm_inv_def)
  consider "\<not> isOpen" | "isOpen" "tm_rows s = length (tm_txs s)"
    | "isOpen" "tm_rows s < length (tm_txs s)"
    using le by linarith
  then show ?thesis
  proof cases
    case 3
    then have "tm_txs s \<noteq> []" "\<not> length (tm_txs s) - 1 < tm_rows s"
      by auto
    with 3 ix sh show ?thesis
      by (simp add: showAllCachedTransactions_def Let_def tm_inv_def tm_rows_def tm_size_pred_def length_bits)
  qed (use assms in \<open>auto simp: showAllCachedTransactions_def Let_def\<close>)
qed

lemma tm_rows_upd [simp]:
  "tm_rows (s\<lparr>tm_txs := xs\<rparr>) = tm_rows s" "tm_rows (s\<lparr>tm_timer := n\<rparr>) = tm_rows s"
  "tm_rows (s\<lparr>tm_synchronized := b\<rparr>) = tm_rows s" "tm_rows (s\<lparr>tm_show := bs\<rparr>) = tm_rows s"
  by (simp_all add: tm_rows_def)

lemma tm_inv_upd [simp]:
  "tm_inv (s\<lparr>tm_timer := n\<rparr>) = tm_inv s" "tm_inv (s\<lparr>tm_synchronized := b\<rparr>) = tm_inv s"
  by (simp_all add: tm_inv_def)

lemma tm_inv_put: "tm_inv s \<Longrightarrow> i \<le> length (tm_txs s) \<Longrightarrow> tm_inv (s\<lparr>tm_txs := AList.update i x (tm_txs s)\<rparr>)"
  using indexed_update [of "tm_txs s" i x] by (auto simp: tm_inv_def)

lemma replay_row_changed: "replay (replicate n (row_changed i s)) (tm_rows s) = Some (tm_rows s)"
  by (induction n) (auto simp: row_changed_def)

lemma update_transaction_result:
  assumes "tm_inv s" "i < length (tm_txs s)"
  shows "tm_inv (fst (updateTransaction isOpen blank i x s)) \<and>
    replay (snd (updateTransaction isOpen blank i x s)) (tm_rows s) = Some (tm_rows (fst (updateTransaction isOpen blank i x s)))"
proof -
  let ?t = "s\<lparr>tm_txs := AList.update i x (tm_txs s)\<rparr>"
  have "replay [row_changed i ?t] (tm_rows s) = Some (tm_rows s)"
    by (simp add: row_changed_def)
  moreover have "tm_inv ?t"
    using assms by (intro tm_inv_put) simp_all
  ultimately show ?thesis
    using assms(1) by (auto simp: updateTransaction_def Let_def replay_append split: option.splits)
qed

interpretation tmi: item_model tm_rows "tm_step blank" tm_ok tm_inv for blank
proof -
  have both: "tm_inv (fst (tm_step blank e s)) \<and> replay (snd (tm_step blank e s)) (tm_rows s) = Some (tm_rows (fst (tm_step blank e s)))"
    if inv: "tm_inv s" and ok: "tm_ok e s" for e s
  proof (cases e)
    case (TmOpened infos)
    have "tm_rows s = 0" "tm_show s = []"
      using inv ok TmOpened by (auto simp: tm_inv_def)
    with inv ok show ?thesis
      by (auto simp: TmOpened tm_walletOpened_def tm_inv_def tm_rows_def length_bits split: option.splits)
  next
    case TmClosed
    then show ?thesis
      by (simp add: tm_walletClosed_def tm_inv_def tm_rows_def)
  next
    case (TmProgress fresh)
    then show ?thesis
      using inv by (simp add: tm_synchronizationProgressUpdated_def ensureSyncTimerStarted_def)
  next
    case (TmSynchronized isOpen)
    then show ?thesis
      using inv show_all_result [of "s\<lparr>tm_timer := None, tm_synchronized := True\<rparr>" isOpen]
      by (auto simp: tm_synchronizationCompleted_def ensureSyncTimerStopped_def Let_def case_prod_beta)
  next
    case (TmCreated isOpen i x)
    then show ?thesis
      using inv ok tm_inv_put [OF inv, of i x] show_all_result [of "s\<lparr>tm_txs := AList.update i x (tm_txs s)\<rparr>" isOpen]
      by (auto simp: tm_externalTransactionCreated_def Let_def case_prod_beta)
  next
    case (TmUpdated isOpen i x)
    then show ?thesis
      using inv update_transaction_result [OF inv, of i isOpen blank x] by (simp add: tm_transactionUpdated_def)
  next
    case (TmTimer isOpen n)
    then show ?thesis
      using inv show_all_result [OF inv, of isOpen] by (auto simp: tm_timerEvent_def Let_def case_prod_beta)
  next
    case (TmNodeState b)
    then show ?thesis
      using inv by (auto simp: tm_nodeStateChanged_def)
  next
    case (TmSetData row b)
    then show ?thesis
      using inv ok by (simp add: tm_setData_def tm_inv_def)
  qed
  show "item_model tm_rows (tm_step blank) tm_ok tm_inv"
    by unfold_locales (use both in blast)+
qed


definition demo_full :: "i64 \<Rightarrow> full_tx" where
  "demo_full a = \<lparr>ft_transaction = demo_tx\<lparr>wt_totalAmount := a\<rparr>, ft_transfers = []\<rparr>"


text \<open>
  No reported transaction is lost. A transaction the wallet reports is cached
  unless its row is visible already; when the model is synchronized and the
  wallet open, it is visible at once, otherwise the visible rows stay as they are
  and the next tick of the timer or the end of the synchronization shows it.
\<close>

theorem created_transaction_is_shown:
  assumes "tm_inv s" "i \<le> length (tm_txs s)" "tm_rows s \<le> i" "fst (tm_step blank (TmCreated True i x) s) = t"
  shows "map_of (tm_txs t) i = Some x \<and>
    (tm_synchronized s \<longrightarrow> i < tm_rows t) \<and>
    (\<not> tm_synchronized s \<longrightarrow>
       tm_rows t = tm_rows s \<and> i < tm_rows (fst (tm_step blank (TmSynchronized True) t)) \<and>
       (\<forall>n. tm_timer t = Some n \<longrightarrow> i < tm_rows (fst (tm_step blank (TmTimer True n) t))))"
proof -
  let ?u = "s\<lparr>tm_txs := AList.update i x (tm_txs s)\<rparr>"
  have u: "tm_inv ?u" "i < length (tm_txs ?u)" "map_of (tm_txs ?u) i = Some x" "tm_rows ?u \<le> i"
    using assms(1-3) tm_inv_put [of s i x] indexed_update [of "tm_txs s" i x]
    by (auto simp: tm_inv_def AList.update_conv')
  have full: "i < tm_rows (fst (showAllCachedTransactions True v)) \<and> tm_txs (fst (showAllCachedTransactions True v)) = tm_txs v"
    if "tm_inv v" "tm_txs v = tm_txs ?u" for v
    using show_all_result [OF that(1), of True] that(2) u(2) by (simp add: case_prod_beta)
  show ?thesis
  proof (cases "tm_synchronized s")
    case True
    then have "t = fst (showAllCachedTransactions True ?u)"
      using assms(3,4) by (auto simp: tm_externalTransactionCreated_def)
    then show ?thesis
      using full [of ?u] u True by simp
  next
    case False
    then have t: "t = ?u"
      using assms(3,4) by (auto simp: tm_externalTransactionCreated_def)
    have "i < tm_rows (fst (tm_step blank (TmSynchronized True) ?u))"
      using full [of "?u\<lparr>tm_timer := None, tm_synchronized := True\<rparr>"] u(1) False
      by (simp add: tm_synchronizationCompleted_def ensureSyncTimerStopped_def)
    moreover have "tm_last ?u \<noteq> tm_size_pred ?u"
      using u(2,4) by (auto simp: tm_size_pred_def tm_rows_def)
    then have "i < tm_rows (fst (tm_step blank (TmTimer True n) ?u))" if "tm_timer ?u = Some n" for n
      using full [of ?u] u(1) that by (simp add: tm_timerEvent_def)
    ultimately show ?thesis
      using False u(3) unfolding t by simp
  qed
qed

theorem created_transaction_is_shown_witness:
  "map_of (tm_txs (fst (tm_step (demo_full 0) (TmCreated True 0 (demo_full 6)) tm_new))) 0 = Some (demo_full 6)"
proof -
  have "tm_inv tm_new" "tm_rows tm_new \<le> 0"
    by (simp_all add: tm_inv_def tm_new_def tm_rows_def)
  from created_transaction_is_shown [OF this(1) _ this(2) refl] show ?thesis
    by simp
qed


section \<open>Cells of the transaction list\<close>

datatype tm_column =
    TM_NEW_TRANSACTION | TM_TIME | TM_HASH | TM_AMOUNT | TM_TRANSFERS | TM_PAYMENT_ID | TM_TYPE | TM_HEIGHT | TM_FEE
  | TM_STATE | TM_SHOW_TRANSFERS

datatype tm_role =
    TMR_TIME | TMR_RAW_TIME | TMR_TYPE | TMR_HASH | TMR_TRANSFER_COUNT | TMR_AMOUNT | TMR_PAYMENT_ID
  | TMR_TRANSACTION_ID | TMR_HEIGHT | TMR_FEE | TMR_NUMBER_OF_CONFIRMATIONS | TMR_COLUMN | TMR_ROW | TMR_STATE
  | TMR_SHOW_TRANSFERS

definition tm_columns :: "tm_column list" where
  "tm_columns = [TM_NEW_TRANSACTION, TM_TIME, TM_HASH, TM_AMOUNT, TM_TRANSFERS, TM_PAYMENT_ID, TM_TYPE, TM_HEIGHT,
     TM_FEE, TM_STATE, TM_SHOW_TRANSFERS]"

definition tm_section :: "tm_column \<Rightarrow> int" where
  "tm_section c = (case find_index (\<lambda>d. d = c) tm_columns of None \<Rightarrow> - 1 | Some i \<Rightarrow> int i)"

text \<open>
  What the cells depend on besides the state: the height that marks an
  unconfirmed transaction (a constant of the library), the count of known
  blocks, the reader of payment ids and the formats of amounts and times.
\<close>

record tm_env =
  te_unconfirmed :: u32
  te_known :: u32
  te_paymentId :: "string \<Rightarrow> string"
  te_amount :: "i64 \<Rightarrow> string"
  te_time :: "i64 \<Rightarrow> string"
  te_csv_time :: "i64 \<Rightarrow> string"
  te_hex :: "string \<Rightarrow> string"
  te_blank :: full_tx

definition tm_confirmations :: "tm_env \<Rightarrow> full_tx \<Rightarrow> u32" where
  "tm_confirmations E x =
     (if wt_blockHeight (ft_transaction x) = te_unconfirmed E then 0
      else te_known E - wt_blockHeight (ft_transaction x))"

definition tm_height :: "tm_env \<Rightarrow> full_tx \<Rightarrow> u32" where
  "tm_height E x =
     (if wt_blockHeight (ft_transaction x) = te_unconfirmed E then 0 else wt_blockHeight (ft_transaction x))"

fun state_number :: "tx_state \<Rightarrow> int" where
  "state_number TX_SUCCEEDED = 0"
| "state_number TX_FAILED = 1"
| "state_number TX_CANCELLED = 2"
| "state_number TX_CREATED = 3"
| "state_number TX_DELETED = 4"

fun type_number :: "tx_type \<Rightarrow> int" where
  "type_number MINED = 0"
| "type_number INPUT = 1"
| "type_number OUTPUT = 2"
| "type_number DONATION = 3"

definition tm_transaction :: "tm_env \<Rightarrow> tm_state \<Rightarrow> nat \<Rightarrow> full_tx" where
  "tm_transaction E s row = (case map_of (tm_txs s) row of None \<Rightarrow> te_blank E | Some x \<Rightarrow> x)"

fun tm_user_value :: "tm_env \<Rightarrow> full_tx \<Rightarrow> bool list \<Rightarrow> nat \<Rightarrow> tm_column \<Rightarrow> tm_role \<Rightarrow> qvariant option" where
  "tm_user_value E x sh row col TMR_TIME =
     Some (if wt_timestamp (ft_transaction x) > 0 then QDate (wt_timestamp (ft_transaction x)) else QNullDate)"
| "tm_user_value E x sh row col TMR_RAW_TIME = Some (QU64 (wt_timestamp (ft_transaction x)))"
| "tm_user_value E x sh row col TMR_TYPE = Some (QInt (type_number (getTransactionType x)))"
| "tm_user_value E x sh row col TMR_HASH = Some (QBytes (wt_hash (ft_transaction x)))"
| "tm_user_value E x sh row col TMR_TRANSFER_COUNT = Some (QInt (int (length (ft_transfers x))))"
| "tm_user_value E x sh row col TMR_AMOUNT = Some (QInt (sint (wt_totalAmount (ft_transaction x))))"
| "tm_user_value E x sh row col TMR_PAYMENT_ID = Some (QStr (te_paymentId E (wt_extra (ft_transaction x))))"
| "tm_user_value E x sh row col TMR_TRANSACTION_ID = Some (QInt (int row))"
| "tm_user_value E x sh row col TMR_HEIGHT = Some (QU32 (tm_height E x))"
| "tm_user_value E x sh row col TMR_FEE = Some (QInt (sint (wt_fee (ft_transaction x))))"
| "tm_user_value E x sh row col TMR_NUMBER_OF_CONFIRMATIONS = Some (QU32 (tm_confirmations E x))"
| "tm_user_value E x sh row col TMR_COLUMN = Some (QInt (tm_section col))"
| "tm_user_value E x sh row col TMR_ROW = Some (QInt (int row))"
| "tm_user_value E x sh row col TMR_STATE = Some (QInt (state_number (wt_state (ft_transaction x))))"
| "tm_user_value E x sh row col TMR_SHOW_TRANSFERS = (if row < length sh then Some (QBool (sh ! row)) else None)"

definition tm_getUserRolesData :: "tm_env \<Rightarrow> tm_state \<Rightarrow> nat \<Rightarrow> tm_column \<Rightarrow> tm_role \<Rightarrow> qvariant option" where
  "tm_getUserRolesData E s row col role = tm_user_value E (tm_transaction E s row) (tm_show s) row col role"

text \<open>The text of the state column and its icon, by the number of confirmations.\<close>

definition state_text :: "tx_state \<Rightarrow> u32 \<Rightarrow> string" where
  "state_text st n =
     (if st = TX_FAILED then ''Failed''
      else if st = TX_CANCELLED then ''Cancelled''
      else dec (unat n) @ ''/'' @ (if n < 1 then ''unconfirmed'' else ''confirmed''))"

definition state_icon :: "tx_state \<Rightarrow> tx_type \<Rightarrow> u32 \<Rightarrow> string" where
  "state_icon st ty n =
     (if st = TX_FAILED then '':icons/out_failed''
      else '':icons/'' @ getIconPrefix ty @
        (if n = 0 then ''unconfirmed''
         else if n < 2 then ''clock1''
         else if n < 4 then ''clock2''
         else if n < 6 then ''clock3''
         else if n < 8 then ''clock4''
         else if n < 10 then ''clock5''
         else ''confirmed''))"

fun tm_display_value :: "tm_env \<Rightarrow> full_tx \<Rightarrow> bool list \<Rightarrow> nat \<Rightarrow> tm_column \<Rightarrow> qvariant option" where
  "tm_display_value E x sh row TM_STATE = Some (QStr (state_text (wt_state (ft_transaction x)) (tm_confirmations E x)))"
| "tm_display_value E x sh row TM_TIME =
     Some (QStr (if wt_timestamp (ft_transaction x) > 0 then te_time E (wt_timestamp (ft_transaction x)) else ''-''))"
| "tm_display_value E x sh row TM_HASH = Some (QBytes (te_hex E (wt_hash (ft_transaction x))))"
| "tm_display_value E x sh row TM_TRANSFERS = tm_user_value E x sh row TM_TRANSFERS TMR_TRANSFER_COUNT"
| "tm_display_value E x sh row TM_AMOUNT = Some (QStr (te_amount E (wt_totalAmount (ft_transaction x))))"
| "tm_display_value E x sh row TM_PAYMENT_ID = tm_user_value E x sh row TM_PAYMENT_ID TMR_PAYMENT_ID"
| "tm_display_value E x sh row TM_HEIGHT = Some (QStr (dec (unat (tm_height E x))))"
| "tm_display_value E x sh row TM_FEE = Some (QStr (te_amount E (wt_fee (ft_transaction x))))"
| "tm_display_value E x sh row TM_SHOW_TRANSFERS = tm_user_value E x sh row TM_SHOW_TRANSFERS TMR_SHOW_TRANSFERS"
| "tm_display_value E x sh row _ = Some QNull"

definition tm_getDisplayRoleData :: "tm_env \<Rightarrow> tm_state \<Rightarrow> nat \<Rightarrow> tm_column \<Rightarrow> qvariant option" where
  "tm_getDisplayRoleData E s row col = tm_display_value E (tm_transaction E s row) (tm_show s) row col"

definition tm_getDecorationRoleData :: "tm_env \<Rightarrow> tm_state \<Rightarrow> nat \<Rightarrow> tm_column \<Rightarrow> qvariant" where
  "tm_getDecorationRoleData E s row col =
     (if col = TM_STATE \<or> col = TM_AMOUNT
      then let x = tm_transaction E s row
           in QPixmap (state_icon (wt_state (ft_transaction x)) (getTransactionType x) (tm_confirmations E x))
      else QNull)"

fun tm_title :: "tm_column \<Rightarrow> qvariant" where
  "tm_title TM_STATE = QStr ''State''"
| "tm_title TM_TIME = QStr ''Date''"
| "tm_title TM_HASH = QStr ''Hash''"
| "tm_title TM_TRANSFERS = QStr ''Transfers''"
| "tm_title TM_AMOUNT = QStr ''Amount''"
| "tm_title TM_PAYMENT_ID = QStr ''Payment ID''"
| "tm_title TM_HEIGHT = QStr ''Height''"
| "tm_title TM_FEE = QStr ''Fee''"
| "tm_title _ = QNull"

text \<open>The header's own role for the column is UserRole + 11; its font is the size of the text.\<close>

definition tm_headerData :: "tm_column \<Rightarrow> bool \<Rightarrow> role \<Rightarrow> qvariant" where
  "tm_headerData col horizontal role =
     (if \<not> horizontal then QNull
      else if role = DisplayRole then tm_title col
      else if role = TextAlignmentRole then (if col = TM_TIME then AlignLeftV else AlignRightV)
      else if role = FontRole then QInt 11
      else if role = UserRole 11 then QInt (tm_section col)
      else QNull)"

definition tm_role_of :: "role \<Rightarrow> tm_role option" where
  "tm_role_of r =
     (case r of
        UserRole n \<Rightarrow>
          (if n < 15 then Some ([TMR_TIME, TMR_RAW_TIME, TMR_TYPE, TMR_HASH, TMR_TRANSFER_COUNT, TMR_AMOUNT,
             TMR_PAYMENT_ID, TMR_TRANSACTION_ID, TMR_HEIGHT, TMR_FEE, TMR_NUMBER_OF_CONFIRMATIONS, TMR_COLUMN,
             TMR_ROW, TMR_STATE, TMR_SHOW_TRANSFERS] ! n) else None)
      | _ \<Rightarrow> None)"

definition tm_data :: "tm_env \<Rightarrow> tm_state \<Rightarrow> nat \<Rightarrow> tm_column \<Rightarrow> role \<Rightarrow> qvariant option" where
  "tm_data E s row col role =
     (if role = DisplayRole \<or> role = EditRole then tm_getDisplayRoleData E s row col
      else if role = DecorationRole then Some (tm_getDecorationRoleData E s row col)
      else if role = TextAlignmentRole then Some (tm_headerData col True role)
      else if role = ToolTipRole then Some QNull
      else case tm_role_of role of None \<Rightarrow> Some QNull | Some r \<Rightarrow> tm_getUserRolesData E s row col r)"

text \<open>The transaction list as a table of comma separated quoted fields.\<close>

definition quoted :: "string \<Rightarrow> string" where
  "quoted x = CHR 0x22 # x @ [CHR 0x22]"

definition csv_line :: "string list \<Rightarrow> string" where
  "csv_line fs = concat (map (\<lambda>f. quoted f @ '','') (butlast fs)) @ quoted (last fs) @ [CHR 0x0A]"

definition csv_fields :: "tm_env \<Rightarrow> full_tx \<Rightarrow> string list" where
  "csv_fields E x =
     [state_text (wt_state (ft_transaction x)) (tm_confirmations E x),
      (if wt_timestamp (ft_transaction x) > 0 then te_csv_time E (wt_timestamp (ft_transaction x)) else []),
      te_amount E (wt_totalAmount (ft_transaction x)),
      te_amount E (wt_fee (ft_transaction x)),
      te_hex E (wt_hash (ft_transaction x)),
      dec (unat (tm_height E x)),
      dec (length (ft_transfers x)),
      te_paymentId E (wt_extra (ft_transaction x))]"

definition tm_toCsv :: "tm_env \<Rightarrow> tm_state \<Rightarrow> string" where
  "tm_toCsv E s =
     csv_line [''State'', ''Date'', ''Amount'', ''Fee'', ''Hash'', ''Height'', ''Transfers'', ''Payment ID'']
     @ concat (map (\<lambda>row. csv_line (csv_fields E (tm_transaction E s row))) [0 ..< tm_rows s])"

text \<open>The column of a proxy that shows a column of this model: the first that reports its section.\<close>

definition findProxyColumn :: "int list \<Rightarrow> int \<Rightarrow> int" where
  "findProxyColumn sections origin =
     (case find_index (\<lambda>c. c = origin) sections of None \<Rightarrow> - 1 | Some i \<Rightarrow> int i)"

lemma dec_zero: "dec 0 = ''0''"
  by code_simp

text \<open>
  The state column of a transaction that neither failed nor was cancelled
  shows its confirmations: none while it is unconfirmed, and known blocks minus
  its height when the node knows that height. When the node knows fewer blocks
  than the height, the 32-bit difference wraps and a huge number of
  confirmations is shown, with the icon of a confirmed transaction unless the
  difference is within ten of the limit.
\<close>

theorem state_column_counts_confirmations:
  assumes "wt_state (ft_transaction x) \<noteq> TX_FAILED" "wt_state (ft_transaction x) \<noteq> TX_CANCELLED"
  defines "h \<equiv> wt_blockHeight (ft_transaction x)"
  shows "(h = te_unconfirmed E \<longrightarrow> tm_display_value E x sh row TM_STATE = Some (QStr ''0/unconfirmed'')) \<and>
    (h \<noteq> te_unconfirmed E \<and> h < te_known E \<longrightarrow>
       tm_display_value E x sh row TM_STATE = Some (QStr (dec (unat (te_known E) - unat h) @ ''/confirmed''))) \<and>
    (h \<noteq> te_unconfirmed E \<and> te_known E < h \<longrightarrow>
       tm_display_value E x sh row TM_STATE =
         Some (QStr (dec (2 ^ 32 - (unat h - unat (te_known E))) @ ''/confirmed'')) \<and>
       (unat h - unat (te_known E) \<le> 2 ^ 32 - 10 \<longrightarrow>
          state_icon (wt_state (ft_transaction x)) ty (tm_confirmations E x) = '':icons/'' @ getIconPrefix ty @ ''confirmed''))"
proof (intro conjI impI; (elim conjE)?)
  assume "h = te_unconfirmed E"
  then show "tm_display_value E x sh row TM_STATE = Some (QStr ''0/unconfirmed'')"
    using assms by (simp add: tm_confirmations_def state_text_def dec_zero)
next
  assume ne: "h \<noteq> te_unconfirmed E" and lt: "h < te_known E"
  have "unat (te_known E - h) = unat (te_known E) - unat h"
    using lt by (intro unat_sub) simp
  moreover have "te_known E - h \<noteq> 0"
    using lt by auto
  ultimately show "tm_display_value E x sh row TM_STATE = Some (QStr (dec (unat (te_known E) - unat h) @ ''/confirmed''))"
    using assms ne by (simp add: tm_confirmations_def state_text_def)
next
  assume ne: "h \<noteq> te_unconfirmed E" and gt: "te_known E < h"
  then have u: "unat (te_known E - h) = 2 ^ 32 - (unat h - unat (te_known E))"
    by (auto simp: unat_sub_if_size word_less_nat_alt word_size)
  have nz: "te_known E - h \<noteq> 0"
    using gt by auto
  show "tm_display_value E x sh row TM_STATE = Some (QStr (dec (2 ^ 32 - (unat h - unat (te_known E))) @ ''/confirmed''))"
    using assms ne nz u by (simp add: tm_confirmations_def state_text_def)
  assume "unat h - unat (te_known E) \<le> 2 ^ 32 - 10"
  then have "10 \<le> unat (te_known E - h)"
    unfolding u by simp
  then show "state_icon (wt_state (ft_transaction x)) ty (tm_confirmations E x) = '':icons/'' @ getIconPrefix ty @ ''confirmed''"
    using assms ne nz by (simp add: tm_confirmations_def state_icon_def word_less_nat_alt)
qed

definition demo_env :: "u32 \<Rightarrow> tm_env" where
  "demo_env known = \<lparr>te_unconfirmed = - 1, te_known = known, te_paymentId = (\<lambda>_. []), te_amount = formatAmount 12,
     te_time = (\<lambda>_. []), te_csv_time = (\<lambda>_. []), te_hex = (\<lambda>h. h), te_blank = demo_full 0\<rparr>"

theorem state_column_counts_confirmations_witness:
  "tm_display_value (demo_env 0) ((demo_full 5)\<lparr>ft_transaction := demo_tx\<lparr>wt_blockHeight := 7\<rparr>\<rparr>) [] 0 TM_STATE =
     Some (QStr (dec 4294967289 @ ''/confirmed''))"
proof -
  have "wt_state demo_tx = TX_SUCCEEDED"
    by (simp add: demo_tx_def)
  then show ?thesis
    using state_column_counts_confirmations [of "(demo_full 5)\<lparr>ft_transaction := demo_tx\<lparr>wt_blockHeight := 7\<rparr>\<rparr>" "demo_env 0" "[]" 0]
    by (simp add: demo_env_def)
qed


section \<open>The transfers of one transaction\<close>

text \<open>
  TransfersModel shows the transfers of the transaction at a row of the model
  above. It keeps nothing of its own: transfers is that transaction's list. An
  access past the list is None. The proof column's stamp is painted when the
  transfer's address is readable, it pays, and its transaction key is known.
\<close>

datatype tf_column = TF_ADDRESS | TF_AMOUNT | TF_PROOF

datatype tf_role = TFR_ADDRESS | TFR_AMOUNT | TFR_PROOF | TFR_TYPE | TFR_ICON | TFR_IS_DONATION

definition getTransferPixmap :: "wallet_transfer \<Rightarrow> string" where
  "getTransferPixmap f =
     (if tf_type f = TF_DONATION then '':icons/donation_confirmed''
      else if sint (tf_amount f) < 0 then '':icons/out_confirmed''
      else '':icons/inp_confirmed'')"

definition tf_rowCount :: "wallet_transfer list \<Rightarrow> nat" where
  "tf_rowCount transfers = length transfers"

definition tf_at :: "wallet_transfer list \<Rightarrow> nat \<Rightarrow> wallet_transfer option" where
  "tf_at transfers row = (if row < length transfers then Some (transfers ! row) else None)"

fun transfer_type_number :: "transfer_type \<Rightarrow> int" where
  "transfer_type_number TF_USUAL = 0"
| "transfer_type_number TF_DONATION = 1"
| "transfer_type_number TF_CHANGE = 2"

definition tf_getUserRole :: "wallet_transfer list \<Rightarrow> nat \<Rightarrow> tf_role option \<Rightarrow> qvariant option" where
  "tf_getUserRole transfers row role =
     map_option (\<lambda>f.
       case role of
         Some TFR_ADDRESS \<Rightarrow> QStr (tf_address f)
       | Some TFR_AMOUNT \<Rightarrow> QInt (sint (tf_amount f))
       | Some TFR_TYPE \<Rightarrow> QInt (transfer_type_number (tf_type f))
       | Some TFR_ICON \<Rightarrow> QPixmap (getTransferPixmap f)
       | Some TFR_IS_DONATION \<Rightarrow> QBool (tf_type f = TF_DONATION)
       | _ \<Rightarrow> QNull) (tf_at transfers row)"

definition tf_getDisplayRole :: "(i64 \<Rightarrow> string) \<Rightarrow> wallet_transfer list \<Rightarrow> nat \<Rightarrow> tf_column \<Rightarrow> qvariant option" where
  "tf_getDisplayRole amount transfers row col =
     (case col of
        TF_ADDRESS \<Rightarrow> tf_getUserRole transfers row (Some TFR_ADDRESS)
      | TF_AMOUNT \<Rightarrow> map_option (\<lambda>f. QStr (amount (tf_amount f))) (tf_at transfers row)
      | TF_PROOF \<Rightarrow> Some QNull)"

definition tf_getDecorationRole ::
  "(string \<Rightarrow> bool) \<Rightarrow> skey \<Rightarrow> wallet_transfer list \<Rightarrow> nat \<Rightarrow> tf_column \<Rightarrow> qvariant option" where
  "tf_getDecorationRole readable txKey transfers row col =
     (case col of
        TF_ADDRESS \<Rightarrow> Some QNull
      | TF_AMOUNT \<Rightarrow> map_option (\<lambda>f. QPixmap (getTransferPixmap f)) (tf_at transfers row)
      | TF_PROOF \<Rightarrow>
          map_option (\<lambda>f. QPixmap (if readable (tf_address f) \<and> sint (tf_amount f) > 0 \<and> txKey \<noteq> NULL_KEY
                                  then '':icons/stamp'' else [])) (tf_at transfers row))"

definition tf_headerData :: "tf_column \<Rightarrow> role \<Rightarrow> qvariant" where
  "tf_headerData col role =
     (if role = DisplayRole then
        QStr (case col of TF_ADDRESS \<Rightarrow> ''Address'' | TF_AMOUNT \<Rightarrow> ''Amount'' | TF_PROOF \<Rightarrow> ''Proof'')
      else if role = TextAlignmentRole then (if col = TF_PROOF then AlignLeftV else AlignRightV)
      else QNull)"

definition tf_data ::
  "(i64 \<Rightarrow> string) \<Rightarrow> (string \<Rightarrow> bool) \<Rightarrow> skey \<Rightarrow> wallet_transfer list \<Rightarrow> nat \<Rightarrow> tf_column \<Rightarrow> role \<Rightarrow> qvariant option" where
  "tf_data amount readable txKey transfers row col role =
     (case role of
        DisplayRole \<Rightarrow> tf_getDisplayRole amount transfers row col
      | DecorationRole \<Rightarrow> tf_getDecorationRole readable txKey transfers row col
      | TextAlignmentRole \<Rightarrow> Some (tf_headerData col role)
      | ToolTipRole \<Rightarrow> Some (if col = TF_ADDRESS \<or> col = TF_PROOF then QStr ''Click to copy'' else QNull)
      | UserRole n \<Rightarrow>
          tf_getUserRole transfers row
            (if n < 6 then Some ([TFR_ADDRESS, TFR_AMOUNT, TFR_PROOF, TFR_TYPE, TFR_ICON, TFR_IS_DONATION] ! n) else None)
      | _ \<Rightarrow> tf_getUserRole transfers row None)"

end
