(* ===== verification/NodeStateModel.thy ===== *)
theory NodeStateModel
  imports ItemModel AmountFormat
begin

text \<open>
  The one-row model of the node's state: NodeStateModel, with the format of
  hash rates. Every slot announces the cells it changes, so the model is
  interpreted as a row model without exception.
\<close>

section \<open>Hash rates\<close>

definition RATE_PREFIXES :: "string list" where
  "RATE_PREFIXES = [[], ''k'', ''M'', ''G'', ''T'', ''P'', ''E'', ''Z'', ''Y'']"

text \<open>The loop: the rate left, the two parts and the number of divisions.\<close>

function rate_loop :: "nat \<Rightarrow> nat \<Rightarrow> nat \<Rightarrow> nat \<Rightarrow> nat \<times> nat \<times> nat" where
  "rate_loop hr ip dp i =
     (if 1000 \<le> hr \<and> i < length RATE_PREFIXES
      then rate_loop (hr div 1000) (hr div 1000) (hr mod 1000) (i + 1)
      else (ip, dp, i))"
  by pat_completeness auto
termination
  by (relation "measure (\<lambda>(hr, _). hr)") auto

text \<open>None is the access past the list of prefixes.\<close>

definition formatHashRate :: "u64 \<Rightarrow> string option" where
  "formatHashRate w =
     (let (ip, dp, i) = rate_loop (unat w) (unat w) 0 0 in
      if i < length RATE_PREFIXES
      then Some (if dp > 0 then dec ip @ ''.'' @ rightJustified (dec dp) 3 (CHR ''0'') @ '' '' @ RATE_PREFIXES ! i @ ''H/s''
                 else dec ip @ '' '' @ RATE_PREFIXES ! i @ ''H/s'')
      else None)"

declare rate_loop.simps [simp del]

lemma rate_loop_spec:
  assumes "rate_loop hr ip dp i = (a, b, j)" "i + k \<le> 9" "hr < 1000 ^ (k + 1)" "i = 0 \<longrightarrow> dp = 0" "ip = hr" "dp < 1000"
  shows "i \<le> j \<and> j \<le> i + k \<and> a < 1000 \<and> b < 1000 \<and>
    (j = i \<longrightarrow> a = hr \<and> b = dp) \<and> (i < j \<longrightarrow> 0 < a \<and> a * 1000 + b = hr div 1000 ^ (j - i - 1))"
  using assms
proof (induction k arbitrary: hr ip dp i)
  case 0
  then have "rate_loop hr ip dp i = (ip, dp, i)"
    by (subst rate_loop.simps) simp
  then show ?case
    using 0 by simp
next
  case (Suc k)
  show ?case
  proof (cases "1000 \<le> hr")
    case False
    then have "rate_loop hr ip dp i = (ip, dp, i)"
      by (subst rate_loop.simps) simp
    then show ?thesis
      using False Suc.prems by simp
  next
    case True
    have len: "length RATE_PREFIXES = 9"
      by (simp add: RATE_PREFIXES_def)
    have "rate_loop hr ip dp i = rate_loop (hr div 1000) (hr div 1000) (hr mod 1000) (i + 1)"
      using True Suc.prems(2) by (subst rate_loop.simps) (simp add: len)
    moreover have "hr div 1000 < 1000 ^ (k + 1)"
      using Suc.prems(3) by (simp add: div_less_iff_less_mult mult.commute)
    ultimately have ih: "i + 1 \<le> j \<and> j \<le> i + 1 + k \<and> a < 1000 \<and> b < 1000 \<and>
        (j = i + 1 \<longrightarrow> a = hr div 1000 \<and> b = hr mod 1000) \<and>
        (i + 1 < j \<longrightarrow> 0 < a \<and> a * 1000 + b = hr div 1000 div 1000 ^ (j - (i + 1) - 1))"
      using Suc.IH [of "hr div 1000" "hr div 1000" "hr mod 1000" "i + 1"] Suc.prems by simp
    show ?thesis
    proof (cases "j = i + 1")
      case True
      then show ?thesis
        using ih \<open>1000 \<le> hr\<close> by (auto simp: div_greater_zero_iff)
    next
      case False
      with ih have "Suc (j - (i + 1) - 1) = j - i - 1"
        by arith
      then have "hr div 1000 div 1000 ^ (j - (i + 1) - 1) = hr div 1000 ^ (j - i - 1)"
        by (metis div_mult2_eq power_Suc)
      then show ?thesis
        using ih False by auto
    qed
  qed
qed

text \<open>
  The text of a hash rate always exists: the loop stops at the sixth prefix
  at the latest, so that the list of nine prefixes is never left. The number
  before the prefix has at most three digits, and with three decimals it is the
  rate in that unit, cut off after the third decimal.
\<close>

theorem formatHashRate_exact:
  "\<exists>ip dp i. i \<le> 6 \<and> ip < 1000 \<and> dp < 1000 \<and>
     (i = 0 \<longrightarrow> ip = unat w \<and> dp = 0) \<and>
     (0 < i \<longrightarrow> 0 < ip \<and> ip * 1000 + dp = unat w div 1000 ^ (i - 1)) \<and>
     formatHashRate w =
       Some (dec ip @ (if dp = 0 then [] else ''.'' @ rightJustified (dec dp) 3 (CHR ''0'')) @ '' '' @
             RATE_PREFIXES ! i @ ''H/s'')"
proof -
  obtain ip dp i where r: "rate_loop (unat w) (unat w) 0 0 = (ip, dp, i)"
    by (cases "rate_loop (unat w) (unat w) 0 0")
  have "unat w < 1000 ^ (6 + 1)"
    using unat_bound_64 [of w] by simp
  from rate_loop_spec [OF r _ this] have s: "i \<le> 6" "ip < 1000" "dp < 1000" "i = 0 \<longrightarrow> ip = unat w \<and> dp = 0"
    "0 < i \<longrightarrow> 0 < ip \<and> ip * 1000 + dp = unat w div 1000 ^ (i - 1)"
    by simp_all
  then have "i < length RATE_PREFIXES"
    by (simp add: RATE_PREFIXES_def)
  with s show ?thesis
    by (intro exI [of _ ip] exI [of _ dp] exI [of _ i]) (auto simp: formatHashRate_def r)
qed

theorem formatHashRate_exact_witness:
  "\<exists>ip dp i. i \<le> 6 \<and> ip < 1000 \<and> dp < 1000 \<and>
     formatHashRate 1234567 = Some (dec ip @ (if dp = 0 then [] else ''.'' @ rightJustified (dec dp) 3 (CHR ''0'')) @
       '' '' @ RATE_PREFIXES ! i @ ''H/s'')"
  using formatHashRate_exact [of 1234567] by blast


section \<open>The model\<close>

record header_info =
  hi_index :: u32
  hi_hash :: string
  hi_timestamp :: u64
  hi_difficulty :: u64

definition INVALID_BLOCK_COUNT :: u32 where "INVALID_BLOCK_COUNT = - 1"

text \<open>NodeType as its number: 0 is UNKNOWN.\<close>

record ns_state =
  ns_nodeType :: nat
  ns_connected :: bool
  ns_peerCount :: u64
  ns_knownBlockCount :: u32
  ns_last :: header_info

record node_info =
  ni_type :: nat
  ni_peers :: u64
  ni_known :: u32
  ni_last :: header_info

definition ns_new :: "node_info \<Rightarrow> ns_state" where
  "ns_new n = \<lparr>ns_nodeType = ni_type n, ns_connected = True, ns_peerCount = ni_peers n,
     ns_knownBlockCount = (if ni_known n = 0 then hi_index (ni_last n) + 1 else ni_known n), ns_last = ni_last n\<rparr>"

abbreviation (input) NS_NODE_TYPE :: nat where "NS_NODE_TYPE \<equiv> 0"
abbreviation (input) NS_PEER_COUNT :: nat where "NS_PEER_COUNT \<equiv> 1"
abbreviation (input) NS_CONNECTION_STATE :: nat where "NS_CONNECTION_STATE \<equiv> 2"
abbreviation (input) NS_LOCAL_BLOCK_COUNT :: nat where "NS_LOCAL_BLOCK_COUNT \<equiv> 3"
abbreviation (input) NS_KNOWN_BLOCK_COUNT :: nat where "NS_KNOWN_BLOCK_COUNT \<equiv> 4"
abbreviation (input) NS_TIMESTAMP :: nat where "NS_TIMESTAMP \<equiv> 5"
abbreviation (input) NS_DIFFICULTY :: nat where "NS_DIFFICULTY \<equiv> 6"
abbreviation (input) NS_HASHRATE :: nat where "NS_HASHRATE \<equiv> 7"

definition ns_columnCount :: nat where "ns_columnCount = 8"

definition ALL_COLUMNS :: ranges where "ALL_COLUMNS = [(0, ns_columnCount - 1)]"

definition ns_peerCountUpdated :: "u64 \<Rightarrow> ns_state \<Rightarrow> ns_state \<times> ranges" where
  "ns_peerCountUpdated n s =
     (if ns_peerCount s \<noteq> n then (s\<lparr>ns_peerCount := n\<rparr>, [(NS_PEER_COUNT, NS_PEER_COUNT)]) else (s, []))"

definition ns_localBlockchainUpdated :: "header_info \<Rightarrow> ns_state \<Rightarrow> ns_state \<times> ranges" where
  "ns_localBlockchainUpdated h s =
     (if hi_hash h \<noteq> hi_hash (ns_last s) then (s\<lparr>ns_last := h\<rparr>, ALL_COLUMNS) else (s, []))"

definition ns_lastKnownBlockHeightUpdated :: "u32 \<Rightarrow> ns_state \<Rightarrow> ns_state \<times> ranges" where
  "ns_lastKnownBlockHeightUpdated height s =
     (if ns_knownBlockCount s \<noteq> height + 1
      then (s\<lparr>ns_knownBlockCount := height + 1\<rparr>, [(NS_KNOWN_BLOCK_COUNT, NS_KNOWN_BLOCK_COUNT)]) else (s, []))"

definition ns_connectionStatusUpdated :: "bool \<Rightarrow> ns_state \<Rightarrow> ns_state \<times> ranges" where
  "ns_connectionStatusUpdated b s = (s\<lparr>ns_connected := b\<rparr>, [(NS_CONNECTION_STATE, NS_CONNECTION_STATE)])"

definition ns_initCompleted :: "int \<Rightarrow> node_info \<Rightarrow> ns_state \<Rightarrow> ns_state \<times> ranges" where
  "ns_initCompleted status n s =
     (if status = 0 then
        (s\<lparr>ns_nodeType := ni_type n, ns_peerCount := ni_peers n, ns_last := ni_last n, ns_knownBlockCount := ni_known n\<rparr>,
         ALL_COLUMNS)
      else (s, []))"

definition ns_reset :: "ns_state \<Rightarrow> ns_state" where
  "ns_reset s = s\<lparr>ns_nodeType := 0, ns_peerCount := 0, ns_knownBlockCount := INVALID_BLOCK_COUNT,
     ns_last := \<lparr>hi_index = 0, hi_hash = replicate 32 (CHR 0x00), hi_timestamp = 0, hi_difficulty = 0\<rparr>\<rparr>"

definition ns_deinitCompleted :: "ns_state \<Rightarrow> ns_state \<times> ranges" where
  "ns_deinitCompleted s = (ns_reset s, ALL_COLUMNS)"

datatype ns_event =
    NsPeers u64
  | NsLocal header_info
  | NsKnown u32
  | NsConnection bool
  | NsInit int node_info
  | NsDeinit

fun ns_step :: "ns_event \<Rightarrow> ns_state \<Rightarrow> ns_state \<times> ranges" where
  "ns_step (NsPeers n) s = ns_peerCountUpdated n s"
| "ns_step (NsLocal h) s = ns_localBlockchainUpdated h s"
| "ns_step (NsKnown h) s = ns_lastKnownBlockHeightUpdated h s"
| "ns_step (NsConnection b) s = ns_connectionStatusUpdated b s"
| "ns_step (NsInit status n) s = ns_initCompleted status n s"
| "ns_step NsDeinit s = ns_deinitCompleted s"

text \<open>
  The roles; node tells whether there is a node adapter, target is the
  currency's target time, by which a rate is divided (None for a zero one).
\<close>

datatype ns_role =
    NSR_NODE_TYPE | NSR_PEER_COUNT | NSR_CONNECTION_STATE | NSR_LOCAL_BLOCK_COUNT | NSR_KNOWN_BLOCK_COUNT
  | NSR_TIMESTAMP | NSR_DIFFICULTY | NSR_HASHRATE

definition ns_getUserRole :: "bool \<Rightarrow> u64 \<Rightarrow> ns_state \<Rightarrow> ns_role \<Rightarrow> qvariant option" where
  "ns_getUserRole node target s role =
     (if \<not> node then Some QNull
      else case role of
          NSR_NODE_TYPE \<Rightarrow> Some (QInt (int (ns_nodeType s)))
        | NSR_PEER_COUNT \<Rightarrow> Some (QU64 (ns_peerCount s))
        | NSR_LOCAL_BLOCK_COUNT \<Rightarrow> Some (QU32 (hi_index (ns_last s) + 1))
        | NSR_KNOWN_BLOCK_COUNT \<Rightarrow> Some (QU32 (ns_knownBlockCount s))
        | NSR_TIMESTAMP \<Rightarrow> Some (QU64 (hi_timestamp (ns_last s)))
        | NSR_DIFFICULTY \<Rightarrow> Some (QU64 (hi_difficulty (ns_last s)))
        | NSR_HASHRATE \<Rightarrow> (if target = 0 then None else Some (QU64 (hi_difficulty (ns_last s) div target)))
        | NSR_CONNECTION_STATE \<Rightarrow> Some (QBool (ns_connected s)))"

definition ns_getDisplayRole :: "(i64 \<Rightarrow> string) \<Rightarrow> bool \<Rightarrow> u64 \<Rightarrow> ns_state \<Rightarrow> nat \<Rightarrow> qvariant option" where
  "ns_getDisplayRole time node target s c =
     (if c = NS_CONNECTION_STATE then Some (QStr (if ns_connected s then ''connected'' else ''disconnected''))
      else if c = NS_NODE_TYPE then ns_getUserRole node target s NSR_NODE_TYPE
      else if c = NS_PEER_COUNT then
        Some (QStr (if ns_peerCount s = 0 then ''Disconnected'' else if ns_peerCount s = 1 then ''1 peer''
                    else dec (unat (ns_peerCount s)) @ '' peers''))
      else if c = NS_LOCAL_BLOCK_COUNT then Some (QStr (dec (unat (hi_index (ns_last s) + 1))))
      else if c = NS_KNOWN_BLOCK_COUNT then Some (QStr (dec (unat (ns_knownBlockCount s))))
      else if c = NS_TIMESTAMP then
        Some (QStr (if hi_timestamp (ns_last s) = 0 then ''Unknown'' else time (hi_timestamp (ns_last s))))
      else if c = NS_DIFFICULTY then Some (QStr (dec (unat (hi_difficulty (ns_last s)))))
      else if c = NS_HASHRATE then
        (if target = 0 then None else map_option QStr (formatHashRate (hi_difficulty (ns_last s) div target)))
      else Some QNull)"

lemma announced_all: "announced_in c ALL_COLUMNS \<longleftrightarrow> c < 8"
  by (auto simp: announced_in_def ALL_COLUMNS_def ns_columnCount_def)

lemma announced_one: "announced_in c [(d, d)] \<longleftrightarrow> c = d" "\<not> announced_in c []"
  by (auto simp: announced_in_def)

interpretation nsm: row_model "ns_getDisplayRole time node target" ns_step "\<lambda>_. True" "\<lambda>_. True" for time node target
proof
  fix e c s
  assume "\<not> announced_in c (snd (ns_step e s))"
  then show "ns_getDisplayRole time node target (fst (ns_step e s)) c = ns_getDisplayRole time node target s c"
    by (cases e)
      (auto simp: ns_peerCountUpdated_def ns_localBlockchainUpdated_def ns_lastKnownBlockHeightUpdated_def
        ns_connectionStatusUpdated_def ns_initCompleted_def ns_deinitCompleted_def announced_all announced_one
        ns_getDisplayRole_def ns_getUserRole_def split: if_splits)
qed

text \<open>
  A view of the node state that reads again only the cells the model
  announces shows the model's cells after any sequence of node events.
\<close>

theorem node_state_view_fresh:
  assumes "run_view (ns_getDisplayRole time node target) ns_step es (s, ns_getDisplayRole time node target s) = (t, view)"
  shows "view c = ns_getDisplayRole time node target t c"
  using nsm.view_fresh [of es "(s, ns_getDisplayRole time node target s)" time node target c] assms by simp

definition demo_node :: node_info where
  "demo_node = \<lparr>ni_type = 1, ni_peers = 8, ni_known = 100,
     ni_last = \<lparr>hi_index = 99, hi_hash = ''h'', hi_timestamp = 0, hi_difficulty = 2400\<rparr>\<rparr>"

theorem node_state_view_fresh_witness:
  "\<exists>t view. run_view (ns_getDisplayRole (\<lambda>_. []) True 240) ns_step [NsPeers 1, NsKnown 120]
       (ns_new demo_node, ns_getDisplayRole (\<lambda>_. []) True 240 (ns_new demo_node)) = (t, view) \<and>
     view 1 = ns_getDisplayRole (\<lambda>_. []) True 240 t 1"
  using node_state_view_fresh
  by (metis surj_pair)

end
