(* ===== verification/WalletStateModel.thy ===== *)
theory WalletStateModel
  imports ItemModel AmountFormat
begin

text \<open>
  The one-row model of the wallet's state: WalletStateModel.

  It is interpreted as a row model twice: on all columns for the events that
  announce every change, and on the columns whose changes are announced by
  every event. The three other columns are the subject of a theorem of their own.
\<close>

definition SYNC_DISTANCE :: u32 where "SYNC_DISTANCE = 5"

record ws_state =
  ws_isOpen :: bool
  ws_isEncrypted :: bool
  ws_address :: string
  ws_actual :: u64
  ws_pending :: u64
  ws_total :: u64
  ws_totalShort :: u64
  ws_currentHeight :: u32
  ws_totalHeight :: u32
  ws_isSynchronized :: bool

abbreviation (input) WS_IS_OPEN :: nat where "WS_IS_OPEN \<equiv> 0"
abbreviation (input) WS_IS_CLOSED :: nat where "WS_IS_CLOSED \<equiv> 1"
abbreviation (input) WS_IS_ENCRYPTED :: nat where "WS_IS_ENCRYPTED \<equiv> 2"
abbreviation (input) WS_IS_NOT_ENCRYPTED :: nat where "WS_IS_NOT_ENCRYPTED \<equiv> 3"
abbreviation (input) WS_ADDRESS :: nat where "WS_ADDRESS \<equiv> 4"
abbreviation (input) WS_ACTUAL_BALANCE :: nat where "WS_ACTUAL_BALANCE \<equiv> 5"
abbreviation (input) WS_PENDING_BALANCE :: nat where "WS_PENDING_BALANCE \<equiv> 6"
abbreviation (input) WS_TOTAL_BALANCE :: nat where "WS_TOTAL_BALANCE \<equiv> 7"
abbreviation (input) WS_IS_SYNCHRONIZED :: nat where "WS_IS_SYNCHRONIZED \<equiv> 8"
abbreviation (input) WS_IS_NOT_SYNCHRONIZED :: nat where "WS_IS_NOT_SYNCHRONIZED \<equiv> 9"
abbreviation (input) WS_ABOUT_TO_BE_SYNCHRONIZED :: nat where "WS_ABOUT_TO_BE_SYNCHRONIZED \<equiv> 10"
abbreviation (input) WS_TOTAL_SHORT_BALANCE :: nat where "WS_TOTAL_SHORT_BALANCE \<equiv> 11"

definition ws_columnCount :: nat where "ws_columnCount = 12"

definition WS_ALL :: ranges where "WS_ALL = [(0, ws_columnCount - 1)]"

text \<open>What the wallet adapter answers when the model asks.\<close>

record wallet_info =
  wi_open :: bool
  wi_encrypted :: bool
  wi_address :: string
  wi_actual :: u64
  wi_pending :: u64

definition ws_new :: "wallet_info \<Rightarrow> ws_state" where
  "ws_new w = \<lparr>ws_isOpen = wi_open w, ws_isEncrypted = (if wi_open w then wi_encrypted w else False),
     ws_address = (if wi_open w then wi_address w else []), ws_actual = 0, ws_pending = 0, ws_total = 0,
     ws_totalShort = 0, ws_currentHeight = 0, ws_totalHeight = 0, ws_isSynchronized = False\<rparr>"

text \<open>The total balance cut to the four decimals of the short format; cur parses an amount, ndp is the number of decimals.\<close>

definition shortened :: "(string \<Rightarrow> u64 option) \<Rightarrow> nat \<Rightarrow> u64 \<Rightarrow> u64" where
  "shortened cur ndp n = parseAmount cur (formatAmountToShort ndp n)"

definition ws_walletOpened :: "(u64 \<Rightarrow> u64) \<Rightarrow> wallet_info \<Rightarrow> ws_state \<Rightarrow> ws_state \<times> ranges" where
  "ws_walletOpened short w s =
     (s\<lparr>ws_isOpen := True, ws_isEncrypted := wi_encrypted w, ws_address := wi_address w, ws_actual := wi_actual w,
        ws_pending := wi_pending w, ws_total := wi_actual w + wi_pending w,
        ws_totalShort := short (wi_actual w + wi_pending w)\<rparr>,
      WS_ALL @ [(WS_IS_SYNCHRONIZED, WS_IS_SYNCHRONIZED), (WS_ABOUT_TO_BE_SYNCHRONIZED, WS_ABOUT_TO_BE_SYNCHRONIZED)])"

definition ws_walletClosed :: "ws_state \<Rightarrow> ws_state \<times> ranges" where
  "ws_walletClosed s =
     (s\<lparr>ws_isOpen := False, ws_isEncrypted := False, ws_address := [], ws_actual := 0, ws_pending := 0, ws_total := 0,
        ws_totalShort := 0, ws_currentHeight := 0, ws_totalHeight := 0, ws_isSynchronized := False\<rparr>, WS_ALL)"

definition ws_passwordChanged :: "wallet_info \<Rightarrow> ws_state \<Rightarrow> ws_state \<times> ranges" where
  "ws_passwordChanged w s = (s\<lparr>ws_isEncrypted := wi_encrypted w\<rparr>, [(WS_IS_ENCRYPTED, WS_IS_ENCRYPTED)])"

definition ws_synchronizationProgressUpdated :: "u32 \<Rightarrow> u32 \<Rightarrow> ws_state \<Rightarrow> ws_state \<times> ranges" where
  "ws_synchronizationProgressUpdated current tot s =
     (s\<lparr>ws_currentHeight := current, ws_totalHeight := tot, ws_isSynchronized := False\<rparr>,
      (if ws_isSynchronized s then [(WS_IS_SYNCHRONIZED, WS_IS_SYNCHRONIZED)] else []) @
      (if tot - current = SYNC_DISTANCE then [(WS_ABOUT_TO_BE_SYNCHRONIZED, WS_ABOUT_TO_BE_SYNCHRONIZED)] else []))"

definition ws_synchronizationCompleted :: "ws_state \<Rightarrow> ws_state \<times> ranges" where
  "ws_synchronizationCompleted s =
     (s\<lparr>ws_isSynchronized := (ws_currentHeight s = ws_totalHeight s)\<rparr>,
      [(WS_ABOUT_TO_BE_SYNCHRONIZED, WS_ABOUT_TO_BE_SYNCHRONIZED), (WS_IS_SYNCHRONIZED, WS_IS_SYNCHRONIZED)])"

definition ws_balanceUpdated :: "(u64 \<Rightarrow> u64) \<Rightarrow> u64 \<Rightarrow> u64 \<Rightarrow> ws_state \<Rightarrow> ws_state \<times> ranges" where
  "ws_balanceUpdated short actual pending s =
     (s\<lparr>ws_actual := actual, ws_pending := pending, ws_total := actual + pending,
        ws_totalShort := short (actual + pending)\<rparr>, WS_ALL)"

datatype ws_event =
    WsOpened wallet_info
  | WsClosed
  | WsPassword wallet_info
  | WsProgress u32 u32
  | WsCompleted
  | WsBalance u64 u64

fun ws_step :: "(u64 \<Rightarrow> u64) \<Rightarrow> ws_event \<Rightarrow> ws_state \<Rightarrow> ws_state \<times> ranges" where
  "ws_step short (WsOpened w) s = ws_walletOpened short w s"
| "ws_step short WsClosed s = ws_walletClosed s"
| "ws_step short (WsPassword w) s = ws_passwordChanged w s"
| "ws_step short (WsProgress c t) s = ws_synchronizationProgressUpdated c t s"
| "ws_step short WsCompleted s = ws_synchronizationCompleted s"
| "ws_step short (WsBalance a p) s = ws_balanceUpdated short a p s"


section \<open>Cells\<close>

datatype ws_role =
    WSR_IS_OPEN | WSR_IS_ENCRYPTED | WSR_ADDRESS | WSR_ACTUAL | WSR_PENDING | WSR_TOTAL | WSR_IS_SYNCHRONIZED
  | WSR_ABOUT_TO_BE_SYNCHRONIZED | WSR_TOTAL_SHORT

fun ws_getUserRole :: "ws_state \<Rightarrow> ws_role \<Rightarrow> qvariant" where
  "ws_getUserRole s WSR_IS_OPEN = QBool (ws_isOpen s)"
| "ws_getUserRole s WSR_IS_ENCRYPTED = QBool (ws_isEncrypted s)"
| "ws_getUserRole s WSR_ADDRESS = QStr (ws_address s)"
| "ws_getUserRole s WSR_ACTUAL = QU64 (ws_actual s)"
| "ws_getUserRole s WSR_PENDING = QU64 (ws_pending s)"
| "ws_getUserRole s WSR_TOTAL = QU64 (ws_total s)"
| "ws_getUserRole s WSR_TOTAL_SHORT = QU64 (ws_totalShort s)"
| "ws_getUserRole s WSR_IS_SYNCHRONIZED = QBool (ws_isSynchronized s)"
| "ws_getUserRole s WSR_ABOUT_TO_BE_SYNCHRONIZED =
     QBool (ws_isSynchronized s \<or>
       (ws_totalHeight s > 0 \<and>
        (ws_totalHeight s - ws_currentHeight s < 5 \<or> ws_totalHeight s < ws_currentHeight s)))"

definition ws_getDisplayRole :: "nat \<Rightarrow> ws_state \<Rightarrow> nat \<Rightarrow> qvariant" where
  "ws_getDisplayRole ndp s c =
     (if c = WS_IS_OPEN then ws_getUserRole s WSR_IS_OPEN
      else if c = WS_IS_CLOSED then QBool (\<not> ws_isOpen s)
      else if c = WS_IS_ENCRYPTED then ws_getUserRole s WSR_IS_ENCRYPTED
      else if c = WS_IS_NOT_ENCRYPTED then QBool (\<not> ws_isEncrypted s)
      else if c = WS_ADDRESS then ws_getUserRole s WSR_ADDRESS
      else if c = WS_ACTUAL_BALANCE then QStr (formatUnsignedAmount ndp (ws_actual s))
      else if c = WS_PENDING_BALANCE then QStr (formatUnsignedAmount ndp (ws_pending s))
      else if c = WS_TOTAL_BALANCE then QStr (formatUnsignedAmount ndp (ws_total s))
      else if c = WS_TOTAL_SHORT_BALANCE then QStr (formatUnsignedAmount ndp (ws_totalShort s))
      else if c = WS_IS_SYNCHRONIZED then ws_getUserRole s WSR_IS_SYNCHRONIZED
      else if c = WS_IS_NOT_SYNCHRONIZED then QBool (\<not> ws_isSynchronized s)
      else if c = WS_ABOUT_TO_BE_SYNCHRONIZED then ws_getUserRole s WSR_ABOUT_TO_BE_SYNCHRONIZED
      else QNull)"

definition ws_headerData :: "nat \<Rightarrow> role \<Rightarrow> qvariant" where
  "ws_headerData c role =
     (if role \<noteq> DisplayRole then QNull
      else if c = WS_IS_OPEN then QStr ''Open''
      else if c = WS_IS_CLOSED then QStr ''Closed''
      else if c = WS_IS_ENCRYPTED then QStr ''Encrypted''
      else if c = WS_IS_NOT_ENCRYPTED then QStr ''Not encrypted''
      else if c = WS_ADDRESS then QStr ''Address''
      else if c = WS_ACTUAL_BALANCE then QStr ''Actual balance''
      else if c = WS_PENDING_BALANCE then QStr ''Locked amount''
      else if c = WS_TOTAL_BALANCE then QStr ''Total balance''
      else if c = WS_TOTAL_SHORT_BALANCE then QStr ''Total balance''
      else QNull)"


section \<open>Which cells a view can rely on\<close>

definition unannounced_columns :: "nat list" where
  "unannounced_columns = [WS_IS_NOT_ENCRYPTED, WS_IS_NOT_SYNCHRONIZED, WS_ABOUT_TO_BE_SYNCHRONIZED]"

fun announces_all :: "ws_event \<Rightarrow> bool" where
  "announces_all (WsPassword w) = False"
| "announces_all (WsProgress c t) = False"
| "announces_all WsCompleted = False"
| "announces_all _ = True"

lemmas ws_defs = ws_walletOpened_def ws_walletClosed_def ws_passwordChanged_def
  ws_synchronizationProgressUpdated_def ws_synchronizationCompleted_def ws_balanceUpdated_def

interpretation wsm: row_model "ws_getDisplayRole ndp" "ws_step short" "\<lambda>c. c \<notin> set unannounced_columns" "\<lambda>_. True"
  for ndp short
proof
  fix e c s
  assume "c \<notin> set unannounced_columns" "\<not> announced_in c (snd (ws_step short e s))"
  then show "ws_getDisplayRole ndp (fst (ws_step short e s)) c = ws_getDisplayRole ndp s c"
    by (cases e) (auto simp: ws_defs announced_in_def WS_ALL_def ws_columnCount_def unannounced_columns_def
        ws_getDisplayRole_def split: if_splits)
qed

interpretation wsm_all: row_model "ws_getDisplayRole ndp" "ws_step short" "\<lambda>_. True" announces_all for ndp short
proof
  fix e c s
  assume "announces_all e" "\<not> announced_in c (snd (ws_step short e s))"
  then show "ws_getDisplayRole ndp (fst (ws_step short e s)) c = ws_getDisplayRole ndp s c"
    by (cases e) (auto simp: ws_defs announced_in_def WS_ALL_def ws_columnCount_def ws_getDisplayRole_def)
qed

text \<open>
  A view of the wallet state that reads again only announced cells shows
  the model's cells, in every column but three after any events, and in all
  columns as long as the wallet is only opened, closed and paid.
\<close>

theorem wallet_state_view_fresh:
  assumes "run_view (ws_getDisplayRole ndp) (ws_step short) es (s, ws_getDisplayRole ndp s) = (t, view)"
  shows "(c \<notin> set unannounced_columns \<longrightarrow> view c = ws_getDisplayRole ndp t c) \<and>
    (list_all announces_all es \<longrightarrow> view c = ws_getDisplayRole ndp t c)"
  using wsm.view_fresh [where es = es and sv = "(s, ws_getDisplayRole ndp s)" and c = c and ndp = ndp and short = short]
    wsm_all.view_fresh [where es = es and sv = "(s, ws_getDisplayRole ndp s)" and c = c and ndp = ndp and short = short] assms
  by (auto simp: list_all_iff)

definition demo_wallet :: wallet_info where
  "demo_wallet = \<lparr>wi_open = True, wi_encrypted = True, wi_address = ''K'', wi_actual = 700, wi_pending = 50\<rparr>"

theorem wallet_state_view_fresh_witness:
  "\<exists>t view. run_view (ws_getDisplayRole 12) (ws_step (\<lambda>n. n)) [WsOpened demo_wallet, WsProgress 1 9, WsCompleted]
       (ws_new demo_wallet, ws_getDisplayRole 12 (ws_new demo_wallet)) = (t, view) \<and>
     view WS_TOTAL_BALANCE = ws_getDisplayRole 12 t WS_TOTAL_BALANCE"
proof -
  obtain t view where r: "run_view (ws_getDisplayRole 12) (ws_step (\<lambda>n. n)) [WsOpened demo_wallet, WsProgress 1 9, WsCompleted]
       (ws_new demo_wallet, ws_getDisplayRole 12 (ws_new demo_wallet)) = (t, view)"
    by (metis surj_pair)
  from wallet_state_view_fresh [OF this, of WS_TOTAL_BALANCE] r show ?thesis
    by (auto simp: unannounced_columns_def)
qed

text \<open>
  The three other columns change without announcement: the negated encrypted
  column when a password change encrypts the wallet, the negated synchronized
  column when the synchronization completes, and the column for an almost
  finished synchronization when the distance to the top falls below five blocks.
  It is announced at a distance of exactly five, when it still reads false.
\<close>

theorem unannounced_cells_change:
  "(\<not> ws_isEncrypted s \<and> wi_encrypted w \<longrightarrow>
      ws_getDisplayRole ndp s WS_IS_NOT_ENCRYPTED = QBool True \<and>
      ws_getDisplayRole ndp (fst (ws_step short (WsPassword w) s)) WS_IS_NOT_ENCRYPTED = QBool False \<and>
      \<not> announced_in WS_IS_NOT_ENCRYPTED (snd (ws_step short (WsPassword w) s))) \<and>
   (\<not> ws_isSynchronized s \<and> ws_currentHeight s = ws_totalHeight s \<longrightarrow>
      ws_getDisplayRole ndp s WS_IS_NOT_SYNCHRONIZED = QBool True \<and>
      ws_getDisplayRole ndp (fst (ws_step short WsCompleted s)) WS_IS_NOT_SYNCHRONIZED = QBool False \<and>
      \<not> announced_in WS_IS_NOT_SYNCHRONIZED (snd (ws_step short WsCompleted s))) \<and>
   (0 < tot \<and> tot - current < 5 \<longrightarrow>
      ws_getDisplayRole ndp (fst (ws_step short (WsProgress current tot) s)) WS_ABOUT_TO_BE_SYNCHRONIZED = QBool True \<and>
      \<not> announced_in WS_ABOUT_TO_BE_SYNCHRONIZED (snd (ws_step short (WsProgress current tot) s))) \<and>
   (current \<le> tot \<and> tot - current = 5 \<longrightarrow>
      ws_getDisplayRole ndp (fst (ws_step short (WsProgress current tot) s)) WS_ABOUT_TO_BE_SYNCHRONIZED = QBool False \<and>
      announced_in WS_ABOUT_TO_BE_SYNCHRONIZED (snd (ws_step short (WsProgress current tot) s)))"
  by (auto simp: ws_defs announced_in_def ws_getDisplayRole_def SYNC_DISTANCE_def)

theorem unannounced_cells_change_witness:
  "\<not> announced_in WS_ABOUT_TO_BE_SYNCHRONIZED (snd (ws_step (\<lambda>n. n) (WsProgress 98 100) (ws_new demo_wallet)))"
  using unannounced_cells_change [of "ws_new demo_wallet" demo_wallet 12 "\<lambda>n. n" 100 98] by simp

end
