(* ===== verification/ExplorerWorker.thy ===== *)
theory ExplorerWorker
  imports ChainData
begin

text \<open>
  The explorer worker: BlockChainExplorerWorker.

  It caches blocks of the local chain and answers the explorer's models from
  the cache, loading what is missing through CryptoNote::BlockchainExplorer (a
  parameter). The four loading routines run on the worker's thread while the
  caller waits, so a call is one step here; its outcome is the signal it ends
  with, which the blocking wrapper turns into a status and the two heights.
\<close>

section \<open>The library and the cache\<close>

record 'x explorer =
  x_init :: "('x, unit) call"
  x_addObserver :: "('x, unit) call"
  x_removeObserver :: "('x, unit) call"
  x_shutdown :: "('x, unit) call"
  x_isSynchronized :: "'x \<Rightarrow> wexc + bool"
  x_top :: "'x \<Rightarrow> wexc + block_details option"
  x_getBlocks :: "'x \<Rightarrow> u32 list \<Rightarrow> wexc + block_details list list"
  x_getBlocksByTime :: "'x \<Rightarrow> u64 \<Rightarrow> u64 \<Rightarrow> u32 \<Rightarrow> wexc + block_details list \<times> u32"
  x_getBlocksByHash :: "'x \<Rightarrow> string list \<Rightarrow> wexc + block_details list"
  x_getPoolState :: "'x \<Rightarrow> string \<Rightarrow> wexc + tx_details list option"
  x_blank_hash :: string

text \<open>
  QCache with its default maximal cost of 100 and cost 1 for each block: the
  entries, the most recently used first. An insertion first trims the cache to
  99 entries and then puts the new entry in front, in place of one with its key;
  a lookup moves its entry to the front.
\<close>

type_synonym cache = "(u32 \<times> block_details) list"

definition CACHE_MAX :: nat where "CACHE_MAX = 100"

definition cache_contains :: "u32 \<Rightarrow> cache \<Rightarrow> bool" where
  "cache_contains k c = list_ex (\<lambda>e. fst e = k) c"

definition cache_drop :: "u32 \<Rightarrow> cache \<Rightarrow> cache" where
  "cache_drop k c = filter (\<lambda>e. fst e \<noteq> k) c"

definition cache_insert :: "u32 \<Rightarrow> block_details \<Rightarrow> cache \<Rightarrow> cache" where
  "cache_insert k b c = (k, b) # cache_drop k (take (CACHE_MAX - 1) c)"

definition cache_object :: "u32 \<Rightarrow> cache \<Rightarrow> cache \<times> block_details option" where
  "cache_object k c =
     (case map_of c k of None \<Rightarrow> (c, None) | Some b \<Rightarrow> ((k, b) # cache_drop k c, Some b))"

datatype ew_init_status = EW_INIT_SUCCESS | EW_INIT_FAIL
datatype preload_status = PRELOAD_SUCCESS | PRELOAD_FAIL
datatype pool_status = POOL_SUCCESS | POOL_FAIL

datatype ew_signal =
    InitDone ew_init_status
  | PreloadDone preload_status u32 u32
  | PoolStateDone pool_status "tx_details list"
  | ChainUpdated "block_details list" "block_details list"
  | PoolUpdated "tx_details list" "string list"
  | Synchronized block_details

definition INVALID_BLOCK_HEIGHT :: u32 where
  "INVALID_BLOCK_HEIGHT = - 1"

record 'x ew_state =
  ew_explorer :: 'x
  ew_cache :: cache
  ew_conns :: "nat \<Rightarrow> string list option"
  ew_signals :: "ew_signal list"

definition ew_emit :: "ew_signal \<Rightarrow> 'x ew_state \<Rightarrow> 'x ew_state" where
  "ew_emit g s = s\<lparr>ew_signals := ew_signals s @ [g]\<rparr>"

definition preload_failed :: "'x ew_state \<Rightarrow> 'x ew_state" where
  "preload_failed = ew_emit (PreloadDone PRELOAD_FAIL INVALID_BLOCK_HEIGHT INVALID_BLOCK_HEIGHT)"


section \<open>Loading\<close>

text \<open>The loop that moves the loaded blocks into the cache; None for an access out of range.\<close>

fun insert_loaded :: "u32 list \<Rightarrow> block_details list list \<Rightarrow> cache \<Rightarrow> cache option" where
  "insert_loaded ks [] c = Some c"
| "insert_loaded (k # ks) ((b # _) # bs) c = insert_loaded ks bs (cache_insert k b c)"
| "insert_loaded _ _ c = None"

text \<open>The loop over i < max + 1, in 32-bit arithmetic, that collects the heights not cached.\<close>

definition missing_blocks :: "cache \<Rightarrow> u32 \<Rightarrow> u32 \<Rightarrow> u32 list" where
  "missing_blocks c lo m = filter (\<lambda>i. \<not> cache_contains i c) (map of_nat [unat lo ..< unat (m + 1)])"

definition preloadInterval :: "'x explorer \<Rightarrow> u32 \<Rightarrow> u32 \<Rightarrow> 'x ew_state \<Rightarrow> 'x ew_state option" where
  "preloadInterval X minIndex maxIndex s =
     (case x_top X (ew_explorer s) of
        Inl _ \<Rightarrow> Some (preload_failed s)
      | Inr None \<Rightarrow> Some (preload_failed s)
      | Inr (Some tb) \<Rightarrow>
          (let m = min maxIndex (bd_height tb) in
           if m < minIndex then Some (preload_failed s)
           else let missing = missing_blocks (ew_cache s) minIndex m in
             if missing = [] then Some (preload_failed s)
             else case x_getBlocks X (ew_explorer s) missing of
                 Inl _ \<Rightarrow> Some (preload_failed s)
               | Inr blocks \<Rightarrow>
                   (case insert_loaded missing blocks (ew_cache s) of
                      None \<Rightarrow> None
                    | Some c \<Rightarrow> Some (ew_emit (PreloadDone PRELOAD_SUCCESS minIndex maxIndex) (s\<lparr>ew_cache := c\<rparr>)))))"

text \<open>The running minimum and maximum of the heights of the loaded blocks.\<close>

fun height_range :: "block_details list \<Rightarrow> u32 \<Rightarrow> u32 \<Rightarrow> u32 \<times> u32" where
  "height_range [] lo hi = (lo, hi)"
| "height_range (b # bs) lo hi =
     height_range bs (if bd_height b < lo then bd_height b else lo) (if hi < bd_height b then bd_height b else hi)"

definition preloadIndexes :: "'x explorer \<Rightarrow> u32 list \<Rightarrow> 'x ew_state \<Rightarrow> 'x ew_state option" where
  "preloadIndexes X ks s =
     (if ks = [] then Some (preload_failed s)
      else case x_getBlocks X (ew_explorer s) ks of
          Inl _ \<Rightarrow> Some (preload_failed s)
        | Inr blocks \<Rightarrow>
            (case insert_loaded ks blocks (ew_cache s) of
               None \<Rightarrow> None
             | Some c \<Rightarrow>
                 (let (lo, hi) = height_range (map hd blocks) INVALID_BLOCK_HEIGHT 0
                  in Some (ew_emit (PreloadDone PRELOAD_SUCCESS lo hi) (s\<lparr>ew_cache := c\<rparr>)))))"

definition preloadTimes :: "'x explorer \<Rightarrow> u64 \<Rightarrow> u64 \<Rightarrow> 'x ew_state \<Rightarrow> 'x ew_state" where
  "preloadTimes X b e s =
     (if b > e then preload_failed s
      else case x_getBlocksByTime X (ew_explorer s) b e 1 of
          Inl _ \<Rightarrow> preload_failed s
        | Inr (blocks, count) \<Rightarrow>
            (case blocks of
               [] \<Rightarrow> ew_emit (PreloadDone PRELOAD_SUCCESS INVALID_BLOCK_HEIGHT 0) s
             | d # _ \<Rightarrow> ew_emit (PreloadDone PRELOAD_SUCCESS (bd_height d) (bd_height d + count - 1)) s))"

definition preloadHashes :: "'x explorer \<Rightarrow> string list \<Rightarrow> 'x ew_state \<Rightarrow> 'x ew_state" where
  "preloadHashes X hs s =
     (if hs = [] then preload_failed s
      else case x_getBlocksByHash X (ew_explorer s) hs of
          Inl _ \<Rightarrow> preload_failed s
        | Inr blocks \<Rightarrow>
            (let (lo, hi) = height_range blocks INVALID_BLOCK_HEIGHT 0;
                 c = fold (\<lambda>b. cache_insert (bd_height b) b) blocks (ew_cache s)
             in ew_emit (PreloadDone PRELOAD_SUCCESS lo hi) (s\<lparr>ew_cache := c\<rparr>)))"

text \<open>
  The blocking call: it waits for the completion signal of the routine it
  queued and answers the status and the two loaded heights.
\<close>

definition await_preload :: "'x ew_state \<Rightarrow> 'x ew_state \<times> preload_status \<times> u32 \<times> u32" where
  "await_preload s =
     (case last (ew_signals s) of
        PreloadDone PRELOAD_SUCCESS lo hi \<Rightarrow> (s, PRELOAD_SUCCESS, lo, hi)
      | _ \<Rightarrow> (s, PRELOAD_FAIL, INVALID_BLOCK_HEIGHT, INVALID_BLOCK_HEIGHT))"

definition preloadBlocks ::
  "'x explorer \<Rightarrow> u32 \<Rightarrow> u32 \<Rightarrow> 'x ew_state \<Rightarrow> ('x ew_state \<times> preload_status \<times> u32 \<times> u32) option" where
  "preloadBlocks X lo hi s = map_option await_preload (preloadInterval X lo hi s)"

definition preloadBlocksAt ::
  "'x explorer \<Rightarrow> u32 list \<Rightarrow> 'x ew_state \<Rightarrow> ('x ew_state \<times> preload_status \<times> u32 \<times> u32) option" where
  "preloadBlocksAt X ks s = map_option await_preload (preloadIndexes X ks s)"

definition preloadBlocksBetween ::
  "'x explorer \<Rightarrow> u64 \<Rightarrow> u64 \<Rightarrow> 'x ew_state \<Rightarrow> 'x ew_state \<times> preload_status \<times> u32 \<times> u32" where
  "preloadBlocksBetween X b e s = await_preload (preloadTimes X b e s)"

definition preloadBlocksOf ::
  "'x explorer \<Rightarrow> string list \<Rightarrow> 'x ew_state \<Rightarrow> 'x ew_state \<times> preload_status \<times> u32 \<times> u32" where
  "preloadBlocksOf X hs s = await_preload (preloadHashes X hs s)"

definition getBlock :: "'x explorer \<Rightarrow> u32 \<Rightarrow> 'x ew_state \<Rightarrow> ('x ew_state \<times> block_details option) option" where
  "getBlock X i s =
     (case (if cache_contains i (ew_cache s) then Some s else preloadInterval X i i s) of
        None \<Rightarrow> None
      | Some s1 \<Rightarrow> (let (c, b) = cache_object i (ew_cache s1) in Some (s1\<lparr>ew_cache := c\<rparr>, b)))"

definition getPoolStateImpl :: "'x explorer \<Rightarrow> 'x ew_state \<Rightarrow> 'x ew_state" where
  "getPoolStateImpl X s =
     (case x_top X (ew_explorer s) of
        Inl _ \<Rightarrow> ew_emit (PoolStateDone POOL_FAIL []) s
      | Inr tb \<Rightarrow>
          (case x_getPoolState X (ew_explorer s) (case tb of None \<Rightarrow> x_blank_hash X | Some b \<Rightarrow> bd_hash b) of
             Inr (Some txs) \<Rightarrow> ew_emit (PoolStateDone POOL_SUCCESS txs) s
           | _ \<Rightarrow> ew_emit (PoolStateDone POOL_FAIL []) s))"

definition ew_getPoolState :: "'x explorer \<Rightarrow> tx_details list \<Rightarrow> 'x ew_state \<Rightarrow> 'x ew_state \<times> pool_status \<times> tx_details list" where
  "ew_getPoolState X old s =
     (let t = getPoolStateImpl X s in
      case last (ew_signals t) of
        PoolStateDone POOL_SUCCESS txs \<Rightarrow> (t, POOL_SUCCESS, txs)
      | _ \<Rightarrow> (t, POOL_FAIL, old))"

definition isBlockchainSynchronized :: "'x explorer \<Rightarrow> 'x ew_state \<Rightarrow> bool" where
  "isBlockchainSynchronized X s = (case x_isSynchronized X (ew_explorer s) of Inl _ \<Rightarrow> False | Inr b \<Rightarrow> b)"


section \<open>Observers, start and stop\<close>

definition OBSERVED :: "string list" where
  "OBSERVED = [''blockChainUpdated'', ''poolUpdated'', ''blockchainSynchronized'']"

definition ew_addObserver :: "nat \<Rightarrow> 'x ew_state \<Rightarrow> 'x ew_state" where
  "ew_addObserver ob s =
     s\<lparr>ew_conns := (ew_conns s)(ob \<mapsto> (case ew_conns s ob of None \<Rightarrow> [] | Some cs \<Rightarrow> cs) @ OBSERVED)\<rparr>"

definition ew_removeObserver :: "nat \<Rightarrow> 'x ew_state \<Rightarrow> 'x ew_state" where
  "ew_removeObserver ob s =
     (case ew_conns s ob of
        None \<Rightarrow> s
      | Some [] \<Rightarrow> s
      | Some _ \<Rightarrow> s\<lparr>ew_conns := (ew_conns s)(ob \<mapsto> [])\<rparr>)"

text \<open>How many times an observer is called for a signal of the worker.\<close>

definition deliveries :: "nat \<Rightarrow> string \<Rightarrow> 'x ew_state \<Rightarrow> nat" where
  "deliveries ob g s = (case ew_conns s ob of None \<Rightarrow> 0 | Some cs \<Rightarrow> count_list cs g)"

definition ew_init :: "'x explorer \<Rightarrow> 'x ew_state \<Rightarrow> 'x ew_state \<times> ew_init_status" where
  "ew_init X s =
     (let (x1, r) = then_call (x_init X) (\<lambda>_. x_addObserver X) (ew_explorer s);
          st = (case r of Inl _ \<Rightarrow> EW_INIT_FAIL | Inr _ \<Rightarrow> EW_INIT_SUCCESS)
      in (ew_emit (InitDone st) (s\<lparr>ew_explorer := x1\<rparr>), st))"

text \<open>Every connection is cut and the map is emptied; an exception of the library is logged.\<close>

definition ew_deinit :: "'x explorer \<Rightarrow> 'x ew_state \<Rightarrow> 'x ew_state" where
  "ew_deinit X s =
     s\<lparr>ew_conns := Map.empty,
       ew_explorer := fst (then_call (x_removeObserver X) (\<lambda>_. x_shutdown X) (ew_explorer s))\<rparr>"

definition ew_blockchainUpdated :: "block_details list \<Rightarrow> block_details list \<Rightarrow> 'x ew_state \<Rightarrow> 'x ew_state" where
  "ew_blockchainUpdated new orphaned = ew_emit (ChainUpdated new orphaned)"

definition ew_poolUpdated :: "tx_details list \<Rightarrow> (string \<times> nat) list \<Rightarrow> 'x ew_state \<Rightarrow> 'x ew_state" where
  "ew_poolUpdated new removed = ew_emit (PoolUpdated new (map fst removed))"

definition ew_blockchainSynchronized :: "block_details \<Rightarrow> 'x ew_state \<Rightarrow> 'x ew_state" where
  "ew_blockchainSynchronized tb = ew_emit (Synchronized tb)"


section \<open>The cache\<close>

definition cache_ok :: "cache \<Rightarrow> bool" where
  "cache_ok c \<longleftrightarrow> distinct (map fst c) \<and> length c \<le> CACHE_MAX"

lemma cache_contains_conv: "cache_contains k c \<longleftrightarrow> map_of c k \<noteq> None"
  by (induction c) (auto simp: cache_contains_def)

lemma cache_drop_simps:
  "cache_drop k [] = []"
  "cache_drop k (e # c) = (if fst e = k then cache_drop k c else e # cache_drop k c)"
  "cache_drop k (c @ d) = cache_drop k c @ cache_drop k d"
  by (simp_all add: cache_drop_def)

lemma map_of_cache_drop: "map_of (cache_drop k c) k' = (if k' = k then None else map_of c k')"
  by (induction c) (auto simp: cache_drop_simps)

lemma cache_drop_ok: "distinct (map fst c) \<Longrightarrow> distinct (map fst (cache_drop k c)) \<and> k \<notin> fst ` set (cache_drop k c)"
  by (induction c) (auto simp: cache_drop_def)

lemma length_cache_drop: "length (cache_drop k c) \<le> length c"
  by (simp add: cache_drop_def)

lemma cache_insert_ok [inv_intros]:
  assumes "cache_ok c"
  shows "cache_ok (cache_insert k b c)"
proof -
  have "distinct (map fst (take (CACHE_MAX - 1) c))"
    using assms by (simp add: cache_ok_def take_map [symmetric])
  from cache_drop_ok [OF this, of k]
  have "distinct (map fst (cache_insert k b c))"
    by (simp add: cache_insert_def)
  moreover have "length (cache_insert k b c) \<le> CACHE_MAX"
    using length_cache_drop [of k "take (CACHE_MAX - 1) c"] by (simp add: cache_insert_def CACHE_MAX_def)
  ultimately show ?thesis
    by (simp add: cache_ok_def)
qed

lemma cache_drop_shorter: "k \<in> fst ` set c \<Longrightarrow> length (cache_drop k c) < length c"
proof (induction c)
  case (Cons e c)
  then show ?case
    using length_cache_drop [of k c] by (cases "fst e = k") (auto simp: cache_drop_simps)
qed simp

lemma cache_object_ok [inv_intros]: "cache_ok c \<Longrightarrow> cache_ok (fst (cache_object k c))"
proof (cases "map_of c k")
  case (Some b)
  assume ok: "cache_ok c"
  have "k \<in> fst ` set c"
    using map_of_SomeD [OF Some] by force
  with ok cache_drop_ok [of c k] cache_drop_shorter [of k c] show ?thesis
    by (simp add: cache_object_def Some cache_ok_def)
qed (simp add: cache_object_def)

lemma cache_object_value: "snd (cache_object k c) = map_of c k"
  by (simp add: cache_object_def split: option.split)

lemma insert_loaded_fold:
  "insert_loaded ks (map (\<lambda>k. [blk k]) ks) c = Some (fold (\<lambda>k. cache_insert k (blk k)) ks c)"
  by (induction ks arbitrary: c) auto

lemma insert_loaded_ok [inv_intros]: "insert_loaded ks bs c = Some d \<Longrightarrow> cache_ok c \<Longrightarrow> cache_ok d"
  by (induction ks bs c rule: insert_loaded.induct) (auto intro: cache_insert_ok)

lemma fold_cache_insert_ok [inv_intros]:
  "cache_ok c \<Longrightarrow> cache_ok (fold (\<lambda>b. cache_insert (f b) (g b)) bs c)"
  by (induction bs arbitrary: c) (auto intro: cache_insert_ok)

lemma fold_cache_insert_shape:
  assumes "distinct ks" "length ks \<le> CACHE_MAX"
  shows "\<exists>rest. fold (\<lambda>k. cache_insert k (blk k)) ks c = map (\<lambda>k. (k, blk k)) (rev ks) @ rest"
  using assms
proof (induction ks rule: rev_induct)
  case (snoc k ks)
  then obtain rest where r: "fold (\<lambda>k. cache_insert k (blk k)) ks c = map (\<lambda>k. (k, blk k)) (rev ks) @ rest"
    by auto
  have "take (CACHE_MAX - 1) (map (\<lambda>k. (k, blk k)) (rev ks) @ rest) =
      map (\<lambda>k. (k, blk k)) (rev ks) @ take (CACHE_MAX - 1 - length ks) rest"
    using snoc.prems by simp
  moreover have "cache_drop k (map (\<lambda>k. (k, blk k)) (rev ks)) = map (\<lambda>k. (k, blk k)) (rev ks)"
    using snoc.prems unfolding cache_drop_def by (auto simp: filter_id_conv)
  ultimately have "cache_insert k (blk k) (fold (\<lambda>k. cache_insert k (blk k)) ks c) =
      map (\<lambda>k. (k, blk k)) (rev (ks @ [k])) @ cache_drop k (take (CACHE_MAX - 1 - length ks) rest)"
    unfolding r cache_insert_def [of k] by (simp add: cache_drop_simps)
  then show ?case by auto
qed simp

lemma fold_cache_insert_holds:
  assumes "distinct ks" "length ks \<le> CACHE_MAX" "k \<in> set ks"
  shows "map_of (fold (\<lambda>k. cache_insert k (blk k)) ks c) k = Some (blk k)"
proof -
  have "map_of (map (\<lambda>k. (k, blk k)) (rev ks) @ rest) k = Some (blk k)" for rest
    using assms(3) by (simp add: map_of_append map_add_def map_of_map_restrict split: option.split)
  then show ?thesis
    using fold_cache_insert_shape [OF assms(1,2), of blk c] by metis
qed


section \<open>What a preload leaves in the cache\<close>

text \<open>The library serves a chain: it knows the top block and returns one block for each height up to it.\<close>

definition chain_serves :: "'x explorer \<Rightarrow> 'x \<Rightarrow> block_details \<Rightarrow> (u32 \<Rightarrow> block_details) \<Rightarrow> bool" where
  "chain_serves X x tb blk \<longleftrightarrow>
     x_top X x = Inr (Some tb) \<and> bd_height tb \<noteq> - 1 \<and>
     (\<forall>ks. (\<forall>k\<in>set ks. k \<le> bd_height tb) \<longrightarrow> x_getBlocks X x ks = Inr (map (\<lambda>k. [blk k]) ks))"

lemma unat_of_nat_32: "n < 2 ^ 32 \<Longrightarrow> unat (of_nat n :: u32) = n"
  by (simp add: unat_of_nat)

lemma set_interval:
  assumes "m \<noteq> (- 1 :: u32)"
  shows "set (map of_nat [unat lo ..< unat (m + 1)] :: u32 list) = {k. lo \<le> k \<and> k \<le> m}"
    and "distinct (map of_nat [unat lo ..< unat (m + 1)] :: u32 list)"
proof -
  have m: "unat (m + 1) = Suc (unat m)"
    using assms by (metis add.commute add_eq_0_iff unatSuc)
  have inv: "unat (of_nat n :: u32) = n" if "n \<le> unat m" for n
    using that unat_bound_32 [of m] by (intro unat_of_nat_32) simp
  have "k \<in> of_nat ` {unat lo ..< Suc (unat m)} \<longleftrightarrow> lo \<le> k \<and> k \<le> m" for k :: u32
  proof
    assume "k \<in> of_nat ` {unat lo ..< Suc (unat m)}"
    then obtain n where "k = of_nat n" "unat lo \<le> n" "n \<le> unat m"
      by auto
    then show "lo \<le> k \<and> k \<le> m"
      by (simp add: word_le_nat_alt inv)
  next
    assume "lo \<le> k \<and> k \<le> m"
    then have "k = of_nat (unat k)" "unat k \<in> {unat lo ..< Suc (unat m)}"
      by (simp_all add: word_le_nat_alt)
    then show "k \<in> of_nat ` {unat lo ..< Suc (unat m)}"
      by blast
  qed
  then show "set (map of_nat [unat lo ..< unat (m + 1)] :: u32 list) = {k. lo \<le> k \<and> k \<le> m}"
    unfolding m set_map set_upt by blast
  have "inj_on (of_nat :: nat \<Rightarrow> u32) {unat lo ..< Suc (unat m)}"
    by (rule inj_on_inverseI [where g = unat]) (auto intro: inv)
  then show "distinct (map of_nat [unat lo ..< unat (m + 1)] :: u32 list)"
    unfolding m distinct_map set_upt by (intro conjI distinct_upt)
qed

lemma preload_interval_result:
  fixes lo hi :: u32 and s :: "'x ew_state"
  assumes serve: "chain_serves X (ew_explorer s) tb blk"
  defines "m \<equiv> min hi (bd_height tb)"
  defines "missing \<equiv> missing_blocks (ew_cache s) lo m"
  assumes "lo \<le> m"
  shows "preloadInterval X lo hi s =
    (if missing = [] then Some (preload_failed s)
     else Some (ew_emit (PreloadDone PRELOAD_SUCCESS lo hi)
                  (s\<lparr>ew_cache := fold (\<lambda>k. cache_insert k (blk k)) missing (ew_cache s)\<rparr>)))"
    and "set missing = {k. lo \<le> k \<and> k \<le> m \<and> \<not> cache_contains k (ew_cache s)}" "distinct missing"
    and "length missing \<le> Suc (unat m) - unat lo"
proof -
  have m1: "m \<noteq> - 1"
    using serve word_order.extremum_uniqueI [of "bd_height tb"] unfolding chain_serves_def m_def
    by (auto simp: min_def)
  show ms: "set missing = {k. lo \<le> k \<and> k \<le> m \<and> \<not> cache_contains k (ew_cache s)}" "distinct missing"
    using set_interval [OF m1, of lo] unfolding missing_def missing_blocks_def by auto
  have "unat (m + 1) = Suc (unat m)"
    using m1 by (metis add.commute add_eq_0_iff unatSuc)
  then show "length missing \<le> Suc (unat m) - unat lo"
    unfolding missing_def missing_blocks_def by (metis length_filter_le length_map length_upt)
  have "m \<le> bd_height tb"
    by (simp add: m_def)
  then have "x_getBlocks X (ew_explorer s) missing = Inr (map (\<lambda>k. [blk k]) missing)"
    using serve ms unfolding chain_serves_def by (auto dest: order_trans)
  then show "preloadInterval X lo hi s =
    (if missing = [] then Some (preload_failed s)
     else Some (ew_emit (PreloadDone PRELOAD_SUCCESS lo hi)
                  (s\<lparr>ew_cache := fold (\<lambda>k. cache_insert k (blk k)) missing (ew_cache s)\<rparr>)))"
    using serve assms(4) unfolding preloadInterval_def m_def [symmetric] missing_def chain_serves_def
    by (simp add: Let_def insert_loaded_fold flip: m_def missing_def)
qed


lemma await_emit:
  "await_preload (ew_emit (PreloadDone st lo hi) s) =
    (ew_emit (PreloadDone st lo hi) s,
     case st of PRELOAD_SUCCESS \<Rightarrow> (PRELOAD_SUCCESS, lo, hi)
       | PRELOAD_FAIL \<Rightarrow> (PRELOAD_FAIL, INVALID_BLOCK_HEIGHT, INVALID_BLOCK_HEIGHT))"
  by (simp add: await_preload_def ew_emit_def split: preload_status.split)

lemma ew_emit_simps [simp]:
  "ew_cache (ew_emit g s) = ew_cache s" "ew_explorer (ew_emit g s) = ew_explorer s" "ew_conns (ew_emit g s) = ew_conns s"
  by (simp_all add: ew_emit_def)

text \<open>
  Preloading a height interval from a library that serves the chain. The
  upper end is cut at the top block. When every block of the interval is cached
  already, the call reports failure and changes no block; otherwise it reports
  success with the two heights it was asked for, not the cut ones, and every
  block it had to load is in the cache afterwards, as the library gave it, if
  no more than the cache's 100 entries were missing.
\<close>

theorem preload_interval_loads:
  assumes "chain_serves X (ew_explorer s) tb blk" "lo \<le> min hi (bd_height tb)"
  shows "\<exists>t st a b. preloadBlocks X lo hi s = Some (t, st, a, b) \<and>
    (if \<forall>k. lo \<le> k \<and> k \<le> min hi (bd_height tb) \<longrightarrow> cache_contains k (ew_cache s)
     then st = PRELOAD_FAIL \<and> a = INVALID_BLOCK_HEIGHT \<and> b = INVALID_BLOCK_HEIGHT \<and> ew_cache t = ew_cache s
     else st = PRELOAD_SUCCESS \<and> a = lo \<and> b = hi \<and>
       (unat (min hi (bd_height tb)) < unat lo + CACHE_MAX \<longrightarrow>
          (\<forall>k. lo \<le> k \<and> k \<le> min hi (bd_height tb) \<and> \<not> cache_contains k (ew_cache s) \<longrightarrow>
             map_of (ew_cache t) k = Some (blk k))))"
proof -
  let ?m = "min hi (bd_height tb)"
  let ?ks = "missing_blocks (ew_cache s) lo ?m"
  note r = preload_interval_result [OF assms(1), of lo hi, OF assms(2)]
  have iff: "?ks = [] \<longleftrightarrow> (\<forall>k. lo \<le> k \<and> k \<le> ?m \<longrightarrow> cache_contains k (ew_cache s))"
    using r(2) by (metis (mono_tags, lifting) empty_Collect_eq set_empty)
  show ?thesis
  proof (cases "?ks = []")
    case True
    then have "preloadInterval X lo hi s = Some (preload_failed s)"
      using r(1) unfolding True by simp
    then show ?thesis
      using True unfolding iff by (simp add: preloadBlocks_def preload_failed_def await_emit)
  next
    case False
    have p: "preloadInterval X lo hi s = Some (ew_emit (PreloadDone PRELOAD_SUCCESS lo hi)
        (s\<lparr>ew_cache := fold (\<lambda>k. cache_insert k (blk k)) ?ks (ew_cache s)\<rparr>))"
      using r(1) unfolding if_not_P [OF False] by simp
    have "map_of (fold (\<lambda>k. cache_insert k (blk k)) ?ks (ew_cache s)) k = Some (blk k)"
      if "unat ?m < unat lo + CACHE_MAX" "k \<in> set ?ks" for k
      using fold_cache_insert_holds [OF r(3) _ that(2)] r(4) that(1) by simp
    then have "\<forall>k. lo \<le> k \<and> k \<le> ?m \<and> \<not> cache_contains k (ew_cache s) \<longrightarrow>
        map_of (fold (\<lambda>k. cache_insert k (blk k)) ?ks (ew_cache s)) k = Some (blk k)"
      if "unat ?m < unat lo + CACHE_MAX"
      using that unfolding r(2) by blast
    then show ?thesis
      using False unfolding iff preloadBlocks_def p by (simp add: await_emit)
  qed
qed

definition demo_chain :: "u32 \<Rightarrow> unit explorer" where
  "demo_chain h = \<lparr>x_init = (\<lambda>x. (x, Inr ())), x_addObserver = (\<lambda>x. (x, Inr ())),
     x_removeObserver = (\<lambda>x. (x, Inr ())), x_shutdown = (\<lambda>x. (x, Inr ())), x_isSynchronized = (\<lambda>_. Inr True),
     x_top = (\<lambda>_. Inr (Some (some_block h))), x_getBlocks = (\<lambda>_ ks. Inr (map (\<lambda>k. [some_block k]) ks)),
     x_getBlocksByTime = (\<lambda>_ _ _ _. Inr ([], 0)), x_getBlocksByHash = (\<lambda>_ _. Inr []),
     x_getPoolState = (\<lambda>_ _. Inr (Some [])), x_blank_hash = []\<rparr>"

definition ew_new :: "'x \<Rightarrow> 'x ew_state" where
  "ew_new x = \<lparr>ew_explorer = x, ew_cache = [], ew_conns = Map.empty, ew_signals = []\<rparr>"

lemma ew_new_cache [simp]: "ew_cache (ew_new x) = []" "\<not> cache_contains k []"
  by (simp_all add: ew_new_def cache_contains_def)

lemma demo_chain_serves: "h \<noteq> - 1 \<Longrightarrow> chain_serves (demo_chain h) x (some_block h) some_block"
  by (simp add: chain_serves_def demo_chain_def)

theorem preload_interval_loads_witness:
  "\<exists>t. preloadBlocks (demo_chain 9) 2 20 (ew_new ()) = Some (t, PRELOAD_SUCCESS, 2, 20) \<and>
       map_of (ew_cache t) 5 = Some (some_block 5)"
proof -
  have "(2::u32) \<le> 5" "(5::u32) \<le> 9" "min 20 (9::u32) = 9" "(2::u32) \<le> 9"
    by (simp_all add: min_def)
  moreover have "unat (9::u32) < unat (2::u32) + CACHE_MAX"
    by (simp add: CACHE_MAX_def)
  moreover have "chain_serves (demo_chain 9) (ew_explorer (ew_new ())) (some_block 9) some_block"
    by (rule demo_chain_serves) simp
  ultimately have five: "2 \<le> (5::u32)" "(5::u32) \<le> min 20 (bd_height (some_block 9))"
    "unat (min 20 (bd_height (some_block 9))) < unat (2::u32) + CACHE_MAX"
    and p: "chain_serves (demo_chain 9) (ew_explorer (ew_new ())) (some_block 9) some_block"
      "2 \<le> min 20 (bd_height (some_block 9))"
    by simp_all
  then have ne: "\<not> (\<forall>k. 2 \<le> k \<and> k \<le> min 20 (bd_height (some_block 9)) \<longrightarrow> cache_contains k (ew_cache (ew_new ())))"
    by auto
  from preload_interval_loads [OF p] five show ?thesis
    unfolding if_not_P [OF ne] by (auto simp del: some_block_simps)
qed

lemma preloadInterval_keeps_cache [inv_intros]:
  assumes "cache_ok (ew_cache s)" "preloadInterval X lo hi s = Some u"
  shows "cache_ok (ew_cache u)"
proof (cases "x_top X (ew_explorer s)")
  case (Inr r)
  show ?thesis
  proof (cases r)
    case (Some tb)
    let ?ks = "missing_blocks (ew_cache s) lo (min hi (bd_height tb))"
    show ?thesis
    proof (cases "min hi (bd_height tb) < lo \<or> ?ks = []")
      case True
      then show ?thesis
        using assms by (auto simp: preloadInterval_def preload_failed_def Let_def Inr Some split: if_splits)
    next
      case False
      then show ?thesis
        using assms insert_loaded_ok [of ?ks _ "ew_cache s"]
        by (auto simp: preloadInterval_def preload_failed_def Let_def Inr Some split: sum.splits option.splits)
    qed
  qed (use assms Inr in \<open>auto simp: preloadInterval_def preload_failed_def\<close>)
qed (use assms in \<open>auto simp: preloadInterval_def preload_failed_def\<close>)

lemma getBlock_keeps_cache [inv_intros]:
  assumes "cache_ok (ew_cache s)" "getBlock X k s = Some (t, r)"
  shows "cache_ok (ew_cache t)"
proof -
  obtain u where u: "(if cache_contains k (ew_cache s) then Some s else preloadInterval X k k s) = Some u"
    and t: "ew_cache t = fst (cache_object k (ew_cache u))"
    using assms(2) by (auto simp: getBlock_def split: option.splits prod.splits)
  have "cache_ok (ew_cache u)"
    using u assms(1) preloadInterval_keeps_cache by (cases "cache_contains k (ew_cache s)") auto
  then show ?thesis
    unfolding t by (rule cache_object_ok)
qed

text \<open>
  A block is asked for by its height. A cached block is answered whatever
  the library says now, so also after the worker was told that the block is
  orphaned. Another block is loaded: the answer is the library's block for a
  height up to the top block, and none above it. The cache keeps distinct keys
  and at most 100 entries in every case.
\<close>

theorem getBlock_answers:
  "(map_of (ew_cache s) k = Some b \<longrightarrow>
      (\<exists>t. getBlock X k (ew_blockchainUpdated new orphaned s) = Some (t, Some b))) \<and>
   (map_of (ew_cache s) k = None \<and> chain_serves X (ew_explorer s) tb blk \<longrightarrow>
      (\<exists>t. getBlock X k s = Some (t, if k \<le> bd_height tb then Some (blk k) else None))) \<and>
   (cache_ok (ew_cache s) \<and> getBlock X k s = Some (t, r) \<longrightarrow> cache_ok (ew_cache t))"
proof (intro conjI impI; (elim conjE)?)
  assume "map_of (ew_cache s) k = Some b"
  then show "\<exists>t. getBlock X k (ew_blockchainUpdated new orphaned s) = Some (t, Some b)"
    by (simp add: getBlock_def ew_blockchainUpdated_def cache_contains_conv cache_object_def)
next
  assume none: "map_of (ew_cache s) k = None" and serve: "chain_serves X (ew_explorer s) tb blk"
  then have nc: "\<not> cache_contains k (ew_cache s)"
    by (simp add: cache_contains_conv)
  show "\<exists>t. getBlock X k s = Some (t, if k \<le> bd_height tb then Some (blk k) else None)"
  proof (cases "k \<le> bd_height tb")
    case True
    then have m: "min k (bd_height tb) = k"
      by (simp add: min_def)
    have le: "k \<le> min k (bd_height tb)"
      by (simp add: m)
    obtain ks where ks: "preloadInterval X k k s =
        (if ks = [] then Some (preload_failed s)
         else Some (ew_emit (PreloadDone PRELOAD_SUCCESS k k)
                (s\<lparr>ew_cache := fold (\<lambda>k. cache_insert k (blk k)) ks (ew_cache s)\<rparr>)))"
      "set ks = {j. k \<le> j \<and> j \<le> k \<and> \<not> cache_contains j (ew_cache s)}" "distinct ks"
      using preload_interval_result(1,2,3) [OF serve le] unfolding m by blast
    then have "set ks = {k}"
      using nc by auto
    with ks(3) have "ks = [k]"
      by (cases ks; cases "tl ks") auto
    then show ?thesis
      using ks(1) nc True by (simp add: getBlock_def cache_insert_def cache_object_def)
  next
    case False
    then have "preloadInterval X k k s = Some (preload_failed s)"
      using serve by (auto simp: preloadInterval_def chain_serves_def Let_def min_def)
    then show ?thesis
      using False nc none by (simp add: getBlock_def preload_failed_def cache_object_def)
  qed
next
  assume ok: "cache_ok (ew_cache s)" and g: "getBlock X k s = Some (t, r)"
  then show "cache_ok (ew_cache t)"
    by (rule getBlock_keeps_cache)
qed

theorem getBlock_answers_witness:
  "(\<exists>t. getBlock (demo_chain 9) 7 (ew_new ()) = Some (t, Some (some_block 7))) \<and>
   (\<exists>t. getBlock (demo_chain 9) 12 (ew_new ()) = Some (t, None))"
proof -
  have "chain_serves (demo_chain 9) (ew_explorer (ew_new ())) (some_block 9) some_block"
    by (rule demo_chain_serves) simp
  then show ?thesis
    using getBlock_answers [of "ew_new ()" 7 "some_block 0" "demo_chain 9" "[]" "[]" "some_block 9" some_block]
      getBlock_answers [of "ew_new ()" 12 "some_block 0" "demo_chain 9" "[]" "[]" "some_block 9" some_block]
    by simp
qed

end
