(* ===== verification/BlockPages.thy ===== *)
theory BlockPages
  imports ExplorerWorker AmountFormat
begin

text \<open>
  The pages of the block list: FilteredBlockModel keeps an interval of heights,
  WalletWindowedItemModel a window on its rows, and WindowedBlockModel moves the
  window by pages. The three proxies keep no rows of their own; a row is a
  height, and what they show is a test on heights. All heights are 32-bit.
\<close>

section \<open>The interval: FilteredBlockModel\<close>

datatype block_filter = All | LastHour | LastDay | LastWeek | LastMonth | LastYear | Custom

text \<open>A point in time is None when it is not valid.\<close>

record fb_state =
  fb_filter :: block_filter
  fb_enablePeriod :: bool
  fb_begin :: "int option"
  fb_end :: "int option"
  fb_hash :: string
  fb_beginHeight :: u32
  fb_endHeight :: u32

definition fb_new :: fb_state where
  "fb_new = \<lparr>fb_filter = All, fb_enablePeriod = False, fb_begin = None, fb_end = None, fb_hash = [],
     fb_beginHeight = 0, fb_endHeight = INVALID_BLOCK_HEIGHT\<rparr>"

text \<open>
  The explorer's answers to the three preloads (status and heights), the current
  time, and the calendar: the local time some days, a month or a year before,
  which the sources take from QDateTime.
\<close>

record preloads =
  pl_hash :: "string \<Rightarrow> preload_status \<times> u32 \<times> u32"
  pl_height :: "u32 \<Rightarrow> preload_status \<times> u32 \<times> u32"
  pl_times :: "int \<Rightarrow> int \<Rightarrow> preload_status \<times> u32 \<times> u32"
  pl_now :: int
  pl_days_before :: "int \<Rightarrow> int \<Rightarrow> int"
  pl_month_before :: "int \<Rightarrow> int"
  pl_year_before :: "int \<Rightarrow> int"

text \<open>QString::toUInt with its success flag.\<close>

definition to_uint :: "string \<Rightarrow> u32 option" where
  "to_uint q = map_option of_nat (read_unsigned (2 ^ 32) q)"

definition filter_begin :: "preloads \<Rightarrow> block_filter \<Rightarrow> int option" where
  "filter_begin P f =
     (case f of
        LastHour \<Rightarrow> Some (pl_now P - 3600)
      | LastDay \<Rightarrow> Some (pl_days_before P 1 (pl_now P))
      | LastWeek \<Rightarrow> Some (pl_days_before P 7 (pl_now P))
      | LastMonth \<Rightarrow> Some (pl_month_before P (pl_now P))
      | LastYear \<Rightarrow> Some (pl_year_before P (pl_now P))
      | _ \<Rightarrow> None)"

definition fb_nothing :: "fb_state \<Rightarrow> fb_state" where
  "fb_nothing s = s\<lparr>fb_beginHeight := INVALID_BLOCK_HEIGHT, fb_endHeight := INVALID_BLOCK_HEIGHT\<rparr>"

definition fb_span :: "preload_status \<times> u32 \<times> u32 \<Rightarrow> fb_state \<Rightarrow> fb_state" where
  "fb_span r s =
     (case r of
        (PRELOAD_FAIL, _, _) \<Rightarrow> fb_nothing s
      | (PRELOAD_SUCCESS, lo, hi) \<Rightarrow> s\<lparr>fb_beginHeight := lo, fb_endHeight := hi\<rparr>)"

text \<open>The fields are set first; the answer is whether one of them changed.\<close>

definition fb_assign ::
  "block_filter \<Rightarrow> bool \<Rightarrow> int option \<Rightarrow> int option \<Rightarrow> string \<Rightarrow> fb_state \<Rightarrow> fb_state \<times> bool" where
  "fb_assign f p b e h s =
     (let n1 = (fb_filter s \<noteq> f);
          s1 = s\<lparr>fb_filter := f\<rparr>;
          n2 = (fb_enablePeriod s1 \<noteq> p);
          s2 = (if n2 then s1\<lparr>fb_enablePeriod := p, fb_begin := (if p then b else None), fb_end := (if p then e else None)\<rparr>
                else s1);
          n3 = (fb_enablePeriod s2 \<and> (fb_begin s2 \<noteq> b \<or> fb_end s2 \<noteq> e));
          s3 = (if n3 then s2\<lparr>fb_begin := b, fb_end := e\<rparr> else s2);
          n4 = (fb_hash s3 \<noteq> h);
          s4 = s3\<lparr>fb_hash := h\<rparr>
      in (s4, n1 \<or> n2 \<or> n3 \<or> n4))"

definition fb_setFilter ::
  "preloads \<Rightarrow> block_filter \<Rightarrow> bool \<Rightarrow> int option \<Rightarrow> int option \<Rightarrow> string \<Rightarrow> fb_state \<Rightarrow> fb_state" where
  "fb_setFilter P f p b e h s =
     (let (t, need) = fb_assign f p b e h s in
      if \<not> need then t
      else if h \<noteq> [] then
        (if fromHex_size h = 32 then fb_span (pl_hash P h) t
         else case to_uint h of
             None \<Rightarrow> fb_nothing t
           | Some k \<Rightarrow> fb_span (pl_height P k) t)
      else let (begin, end) = (if fb_enablePeriod t then (fb_begin t, fb_end t) else (filter_begin P f, Some (pl_now P))) in
        (case begin of
           Some x \<Rightarrow> fb_span (pl_times P x (case end of None \<Rightarrow> 0 | Some y \<Rightarrow> y)) t
         | None \<Rightarrow>
             (if f = All \<and> fb_begin t = None \<and> fb_end t = None
              then t\<lparr>fb_beginHeight := 0, fb_endHeight := INVALID_BLOCK_HEIGHT\<rparr>
              else fb_nothing t)))"

definition fb_resetFilter :: "fb_state \<Rightarrow> fb_state" where
  "fb_resetFilter s = fb_new"

text \<open>Only blocks are accepted, no rows below a block.\<close>

definition fb_accepts :: "fb_state \<Rightarrow> bool \<Rightarrow> u32 \<Rightarrow> bool" where
  "fb_accepts s child row \<longleftrightarrow> \<not> child \<and> fb_beginHeight s \<le> row \<and> row \<le> fb_endHeight s"


section \<open>The window: WalletWindowedItemModel\<close>

record window =
  wn_size :: u32
  wn_begin :: u32

definition wn_new :: window where "wn_new = \<lparr>wn_size = 0, wn_begin = 0\<rparr>"

text \<open>The setters answer whether the filter is invalidated.\<close>

definition wn_setSize :: "u32 \<Rightarrow> window \<Rightarrow> window \<times> bool" where
  "wn_setSize n w = (w\<lparr>wn_size := n\<rparr>, wn_size w \<noteq> n)"

definition wn_setBegin :: "u32 \<Rightarrow> window \<Rightarrow> window \<times> bool" where
  "wn_setBegin n w = (w\<lparr>wn_begin := n\<rparr>, wn_begin w \<noteq> n)"

text \<open>value is the row, or the number the filter role reads from it.\<close>

definition wn_accepts :: "window \<Rightarrow> u32 \<Rightarrow> bool" where
  "wn_accepts w value \<longleftrightarrow> wn_size w \<noteq> 0 \<and> wn_begin w \<le> value \<and> value < wn_begin w + wn_size w"


section \<open>Paging: WindowedBlockModel\<close>

text \<open>
  lower and upper are the heights of the first and the last row of the filtered
  list (zero when it is empty). Next to the window, an operation answers the
  interval it asks the explorer to preload; without an explorer the page does
  not turn.
\<close>

definition wb_setWindowSize :: "u32 \<Rightarrow> u32 \<Rightarrow> u32 \<Rightarrow> window \<Rightarrow> window" where
  "wb_setWindowSize lower upper n w =
     (if n < wn_size w then \<lparr>wn_size = n, wn_begin = wn_begin w + (wn_size w - n)\<rparr>
      else if wn_size w < n then
        (let diff = n - wn_size w;
             b = (if lower + diff > wn_begin w then lower else wn_begin w - diff);
             e = (let x = b + n - 1 in if upper < x then upper else x)
         in \<lparr>wn_size = e - b + 1, wn_begin = b\<rparr>)
      else w)"

definition wb_nextPage :: "bool \<Rightarrow> u32 \<Rightarrow> window \<Rightarrow> window \<times> (u32 \<times> u32) option" where
  "wb_nextPage explorer upper w =
     (let nb = wn_begin w + wn_size w;
          ne = nb + wn_size w - 1;
          (b, e) = (if upper < ne then (upper - wn_size w + 1, upper) else (nb, ne))
      in if explorer then (w\<lparr>wn_begin := b\<rparr>, Some (b, e)) else (w, None))"

definition prev_begin :: "u32 \<Rightarrow> window \<Rightarrow> u32" where
  "prev_begin lower w = (if lower + wn_size w > wn_begin w then lower else wn_begin w - wn_size w)"

definition wb_prevPage :: "bool \<Rightarrow> u32 \<Rightarrow> window \<Rightarrow> window \<times> (u32 \<times> u32) option" where
  "wb_prevPage explorer lower w =
     (let b = prev_begin lower w in
      if explorer then (w\<lparr>wn_begin := b\<rparr>, Some (b, b + wn_size w - 1)) else (w, None))"

definition wb_lastPage :: "bool \<Rightarrow> u32 \<Rightarrow> u32 \<Rightarrow> window \<Rightarrow> window \<times> (u32 \<times> u32) option" where
  "wb_lastPage explorer lower upper w =
     (if wn_size w = 0 then (w, None)
      else let b = (if upper < lower + wn_size w - 1 then lower else upper - wn_size w + 1)
        in if explorer then (w\<lparr>wn_begin := b\<rparr>, Some (b, upper)) else (w, None))"

definition wb_prevPageInterval :: "u32 \<Rightarrow> window \<Rightarrow> u32 \<times> u32" where
  "wb_prevPageInterval lower w =
     (if wn_begin w = lower then (INVALID_BLOCK_HEIGHT, INVALID_BLOCK_HEIGHT)
      else let b = prev_begin lower w in (b, b + wn_size w - 1))"

definition wb_nextPageInterval :: "u32 \<Rightarrow> window \<Rightarrow> u32 \<times> u32" where
  "wb_nextPageInterval upper w =
     (if upper < wn_begin w + wn_size w then (INVALID_BLOCK_HEIGHT, INVALID_BLOCK_HEIGHT)
      else let nb = wn_begin w + wn_size w in (nb, min (nb + wn_size w - 1) upper))"

text \<open>Descending order of heights, of block rows only.\<close>

definition wb_lessThan :: "(u32 \<times> bool) option \<Rightarrow> (u32 \<times> bool) option \<Rightarrow> bool" where
  "wb_lessThan l r =
     (case (l, r) of
        (Some (a, lb), Some (b, rb)) \<Rightarrow> lb \<and> rb \<and> a < b
      | _ \<Rightarrow> False)"


section \<open>A page stays inside the list\<close>

text \<open>A full page inside the heights from lower to upper.\<close>

definition page_ok :: "u32 \<Rightarrow> u32 \<Rightarrow> window \<Rightarrow> bool" where
  "page_ok lower upper w \<longleftrightarrow> 0 < wn_size w \<and> lower \<le> wn_begin w \<and> unat (wn_begin w) + unat (wn_size w) \<le> unat upper + 1"

text \<open>Heights far from the limit of 32 bits, so that no sum of a height and a page wraps.\<close>

definition small :: "u32 \<Rightarrow> bool" where
  "small k \<longleftrightarrow> unat k < 2 ^ 30"

lemma unat_add_small: "unat (a :: u32) + unat b < 2 ^ 32 \<Longrightarrow> unat (a + b) = unat a + unat b"
  by (subst unat_plus_simple [symmetric]) (auto simp: no_olen_add_nat)

lemma page_size_small:
  assumes "page_ok lower upper w" "small upper"
  shows "unat (wn_size w) \<le> 2 ^ 30" "unat (wn_begin w) < 2 ^ 30" "0 < unat (wn_size w)" "unat lower \<le> unat (wn_begin w)"
  using assms by (auto simp: page_ok_def small_def word_less_nat_alt word_le_nat_alt)

lemma unat_pred: "0 < unat (x :: u32) \<Longrightarrow> unat (x - 1) = unat x - 1"
  by (subst unat_sub) (auto simp: word_le_nat_alt)

lemma unat_sub_le: "unat (y :: u32) \<le> unat x \<Longrightarrow> unat (x - y) = unat x - unat y"
  by (simp add: unat_sub word_le_nat_alt)

text \<open>The numbers behind a page: no sum of the page's arithmetic wraps.\<close>

lemma page_numbers:
  assumes "page_ok lower upper w" "small upper"
  shows "0 < unat (wn_size w)" "unat lower \<le> unat (wn_begin w)"
    "unat (wn_begin w) + unat (wn_size w) \<le> unat upper + 1" "unat upper < 2 ^ 30"
    "unat (wn_begin w + wn_size w) = unat (wn_begin w) + unat (wn_size w)"
    "unat (wn_begin w + wn_size w + wn_size w - 1) = unat (wn_begin w) + 2 * unat (wn_size w) - 1"
    "unat (upper - wn_size w + 1) = unat upper + 1 - unat (wn_size w)"
    "unat (lower + wn_size w) = unat lower + unat (wn_size w)"
    "unat (lower + wn_size w - 1) = unat lower + unat (wn_size w) - 1"
proof -
  show b: "0 < unat (wn_size w)" "unat lower \<le> unat (wn_begin w)"
    "unat (wn_begin w) + unat (wn_size w) \<le> unat upper + 1" "unat upper < 2 ^ 30"
    using assms by (auto simp: page_ok_def small_def word_less_nat_alt word_le_nat_alt)
  show bn: "unat (wn_begin w + wn_size w) = unat (wn_begin w) + unat (wn_size w)"
    using b by (intro unat_add_small) simp
  have "unat (wn_begin w + wn_size w + wn_size w) = unat (wn_begin w) + 2 * unat (wn_size w)"
    using b unat_add_small [of "wn_begin w + wn_size w" "wn_size w"] by (simp add: bn)
  then show "unat (wn_begin w + wn_size w + wn_size w - 1) = unat (wn_begin w) + 2 * unat (wn_size w) - 1"
    using b by (simp add: unat_pred)
  have u1: "unat (upper + 1) = unat upper + 1"
    using b unat_add_small [of upper 1] by simp
  have "upper - wn_size w + 1 = upper + 1 - wn_size w"
    by simp
  then show "unat (upper - wn_size w + 1) = unat upper + 1 - unat (wn_size w)"
    using b by (simp only: unat_sub_le u1)
  show ln: "unat (lower + wn_size w) = unat lower + unat (wn_size w)"
    using b by (intro unat_add_small) simp
  show "unat (lower + wn_size w - 1) = unat lower + unat (wn_size w) - 1"
    using b unat_pred [of "lower + wn_size w"] by (simp add: ln)
qed

lemma page_ok_iff:
  "page_ok lower upper w \<longleftrightarrow> 0 < unat (wn_size w) \<and> unat lower \<le> unat (wn_begin w) \<and>
     unat (wn_begin w) + unat (wn_size w) \<le> unat upper + 1"
  by (simp add: page_ok_def word_less_nat_alt word_le_nat_alt)

lemma next_page:
  assumes "page_ok lower upper w" "small upper"
  shows "unat (wn_begin (fst (wb_nextPage True upper w))) = min (unat (wn_begin w) + unat (wn_size w)) (unat upper + 1 - unat (wn_size w))"
    and "page_ok lower upper (fst (wb_nextPage True upper w))"
    and "wn_size (fst (wb_nextPage True upper w)) = wn_size w"
  using page_numbers [OF assms] by (auto simp: wb_nextPage_def Let_def word_less_nat_alt page_ok_iff min_def)

lemma prev_page:
  assumes "page_ok lower upper w" "small upper"
  shows "unat (wn_begin (fst (wb_prevPage True lower w))) = max (unat lower) (unat (wn_begin w) - unat (wn_size w))"
    and "page_ok lower upper (fst (wb_prevPage True lower w))"
    and "wn_size (fst (wb_prevPage True lower w)) = wn_size w"
  using page_numbers [OF assms]
  by (auto simp: wb_prevPage_def Let_def prev_begin_def word_less_nat_alt page_ok_iff max_def unat_sub_le)

lemma last_page:
  assumes "page_ok lower upper w" "small upper"
  shows "unat (wn_begin (fst (wb_lastPage True lower upper w))) + unat (wn_size w) = unat upper + 1"
    and "page_ok lower upper (fst (wb_lastPage True lower upper w))"
  using page_numbers [OF assms] by (auto simp: wb_lastPage_def Let_def word_less_nat_alt page_ok_iff unat_eq_0)

lemma short_list_next_page_empty:
  assumes "small n" "unat short + 1 < unat n" "k \<le> short"
  shows "\<not> wn_accepts (fst (wb_nextPage True short \<lparr>wn_size = n, wn_begin = 0\<rparr>)) k"
proof -
  have n: "unat n < 2 ^ 30"
    using assms(1) by (simp add: small_def)
  have "unat (n + n) = unat n + unat n"
    using n by (intro unat_add_small) simp
  then have "unat (n + n - 1) = 2 * unat n - 1"
    using assms(2) by (simp add: unat_pred)
  then have "short < n + n - 1"
    using assms(2) by (simp add: word_less_nat_alt)
  moreover have "unat (short - n) = 2 ^ 32 + unat short - unat n"
    using assms(2) by (simp add: unat_sub_if_size word_size)
  then have "unat (short - n + 1) = 2 ^ 32 + unat short + 1 - unat n"
    using assms(2) n unat_add_small [of "short - n" 1] by simp
  then have "\<not> short - n + 1 \<le> k"
    using assms n by (simp add: word_le_nat_alt)
  ultimately show ?thesis
    by (simp add: wb_nextPage_def wn_accepts_def Let_def)
qed



text \<open>What setFilter leaves in the fields that describe the filter.\<close>

definition fb_set_to :: "block_filter \<Rightarrow> bool \<Rightarrow> int option \<Rightarrow> int option \<Rightarrow> string \<Rightarrow> fb_state \<Rightarrow> bool" where
  "fb_set_to f p b e h s \<longleftrightarrow>
     fb_filter s = f \<and> fb_enablePeriod s = p \<and> (p \<longrightarrow> fb_begin s = b \<and> fb_end s = e) \<and> fb_hash s = h"

lemma fb_assign_sets: "fb_set_to f p b e h (fst (fb_assign f p b e h s))"
  by (simp add: fb_assign_def fb_set_to_def Let_def)

lemma fb_assign_same: "fb_set_to f p b e h s \<Longrightarrow> fb_assign f p b e h s = (s, False)"
  by (cases s) (simp add: fb_assign_def fb_set_to_def Let_def)

lemma fb_assign_new_hash: "fb_hash s \<noteq> h \<Longrightarrow> snd (fb_assign f p b e h s)"
  by (simp add: fb_assign_def Let_def)

lemma fb_heights_set:
  "fb_set_to f p b e h (s\<lparr>fb_beginHeight := x, fb_endHeight := y\<rparr>) = fb_set_to f p b e h s"
  by (simp add: fb_set_to_def)

lemma fb_span_set: "fb_set_to f p b e h (fb_span r s) = fb_set_to f p b e h s" "fb_set_to f p b e h (fb_nothing s) = fb_set_to f p b e h s"
  by (auto simp: fb_span_def fb_nothing_def fb_heights_set split: prod.split preload_status.split)

lemma fb_setFilter_sets: "fb_set_to f p b e h (fb_setFilter P f p b e h s)"
proof -
  obtain t need where t: "fb_assign f p b e h s = (t, need)"
    by (cases "fb_assign f p b e h s")
  have "fb_set_to f p b e h t"
    using fb_assign_sets [of f p b e h s] by (simp add: t)
  then show ?thesis
    by (auto simp: fb_setFilter_def t Let_def fb_span_set fb_heights_set split: option.split prod.split)
qed

lemma fb_setFilter_again: "fb_set_to f p b e h s \<Longrightarrow> fb_setFilter P f p b e h s = s"
  by (simp add: fb_setFilter_def fb_assign_same)

lemma fb_setFilter_search:
  assumes "h \<noteq> []" "fb_hash s \<noteq> h"
  shows "\<exists>t. fb_setFilter P f p b e h s =
    (if fromHex_size h = 32 then fb_span (pl_hash P h) t
     else case to_uint h of None \<Rightarrow> fb_nothing t | Some k \<Rightarrow> fb_span (pl_height P k) t)"
  using assms fb_assign_new_hash [of s h f p b e]
  by (cases "fb_assign f p b e h s") (auto simp: fb_setFilter_def)

lemma fb_span_accepts:
  "fb_accepts (fb_span (PRELOAD_SUCCESS, k, k) t) False row \<longleftrightarrow> row = k"
  "row \<noteq> INVALID_BLOCK_HEIGHT \<Longrightarrow> \<not> fb_accepts (fb_span (PRELOAD_FAIL, x, y) t) False row"
  by (auto simp: fb_accepts_def fb_span_def fb_nothing_def INVALID_BLOCK_HEIGHT_def word_order.extremum_uniqueI)

lemma height_range_one: "height_range [d] INVALID_BLOCK_HEIGHT 0 = (bd_height d, bd_height d)"
proof -
  have "bd_height d < - 1 \<or> bd_height d = - 1" "0 < bd_height d \<or> bd_height d = 0"
    using word_order.not_eq_extremum [of "bd_height d"] word_neq_0_conv [of "bd_height d"] by blast+
  then show ?thesis
    by (auto simp: INVALID_BLOCK_HEIGHT_def)
qed

text \<open>
  Searching for a block. When a 64-digit hash is entered and the library
  knows a block of that hash, exactly the row at the block's height is shown;
  when the library fails, no row is. The same holds for a number and the block
  at that height. Resetting the filter shows every row, and setting the same
  filter again changes nothing.
\<close>

theorem block_search_shows_block:
  assumes "h \<noteq> []" "fb_hash s \<noteq> h"
    and "fromHex_size h = 32 \<longrightarrow> pl_hash P h = snd (preloadBlocksOf X [bytes] ew)"
    and "\<forall>k. fromHex_size h \<noteq> 32 \<and> to_uint h = Some k \<longrightarrow>
           Some (pl_height P k) = map_option snd (preloadBlocksAt X [k] ew)"
    and t_def: "t = fb_setFilter P f p b e h s"
  shows "(fromHex_size h = 32 \<and> x_getBlocksByHash X (ew_explorer ew) [bytes] = Inr [d] \<longrightarrow>
           (\<forall>row. fb_accepts t False row \<longleftrightarrow> row = bd_height d)) \<and>
    (fromHex_size h = 32 \<and> x_getBlocksByHash X (ew_explorer ew) [bytes] = Inl x \<longrightarrow>
           (\<forall>row. row \<noteq> INVALID_BLOCK_HEIGHT \<longrightarrow> \<not> fb_accepts t False row)) \<and>
    (\<forall>k. fromHex_size h \<noteq> 32 \<and> to_uint h = Some k \<and> x_getBlocks X (ew_explorer ew) [k] = Inr [[d]] \<longrightarrow>
           (\<forall>row. fb_accepts t False row \<longleftrightarrow> row = bd_height d)) \<and>
    (\<forall>row. fb_accepts (fb_resetFilter t) False row) \<and>
    fb_setFilter P f p b e h t = t"
proof -
  obtain u where u: "t = (if fromHex_size h = 32 then fb_span (pl_hash P h) u
     else case to_uint h of None \<Rightarrow> fb_nothing u | Some k \<Rightarrow> fb_span (pl_height P k) u)"
    using fb_setFilter_search [OF assms(1,2)] unfolding t_def by blast
  have again: "fb_setFilter P f p b e h t = t"
    unfolding t_def by (intro fb_setFilter_again fb_setFilter_sets)
  have reset: "fb_accepts (fb_resetFilter t) False row" for row
    by (simp add: fb_accepts_def fb_resetFilter_def fb_new_def INVALID_BLOCK_HEIGHT_def)
  have found: "pl_hash P h = (PRELOAD_SUCCESS, bd_height d, bd_height d)"
    if "fromHex_size h = 32" "x_getBlocksByHash X (ew_explorer ew) [bytes] = Inr [d]"
    using assms(3) that
    by (simp add: preloadBlocksOf_def preloadHashes_def height_range_one await_emit del: height_range.simps)
  have failed: "pl_hash P h = (PRELOAD_FAIL, INVALID_BLOCK_HEIGHT, INVALID_BLOCK_HEIGHT)"
    if "fromHex_size h = 32" "x_getBlocksByHash X (ew_explorer ew) [bytes] = Inl x"
    using assms(3) that by (simp add: preloadBlocksOf_def preloadHashes_def preload_failed_def await_emit)
  have at: "pl_height P k = (PRELOAD_SUCCESS, bd_height d, bd_height d)"
    if "fromHex_size h \<noteq> 32" "to_uint h = Some k" "x_getBlocks X (ew_explorer ew) [k] = Inr [[d]]" for k
    using assms(4) that
    by (simp add: preloadBlocksAt_def preloadIndexes_def height_range_one await_emit del: height_range.simps)
  show ?thesis
    using again reset found failed at by (auto simp: u fb_span_accepts)
qed

definition demo_preloads :: preloads where
  "demo_preloads = \<lparr>pl_hash = (\<lambda>_. (PRELOAD_FAIL, 0, 0)), pl_height = (\<lambda>k. (PRELOAD_SUCCESS, k, k)),
     pl_times = (\<lambda>_ _. (PRELOAD_FAIL, 0, 0)), pl_now = 0, pl_days_before = (\<lambda>n t. t - n), pl_month_before = (\<lambda>t. t - 1),
     pl_year_before = (\<lambda>t. t - 1)\<rparr>"

theorem block_search_shows_block_witness:
  "fb_accepts (fb_setFilter demo_preloads All False None None ''7'' fb_new) False 7"
proof -
  have seven: "to_uint ''7'' = Some 7" "fromHex_size ''7'' \<noteq> 32"
    by (simp_all add: to_uint_def read_unsigned_def starts_with_def trimmed_def is_space_def fromHex_size_def is_hex_def
        is_digit_def undec_def digit_value_def)
  have load: "map_option snd (preloadBlocksAt (demo_chain 9) [k] (ew_new ())) = Some (PRELOAD_SUCCESS, k, k)" for k
    by (simp add: preloadBlocksAt_def preloadIndexes_def demo_chain_def height_range_one await_emit ew_new_def
        del: height_range.simps)
  have "x_getBlocks (demo_chain 9) (ew_explorer (ew_new ())) [7] = Inr [[some_block 7]]"
    by (simp add: demo_chain_def)
  moreover have "Some (pl_height demo_preloads k) = map_option snd (preloadBlocksAt (demo_chain 9) [k] (ew_new ()))" for k
    by (simp add: load demo_preloads_def)
  ultimately have "\<forall>row. fb_accepts (fb_setFilter demo_preloads All False None None ''7'' fb_new) False row \<longleftrightarrow> row = bd_height (some_block 7)"
    using block_search_shows_block [where h = "''7''" and s = fb_new and P = demo_preloads and X = "demo_chain 9" and bytes = "[]"
        and ew = "ew_new ()" and f = All and p = False and b = None and e = None and d = "some_block 7"] seven
    by (simp add: fb_new_def)
  then show ?thesis
    by simp
qed

end
