(* ===== verification/MappedFile.thy ===== *)
theory MappedFile
  imports Transition
begin

text \<open>
  A file mapped into memory (src/Platform/Posix/System/MemoryMappedFile.cpp).
  The operating system answers each call through a record of results; what it
  holds for the object, the open descriptors and the live mappings, is part of
  the state. An error code of 0 is success.
\<close>

section \<open>State and system calls\<close>

datatype map_address = NullAddress | MapFailed | Mapped nat

record mapped_file =
  mm_file :: int
  mm_path :: string
  mm_size :: u64
  mm_data :: map_address
  mm_descriptors :: "int set"
  mm_mappings :: "nat set"

text \<open>The answers to the calls of one operation; errno is what a failing call leaves.\<close>

record sys_answers =
  sa_open :: "int option"
  sa_truncate :: bool
  sa_stat :: "u64 option"
  sa_map :: "nat option"
  sa_sync :: bool
  sa_fsync :: bool
  sa_unmap :: bool
  sa_close :: bool
  sa_rename :: bool
  sa_errno :: int

definition answers_ok :: "sys_answers \<Rightarrow> bool" where
  "answers_ok A \<longleftrightarrow> sa_errno A \<noteq> 0 \<and> (\<forall>f. sa_open A = Some f \<longrightarrow> 0 \<le> f)"

definition mm_new :: mapped_file where
  "mm_new = \<lparr>mm_file = -1, mm_path = [], mm_size = 0, mm_data = NullAddress, mm_descriptors = {}, mm_mappings = {}\<rparr>"

definition isOpened :: "mapped_file \<Rightarrow> bool" where
  "isOpened s \<longleftrightarrow> mm_data s \<noteq> NullAddress"

text \<open>open(2), ftruncate(2), which refuses a size that is negative as an off_t, and mmap(2), which refuses 0 bytes.\<close>

definition sys_open :: "sys_answers \<Rightarrow> mapped_file \<Rightarrow> mapped_file" where
  "sys_open A s =
     (case sa_open A of
        None \<Rightarrow> s\<lparr>mm_file := -1\<rparr>
      | Some f \<Rightarrow> s\<lparr>mm_file := f, mm_descriptors := insert f (mm_descriptors s)\<rparr>)"

definition sys_truncate :: "sys_answers \<Rightarrow> u64 \<Rightarrow> bool" where
  "sys_truncate A sz \<longleftrightarrow> sa_truncate A \<and> 0 \<le> sint sz"

definition sys_map :: "sys_answers \<Rightarrow> u64 \<Rightarrow> mapped_file \<Rightarrow> mapped_file" where
  "sys_map A sz s =
     (case (if sz = 0 then None else sa_map A) of
        None \<Rightarrow> s\<lparr>mm_data := MapFailed\<rparr>
      | Some a \<Rightarrow> s\<lparr>mm_data := Mapped a, mm_mappings := insert a (mm_mappings s)\<rparr>)"

text \<open>msync(2) fails on an address that is not mapped.\<close>

fun sys_sync :: "sys_answers \<Rightarrow> map_address \<Rightarrow> bool" where
  "sys_sync A (Mapped a) \<longleftrightarrow> sa_sync A"
| "sys_sync A _ \<longleftrightarrow> False"


section \<open>Operations\<close>

definition mm_flush :: "sys_answers \<Rightarrow> mapped_file \<Rightarrow> int" where
  "mm_flush A s = (if sys_sync A (mm_data s) \<and> sa_fsync A then 0 else sa_errno A)"

definition close_descriptor :: "sys_answers \<Rightarrow> mapped_file \<Rightarrow> mapped_file \<times> int" where
  "close_descriptor A s =
     (if mm_file s \<noteq> -1 then
        if sa_close A then (s\<lparr>mm_file := -1, mm_descriptors := mm_descriptors s - {mm_file s}\<rparr>, 0)
        else (s, sa_errno A)
      else (s, 0))"

definition mm_close :: "sys_answers \<Rightarrow> mapped_file \<Rightarrow> mapped_file \<times> int" where
  "mm_close A s =
     (if mm_data s \<noteq> NullAddress then
        let ec = mm_flush A s in
        if ec \<noteq> 0 then (s, ec)
        else if sa_unmap A then
          close_descriptor A (s\<lparr>mm_data := NullAddress,
            mm_mappings := mm_mappings s - (case mm_data s of Mapped a \<Rightarrow> {a} | _ \<Rightarrow> {})\<rparr>)
        else (s, sa_errno A)
      else close_descriptor A s)"

text \<open>The exit handler of a failed create or open: the error of the failed call, and a close whose error is ignored.\<close>

definition fail_exit :: "sys_answers \<Rightarrow> sys_answers \<Rightarrow> mapped_file \<Rightarrow> mapped_file \<times> int" where
  "fail_exit A F s = (fst (mm_close F s), sa_errno A)"

definition close_first :: "sys_answers \<Rightarrow> mapped_file \<Rightarrow> mapped_file \<times> int" where
  "close_first C s = (if isOpened s then mm_close C s else (s, 0))"

text \<open>C answers the close of a file still open, A the calls of the operation, F those of the exit handler.\<close>

definition mm_create ::
  "sys_answers \<Rightarrow> sys_answers \<Rightarrow> sys_answers \<Rightarrow> string \<Rightarrow> u64 \<Rightarrow> mapped_file \<Rightarrow> mapped_file \<times> int" where
  "mm_create C A F path sz s =
     (case close_first C s of (s0, ec) \<Rightarrow>
        if ec \<noteq> 0 then (s0, ec)
        else
          let s1 = sys_open A s0 in
          if mm_file s1 = -1 then fail_exit A F s1
          else if \<not> sys_truncate A sz then fail_exit A F s1
          else
            let s2 = sys_map A sz s1 in
            if mm_data s2 = MapFailed then fail_exit A F s2
            else (s2\<lparr>mm_size := sz, mm_path := path\<rparr>, 0))"

definition mm_open ::
  "sys_answers \<Rightarrow> sys_answers \<Rightarrow> sys_answers \<Rightarrow> string \<Rightarrow> mapped_file \<Rightarrow> mapped_file \<times> int" where
  "mm_open C A F path s =
     (case close_first C s of (s0, ec) \<Rightarrow>
        if ec \<noteq> 0 then (s0, ec)
        else
          let s1 = sys_open A s0 in
          if mm_file s1 = -1 then fail_exit A F s1
          else (case sa_stat A of
              None \<Rightarrow> fail_exit A F s1
            | Some sz \<Rightarrow>
                let s2 = sys_map A sz (s1\<lparr>mm_size := sz\<rparr>) in
                if mm_data s2 = MapFailed then fail_exit A F s2
                else (s2\<lparr>mm_path := path\<rparr>, 0)))"

text \<open>None is a failed assertion.\<close>

definition mm_rename :: "sys_answers \<Rightarrow> string \<Rightarrow> mapped_file \<Rightarrow> (mapped_file \<times> int) option" where
  "mm_rename A path s =
     (if \<not> isOpened s then None
      else if sa_rename A then Some (s\<lparr>mm_path := path\<rparr>, 0)
      else Some (s, sa_errno A))"

definition mm_swap :: "mapped_file \<Rightarrow> mapped_file \<Rightarrow> mapped_file \<times> mapped_file" where
  "mm_swap s t = (t, s)"

text \<open>The variants that throw: Inl is the code of the system_error.\<close>

definition throwing :: "mapped_file \<times> int \<Rightarrow> mapped_file \<times> (int + unit)" where
  "throwing r = (fst r, if snd r \<noteq> 0 then Inl (snd r) else Inr ())"

definition mm_create_throws where "mm_create_throws C A F path sz s = throwing (mm_create C A F path sz s)"

definition mm_open_throws where "mm_open_throws C A F path s = throwing (mm_open C A F path s)"

definition mm_close_throws where "mm_close_throws A s = throwing (mm_close A s)"

definition mm_rename_throws where "mm_rename_throws A path s = map_option throwing (mm_rename A path s)"

definition mm_data_of :: "mapped_file \<Rightarrow> map_address option" where
  "mm_data_of s = (if isOpened s then Some (mm_data s) else None)"

definition mm_size_of :: "mapped_file \<Rightarrow> u64 option" where
  "mm_size_of s = (if isOpened s then Some (mm_size s) else None)"

definition mm_path_of :: "mapped_file \<Rightarrow> string option" where
  "mm_path_of s = (if isOpened s then Some (mm_path s) else None)"


section \<open>What the object holds\<close>

text \<open>
  The mapping of the object is the only live one, and while there is a mapping,
  or what a failed mapping left, the descriptor is open.
\<close>

definition holds :: "mapped_file \<Rightarrow> bool" where
  "holds s \<longleftrightarrow>
     (case mm_data s of
        NullAddress \<Rightarrow> mm_mappings s = {}
      | MapFailed \<Rightarrow> mm_mappings s = {} \<and> mm_file s \<in> mm_descriptors s
      | Mapped a \<Rightarrow> mm_mappings s = {a} \<and> mm_file s \<in> mm_descriptors s \<and> 0 < mm_size s) \<and>
     mm_descriptors s \<subseteq> {f. 0 \<le> f} \<and> (mm_file s \<noteq> -1 \<longrightarrow> mm_file s \<in> mm_descriptors s)"

definition clean :: "mapped_file \<Rightarrow> bool" where
  "clean s \<longleftrightarrow> mm_file s = -1 \<and> mm_data s = NullAddress \<and> mm_descriptors s = {} \<and> mm_mappings s = {}"

definition wedged :: "mapped_file \<Rightarrow> bool" where
  "wedged s \<longleftrightarrow> mm_data s = MapFailed \<and> mm_file s \<in> mm_descriptors s"

lemmas mm_defs = mm_create_def mm_open_def mm_close_def close_first_def close_descriptor_def fail_exit_def mm_flush_def
  sys_open_def sys_map_def isOpened_def Let_def

lemma word_pos: "sz \<noteq> 0 \<Longrightarrow> (0 :: u64) < sz"
  by (simp add: word_neq_0_conv)

lemma close_descriptor_holds: "holds s \<Longrightarrow> mm_data s = NullAddress \<Longrightarrow> holds (fst (close_descriptor A s))"
  by (auto simp: holds_def close_descriptor_def)

lemma unmapped_holds:
  "holds s \<Longrightarrow> holds (s\<lparr>mm_data := NullAddress, mm_mappings := mm_mappings s - (case mm_data s of Mapped a \<Rightarrow> {a} | _ \<Rightarrow> {})\<rparr>)"
  by (cases "mm_data s") (simp_all add: holds_def)

lemma close_holds: "holds s \<Longrightarrow> holds (fst (mm_close A s))"
  using close_descriptor_holds [OF unmapped_holds, of s A] close_descriptor_holds [of s A]
  by (simp add: mm_close_def Let_def)

lemma close_first_holds: "holds s \<Longrightarrow> holds (fst (close_first A s))"
  by (simp add: close_first_def close_holds)

lemma close_first_closes:
  "answers_ok A \<Longrightarrow> snd (close_first A s) = 0 \<Longrightarrow> mm_data (fst (close_first A s)) = NullAddress"
  by (auto simp: close_first_def mm_close_def close_descriptor_def isOpened_def mm_flush_def answers_ok_def Let_def
      split: if_splits)

lemma open_holds: "answers_ok A \<Longrightarrow> holds s \<Longrightarrow> mm_data s = NullAddress \<Longrightarrow> holds (sys_open A s)"
  by (auto simp: holds_def sys_open_def answers_ok_def split: option.split)

lemma map_fails_holds:
  "holds s \<Longrightarrow> mm_data s = NullAddress \<Longrightarrow> mm_file s \<noteq> -1 \<Longrightarrow> mm_data (sys_map A sz s) = MapFailed \<Longrightarrow> holds (sys_map A sz s)"
  by (auto simp: holds_def sys_map_def split: option.splits if_splits)

lemma map_holds:
  "holds s \<Longrightarrow> mm_data s = NullAddress \<Longrightarrow> mm_file s \<noteq> -1 \<Longrightarrow> mm_data (sys_map A sz s) \<noteq> MapFailed \<Longrightarrow>
   holds (sys_map A sz s\<lparr>mm_size := sz, mm_path := path\<rparr>)"
  using word_pos [of sz] by (auto simp: holds_def sys_map_def split: option.splits if_splits)

lemma holds_fields [simp]:
  "mm_data s = NullAddress \<Longrightarrow> holds (s\<lparr>mm_size := z\<rparr>) = holds s" "holds (s\<lparr>mm_path := p\<rparr>) = holds s"
  by (cases "mm_data s"; simp add: holds_def)+

lemma open_data [simp]: "mm_data (sys_open A s) = mm_data s" "mm_size (sys_open A s) = mm_size s"
  by (simp_all add: sys_open_def split: option.split)

lemma create_holds:
  assumes "answers_ok C" "answers_ok A" "holds s"
  shows "holds (fst (mm_create C A F path sz s))"
proof (cases "snd (close_first C s) = 0")
  case True
  let ?s = "fst (close_first C s)" and ?s1 = "sys_open A (fst (close_first C s))"
  have null: "mm_data ?s = NullAddress"
    using close_first_closes [OF assms(1) True] .
  then have "holds ?s1"
    using close_first_holds [OF assms(3)] by (intro open_holds [OF assms(2)]) simp_all
  then show ?thesis
    using True null map_fails_holds [of ?s1 A sz] map_holds [of ?s1 A sz path]
    by (simp add: mm_create_def fail_exit_def close_holds Let_def split_beta)
qed (simp add: mm_create_def close_first_holds assms(3) split_beta)

lemma map_size [simp]: "sys_map A sz (s\<lparr>mm_size := z\<rparr>) = sys_map A sz s\<lparr>mm_size := z\<rparr>"
  by (simp add: sys_map_def split: option.split)

lemma open_file_holds:
  assumes "answers_ok C" "answers_ok A" "holds s"
  shows "holds (fst (mm_open C A F path s))"
proof (cases "snd (close_first C s) = 0")
  case True
  let ?s = "fst (close_first C s)" and ?s1 = "sys_open A (fst (close_first C s))"
  have null: "mm_data ?s = NullAddress"
    using close_first_closes [OF assms(1) True] .
  then have h: "holds ?s1"
    using close_first_holds [OF assms(3)] by (intro open_holds [OF assms(2)]) simp_all
  have "holds (sys_map A sz ?s1\<lparr>mm_size := sz\<rparr>)"
    if "mm_file ?s1 \<noteq> -1" "mm_data (sys_map A sz ?s1) = MapFailed" for sz
    using map_fails_holds [of "?s1\<lparr>mm_size := sz\<rparr>" A sz] h null that by simp
  then show ?thesis
    using True null h map_holds [of ?s1 A _ path]
    by (simp add: mm_open_def fail_exit_def close_holds Let_def split_beta split: option.split)
qed (simp add: mm_open_def close_first_holds assms(3) split_beta)


section \<open>Runs\<close>

inductive mm_step :: "mapped_file \<Rightarrow> mapped_file \<Rightarrow> bool" where
  create: "answers_ok C \<Longrightarrow> answers_ok A \<Longrightarrow> mm_step s (fst (mm_create C A F path sz s))"
| open_file: "answers_ok C \<Longrightarrow> answers_ok A \<Longrightarrow> mm_step s (fst (mm_open C A F path s))"
| close: "mm_step s (fst (mm_close A s))"
| rename: "mm_rename A path s = Some (t, ec) \<Longrightarrow> mm_step s t"

lemma step_holds: "holds s \<Longrightarrow> mm_step s t \<Longrightarrow> holds t"
  by (erule mm_step.cases)
    (auto simp: create_holds open_file_holds close_holds mm_rename_def split: if_splits)

interpretation mapping: inductive_invariant "\<lambda>s. s = mm_new" mm_step holds
  by unfold_locales (simp add: holds_def mm_new_def, rule step_holds)



section \<open>A mapping that fails\<close>

lemma wedged_stays:
  assumes "wedged s" "answers_ok C"
  shows "mm_close C s = (s, sa_errno C)" "mm_create C A F path sz s = (s, sa_errno C)"
    "mm_open C A F path s = (s, sa_errno C)"
  using assms
  by (simp_all add: wedged_def mm_close_def mm_flush_def mm_create_def mm_open_def close_first_def isOpened_def
      answers_ok_def Let_def)

lemma fail_exit_clean:
  assumes "mm_data s = NullAddress" "mm_mappings s = {}" "sa_close F"
    "mm_file s = -1 \<and> mm_descriptors s = {} \<or> mm_file s \<noteq> -1 \<and> mm_descriptors s = {mm_file s}"
  shows "clean (fst (fail_exit A F s)) \<and> snd (fail_exit A F s) = sa_errno A"
  using assms by (auto simp: fail_exit_def mm_close_def close_descriptor_def clean_def)

lemma fail_exit_wedged:
  "mm_data s = MapFailed \<Longrightarrow> mm_file s \<in> mm_descriptors s \<Longrightarrow> answers_ok F \<Longrightarrow> wedged (fst (fail_exit A F s))"
  by (simp add: fail_exit_def mm_close_def mm_flush_def answers_ok_def wedged_def Let_def)



section \<open>Witnesses\<close>

definition demo_answers :: "u64 \<Rightarrow> sys_answers" where
  "demo_answers z = \<lparr>sa_open = Some 3, sa_truncate = True, sa_stat = Some z, sa_map = Some 4096, sa_sync = True,
     sa_fsync = True, sa_unmap = True, sa_close = True, sa_rename = True, sa_errno = 22\<rparr>"

lemma demo_answers_ok: "answers_ok (demo_answers z)" "sa_close (demo_answers z)"
  by (simp_all add: answers_ok_def demo_answers_def)



end
