(* ===== verification/KeyExchange.thy ===== *)
theory KeyExchange
  imports WalletWorker AmountFormat
begin

text \<open>
  Keys as text and bytes: the key dialog (src/src/Gui/Common/KeyDialog.cpp), the
  conversions of the main window and the parsing of imported keys and addresses
  (src/src/Gui/MainWindow/MainWindow.cpp). Base58, the derivation of a public key
  and the check of a key are the CryptoNote library's and stay parameters.
\<close>

section \<open>Hexadecimal text\<close>

definition hex_digit :: "nat \<Rightarrow> char" where
  "hex_digit d = (if d < 10 then char_of (48 + d) else char_of (87 + d))"

definition hex_value :: "char \<Rightarrow> nat option" where
  "hex_value ch =
     (let n = of_char ch :: nat in
      if 48 \<le> n \<and> n \<le> 57 then Some (n - 48)
      else if 97 \<le> n \<and> n \<le> 102 then Some (n - 87)
      else if 65 \<le> n \<and> n \<le> 70 then Some (n - 55)
      else None)"

text \<open>QByteArray::toHex and toUpper.\<close>

definition byte_hex :: "char \<Rightarrow> string" where
  "byte_hex ch = (let n = of_char ch :: nat in [hex_digit (n div 16), hex_digit (n mod 16)])"

definition toHex :: "string \<Rightarrow> string" where
  "toHex b = concat (map byte_hex b)"

definition upper_hex :: "char \<Rightarrow> char" where
  "upper_hex ch = (let n = of_char ch :: nat in if 97 \<le> n \<and> n \<le> 122 then char_of (n - 32) else ch)"

text \<open>QByteArray::fromHex skips what is no digit; an odd digit at the front becomes a byte of its own.\<close>

fun join_digits :: "nat list \<Rightarrow> string" where
  "join_digits (a # b # ds) = char_of (16 * a + b) # join_digits ds"
| "join_digits _ = []"

definition digits_of :: "string \<Rightarrow> nat list" where
  "digits_of s = List.map_filter hex_value s"

definition fromHex :: "string \<Rightarrow> string" where
  "fromHex s = (let ds = digits_of s in join_digits (if odd (length ds) then 0 # ds else ds))"


section \<open>Keys as bytes\<close>

definition convertAccountKeysToByteArray :: "account_keys \<Rightarrow> string" where
  "convertAccountKeysToByteArray ks = spendPublic ks @ viewPublic ks @ spendSecret ks @ viewSecret ks"

text \<open>Four reads of 32 bytes; None when a key would stay uninitialised.\<close>

definition convertByteArrayToAccountKeys :: "string \<Rightarrow> account_keys option" where
  "convertByteArrayToAccountKeys b =
     (if length b < 128 then None
      else Some \<lparr>viewPublic = take 32 (drop 32 b), viewSecret = take 32 (drop 96 b),
                 spendPublic = take 32 b, spendSecret = take 32 (drop 64 b)\<rparr>)"

definition sizeof_keys :: nat where "sizeof_keys = 128"

definition well_sized :: "account_keys \<Rightarrow> bool" where
  "well_sized ks \<longleftrightarrow> length (spendPublic ks) = 32 \<and> length (viewPublic ks) = 32 \<and>
     length (spendSecret ks) = 32 \<and> length (viewSecret ks) = 32"

record key_lib =
  kl_prefix :: u64
  kl_encode :: "u64 \<Rightarrow> string \<Rightarrow> string"
  kl_decode :: "string \<Rightarrow> (u64 \<times> string) option"
  kl_public :: "skey \<Rightarrow> skey option"
  kl_check :: "skey \<Rightarrow> bool"
  kl_fromHex :: "string \<Rightarrow> nat \<Rightarrow> string option"
  kl_toHex :: "skey \<Rightarrow> string"

text \<open>A Base58 text of this network that holds a full set of keys.\<close>

definition decode_blob :: "key_lib \<Rightarrow> string \<Rightarrow> account_keys option" where
  "decode_blob L t =
     (case kl_decode L t of
        None \<Rightarrow> None
      | Some (p, d) \<Rightarrow> if p = kl_prefix L \<and> length d = sizeof_keys then convertByteArrayToAccountKeys d else None)"


section \<open>Exporting\<close>

record key_view =
  kv_text :: string
  kv_viewKey :: string
  kv_spendKey :: string
  kv_title :: string

definition exportDialog :: "key_lib \<Rightarrow> string \<Rightarrow> bool \<Rightarrow> key_view option" where
  "exportDialog L key tracking =
     map_option (\<lambda>ks.
       if tracking then
         \<lparr>kv_text = map upper_hex (toHex key), kv_viewKey = kl_toHex L (viewSecret ks), kv_spendKey = [],
          kv_title = ''Export tracking key''\<rparr>
       else
         \<lparr>kv_text = kl_encode L (kl_prefix L) key, kv_viewKey = kl_toHex L (viewSecret ks),
          kv_spendKey = kl_toHex L (spendSecret ks), kv_title = ''Export key''\<rparr>)
       (convertByteArrayToAccountKeys key)"

text \<open>The file written for a chosen path, None when no path is chosen.\<close>

definition saveKey :: "string \<Rightarrow> bool \<Rightarrow> string \<Rightarrow> (string \<times> string) option" where
  "saveKey key tracking path =
     (if path = [] then None
      else if tracking \<and> \<not> ends_with path ''.trackingkey'' then Some (path @ ''.trackingkey'', key)
      else if \<not> tracking \<and> \<not> ends_with path ''.walletkey'' then Some (path @ ''.walletkey'', key)
      else Some (path, key))"

definition exportKey :: "key_lib \<Rightarrow> account_keys \<Rightarrow> string \<times> key_view option" where
  "exportKey L ks = (let b = convertAccountKeysToByteArray ks in (b, exportDialog L b False))"

definition exportTrackingKey :: "key_lib \<Rightarrow> account_keys \<Rightarrow> string \<times> key_view option" where
  "exportTrackingKey L ks =
     (let b = convertAccountKeysToByteArray (ks\<lparr>spendSecret := NULL_KEY\<rparr>) in (b, exportDialog L b True))"


section \<open>Importing\<close>

record key_import =
  ki_text :: string
  ki_viewKey :: string
  ki_spendKey :: string
  ki_keys :: string
  ki_tracking :: bool

definition importDialog :: key_import where
  "importDialog = \<lparr>ki_text = [], ki_viewKey = [], ki_spendKey = [], ki_keys = [], ki_tracking = False\<rparr>"

definition getKey :: "key_import \<Rightarrow> string" where
  "getKey k = fromHex (ki_text k)"

definition getKeyString :: "key_import \<Rightarrow> string" where
  "getKeyString k = ki_keys k"

text \<open>The handler of a changed key text.\<close>

definition keyChanged :: "key_lib \<Rightarrow> key_import \<Rightarrow> key_import" where
  "keyChanged L k =
     (let k1 = k\<lparr>ki_viewKey := [], ki_spendKey := [], ki_keys := []\<rparr>;
          t = trimmed (ki_text k)
      in case decode_blob L t of
           Some ks \<Rightarrow>
             let tracking = (spendSecret ks = NULL_KEY) in
             k1\<lparr>ki_viewKey := kl_toHex L (viewSecret ks), ki_spendKey := kl_toHex L (spendSecret ks), ki_keys := t,
                ki_tracking := tracking\<rparr>
         | None \<Rightarrow>
             (case convertByteArrayToAccountKeys (getKey k) of
                None \<Rightarrow> k1
              | Some ks \<Rightarrow>
                  let tracking = (spendSecret ks = NULL_KEY);
                      k2 = k1\<lparr>ki_tracking := tracking\<rparr>
                  in if tracking then k2\<lparr>ki_viewKey := kl_toHex L (viewSecret ks)\<rparr> else k2))"

definition enterKeyText :: "key_lib \<Rightarrow> string \<Rightarrow> key_import \<Rightarrow> key_import" where
  "enterKeyText L t k = keyChanged L (k\<lparr>ki_text := t\<rparr>)"

definition loadKey :: "key_lib \<Rightarrow> string \<Rightarrow> key_import \<Rightarrow> key_import" where
  "loadKey L bytes k = enterKeyText L (map upper_hex (toHex bytes)) k"

text \<open>
  The handler of the two key fields. A text of fewer than 64 digits fills only
  the first bytes of its key, the others (junk) are whatever the stack holds.
\<close>

definition key_bytes :: "key_lib \<Rightarrow> string \<Rightarrow> string \<Rightarrow> skey option" where
  "key_bytes L junk t = map_option (\<lambda>b. b @ drop (length b) junk) (kl_fromHex L t 32)"

definition public_of :: "key_lib \<Rightarrow> skey \<Rightarrow> skey \<Rightarrow> skey" where
  "public_of L junk s = (case kl_public L s of Some p \<Rightarrow> p | None \<Rightarrow> junk)"

definition keysChanged :: "key_lib \<Rightarrow> (nat \<Rightarrow> string) \<Rightarrow> key_import \<Rightarrow> key_import" where
  "keysChanged L junk k =
     (let sp = trimmed (ki_spendKey k); vw = trimmed (ki_viewKey k) in
      if sp \<noteq> [] \<and> vw \<noteq> [] then
        let k1 = (enterKeyText L [] k)\<lparr>ki_keys := []\<rparr> in
        (case (key_bytes L (junk 0) sp, key_bytes L (junk 1) vw) of
           (Some s, Some v) \<Rightarrow>
             let t = kl_encode L (kl_prefix L) (convertAccountKeysToByteArray
                   \<lparr>viewPublic = public_of L (junk 2) v, viewSecret = v,
                    spendPublic = public_of L (junk 3) s, spendSecret = s\<rparr>)
             in enterKeyText L t (k1\<lparr>ki_keys := t\<rparr>)
         | _ \<Rightarrow> k1)
      else k)"

text \<open>What importKey makes of the accepted dialog.\<close>

definition imported_keys :: "key_lib \<Rightarrow> key_import \<Rightarrow> account_keys option" where
  "imported_keys L k =
     (if getKeyString k \<noteq> [] \<and> decode_blob L (getKeyString k) \<noteq> None then decode_blob L (getKeyString k)
      else if length (getKey k) = sizeof_keys then convertByteArrayToAccountKeys (getKey k)
      else None)"

text \<open>importAddressRequested: the keys of the new address, over the view keys of the wallet.\<close>

definition parse_address_keys :: "key_lib \<Rightarrow> account_keys \<Rightarrow> string \<Rightarrow> account_keys option" where
  "parse_address_keys L primary input =
     (let t = trimmed input;
          base = primary\<lparr>spendPublic := NULL_KEY, spendSecret := NULL_KEY\<rparr>
      in if t = [] then None
         else case decode_blob L t of
           Some ks \<Rightarrow> Some (base\<lparr>spendPublic := spendPublic ks, spendSecret := spendSecret ks\<rparr>)
         | None \<Rightarrow>
             if length t = 64 \<and> length (fromHex t) = 32 then
               (case kl_public L (fromHex t) of
                  Some p \<Rightarrow> Some (base\<lparr>spendSecret := fromHex t, spendPublic := p\<rparr>)
                | None \<Rightarrow>
                    if kl_check L (fromHex t) then Some (base\<lparr>spendPublic := fromHex t, spendSecret := NULL_KEY\<rparr>)
                    else None)
             else None)"


section \<open>Hexadecimal text can be read back\<close>

lemma hex_digit_cases: "d < 16 \<Longrightarrow> d \<in> {0, 1, 2, 3, 4, 5, 6, 7, 8, 9, 10, 11, 12, 13, 14, 15 :: nat}"
  by (simp; presburger)

lemma hex_value_digit: "d < 16 \<Longrightarrow> hex_value (hex_digit d) = Some d" "d < 16 \<Longrightarrow> hex_value (upper_hex (hex_digit d)) = Some d"
  by (drule hex_digit_cases, auto simp: hex_value_def hex_digit_def upper_hex_def of_char_of)+

lemma nibbles [simp]: "(of_char ch :: nat) div 16 < 16"
  using nat_of_char_less_256 [of ch] by (simp add: less_mult_imp_div_less)

lemma digits_upper: "digits_of (map upper_hex (toHex b)) = digits_of (toHex b)"
  by (induction b) (auto simp: digits_of_def toHex_def byte_hex_def Let_def List.map_filter_def hex_value_digit)

lemma digits_toHex: "digits_of (toHex b) = concat (map (\<lambda>ch. [of_char ch div 16, of_char ch mod 16]) b)"
  by (induction b) (auto simp: digits_of_def toHex_def byte_hex_def Let_def List.map_filter_def hex_value_digit)

lemma byte_digits: "join_digits (concat (map (\<lambda>ch. [of_char ch div 16, of_char ch mod 16]) b)) = b"
  by (induction b) simp_all

lemma even_digits: "even (length (concat (map (\<lambda>ch. [of_char ch div 16, of_char ch mod 16 :: nat]) b)))"
  by (induction b) simp_all

lemma fromHex_toHex [simp]: "fromHex (toHex b) = b" "fromHex (map upper_hex (toHex b)) = b"
  using even_digits [of b] by (simp_all add: fromHex_def digits_upper digits_toHex byte_digits Let_def)

lemma length_toHex [simp]: "length (toHex b) = 2 * length b"
  by (induction b) (simp_all add: toHex_def byte_hex_def Let_def)

lemma bytes_of_keys [simp]:
  "well_sized ks \<Longrightarrow> convertByteArrayToAccountKeys (convertAccountKeysToByteArray ks) = Some ks"
  "well_sized ks \<Longrightarrow> length (convertAccountKeysToByteArray ks) = sizeof_keys"
  by (simp_all add: convertByteArrayToAccountKeys_def convertAccountKeysToByteArray_def well_sized_def sizeof_keys_def)

lemma well_sized_tracking [simp]: "well_sized ks \<Longrightarrow> well_sized (ks\<lparr>spendSecret := NULL_KEY\<rparr>)"
  by (simp add: well_sized_def NULL_KEY_def)


section \<open>What is exported can be imported\<close>

text \<open>What the program relies on in the library's Base58 code.\<close>

definition base58_ok :: "key_lib \<Rightarrow> bool" where
  "base58_ok L \<longleftrightarrow>
     (\<forall>p d. kl_decode L (kl_encode L p d) = Some (p, d)) \<and>
     (\<forall>t p d. kl_decode L t = Some (p, d) \<longrightarrow> t = kl_encode L p d) \<and>
     (\<forall>p d. is_trimmed (kl_encode L p d) \<and> kl_encode L p d \<noteq> []) \<and>
     (\<forall>p d. length d = sizeof_keys \<longrightarrow> length (kl_encode L p d) \<noteq> 2 * sizeof_keys)"

lemma space_no_digit: "is_space ch \<Longrightarrow> hex_value ch = None"
  by (auto simp: is_space_def hex_value_def)

lemma hex_trimmed: "trimmed (map upper_hex (toHex b)) = map upper_hex (toHex b)"
proof -
  have "hex_value ch \<noteq> None" if "ch \<in> set (map upper_hex (toHex b))" for ch
    using that by (auto simp: toHex_def byte_hex_def Let_def hex_value_digit)
  then show ?thesis
    using space_no_digit by (intro trimmed_no_space) fastforce
qed

lemma decode_blob_encode:
  "base58_ok L \<Longrightarrow> well_sized ks \<Longrightarrow>
   decode_blob L (kl_encode L (kl_prefix L) (convertAccountKeysToByteArray ks)) = Some ks"
  by (simp add: base58_ok_def decode_blob_def)

lemma decode_blob_hex:
  "base58_ok L \<Longrightarrow> length b = sizeof_keys \<Longrightarrow> decode_blob L (map upper_hex (toHex b)) = None"
  by (force simp: base58_ok_def decode_blob_def dest: arg_cong [of _ _ length] split: option.split)


lemma exported_keys:
  assumes "base58_ok L" "well_sized ks"
  shows "imported_keys L (enterKeyText L (kl_encode L (kl_prefix L) (convertAccountKeysToByteArray ks)) k) = Some ks"
    "ki_tracking (enterKeyText L (kl_encode L (kl_prefix L) (convertAccountKeysToByteArray ks)) k) \<longleftrightarrow> spendSecret ks = NULL_KEY"
proof -
  have "trimmed (kl_encode L p d) = kl_encode L p d" "kl_encode L p d \<noteq> []" for p d
    using assms(1) by (simp_all add: base58_ok_def is_trimmed_def)
  then show "imported_keys L (enterKeyText L (kl_encode L (kl_prefix L) (convertAccountKeysToByteArray ks)) k) = Some ks"
    "ki_tracking (enterKeyText L (kl_encode L (kl_prefix L) (convertAccountKeysToByteArray ks)) k) \<longleftrightarrow> spendSecret ks = NULL_KEY"
    using decode_blob_encode [OF assms]
    by (simp_all add: enterKeyText_def keyChanged_def imported_keys_def getKeyString_def Let_def)
qed

lemma exported_bytes:
  assumes "base58_ok L" "well_sized ks"
  shows "imported_keys L (loadKey L (convertAccountKeysToByteArray ks) k) = Some ks"
    "ki_tracking (loadKey L (convertAccountKeysToByteArray ks) k) \<longleftrightarrow> spendSecret ks = NULL_KEY"
  using decode_blob_hex [OF assms(1) bytes_of_keys(2) [OF assms(2)]] assms(2)
  by (simp_all add: loadKey_def enterKeyText_def keyChanged_def imported_keys_def getKeyString_def getKey_def
      hex_trimmed Let_def del: map_map)

text \<open>
  C12. The keys a wallet exports, as the text of the dialog or as the saved file,
  are the keys an import yields. The tracking key yields the same keys without
  the spend secret, is recognised as a tracking key, and is the same text and the
  same bytes whatever the spend secret is.
\<close>
theorem keys_roundtrip:
  assumes "base58_ok L" "well_sized ks"
  shows "\<exists>v w. exportKey L ks = (convertAccountKeysToByteArray ks, Some v) \<and>
      imported_keys L (enterKeyText L (kv_text v) k) = Some ks \<and>
      imported_keys L (loadKey L (fst (exportKey L ks)) k) = Some ks \<and>
      snd (exportTrackingKey L ks) = Some w \<and>
      imported_keys L (enterKeyText L (kv_text w) k) = Some (ks\<lparr>spendSecret := NULL_KEY\<rparr>) \<and>
      imported_keys L (loadKey L (fst (exportTrackingKey L ks)) k) = Some (ks\<lparr>spendSecret := NULL_KEY\<rparr>) \<and>
      ki_tracking (enterKeyText L (kv_text w) k) \<and>
      (\<forall>s. exportTrackingKey L (ks\<lparr>spendSecret := s\<rparr>) = exportTrackingKey L ks)"
proof -
  let ?t = "ks\<lparr>spendSecret := NULL_KEY\<rparr>"
  have shown: "enterKeyText L (map upper_hex (toHex (convertAccountKeysToByteArray ?t))) k =
      loadKey L (convertAccountKeysToByteArray ?t) k"
    by (simp add: loadKey_def)
  show ?thesis
    using exported_keys [OF assms] exported_bytes [OF assms]
      exported_bytes [OF assms(1) well_sized_tracking [OF assms(2)]] assms(2)
    by (simp add: exportKey_def exportTrackingKey_def exportDialog_def shown Let_def del: map_map)
qed


section \<open>Importing an address\<close>

lemma length_join_digits: "length (join_digits ds) = length ds div 2"
  by (induction ds rule: join_digits.induct) auto

lemma length_fromHex: "length (fromHex s) = (length (digits_of s) + 1) div 2"
  by (auto simp: fromHex_def length_join_digits Let_def)

lemma length_digits: "length (digits_of s) + length (filter (\<lambda>ch. hex_value ch = None) s) = length s"
  by (induction s) (auto simp: digits_of_def List.map_filter_def)

lemma blob_spend_key:
  "decode_blob L t = Some ks \<Longrightarrow> \<exists>d. kl_decode L t = Some (kl_prefix L, d) \<and> convertByteArrayToAccountKeys d = Some ks"
  by (auto simp: decode_blob_def split: option.splits if_splits)

text \<open>
  An imported address always takes the wallet's own view keys. Its spend keys
  are those of a keys text of this network, or a secret key with the public key
  derived from it, or a checked public key without secret (watch-only); any other
  input is refused. A text of 64 characters in which one character is no
  hexadecimal digit is read all the same, as the key of the other 63 digits.
\<close>
theorem imported_address_keys:
  "(\<forall>ks. parse_address_keys L primary input = Some ks \<longrightarrow>
      viewSecret ks = viewSecret primary \<and> viewPublic ks = viewPublic primary \<and>
      ((\<exists>b. decode_blob L (trimmed input) = Some b \<and> spendPublic ks = spendPublic b \<and> spendSecret ks = spendSecret b) \<or>
       length (trimmed input) = 64 \<and> spendSecret ks = fromHex (trimmed input) \<and>
         kl_public L (spendSecret ks) = Some (spendPublic ks) \<or>
       length (trimmed input) = 64 \<and> spendPublic ks = fromHex (trimmed input) \<and>
         kl_check L (spendPublic ks) \<and> spendSecret ks = NULL_KEY)) \<and>
   (length (trimmed input) = 64 \<and> length (filter (\<lambda>ch. hex_value ch = None) (trimmed input)) = 1 \<and>
      decode_blob L (trimmed input) = None \<and> kl_public L (fromHex (trimmed input)) = Some pub \<longrightarrow>
    parse_address_keys L primary input =
      Some (primary\<lparr>spendSecret := join_digits (0 # digits_of (trimmed input)), spendPublic := pub\<rparr>))"
proof (intro conjI impI allI)
  show "viewSecret ks = viewSecret primary" "viewPublic ks = viewPublic primary"
    "(\<exists>b. decode_blob L (trimmed input) = Some b \<and> spendPublic ks = spendPublic b \<and> spendSecret ks = spendSecret b) \<or>
       length (trimmed input) = 64 \<and> spendSecret ks = fromHex (trimmed input) \<and>
         kl_public L (spendSecret ks) = Some (spendPublic ks) \<or>
       length (trimmed input) = 64 \<and> spendPublic ks = fromHex (trimmed input) \<and>
         kl_check L (spendPublic ks) \<and> spendSecret ks = NULL_KEY"
    if "parse_address_keys L primary input = Some ks" for ks
    using that by (auto simp: parse_address_keys_def Let_def split: option.splits if_splits)
next
  let ?t = "trimmed input"
  assume t: "length ?t = 64 \<and> length (filter (\<lambda>ch. hex_value ch = None) ?t) = 1 \<and> decode_blob L ?t = None \<and>
    kl_public L (fromHex ?t) = Some pub"
  then have n: "length (digits_of ?t) = 63"
    using length_digits [of ?t] by simp
  then have "fromHex ?t = join_digits (0 # digits_of ?t)"
    by (simp add: fromHex_def Let_def)
  moreover have "?t \<noteq> []"
    using t by auto
  ultimately show "parse_address_keys L primary input =
      Some (primary\<lparr>spendSecret := join_digits (0 # digits_of ?t), spendPublic := pub\<rparr>)"
    using t n length_fromHex [of ?t] by (simp add: parse_address_keys_def Let_def)
qed


section \<open>A concrete library\<close>

definition demo_decode :: "string \<Rightarrow> (u64 \<times> string) option" where
  "demo_decode t =
     (let n = length (takeWhile (\<lambda>ch. ch = CHR ''k'') t); r = drop (Suc n) t in
      if n < 2 ^ 64 \<and> t = replicate n (CHR ''k'') @ CHR ''x'' # toHex (fromHex r) then Some (of_nat n, fromHex r) else None)"

definition demo_keys_lib :: key_lib where
  "demo_keys_lib = \<lparr>kl_prefix = 111, kl_encode = (\<lambda>p d. replicate (unat p) (CHR ''k'') @ CHR ''x'' # toHex d),
     kl_decode = demo_decode, kl_public = (\<lambda>s. Some (rev s)), kl_check = (\<lambda>_. True),
     kl_fromHex = (\<lambda>t n. if length t = 2 * n \<and> length (fromHex t) = n then Some (fromHex t) else None),
     kl_toHex = toHex\<rparr>"

lemma demo_prefix: "takeWhile (\<lambda>ch. ch = CHR ''k'') (replicate n (CHR ''k'') @ CHR ''x'' # r) = replicate n (CHR ''k'')"
  by (induction n) simp_all

lemma demo_decode_encode: "demo_decode (replicate (unat (p :: u64)) (CHR ''k'') @ CHR ''x'' # toHex d) = Some (p, d)"
  using unat_bound_64 [of p] by (simp add: demo_decode_def demo_prefix Let_def)

lemma demo_trimmed: "is_trimmed (replicate n (CHR ''k'') @ CHR ''x'' # toHex d)"
proof -
  have "hex_value ch \<noteq> None" if "ch \<in> set (toHex d)" for ch
    using that by (auto simp: toHex_def byte_hex_def Let_def hex_value_digit)
  then show ?thesis
    using space_no_digit unfolding is_trimmed_def
    by (intro trimmed_no_space) (fastforce simp: is_space_def)
qed

lemma demo_base58: "base58_ok demo_keys_lib"
  unfolding base58_ok_def
proof (intro conjI allI impI)
  show "t = kl_encode demo_keys_lib p d" if "kl_decode demo_keys_lib t = Some (p, d)" for t p d
    using that by (auto simp: demo_keys_lib_def demo_decode_def Let_def unat_of_nat split: if_splits)
qed (auto simp: demo_keys_lib_def demo_decode_encode demo_trimmed sizeof_keys_def)

definition demo_account :: account_keys where
  "demo_account = \<lparr>viewPublic = replicate 32 (CHR ''a''), viewSecret = replicate 32 (CHR ''b''),
     spendPublic = replicate 32 (CHR ''c''), spendSecret = replicate 32 (CHR ''d'')\<rparr>"

lemma keys_roundtrip_witness:
  "\<exists>w. snd (exportTrackingKey demo_keys_lib demo_account) = Some w \<and>
    imported_keys demo_keys_lib (enterKeyText demo_keys_lib (kv_text w) importDialog) = Some (demo_account\<lparr>spendSecret := NULL_KEY\<rparr>)"
proof -
  have "well_sized demo_account"
    by (simp add: well_sized_def demo_account_def)
  from keys_roundtrip [OF demo_base58 this, of importDialog] show ?thesis
    by blast
qed

definition no_blob_lib :: key_lib where
  "no_blob_lib = \<lparr>kl_prefix = 111, kl_encode = (\<lambda>_ _. []), kl_decode = (\<lambda>_. None), kl_public = (\<lambda>s. Some (rev s)),
     kl_check = (\<lambda>_. True), kl_fromHex = (\<lambda>_ _. None), kl_toHex = toHex\<rparr>"

definition demo_input :: string where
  "demo_input = replicate 64 (CHR ''1'')"

lemma imported_address_keys_witness:
  "viewSecret (the (parse_address_keys no_blob_lib demo_account demo_input)) = viewSecret demo_account"
proof -
  have "parse_address_keys no_blob_lib demo_account demo_input \<noteq> None"
    by code_simp
  then obtain ks where "parse_address_keys no_blob_lib demo_account demo_input = Some ks"
    by blast
  with imported_address_keys [of no_blob_lib demo_account demo_input "[]"] show ?thesis
    by simp
qed

end
