(* ===== verification/TransactionFilters.thy ===== *)
theory TransactionFilters
  imports TransactionsModel KeyExchange Transition
begin

text \<open>
  The history page: the sorted list of transactions
  (src/src/Models/SortedTransactionsModel.cpp), the chain of filters over it
  (src/src/Gui/Transactions/Filtered*TransactionsModel.cpp) and the frame that
  sets them (src/src/Gui/Transactions/TransactionsFrame.cpp).

  A proxy model is the list of the source rows it shows. Filters by time are
  evaluated at one moment; calendar arithmetic is the library's and its results
  are part of the clock. Letters are compared without case as ASCII.
\<close>

section \<open>Strings without case\<close>

definition lower_char :: "char \<Rightarrow> char" where
  "lower_char ch = (let n = of_char ch :: nat in if 65 \<le> n \<and> n \<le> 90 then char_of (n + 32) else ch)"

definition lower :: "string \<Rightarrow> string" where
  "lower s = map lower_char s"

definition same_ci :: "string \<Rightarrow> string \<Rightarrow> bool" where
  "same_ci s t \<longleftrightarrow> lower s = lower t"

definition starts_ci :: "string \<Rightarrow> string \<Rightarrow> bool" where
  "starts_ci s p \<longleftrightarrow> starts_with (lower s) (lower p)"

fun contains :: "string \<Rightarrow> string \<Rightarrow> bool" where
  "contains [] p \<longleftrightarrow> p = []"
| "contains (ch # s) p \<longleftrightarrow> starts_with (ch # s) p \<or> contains s p"

definition contains_ci :: "string \<Rightarrow> string \<Rightarrow> bool" where
  "contains_ci s p \<longleftrightarrow> contains (lower s) (lower p)"


section \<open>The sorted list\<close>

text \<open>The order of two rows by their dates; a transaction without a date is not in a block yet.\<close>

definition lessThan :: "(nat \<Rightarrow> u64) \<Rightarrow> nat \<Rightarrow> nat \<Rightarrow> bool" where
  "lessThan date l r =
     (if date r = 0 \<and> date l = 0 then l < r
      else if date l = 0 then False
      else if date r = 0 then True
      else date l < date r)"

text \<open>The stable sort of the proxy model.\<close>

fun stable_insert :: "('a \<Rightarrow> 'a \<Rightarrow> bool) \<Rightarrow> 'a \<Rightarrow> 'a list \<Rightarrow> 'a list" where
  "stable_insert lt x [] = [x]"
| "stable_insert lt x (y # ys) = (if lt y x then y # stable_insert lt x ys else x # y # ys)"

definition stable_sort :: "('a \<Rightarrow> 'a \<Rightarrow> bool) \<Rightarrow> 'a list \<Rightarrow> 'a list" where
  "stable_sort lt xs = foldr (stable_insert lt) xs []"

definition raw_time :: "tm_env \<Rightarrow> tm_state \<Rightarrow> nat \<Rightarrow> u64" where
  "raw_time E s row = (case tm_getUserRolesData E s row TM_TIME TMR_RAW_TIME of Some (QU64 d) \<Rightarrow> d | _ \<Rightarrow> 0)"

definition sorted_rows :: "tm_env \<Rightarrow> tm_state \<Rightarrow> nat list" where
  "sorted_rows E s = stable_sort (\<lambda>a b. lessThan (raw_time E s) b a) [0..<tm_rows s]"


section \<open>The filters\<close>

datatype age_filter = FILTER_ALL | LAST_HOUR | LAST_DAY | LAST_WEEK | LAST_MONTH | LAST_YEAR | FILTER_CUSTOM

record clock =
  ck_now :: int
  ck_daysAgo :: "nat \<Rightarrow> int"
  ck_monthAgo :: int
  ck_yearAgo :: int

record tx_filters =
  fa_filter :: age_filter
  fp_begin :: "int option"
  fp_end :: "int option"
  fh_query :: string
  fd_address :: string

definition age_setFilter :: "age_filter \<Rightarrow> tx_filters \<Rightarrow> tx_filters" where
  "age_setFilter a f = (if fa_filter f \<noteq> a then f\<lparr>fa_filter := a\<rparr> else f)"

definition period_setFilter :: "int option \<Rightarrow> int option \<Rightarrow> tx_filters \<Rightarrow> tx_filters" where
  "period_setFilter b e f = (if fp_begin f \<noteq> b \<or> fp_end f \<noteq> e then f\<lparr>fp_begin := b, fp_end := e\<rparr> else f)"

definition hash_setFilter :: "string \<Rightarrow> tx_filters \<Rightarrow> tx_filters" where
  "hash_setFilter q f = (if same_ci (fh_query f) q then f else f\<lparr>fh_query := q\<rparr>)"

definition address_setFilter :: "string \<Rightarrow> tx_filters \<Rightarrow> tx_filters" where
  "address_setFilter a f = (if \<not> same_ci (fd_address f) a then f\<lparr>fd_address := a\<rparr> else f)"

text \<open>The time of a row; a transaction without one counts as made now.\<close>

definition row_time :: "tm_env \<Rightarrow> tm_state \<Rightarrow> clock \<Rightarrow> nat \<Rightarrow> int" where
  "row_time E s ck row =
     (case tm_getUserRolesData E s row TM_NEW_TRANSACTION TMR_TIME of
        Some (QDate t) \<Rightarrow> uint t
      | _ \<Rightarrow> ck_now ck)"

definition age_accepts :: "tm_env \<Rightarrow> tm_state \<Rightarrow> clock \<Rightarrow> age_filter \<Rightarrow> nat \<Rightarrow> bool" where
  "age_accepts E s ck a row =
     (if a = FILTER_CUSTOM \<or> a = FILTER_ALL then True
      else let t = row_time E s ck row in
        (case a of
           LAST_HOUR \<Rightarrow> ck_now ck - t \<le> 3600
         | LAST_DAY \<Rightarrow> ck_daysAgo ck 1 \<le> t
         | LAST_WEEK \<Rightarrow> ck_daysAgo ck 7 \<le> t
         | LAST_MONTH \<Rightarrow> ck_monthAgo ck \<le> t
         | LAST_YEAR \<Rightarrow> ck_yearAgo ck \<le> t
         | _ \<Rightarrow> False))"

definition period_accepts :: "tm_env \<Rightarrow> tm_state \<Rightarrow> clock \<Rightarrow> int option \<Rightarrow> int option \<Rightarrow> nat \<Rightarrow> bool" where
  "period_accepts E s ck b e row =
     (let t = row_time E s ck row in
      if b \<noteq> None \<and> t < the b then False
      else if e \<noteq> None \<and> t > the e then False
      else True)"

definition row_addresses :: "tm_env \<Rightarrow> tm_state \<Rightarrow> nat \<Rightarrow> string list" where
  "row_addresses E s row = map tf_address (ft_transfers (tm_transaction E s row))"

definition row_hash :: "tm_env \<Rightarrow> tm_state \<Rightarrow> nat \<Rightarrow> string" where
  "row_hash E s row = (case tm_getUserRolesData E s row TM_NEW_TRANSACTION TMR_HASH of Some (QBytes h) \<Rightarrow> toHex h | _ \<Rightarrow> [])"

definition row_paymentId :: "tm_env \<Rightarrow> tm_state \<Rightarrow> nat \<Rightarrow> string" where
  "row_paymentId E s row = (case tm_getUserRolesData E s row TM_NEW_TRANSACTION TMR_PAYMENT_ID of Some (QStr p) \<Rightarrow> p | _ \<Rightarrow> [])"

definition hash_accepts :: "tm_env \<Rightarrow> tm_state \<Rightarrow> string \<Rightarrow> nat \<Rightarrow> bool" where
  "hash_accepts E s q row =
     (if q = [] then True
      else if starts_ci (row_hash E s row) q then True
      else if row_paymentId E s row \<noteq> [] \<and> starts_ci (row_paymentId E s row) q then True
      else list_ex (\<lambda>a. contains_ci a q) (row_addresses E s row))"

definition address_accepts :: "tm_env \<Rightarrow> tm_state \<Rightarrow> string \<Rightarrow> nat \<Rightarrow> bool" where
  "address_accepts E s q row =
     (if q = [] then True
      else if row_addresses E s row = [] then False
      else list_ex (\<lambda>a. starts_ci a q) (row_addresses E s row))"

text \<open>The rows that the view shows: each model filters the rows of the model before.\<close>

definition shown_rows :: "tm_env \<Rightarrow> tm_state \<Rightarrow> clock \<Rightarrow> tx_filters \<Rightarrow> nat list" where
  "shown_rows E s ck f =
     (let aged = filter (age_accepts E s ck (fa_filter f)) (sorted_rows E s);
          inPeriod = filter (period_accepts E s ck (fp_begin f) (fp_end f)) aged;
          hashed = filter (hash_accepts E s (fh_query f)) inPeriod
      in filter (address_accepts E s (fd_address f)) hashed)"

definition accepts_column :: "int \<Rightarrow> bool" where
  "accepts_column c \<longleftrightarrow> c = tm_section TM_NEW_TRANSACTION \<or> c = tm_section TM_TIME \<or> c = tm_section TM_AMOUNT \<or>
     c = tm_section TM_HASH \<or> c = tm_section TM_TRANSFERS \<or> c = tm_section TM_SHOW_TRANSFERS"

definition shown_columns :: "int list" where
  "shown_columns = filter accepts_column (map tm_section tm_columns)"


section \<open>The frame\<close>

record tx_frame =
  fr_filters :: tx_filters
  fr_combo :: nat
  fr_begin :: int
  fr_end :: int
  fr_search :: string
  fr_showAll :: bool
  fr_toggle :: bool
  fr_current :: "string option"
  fr_status :: string
  fr_toggleText :: string
  fr_periodShown :: bool
  fr_filterText :: string

definition age_of_index :: "nat \<Rightarrow> age_filter" where
  "age_of_index i = [FILTER_ALL, LAST_HOUR, LAST_DAY, LAST_WEEK, LAST_MONTH, LAST_YEAR, FILTER_CUSTOM] ! i"

definition on_filters :: "(tx_filters \<Rightarrow> tx_filters) \<Rightarrow> tx_frame \<Rightarrow> tx_frame" where
  "on_filters g s = s\<lparr>fr_filters := g (fr_filters s)\<rparr>"

definition filterChanged :: "nat \<Rightarrow> tx_frame \<Rightarrow> tx_frame" where
  "filterChanged i s =
     (let s1 = on_filters (age_setFilter (age_of_index i)) s in
      if age_of_index i = FILTER_CUSTOM
      then on_filters (period_setFilter (Some (fr_begin s1)) (Some (fr_end s1))) (s1\<lparr>fr_periodShown := True\<rparr>)
      else on_filters (period_setFilter None None) (s1\<lparr>fr_periodShown := False\<rparr>))"

definition filterPeriodChanged :: "tx_frame \<Rightarrow> tx_frame" where
  "filterPeriodChanged s =
     (if age_of_index (fr_combo s) = FILTER_CUSTOM
      then on_filters (period_setFilter (Some (fr_begin s)) (Some (fr_end s))) s else s)"

definition filterHashChanged :: "tx_frame \<Rightarrow> tx_frame" where
  "filterHashChanged s = on_filters (hash_setFilter (trimmed (fr_search s))) s"

definition applyAddressScope :: "tx_frame \<Rightarrow> tx_frame" where
  "applyAddressScope s =
     (let s1 = s\<lparr>fr_status := if fr_showAll s then ''Showing transactions for all addresses'' else ''Showing for selected address only'',
                 fr_toggle := fr_showAll s,
                 fr_toggleText := if fr_showAll s then ''Selected address'' else ''All addresses''\<rparr>;
          a = (if \<not> fr_showAll s1 then (case fr_current s1 of Some c \<Rightarrow> c | None \<Rightarrow> []) else [])
      in on_filters (address_setFilter a) s1)"

definition scopeToggled :: "bool \<Rightarrow> tx_frame \<Rightarrow> tx_frame" where
  "scopeToggled b s = applyAddressScope (s\<lparr>fr_showAll := b\<rparr>)"

definition currentAddressChanged :: "string \<Rightarrow> tx_frame \<Rightarrow> tx_frame" where
  "currentAddressChanged a s = applyAddressScope (s\<lparr>fr_current := map_option (\<lambda>_. a) (fr_current s)\<rparr>)"

text \<open>The widgets: a change of value runs the slot connected to it.\<close>

definition set_combo :: "nat \<Rightarrow> tx_frame \<Rightarrow> tx_frame" where
  "set_combo i s = (if fr_combo s = i then s else filterChanged i (s\<lparr>fr_combo := i\<rparr>))"

definition set_begin :: "int \<Rightarrow> tx_frame \<Rightarrow> tx_frame" where
  "set_begin d s = (if fr_begin s = d then s else filterPeriodChanged (s\<lparr>fr_begin := d\<rparr>))"

definition set_end :: "int \<Rightarrow> tx_frame \<Rightarrow> tx_frame" where
  "set_end d s = (if fr_end s = d then s else filterPeriodChanged (s\<lparr>fr_end := d\<rparr>))"

definition set_search :: "string \<Rightarrow> tx_frame \<Rightarrow> tx_frame" where
  "set_search q s = (if fr_search s = q then s else filterHashChanged (s\<lparr>fr_search := q\<rparr>))"

definition set_toggle :: "bool \<Rightarrow> tx_frame \<Rightarrow> tx_frame" where
  "set_toggle b s = (if fr_toggle s = b then s else scopeToggled b (s\<lparr>fr_toggle := b\<rparr>))"

definition resetFilter :: "clock \<Rightarrow> tx_frame \<Rightarrow> tx_frame" where
  "resetFilter ck s =
     (let s1 = set_combo 0 s;
          s2 = set_begin (ck_daysAgo ck 1) s1;
          s3 = set_end (ck_now ck) s2;
          s4 = set_search [] s3;
          s5 = set_toggle False s4
      in applyAddressScope (s5\<lparr>fr_showAll := False\<rparr>))"

definition showFilter :: "clock \<Rightarrow> bool \<Rightarrow> tx_frame \<Rightarrow> tx_frame" where
  "showFilter ck b s =
     (let s1 = s\<lparr>fr_filterText := if b then ''Hide filter'' else ''Show filter''\<rparr> in if \<not> b then resetFilter ck s1 else s1)"

definition setCurrentAddressState :: "string option \<Rightarrow> tx_frame \<Rightarrow> tx_frame" where
  "setCurrentAddressState c s = applyAddressScope (s\<lparr>fr_current := c\<rparr>)"

text \<open>The frame with its models, over a current address state.\<close>

definition setSortedTransactionsModel :: "clock \<Rightarrow> string option \<Rightarrow> tx_frame" where
  "setSortedTransactionsModel ck c =
     applyAddressScope
       \<lparr>fr_filters = \<lparr>fa_filter = FILTER_ALL, fp_begin = None, fp_end = None, fh_query = [], fd_address = []\<rparr>,
        fr_combo = 0, fr_begin = ck_daysAgo ck 1, fr_end = ck_now ck, fr_search = [], fr_showAll = False,
        fr_toggle = False, fr_current = c, fr_status = [], fr_toggleText = [], fr_periodShown = False,
        fr_filterText = ''Show filter''\<rparr>"

text \<open>The rest of the frame: the shown transfers, the export, the editor of new rows, the context menu.\<close>

definition transactionClicked :: "int \<Rightarrow> bool \<Rightarrow> nat \<Rightarrow> tm_state \<Rightarrow> (tm_state \<times> notice list \<times> bool) option" where
  "transactionClicked column shown row s =
     (if column = tm_section TM_SHOW_TRANSFERS then tm_setData row True (\<not> shown) s else Some (s, [], False))"

definition exportToCsv :: "tm_env \<Rightarrow> tm_state \<Rightarrow> string \<Rightarrow> (string \<times> string) option" where
  "exportToCsv E s path = (if path \<noteq> [] then Some (path, tm_toCsv E s) else None)"

definition opens_editor :: "tm_env \<Rightarrow> tm_state \<Rightarrow> nat \<Rightarrow> nat \<Rightarrow> nat \<Rightarrow> bool" where
  "opens_editor E s f l row =
     (if f \<noteq> l then False
      else tm_getUserRolesData E s row TM_NEW_TRANSACTION TMR_NUMBER_OF_CONFIRMATIONS = Some (QU32 0))"

definition offers_paymentId :: "tm_env \<Rightarrow> tm_state \<Rightarrow> nat \<Rightarrow> bool" where
  "offers_paymentId E s row \<longleftrightarrow> row_paymentId E s row \<noteq> []"


section \<open>Newest first\<close>

text \<open>The date as a number, with the transactions in no block after all others, in the order of their rows.\<close>

definition rank :: "(nat \<Rightarrow> u64) \<Rightarrow> nat \<Rightarrow> int" where
  "rank date r = (if date r = 0 then 2 ^ 64 + int r else uint (date r))"

lemma lessThan_rank: "lessThan date l r \<longleftrightarrow> rank date l < rank date r"
proof -
  have "uint (date r) < 2 ^ 64" "uint (date l) < 2 ^ 64"
    using uint_lt2p [of "date r"] uint_lt2p [of "date l"] by simp_all
  then show ?thesis
    by (auto simp: lessThan_def rank_def word_less_def)
qed

lemma stable_insert_key: "stable_insert (\<lambda>a b. f a < f b) x ys = insort_key f x ys" for f :: "'a \<Rightarrow> int"
  by (induction ys) auto

lemma stable_sort_key: "stable_sort (\<lambda>a b. f a < f b) xs = sort_key f xs" for f :: "'a \<Rightarrow> int"
  by (induction xs) (simp_all add: stable_sort_def stable_insert_key)

definition newest_first :: "tm_env \<Rightarrow> tm_state \<Rightarrow> nat list" where
  "newest_first E s = sort_key (\<lambda>r. - rank (raw_time E s) r) [0..<tm_rows s]"

lemma sorted_rows_key: "sorted_rows E s = newest_first E s"
proof -
  have "(\<lambda>a b. lessThan (raw_time E s) b a) = (\<lambda>a b. - rank (raw_time E s) a < - rank (raw_time E s) b)"
    by (simp add: lessThan_rank fun_eq_iff)
  then show ?thesis
    by (simp only: sorted_rows_def newest_first_def stable_sort_key)
qed


section \<open>The filters and the widgets\<close>

lemma same_ci_starts: "same_ci p q \<Longrightarrow> starts_ci s p = starts_ci s q" "same_ci p q \<Longrightarrow> contains_ci s p = contains_ci s q"
  by (simp_all add: same_ci_def starts_ci_def contains_ci_def)

lemma same_ci_Nil: "same_ci p q \<Longrightarrow> p = [] \<longleftrightarrow> q = []"
  by (auto simp: same_ci_def lower_def)

lemma same_ci_refl [simp]: "same_ci p p"
  by (simp add: same_ci_def)

lemma hash_accepts_ci: "same_ci p q \<Longrightarrow> hash_accepts E s p = hash_accepts E s q"
  using same_ci_Nil [of p q] same_ci_starts [of p q] by (auto simp: hash_accepts_def fun_eq_iff)

lemma address_accepts_ci: "same_ci p q \<Longrightarrow> address_accepts E s p = address_accepts E s q"
  using same_ci_Nil [of p q] same_ci_starts [of p q] by (auto simp: address_accepts_def fun_eq_iff)

definition scope :: "tx_frame \<Rightarrow> string" where
  "scope s = (if fr_showAll s then [] else case fr_current s of Some c \<Rightarrow> c | None \<Rightarrow> [])"

definition custom :: "tx_frame \<Rightarrow> bool" where
  "custom s \<longleftrightarrow> age_of_index (fr_combo s) = FILTER_CUSTOM"

text \<open>The filters are those of the widgets.\<close>

definition filters_follow :: "tx_frame \<Rightarrow> bool" where
  "filters_follow s \<longleftrightarrow>
     fa_filter (fr_filters s) = age_of_index (fr_combo s) \<and>
     fp_begin (fr_filters s) = (if custom s then Some (fr_begin s) else None) \<and>
     fp_end (fr_filters s) = (if custom s then Some (fr_end s) else None) \<and>
     same_ci (fh_query (fr_filters s)) (trimmed (fr_search s)) \<and>
     same_ci (fd_address (fr_filters s)) (scope s) \<and>
     fr_toggle s = fr_showAll s \<and> fr_periodShown s = custom s"

lemmas frame_defs = filters_follow_def scope_def custom_def on_filters_def Let_def
  age_setFilter_def period_setFilter_def hash_setFilter_def address_setFilter_def
  filterChanged_def filterPeriodChanged_def filterHashChanged_def applyAddressScope_def scopeToggled_def
  currentAddressChanged_def set_combo_def set_begin_def set_end_def set_search_def set_toggle_def

lemma set_filters [simp]:
  "age_setFilter a f = f\<lparr>fa_filter := a\<rparr>" "period_setFilter b e f = f\<lparr>fp_begin := b, fp_end := e\<rparr>"
  by (simp_all add: age_setFilter_def period_setFilter_def)

lemma scope_follow:
  "filters_follow s \<Longrightarrow> filters_follow (applyAddressScope (s\<lparr>fr_showAll := b\<rparr>))"
  "filters_follow s \<Longrightarrow> filters_follow (applyAddressScope (s\<lparr>fr_toggle := d, fr_showAll := b\<rparr>))"
  "filters_follow s \<Longrightarrow> filters_follow (applyAddressScope (s\<lparr>fr_current := c\<rparr>))"
  by (simp_all add: filters_follow_def applyAddressScope_def on_filters_def address_setFilter_def scope_def custom_def
      Let_def)

lemma widget_follow:
  "filters_follow s \<Longrightarrow> filters_follow (set_combo i s)" "filters_follow s \<Longrightarrow> filters_follow (set_begin d s)"
  "filters_follow s \<Longrightarrow> filters_follow (set_end d s)" "filters_follow s \<Longrightarrow> filters_follow (set_search q s)"
  "filters_follow s \<Longrightarrow> filters_follow (set_toggle b s)" "filters_follow s \<Longrightarrow> filters_follow (currentAddressChanged a s)"
  "filters_follow s \<Longrightarrow> filters_follow (setCurrentAddressState c s)"
proof -
  assume s: "filters_follow s"
  show "filters_follow (set_combo i s)" "filters_follow (set_begin d s)" "filters_follow (set_end d s)"
    using s by (cases "fr_showAll s"; simp add: filters_follow_def set_combo_def set_begin_def set_end_def filterChanged_def
        filterPeriodChanged_def on_filters_def scope_def custom_def Let_def)+
  show "filters_follow (set_search q s)"
    using s by (cases "fr_search s = q"; cases "fr_showAll s"; auto simp: filters_follow_def set_search_def filterHashChanged_def hash_setFilter_def on_filters_def
        scope_def custom_def)
  show "filters_follow (set_toggle b s)"
    using s scope_follow(2) [OF s] by (simp add: set_toggle_def scopeToggled_def)
  show "filters_follow (currentAddressChanged a s)" "filters_follow (setCurrentAddressState c s)"
    using scope_follow(3) [OF s] by (simp_all add: currentAddressChanged_def setCurrentAddressState_def)
qed

lemma reset_follow: "filters_follow s \<Longrightarrow> filters_follow (resetFilter ck s)"
proof -
  assume s: "filters_follow s"
  let ?t = "set_toggle False (set_search [] (set_end (ck_now ck) (set_begin (ck_daysAgo ck 1) (set_combo 0 s))))"
  have "filters_follow ?t"
    using s by (intro widget_follow)
  then have "filters_follow (applyAddressScope (?t\<lparr>fr_showAll := False\<rparr>))"
    by (rule scope_follow(1))
  then show ?thesis
    by (simp only: resetFilter_def Let_def)
qed

datatype frame_event =
    FrCombo nat
  | FrBegin int
  | FrEnd int
  | FrSearch string
  | FrToggle bool
  | FrCurrent string
  | FrAddressState "string option"
  | FrReset clock
  | FrShowFilter clock bool

fun fr_do :: "frame_event \<Rightarrow> tx_frame \<Rightarrow> tx_frame" where
  "fr_do (FrCombo i) s = set_combo i s"
| "fr_do (FrBegin d) s = set_begin d s"
| "fr_do (FrEnd d) s = set_end d s"
| "fr_do (FrSearch q) s = set_search q s"
| "fr_do (FrToggle b) s = set_toggle b s"
| "fr_do (FrCurrent a) s = currentAddressChanged a s"
| "fr_do (FrAddressState c) s = setCurrentAddressState c s"
| "fr_do (FrReset ck) s = resetFilter ck s"
| "fr_do (FrShowFilter ck b) s = showFilter ck b s"

definition fr_step :: "tx_frame \<Rightarrow> tx_frame \<Rightarrow> bool" where
  "fr_step s t \<longleftrightarrow> (\<exists>ev. t = fr_do ev s)"

definition fr_start :: "tx_frame \<Rightarrow> bool" where
  "fr_start s \<longleftrightarrow> (\<exists>ck c. s = setSortedTransactionsModel ck c)"

lemma do_follow: "filters_follow s \<Longrightarrow> filters_follow (fr_do ev s)"
proof (cases ev)
  case (FrShowFilter ck b)
  assume "filters_follow s"
  then have "filters_follow (s\<lparr>fr_filterText := t\<rparr>)" for t
    by (cases "fr_showAll s"; simp add: filters_follow_def scope_def custom_def)
  then show ?thesis
    using FrShowFilter by (simp add: showFilter_def reset_follow Let_def)
qed (simp_all add: widget_follow reset_follow)

interpretation history: inductive_invariant fr_start fr_step filters_follow
proof
  show "filters_follow s" if "fr_start s" for s
    using that by (auto simp: fr_start_def setSortedTransactionsModel_def frame_defs trimmed_def age_of_index_def)
  show "filters_follow t" if "filters_follow s" "fr_step s t" for s t
    using that by (auto simp: fr_step_def do_follow)
qed

text \<open>What the widgets ask for.\<close>

definition wanted :: "tm_env \<Rightarrow> tm_state \<Rightarrow> clock \<Rightarrow> tx_frame \<Rightarrow> nat \<Rightarrow> bool" where
  "wanted E s ck fr row \<longleftrightarrow>
     age_accepts E s ck (age_of_index (fr_combo fr)) row \<and>
     (custom fr \<longrightarrow> fr_begin fr \<le> row_time E s ck row \<and> row_time E s ck row \<le> fr_end fr) \<and>
     hash_accepts E s (trimmed (fr_search fr)) row \<and>
     (scope fr \<noteq> [] \<longrightarrow> (\<exists>a\<in>set (row_addresses E s row). starts_ci a (scope fr)))"

lemma shown_wanted:
  assumes "filters_follow fr"
  shows "shown_rows E s ck (fr_filters fr) = filter (wanted E s ck fr) (newest_first E s)"
proof -
  have "age_accepts E s ck (fa_filter (fr_filters fr)) row \<and>
      period_accepts E s ck (fp_begin (fr_filters fr)) (fp_end (fr_filters fr)) row \<and>
      hash_accepts E s (fh_query (fr_filters fr)) row \<and> address_accepts E s (fd_address (fr_filters fr)) row \<longleftrightarrow>
      wanted E s ck fr row" for row
    using assms hash_accepts_ci [of "fh_query (fr_filters fr)" "trimmed (fr_search fr)" E s]
      address_accepts_ci [of "fd_address (fr_filters fr)" "scope fr" E s]
    by (auto simp: filters_follow_def wanted_def period_accepts_def address_accepts_def list_ex_iff Let_def
        split: if_splits)
  then show ?thesis
    by (simp add: shown_rows_def sorted_rows_key Let_def conj_commute conj_left_commute cong: filter_cong)
qed


definition demo_clock :: clock where
  "demo_clock = \<lparr>ck_now = 1000000, ck_daysAgo = (\<lambda>n. 1000000 - 86400 * int n), ck_monthAgo = 0, ck_yearAgo = 0\<rparr>"

definition demo_frame :: tx_frame where
  "demo_frame = fr_do (FrToggle True) (setSortedTransactionsModel demo_clock (Some ''K1''))"

definition demo_history :: tm_state where
  "demo_history = tm_new\<lparr>tm_txs := [(0, demo_full 5), (1, demo_full 7)], tm_last := Some 1\<rparr>"


end
