(* ===== verification/ContactForms.thy ===== *)
theory ContactForms
  imports AddressBookModel TransactionFilters "HOL-Library.Multiset"
begin

text \<open>
  The forms of the address book: the dialog that adds or edits a contact
  (src/src/Gui/AddressBook/NewAddressDialog.cpp), the page with the list
  (AddressBookFrame.cpp), its order (src/src/Models/SortedAddressBookModel.cpp)
  and the dialog that picks a contact (src/src/Gui/Common/AddressBookDialog.cpp).
  A text field runs its slot when its text changes. The address parser of the
  library is a parameter.
\<close>

section \<open>The dialog\<close>

record contact_form =
  nd_label :: string
  nd_address :: string
  nd_paymentId :: string
  nd_donation :: bool
  nd_labelError :: bool
  nd_addressError :: bool
  nd_paymentIdError :: bool
  nd_labelCaption :: string
  nd_addressCaption :: string
  nd_paymentIdCaption :: string
  nd_warning :: bool
  nd_ok :: bool

definition IN_BOOK :: string where "IN_BOOK = ''ALREADY IN THE ADDRESS BOOK''"

definition checkForErrors :: "contact_form \<Rightarrow> bool" where
  "checkForErrors d \<longleftrightarrow> nd_addressError d \<or> nd_labelError d"

definition refresh_ok :: "contact_form \<Rightarrow> contact_form" where
  "refresh_ok d = d\<lparr>nd_ok := \<not> checkForErrors d \<and> trimmed (nd_label d) \<noteq> [] \<and> trimmed (nd_address d) \<noteq> []\<rparr>"

definition setAddressError :: "bool \<Rightarrow> contact_form \<Rightarrow> contact_form" where
  "setAddressError e d = refresh_ok (d\<lparr>nd_addressError := e, nd_addressCaption := if e then ''INVALID ADDRESS'' else ''ADDRESS''\<rparr>)"

definition setAddressDuplicationError :: "bool \<Rightarrow> contact_form \<Rightarrow> contact_form" where
  "setAddressDuplicationError e d = refresh_ok (d\<lparr>nd_addressError := e, nd_addressCaption := if e then IN_BOOK else ''ADDRESS''\<rparr>)"

definition setPaymentIdError :: "bool \<Rightarrow> contact_form \<Rightarrow> contact_form" where
  "setPaymentIdError e d = refresh_ok (d\<lparr>nd_paymentIdError := e, nd_paymentIdCaption := if e then ''INVALID PAYMENT ID'' else ''PAYMENT ID''\<rparr>)"

definition setPaymentIdDuplicationError :: "bool \<Rightarrow> contact_form \<Rightarrow> contact_form" where
  "setPaymentIdDuplicationError e d = refresh_ok (d\<lparr>nd_paymentIdError := e, nd_paymentIdCaption := if e then IN_BOOK else ''PAYMENT ID''\<rparr>)"

definition setLabelDuplicationError :: "bool \<Rightarrow> contact_form \<Rightarrow> contact_form" where
  "setLabelDuplicationError e d = refresh_ok (d\<lparr>nd_labelError := e, nd_labelCaption := if e then IN_BOOK else ''LABEL''\<rparr>)"

text \<open>parse is the library's address parser.\<close>

definition validateAddress :: "(string \<Rightarrow> 'a option) \<Rightarrow> ab_state \<Rightarrow> contact_form \<Rightarrow> contact_form" where
  "validateAddress parse b d =
     (if nd_address d \<noteq> [] \<and> \<not> isValidAddress parse (nd_address d) then setAddressError True d
      else setAddressDuplicationError (findAddressByAddress b (trimmed (nd_address d)) \<noteq> INVALID_ADDRESS_INDEX) d)"

definition validatePaymentId :: "ab_state \<Rightarrow> contact_form \<Rightarrow> contact_form" where
  "validatePaymentId b d =
     (if nd_paymentId d \<noteq> [] \<and> \<not> isValidPaymentId (nd_paymentId d) then setPaymentIdError True d
      else setPaymentIdDuplicationError (findAddressByPaymentId b (trimmed (nd_paymentId d)) \<noteq> INVALID_ADDRESS_INDEX) d)"

definition validateLabel :: "ab_state \<Rightarrow> contact_form \<Rightarrow> contact_form" where
  "validateLabel b d = setLabelDuplicationError (findAddressByLabel b (trimmed (nd_label d)) \<noteq> INVALID_ADDRESS_INDEX) d"

definition donationCheckStateChanged :: "ab_state \<Rightarrow> contact_form \<Rightarrow> contact_form" where
  "donationCheckStateChanged b d =
     (if nd_donation d then d\<lparr>nd_warning := False\<rparr>
      else if \<not> isDonationChangeEnabled b then d\<lparr>nd_warning := False\<rparr>
      else d\<lparr>nd_warning := getDonationChangeAddress b = nd_address d\<rparr>)"

text \<open>The fields: each change of text runs the slot connected to it.\<close>

definition type_label :: "ab_state \<Rightarrow> string \<Rightarrow> contact_form \<Rightarrow> contact_form" where
  "type_label b s d = (if nd_label d = s then d else validateLabel b (d\<lparr>nd_label := s\<rparr>))"

definition type_address :: "(string \<Rightarrow> 'a option) \<Rightarrow> ab_state \<Rightarrow> string \<Rightarrow> contact_form \<Rightarrow> contact_form" where
  "type_address parse b s d = (if nd_address d = s then d else validateAddress parse b (d\<lparr>nd_address := s\<rparr>))"

definition type_paymentId :: "ab_state \<Rightarrow> string \<Rightarrow> contact_form \<Rightarrow> contact_form" where
  "type_paymentId b s d = (if nd_paymentId d = s then d else validatePaymentId b (d\<lparr>nd_paymentId := s\<rparr>))"

definition tick_donation :: "ab_state \<Rightarrow> bool \<Rightarrow> contact_form \<Rightarrow> contact_form" where
  "tick_donation b on d = (if nd_donation d = on then d else donationCheckStateChanged b (d\<lparr>nd_donation := on\<rparr>))"

definition new_contact :: contact_form where
  "new_contact = \<lparr>nd_label = [], nd_address = [], nd_paymentId = [], nd_donation = False, nd_labelError = False,
     nd_addressError = False, nd_paymentIdError = False, nd_labelCaption = ''LABEL'', nd_addressCaption = ''ADDRESS'',
     nd_paymentIdCaption = ''PAYMENT ID'', nd_warning = False, nd_ok = False\<rparr>"

definition edit_contact :: "(string \<Rightarrow> 'a option) \<Rightarrow> ab_state \<Rightarrow> address_item \<Rightarrow> contact_form" where
  "edit_contact parse b it =
     setLabelDuplicationError False (setAddressDuplicationError False
       (tick_donation b (ai_isDonation it) (type_paymentId b (ai_paymentid it)
         (type_address parse b (ai_address it) (type_label b (ai_label it) new_contact)))))"

datatype form_event = TypeLabel string | TypeAddress string | TypePaymentId string | TickDonation bool

fun form_do :: "(string \<Rightarrow> 'a option) \<Rightarrow> ab_state \<Rightarrow> form_event \<Rightarrow> contact_form \<Rightarrow> contact_form" where
  "form_do parse b (TypeLabel s) d = type_label b s d"
| "form_do parse b (TypeAddress s) d = type_address parse b s d"
| "form_do parse b (TypePaymentId s) d = type_paymentId b s d"
| "form_do parse b (TickDonation on) d = tick_donation b on d"


section \<open>The page\<close>

text \<open>
  The order of the list: by label without case. The proxy sorts downwards by a
  comparison that is turned round.
\<close>

fun code_less :: "nat list \<Rightarrow> nat list \<Rightarrow> bool" where
  "code_less xs [] \<longleftrightarrow> False"
| "code_less [] (y # ys) \<longleftrightarrow> True"
| "code_less (x # xs) (y # ys) \<longleftrightarrow> x < y \<or> x = y \<and> code_less xs ys"

definition label_codes :: "ab_state \<Rightarrow> nat \<Rightarrow> nat list" where
  "label_codes b i = map of_char (lower (item_label (addressArray b ! i)))"

definition book_lessThan :: "ab_state \<Rightarrow> nat \<Rightarrow> nat \<Rightarrow> bool" where
  "book_lessThan b l r \<longleftrightarrow> code_less (label_codes b r) (label_codes b l)"

definition sorted_book :: "ab_state \<Rightarrow> nat list" where
  "sorted_book b = stable_sort (\<lambda>i j. book_lessThan b j i) [0..<getAddressCount b]"

text \<open>The frame: the rows with an open menu button, and whether the hint to add an address is shown.\<close>

record book_frame =
  bf_menus :: "nat set"
  bf_hint :: bool
  bf_rows :: nat

definition setSortedAddressBookModel :: "nat \<Rightarrow> book_frame" where
  "setSortedAddressBookModel n = \<lparr>bf_menus = {0..<n}, bf_hint = (n = 0), bf_rows = n\<rparr>"

definition book_rowsInserted :: "nat \<Rightarrow> nat \<Rightarrow> nat \<Rightarrow> book_frame \<Rightarrow> book_frame" where
  "book_rowsInserted n f l s = s\<lparr>bf_menus := bf_menus s \<union> {f..l}, bf_hint := False, bf_rows := n\<rparr>"

definition book_rowsRemoved :: "nat \<Rightarrow> book_frame \<Rightarrow> book_frame" where
  "book_rowsRemoved n s = s\<lparr>bf_hint := (if n = 0 then True else bf_hint s), bf_rows := n\<rparr>"

text \<open>What the dialog leaves when it is accepted; None when it is not.\<close>

definition addClicked :: "codec \<Rightarrow> contact_form option \<Rightarrow> ab_state \<Rightarrow> ab_state" where
  "addClicked c r b =
     (case r of None \<Rightarrow> b | Some d \<Rightarrow> addAddress c (nd_label d) (nd_address d) (nd_paymentId d) (nd_donation d) b)"

definition editClicked :: "codec \<Rightarrow> nat \<Rightarrow> contact_form option \<Rightarrow> ab_state \<Rightarrow> ab_state option" where
  "editClicked c i r b =
     (case r of None \<Rightarrow> Some b
      | Some d \<Rightarrow> editAddress c i (nd_label d) (nd_address d) (nd_paymentId d) (nd_donation d) b)"

definition delete_question :: "ab_state \<Rightarrow> nat \<Rightarrow> string option" where
  "delete_question b i = map_option (\<lambda>it. if ai_isDonation it
     then ''This contact is currently used for donations. If you delete it donation will be switched off.''
     else ''Are you sure you would like to delete this address?'') (getAddress b i)"

definition deleteClicked :: "codec \<Rightarrow> nat \<Rightarrow> bool \<Rightarrow> ab_state \<Rightarrow> ab_state option" where
  "deleteClicked c i yes b = (if yes then removeAddress c i b else Some b)"

text \<open>What the send action and the copying ones take from a row.\<close>

definition sendToClicked :: "ab_state \<Rightarrow> nat \<Rightarrow> (string \<times> string) option" where
  "sendToClicked b i = map_option (\<lambda>it. (ai_address it, ai_paymentid it)) (getAddress b i)"

text \<open>The dialog that picks a contact comes up on the first row.\<close>

definition picked :: "ab_state \<Rightarrow> nat option \<Rightarrow> string \<times> string" where
  "picked b row =
     (case row of None \<Rightarrow> ([], [])
      | Some i \<Rightarrow> (case getAddress b i of None \<Rightarrow> ([], []) | Some it \<Rightarrow> (ai_address it, ai_paymentid it)))"

definition first_picked :: "ab_state \<Rightarrow> nat option" where
  "first_picked b = (if getAddressCount b > 0 then Some 0 else None)"


section \<open>What the dialog accepts\<close>

text \<open>l0 and a0 are the texts the dialog came up with.\<close>

definition form_fits :: "(string \<Rightarrow> 'a option) \<Rightarrow> ab_state \<Rightarrow> string \<Rightarrow> string \<Rightarrow> contact_form \<Rightarrow> bool" where
  "form_fits parse b l0 a0 d \<longleftrightarrow>
     (nd_ok d \<longleftrightarrow> \<not> checkForErrors d \<and> trimmed (nd_label d) \<noteq> [] \<and> trimmed (nd_address d) \<noteq> []) \<and>
     (\<not> nd_addressError d \<longrightarrow> nd_address d = a0 \<or> nd_address d = [] \<or>
        isValidAddress parse (nd_address d) \<and> findAddressByAddress b (trimmed (nd_address d)) = INVALID_ADDRESS_INDEX) \<and>
     (\<not> nd_labelError d \<longrightarrow> nd_label d = l0 \<or> findAddressByLabel b (trimmed (nd_label d)) = INVALID_ADDRESS_INDEX)"

lemmas form_defs = refresh_ok_def checkForErrors_def setAddressError_def setAddressDuplicationError_def
  setPaymentIdError_def setPaymentIdDuplicationError_def setLabelDuplicationError_def validateAddress_def
  validatePaymentId_def validateLabel_def donationCheckStateChanged_def type_label_def type_address_def
  type_paymentId_def tick_donation_def


lemma do_fits: "form_fits parse b l0 a0 d \<Longrightarrow> form_fits parse b l0 a0 (form_do parse b e d)"
  by (cases e) (auto simp: form_fits_def form_defs)

lemma run_fits: "form_fits parse b l0 a0 d \<Longrightarrow> form_fits parse b l0 a0 (fold (form_do parse b) es d)"
  by (induction es arbitrary: d) (simp_all add: do_fits)

lemma contact_new_fits: "form_fits parse b [] [] new_contact"
  by (simp add: form_fits_def new_contact_def checkForErrors_def)

lemma edit_texts:
  "nd_label (edit_contact parse b it) = ai_label it" "nd_address (edit_contact parse b it) = ai_address it"
  by (simp_all add: edit_contact_def form_defs new_contact_def)

lemma edit_fits: "form_fits parse b (ai_label it) (ai_address it) (edit_contact parse b it)"
  using edit_texts [of parse b it]
  by (simp add: form_fits_def) (simp add: edit_contact_def setLabelDuplicationError_def setAddressDuplicationError_def
      refresh_ok_def checkForErrors_def)

lemma not_in_book:
  assumes "book_inv P s"
  shows "P a \<Longrightarrow> findAddressByAddress s a = INVALID_ADDRESS_INDEX \<Longrightarrow> a \<notin> item_address ` set (addressArray s)"
    "findAddressByLabel s l = INVALID_ADDRESS_INDEX \<Longrightarrow> l \<notin> item_label ` set (addressArray s)"
proof -
  have exl: "exact_on (\<lambda>_. True) (ab_labelIndexes s) (map item_label (addressArray s))"
    and exa: "exact_on P (ab_addressIndexes s) (map item_address (addressArray s))"
    using assms by (auto simp: book_inv_def)
  show "P a \<Longrightarrow> findAddressByAddress s a = INVALID_ADDRESS_INDEX \<Longrightarrow> a \<notin> item_address ` set (addressArray s)"
    using exact_value_invalid [OF exa, where a = a and d = INVALID_ADDRESS_INDEX] exact_on_None [OF exa, where a = a] book_inv_small [OF assms]
    by (simp add: findAddressByAddress_def)
  show "findAddressByLabel s l = INVALID_ADDRESS_INDEX \<Longrightarrow> l \<notin> item_label ` set (addressArray s)"
    using exact_value_invalid [OF exl, where a = l and d = INVALID_ADDRESS_INDEX] exact_on_None [OF exl, where a = l] book_inv_small [OF assms]
    by (simp add: findAddressByLabel_def)
qed

lemma fresh_text:
  assumes "distinct (map f arr)" "i < length arr" "k = f (arr ! i) \<or> k \<notin> f ` set arr"
  shows "fresh_for f arr i k"
  unfolding fresh_for_def
proof (intro allI impI)
  fix j
  assume "j < length arr" "j \<noteq> i"
  then show "f (arr ! j) \<noteq> k"
    using assms nth_eq_iff_index_eq [OF assms(1), of j i] by force
qed


definition demo_parse :: "string \<Rightarrow> unit option" where
  "demo_parse a = (if a = ''K1'' then Some () else None)"

definition demo_form :: contact_form where
  "demo_form = fold (form_do demo_parse (ab_init [])) [TypeLabel ''home'', TypeAddress ''K1''] new_contact"

lemma empty_book:
  "addressArray (ab_init []) = []" "findAddressByLabel (ab_init []) l = INVALID_ADDRESS_INDEX"
  "findAddressByAddress (ab_init []) a = INVALID_ADDRESS_INDEX"
  by (simp_all add: ab_init_def addressArray_def findAddressByLabel_def findAddressByAddress_def qhash_value_def qhash_empty_def)

lemma demo_form_texts:
  "nd_label demo_form = ''home''" "nd_address demo_form = ''K1''" "nd_paymentId demo_form = []" "nd_donation demo_form = False"
  "nd_ok demo_form" "is_trimmed ''home''" "is_trimmed ''K1''"
  by (simp_all add: demo_form_def form_defs new_contact_def isValidAddress_def demo_parse_def empty_book trimmed_def is_space_def
      is_trimmed_def)


text \<open>
  The dialog looks a label up without the spaces around it and stores it with
  them, so a label that ends in a space is accepted again and again.
\<close>

lemma padded_label_accepted_twice:
  fixes b :: ab_state
  defines "b \<equiv> addAddress (one_codec Map.empty) ''Bob '' ''K2'' [] False (ab_init [])"
  shows "findAddressByLabel b (trimmed ''Bob '') = INVALID_ADDRESS_INDEX \<and>
    map item_label (addressArray (addAddress (one_codec Map.empty) ''Bob '' ''K1'' [] False b)) = [''Bob '', ''Bob '']"
proof -
  have "trimmed ''Bob '' = ''Bob''" "trimmed ''K1'' = ''K1''" "trimmed ''K2'' = ''K2''"
    by (simp_all add: trimmed_def is_space_def)
  then show ?thesis
    by (simp add: b_def addAddress_def Let_def empty_book findAddressByLabel_def findAddressByAddress_def qhash_value_def
        qhash_insert_def ab_init_def qhash_empty_def saveAddressBook_def put_array_def emit_def addressArray_def INVALID_ADDRESS_INDEX_def)
qed


section \<open>The list\<close>

lemma mset_stable_insert: "mset (stable_insert lt x ys) = add_mset x (mset ys)"
  by (induction ys) auto

lemma mset_stable_sort: "mset (stable_sort lt xs) = mset xs"
  by (induction xs) (simp_all add: stable_sort_def mset_stable_insert)

lemma sorted_book_rows: "mset (sorted_book b) = mset [0..<getAddressCount b]"
  by (simp add: sorted_book_def mset_stable_sort)

lemma code_less_order:
  "\<not> code_less xs xs" "code_less xs ys \<or> xs = ys \<or> code_less ys xs" "code_less xs ys \<Longrightarrow> code_less ys zs \<Longrightarrow> code_less xs zs"
proof -
  show "\<not> code_less xs xs" by (induction xs) auto
  show "code_less xs ys \<or> xs = ys \<or> code_less ys xs"
  proof (induction xs ys rule: code_less.induct)
    case (1 xs)
    then show ?case by (cases xs) auto
  qed auto
  show "code_less xs ys \<Longrightarrow> code_less ys zs \<Longrightarrow> code_less xs zs"
  proof (induction xs ys arbitrary: zs rule: code_less.induct)
    case (2 y ys)
    then show ?case by (cases zs) auto
  next
    case (3 x xs y ys)
    then show ?case by (cases zs) auto
  qed simp
qed

text \<open>The hint to add an address is shown exactly while the list is empty.\<close>

lemma hint_while_empty:
  "bf_hint (setSortedAddressBookModel n) \<longleftrightarrow> bf_rows (setSortedAddressBookModel n) = 0"
  "0 < n \<Longrightarrow> bf_hint (book_rowsInserted n f l s) \<longleftrightarrow> bf_rows (book_rowsInserted n f l s) = 0"
  "(bf_hint s \<longleftrightarrow> bf_rows s = 0) \<Longrightarrow> n < bf_rows s \<Longrightarrow> bf_hint (book_rowsRemoved n s) \<longleftrightarrow> bf_rows (book_rowsRemoved n s) = 0"
  by (auto simp: setSortedAddressBookModel_def book_rowsInserted_def book_rowsRemoved_def)

end
