(* ===== verification/AppSettings.thy ===== *)
theory AppSettings
  imports AddressBook AmountFormat NodeConnection
begin

text \<open>
  The persistent settings: Settings (src/src/Settings/Settings.cpp) over a JSON
  object that every writing setter stores in karbowallet.cfg, and the command
  line options it passes on (src/src/Application/CommandLineParser.cpp). The
  read and write locks are left out: each member function runs alone.
\<close>

section \<open>Command line\<close>

text \<open>What QCommandLineParser answers for an option, by its name.\<close>

record command_line =
  cl_isSet :: "string \<Rightarrow> bool"
  cl_value :: "string \<Rightarrow> string"
  cl_values :: "string \<Rightarrow> string list"

text \<open>QString::toUShort, zero when it fails.\<close>

definition to_ushort :: "string \<Rightarrow> 16 word" where
  "to_ushort s = (case read_unsigned (2 ^ 16) s of Some n \<Rightarrow> of_nat n | None \<Rightarrow> 0)"

definition hasMinimizedOption :: "command_line \<Rightarrow> bool" where
  "hasMinimizedOption c = cl_isSet c ''minimized''"

definition hasTestnetOption :: "command_line \<Rightarrow> bool" where
  "hasTestnetOption c = cl_isSet c ''testnet''"

definition hasDebugOption :: "command_line \<Rightarrow> bool" where
  "hasDebugOption c = cl_isSet c ''debug''"

definition hasAllowLocalIpOption :: "command_line \<Rightarrow> bool" where
  "hasAllowLocalIpOption c = cl_isSet c ''allow-local-ip''"

definition hasHideMyPortOption :: "command_line \<Rightarrow> bool" where
  "hasHideMyPortOption c = cl_isSet c ''hide-my-port''"

definition cl_getP2pBindIp :: "command_line \<Rightarrow> string" where
  "cl_getP2pBindIp c = cl_value c ''p2p-bind-ip''"

definition cl_getP2pBindPort :: "command_line \<Rightarrow> 16 word" where
  "cl_getP2pBindPort c = to_ushort (cl_value c ''p2p-bind-port'')"

definition cl_getP2pExternalPort :: "command_line \<Rightarrow> 16 word" where
  "cl_getP2pExternalPort c = to_ushort (cl_value c ''p2p-external-port'')"

definition getPeers :: "command_line \<Rightarrow> string list" where
  "getPeers c = cl_values c ''add-peer''"

definition getPriorityNodes :: "command_line \<Rightarrow> string list" where
  "getPriorityNodes c = cl_values c ''add-priority-node''"

definition getExclusiveNodes :: "command_line \<Rightarrow> string list" where
  "getExclusiveNodes c = cl_values c ''add-exclusive-node''"

definition getSeedNodes :: "command_line \<Rightarrow> string list" where
  "getSeedNodes c = cl_values c ''seed-node''"

definition cl_getDataDir :: "command_line \<Rightarrow> string" where
  "cl_getDataDir c = cl_value c ''data-dir''"


section \<open>State and environment\<close>

record qurl =
  qu_scheme :: string
  qu_host :: string
  qu_port :: int

text \<open>
  The JSON codec, whether the file can be written, whether there is a system
  tray, QUrl::fromUserInput, QDir::absoluteFilePath and the library's default
  port.
\<close>

record cfg_env =
  ce_codec :: codec
  ce_writable :: bool
  ce_tray :: bool
  ce_userInput :: "string \<Rightarrow> qurl"
  ce_absolute :: "string \<Rightarrow> string \<Rightarrow> string"
  ce_rpcPort :: int

record cfg =
  cf_settings :: jobject
  cf_p2pBindPort :: "16 word"
  cf_onRemote :: bool
  cf_file :: "string option"
  cf_observers :: "nat set"
  cf_notified :: nat

definition K_NODES :: string where "K_NODES = ''remoteRpcNodes''"
definition K_METHOD :: string where "K_METHOD = ''connectionMethod''"
definition K_PORT :: string where "K_PORT = ''localRpcPort''"
definition K_URL :: string where "K_URL = ''remoteRpcUrl''"
definition K_WALLET :: string where "K_WALLET = ''walletFile''"
definition K_ENCRYPTED :: string where "K_ENCRYPTED = ''encrypted''"
definition K_THEME :: string where "K_THEME = ''theme''"
definition K_RECENT :: string where "K_RECENT = ''recentWallets''"
definition K_MINIMIZE :: string where "K_MINIMIZE = ''minimizeToTray''"
definition K_CLOSE :: string where "K_CLOSE = ''closeToTray''"
definition K_PRIVACY :: string where "K_PRIVACY = ''privacyParams''"
definition K_NEWS :: string where "K_NEWS = ''newsEnabled''"
definition K_EXPLORER :: string where "K_EXPLORER = ''blockExplorerEnabled''"

definition DEFAULT_NODES :: "string list" where
  "DEFAULT_NODES = [''http://node.karbowanec.com:32348'', ''http://node.karbovanets.org:32348'',
     ''http://node.karbo.cloud:32348'', ''http://node.karbo.io:32348'']"

definition cf_new :: "string option \<Rightarrow> cfg" where
  "cf_new file = \<lparr>cf_settings = Map.empty, cf_p2pBindPort = 0, cf_onRemote = False, cf_file = file,
     cf_observers = {}, cf_notified = 0\<rparr>"

definition cf_has :: "string \<Rightarrow> cfg \<Rightarrow> bool" where
  "cf_has k s \<longleftrightarrow> cf_settings s k \<noteq> None"

definition cf_get :: "string \<Rightarrow> cfg \<Rightarrow> json" where
  "cf_get k s = jvalue (cf_settings s) k"

definition cf_insert :: "string \<Rightarrow> json \<Rightarrow> cfg \<Rightarrow> cfg" where
  "cf_insert k v s = s\<lparr>cf_settings := (cf_settings s)(k \<mapsto> v)\<rparr>"

definition saveSettings :: "cfg_env \<Rightarrow> cfg \<Rightarrow> cfg" where
  "saveSettings E s = (if ce_writable E then s\<lparr>cf_file := Some (toJson (ce_codec E) (cf_settings s))\<rparr> else s)"

definition notifyObservers :: "cfg \<Rightarrow> cfg" where
  "notifyObservers s = s\<lparr>cf_notified := Suc (cf_notified s)\<rparr>"

text \<open>Every setter that changes something inserts the option, saves and notifies.\<close>

definition store :: "cfg_env \<Rightarrow> string \<Rightarrow> json \<Rightarrow> cfg \<Rightarrow> cfg" where
  "store E k v s = notifyObservers (saveSettings E (cf_insert k v s))"


section \<open>Reading\<close>

definition getConnectionMethod :: "cfg \<Rightarrow> int" where
  "getConnectionMethod s = (if cf_has K_METHOD s then json_toInt 0 (cf_get K_METHOD s) else 0)"

definition isNewsEnabled :: "cfg \<Rightarrow> bool" where
  "isNewsEnabled s =
     (if \<not> cf_has K_PRIVACY s then False
      else (let p = json_toObject (cf_get K_PRIVACY s) in
        if p K_NEWS \<noteq> None then json_toBool False (jvalue p K_NEWS) else False))"

definition isBlockchainExplorerEnabled :: "cfg \<Rightarrow> bool" where
  "isBlockchainExplorerEnabled s =
     (if \<not> cf_has K_EXPLORER s then False
      else if cf_has K_EXPLORER s then json_toBool False (cf_get K_EXPLORER s) else False)"

definition getLocalRpcPort :: "cfg_env \<Rightarrow> cfg \<Rightarrow> 16 word" where
  "getLocalRpcPort E s = of_int (json_toInt (ce_rpcPort E) (cf_get K_PORT s))"

definition getRemoteRpcUrl :: "cfg_env \<Rightarrow> cfg \<Rightarrow> qurl" where
  "getRemoteRpcUrl E s =
     (if cf_has K_URL s then ce_userInput E (json_toString (cf_get K_URL s))
      else \<lparr>qu_scheme = [], qu_host = [], qu_port = -1\<rparr>)"

definition getWalletFile :: "cfg_env \<Rightarrow> command_line \<Rightarrow> cfg \<Rightarrow> string" where
  "getWalletFile E c s =
     (if cf_has K_WALLET s then json_toString (cf_get K_WALLET s) else ce_absolute E (cl_getDataDir c) ''karbo.wallet'')"

definition cf_isEncrypted :: "cfg \<Rightarrow> bool" where
  "cf_isEncrypted s = (if cf_has K_ENCRYPTED s then json_toBool False (cf_get K_ENCRYPTED s) else False)"

definition getCurrentTheme :: "cfg \<Rightarrow> string" where
  "getCurrentTheme s = (if cf_has K_THEME s then json_toString (cf_get K_THEME s) else ''light'')"

text \<open>The style of the current theme; None is the null pointer the source dereferences.\<close>

definition getCurrentStyle :: "(string \<Rightarrow> 'style option) \<Rightarrow> cfg \<Rightarrow> 'style option" where
  "getCurrentStyle styles s = styles (getCurrentTheme s)"

definition cf_strings :: "string \<Rightarrow> cfg \<Rightarrow> string list" where
  "cf_strings k s = (if cf_has k s then map json_toString (json_toArray (cf_get k s)) else [])"

definition getRecentWalletList :: "cfg \<Rightarrow> string list" where
  "getRecentWalletList s = cf_strings K_RECENT s"

definition getRemoteNodeList :: "cfg \<Rightarrow> string list" where
  "getRemoteNodeList s = cf_strings K_NODES s"

definition isMinimizeToTrayEnabled :: "cfg_env \<Rightarrow> cfg \<Rightarrow> bool" where
  "isMinimizeToTrayEnabled E s =
     (if \<not> ce_tray E then False else if cf_has K_MINIMIZE s then json_toBool False (cf_get K_MINIMIZE s) else False)"

definition isCloseToTrayEnabled :: "cfg_env \<Rightarrow> cfg \<Rightarrow> bool" where
  "isCloseToTrayEnabled E s =
     (if \<not> ce_tray E then False else if cf_has K_CLOSE s then json_toBool False (cf_get K_CLOSE s) else False)"

definition getP2pBindPort :: "command_line \<Rightarrow> cfg \<Rightarrow> 16 word" where
  "getP2pBindPort c s = (if cf_p2pBindPort s \<noteq> 0 then cf_p2pBindPort s else cl_getP2pBindPort c)"

text \<open>QString::lastIndexOf, and replace(pos, n, after), which does nothing for a position outside.\<close>

fun last_index :: "string \<Rightarrow> string \<Rightarrow> nat option" where
  "last_index p [] = (if p = [] then Some 0 else None)"
| "last_index p (c # s) =
     (case last_index p s of Some i \<Rightarrow> Some (Suc i) | None \<Rightarrow> if starts_with (c # s) p then Some 0 else None)"

definition replace_at :: "nat option \<Rightarrow> nat \<Rightarrow> string \<Rightarrow> string \<Rightarrow> string" where
  "replace_at pos n after s =
     (case pos of None \<Rightarrow> s | Some i \<Rightarrow> if i > length s then s else take i s @ after @ drop (i + n) s)"

definition getLegacyAddressBookFile :: "cfg_env \<Rightarrow> command_line \<Rightarrow> cfg \<Rightarrow> string" where
  "getLegacyAddressBookFile E c s =
     (let f = getWalletFile E c s in replace_at (last_index ''.wallet'' f) 7 ''.addressbook'' f)"


section \<open>Writing\<close>

definition setConnectionMethod :: "cfg_env \<Rightarrow> int \<Rightarrow> cfg \<Rightarrow> cfg" where
  "setConnectionMethod E m s = (if getConnectionMethod s \<noteq> m then store E K_METHOD (JDouble (of_int m)) s else s)"

definition setLocalRpcPort :: "cfg_env \<Rightarrow> 16 word \<Rightarrow> cfg \<Rightarrow> cfg" where
  "setLocalRpcPort E p s = (if getLocalRpcPort E s \<noteq> p then store E K_PORT (JDouble (of_int (uint p))) s else s)"

definition url_text :: "qurl \<Rightarrow> string" where
  "url_text u = qu_scheme u @ ''://'' @ qu_host u @ '':'' @ dec_int (qu_port u)"

definition setRemoteRpcUrl :: "cfg_env \<Rightarrow> qurl \<Rightarrow> cfg \<Rightarrow> cfg" where
  "setRemoteRpcUrl E u s =
     (let v = (if qu_scheme u = [] then u\<lparr>qu_scheme := ''http''\<rparr> else u) in store E K_URL (JString (url_text v)) s)"

definition setP2pBindPort :: "16 word \<Rightarrow> cfg \<Rightarrow> cfg" where
  "setP2pBindPort p s = notifyObservers (s\<lparr>cf_p2pBindPort := p\<rparr>)"

definition wallet_name :: "string \<Rightarrow> string" where
  "wallet_name f = (if ends_with f ''.wallet'' \<or> ends_with f ''.keys'' then f else f @ ''.wallet'')"

definition setWalletFile :: "cfg_env \<Rightarrow> string \<Rightarrow> cfg \<Rightarrow> cfg" where
  "setWalletFile E f s = store E K_WALLET (JString (wallet_name f)) s"

definition setCurrentTheme :: "cfg_env \<Rightarrow> string \<Rightarrow> cfg \<Rightarrow> cfg" where
  "setCurrentTheme E t s = (if getCurrentTheme s \<noteq> t then store E K_THEME (JString t) s else s)"

definition setRecentWalletList :: "cfg_env \<Rightarrow> string list \<Rightarrow> cfg \<Rightarrow> cfg" where
  "setRecentWalletList E l s = store E K_RECENT (JArray (map JString l)) s"

definition setRemoteNodeList :: "cfg_env \<Rightarrow> string list \<Rightarrow> cfg \<Rightarrow> cfg" where
  "setRemoteNodeList E l s = store E K_NODES (JArray (map JString l)) s"

definition setNewsEnabled :: "cfg_env \<Rightarrow> bool \<Rightarrow> cfg \<Rightarrow> cfg" where
  "setNewsEnabled E b s =
     (if b = isNewsEnabled s then s
      else (let p = (if cf_has K_PRIVACY s then json_toObject (cf_get K_PRIVACY s) else Map.empty)
            in store E K_PRIVACY (JObject (p(K_NEWS \<mapsto> JBool b))) s))"

definition setBlockchainExplorerEnabled :: "cfg_env \<Rightarrow> bool \<Rightarrow> cfg \<Rightarrow> cfg" where
  "setBlockchainExplorerEnabled E b s =
     (if b = isBlockchainExplorerEnabled s then s else store E K_EXPLORER (JBool b) s)"

definition setMinimizeToTrayEnabled :: "cfg_env \<Rightarrow> bool \<Rightarrow> cfg \<Rightarrow> cfg" where
  "setMinimizeToTrayEnabled E b s =
     (if \<not> ce_tray E then s else if isMinimizeToTrayEnabled E s \<noteq> b then store E K_MINIMIZE (JBool b) s else s)"

definition setCloseToTrayEnabled :: "cfg_env \<Rightarrow> bool \<Rightarrow> cfg \<Rightarrow> cfg" where
  "setCloseToTrayEnabled E b s =
     (if \<not> ce_tray E then s else if isCloseToTrayEnabled E s \<noteq> b then store E K_CLOSE (JBool b) s else s)"

definition cf_addObserver :: "nat \<Rightarrow> cfg \<Rightarrow> cfg option" where
  "cf_addObserver o' s = (if o' \<in> cf_observers s then None else Some (s\<lparr>cf_observers := insert o' (cf_observers s)\<rparr>))"

definition cf_removeObserver :: "nat \<Rightarrow> cfg \<Rightarrow> cfg option" where
  "cf_removeObserver o' s = (if o' \<notin> cf_observers s then None else Some (s\<lparr>cf_observers := cf_observers s - {o'}\<rparr>))"

definition setOnRemote :: "bool \<Rightarrow> cfg \<Rightarrow> cfg" where
  "setOnRemote b s = s\<lparr>cf_onRemote := b\<rparr>"


section \<open>Start\<close>

definition restoreDefaultNodeList :: "cfg_env \<Rightarrow> cfg \<Rightarrow> cfg" where
  "restoreDefaultNodeList E s =
     (if \<not> cf_has K_NODES s then setRemoteNodeList E DEFAULT_NODES s
      else setRemoteNodeList E
        (fold (\<lambda>n l. if n \<notin> set l then l @ [n] else l) DEFAULT_NODES (getRemoteNodeList s)) s)"

text \<open>r is the value of rand(); None is the division by an empty list's length.\<close>

definition setDefaultRemoteNode :: "cfg_env \<Rightarrow> nat \<Rightarrow> cfg \<Rightarrow> cfg option" where
  "setDefaultRemoteNode E r s =
     (if \<not> cf_has K_URL s \<or> getConnectionMethod s \<noteq> 3 then
        (let l = getRemoteNodeList s in
         if l = [] then None
         else let u = ce_userInput E (l ! (r mod length l))
           in Some (cf_insert K_URL (JString (qu_host u @ '':'' @ dec_int (qu_port u))) s))
      else Some s)"

definition cf_load :: "cfg_env \<Rightarrow> cfg \<Rightarrow> cfg" where
  "cf_load E s =
     (case cf_file s of
        None \<Rightarrow> s
      | Some text \<Rightarrow> s\<lparr>cf_settings :=
          (case fromJson (ce_codec E) text of None \<Rightarrow> Map.empty | Some v \<Rightarrow> json_toObject v)\<rparr>)"

definition cf_init :: "cfg_env \<Rightarrow> nat \<Rightarrow> cfg \<Rightarrow> cfg option" where
  "cf_init E r s = setDefaultRemoteNode E r (restoreDefaultNodeList E (cf_load E s))"


section \<open>What holds of every option\<close>

lemmas keys = K_NODES_def K_METHOD_def K_PORT_def K_URL_def K_WALLET_def K_ENCRYPTED_def K_THEME_def K_RECENT_def
  K_MINIMIZE_def K_CLOSE_def K_PRIVACY_def K_NEWS_def K_EXPLORER_def

lemma settings_store [simp]: "cf_settings (store E k v s) = (cf_settings s)(k \<mapsto> v)"
  by (simp add: store_def notifyObservers_def saveSettings_def cf_insert_def)

lemma has_store [simp]: "cf_has k (store E j v s) \<longleftrightarrow> k = j \<or> cf_has k s"
  by (simp add: cf_has_def)

lemma get_store [simp]: "cf_get k (store E j v s) = (if k = j then v else cf_get k s)"
  by (simp add: cf_get_def)

lemma file_store: "ce_writable E \<Longrightarrow> cf_file (store E k v s) = Some (toJson (ce_codec E) ((cf_settings s)(k \<mapsto> v)))"
  by (simp add: store_def notifyObservers_def saveSettings_def cf_insert_def)

text \<open>
  A reader and a writer of one option: the reader sees only its option, the
  writer changes only that one, and what is written is read back.
\<close>

locale setting =
  fixes E :: cfg_env
    and key :: string
    and get :: "cfg \<Rightarrow> 'a"
    and put :: "'a \<Rightarrow> cfg \<Rightarrow> cfg"
    and ok :: "'a \<Rightarrow> bool"
  assumes get_put: "ok v \<Longrightarrow> get (put v s) = v"
    and get_local: "cf_settings s key = cf_settings t key \<Longrightarrow> get s = get t"
    and put_store: "put v s = s \<or> (\<exists>w. put v s = store E key w s)"
begin

lemma put_frame: "k \<noteq> key \<Longrightarrow> cf_settings (put v s) k = cf_settings s k"
  using put_store [of v s] by auto

lemma same_after: "(\<And>k. k \<noteq> other \<Longrightarrow> cf_settings t k = cf_settings s k) \<Longrightarrow> key \<noteq> other \<Longrightarrow> get t = get s"
  by (rule get_local) blast

end

locale two_settings = a: setting E key1 get1 put1 ok1 + b: setting E key2 get2 put2 ok2
  for E key1 get1 put1 ok1 key2 get2 put2 ok2 +
  assumes distinct: "key1 \<noteq> key2"
begin

lemma independent: "get2 (put1 v s) = get2 s" "get1 (put2 w s) = get1 s"
  using distinct a.put_frame b.put_frame by (auto intro: a.get_local b.get_local)

end

lemma get_cong: "cf_settings s k = cf_settings t k \<Longrightarrow> cf_has k s = cf_has k t \<and> cf_get k s = cf_get k t"
  by (simp add: cf_has_def cf_get_def jvalue_def)

lemma strings_cong: "cf_settings s k = cf_settings t k \<Longrightarrow> cf_strings k s = cf_strings k t"
  using get_cong [of s k t] by (simp add: cf_strings_def)

lemma map_toString [simp]: "map (json_toString \<circ> JString) l = l"
  by (induction l) auto

interpretation wallet: setting E K_WALLET "getWalletFile E c" "setWalletFile E" "\<lambda>f. wallet_name f = f" for E c
  by unfold_locales (auto simp: getWalletFile_def setWalletFile_def dest: get_cong)

interpretation theme: setting E K_THEME getCurrentTheme "setCurrentTheme E" "\<lambda>_. True" for E
proof
  show "getCurrentTheme (setCurrentTheme E v s) = v" for v s
    by (cases "getCurrentTheme s = v") (simp_all add: setCurrentTheme_def getCurrentTheme_def)
qed (auto simp: getCurrentTheme_def setCurrentTheme_def dest: get_cong)

interpretation recent: setting E K_RECENT getRecentWalletList "setRecentWalletList E" "\<lambda>_. True" for E
  by unfold_locales (auto simp: getRecentWalletList_def setRecentWalletList_def cf_strings_def dest: get_cong)

interpretation nodes: setting E K_NODES getRemoteNodeList "setRemoteNodeList E" "\<lambda>_. True" for E
  by unfold_locales (auto simp: getRemoteNodeList_def setRemoteNodeList_def cf_strings_def dest: get_cong)

interpretation meth: setting E K_METHOD getConnectionMethod "setConnectionMethod E" int_range for E
proof
  show "int_range v \<Longrightarrow> getConnectionMethod (setConnectionMethod E v s) = v" for v s
    by (cases "getConnectionMethod s = v") (simp_all add: setConnectionMethod_def getConnectionMethod_def json_toInt_of_int del: json_toInt.simps)
qed (auto simp: getConnectionMethod_def setConnectionMethod_def dest: get_cong)

lemma port_in_range: "int_range (uint (p :: 16 word))"
proof -
  have "0 \<le> uint p" "uint p < 65536"
    using uint_lt2p [of p] by simp_all
  then have "- 2147483648 \<le> uint p" "uint p < 2147483648"
    by linarith+
  then show ?thesis
    by (simp add: int_range_def)
qed

lemma json_toInt_port: "json_toInt d (JDouble (unsigned (p :: 16 word))) = uint p"
  using json_toInt_of_int [OF port_in_range, of d p] by (simp only: of_int_uint)

interpretation port: setting E K_PORT "getLocalRpcPort E" "setLocalRpcPort E" "\<lambda>_. True" for E
proof
  show "getLocalRpcPort E (setLocalRpcPort E v s) = v" for v s
    by (cases "getLocalRpcPort E s = v")
      (simp_all add: setLocalRpcPort_def getLocalRpcPort_def json_toInt_port del: json_toInt.simps)
qed (auto simp: getLocalRpcPort_def setLocalRpcPort_def dest: get_cong)

interpretation news: setting E K_PRIVACY isNewsEnabled "setNewsEnabled E" "\<lambda>_. True" for E
proof
  show "isNewsEnabled (setNewsEnabled E v s) = v" for v s
    by (cases "isNewsEnabled s = v") (auto simp: setNewsEnabled_def isNewsEnabled_def Let_def)
qed (auto simp: isNewsEnabled_def setNewsEnabled_def Let_def dest: get_cong)

interpretation explorer_on: setting E K_EXPLORER isBlockchainExplorerEnabled "setBlockchainExplorerEnabled E" "\<lambda>_. True" for E
proof
  show "isBlockchainExplorerEnabled (setBlockchainExplorerEnabled E v s) = v" for v s
    by (cases "isBlockchainExplorerEnabled s = v")
      (auto simp: setBlockchainExplorerEnabled_def isBlockchainExplorerEnabled_def)
qed (auto simp: isBlockchainExplorerEnabled_def setBlockchainExplorerEnabled_def dest: get_cong)

interpretation minimize: setting E K_MINIMIZE "isMinimizeToTrayEnabled E" "setMinimizeToTrayEnabled E" "\<lambda>b. ce_tray E \<or> \<not> b" for E
proof
  show "ce_tray E \<or> \<not> v \<Longrightarrow> isMinimizeToTrayEnabled E (setMinimizeToTrayEnabled E v s) = v" for v s
    by (cases "isMinimizeToTrayEnabled E s = v")
      (auto simp: setMinimizeToTrayEnabled_def isMinimizeToTrayEnabled_def)
qed (auto simp: isMinimizeToTrayEnabled_def setMinimizeToTrayEnabled_def dest: get_cong)

interpretation close_tray: setting E K_CLOSE "isCloseToTrayEnabled E" "setCloseToTrayEnabled E" "\<lambda>b. ce_tray E \<or> \<not> b" for E
proof
  show "ce_tray E \<or> \<not> v \<Longrightarrow> isCloseToTrayEnabled E (setCloseToTrayEnabled E v s) = v" for v s
    by (cases "isCloseToTrayEnabled E s = v")
      (auto simp: setCloseToTrayEnabled_def isCloseToTrayEnabled_def)
qed (auto simp: isCloseToTrayEnabled_def setCloseToTrayEnabled_def dest: get_cong)

interpretation theme_and_port: two_settings E K_THEME getCurrentTheme "setCurrentTheme E" "\<lambda>_. True"
  K_PORT "getLocalRpcPort E" "setLocalRpcPort E" "\<lambda>_. True" for E
  by unfold_locales (simp add: keys)

end
