(* ===== verification/WalletSession.thy ===== *)
theory WalletSession
  imports WalletAdapter KeyExchange AppSettings "HOL-Library.Monad_Syntax"
begin

text \<open>
  The main window and the wallet it works on: which actions and pages it offers,
  and how it creates, opens, imports, saves and closes wallets
  (src/src/Gui/MainWindow/MainWindow.cpp), the frame that asks for the password
  (src/src/Gui/NoWallet/NoWalletFrame.cpp) and the current address
  (src/src/Application/CurrentAddressState.cpp).

  The wallet adapter is reached through its interface, a record of functions;
  None is a failed assertion or a missing worker. What dialogs answer and whether
  a file exists are arguments. Queued calls and signals wait in a queue and are
  delivered before the next action of the user.
\<close>

section \<open>The interface of the wallet adapter\<close>

record 'a wallet_if =
  wi_isOpen :: "'a \<Rightarrow> bool"
  wi_isEncrypted :: "'a \<Rightarrow> bool option"
  wi_isTracking :: "'a \<Rightarrow> bool option"
  wi_mode :: "'a \<Rightarrow> gen_mode option"
  wi_addressCount :: "'a \<Rightarrow> nat option"
  wi_address :: "nat \<Rightarrow> 'a \<Rightarrow> string option"
  wi_keys :: "nat \<Rightarrow> 'a \<Rightarrow> account_keys option"
  wi_balance :: "'a \<Rightarrow> u64 option"
  wi_save :: "save_level \<Rightarrow> bool \<Rightarrow> 'a \<Rightarrow> ('a \<times> save_status) option"
  wi_export :: "string \<Rightarrow> bool \<Rightarrow> save_level \<Rightarrow> bool \<Rightarrow> 'a \<Rightarrow> ('a \<times> save_status) option"
  wi_password :: "string \<Rightarrow> string \<Rightarrow> 'a \<Rightarrow> ('a \<times> password_status) option"
  wi_createAddress :: "'a \<Rightarrow> ('a \<times> string) option"
  wi_createAddressKeys :: "account_keys \<Rightarrow> 'a \<Rightarrow> ('a \<times> string) option"
  wi_deleteAddress :: "nat \<Rightarrow> 'a \<Rightarrow> ('a \<times> unit) option"
  wi_register :: "nat \<Rightarrow> 'a \<Rightarrow> ('a \<times> send_status) option"
  wi_close :: "'a \<Rightarrow> 'a option"
  wi_create :: "string \<Rightarrow> string \<Rightarrow> 'a \<Rightarrow> ('a \<times> init_status) option"
  wi_createHd :: "string \<Rightarrow> string \<Rightarrow> account_keys \<Rightarrow> u32 \<Rightarrow> bool \<Rightarrow> 'a \<Rightarrow> ('a \<times> init_status) option"
  wi_createWithKeys :: "string \<Rightarrow> account_keys \<Rightarrow> 'a \<Rightarrow> ('a \<times> init_status) option"
  wi_load :: "string \<Rightarrow> string \<Rightarrow> 'a \<Rightarrow> ('a \<times> init_status) option"
  wi_loadLegacy :: "string \<Rightarrow> string \<Rightarrow> string \<Rightarrow> 'a \<Rightarrow> ('a \<times> init_status) option"


section \<open>State\<close>

datatype page = Overview | Send | Receive | History | Contacts | Explorer

datatype mw_action =
    Nav page
  | BackupWallet | ResetWallet | CloseWallet | ExportTrackingKey | ExportKey | SaveKeys | ShowSeed
  | EncryptWallet | ChangePassword | OpenPaymentRequest | CreatePaymentRequest | SignMessage | VerifyMessage
  | BalanceProof | CreateAddress | ImportAddress

datatype frame = NoWallet | PageFrame page

datatype mw_call = CallLoad | CallLoadKeys | SigOpened | SigOpenError init_status | SigClosed | SigPasswordChanged

text \<open>CurrentAddressState; no address is the index -1 with an empty text.\<close>

record current_address =
  ca_index :: u64
  ca_address :: string

definition ca_none :: current_address where
  "ca_none = \<lparr>ca_index = - 1, ca_address = []\<rparr>"

record 'a session =
  mw_wallet :: 'a
  mw_cfg :: cfg
  mw_enabled :: "mw_action set"
  mw_checked :: "page option"
  mw_visible :: "frame set"
  mw_menu :: "(string \<times> bool) list"
  mw_current :: current_address
  mw_changes :: "current_address list"
  mw_queue :: "mw_call list"
  nw_walletFile :: string
  nw_keysFile :: string
  nw_password :: bool
  nw_error :: bool
  mw_written :: "string list"

text \<open>
  Settings, command line, whether there is a block explorer, the test for a
  deterministic wallet, the keys generated for a new one, the reading of a seed,
  and the keys library.
\<close>

record mw_env =
  me_cfg :: cfg_env
  me_line :: command_line
  me_explorer :: bool
  me_deterministic :: "account_keys \<Rightarrow> bool"
  me_generated :: account_keys
  me_seed :: "string \<Rightarrow> account_keys option"
  me_lib :: key_lib

definition MAX_RECENT_WALLET_COUNT :: nat where "MAX_RECENT_WALLET_COUNT = 10"

definition walletFile :: "mw_env \<Rightarrow> 'a session \<Rightarrow> string" where
  "walletFile E s = getWalletFile (me_cfg E) (me_line E) (mw_cfg s)"

definition putWalletFile :: "mw_env \<Rightarrow> string \<Rightarrow> 'a session \<Rightarrow> 'a session" where
  "putWalletFile E f s = s\<lparr>mw_cfg := setWalletFile (me_cfg E) f (mw_cfg s)\<rparr>"

definition setCurrent :: "u64 \<Rightarrow> string \<Rightarrow> 'a session \<Rightarrow> 'a session" where
  "setCurrent i a s =
     (let c = mw_current s in
      if ca_index c = i \<and> ca_address c = a then s
      else s\<lparr>mw_current := \<lparr>ca_index = i, ca_address = a\<rparr>, mw_changes := mw_changes s @ [\<lparr>ca_index = i, ca_address = a\<rparr>]\<rparr>)"

definition clearCurrent :: "'a session \<Rightarrow> 'a session" where
  "clearCurrent s =
     (let c = mw_current s in
      if ca_address c = [] \<and> ca_index c = - 1 then s
      else s\<lparr>mw_current := ca_none, mw_changes := mw_changes s @ [ca_none]\<rparr>)"


section \<open>Pages and actions\<close>

text \<open>setChecked in the exclusive group: a checked action shows its frame and unchecks the one before.\<close>

definition check_page :: "page \<Rightarrow> 'a session \<Rightarrow> 'a session" where
  "check_page p s =
     (if mw_checked s = Some p then s
      else s\<lparr>mw_checked := Some p,
             mw_visible := insert (PageFrame p)
               (case mw_checked s of None \<Rightarrow> mw_visible s | Some q \<Rightarrow> mw_visible s - {PageFrame q})\<rparr>)"

definition uncheck_page :: "page \<Rightarrow> 'a session \<Rightarrow> 'a session" where
  "uncheck_page p s =
     (if mw_checked s = Some p then s\<lparr>mw_checked := None, mw_visible := mw_visible s - {PageFrame p}\<rparr> else s)"

definition enable :: "mw_action set \<Rightarrow> 'a session \<Rightarrow> 'a session" where
  "enable A s = s\<lparr>mw_enabled := mw_enabled s \<union> A\<rparr>"

definition disable :: "mw_action set \<Rightarrow> 'a session \<Rightarrow> 'a session" where
  "disable A s = s\<lparr>mw_enabled := mw_enabled s - A\<rparr>"

definition set_enabled :: "mw_action \<Rightarrow> bool \<Rightarrow> 'a session \<Rightarrow> 'a session" where
  "set_enabled a b s = (if b then enable {a} s else disable {a} s)"

definition opened_actions :: "mw_action set" where
  "opened_actions = {BackupWallet, ResetWallet, CloseWallet, ExportTrackingKey, ExportKey, SaveKeys, ShowSeed,
     OpenPaymentRequest, CreatePaymentRequest, SignMessage, VerifyMessage, CreateAddress, ImportAddress,
     Nav Overview, Nav Send, Nav Receive, Nav History, Nav Contacts}"

definition wallet_actions :: "mw_action set" where
  "wallet_actions = opened_actions \<union> {EncryptWallet, ChangePassword, BalanceProof, Nav Explorer}"

definition page_frames :: "frame set" where
  "page_frames = {PageFrame Overview, PageFrame Send, PageFrame Receive, PageFrame History, PageFrame Contacts,
     PageFrame Explorer}"

definition setOpenedState :: "'a wallet_if \<Rightarrow> mw_env \<Rightarrow> 'a session \<Rightarrow> 'a session option" where
  "setOpenedState W E s = do {
     enc \<leftarrow> wi_isEncrypted W (mw_wallet s);
     let s1 = set_enabled ChangePassword enc (set_enabled EncryptWallet (\<not> enc) (enable opened_actions s));
     let s2 = s1\<lparr>mw_visible := insert (PageFrame Overview) (mw_visible s1 - {NoWallet})\<rparr>;
     Some (check_page Overview (set_enabled (Nav Explorer) (me_explorer E) s2))
   }"

definition setClosedState :: "'a session \<Rightarrow> 'a session" where
  "setClosedState s =
     (let s1 = disable wallet_actions (uncheck_page Overview s)
      in s1\<lparr>mw_visible := insert NoWallet (mw_visible s1 - page_frames)\<rparr>)"

definition updateRecentWalletActions :: "'a session \<Rightarrow> 'a session" where
  "updateRecentWalletActions s =
     (let r = getRecentWalletList (mw_cfg s); n = min (length r) MAX_RECENT_WALLET_COUNT in
      s\<lparr>mw_menu := map (\<lambda>i. if i < n then (r ! i, True) else (fst (mw_menu s ! i), False)) [0..<MAX_RECENT_WALLET_COUNT]\<rparr>)"

definition createRecentWalletMenu :: "'a session \<Rightarrow> 'a session" where
  "createRecentWalletMenu s =
     updateRecentWalletActions (s\<lparr>mw_menu := replicate MAX_RECENT_WALLET_COUNT ([], False)\<rparr>)"

definition remember_wallet :: "mw_env \<Rightarrow> 'a session \<Rightarrow> 'a session" where
  "remember_wallet E s =
     (let f = walletFile E s;
          l = f # removeAll f (getRecentWalletList (mw_cfg s))
      in updateRecentWalletActions
           (s\<lparr>mw_cfg := setRecentWalletList (me_cfg E) (take MAX_RECENT_WALLET_COUNT l) (mw_cfg s)\<rparr>))"


section \<open>Signals of the wallet\<close>

datatype url_kind = NoUrl | Donation | Payment

text \<open>A donation URL opens the address book and the options dialog, another one the send page.\<close>

definition urlReceived :: "'a wallet_if \<Rightarrow> url_kind \<Rightarrow> 'a session \<Rightarrow> 'a session" where
  "urlReceived W u s =
     (if \<not> wi_isOpen W (mw_wallet s) then s
      else case u of NoUrl \<Rightarrow> s | Donation \<Rightarrow> s | Payment \<Rightarrow> check_page Send s)"

text \<open>What a tracking wallet, and a wallet without a seed, does not offer.\<close>

definition limit_actions :: "bool \<Rightarrow> bool \<Rightarrow> 'a session \<Rightarrow> 'a session" where
  "limit_actions tracking seedless s =
     disable ((if tracking then {Nav Send, Nav Contacts, OpenPaymentRequest, ExportKey} else {}) \<union>
              (if seedless then {ShowSeed} else {})) s"

definition first_address :: "string \<Rightarrow> 'a session \<Rightarrow> 'a session" where
  "first_address a s = (if ca_address (mw_current s) = [] then setCurrent 0 a s else s)"

definition walletOpened :: "'a wallet_if \<Rightarrow> mw_env \<Rightarrow> url_kind \<Rightarrow> 'a session \<Rightarrow> 'a session option" where
  "walletOpened W E url s = do {
     s1 \<leftarrow> setOpenedState W E s;
     let s2 = remember_wallet E s1;
     tracking \<leftarrow> wi_isTracking W (mw_wallet s2);
     ks \<leftarrow> wi_keys W 0 (mw_wallet s2);
     m \<leftarrow> wi_mode W (mw_wallet s2);
     let s3 = limit_actions tracking (m \<noteq> HD_DETERMINISTIC \<and> \<not> me_deterministic E ks) s2;
     let s4 = urlReceived W url s3;
     a \<leftarrow> wi_address W 0 (mw_wallet s4);
     Some (first_address a s4)
   }"

definition walletOpenError :: "init_status \<Rightarrow> 'a session \<Rightarrow> 'a session" where
  "walletOpenError st s = (if st \<noteq> INIT_SUCCESS then setClosedState s else s)"

definition walletClosed :: "'a session \<Rightarrow> 'a session" where
  "walletClosed s = clearCurrent (setClosedState s)"

definition passwordChanged :: "'a wallet_if \<Rightarrow> 'a session \<Rightarrow> 'a session option" where
  "passwordChanged W s = do {
     enc \<leftarrow> wi_isEncrypted W (mw_wallet s);
     let s1 = set_enabled EncryptWallet (\<not> enc) (set_enabled ChangePassword enc s);
     (w, _) \<leftarrow> wi_save W SAVE_ALL True (mw_wallet s1);
     Some (s1\<lparr>mw_wallet := w\<rparr>)
   }"

definition synchronizationProgressUpdated :: "u32 \<Rightarrow> u32 \<Rightarrow> 'a session \<Rightarrow> 'a session" where
  "synchronizationProgressUpdated current full s = (if full < current then s else disable {BalanceProof} s)"

definition synchronizationCompleted :: "'a wallet_if \<Rightarrow> 'a session \<Rightarrow> 'a session option" where
  "synchronizationCompleted W s = do {
     b \<leftarrow> wi_balance W (mw_wallet s);
     Some (if b > 0 then enable {BalanceProof} s else s)
   }"

definition balanceUpdated :: "u64 \<Rightarrow> 'a session \<Rightarrow> 'a session" where
  "balanceUpdated actual s = (if actual = 0 then disable {BalanceProof} s else s)"

definition aboutToBeSynchronized :: "bool \<Rightarrow> 'a session \<Rightarrow> 'a session" where
  "aboutToBeSynchronized b s = set_enabled BalanceProof (\<not> b) s"


section \<open>The frame that opens a wallet\<close>

definition nw_openWallet :: "string \<Rightarrow> string \<Rightarrow> 'a session \<Rightarrow> 'a session" where
  "nw_openWallet f kf s =
     s\<lparr>nw_password := False, nw_error := False, nw_walletFile := f, nw_keysFile := kf,
       mw_queue := mw_queue s @ [if kf = [] then CallLoad else CallLoadKeys]\<rparr>"

definition nw_walletOpened :: "'a session \<Rightarrow> 'a session" where
  "nw_walletOpened s = s\<lparr>nw_error := False, nw_password := False\<rparr>"

text \<open>
  What an attempt to open reports: the worker queues walletOpened or, when it was
  a load, walletOpenError. Its walletClosed arrives only if it is emitted before
  the worker's thread disconnects the observers (closing).
\<close>

definition reports :: "bool \<Rightarrow> bool \<Rightarrow> init_status \<Rightarrow> mw_call list" where
  "reports loading closing st =
     (if st = INIT_SUCCESS then [SigOpened]
      else (if loading then [SigOpenError st] else []) @ (if closing then [SigClosed] else []))"

definition nw_loaded :: "mw_env \<Rightarrow> bool \<Rightarrow> 'a \<times> init_status \<Rightarrow> 'a session \<Rightarrow> 'a session" where
  "nw_loaded E closing r s =
     (let s1 = s\<lparr>mw_wallet := fst r, mw_queue := mw_queue s @ reports True closing (snd r)\<rparr> in
      case snd r of
        INIT_WRONG_PASSWORD \<Rightarrow> if nw_password s1 then s1\<lparr>nw_error := True\<rparr> else s1\<lparr>nw_password := True\<rparr>
      | INIT_SUCCESS \<Rightarrow> putWalletFile E (nw_walletFile s1) s1
      | INIT_INTERNAL_ERROR \<Rightarrow> s1)"

definition nw_loadWallet :: "'a wallet_if \<Rightarrow> mw_env \<Rightarrow> bool \<Rightarrow> string \<Rightarrow> 'a session \<Rightarrow> 'a session option" where
  "nw_loadWallet W E closing pwd s = do {
     r \<leftarrow> wi_load W (nw_walletFile s) pwd (mw_wallet s);
     Some (nw_loaded E closing r s)
   }"

definition nw_loadLegacyKeys :: "'a wallet_if \<Rightarrow> mw_env \<Rightarrow> bool \<Rightarrow> string \<Rightarrow> 'a session \<Rightarrow> 'a session option" where
  "nw_loadLegacyKeys W E closing pwd s = do {
     r \<leftarrow> wi_loadLegacy W (nw_keysFile s) (nw_walletFile s) pwd (mw_wallet s);
     Some (nw_loaded E closing r s)
   }"

definition nw_okClicked :: "'a wallet_if \<Rightarrow> mw_env \<Rightarrow> bool \<Rightarrow> string \<Rightarrow> 'a session \<Rightarrow> 'a session option" where
  "nw_okClicked W E closing pwd s =
     (if nw_keysFile s = [] then nw_loadWallet W E closing pwd s else nw_loadLegacyKeys W E closing pwd s)"

text \<open>Delivery of the first call in the queue.\<close>

definition deliver :: "'a wallet_if \<Rightarrow> mw_env \<Rightarrow> bool \<Rightarrow> url_kind \<Rightarrow> 'a session \<Rightarrow> 'a session option" where
  "deliver W E closing url s =
     (case mw_queue s of
        [] \<Rightarrow> Some s
      | c # q \<Rightarrow>
          let s1 = s\<lparr>mw_queue := q\<rparr> in
          (case c of
             CallLoad \<Rightarrow> nw_loadWallet W E closing [] s1
           | CallLoadKeys \<Rightarrow> nw_loadLegacyKeys W E closing [] s1
           | SigOpened \<Rightarrow> map_option nw_walletOpened (walletOpened W E url s1)
           | SigOpenError st \<Rightarrow> Some (walletOpenError st s1)
           | SigClosed \<Rightarrow> Some (walletClosed s1)
           | SigPasswordChanged \<Rightarrow> passwordChanged W s1))"


section \<open>Creating, opening and importing wallets\<close>

definition with_suffix :: "string \<Rightarrow> string" where
  "with_suffix p = (if p \<noteq> [] \<and> \<not> ends_with p ''.wallet'' then p @ ''.wallet'' else p)"

text \<open>The wallet in use is closed while the window does not observe the adapter.\<close>

definition close_quietly :: "'a wallet_if \<Rightarrow> 'a session \<Rightarrow> 'a session option" where
  "close_quietly W s =
     (if wi_isOpen W (mw_wallet s) then map_option (\<lambda>w. s\<lparr>mw_wallet := w\<rparr>) (wi_close W (mw_wallet s)) else Some s)"

definition saved :: "'a wallet_if \<Rightarrow> save_level \<Rightarrow> 'a session \<Rightarrow> 'a session option" where
  "saved W level s = map_option (\<lambda>(w, _). s\<lparr>mw_wallet := w\<rparr>) (wi_save W level True (mw_wallet s))"

definition save_and_close :: "'a wallet_if \<Rightarrow> 'a session \<Rightarrow> 'a session option" where
  "save_and_close W s =
     (if wi_isOpen W (mw_wallet s) then do { s1 \<leftarrow> saved W SAVE_ALL s; close_quietly W s1 } else Some s)"

definition exported :: "'a wallet_if \<Rightarrow> string \<Rightarrow> bool \<Rightarrow> save_level \<Rightarrow> bool \<Rightarrow> 'a session \<Rightarrow> 'a session option" where
  "exported W path enc level ud s =
     map_option (\<lambda>(w, _). s\<lparr>mw_wallet := w, mw_written := mw_written s @ [path]\<rparr>)
       (wi_export W path enc level ud (mw_wallet s))"

text \<open>
  The settings name the new file before the attempt, and the old one again after
  a failure; a success is saved at once.
\<close>

definition attempt ::
  "'a wallet_if \<Rightarrow> mw_env \<Rightarrow> bool \<Rightarrow> string \<Rightarrow> ('a \<Rightarrow> ('a \<times> init_status) option) \<Rightarrow> 'a session \<Rightarrow> ('a session \<times> bool) option" where
  "attempt W E closing path op s = do {
     let old = walletFile E s;
     let s1 = putWalletFile E path s;
     (w, st) \<leftarrow> op (mw_wallet s1);
     let s2 = s1\<lparr>mw_wallet := w, mw_queue := mw_queue s1 @ reports False closing st, mw_written := mw_written s1 @ [path]\<rparr>;
     if st = INIT_SUCCESS then map_option (\<lambda>s3. (s3, True)) (saved W SAVE_ALL s2)
     else Some (putWalletFile E old s2, False)
   }"

definition createNonDeterministicWallet ::
  "'a wallet_if \<Rightarrow> mw_env \<Rightarrow> bool \<Rightarrow> (string \<Rightarrow> bool) \<Rightarrow> string \<Rightarrow> 'a session \<Rightarrow> 'a session option" where
  "createNonDeterministicWallet W E closing exists p s =
     (let path = with_suffix p in
      if exists path then Some s
      else if path \<noteq> [] then do {
        s1 \<leftarrow> save_and_close W s;
        (s2, ok) \<leftarrow> attempt W E closing path (wi_create W path []) s1;
        Some s2
      }
      else Some s)"

datatype seed_answer = SeedShown account_keys | WatchOnly | NoSeed

definition showMnemonicSeed :: "'a wallet_if \<Rightarrow> mw_env \<Rightarrow> 'a session \<Rightarrow> seed_answer option" where
  "showMnemonicSeed W E s = do {
     ks \<leftarrow> wi_keys W 0 (mw_wallet s);
     tracking \<leftarrow> wi_isTracking W (mw_wallet s);
     Some (if tracking then WatchOnly else if \<not> me_deterministic E ks then NoSeed else SeedShown ks)
   }"

definition createWallet ::
  "'a wallet_if \<Rightarrow> mw_env \<Rightarrow> bool \<Rightarrow> (string \<Rightarrow> bool) \<Rightarrow> string \<Rightarrow> 'a session \<Rightarrow> 'a session option" where
  "createWallet W E closing exists p s =
     (let path = with_suffix p in
      if exists path then Some s
      else if path \<noteq> [] then do {
        s1 \<leftarrow> save_and_close W s;
        (s2, ok) \<leftarrow> attempt W E closing path (wi_createHd W path [] (me_generated E) 1 False) s1;
        if ok then
          if \<not> wi_isOpen W (mw_wallet s2) then None
          else do {
            s3 \<leftarrow> exported W (walletFile E s2 @ ''.backup'') False SAVE_KEYS_ONLY True s2;
            _ \<leftarrow> showMnemonicSeed W E s3;
            Some s3
          }
        else Some s2
      }
      else Some s)"

definition openWallet :: "'a wallet_if \<Rightarrow> (string \<Rightarrow> bool) \<Rightarrow> string \<Rightarrow> 'a session \<Rightarrow> 'a session option" where
  "openWallet W exists p s =
     (if p = [] then Some s
      else
        let keys = ends_with p ''.keys'';
            f = (if keys then replace_at (last_index ''.keys'' p) 5 ''.wallet'' p else p)
        in if keys \<and> exists f then Some s
           else do {
             s1 \<leftarrow> save_and_close W s;
             Some (nw_openWallet f (if keys then p else []) s1)
           })"

definition openRecentWallet :: "'a wallet_if \<Rightarrow> nat \<Rightarrow> 'a session \<Rightarrow> 'a session option" where
  "openRecentWallet W i s =
     (let f = fst (mw_menu s ! i) in
      if f \<noteq> [] then do { s1 \<leftarrow> save_and_close W s; Some (nw_openWallet f [] s1) } else Some s)"

text \<open>The wallet in use is closed, unsaved, before the keys are looked at.\<close>

definition importKey ::
  "'a wallet_if \<Rightarrow> mw_env \<Rightarrow> bool \<Rightarrow> (string \<Rightarrow> bool) \<Rightarrow> key_import \<Rightarrow> string \<Rightarrow> 'a session \<Rightarrow> 'a session option" where
  "importKey W E closing exists k p s =
     (if p = [] then Some s
      else
        let path = with_suffix p in
        if exists path then Some s
        else do {
          s1 \<leftarrow> close_quietly W s;
          (case imported_keys (me_lib E) k of
             None \<Rightarrow> Some s1
           | Some ks \<Rightarrow> do {
               (s2, ok) \<leftarrow> attempt W E closing path (wi_createWithKeys W path ks) s1;
               Some s2
             })
        })"

definition restoreFromMnemonicSeed ::
  "'a wallet_if \<Rightarrow> mw_env \<Rightarrow> bool \<Rightarrow> (string \<Rightarrow> bool) \<Rightarrow> string \<Rightarrow> u32 option \<Rightarrow> string \<Rightarrow> 'a session \<Rightarrow> 'a session option" where
  "restoreFromMnemonicSeed W E closing exists seed cnt p s =
     (if trimmed seed = [] then Some s
      else case cnt of
        None \<Rightarrow> Some s
      | Some n \<Rightarrow>
          if p = [] then Some s
          else
            let path = with_suffix p in
            if exists path then Some s
            else case me_seed E (trimmed seed) of
              None \<Rightarrow> Some s
            | Some ks \<Rightarrow> do {
                s1 \<leftarrow> close_quietly W s;
                (s2, ok) \<leftarrow> attempt W E closing path (wi_createHd W path [] ks n True) s1;
                Some s2
              })"

definition resetWallet :: "'a wallet_if \<Rightarrow> mw_env \<Rightarrow> bool \<Rightarrow> 'a session \<Rightarrow> 'a session option" where
  "resetWallet W E accepted s =
     (if \<not> accepted then Some s
      else if \<not> wi_isOpen W (mw_wallet s) then None
      else do {
        s1 \<leftarrow> saved W SAVE_KEYS_ONLY s;
        s2 \<leftarrow> close_quietly W s1;
        Some (nw_openWallet (walletFile E s2) [] s2)
      })"

definition closeWallet :: "'a wallet_if \<Rightarrow> 'a session \<Rightarrow> 'a session option" where
  "closeWallet W s =
     (if \<not> wi_isOpen W (mw_wallet s) then None
      else do {
        s1 \<leftarrow> saved W SAVE_ALL s;
        s2 \<leftarrow> close_quietly W s1;
        Some (walletClosed s2)
      })"

definition commitData :: "'a wallet_if \<Rightarrow> 'a session \<Rightarrow> 'a session option" where
  "commitData W s = (if wi_isOpen W (mw_wallet s) then saved W SAVE_ALL s else Some s)"


section \<open>Backups, passwords and keys\<close>

definition export_to ::
  "'a wallet_if \<Rightarrow> bool \<Rightarrow> save_level \<Rightarrow> (string \<Rightarrow> bool) \<Rightarrow> string \<Rightarrow> 'a session \<Rightarrow> 'a session option" where
  "export_to W enc level exists p s =
     (let path = with_suffix p in
      if exists path then Some s else if path \<noteq> [] then exported W path enc level False s else Some s)"

definition backupWallet where "backupWallet W = export_to W True SAVE_KEYS_AND_TRANSACTIONS"

definition saveWalletKeys where "saveWalletKeys W = export_to W False SAVE_KEYS_ONLY"

text \<open>The password dialogs, shown again until the change succeeds; an empty list is a rejected dialog.\<close>

definition change_password :: "'a wallet_if \<Rightarrow> string \<Rightarrow> string \<Rightarrow> 'a session \<Rightarrow> ('a session \<times> password_status) option" where
  "change_password W old new s =
     map_option (\<lambda>(w, st). (s\<lparr>mw_wallet := w,
         mw_queue := mw_queue s @ (if st = PASSWORD_SUCCESS then [SigPasswordChanged] else [])\<rparr>, st))
       (wi_password W old new (mw_wallet s))"

fun password_dialogs :: "'a wallet_if \<Rightarrow> (string \<times> string) list \<Rightarrow> 'a session \<Rightarrow> ('a session \<times> bool) option" where
  "password_dialogs W [] s = Some (s, False)"
| "password_dialogs W ((old, new) # ds) s =
     (case change_password W old new s of
        None \<Rightarrow> None
      | Some (s1, st) \<Rightarrow> if st = PASSWORD_SUCCESS then Some (s1, True) else password_dialogs W ds s1)"

definition encryptWallet ::
  "'a wallet_if \<Rightarrow> mw_env \<Rightarrow> (string \<times> string) list \<Rightarrow> 'a session \<Rightarrow> 'a session option" where
  "encryptWallet W E dialogs s = do {
     enc \<leftarrow> wi_isEncrypted W (mw_wallet s);
     (s1, goes_on) \<leftarrow>
       (if enc then password_dialogs W dialogs s
        else (case dialogs of
            [] \<Rightarrow> Some (s, True)
          | (old, pwd) # _ \<Rightarrow>
              if pwd = [] then Some (s, False) else map_option (\<lambda>(t, _). (t, True)) (change_password W [] pwd s)));
     if goes_on then exported W (walletFile E s1 @ ''.backup'') False SAVE_KEYS_ONLY True s1 else Some s1
   }"

definition message_index :: "'a wallet_if \<Rightarrow> 'a session \<Rightarrow> nat option" where
  "message_index W s = do {
     n \<leftarrow> wi_addressCount W (mw_wallet s);
     let i = unat (ca_index (mw_current s));
     Some (if i \<ge> n then 0 else i)
   }"

text \<open>The keys and the address the message dialog signs or verifies with.\<close>

definition signMessage :: "'a wallet_if \<Rightarrow> 'a session \<Rightarrow> (account_keys \<times> string) option" where
  "signMessage W s = do {
     i \<leftarrow> message_index W s;
     ks \<leftarrow> wi_keys W i (mw_wallet s);
     a \<leftarrow> wi_address W i (mw_wallet s);
     Some (ks, a)
   }"

definition mw_exportKey :: "'a wallet_if \<Rightarrow> mw_env \<Rightarrow> 'a session \<Rightarrow> (string \<times> key_view option) option" where
  "mw_exportKey W E s = map_option (exportKey (me_lib E)) (wi_keys W 0 (mw_wallet s))"

definition mw_exportTrackingKey :: "'a wallet_if \<Rightarrow> mw_env \<Rightarrow> 'a session \<Rightarrow> (string \<times> key_view option) option" where
  "mw_exportTrackingKey W E s = map_option (exportTrackingKey (me_lib E)) (wi_keys W 0 (mw_wallet s))"

definition showKeysFromCard :: "'a wallet_if \<Rightarrow> mw_env \<Rightarrow> nat \<Rightarrow> 'a session \<Rightarrow> (string \<times> key_view option) option option" where
  "showKeysFromCard W E i s =
     (if \<not> wi_isOpen W (mw_wallet s) then Some None
      else map_option (\<lambda>ks. Some (exportKey (me_lib E) ks)) (wi_keys W i (mw_wallet s)))"

definition exportTrackingKeyFromCard ::
  "'a wallet_if \<Rightarrow> mw_env \<Rightarrow> nat \<Rightarrow> 'a session \<Rightarrow> (string \<times> key_view option) option option" where
  "exportTrackingKeyFromCard W E i s =
     (if \<not> wi_isOpen W (mw_wallet s) then Some None
      else map_option (\<lambda>ks. Some (exportTrackingKey (me_lib E) ks)) (wi_keys W i (mw_wallet s)))"

text \<open>None in the answer: only the first address of an older wallet has a seed.\<close>

definition showSeedFromCard :: "'a wallet_if \<Rightarrow> mw_env \<Rightarrow> nat \<Rightarrow> 'a session \<Rightarrow> seed_answer option option" where
  "showSeedFromCard W E i s = do {
     hd_mode \<leftarrow> (if wi_isOpen W (mw_wallet s) then map_option (\<lambda>m. m = HD_DETERMINISTIC) (wi_mode W (mw_wallet s))
                else Some False);
     if \<not> hd_mode \<and> i \<noteq> 0 then Some None else map_option Some (showMnemonicSeed W E s)
   }"


section \<open>Addresses\<close>

definition createAddressRequested :: "'a wallet_if \<Rightarrow> 'a session \<Rightarrow> 'a session option" where
  "createAddressRequested W s =
     (if \<not> wi_isOpen W (mw_wallet s) then Some s
      else map_option (\<lambda>(w, _). s\<lparr>mw_wallet := w\<rparr>) (wi_createAddress W (mw_wallet s)))"

text \<open>rows are the addresses the list model shows after the creation.\<close>

definition importAddressRequested ::
  "'a wallet_if \<Rightarrow> mw_env \<Rightarrow> string \<Rightarrow> ('a \<Rightarrow> string list) \<Rightarrow> 'a session \<Rightarrow> 'a session option" where
  "importAddressRequested W E input rows s =
     (if \<not> wi_isOpen W (mw_wallet s) then Some s
      else if trimmed input = [] then Some s
      else do {
        primary \<leftarrow> wi_keys W 0 (mw_wallet s);
        (case parse_address_keys (me_lib E) primary input of
           None \<Rightarrow> Some s
         | Some ks \<Rightarrow> do {
             (w, created) \<leftarrow> wi_createAddressKeys W ks (mw_wallet s);
             let s1 = s\<lparr>mw_wallet := w\<rparr>;
             if created = [] then Some s1
             else do {
               s2 \<leftarrow> saved W SAVE_ALL s1;
               Some (case find_index (\<lambda>a. a = created) (rows (mw_wallet s2)) of
                  None \<Rightarrow> s2
                | Some i \<Rightarrow> setCurrent (of_nat i) created s2)
             }
           })
      })"

text \<open>The status is None when nothing was sent.\<close>

definition registerAccountNumberFromCard ::
  "'a wallet_if \<Rightarrow> nat \<Rightarrow> bool \<Rightarrow> 'a session \<Rightarrow> ('a session \<times> send_status option) option" where
  "registerAccountNumberFromCard W i accepted s =
     (if \<not> wi_isOpen W (mw_wallet s) then Some (s, None)
      else do {
        tracking \<leftarrow> wi_isTracking W (mw_wallet s);
        n \<leftarrow> wi_addressCount W (mw_wallet s);
        if tracking \<or> i \<ge> n \<or> \<not> accepted then Some (s, None)
        else map_option (\<lambda>(w, st). (s\<lparr>mw_wallet := w\<rparr>, Some st)) (wi_register W i (mw_wallet s))
      })"

definition sendFromCard :: "u64 \<Rightarrow> string \<Rightarrow> 'a session \<Rightarrow> 'a session" where
  "sendFromCard i a s =
     (let s1 = (if a \<noteq> [] then setCurrent i a s else s)
      in if Nav Send \<in> mw_enabled s1 then check_page Send s1 else s1)"

definition deleteAddressFromCard :: "'a wallet_if \<Rightarrow> nat \<Rightarrow> bool \<Rightarrow> 'a session \<Rightarrow> 'a session option" where
  "deleteAddressFromCard W i accepted s =
     (if i = 0 then Some s
      else if \<not> accepted then Some s
      else if wi_isOpen W (mw_wallet s) then do {
        (w, _) \<leftarrow> wi_deleteAddress W i (mw_wallet s);
        let s1 = s\<lparr>mw_wallet := w\<rparr>;
        n \<leftarrow> wi_addressCount W w;
        if n > 0 then map_option (\<lambda>a. setCurrent 0 a s1) (wi_address W 0 w) else Some s1
      }
      else Some s)"

text \<open>The options dialog asks for a new node adapter exactly when the connection has changed.\<close>

definition reconnects :: "cfg_env \<Rightarrow> cfg \<Rightarrow> cfg \<Rightarrow> bool" where
  "reconnects E old new \<longleftrightarrow>
     getConnectionMethod new \<noteq> getConnectionMethod old \<or>
     getConnectionMethod new = 2 \<and> getLocalRpcPort E new \<noteq> getLocalRpcPort E old \<or>
     getConnectionMethod new = 3 \<and> getRemoteRpcUrl E new \<noteq> getRemoteRpcUrl E old"

end
