(* ===== verification/OptionsForms.thy ===== *)
theory OptionsForms
  imports AppSettings TransactionFilters WalletSession
begin

text \<open>
  The options dialog (src/src/Gui/Options): its connection page
  (ConnectionOptionsFrame.cpp) over the settings, its donation page
  (DonationOptionsFrame.cpp, DonationAddressesModel.cpp) over the address
  book, and the dialog that loads, checks and saves both (OptionsDialog.cpp).
  PrivacyFrame.cpp is a page of the same kind that the dialog does not hold.
  QUrl::fromUserInput is the parameter ce_userInput of the settings.
\<close>

section \<open>Host names\<close>

text \<open>The two regular expressions of isIpOrHostName, matched against the whole text.\<close>

definition digit_in :: "nat \<Rightarrow> nat \<Rightarrow> char \<Rightarrow> bool" where
  "digit_in a b ch \<longleftrightarrow> 48 + a \<le> (of_char ch :: nat) \<and> (of_char ch :: nat) \<le> 48 + b"

fun is_octet :: "string \<Rightarrow> bool" where
  "is_octet [a] \<longleftrightarrow> digit_in 0 9 a"
| "is_octet [a, b] \<longleftrightarrow> digit_in 1 9 a \<and> digit_in 0 9 b"
| "is_octet [a, b, c] \<longleftrightarrow>
     digit_in 1 1 a \<and> digit_in 0 9 b \<and> digit_in 0 9 c \<or>
     digit_in 2 2 a \<and> digit_in 0 4 b \<and> digit_in 0 9 c \<or>
     digit_in 2 2 a \<and> digit_in 5 5 b \<and> digit_in 0 5 c"
| "is_octet _ \<longleftrightarrow> False"

fun split_dots :: "string \<Rightarrow> string list" where
  "split_dots [] = [[]]"
| "split_dots (ch # s) =
     (if ch = CHR ''.'' then [] # split_dots s
      else (case split_dots s of [] \<Rightarrow> [[ch]] | w # ws \<Rightarrow> (ch # w) # ws))"

definition is_alnum :: "char \<Rightarrow> bool" where
  "is_alnum ch \<longleftrightarrow> (let n = of_char ch :: nat in 48 \<le> n \<and> n \<le> 57 \<or> 65 \<le> n \<and> n \<le> 90 \<or> 97 \<le> n \<and> n \<le> 122)"

definition host_label :: "string \<Rightarrow> bool" where
  "host_label w \<longleftrightarrow> w \<noteq> [] \<and> is_alnum (hd w) \<and> is_alnum (last w) \<and> list_all (\<lambda>ch. is_alnum ch \<or> ch = CHR ''-'') w"

definition matches_ip :: "string \<Rightarrow> bool" where
  "matches_ip s \<longleftrightarrow> length (split_dots s) = 4 \<and> list_all is_octet (split_dots s)"

definition matches_host :: "string \<Rightarrow> bool" where
  "matches_host s \<longleftrightarrow> list_all host_label (split_dots s)"

definition isIpOrHostName :: "string \<Rightarrow> bool" where
  "isIpOrHostName s \<longleftrightarrow> s \<noteq> [] \<and> (matches_ip s \<or> matches_host s)"


section \<open>The dialog\<close>

text \<open>
  The widgets of the two pages and the dialog. The checked radio button is -1
  when there is none; the amount spin box counts tenths of a percent.
\<close>

record options_dialog =
  op_method :: int
  op_localPort :: int
  op_host :: string
  op_remotePort :: int
  op_check :: bool
  op_checkEnabled :: bool
  op_combo :: int
  op_slider :: int
  op_spin :: int
  op_tabs :: "bool list"
  op_needToRestart :: bool
  op_ok :: bool

definition new_dialog :: options_dialog where
  "new_dialog = \<lparr>op_method = -1, op_localPort = 1, op_host = [], op_remotePort = 1, op_check = False,
     op_checkEnabled = True, op_combo = -1, op_slider = 1, op_spin = 1, op_tabs = [], op_needToRestart = False, op_ok = True\<rparr>"

datatype options_page = ConnectionPage | DonationPage

definition tab_pages :: "options_page list" where
  "tab_pages = [ConnectionPage, DonationPage]"

definition clamp :: "int \<Rightarrow> int \<Rightarrow> int \<Rightarrow> int" where
  "clamp lo hi v = max lo (min hi v)"

fun canAccept :: "cfg_env \<Rightarrow> options_dialog \<Rightarrow> options_page \<Rightarrow> bool" where
  "canAccept E d ConnectionPage = (if op_method d = 3 then isIpOrHostName (qu_host (ce_userInput E (op_host d))) else True)"
| "canAccept E d DonationPage = True"

fun needToRestartApplication :: "options_page \<Rightarrow> bool" where
  "needToRestartApplication ConnectionPage = False"
| "needToRestartApplication DonationPage = False"

definition disableAcceptButton :: "cfg_env \<Rightarrow> bool \<Rightarrow> options_dialog \<Rightarrow> options_dialog" where
  "disableAcceptButton E off d = d\<lparr>op_ok := list_all (canAccept E d) tab_pages\<rparr>"

definition showRestartWarning :: "bool \<Rightarrow> options_dialog \<Rightarrow> options_dialog" where
  "showRestartWarning on d = d\<lparr>op_needToRestart := list_ex needToRestartApplication tab_pages\<rparr>"


section \<open>The connection page\<close>

definition remoteHostNameChanged :: "cfg_env \<Rightarrow> string \<Rightarrow> options_dialog \<Rightarrow> options_dialog" where
  "remoteHostNameChanged E host d =
     (if op_method d = 3 then disableAcceptButton E (\<not> isIpOrHostName host) d else disableAcceptButton E False d)"

definition set_host :: "cfg_env \<Rightarrow> string \<Rightarrow> options_dialog \<Rightarrow> options_dialog" where
  "set_host E t d = (if op_host d = t then d else remoteHostNameChanged E t (d\<lparr>op_host := t\<rparr>))"

definition connectionButtonClicked :: "cfg_env \<Rightarrow> int \<Rightarrow> options_dialog \<Rightarrow> options_dialog" where
  "connectionButtonClicked E i d = remoteHostNameChanged E (op_host d) d"

definition url_empty :: "qurl \<Rightarrow> bool" where
  "url_empty u \<longleftrightarrow> qu_scheme u = [] \<and> qu_host u = [] \<and> qu_port u = -1"

definition connection_load :: "cfg_env \<Rightarrow> cfg \<Rightarrow> options_dialog \<Rightarrow> options_dialog" where
  "connection_load E s d =
     (let d1 = d\<lparr>op_localPort := clamp 1 65535 (uint (getLocalRpcPort E s))\<rparr>;
          u = getRemoteRpcUrl E s;
          d2 = (if url_empty u then d1\<lparr>op_remotePort := clamp 1 65535 (ce_rpcPort E)\<rparr>
                else (set_host E (qu_scheme u @ ''://'' @ qu_host u) d1)\<lparr>op_remotePort := clamp 1 65535 (qu_port u)\<rparr>);
          m = getConnectionMethod s;
          d3 = (if m = 0 \<or> m = 1 \<or> m = 2 \<or> m = 3 then d2\<lparr>op_method := m\<rparr> else d2)
      in remoteHostNameChanged E (op_host d3) d3)"

definition connection_save :: "cfg_env \<Rightarrow> options_dialog \<Rightarrow> cfg \<Rightarrow> cfg" where
  "connection_save E d s =
     (let s1 = setConnectionMethod E (op_method d) s;
          s2 = setLocalRpcPort E (of_int (op_localPort d)) s1
      in setRemoteRpcUrl E (ce_userInput E (op_host d @ '':'' @ dec_int (op_remotePort d))) s2)"


section \<open>The donation page\<close>

text \<open>The rows of the proxy model: the entries of the book that are donation addresses.\<close>

definition filterAcceptsRow :: "json \<Rightarrow> bool" where
  "filterAcceptsRow v \<longleftrightarrow> item_donation v"

definition donation_rows :: "ab_state \<Rightarrow> json list" where
  "donation_rows b = List.filter filterAcceptsRow (addressArray b)"

definition donation_data :: "json \<Rightarrow> string" where
  "donation_data v = item_label v @ '' ('' @ item_address v @ '')''"

text \<open>QAbstractItemModel::match with its defaults: the first row whose text starts so, without case.\<close>

definition match_first :: "(json \<Rightarrow> string) \<Rightarrow> string \<Rightarrow> json list \<Rightarrow> nat option" where
  "match_first role t rows = find_index (\<lambda>v. starts_ci (role v) t) rows"

definition findDonationAddress :: "json list \<Rightarrow> string \<Rightarrow> int" where
  "findDonationAddress rows a =
     (if rows = [] then -1 else (case match_first item_address a rows of None \<Rightarrow> 0 | Some i \<Rightarrow> int i))"

text \<open>The slider and the spin box set each other.\<close>

definition move_slider :: "int \<Rightarrow> options_dialog \<Rightarrow> options_dialog" where
  "move_slider v d =
     (let n = clamp 1 100 v in if op_slider d = n then d else d\<lparr>op_slider := n, op_spin := clamp 1 100 n\<rparr>)"

definition turn_spin :: "int \<Rightarrow> options_dialog \<Rightarrow> options_dialog" where
  "turn_spin v d =
     (let n = clamp 1 100 v in if op_spin d = n then d else d\<lparr>op_spin := n, op_slider := clamp 1 100 n\<rparr>)"

definition donation_load :: "ab_state \<Rightarrow> options_dialog \<Rightarrow> options_dialog" where
  "donation_load b d =
     (let rows = donation_rows b;
          d1 = d\<lparr>op_check := rows \<noteq> [] \<and> isDonationChangeEnabled b\<rparr>;
          d2 = d1\<lparr>op_checkEnabled := rows \<noteq> []\<rparr>;
          d3 = d2\<lparr>op_check := isDonationChangeEnabled b\<rparr>;
          d4 = d3\<lparr>op_combo := findDonationAddress rows (getDonationChangeAddress b)\<rparr>
      in move_slider (getDonationChangeAmount b) d4)"

definition donation_save :: "codec \<Rightarrow> bool \<Rightarrow> options_dialog \<Rightarrow> ab_state \<Rightarrow> ab_state" where
  "donation_save c isOpen d b =
     (if \<not> isOpen then b
      else let b1 = setDonationChangeAmount c (op_slider d) b;
               b2 = (if op_combo d \<noteq> -1
                     then setDonationChangeAddress c (item_address (donation_rows b1 ! nat (op_combo d))) b1 else b1)
           in setDonationChangeEnabled c (op_check d) b2)"

definition donation_setData :: "ab_state \<Rightarrow> string \<Rightarrow> string \<Rightarrow> options_dialog \<Rightarrow> options_dialog" where
  "donation_setData b label address d =
     (let rows = donation_rows b;
          d1 = (case match_first item_label label rows of
                  None \<Rightarrow> d
                | Some i \<Rightarrow> if item_address (rows ! i) = address then d\<lparr>op_combo := int i\<rparr> else d)
      in d1\<lparr>op_check := True\<rparr>)"


section \<open>Opening, editing and accepting\<close>

definition options_open :: "cfg_env \<Rightarrow> bool \<Rightarrow> cfg \<Rightarrow> ab_state \<Rightarrow> options_dialog" where
  "options_open E isOpen s b = (donation_load b (connection_load E s new_dialog))\<lparr>op_tabs := [True, isOpen]\<rparr>"

definition options_accept :: "cfg_env \<Rightarrow> codec \<Rightarrow> bool \<Rightarrow> options_dialog \<Rightarrow> cfg \<times> ab_state \<Rightarrow> cfg \<times> ab_state" where
  "options_accept E c isOpen d sb = (connection_save E d (fst sb), donation_save c isOpen d (snd sb))"

definition setDonationAddress :: "ab_state \<Rightarrow> string \<Rightarrow> string \<Rightarrow> options_dialog \<Rightarrow> options_dialog" where
  "setDonationAddress b label address d = donation_setData b label address d"

text \<open>A donation link: the address is put into the book and offered in the dialog.\<close>

definition donation_link ::
  "cfg_env \<Rightarrow> codec \<Rightarrow> cfg \<Rightarrow> string \<Rightarrow> string \<Rightarrow> string \<Rightarrow> ab_state \<Rightarrow> options_dialog \<times> ab_state" where
  "donation_link E c s label address pid b =
     (let b1 = addAddress c label address pid True b
      in (setDonationAddress b1 label address (options_open E True s b1), b1))"

datatype options_event =
    PickMethod int
  | EditHost string
  | EditLocalPort int
  | EditRemotePort int
  | TickDonationChange bool
  | PickDonation nat
  | MoveSlider int
  | TurnSpin int

fun options_do :: "cfg_env \<Rightarrow> nat \<Rightarrow> options_event \<Rightarrow> options_dialog \<Rightarrow> options_dialog" where
  "options_do E n (PickMethod m) d = (if 0 \<le> m \<and> m \<le> 3 then connectionButtonClicked E m (d\<lparr>op_method := m\<rparr>) else d)"
| "options_do E n (EditHost t) d = set_host E t d"
| "options_do E n (EditLocalPort p) d = d\<lparr>op_localPort := clamp 1 65535 p\<rparr>"
| "options_do E n (EditRemotePort p) d = d\<lparr>op_remotePort := clamp 1 65535 p\<rparr>"
| "options_do E n (TickDonationChange on) d = (if op_checkEnabled d then d\<lparr>op_check := on\<rparr> else d)"
| "options_do E n (PickDonation i) d = (if i < n then d\<lparr>op_combo := int i\<rparr> else d)"
| "options_do E n (MoveSlider v) d = move_slider v d"
| "options_do E n (TurnSpin v) d = turn_spin v d"

text \<open>The news page.\<close>

definition privacy_load :: "cfg \<Rightarrow> bool" where
  "privacy_load s = isNewsEnabled s"

definition privacy_save :: "cfg_env \<Rightarrow> bool \<Rightarrow> cfg \<Rightarrow> cfg" where
  "privacy_save E checked s = setNewsEnabled E checked s"


section \<open>Host names: the first expression is not needed\<close>

lemma digit_alnum: "digit_in a b ch \<Longrightarrow> b \<le> 9 \<Longrightarrow> is_alnum ch"
  by (simp add: digit_in_def is_alnum_def Let_def)

lemma octet_label: "is_octet w \<Longrightarrow> host_label w"
  by (cases w rule: is_octet.cases) (auto simp: host_label_def intro: digit_alnum)

lemma ip_is_host: "matches_ip s \<Longrightarrow> matches_host s"
  unfolding matches_ip_def matches_host_def list_all_iff using octet_label by blast

lemma empty_no_host [simp]: "\<not> matches_host []"
  by (simp add: matches_host_def host_label_def)

lemma isIpOrHostName_host: "isIpOrHostName s \<longleftrightarrow> matches_host s"
  unfolding isIpOrHostName_def using ip_is_host by auto

lemma bad_ip_accepted: "isIpOrHostName ''999.1.1.1'' \<and> \<not> matches_ip ''999.1.1.1''"
  by (simp add: isIpOrHostName_host matches_ip_def matches_host_def host_label_def is_alnum_def digit_in_def)


section \<open>The accept button\<close>

definition options_inv :: "cfg_env \<Rightarrow> nat \<Rightarrow> options_dialog \<Rightarrow> bool" where
  "options_inv E n d \<longleftrightarrow>
     op_ok d = list_all (canAccept E d) tab_pages \<and>
     op_method d \<in> {-1..3} \<and> op_localPort d \<in> {1..65535} \<and> op_remotePort d \<in> {1..65535} \<and>
     op_spin d = op_slider d \<and> op_slider d \<in> {1..100} \<and>
     (op_combo d = -1 \<or> 0 \<le> op_combo d \<and> op_combo d < int n)"

lemma clamp_in [simp]: "lo \<le> hi \<Longrightarrow> lo \<le> clamp lo hi v" "lo \<le> hi \<Longrightarrow> clamp lo hi v \<le> hi"
  "lo \<le> v \<Longrightarrow> v \<le> hi \<Longrightarrow> clamp lo hi v = v"
  by (simp_all add: clamp_def)

lemma canAccept_cong:
  "op_method d = op_method e \<Longrightarrow> op_host d = op_host e \<Longrightarrow> canAccept E d p = canAccept E e p"
  by (cases p) simp_all

lemma accept_dialog [simp]: "list_all (canAccept E d) tab_pages \<longleftrightarrow> (op_method d = 3 \<longrightarrow> isIpOrHostName (qu_host (ce_userInput E (op_host d))))"
  by (simp add: tab_pages_def)

lemmas page_defs = remoteHostNameChanged_def disableAcceptButton_def set_host_def connectionButtonClicked_def
  move_slider_def turn_spin_def

lemma options_do_inv: "options_inv E n d \<Longrightarrow> options_inv E n (options_do E n e d)"
  by (cases e) (auto simp: options_inv_def page_defs Let_def)

lemma connection_load_fields:
  "op_ok (connection_load E s d) = list_all (canAccept E (connection_load E s d)) tab_pages"
  "op_slider (connection_load E s d) = op_slider d" "op_spin (connection_load E s d) = op_spin d"
  "op_method d \<in> {-1..3} \<Longrightarrow> op_method (connection_load E s d) \<in> {-1..3}"
  "op_localPort (connection_load E s d) = clamp 1 65535 (uint (getLocalRpcPort E s))"
  "op_remotePort (connection_load E s d) =
     clamp 1 65535 (if url_empty (getRemoteRpcUrl E s) then ce_rpcPort E else qu_port (getRemoteRpcUrl E s))"
  "\<not> url_empty (getRemoteRpcUrl E s) \<Longrightarrow>
     op_host (connection_load E s d) = qu_scheme (getRemoteRpcUrl E s) @ ''://'' @ qu_host (getRemoteRpcUrl E s)"
  "0 \<le> getConnectionMethod s \<Longrightarrow> getConnectionMethod s \<le> 3 \<Longrightarrow> op_method (connection_load E s d) = getConnectionMethod s"
  by (auto simp: connection_load_def page_defs Let_def)

lemma find_donation_range:
  "findDonationAddress rows a = -1 \<or> 0 \<le> findDonationAddress rows a \<and> findDonationAddress rows a < int (length rows)"
  by (auto simp: findDonationAddress_def match_first_def find_index_Some split: option.split)

lemma donation_load_fields:
  "op_method (donation_load b d) = op_method d" "op_host (donation_load b d) = op_host d"
  "op_localPort (donation_load b d) = op_localPort d" "op_remotePort (donation_load b d) = op_remotePort d"
  "op_ok (donation_load b d) = op_ok d" "op_check (donation_load b d) = isDonationChangeEnabled b"
  "op_combo (donation_load b d) = findDonationAddress (donation_rows b) (getDonationChangeAddress b)"
  "op_spin d = op_slider d \<Longrightarrow> op_slider (donation_load b d) = clamp 1 100 (getDonationChangeAmount b)"
  "op_spin d = op_slider d \<Longrightarrow> op_spin (donation_load b d) = op_slider (donation_load b d)"
  by (auto simp: donation_load_def move_slider_def Let_def)

lemma options_open_inv: "options_inv E (length (donation_rows b)) (options_open E opn s b)"
  using find_donation_range [of "donation_rows b" "getDonationChangeAddress b"]
  by (simp add: options_inv_def options_open_def donation_load_fields connection_load_fields(1-3,5-6) new_dialog_def
      connection_load_fields(4) [simplified])

lemma options_run_inv: "options_inv E n d \<Longrightarrow> options_inv E n (fold (options_do E n) es d)"
  by (induction es arbitrary: d) (simp_all add: options_do_inv)


section \<open>What is stored\<close>

lemma changeObject_amount:
  "changeObject (setDonationChangeAmount c n b) =
     (if json_toInt 1 (jvalue (changeObject b) T_CHANGE_AMOUNT) \<noteq> n
      then (changeObject b)(T_CHANGE_AMOUNT \<mapsto> JDouble (of_int n)) else changeObject b)"
  by (simp add: setDonationChangeAmount_def)

lemma amount_stored:
  assumes "int_range n" "n \<noteq> 1 \<or> getDonationChangeAmount b = 1"
  shows "getDonationChangeAmount (setDonationChangeAmount c n b) = n"
proof -
  have "json_toInt 10 v = 1 \<Longrightarrow> json_toInt 1 v = 1" for v
    by (cases v) (auto split: if_splits)
  then show ?thesis
    using assms unfolding donation_amount_roundtrip [OF assms(1)] by (auto simp: getDonationChangeAmount_def)
qed

lemma amount_kept [simp]:
  "getDonationChangeAmount (setDonationChangeAddress c a b) = getDonationChangeAmount b"
  "getDonationChangeAmount (setDonationChangeEnabled c on b) = getDonationChangeAmount b"
  by (simp_all add: getDonationChangeAmount_def changeObject_address changeObject_enabled)

lemma donation_rows_kept [simp]: "donation_rows (setDonationChangeAmount c n b) = donation_rows b"
  by (simp add: donation_rows_def)

lemma donation_save_stores:
  assumes "int_range (op_slider d)"
  shows "isDonationChangeEnabled (donation_save c True d b) = op_check d"
    and "getDonationChangeAddress (donation_save c True d b) =
      (if op_combo d = -1 then getDonationChangeAddress b else item_address (donation_rows b ! nat (op_combo d)))"
    and "op_slider d \<noteq> 1 \<or> getDonationChangeAmount b = 1 \<Longrightarrow> getDonationChangeAmount (donation_save c True d b) = op_slider d"
    and "addressArray (donation_save c True d b) = addressArray b"
proof -
  let ?b1 = "setDonationChangeAmount c (op_slider d) b"
  have a1: "getDonationChangeAddress ?b1 = getDonationChangeAddress b"
    by (simp add: getDonationChangeAddress_def changeObject_amount)
  show "isDonationChangeEnabled (donation_save c True d b) = op_check d"
    by (simp add: donation_save_def Let_def isDonationChangeEnabled_def changeObject_enabled)
  show "getDonationChangeAddress (donation_save c True d b) =
      (if op_combo d = -1 then getDonationChangeAddress b else item_address (donation_rows b ! nat (op_combo d)))"
    unfolding donation_save_def Let_def donation_rows_kept using a1
    by (auto simp: getDonationChangeAddress_def changeObject_enabled changeObject_address)
  show "op_slider d \<noteq> 1 \<or> getDonationChangeAmount b = 1 \<Longrightarrow> getDonationChangeAmount (donation_save c True d b) = op_slider d"
    using amount_stored [OF assms] by (simp add: donation_save_def Let_def)
  show "addressArray (donation_save c True d b) = addressArray b"
    by (simp add: donation_save_def Let_def)
qed

lemma url_store: "cf_settings (setRemoteRpcUrl E u s) = (cf_settings s)(K_URL \<mapsto> JString (url_text (if qu_scheme u = [] then u\<lparr>qu_scheme := ''http''\<rparr> else u)))"
  by (simp add: setRemoteRpcUrl_def Let_def)

lemma connection_save_stores:
  assumes "int_range (op_method d)" "op_localPort d \<in> {1..65535}"
  shows "getConnectionMethod (connection_save E d s) = op_method d"
    and "uint (getLocalRpcPort E (connection_save E d s)) = op_localPort d"
    and "getRemoteRpcUrl E (connection_save E d s) =
      (let u = ce_userInput E (op_host d @ '':'' @ dec_int (op_remotePort d))
       in ce_userInput E (url_text (if qu_scheme u = [] then u\<lparr>qu_scheme := ''http''\<rparr> else u)))"
proof -
  let ?s1 = "setConnectionMethod E (op_method d) s"
  let ?s2 = "setLocalRpcPort E (of_int (op_localPort d)) ?s1"
  let ?u = "ce_userInput E (op_host d @ '':'' @ dec_int (op_remotePort d))"
  have save: "connection_save E d s = setRemoteRpcUrl E ?u ?s2"
    by (simp add: connection_save_def Let_def)
  have keys: "K_METHOD \<noteq> K_URL" "K_PORT \<noteq> K_URL" "K_METHOD \<noteq> K_PORT" by (simp_all add: keys)
  have "cf_settings (setRemoteRpcUrl E ?u ?s2) K_METHOD = cf_settings ?s1 K_METHOD"
    using keys port.put_frame [OF keys(3)] by (simp add: url_store)
  then show "getConnectionMethod (connection_save E d s) = op_method d"
    unfolding save using meth.get_put [OF assms(1), of E s] by (metis meth.get_local)
  have "cf_settings (setRemoteRpcUrl E ?u ?s2) K_PORT = cf_settings ?s2 K_PORT"
    using keys by (simp add: url_store)
  then have "getLocalRpcPort E (connection_save E d s) = of_int (op_localPort d)"
    unfolding save using port.get_put [OF TrueI, of E "of_int (op_localPort d)" ?s1] by (metis port.get_local)
  then show "uint (getLocalRpcPort E (connection_save E d s)) = op_localPort d"
    using assms(2) by (simp add: uint_word_of_int take_bit_int_eq_self)
  show "getRemoteRpcUrl E (connection_save E d s) =
      (let u = ?u in ce_userInput E (url_text (if qu_scheme u = [] then u\<lparr>qu_scheme := ''http''\<rparr> else u)))"
    unfolding save by (simp add: Let_def getRemoteRpcUrl_def cf_has_def cf_get_def jvalue_def url_store)
qed


section \<open>Opening and accepting\<close>

lemma listed_found:
  assumes "\<And>v. v \<in> set rows \<Longrightarrow> starts_ci (item_address v) a \<longleftrightarrow> item_address v = a" "a \<in> item_address ` set rows"
  shows "findDonationAddress rows a \<noteq> -1 \<and> item_address (rows ! nat (findDonationAddress rows a)) = a"
proof -
  obtain i where i: "match_first item_address a rows = Some i"
    using assms by (cases "match_first item_address a rows") (auto simp: match_first_def find_index_None)
  then have "i < length rows" "item_address (rows ! i) = a"
    using assms(1) by (auto simp: match_first_def find_index_Some)
  moreover have "rows \<noteq> []" using assms(2) by auto
  ultimately show ?thesis by (simp add: findDonationAddress_def i)
qed

lemma unlisted_replaced:
  assumes "rows \<noteq> []" "\<And>v. v \<in> set rows \<Longrightarrow> \<not> starts_ci (item_address v) a"
  shows "findDonationAddress rows a = 0"
proof -
  have "match_first item_address a rows = None" using assms(2) by (simp add: match_first_def find_index_None)
  then show ?thesis using assms(1) by (simp add: findDonationAddress_def)
qed



text \<open>A port typed into the host field is doubled by save: when the library cannot read that, an address without host is stored.\<close>

lemma typed_port_loses_url:
  assumes "ce_userInput E (op_host d @ '':'' @ dec_int (op_remotePort d)) = \<lparr>qu_scheme = [], qu_host = [], qu_port = -1\<rparr>"
  shows "cf_settings (connection_save E d s) K_URL = Some (JString ''http://:-1'')"
proof -
  have "dec_int (-1) = ''-1''" by code_simp
  then show ?thesis
    using assms by (simp add: connection_save_def Let_def url_store url_text_def)
qed

text \<open>
  A donation link is offered only if its address is that of the first entry
  whose label starts with the link's label; otherwise the check mark is set
  and the other address stays chosen.
\<close>

lemma link_prefers_first_label:
  assumes "match_first item_label l (donation_rows b) = Some i" "item_address (donation_rows b ! i) \<noteq> a"
  shows "op_combo (setDonationAddress b l a d) = op_combo d" "op_check (setDonationAddress b l a d)"
  using assms by (simp_all add: setDonationAddress_def donation_setData_def Let_def)

definition demo_input :: "string \<Rightarrow> qurl" where
  "demo_input t =
     (if t = ''h:1'' then \<lparr>qu_scheme = ''http'', qu_host = ''h'', qu_port = 1\<rparr>
      else if t = ''http://h:7'' then \<lparr>qu_scheme = ''http'', qu_host = ''h'', qu_port = 7\<rparr>
      else if t = ''http://h'' then \<lparr>qu_scheme = ''http'', qu_host = ''h'', qu_port = -1\<rparr>
      else \<lparr>qu_scheme = [], qu_host = [], qu_port = -1\<rparr>)"

definition demo_options_env :: cfg_env where
  "demo_options_env = \<lparr>ce_codec = one_codec Map.empty, ce_writable = True, ce_tray = True, ce_userInput = demo_input,
     ce_absolute = (\<lambda>d f. d @ ''/'' @ f), ce_rpcPort = 32348\<rparr>"

definition demo_options_cfg :: cfg where
  "demo_options_cfg = (cf_new None)\<lparr>cf_settings :=
     [K_METHOD \<mapsto> JDouble (of_int 3), K_PORT \<mapsto> JDouble (of_int 32348), K_URL \<mapsto> JString ''http://h:7'']\<rparr>"

lemma seven: "dec_int 7 = ''7''"
  by code_simp

lemma demo_options_values:
  "getConnectionMethod demo_options_cfg = 3" "getLocalRpcPort demo_options_env demo_options_cfg = 32348"
  "getRemoteRpcUrl demo_options_env demo_options_cfg = \<lparr>qu_scheme = ''http'', qu_host = ''h'', qu_port = 7\<rparr>"
  "url_text \<lparr>qu_scheme = ''http'', qu_host = ''h'', qu_port = 7\<rparr> = ''http://h:7''"
  "getDonationChangeAmount (ab_init []) = 10"
  by (simp_all add: demo_options_cfg_def demo_options_env_def demo_input_def getConnectionMethod_def getLocalRpcPort_def
      getRemoteRpcUrl_def url_text_def cf_has_def cf_get_def jvalue_def keys int_range_def seven getDonationChangeAmount_def changeObject_def donationObject_def ab_init_def)


end
