(* ===== verification/StatusBar.thy ===== *)
theory StatusBar
  imports NodeStateModel Transition
begin

text \<open>
  The status bar of the main window (src/src/Gui/MainWindow/WalletStatusBar.cpp):
  the ages it prints, its icons and texts, and its handlers of wallet, node
  model and timer events. Times are UTC and the calendar is the Gregorian one
  that QDateTime counts in.
\<close>

section \<open>Dates\<close>

definition leap :: "int \<Rightarrow> bool" where
  "leap y \<longleftrightarrow> y mod 4 = 0 \<and> (y mod 100 \<noteq> 0 \<or> y mod 400 = 0)"

definition year_days :: "int \<Rightarrow> int" where
  "year_days y = (if leap y then 366 else 365)"

text \<open>Months and days are counted from zero.\<close>

definition month_days :: "int \<Rightarrow> nat \<Rightarrow> int" where
  "month_days y m = (if m = 1 then (if leap y then 29 else 28) else if m \<in> {3, 5, 8, 10} then 30 else 31)"

function find_year :: "int \<Rightarrow> int \<Rightarrow> int \<times> int" where
  "find_year y d =
     (if d < 0 then find_year (y - 1) (d + year_days (y - 1))
      else if d < year_days y then (y, d)
      else find_year (y + 1) (d - year_days y))"
  by pat_completeness auto
termination
  by (relation "measure (\<lambda>(_, d). if d < 0 then nat (- d) + 400 else nat d)") (auto simp: year_days_def split: if_splits)

function find_month :: "int \<Rightarrow> nat \<Rightarrow> int \<Rightarrow> nat \<times> int" where
  "find_month y m d = (if 11 \<le> m \<or> d < month_days y m then (m, d) else find_month y (Suc m) (d - month_days y m))"
  by pat_completeness auto
termination
  by (relation "measure (\<lambda>(_, m, _). 11 - m)") auto

declare find_year.simps [simp del] find_month.simps [simp del]

record stamp =
  st_year :: int
  st_month :: nat
  st_day :: int
  st_hour :: int
  st_minute :: int
  st_second :: int

text \<open>QDateTime::fromSecsSinceEpoch, read as UTC.\<close>

definition from_secs :: "int \<Rightarrow> stamp" where
  "from_secs t =
     (let (y, r) = find_year 1970 (t div 86400);
          (m, d) = find_month y 0 r;
          s = t mod 86400
      in \<lparr>st_year = y, st_month = m, st_day = d, st_hour = s div 3600, st_minute = s mod 3600 div 60, st_second = s mod 60\<rparr>)"

definition MONTHS :: "string list" where
  "MONTHS = [''Jan'', ''Feb'', ''Mar'', ''Apr'', ''May'', ''Jun'', ''Jul'', ''Aug'', ''Sep'', ''Oct'', ''Nov'', ''Dec'']"

definition two :: "int \<Rightarrow> string" where
  "two n = rightJustified (dec_int n) 2 (CHR ''0'')"

text \<open>The English locale's dd MMM yyyy, HH:mm:ss.\<close>

definition show_stamp :: "stamp \<Rightarrow> string" where
  "show_stamp s = two (st_day s + 1) @ '' '' @ MONTHS ! st_month s @ '' '' @ rightJustified (dec_int (st_year s)) 4 (CHR ''0'') @ '', '' @
     two (st_hour s) @ '':'' @ two (st_minute s) @ '':'' @ two (st_second s)"


section \<open>Ages\<close>

definition counted :: "u64 \<Rightarrow> string \<Rightarrow> string" where
  "counted n u = dec (unat n) @ '' '' @ (if n = 1 then u else u @ ''s'')"

definition formatTimeDiff :: "u64 \<Rightarrow> string" where
  "formatTimeDiff w =
     (let s = from_secs (sint w);
          year = of_int (st_year s - 1970) :: u64;
          month = of_nat (st_month s) :: u64;
          day = of_int (st_day s) :: u64;
          hour = of_int (st_hour s) :: u64;
          minute = of_int (st_minute s) :: u64
      in if year > 0 then counted year ''year'' @ '' '' @ counted month ''month''
         else if month > 0 then counted month ''month'' @ '' '' @ counted day ''day''
         else if day > 0 then counted day ''day'' @ '' '' @ counted hour ''hour''
         else if hour > 0 then counted hour ''hour'' @ '' '' @ counted minute ''minute''
         else if minute > 0 then counted minute ''minute''
         else ''Less than 1 minute'')"


section \<open>The bar\<close>

datatype sync_icon = NoIcon | Synced | Movie

record status_bar =
  sb_status :: string
  sb_message :: string
  sb_synchronized :: bool
  sb_timer :: bool
  sb_playing :: bool
  sb_syncIcon :: sync_icon
  sb_syncShown :: bool
  sb_encrypted :: bool
  sb_encryptedShown :: bool
  sb_hdShown :: bool
  sb_remoteShown :: bool
  sb_connectionShown :: bool
  sb_connectedIcon :: bool

definition new_status_bar :: status_bar where
  "new_status_bar = \<lparr>sb_status = [], sb_message = [], sb_synchronized = False, sb_timer = False, sb_playing = False,
     sb_syncIcon = NoIcon, sb_syncShown = True, sb_encrypted = False, sb_encryptedShown = True, sb_hdShown = False,
     sb_remoteShown = True, sb_connectionShown = True, sb_connectedIcon = False\<rparr>"

text \<open>What the wallet adapter answers.\<close>

record wallet_view =
  wv_open :: bool
  wv_encrypted :: bool
  wv_hd :: bool

text \<open>The cells of the node model the bar reads; node tells whether there is a node adapter.\<close>

definition node_number :: "qvariant option \<Rightarrow> int" where
  "node_number v = (case v of Some (QInt n) \<Rightarrow> n | Some (QU32 w) \<Rightarrow> uint w | Some (QU64 w) \<Rightarrow> uint w | _ \<Rightarrow> 0)"

definition node_flag :: "qvariant option \<Rightarrow> bool" where
  "node_flag v = (case v of Some (QBool b) \<Rightarrow> b | _ \<Rightarrow> False)"

definition read_node :: "bool \<Rightarrow> ns_state \<Rightarrow> ns_role \<Rightarrow> qvariant option" where
  "read_node node n r = ns_getUserRole node 1 n r"

definition updateStatusConnection :: "bool \<Rightarrow> ns_state \<Rightarrow> status_bar \<Rightarrow> status_bar" where
  "updateStatusConnection node n s =
     (let isRemote = (node_number (read_node node n NSR_NODE_TYPE) = 2);
          isConnected = node_flag (read_node node n NSR_CONNECTION_STATE)
      in if isRemote then s\<lparr>sb_remoteShown := True, sb_connectedIcon := isConnected, sb_connectionShown := True\<rparr>
         else s\<lparr>sb_remoteShown := False, sb_connectionShown := False\<rparr>)"

definition HOUR :: u64 where "HOUR = 3600000"

text \<open>now is the clock in milliseconds. Counts are unsigned, as in the code.\<close>

definition updateStatusDescription :: "bool \<Rightarrow> i64 \<Rightarrow> ns_state \<Rightarrow> status_bar \<Rightarrow> status_bar" where
  "updateStatusDescription node now n s =
     (if \<not> sb_synchronized s then s
      else
        let count = of_int (node_number (read_node node n NSR_LOCAL_BLOCK_COUNT)) :: u32;
            last = of_int (node_number (read_node node n NSR_TIMESTAMP)) :: u64;
            peers = node_number (read_node node n NSR_PEER_COUNT);
            diff = now - 1000 * last;
            late = (if diff > HOUR then '' Warning: last block was received '' @ dec (unat (diff div HOUR)) @ '' hours '' @
                      dec (unat (diff mod HOUR div 60000)) @ '' minutes ago.'' else []);
            alone = (if peers = 0 then '' No network connection.'' else [])
        in s\<lparr>sb_status := ''Wallet synchronized. Top block height: '' @ dec (unat (count - 1)) @ ''  /  Time (UTC): '' @
              show_stamp (from_secs (sint last)) @ late @ alone\<rparr>)"

definition updateSyncState :: "bool \<Rightarrow> status_bar \<Rightarrow> status_bar" where
  "updateSyncState done s =
     (if done then s\<lparr>sb_playing := False, sb_syncIcon := Synced\<rparr>
      else if \<not> sb_playing s then s\<lparr>sb_syncIcon := Movie, sb_playing := True\<rparr> else s)"

definition updateEncryptedState :: "bool \<Rightarrow> status_bar \<Rightarrow> status_bar" where
  "updateEncryptedState b s = s\<lparr>sb_encrypted := b\<rparr>"

definition updateHdWalletState :: "wallet_view \<Rightarrow> status_bar \<Rightarrow> status_bar" where
  "updateHdWalletState w s = s\<lparr>sb_hdShown := wv_open w \<and> wv_hd w\<rparr>"

definition sb_walletOpened :: "wallet_view \<Rightarrow> status_bar \<Rightarrow> status_bar" where
  "sb_walletOpened w s =
     updateSyncState True (updateHdWalletState w (updateEncryptedState (wv_encrypted w)
       (s\<lparr>sb_message := ''Wallet opened'', sb_encryptedShown := True, sb_syncShown := True\<rparr>)))"

definition sb_walletOpenError :: "status_bar \<Rightarrow> status_bar" where
  "sb_walletOpenError s = s\<lparr>sb_synchronized := False\<rparr>"

definition sb_walletClosed :: "status_bar \<Rightarrow> status_bar" where
  "sb_walletClosed s =
     s\<lparr>sb_timer := False, sb_playing := False, sb_encryptedShown := False, sb_hdShown := False, sb_syncShown := False,
       sb_message := ''Wallet closed''\<rparr>"

definition sb_passwordChanged :: "wallet_view \<Rightarrow> status_bar \<Rightarrow> status_bar" where
  "sb_passwordChanged w s = updateEncryptedState (wv_encrypted w) (s\<lparr>sb_message := ''Password changed''\<rparr>)"

definition sb_progress :: "bool \<Rightarrow> i64 \<Rightarrow> ns_state \<Rightarrow> u32 \<Rightarrow> u32 \<Rightarrow> status_bar \<Rightarrow> status_bar" where
  "sb_progress node now n current all s =
     (let last = of_int (node_number (read_node node n NSR_TIMESTAMP)) :: u64;
          diff = of_int (sint now div 1000) - last;
          formatted = (if last > 0 then formatTimeDiff diff else ''unknown'');
          age = (if last > 0 then formatted @ '' ago'' else formatted)
      in updateSyncState False (s\<lparr>sb_timer := False, sb_synchronized := False,
           sb_status := ''Synchronization: '' @ dec (unat current) @ ''/'' @ dec (unat all) @ '' ('' @ age @ '')''\<rparr>))"

definition sb_completed :: "bool \<Rightarrow> i64 \<Rightarrow> ns_state \<Rightarrow> status_bar \<Rightarrow> status_bar" where
  "sb_completed node now n s =
     updateSyncState True (updateStatusDescription node now n (s\<lparr>sb_timer := True, sb_synchronized := True\<rparr>))"

definition sb_initCompleted :: "int \<Rightarrow> wallet_view \<Rightarrow> status_bar \<Rightarrow> status_bar" where
  "sb_initCompleted status w s = (if status = 0 \<and> wv_open w then sb_walletOpened w s else s)"

definition sb_timerEvent :: "bool \<Rightarrow> i64 \<Rightarrow> ns_state \<Rightarrow> status_bar \<Rightarrow> status_bar" where
  "sb_timerEvent node now n s = (if sb_timer s then updateStatusDescription node now n s else s)"

definition sb_updateStyle :: "bool \<Rightarrow> wallet_view \<Rightarrow> ns_state \<Rightarrow> status_bar \<Rightarrow> status_bar" where
  "sb_updateStyle node w n s =
     (let s1 = s\<lparr>sb_playing := False\<rparr>;
          s2 = (if wv_open w then updateSyncState (sb_synchronized s1) (updateHdWalletState w
                  (updateEncryptedState (wv_encrypted w) s1)) else s1)
      in updateStatusConnection node n s2)"

text \<open>
  The numbers of the roles: Qt::EditRole is 2, the model's own begin at 256.
  nodeStateChanged looks for columns, 0 and 2, among the roles.
\<close>

fun role_number :: "ns_role \<Rightarrow> nat" where
  "role_number NSR_NODE_TYPE = 256"
| "role_number NSR_PEER_COUNT = 257"
| "role_number NSR_CONNECTION_STATE = 258"
| "role_number NSR_LOCAL_BLOCK_COUNT = 259"
| "role_number NSR_KNOWN_BLOCK_COUNT = 260"
| "role_number NSR_TIMESTAMP = 261"
| "role_number NSR_DIFFICULTY = 262"
| "role_number NSR_HASHRATE = 263"

definition nodeStateChanged :: "bool \<Rightarrow> i64 \<Rightarrow> ns_state \<Rightarrow> nat list \<Rightarrow> status_bar \<Rightarrow> status_bar" where
  "nodeStateChanged node now n roles s =
     (if role_number NSR_LOCAL_BLOCK_COUNT \<in> set roles then updateStatusDescription node now n s
      else if NS_NODE_TYPE \<in> set roles \<or> NS_CONNECTION_STATE \<in> set roles then updateStatusConnection node n s
      else s)"

text \<open>The roles that the node model names with each change; an empty list stands for all.\<close>

fun ns_roles :: "ns_event \<Rightarrow> nat list" where
  "ns_roles (NsPeers p) = [2, role_number NSR_PEER_COUNT]"
| "ns_roles (NsLocal h) = 2 # map role_number [NSR_LOCAL_BLOCK_COUNT, NSR_TIMESTAMP, NSR_DIFFICULTY, NSR_HASHRATE]"
| "ns_roles (NsKnown h) = [2, role_number NSR_KNOWN_BLOCK_COUNT]"
| "ns_roles (NsConnection b) = [2, role_number NSR_CONNECTION_STATE]"
| "ns_roles (NsInit status n) = []"
| "ns_roles NsDeinit = []"


datatype bar_event =
    BarNode ns_event
  | BarOpened wallet_view
  | BarOpenError
  | BarClosed
  | BarPassword wallet_view
  | BarProgress u32 u32
  | BarCompleted
  | BarInit int wallet_view
  | BarTimer
  | BarStyle wallet_view

text \<open>The node model and the bar; each event comes with the clock.\<close>

fun bar_do :: "bool \<Rightarrow> i64 \<times> bar_event \<Rightarrow> ns_state \<times> status_bar \<Rightarrow> ns_state \<times> status_bar" where
  "bar_do node (now, BarNode e) (n, s) =
     (let (n', changed) = ns_step e n in (n', if changed = [] then s else nodeStateChanged node now n' (ns_roles e) s))"
| "bar_do node (now, BarOpened w) (n, s) = (n, sb_walletOpened w s)"
| "bar_do node (now, BarOpenError) (n, s) = (n, sb_walletOpenError s)"
| "bar_do node (now, BarClosed) (n, s) = (n, sb_walletClosed s)"
| "bar_do node (now, BarPassword w) (n, s) = (n, sb_passwordChanged w s)"
| "bar_do node (now, BarProgress c a) (n, s) = (n, sb_progress node now n c a s)"
| "bar_do node (now, BarCompleted) (n, s) = (n, sb_completed node now n s)"
| "bar_do node (now, BarInit status w) (n, s) = (n, sb_initCompleted status w s)"
| "bar_do node (now, BarTimer) (n, s) = (n, sb_timerEvent node now n s)"
| "bar_do node (now, BarStyle w) (n, s) = (n, sb_updateStyle node w n s)"


section \<open>Dates are counted right\<close>

lemma year_days_bounds: "365 \<le> year_days y" "year_days y \<le> 366"
  by (simp_all add: year_days_def)

lemma month_days_bounds: "28 \<le> month_days y m" "month_days y m \<le> 31"
  by (simp_all add: month_days_def)

lemma months_of_year: "(\<Sum>j<11. month_days y j) + month_days y 11 = year_days y"
  by (simp add: eval_nat_numeral month_days_def year_days_def)

lemma find_year_spec:
  "0 \<le> d \<Longrightarrow> find_year y d = (y', r) \<Longrightarrow>
   y \<le> y' \<and> 0 \<le> r \<and> r < year_days y' \<and> d = (\<Sum>k\<in>{y..<y'}. year_days k) + r"
proof (induction y d rule: find_year.induct)
  case (1 y d)
  show ?case
  proof (cases "d < year_days y")
    case True
    then have "find_year y d = (y, d)" using 1(3) by (subst find_year.simps) simp
    then show ?thesis using 1(3,4) True by simp
  next
    case False
    then have "find_year y d = find_year (y + 1) (d - year_days y)" using 1(3) by (subst find_year.simps) simp
    with 1(2) [OF _ False] 1(3,4) False
    have ih: "y + 1 \<le> y' \<and> 0 \<le> r \<and> r < year_days y' \<and> d - year_days y = (\<Sum>k\<in>{y + 1..<y'}. year_days k) + r"
      by simp
    then have "{y..<y'} = insert y {y + 1..<y'}" by auto
    then show ?thesis using ih by simp
  qed
qed

lemma find_month_spec:
  "0 \<le> d \<Longrightarrow> m \<le> 11 \<Longrightarrow> d + (\<Sum>j<m. month_days y j) < year_days y \<Longrightarrow> find_month y m d = (m', r) \<Longrightarrow>
   m' \<le> 11 \<and> 0 \<le> r \<and> r < month_days y m' \<and> d + (\<Sum>j<m. month_days y j) = (\<Sum>j<m'. month_days y j) + r"
proof (induction y m d rule: find_month.induct)
  case (1 y m d)
  show ?case
  proof (cases "11 \<le> m \<or> d < month_days y m")
    case True
    then have "find_month y m d = (m, d)" by (subst find_month.simps) simp
    moreover have "m = 11 \<Longrightarrow> d < month_days y m" using 1(4) months_of_year [of y] by simp
    ultimately show ?thesis using 1(2,3,5) True by auto
  next
    case False
    then have "find_month y m d = find_month y (Suc m) (d - month_days y m)" by (subst find_month.simps) simp
    with 1(1) [OF False] 1(2-5) False show ?thesis by simp
  qed
qed

lemma clock_parts:
  assumes "0 \<le> u" "u < (86400 :: int)"
  shows "0 \<le> u div 3600" "u div 3600 < 24" "0 \<le> u mod 3600 div 60" "u mod 3600 div 60 < 60"
    "u = 3600 * (u div 3600) + 60 * (u mod 3600 div 60) + u mod 60"
proof -
  have "u mod 3600 < 3600" "0 \<le> u mod 3600" by simp_all
  then show "0 \<le> u mod 3600 div 60" "u mod 3600 div 60 < 60" by linarith+
  show "0 \<le> u div 3600" "u div 3600 < 24" using assms by linarith+
  have "u mod 3600 mod 60 = u mod 60" by (simp add: mod_mod_cancel)
  then show "u = 3600 * (u div 3600) + 60 * (u mod 3600 div 60) + u mod 60"
    using mult_div_mod_eq [of 3600 u] mult_div_mod_eq [of 60 "u mod 3600"] by linarith
qed

text \<open>The date of a time after 1970: its years and months are whole ones, and nothing is left over.\<close>

lemma from_secs_spec:
  assumes "0 \<le> t"
  defines "s \<equiv> from_secs t"
  shows "1970 \<le> st_year s" "st_month s \<le> 11" "0 \<le> st_day s" "st_day s < month_days (st_year s) (st_month s)"
    "0 \<le> st_hour s" "st_hour s < 24" "0 \<le> st_minute s" "st_minute s < 60" "0 \<le> st_second s" "st_second s < 60"
    "t = 86400 * ((\<Sum>y\<in>{1970..<st_year s}. year_days y) + (\<Sum>j\<in>{..<st_month s}. month_days (st_year s) j) + st_day s)
       + 3600 * st_hour s + 60 * st_minute s + st_second s"
proof -
  obtain y r where y: "find_year 1970 (t div 86400) = (y, r)" by fastforce
  obtain m d where m: "find_month y 0 r = (m, d)" by fastforce
  have s: "st_year s = y" "st_month s = m" "st_day s = d" "st_hour s = t mod 86400 div 3600"
    "st_minute s = t mod 86400 mod 3600 div 60" "st_second s = t mod 86400 mod 60"
    by (simp_all add: s_def from_secs_def y m Let_def)
  have ys: "1970 \<le> y" "0 \<le> r" "r < year_days y" "t div 86400 = (\<Sum>k\<in>{1970..<y}. year_days k) + r"
    using find_year_spec [OF _ y] assms(1) by auto
  have ms: "m \<le> 11" "0 \<le> d" "d < month_days y m" "r = (\<Sum>j<m. month_days y j) + d"
    using find_month_spec [OF ys(2) _ _ m] ys(3) by auto
  show "1970 \<le> st_year s" "st_month s \<le> 11" "0 \<le> st_day s" "st_day s < month_days (st_year s) (st_month s)"
    using ys ms by (simp_all add: s)
  have u: "0 \<le> t mod 86400" "t mod 86400 < 86400" by simp_all
  show "0 \<le> st_hour s" "st_hour s < 24" "0 \<le> st_minute s" "st_minute s < 60"
    unfolding s by (rule clock_parts(1-4) [OF u])+
  show "0 \<le> st_second s" "st_second s < 60"
    unfolding s by (rule pos_mod_sign pos_mod_bound; simp)+
  have "t = 86400 * (t div 86400) + (3600 * (t mod 86400 div 3600) + 60 * (t mod 86400 mod 3600 div 60) + t mod 86400 mod 60)"
    unfolding clock_parts(5) [OF u, symmetric] by (rule mult_div_mod_eq [symmetric])
  then show "t = 86400 * ((\<Sum>y\<in>{1970..<st_year s}. year_days y) + (\<Sum>j\<in>{..<st_month s}. month_days (st_year s) j) + st_day s)
       + 3600 * st_hour s + 60 * st_minute s + st_second s"
    unfolding s ys(4) ms(4) by (simp only: add.assoc)
qed


section \<open>What an age says\<close>

definition say :: "nat \<Rightarrow> string \<Rightarrow> string" where
  "say n u = dec n @ '' '' @ (if n = 1 then u else u @ ''s'')"

lemma counted_say: "n < 2 ^ 64 \<Longrightarrow> counted (of_nat n) u = say n u"
proof -
  assume n: "n < 2 ^ 64"
  then have u: "unat (of_nat n :: u64) = n" by (simp add: unat_of_nat)
  then have "(of_nat n :: u64) = 1 \<longleftrightarrow> n = 1" by (metis of_nat_1 unat_1)
  then show ?thesis by (simp add: counted_def say_def u)
qed

lemma years_bounds:
  assumes "1970 \<le> y"
  shows "365 * (y - 1970) \<le> (\<Sum>k\<in>{1970..<y}. year_days k)" "(\<Sum>k\<in>{1970..<y}. year_days k) \<le> 366 * (y - 1970)"
proof -
  show "365 * (y - 1970) \<le> (\<Sum>k\<in>{1970..<y}. year_days k)"
    using sum_bounded_below [of "{1970..<y}" 365 year_days] year_days_bounds assms by simp
  show "(\<Sum>k\<in>{1970..<y}. year_days k) \<le> 366 * (y - 1970)"
    using sum_bounded_above [of "{1970..<y}" year_days 366] year_days_bounds assms by simp
qed

lemma months_bounds:
  "28 * int m \<le> (\<Sum>j<m. month_days y j)" "(\<Sum>j<m. month_days y j) \<le> 31 * int m"
  using sum_bounded_below [of "{..<m}" 28 "month_days y"] sum_bounded_above [of "{..<m}" "month_days y" 31] month_days_bounds
  by simp_all

lemma of_int_nat_word: "0 \<le> k \<Longrightarrow> (of_int k :: u64) = of_nat (nat k)"
  by simp

lemma of_nat_pos_word: "n < 2 ^ 64 \<Longrightarrow> ((0 :: u64) < of_nat n) = (0 < n)"
proof -
  assume "n < 2 ^ 64"
  then have "unat (of_nat n :: u64) = n" by (simp add: unat_of_nat)
  then show ?thesis by (simp add: word_less_nat_alt)
qed

lemma age_arith:
  fixes t S M Y m d h i x :: int
  assumes a: "t = 86400 * (S + M + d) + 3600 * h + 60 * i + x" "365 * Y \<le> S" "S \<le> 366 * Y" "28 * m \<le> M" "M \<le> 31 * m"
    "0 \<le> d" "d < 31" "0 \<le> h" "h < 24" "0 \<le> i" "i < 60" "0 \<le> x" "x < 60" "0 \<le> Y" "0 \<le> m"
  shows "Y \<le> t" "86400 * (365 * Y + 28 * m) \<le> t" "t < 86400 * (366 * Y + 31 * m + 31)"
    "Y = 0 \<Longrightarrow> 86400 * (28 * m + d) \<le> t" "Y = 0 \<Longrightarrow> t < 86400 * (31 * m + d + 1)"
    "Y = 0 \<Longrightarrow> m = 0 \<Longrightarrow> 86400 * d + 3600 * h + 60 * i \<le> t"
    "Y = 0 \<Longrightarrow> m = 0 \<Longrightarrow> t < 86400 * d + 3600 * h + 60 * i + 60"
proof -
  have c: "3600 * h + 60 * i + x < 86400" "0 \<le> 3600 * h + 60 * i + x" using a(8-13) by auto
  have low: "86400 * k \<le> t" if "k \<le> S + M + d" for k
    using mult_left_mono [OF that, of 86400] c(2) unfolding a(1) by simp
  have high: "t < 86400 * k" if "S + M + d < k" for k
    using mult_left_mono [of "S + M + d + 1" k 86400] that c(1) unfolding a(1) by simp
  show "86400 * (365 * Y + 28 * m) \<le> t" by (rule low) (use a(2,4,6) in simp)
  show "t < 86400 * (366 * Y + 31 * m + 31)" by (rule high) (use a(3,5,7) in simp)
  show "Y \<le> t" using low [of Y] a(2,4,6,14,15) by simp
  show "86400 * (28 * m + d) \<le> t" if "Y = 0" by (rule low) (use a(2,4) that in simp)
  show "t < 86400 * (31 * m + d + 1)" if "Y = 0" by (rule high) (use a(3,5) that in simp)
  show "86400 * d + 3600 * h + 60 * i \<le> t" "t < 86400 * d + 3600 * h + 60 * i + 60" if "Y = 0" "m = 0"
  proof -
    have "S = 0" "M = 0" using a(2-5) that by simp_all
    then show "86400 * d + 3600 * h + 60 * i \<le> t" "t < 86400 * d + 3600 * h + 60 * i + 60"
      using a(1,12,13) by simp_all
  qed
qed





section \<open>The bar follows the node\<close>

text \<open>The icons show the node type and, for a remote node, whether it is connected.\<close>

definition icons_in_step :: "ns_state \<times> status_bar \<Rightarrow> bool" where
  "icons_in_step ns = (case ns of (n, s) \<Rightarrow>
     (sb_remoteShown s \<longleftrightarrow> ns_nodeType n = 2) \<and> (sb_connectionShown s \<longleftrightarrow> ns_nodeType n = 2) \<and>
     (ns_nodeType n = 2 \<longrightarrow> sb_connectedIcon s = ns_connected n))"

definition bar_inv :: "ns_state \<times> status_bar \<Rightarrow> bool" where
  "bar_inv ns = (case ns of (n, s) \<Rightarrow> sb_playing s \<longrightarrow> \<not> sb_synchronized s \<and> sb_syncIcon s = Movie)"

fun keeps_icons :: "bar_event \<Rightarrow> bool" where
  "keeps_icons (BarNode (NsInit status n)) = False"
| "keeps_icons (BarNode NsDeinit) = False"
| "keeps_icons _ = True"

lemmas bar_defs = sb_walletOpened_def sb_walletOpenError_def sb_walletClosed_def sb_passwordChanged_def sb_progress_def
  sb_completed_def sb_initCompleted_def sb_timerEvent_def sb_updateStyle_def updateSyncState_def updateEncryptedState_def
  updateHdWalletState_def updateStatusDescription_def

lemmas ns_defs = ns_peerCountUpdated_def ns_localBlockchainUpdated_def ns_lastKnownBlockHeightUpdated_def
  ns_connectionStatusUpdated_def ns_initCompleted_def ns_deinitCompleted_def

lemma connection_in_step: "icons_in_step (n, updateStatusConnection True n s)"
  by (auto simp: icons_in_step_def updateStatusConnection_def Let_def read_node_def ns_getUserRole_def node_number_def node_flag_def)

lemma description_fields [simp]:
  "sb_remoteShown (updateStatusDescription node now n s) = sb_remoteShown s"
  "sb_connectionShown (updateStatusDescription node now n s) = sb_connectionShown s"
  "sb_connectedIcon (updateStatusDescription node now n s) = sb_connectedIcon s"
  "sb_playing (updateStatusDescription node now n s) = sb_playing s"
  "sb_syncIcon (updateStatusDescription node now n s) = sb_syncIcon s"
  "sb_synchronized (updateStatusDescription node now n s) = sb_synchronized s"
  by (simp_all add: updateStatusDescription_def Let_def)

lemma connection_fields [simp]:
  "sb_playing (updateStatusConnection node n s) = sb_playing s"
  "sb_syncIcon (updateStatusConnection node n s) = sb_syncIcon s"
  "sb_synchronized (updateStatusConnection node n s) = sb_synchronized s"
  by (simp_all add: updateStatusConnection_def Let_def)

lemma edit_role_is_connection: "role_number r \<noteq> 0" "role_number r \<noteq> 2"
  by (cases r; simp)+

lemma node_event_icons:
  assumes "icons_in_step (n, s)" "keeps_icons (BarNode e)"
  shows "icons_in_step (bar_do True (now, BarNode e) (n, s))"
proof (cases "snd (ns_step e n) = []")
  case True
  then have "fst (ns_step e n) = n"
    using assms(2) by (cases e) (auto simp: ns_defs ALL_COLUMNS_def split: if_splits)
  then show ?thesis
    using assms(1) True by (simp add: case_prod_unfold)
next
  case False
  show ?thesis
  proof (cases "\<exists>h. e = NsLocal h")
    case True
    then obtain h where "e = NsLocal h" by blast
    then show ?thesis
      using assms(1) by (auto simp: icons_in_step_def ns_localBlockchainUpdated_def nodeStateChanged_def)
  next
    case local: False
    then have "nodeStateChanged True now m (ns_roles e) s = updateStatusConnection True m s" for m
      using assms(2) by (cases e) (auto simp: nodeStateChanged_def)
    then show ?thesis
      using False by (simp add: case_prod_unfold Let_def connection_in_step)
  qed
qed

lemma event_icons: "icons_in_step ns \<Longrightarrow> keeps_icons e \<Longrightarrow> icons_in_step (bar_do True (now, e) ns)"
proof (cases "\<exists>f. e = BarNode f")
  case True
  then show "icons_in_step ns \<Longrightarrow> keeps_icons e \<Longrightarrow> icons_in_step (bar_do True (now, e) ns)"
    using node_event_icons by (cases ns) blast
next
  case False
  then show "icons_in_step ns \<Longrightarrow> keeps_icons e \<Longrightarrow> icons_in_step (bar_do True (now, e) ns)"
    by (cases ns; cases e) (auto simp: icons_in_step_def bar_defs Let_def updateStatusConnection_def read_node_def
        ns_getUserRole_def node_number_def node_flag_def)
qed

lemma bar_event_inv: "bar_inv ns \<Longrightarrow> bar_inv (bar_do node e ns)"
  by (cases ns; cases e; cases "snd e")
    (auto simp: bar_inv_def nodeStateChanged_def sb_walletOpened_def sb_walletOpenError_def sb_walletClosed_def
      sb_passwordChanged_def sb_progress_def sb_completed_def sb_initCompleted_def sb_timerEvent_def sb_updateStyle_def
      updateSyncState_def updateEncryptedState_def updateHdWalletState_def Let_def split: prod.splits)


lemma run_icons: "\<forall>e\<in>set es. keeps_icons (snd e) \<Longrightarrow> icons_in_step ns \<Longrightarrow> icons_in_step (fold (bar_do True) es ns)"
proof (induction es arbitrary: ns)
  case (Cons e es)
  then show ?case using event_icons [of ns "snd e" "fst e"] by simp
qed simp

lemma run_inv: "bar_inv ns \<Longrightarrow> bar_inv (fold (bar_do node) es ns)"
  by (induction es arbitrary: ns) (simp_all add: bar_event_inv)

lemma connection_event_icons: "icons_in_step (bar_do True (now, BarNode (NsConnection b)) ns)"
  by (cases ns) (simp add: ns_connectionStatusUpdated_def nodeStateChanged_def connection_in_step)

text \<open>
  C31. The status bar against the node model, over any sequence of wallet, node
  model, timer and style events: as long as the node is neither initialised
  nor shut down in between, the icons show the node type and the connection of
  the model, and a connection event brings them back in step whatever happened
  before. Initialisation and shutdown are announced without roles: the bar
  does not react to them at all. The movie plays only while the wallet is not
  synchronized, and is then the icon shown.
\<close>

theorem status_bar_follows_node:
  assumes "fold (bar_do True) es (n, updateStatusConnection True n new_status_bar) = (n', s')"
  shows "((\<forall>e\<in>set es. keeps_icons (snd e)) \<longrightarrow> icons_in_step (n', s')) \<and>
    (\<forall>es1 now b es2. es = es1 @ (now, BarNode (NsConnection b)) # es2 \<and> (\<forall>e\<in>set es2. keeps_icons (snd e)) \<longrightarrow>
       icons_in_step (n', s')) \<and>
    (\<forall>now e. \<not> keeps_icons (BarNode e) \<longrightarrow> snd (bar_do True (now, BarNode e) (n', s')) = s') \<and>
    (sb_playing s' \<longrightarrow> \<not> sb_synchronized s' \<and> sb_syncIcon s' = Movie)"
proof -
  let ?i = "(n, updateStatusConnection True n new_status_bar)"
  have a: "icons_in_step (n', s')" if "\<forall>e\<in>set es. keeps_icons (snd e)"
    using run_icons [OF that connection_in_step, of n new_status_bar] assms by simp
  have b: "icons_in_step (n', s')"
    if "es = es1 @ (now, BarNode (NsConnection b)) # es2" "\<forall>e\<in>set es2. keeps_icons (snd e)" for es1 now b es2
    using run_icons [OF that(2) connection_event_icons, of now b "fold (bar_do True) es1 ?i"] assms that(1) by simp
  have c: "snd (bar_do True (now, BarNode e) (n', s')) = s'" if "\<not> keeps_icons (BarNode e)" for now e
    using that by (cases e) (auto simp: nodeStateChanged_def split: prod.splits)
  have "bar_inv ?i" by (simp add: bar_inv_def new_status_bar_def)
  then have d: "bar_inv (n', s')" using run_inv [of ?i True es] assms by simp
  show ?thesis
    using a b c d by (simp add: bar_inv_def)
qed

definition demo_remote :: ns_state where
  "demo_remote = (ns_new demo_node)\<lparr>ns_nodeType := 2\<rparr>"

lemma status_bar_follows_node_witness:
  "\<exists>n' s'. fold (bar_do True) [(0, BarCompleted), (0, BarNode (NsConnection False))]
     (demo_remote, updateStatusConnection True demo_remote new_status_bar) = (n', s') \<and> icons_in_step (n', s')"
proof -
  let ?es = "[(0, BarCompleted), (0, BarNode (NsConnection False))]"
  obtain n' s' where r: "fold (bar_do True) ?es (demo_remote, updateStatusConnection True demo_remote new_status_bar) = (n', s')"
    by fastforce
  from status_bar_follows_node [OF this] have "icons_in_step (n', s')" by simp
  then show ?thesis using r by blast
qed


section \<open>What goes wrong\<close>

text \<open>A node that turns out to be remote when it is initialised: the bar hides both icons until another event.\<close>

lemma initialised_remote_not_shown:
  "\<not> icons_in_step (bar_do True (now, BarNode (NsInit 0 (demo_node\<lparr>ni_type := 2\<rparr>)))
     (ns_new demo_node, updateStatusConnection True (ns_new demo_node) new_status_bar))"
  by (simp add: ns_initCompleted_def ALL_COLUMNS_def nodeStateChanged_def icons_in_step_def updateStatusConnection_def Let_def
      read_node_def ns_getUserRole_def node_number_def ns_new_def demo_node_def)

text \<open>Closing a synchronized wallet does not clear the flag: the next block still reports it as synchronized.\<close>

lemma closed_wallet_still_described:
  "sb_synchronized s \<Longrightarrow> sb_synchronized (sb_walletClosed s) \<and>
   nodeStateChanged node now n (ns_roles (NsLocal h)) (sb_walletClosed s) = updateStatusDescription node now n (sb_walletClosed s)"
  by (simp add: sb_walletClosed_def nodeStateChanged_def)

text \<open>A last block that is one second ahead of the clock is reported as received millions of centuries ago.\<close>

lemma minus_second: "unat ((- 1000 :: u64) div HOUR) = 5124095576030" "unat ((- 1000 :: u64) mod HOUR div 60000) = 25" "(- 1000 :: u64) > HOUR"
  by (simp_all add: HOUR_def unat_div_distrib unat_mod_distrib word_less_nat_alt unat_word_ariths)

lemma block_from_the_future:
  assumes "sb_synchronized s" "now = 1000 * hi_timestamp (ns_last n) - 1000" "ns_peerCount n \<noteq> 0"
  shows "\<exists>head. sb_status (updateStatusDescription True now n s) =
    head @ '' Warning: last block was received '' @ dec 5124095576030 @ '' hours '' @ dec 25 @ '' minutes ago.''"
  using assms by (simp add: updateStatusDescription_def Let_def read_node_def ns_getUserRole_def node_number_def minus_second uint_0_iff)

end
