(* ===== verification/OverviewHeader.thy ===== *)
theory OverviewHeader
  imports StatusBar
begin

text \<open>
  The header of the overview page
  (src/src/Gui/Overview/OverviewHeaderFrame.cpp): its labels as a function of
  the node model, the node adapter, the wallet adapter and the clock. Texts are
  the untranslated ones; the dash of empty values is given by its bytes.
\<close>

section \<open>Texts\<close>

definition isLoopbackHost :: "string \<Rightarrow> bool" where
  "isLoopbackHost host \<longleftrightarrow> host \<noteq> [] \<and>
     (let l = map (\<lambda>ch. let n = of_char ch :: nat in if 65 \<le> n \<and> n \<le> 90 then char_of (n + 32) else ch) host
      in l = ''127.0.0.1'' \<or> l = ''localhost'' \<or> l = ''::1'')"

definition formatAge :: "int \<Rightarrow> string" where
  "formatAge a =
     (if a < 0 then ''just now''
      else if a < 60 then dec_int a @ '' second(s) ago''
      else if a < 60 * 60 then dec_int (a div 60) @ '' minute(s) ago''
      else if a < 24 * 60 * 60 then dec_int (a div 3600) @ '' hour(s) ago''
      else dec_int (a div 86400) @ '' day(s) ago'')"

definition emptyValue :: string where
  "emptyValue = [CHR 0xE2, CHR 0x80, CHR 0x94]"

text \<open>The English locale's number: a comma before every third digit from the end.\<close>

fun commas :: "string \<Rightarrow> string" where
  "commas (a # b # c # d # r) = a # b # c # CHR '','' # commas (d # r)"
| "commas r = r"

definition formatNumber :: "u64 \<Rightarrow> string" where
  "formatNumber w = rev (commas (rev (dec (unat w))))"


section \<open>The header\<close>

record wallet_shown =
  ws_open :: bool
  ws_count :: u64
  ws_hd :: bool
  ws_tracking :: bool

record node_shown =
  nv_type :: nat
  nv_host :: string
  nv_port :: "16 word"
  nv_last :: header_info
  nv_wallet :: "wallet_shown option"

record overview_labels =
  ov_connection :: string
  ov_node :: string
  ov_peers :: string
  ov_height :: string
  ov_difficulty :: string
  ov_hashrate :: "string option"
  ov_addresses :: string
  ov_mode :: string
  ov_tracking :: string
  ov_age :: string

text \<open>
  What the frame was given: the node model, the adapter's target time and its
  node, and the rows of the address list model.
\<close>

record overview_env =
  oe_model :: "ns_state option"
  oe_target :: "u64 option"
  oe_node :: "node_shown option"
  oe_rows :: "nat option"

definition node_description :: "node_shown option \<Rightarrow> string" where
  "node_description node =
     (case node of
        None \<Rightarrow> ''Unknown''
      | Some v \<Rightarrow>
          if nv_type v = 1 then ''Built-in node''
          else if nv_type v = 2 then
            (let host = nv_host v; port = nv_port v in
             if isLoopbackHost host then
               (if port \<noteq> 0 then ''Local daemon ('' @ host @ '':'' @ dec (unat port) @ '')'' else ''Local daemon'')
             else if host \<noteq> [] then
               (if port \<noteq> 0 then ''Remote RPC ('' @ host @ '':'' @ dec (unat port) @ '')'' else ''Remote RPC ('' @ host @ '')'')
             else ''Remote RPC'')
          else ''Unknown'')"

definition refreshLastBlockAge :: "overview_env \<Rightarrow> int \<Rightarrow> overview_labels \<Rightarrow> overview_labels" where
  "refreshLastBlockAge e now l =
     (case oe_node e of
        None \<Rightarrow> l\<lparr>ov_age := ''Unknown''\<rparr>
      | Some v \<Rightarrow>
          (let ts = hi_timestamp (nv_last v) in
           if ts = 0 then l\<lparr>ov_age := ''Unknown''\<rparr> else l\<lparr>ov_age := formatAge (now - sint ts)\<rparr>))"

definition no_header :: header_info where
  "no_header = \<lparr>hi_index = 0, hi_hash = replicate 32 (CHR 0x00), hi_timestamp = 0, hi_difficulty = 0\<rparr>"

definition refreshFromModel :: "overview_env \<Rightarrow> int \<Rightarrow> overview_labels \<Rightarrow> overview_labels" where
  "refreshFromModel e now l =
     (case oe_model e of
        None \<Rightarrow> l
      | Some m \<Rightarrow>
          (let node = oe_node e;
               has = node \<noteq> None;
               online = node_flag (read_node has m NSR_CONNECTION_STATE);
               peers = of_int (node_number (read_node has m NSR_PEER_COUNT)) :: u64;
               lastBlock = (case node of None \<Rightarrow> no_header | Some v \<Rightarrow> nv_last v);
               localTop = ucast (hi_index lastBlock) :: u64;
               known = of_int (node_number (read_node has m NSR_KNOWN_BLOCK_COUNT)) :: u64;
               networkTop = (if known > 0 then known - 1 else 0);
               difficulty = hi_difficulty lastBlock;
               target = (case oe_target e of None \<Rightarrow> 1 | Some t \<Rightarrow> max 1 t);
               hashrate = difficulty div target;
               rows = (case oe_rows e of None \<Rightarrow> 0 | Some n \<Rightarrow> n);
               l1 = l\<lparr>ov_connection := if online then ''Connected'' else ''Disconnected'',
                      ov_node := node_description node,
                      ov_peers := formatNumber peers,
                      ov_height := if networkTop > localTop \<and> known > 0
                        then formatNumber localTop @ '' / '' @ formatNumber networkTop @ '' (syncing)'' else formatNumber localTop,
                      ov_difficulty := if difficulty = 0 then emptyValue else formatNumber difficulty,
                      ov_hashrate := if hashrate = 0 then Some emptyValue else formatHashRate hashrate\<rparr>;
               l2 = (case Option.bind node nv_wallet of
                       Some w \<Rightarrow>
                         if ws_open w then
                           l1\<lparr>ov_addresses := formatNumber (ws_count w),
                              ov_mode := if ws_hd w then ''HD'' else ''Independent keys'',
                              ov_tracking := if ws_tracking w then ''Yes'' else ''No''\<rparr>
                         else l1\<lparr>ov_addresses := if rows > 0 then formatNumber (of_nat rows) else emptyValue,
                              ov_mode := emptyValue, ov_tracking := emptyValue\<rparr>
                     | None \<Rightarrow> l1\<lparr>ov_addresses := if rows > 0 then formatNumber (of_nat rows) else emptyValue,
                              ov_mode := emptyValue, ov_tracking := emptyValue\<rparr>)
           in refreshLastBlockAge e now l2))"

text \<open>The slots: each sets what it is given and reads everything again.\<close>

definition ov_setNodeStateModel :: "ns_state \<Rightarrow> overview_env \<Rightarrow> int \<Rightarrow> overview_labels \<Rightarrow> overview_env \<times> overview_labels" where
  "ov_setNodeStateModel m e now l = (let e' = e\<lparr>oe_model := Some m\<rparr> in (e', refreshFromModel e' now l))"

definition ov_addressListModelChanged :: "nat \<Rightarrow> overview_env \<Rightarrow> int \<Rightarrow> overview_labels \<Rightarrow> overview_env \<times> overview_labels" where
  "ov_addressListModelChanged n e now l = (let e' = e\<lparr>oe_rows := Some n\<rparr> in (e', refreshFromModel e' now l))"

definition ov_nodeStateModelDataChanged :: "ns_state \<Rightarrow> overview_env \<Rightarrow> int \<Rightarrow> overview_labels \<Rightarrow> overview_env \<times> overview_labels" where
  "ov_nodeStateModelDataChanged m e now l = (let e' = e\<lparr>oe_model := Some m\<rparr> in (e', refreshFromModel e' now l))"

definition ov_adapterInitCompleted :: "int \<Rightarrow> node_shown option \<Rightarrow> overview_env \<Rightarrow> int \<Rightarrow> overview_labels \<Rightarrow> overview_env \<times> overview_labels" where
  "ov_adapterInitCompleted status node e now l = (let e' = e\<lparr>oe_node := node\<rparr> in (e', refreshFromModel e' now l))"

definition ov_adapterDeinitCompleted :: "overview_env \<Rightarrow> int \<Rightarrow> overview_labels \<Rightarrow> overview_env \<times> overview_labels" where
  "ov_adapterDeinitCompleted e now l = (let e' = e\<lparr>oe_node := None\<rparr> in (e', refreshFromModel e' now l))"


section \<open>What the texts say\<close>

text \<open>An age is cut off to whole units, and names the largest unit that fits.\<close>

lemma formatAge_units:
  assumes "0 \<le> a"
  shows "\<exists>n len unit. (len, unit) \<in> {(1, ''second(s)''), (60, ''minute(s)''), (3600, ''hour(s)''), (86400, ''day(s)'')} \<and>
    formatAge a = dec n @ '' '' @ unit @ '' ago'' \<and> int n * len \<le> a \<and> a < (int n + 1) * len \<and>
    (len < 86400 \<longrightarrow> n < 60) \<and> (1 < len \<longrightarrow> 0 < n)"
proof -
  consider "a < 60" | "60 \<le> a" "a < 3600" | "3600 \<le> a" "a < 86400" | "86400 \<le> a" by linarith
  then show ?thesis
  proof cases
    case 1
    then show ?thesis using assms
      by (intro exI [of _ "nat a"] exI [of _ 1] exI [of _ "''second(s)''"]) (simp add: formatAge_def dec_int_def nat_less_iff)
  next
    case 2
    then show ?thesis
      by (intro exI [of _ "nat (a div 60)"] exI [of _ 60] exI [of _ "''minute(s)''"])
        (auto simp: formatAge_def dec_int_def nat_less_iff)
  next
    case 3
    then show ?thesis
      by (intro exI [of _ "nat (a div 3600)"] exI [of _ 3600] exI [of _ "''hour(s)''"])
        (auto simp: formatAge_def dec_int_def nat_less_iff)
  next
    case 4
    then show ?thesis
      by (intro exI [of _ "nat (a div 86400)"] exI [of _ 86400] exI [of _ "''day(s)''"])
        (auto simp: formatAge_def dec_int_def nat_less_iff)
  qed
qed

text \<open>Taking the commas out gives the plain number back.\<close>

lemma commas_out: "CHR '','' \<notin> set r \<Longrightarrow> List.filter (\<lambda>ch. ch \<noteq> CHR '','') (commas r) = r"
  by (induction r rule: commas.induct) auto

lemma dec_no_comma: "CHR '','' \<notin> set (dec n)"
  using dec_digits [of "CHR '',''" n] by (auto simp: is_digit_def)

lemma formatNumber_reads_back: "List.filter (\<lambda>ch. ch \<noteq> CHR '','') (formatNumber w) = dec (unat w)"
  using commas_out [of "rev (dec (unat w))"] dec_no_comma [of "unat w"]
  by (simp add: formatNumber_def rev_filter [symmetric])

end
