(* ===== verification/SettingsRuns.thy ===== *)
theory SettingsRuns
  imports AppSettings "HOL-Library.Countable_Set"
begin

text \<open>
  Runs of the settings: any sequence of setter calls and restarts. What a
  restart keeps, what type every option keeps, and the names of the wallet
  file and of the old address book beside it.
\<close>

section \<open>Calls and restarts\<close>

datatype cfg_event =
    SetMethod int
  | SetPort "16 word"
  | SetUrl qurl
  | SetBindPort "16 word"
  | SetWallet string
  | SetTheme string
  | SetRecent "string list"
  | SetNodes "string list"
  | SetNews bool
  | SetExplorer bool
  | SetMinimize bool
  | SetClose bool
  | SetRemote bool
  | Restart nat

text \<open>A restart builds the object anew over the file it finds; the number is the one rand() returns.\<close>

fun cf_apply :: "cfg_env \<Rightarrow> cfg_event \<Rightarrow> cfg \<Rightarrow> cfg option" where
  "cf_apply E (SetMethod m) s = Some (setConnectionMethod E m s)"
| "cf_apply E (SetPort p) s = Some (setLocalRpcPort E p s)"
| "cf_apply E (SetUrl u) s = Some (setRemoteRpcUrl E u s)"
| "cf_apply E (SetBindPort p) s = Some (setP2pBindPort p s)"
| "cf_apply E (SetWallet f) s = Some (setWalletFile E f s)"
| "cf_apply E (SetTheme t) s = Some (setCurrentTheme E t s)"
| "cf_apply E (SetRecent l) s = Some (setRecentWalletList E l s)"
| "cf_apply E (SetNodes l) s = Some (setRemoteNodeList E l s)"
| "cf_apply E (SetNews b) s = Some (setNewsEnabled E b s)"
| "cf_apply E (SetExplorer b) s = Some (setBlockchainExplorerEnabled E b s)"
| "cf_apply E (SetMinimize b) s = Some (setMinimizeToTrayEnabled E b s)"
| "cf_apply E (SetClose b) s = Some (setCloseToTrayEnabled E b s)"
| "cf_apply E (SetRemote b) s = Some (setOnRemote b s)"
| "cf_apply E (Restart r) s = cf_init E r (cf_new (cf_file s))"

fun cf_run :: "cfg_env \<Rightarrow> cfg_event list \<Rightarrow> cfg \<Rightarrow> cfg option" where
  "cf_run E [] s = Some s"
| "cf_run E (e # es) s = (case cf_apply E e s of None \<Rightarrow> None | Some t \<Rightarrow> cf_run E es t)"

text \<open>What a call can do: nothing to the options, one option stored, or a start.\<close>

inductive cf_effect :: "cfg_env \<Rightarrow> cfg \<Rightarrow> cfg \<Rightarrow> bool" for E where
  kept: "cf_settings t = cf_settings s \<Longrightarrow> cf_file t = cf_file s \<Longrightarrow> cf_effect E s t"
| stored: "cf_effect E s (store E k v s)"
| started: "cf_init E r (cf_new (cf_file s)) = Some t \<Longrightarrow> cf_effect E s t"

lemma kept_refl [intro]: "cf_effect E s s"
  by (rule kept) simp_all

lemmas setter_defs = setConnectionMethod_def setLocalRpcPort_def setRemoteRpcUrl_def setP2pBindPort_def
  setWalletFile_def setCurrentTheme_def setRecentWalletList_def setRemoteNodeList_def setNewsEnabled_def
  setBlockchainExplorerEnabled_def setMinimizeToTrayEnabled_def setCloseToTrayEnabled_def setOnRemote_def

lemma apply_effect: "cf_apply E e s = Some t \<Longrightarrow> cf_effect E s t"
  by (cases e) (auto simp: setter_defs Let_def notifyObservers_def split: if_splits intro: cf_effect.intros)


section \<open>A start never fails\<close>

lemma fold_adds_missing:
  "distinct new \<Longrightarrow> fold (\<lambda>n l. if n \<notin> set l then l @ [n] else l) new old = old @ filter (\<lambda>n. n \<notin> set old) new"
proof (induction new arbitrary: old)
  case (Cons n new)
  then have "filter (\<lambda>m. m \<noteq> n \<and> m \<notin> set old) new = filter (\<lambda>m. m \<notin> set old) new"
    by (auto intro!: filter_cong)
  with Cons show ?case
    by (auto simp: conj_commute)
qed simp

lemma default_nodes: "distinct DEFAULT_NODES" "DEFAULT_NODES \<noteq> []"
  by (simp_all add: DEFAULT_NODES_def)

text \<open>The node list after a start: the saved one, and the built-in nodes it lacks.\<close>

definition completed :: "string list \<Rightarrow> string list" where
  "completed old = old @ filter (\<lambda>n. n \<notin> set old) DEFAULT_NODES"

lemma completed_not_empty: "completed old \<noteq> []"
  using default_nodes(2) by (cases old) (auto simp: completed_def filter_empty_conv)

lemma restored_nodes: "getRemoteNodeList (restoreDefaultNodeList E s) = completed (getRemoteNodeList s)"
  by (auto simp: restoreDefaultNodeList_def completed_def fold_adds_missing default_nodes(1)
      nodes.get_put [where E = E] getRemoteNodeList_def [of s] cf_strings_def)

lemma restore_store: "\<exists>l. restoreDefaultNodeList E s = store E K_NODES (JArray (map JString l)) s"
  by (auto simp: restoreDefaultNodeList_def setRemoteNodeList_def)

lemma start_shape:
  "\<exists>l u. cf_init E r s = Some u \<and> cf_file u = cf_file (store E K_NODES (JArray (map JString l)) (cf_load E s)) \<and>
     (\<forall>k. k \<noteq> K_NODES \<and> k \<noteq> K_URL \<longrightarrow> cf_settings u k = cf_settings (cf_load E s) k) \<and>
     cf_settings u K_NODES = Some (JArray (map JString l)) \<and>
     (cf_settings u K_URL = cf_settings (cf_load E s) K_URL \<and> cf_has K_URL u \<and> getConnectionMethod u = 3 \<or>
      (\<exists>x. cf_settings u K_URL = Some (JString x)))"
proof -
  let ?m = "restoreDefaultNodeList E (cf_load E s)"
  obtain l where m: "?m = store E K_NODES (JArray (map JString l)) (cf_load E s)"
    using restore_store by blast
  have ne: "getRemoteNodeList ?m \<noteq> []"
    by (simp add: restored_nodes completed_not_empty)
  have keys_differ: "K_URL \<noteq> K_NODES" "K_METHOD \<noteq> K_URL"
    by (simp_all add: keys)
  show ?thesis
    using ne keys_differ
    by (cases "\<not> cf_has K_URL ?m \<or> getConnectionMethod ?m \<noteq> 3")
      (auto simp: cf_init_def setDefaultRemoteNode_def Let_def cf_insert_def m intro!: exI [of _ l])
qed


section \<open>The type of every option\<close>

text \<open>The values each option may have; an option under another key has none.\<close>

inductive option_type :: "string \<Rightarrow> json \<Rightarrow> bool" where
  nodes_type: "option_type K_NODES (JArray (map JString l))"
| recent_type: "option_type K_RECENT (JArray (map JString l))"
| method_type: "m \<in> {0..3} \<Longrightarrow> option_type K_METHOD (JDouble (of_int m))"
| port_type: "p \<in> {0..65535} \<Longrightarrow> option_type K_PORT (JDouble (of_int p))"
| url_type: "option_type K_URL (JString u)"
| wallet_type: "wallet_name f = f \<Longrightarrow> option_type K_WALLET (JString f)"
| encrypted_type: "option_type K_ENCRYPTED (JBool b)"
| theme_type: "t \<in> {''light'', ''dark''} \<Longrightarrow> option_type K_THEME (JString t)"
| minimize_type: "option_type K_MINIMIZE (JBool b)"
| close_type: "option_type K_CLOSE (JBool b)"
| explorer_type: "option_type K_EXPLORER (JBool b)"
| privacy_type: "option_type K_PRIVACY (JObject [K_NEWS \<mapsto> JBool b])"

inductive_cases method_typeE: "option_type K_METHOD v"
inductive_cases port_typeE: "option_type K_PORT v"
inductive_cases theme_typeE: "option_type K_THEME v"
inductive_cases wallet_typeE: "option_type K_WALLET v"
inductive_cases privacy_typeE: "option_type K_PRIVACY v"

definition cfg_doc :: "jobject \<Rightarrow> bool" where
  "cfg_doc ob \<longleftrightarrow> (\<forall>k v. ob k = Some v \<longrightarrow> option_type k v)"

lemma cfg_docD: "cfg_doc ob \<Longrightarrow> ob k = Some v \<Longrightarrow> option_type k v"
  by (simp add: cfg_doc_def)

lemma doc_empty [simp]: "cfg_doc Map.empty"
  by (simp add: cfg_doc_def)

lemma doc_upd: "cfg_doc ob \<Longrightarrow> option_type k v \<Longrightarrow> cfg_doc (ob(k \<mapsto> v))"
  by (simp add: cfg_doc_def)

lemma doc_method:
  assumes "cfg_doc (cf_settings s)"
  shows "getConnectionMethod s \<in> {0..3}"
proof (cases "cf_settings s K_METHOD")
  case (Some v)
  with assms have "option_type K_METHOD v"
    by (rule cfg_docD)
  then obtain m where "m \<in> {0..3}" "v = JDouble (of_int m)"
    by (rule method_typeE) (auto simp: keys)
  with Some show ?thesis
    by (simp add: getConnectionMethod_def cf_has_def cf_get_def jvalue_def)
qed (simp add: getConnectionMethod_def cf_has_def)

lemma doc_theme:
  assumes "cfg_doc (cf_settings s)"
  shows "getCurrentTheme s \<in> {''light'', ''dark''}"
proof (cases "cf_settings s K_THEME")
  case (Some v)
  with assms have "option_type K_THEME v"
    by (rule cfg_docD)
  then obtain t where "t \<in> {''light'', ''dark''}" "v = JString t"
    by (rule theme_typeE) (auto simp: keys)
  with Some show ?thesis
    by (simp add: getCurrentTheme_def cf_has_def cf_get_def jvalue_def)
qed (simp add: getCurrentTheme_def cf_has_def)

lemma doc_port:
  assumes "cfg_doc (cf_settings s)" "0 \<le> ce_rpcPort E" "ce_rpcPort E < 65536"
  shows "uint (getLocalRpcPort E s) = json_toInt (ce_rpcPort E) (cf_get K_PORT s)"
proof (cases "cf_settings s K_PORT")
  case (Some v)
  with assms(1) have "option_type K_PORT v"
    by (rule cfg_docD)
  then obtain p where "p \<in> {0..65535}" "v = JDouble (of_int p)"
    by (rule port_typeE) (auto simp: keys)
  with Some show ?thesis
    by (simp add: getLocalRpcPort_def cf_get_def jvalue_def uint_word_of_int)
qed (use assms(2,3) in \<open>simp add: getLocalRpcPort_def cf_get_def jvalue_def uint_word_of_int\<close>)

lemma doc_news:
  assumes "cfg_doc (cf_settings s)"
  shows "option_type K_PRIVACY (JObject
    ((if cf_has K_PRIVACY s then json_toObject (cf_get K_PRIVACY s) else Map.empty)(K_NEWS \<mapsto> JBool b)))"
proof (cases "cf_settings s K_PRIVACY")
  case (Some v)
  with assms have "option_type K_PRIVACY v"
    by (rule cfg_docD)
  then obtain c where "v = JObject [K_NEWS \<mapsto> JBool c]"
    by (rule privacy_typeE) (auto simp: keys)
  with Some show ?thesis
    using privacy_type [of b] by (simp add: cf_has_def cf_get_def jvalue_def)
qed (use privacy_type [of b] in \<open>simp add: cf_has_def\<close>)

lemma wallet_name_again: "wallet_name (wallet_name f) = wallet_name f"
  by (simp add: wallet_name_def ends_with_def)


section \<open>Every run stays within the types\<close>

text \<open>The caller's side: a method is one of the four, a theme one of the two styles.\<close>

fun event_ok :: "cfg_event \<Rightarrow> bool" where
  "event_ok (SetMethod m) \<longleftrightarrow> 0 \<le> m \<and> m \<le> 3"
| "event_ok (SetTheme t) \<longleftrightarrow> t = ''light'' \<or> t = ''dark''"
| "event_ok _ \<longleftrightarrow> True"

text \<open>QJsonDocument reads back every settings object it has written.\<close>

definition reads_back :: "cfg_env \<Rightarrow> bool" where
  "reads_back E \<longleftrightarrow> (\<forall>ob. cfg_doc ob \<longrightarrow> fromJson (ce_codec E) (toJson (ce_codec E) ob) = Some (JObject ob))"

definition file_typed :: "cfg_env \<Rightarrow> string option \<Rightarrow> bool" where
  "file_typed E f \<longleftrightarrow> f = None \<or> (\<exists>ob. cfg_doc ob \<and> f = Some (toJson (ce_codec E) ob))"

definition cfg_typed :: "cfg_env \<Rightarrow> cfg \<Rightarrow> bool" where
  "cfg_typed E s \<longleftrightarrow> cfg_doc (cf_settings s) \<and> file_typed E (cf_file s)"

lemma typed_store: "cfg_typed E s \<Longrightarrow> option_type k v \<Longrightarrow> cfg_typed E (store E k v s)"
  by (auto simp: cfg_typed_def file_typed_def store_def notifyObservers_def saveSettings_def cf_insert_def doc_upd
      intro!: exI [of _ "(cf_settings s)(k \<mapsto> v)"])

lemma typed_kept: "cfg_typed E s \<Longrightarrow> cf_settings t = cf_settings s \<Longrightarrow> cf_file t = cf_file s \<Longrightarrow> cfg_typed E t"
  by (simp add: cfg_typed_def)

lemma typed_load: "reads_back E \<Longrightarrow> file_typed E f \<Longrightarrow> cfg_typed E (cf_load E (cf_new f))"
  by (auto simp: cfg_typed_def file_typed_def cf_load_def cf_new_def reads_back_def)

lemma typed_start:
  assumes "reads_back E" "file_typed E f" "cf_init E r (cf_new f) = Some t"
  shows "cfg_typed E t"
proof -
  let ?L = "cf_load E (cf_new f)"
  obtain l where t: "cf_file t = cf_file (store E K_NODES (JArray (map JString l)) ?L)"
    "\<And>k. k \<noteq> K_NODES \<Longrightarrow> k \<noteq> K_URL \<Longrightarrow> cf_settings t k = cf_settings ?L k"
    "cf_settings t K_NODES = Some (JArray (map JString l))"
    "cf_settings t K_URL = cf_settings ?L K_URL \<or> (\<exists>x. cf_settings t K_URL = Some (JString x))"
    using start_shape [of E r "cf_new f"] assms(3) by auto
  have L: "cfg_typed E ?L"
    using assms(1,2) by (rule typed_load)
  then have "option_type k v" if "cf_settings t k = Some v" for k v
    using that t(2) [of k] t(3,4) by (cases "k = K_NODES \<or> k = K_URL")
      (auto simp: cfg_typed_def cfg_doc_def intro: nodes_type url_type)
  moreover have "cfg_typed E (store E K_NODES (JArray (map JString l)) ?L)"
    using L nodes_type by (rule typed_store)
  ultimately show ?thesis
    using t(1) by (simp add: cfg_typed_def cfg_doc_def)
qed

lemma typed_apply:
  assumes "reads_back E" "cfg_typed E s" "event_ok e" "cf_apply E e s = Some t"
  shows "cfg_typed E t"
proof (cases e)
  case (Restart r)
  then show ?thesis
    using assms typed_start [of E "cf_file s" r t] by (simp add: cfg_typed_def)
next
  case (SetNews b)
  have "cfg_doc (cf_settings s)"
    using assms(2) by (simp add: cfg_typed_def)
  then show ?thesis
    using SetNews assms typed_store [OF assms(2) doc_news [of s b]]
    by (auto simp: setNewsEnabled_def Let_def split: if_splits)
next
  case (SetPort p)
  have "option_type K_PORT (JDouble (of_int (uint p)))"
    using uint_lt2p [of p] by (intro port_type) auto
  then show ?thesis
    using assms SetPort by (auto simp: setLocalRpcPort_def intro: typed_store split: if_splits)
next
  case (SetMethod m)
  then have "option_type K_METHOD (JDouble (of_int m))"
    using assms(3) by (intro method_type) simp
  then show ?thesis
    using assms SetMethod by (auto simp: setConnectionMethod_def intro: typed_store split: if_splits)
next
  case (SetWallet f)
  then show ?thesis
    using assms by (auto simp: setWalletFile_def wallet_name_again intro!: typed_store wallet_type)
next
  case (SetBindPort p)
  then show ?thesis
    using assms by (auto simp: setP2pBindPort_def notifyObservers_def intro: typed_kept)
next
  case (SetRemote b)
  then show ?thesis
    using assms by (auto simp: setOnRemote_def intro: typed_kept)
qed (use assms(2-4) in \<open>simp add: setter_defs Let_def split: if_splits;
    fastforce intro: typed_store option_type.intros\<close>)+

lemma apply_total: "cf_apply E e s \<noteq> None"
  using start_shape [of E _ "cf_new (cf_file s)"] by (cases e) fastforce+

lemma run_typed:
  assumes "reads_back E" "list_all event_ok evs" "cfg_typed E s"
  shows "\<exists>t. cf_run E evs s = Some t \<and> cfg_typed E t"
  using assms(2,3)
proof (induction evs arbitrary: s)
  case (Cons e evs)
  obtain t where t: "cf_apply E e s = Some t"
    using apply_total by blast
  moreover have "cfg_typed E t"
    using typed_apply [OF assms(1) Cons.prems(2) _ t] Cons.prems(1) by simp
  ultimately show ?case
    using Cons.IH [of t] Cons.prems(1) by simp
qed simp


lemma typed_run_options:
  assumes "cfg_typed E s" "0 \<le> ce_rpcPort E" "ce_rpcPort E < 65536"
  shows "getConnectionMethod s \<in> {0..3}" "getCurrentTheme s \<in> {''light'', ''dark''}"
    "uint (getLocalRpcPort E s) = json_toInt (ce_rpcPort E) (cf_get K_PORT s)"
  using assms doc_method doc_theme doc_port by (simp_all add: cfg_typed_def)

text \<open>
  C16. Whatever setters the program calls and however often it restarts, every
  option keeps its type, in memory and in the file: no start divides by the
  length of an empty node list, the connection method is one of the four, the
  current theme is one of the styles (so the style reference is never null), and
  the RPC port is read without truncation.
\<close>
theorem settings_stay_typed:
  assumes "reads_back E" "file_typed E f" "list_all event_ok evs"
    and "0 \<le> ce_rpcPort E" "ce_rpcPort E < 65536"
    and "styles ''light'' \<noteq> None" "styles ''dark'' \<noteq> None"
  shows "\<exists>s. cf_run E (Restart r # evs) (cf_new f) = Some s \<and> cfg_doc (cf_settings s) \<and> file_typed E (cf_file s) \<and>
    getConnectionMethod s \<in> {0..3} \<and> getCurrentStyle styles s \<noteq> None \<and>
    uint (getLocalRpcPort E s) = json_toInt (ce_rpcPort E) (cf_get K_PORT s)"
proof -
  have "cfg_typed E (cf_new f)"
    using assms(2) by (simp add: cfg_typed_def cf_new_def)
  then obtain s where s: "cf_run E (Restart r # evs) (cf_new f) = Some s" "cfg_typed E s"
    using run_typed [of E "Restart r # evs"] assms(1,3) by auto
  with typed_run_options [OF s(2) assms(4,5)] assms(6,7) show ?thesis
    by (auto simp: cfg_typed_def getCurrentStyle_def)
qed


section \<open>A restart keeps the options\<close>

text \<open>The file holds the options, but for a remote node chosen at start and not saved since.\<close>

definition in_step :: "cfg_env \<Rightarrow> cfg \<Rightarrow> bool" where
  "in_step E s \<longleftrightarrow> (\<exists>ob. cfg_doc ob \<and> cf_file s = Some (toJson (ce_codec E) ob) \<and>
     (\<forall>k. k \<noteq> K_URL \<longrightarrow> ob k = cf_settings s k))"

lemma in_step_start:
  assumes "ce_writable E" "cfg_typed E (cf_load E s)" "cf_init E r s = Some t"
  shows "in_step E t"
proof -
  obtain l where t: "cf_file t = cf_file (store E K_NODES (JArray (map JString l)) (cf_load E s))"
    "\<And>k. k \<noteq> K_NODES \<Longrightarrow> k \<noteq> K_URL \<Longrightarrow> cf_settings t k = cf_settings (cf_load E s) k"
    "cf_settings t K_NODES = Some (JArray (map JString l))"
    using start_shape [of E r s] assms(3) by auto
  let ?ob = "(cf_settings (cf_load E s))(K_NODES \<mapsto> JArray (map JString l))"
  have "cfg_doc ?ob"
    using assms(2) nodes_type by (intro doc_upd) (simp_all add: cfg_typed_def)
  then show ?thesis
    using t assms(1) by (auto simp: in_step_def file_store intro!: exI [of _ ?ob])
qed

lemma in_step_apply:
  assumes "ce_writable E" "reads_back E" "cfg_typed E s" "in_step E s" "event_ok e" "cf_apply E e s = Some t"
  shows "in_step E t"
  using apply_effect [OF assms(6)]
proof cases
  case kept
  then show ?thesis
    using assms(4) by (simp add: in_step_def)
next
  case (stored k v)
  then show ?thesis
    using typed_apply [OF assms(2,3,5,6)] assms(1)
    by (auto simp: in_step_def cfg_typed_def file_store intro!: exI [of _ "cf_settings t"])
next
  case (started r)
  then show ?thesis
    using assms(3) by (intro in_step_start [OF assms(1) typed_load [OF assms(2)]]) (simp_all add: cfg_typed_def)
qed

lemma runs_in_step:
  assumes "ce_writable E" "reads_back E" "list_all event_ok evs" "cfg_typed E s" "in_step E s" "cf_run E evs s = Some t"
  shows "in_step E t"
  using assms(3-)
proof (induction evs arbitrary: s)
  case (Cons e evs)
  obtain u where u: "cf_apply E e s = Some u"
    using apply_total by blast
  have "cfg_typed E u" "in_step E u"
    using typed_apply [OF assms(2) _ _ u] in_step_apply [OF assms(1,2) _ _ _ u] Cons.prems by simp_all
  then show ?case
    using Cons u by simp
qed simp

text \<open>What a start over the file of s finds.\<close>

lemma restart_keeps:
  assumes "reads_back E" "in_step E s" "cf_init E r (cf_new (cf_file s)) = Some t" "k \<noteq> K_NODES" "k \<noteq> K_URL"
  shows "cf_settings t k = cf_settings s k"
  using assms start_shape [of E r "cf_new (cf_file s)"]
  by (fastforce simp: in_step_def reads_back_def cf_load_def cf_new_def)

lemma restart_nodes:
  assumes "reads_back E" "in_step E s" "cf_init E r (cf_new (cf_file s)) = Some t"
  shows "getRemoteNodeList t = completed (getRemoteNodeList s)"
proof -
  let ?L = "cf_load E (cf_new (cf_file s))"
  have "K_NODES \<noteq> K_URL"
    by (simp add: keys)
  then have "getRemoteNodeList ?L = getRemoteNodeList s"
    using assms(1,2) by (intro nodes.get_local)
      (auto simp: in_step_def reads_back_def cf_load_def cf_new_def)
  moreover have "getRemoteNodeList t = getRemoteNodeList (restoreDefaultNodeList E ?L)"
    using assms(3) \<open>K_NODES \<noteq> K_URL\<close> by (intro nodes.get_local)
      (auto simp: cf_init_def setDefaultRemoteNode_def Let_def cf_insert_def split: if_splits)
  ultimately show ?thesis
    by (simp add: restored_nodes)
qed


lemma restart_remote:
  assumes "reads_back E" "cf_file s = Some (toJson (ce_codec E) (cf_settings s))" "cfg_doc (cf_settings s)"
    and "cf_has K_URL s" "getConnectionMethod s = 3" "cf_init E r (cf_new (cf_file s)) = Some t"
  shows "getRemoteRpcUrl E t = getRemoteRpcUrl E s"
proof -
  let ?m = "restoreDefaultNodeList E (cf_load E (cf_new (cf_file s)))"
  have L: "cf_settings (cf_load E (cf_new (cf_file s))) = cf_settings s"
    using assms(1-3) by (simp add: reads_back_def cf_load_def cf_new_def)
  have differ: "K_URL \<noteq> K_NODES" "K_METHOD \<noteq> K_NODES"
    by (simp_all add: keys)
  have same: "cf_settings ?m K_URL = cf_settings s K_URL" "getConnectionMethod ?m = getConnectionMethod s"
    using L differ restore_store [of E "cf_load E (cf_new (cf_file s))"] by (auto intro!: meth.get_local)
  then have "t = ?m"
    using assms(4-6) by (simp add: cf_init_def setDefaultRemoteNode_def cf_has_def)
  then show ?thesis
    using same(1) get_cong [of t K_URL s] by (simp add: getRemoteRpcUrl_def)
qed



section \<open>A codec for the settings\<close>

text \<open>There is one: the settings objects are countable, so each can be written as a number.\<close>

lemma values_countable: "countable {v. \<exists>k. option_type k v}"
proof -
  have "{v. \<exists>k. option_type k v} \<subseteq>
     range (\<lambda>l. JArray (map JString l)) \<union> range (\<lambda>m. JDouble (of_int m)) \<union> range JString \<union> range JBool \<union>
     range (\<lambda>b. JObject [K_NEWS \<mapsto> JBool b])"
    by (auto elim!: option_type.cases)
  then show ?thesis
    by (rule countable_subset) (intro countable_Un countable_image countableI_type)
qed

lemma map_of_known: "map_of (map (\<lambda>k. (k, the (m k))) (filter (\<lambda>k. m k \<noteq> None) ks)) k =
    (if k \<in> set ks then m k else None)"
  by (induction ks) auto

definition all_keys :: "string list" where
  "all_keys = [K_NODES, K_METHOD, K_PORT, K_URL, K_WALLET, K_ENCRYPTED, K_THEME, K_RECENT, K_MINIMIZE, K_CLOSE,
     K_PRIVACY, K_EXPLORER]"

lemma option_key: "option_type k v \<Longrightarrow> k \<in> set all_keys"
  by (induction rule: option_type.induct) (simp_all add: all_keys_def)

lemma doc_listed:
  assumes "cfg_doc ob"
  shows "ob \<in> map_of ` lists (UNIV \<times> {v. \<exists>k. option_type k v})"
proof
  let ?l = "map (\<lambda>k. (k, the (ob k))) (filter (\<lambda>k. ob k \<noteq> None) all_keys)"
  show "ob = map_of ?l"
  proof
    fix k
    show "ob k = map_of ?l k"
    proof (cases "ob k")
      case (Some v)
      with assms have "k \<in> set all_keys"
        by (auto dest: cfg_docD intro: option_key)
      then show ?thesis
        by (simp only: map_of_known if_True)
    qed (simp only: map_of_known if_cancel)
  qed
  show "?l \<in> lists (UNIV \<times> {v. \<exists>k. option_type k v})"
    using assms by (fastforce dest: cfg_docD)
qed

lemma docs_countable: "countable {ob. cfg_doc ob}"
proof -
  have "countable (map_of ` lists ((UNIV :: string set) \<times> {v. \<exists>k. option_type k v}))"
    by (intro countable_image countable_lists countable_SIGMA countableI_type values_countable)
  then show ?thesis
    by (rule countable_subset [rotated]) (auto intro: doc_listed)
qed

definition counting_codec :: codec where
  "counting_codec = \<lparr>qCompress = (\<lambda>b. b), qUncompress = (\<lambda>b. b),
     toJson = (\<lambda>ob. replicate (to_nat_on {ob. cfg_doc ob} ob) (CHR ''x'')),
     fromJson = (\<lambda>s. Some (JObject (from_nat_into {ob. cfg_doc ob} (length s))))\<rparr>"

definition sample_env :: cfg_env where
  "sample_env = \<lparr>ce_codec = counting_codec, ce_writable = True, ce_tray = True,
     ce_userInput = (\<lambda>s. \<lparr>qu_scheme = ''http'', qu_host = s, qu_port = 32348\<rparr>),
     ce_absolute = (\<lambda>d f. d @ ''/'' @ f), ce_rpcPort = 32348\<rparr>"

lemma sample_reads_back: "reads_back sample_env"
  using docs_countable by (simp add: reads_back_def sample_env_def counting_codec_def)

definition sample_line :: command_line where
  "sample_line = \<lparr>cl_isSet = (\<lambda>_. False), cl_value = (\<lambda>_. []), cl_values = (\<lambda>_. [])\<rparr>"

lemma settings_stay_typed_witness:
  "\<exists>s. cf_run sample_env [Restart 3, SetTheme ''dark'', SetMethod 2, SetPort 40000, Restart 1] (cf_new None) = Some s \<and>
    cfg_doc (cf_settings s) \<and> file_typed sample_env (cf_file s) \<and> getConnectionMethod s \<in> {0..3} \<and>
    getCurrentStyle (\<lambda>_. Some ()) s \<noteq> None \<and>
    uint (getLocalRpcPort sample_env s) = json_toInt (ce_rpcPort sample_env) (cf_get K_PORT s)"
  using sample_reads_back
  by (rule settings_stay_typed) (simp_all add: file_typed_def sample_env_def)



section \<open>Names of the wallet file\<close>

lemma last_index_end: "last_index ''.wallet'' (b @ ''.wallet'') = Some (length b)"
proof (induction b)
  case Nil
  show ?case
    by code_simp
qed simp

text \<open>
  A chosen wallet file always ends in .wallet or .keys, choosing it again
  changes nothing, and the old address book beside a file b.wallet is
  b.addressbook. A .keys file whose name has no .wallet in it is taken for its own
  address book.
\<close>
theorem wallet_file_names:
  "(wallet_name f = f \<or> wallet_name f = f @ ''.wallet'') \<and>
   (ends_with (getWalletFile E c (setWalletFile E f s)) ''.wallet'' \<or>
    ends_with (getWalletFile E c (setWalletFile E f s)) ''.keys'') \<and>
   setWalletFile E (getWalletFile E c (setWalletFile E f s)) t = setWalletFile E f t \<and>
   getLegacyAddressBookFile E c (setWalletFile E (b @ ''.wallet'') s) = b @ ''.addressbook'' \<and>
   (last_index ''.wallet'' (k @ ''.keys'') = None \<longrightarrow>
    getLegacyAddressBookFile E c (setWalletFile E (k @ ''.keys'') s) = k @ ''.keys'')"
  by (auto simp: wallet_name_def setWalletFile_def getWalletFile_def getLegacyAddressBookFile_def Let_def
      ends_with_def last_index_end replace_at_def)

lemma wallet_file_names_witness:
  "getLegacyAddressBookFile sample_env sample_line (setWalletFile sample_env (''a'' @ ''.keys'') (cf_new None)) = ''a.keys''"
  using wallet_file_names [of "[]" sample_env sample_line "cf_new None" "cf_new None" "[]" "''a''"] by (simp add: starts_with_def)

end
