(* ===== verification/Styles.thy ===== *)
theory Styles
  imports AmountFormat SettingsRuns
begin

text \<open>
  The styles (src/src/Style/*.cpp), which one Settings gives, the menu of themes
  and what a change of theme does (MainWindow.cpp, WalletApplication.cpp). A
  style sheet is a template whose placeholders are replaced one after the other;
  the lemmas show that this is one substitution of all of them. Colours are the
  texts the source writes, icons their paths.
\<close>

section \<open>Style, LightStyle and DarkStyle\<close>

text \<open>A virtual getter of Style returns a text or what another getter returns.\<close>

datatype getter_body = Returns string | Calls string

definition Style_getters :: "(string \<times> getter_body) list" where
  "Style_getters =
    [
     (''fontFamily'', Returns ''Open Sans''), (''fontColorGray'', Returns ''#888888''),
     (''fontColorGreen'', Returns ''#04be71''), (''fontColorRed'', Returns ''#ef3131''),
     (''fontColorBlueNormal'', Returns ''#0580e8''), (''fontColorBlueHover'', Returns ''#005faf''),
     (''fontColorBluePressed'', Returns ''#0580e8''), (''backgroundColorGray'', Returns ''#f4f4f4''),
     (''backgroundButtonColorGrayHover'', Returns ''#fbfbfb''), (''backgroundColorBlueNormal'', Returns ''#4197d1''),
     (''backgroundColorBlueHover'', Returns ''#3dacf1''), (''backgroundColorBluePressed'', Returns ''#4197d1''),
     (''backgroundColorBlueDisabled'', Returns ''#7f4197d1''), (''backgroundColorGrayNormal'', Returns ''#9e9e9e''),
     (''backgroundColorGrayHover'', Returns ''#a8a8a8''), (''backgroundColorGrayPressed'', Returns ''#bfbebe''),
     (''backgroundColorGreen'', Calls ''fontColorGreen''), (''backgroundColorGreenHover'', Returns ''#56dd9c''),
     (''backgroundColorAlternate'', Returns ''#f3f4f6''), (''panelBackgroundColor'', Returns ''#ffffff''),
     (''inputBackgroundColor'', Returns ''#ffffff''), (''primaryTextColor'', Returns ''#000000''),
     (''selectionTextColor'', Returns ''#ffffff''), (''hoverBackgroundColor'', Returns ''#e9eaec''),
     (''menuBackgroundColor'', Calls ''panelBackgroundColor''),
     (''tabBackgroundColor'', Calls ''panelBackgroundColor''),
     (''tabInactiveBackgroundColor'', Calls ''backgroundColorGray''),
     (''scrollBarBackgroundColor'', Returns ''#e0e0e0''), (''calendarHeaderBackgroundColor'', Returns ''#d0deed''),
     (''borderColor'', Returns ''#dddddd''), (''borderColorDark'', Returns ''#bbbbbb''),
     (''selectionColor'', Returns ''#5f9cc7''), (''glassColor'', Returns ''#eaffffff'')
    ]"

definition LightStyle_getters :: "(string \<times> string) list" where
  "LightStyle_getters =
    [
     (''statusBarBackgroundColor'', ''#CADEF7''), (''statusBarFontColor'', ''#2A4268''),
     (''headerBackgroundColor'', ''#EDF4FC''), (''headerBorderColor'', ''#dddddd''),
     (''addressFontColor'', ''#2A4268''), (''balanceFontColor'', ''#2A4268''),
     (''toolButtonBackgroundColorNormal'', ''#DFECFC''), (''toolButtonBackgroundColorHover'', ''#C1D5ED''),
     (''toolButtonBackgroundColorPressed'', ''#00A0E3''), (''toolButtonFontColorNormal'', ''#2E4469''),
     (''toolButtonFontColorDisabled'', ''#8C949E''), (''toolBarBorderColor'', ''#dddddd'')
    ]"

definition DarkStyle_getters :: "(string \<times> string) list" where
  "DarkStyle_getters =
    [
     (''statusBarBackgroundColor'', ''#2E466C''), (''statusBarFontColor'', ''#ffffff''),
     (''headerBackgroundColor'', ''#2E466C''), (''headerBorderColor'', ''#2E466C''),
     (''addressFontColor'', ''#ffffff''), (''balanceFontColor'', ''#ffffff''), (''fontColorGray'', ''#AAB6C4''),
     (''fontColorBlueNormal'', ''#69B7F2''), (''fontColorBlueHover'', ''#8EC9FF''),
     (''fontColorBluePressed'', ''#4DA3DF''), (''backgroundColorGray'', ''#172235''),
     (''backgroundButtonColorGrayHover'', ''#2A3A54''), (''backgroundColorAlternate'', ''#202D42''),
     (''panelBackgroundColor'', ''#1E2A3E''), (''inputBackgroundColor'', ''#111B2B''),
     (''primaryTextColor'', ''#F1F5FA''), (''hoverBackgroundColor'', ''#283A56''),
     (''menuBackgroundColor'', ''#1E2A3E''), (''tabBackgroundColor'', ''#1E2A3E''),
     (''tabInactiveBackgroundColor'', ''#172235''), (''scrollBarBackgroundColor'', ''#101928''),
     (''calendarHeaderBackgroundColor'', ''#253A5B''), (''borderColor'', ''#344763''),
     (''borderColorDark'', ''#435673''), (''selectionColor'', ''#3E81B8''), (''glassColor'', ''#dd101827''),
     (''toolButtonBackgroundColorNormal'', ''#1D3254''), (''toolButtonBackgroundColorHover'', ''#6582AA''),
     (''toolButtonBackgroundColorPressed'', ''#425A80''), (''toolButtonFontColorNormal'', ''#ffffff''),
     (''toolButtonFontColorDisabled'', ''#b2ffffff''), (''toolBarBorderColor'', ''#2e4558'')
    ]"

text \<open>Icons with the size they are rendered at.\<close>

definition LightStyle_icons :: "(string \<times> string \<times> nat option) list" where
  "LightStyle_icons =
    [
     (''getWalletSyncGifFile'', '':icons/light/wallet-sync'', None), (''getLogoPixmap'', '':icons/light/logo'', None),
     (''getBalanceIcon'', '':icons/total_balance'', Some 32),
     (''getConnectedIcon'', '':icons/light/connected'', Some 20),
     (''getDisconnectedIcon'', '':icons/light/disconnected'', Some 20),
     (''getEncryptedIcon'', '':icons/light/encrypted'', Some 20),
     (''getNotEncryptedIcon'', '':icons/light/decrypted'', Some 20),
     (''getSyncedIcon'', '':icons/light/synced'', Some 20)
    ]"

definition DarkStyle_icons :: "(string \<times> string \<times> nat option) list" where
  "DarkStyle_icons =
    [
     (''getWalletSyncGifFile'', '':icons/dark/wallet-sync'', None), (''getLogoPixmap'', '':icons/dark/logo'', None),
     (''getBalanceIcon'', '':icons/dark/balance'', Some 32),
     (''getConnectedIcon'', '':icons/dark/connected'', Some 20),
     (''getDisconnectedIcon'', '':icons/dark/disconnected'', Some 20),
     (''getEncryptedIcon'', '':icons/dark/encrypted'', Some 20),
     (''getNotEncryptedIcon'', '':icons/dark/decrypted'', Some 20),
     (''getSyncedIcon'', '':icons/dark/synced'', Some 20)
    ]"

datatype style = LightStyle | DarkStyle

fun getStyleId :: "style \<Rightarrow> string" where
  "getStyleId LightStyle = ''light''"
| "getStyleId DarkStyle = ''dark''"

fun getStyleName :: "style \<Rightarrow> string" where
  "getStyleName LightStyle = ''Light''"
| "getStyleName DarkStyle = ''Dark''"

fun overriding :: "style \<Rightarrow> (string \<times> string) list" where
  "overriding LightStyle = LightStyle_getters"
| "overriding DarkStyle = DarkStyle_getters"

fun style_icons :: "style \<Rightarrow> (string \<times> string \<times> nat option) list" where
  "style_icons LightStyle = LightStyle_icons"
| "style_icons DarkStyle = DarkStyle_icons"

text \<open>A virtual call: the overriding getter, or the one of Style. None is no such getter.\<close>

definition own_get :: "style \<Rightarrow> string \<Rightarrow> string option" where
  "own_get st n =
     (case map_of (overriding st) n of
        Some v \<Rightarrow> Some v
      | None \<Rightarrow> (case map_of Style_getters n of Some (Returns v) \<Rightarrow> Some v | _ \<Rightarrow> None))"

definition virtual_get :: "style \<Rightarrow> string \<Rightarrow> string option" where
  "virtual_get st n =
     (case map_of (overriding st) n of
        Some v \<Rightarrow> Some v
      | None \<Rightarrow> (case map_of Style_getters n of
            Some (Returns v) \<Rightarrow> Some v | Some (Calls m) \<Rightarrow> own_get st m | None \<Rightarrow> None))"

definition style_get :: "style \<Rightarrow> string \<Rightarrow> string" where
  "style_get st n = (case virtual_get st n of Some v \<Rightarrow> v | None \<Rightarrow> [])"

definition viewItemHeight :: "style \<Rightarrow> nat" where
  "viewItemHeight st = 46"

datatype font_size = FONT_TINY | FONT_SMALL | FONT_NORMAL | FONT_EXTRA_NORMAL | FONT_LARGE | FONT_EXTRA_LARGE | FONT_HUGE

fun font_size_value :: "font_size \<Rightarrow> nat" where
  "font_size_value FONT_TINY = 10"
| "font_size_value FONT_SMALL = 11"
| "font_size_value FONT_NORMAL = 12"
| "font_size_value FONT_EXTRA_NORMAL = 13"
| "font_size_value FONT_LARGE = 14"
| "font_size_value FONT_EXTRA_LARGE = 16"
| "font_size_value FONT_HUGE = 20"

definition px :: "nat \<Rightarrow> string" where
  "px n = dec n @ ''px''"


section \<open>Style sheets\<close>

text \<open>QString::replace: every occurrence from the left; nothing that was put in is searched again.\<close>

function replace_all :: "string \<Rightarrow> string \<Rightarrow> string \<Rightarrow> string" where
  "replace_all b a [] = []"
| "replace_all b a (c # cs) =
     (if b \<noteq> [] \<and> starts_with (c # cs) b then a @ replace_all b a (drop (length b) (c # cs))
      else c # replace_all b a cs)"
  by pat_completeness auto
termination
  by (relation "measure (\<lambda>(_, _, s). length s)") auto

definition placeholder :: "string \<Rightarrow> string" where
  "placeholder n = ''%'' @ n @ ''%''"

text \<open>The replacements of makeStyleSheet, in its order.\<close>

definition sheet_names :: "string list" where
  "sheet_names =
    [
     ''fontColorGray'', ''fontColorGreen'', ''fontColorRed'', ''fontColorBlueNormal'', ''fontColorBlueHover'',
     ''fontColorBluePressed'', ''backgroundColorGray'', ''backgroundButtonColorGrayHover'',
     ''backgroundColorBlueNormal'', ''backgroundColorBlueHover'', ''backgroundColorBluePressed'',
     ''backgroundColorBlueDisabled'', ''backgroundColorGrayNormal'', ''backgroundColorGrayHover'',
     ''backgroundColorGrayPressed'', ''backgroundColorGreen'', ''backgroundColorGreenHover'',
     ''backgroundColorAlternate'', ''panelBackgroundColor'', ''inputBackgroundColor'', ''primaryTextColor'',
     ''selectionTextColor'', ''hoverBackgroundColor'', ''menuBackgroundColor'', ''tabBackgroundColor'',
     ''tabInactiveBackgroundColor'', ''scrollBarBackgroundColor'', ''calendarHeaderBackgroundColor'',
     ''borderColor'', ''borderColorDark'', ''selectionColor'', ''statusBarBackgroundColor'', ''statusBarFontColor'',
     ''headerBackgroundColor'', ''headerBorderColor'', ''addressFontColor'', ''balanceFontColor'',
     ''toolButtonBackgroundColorNormal'', ''toolButtonBackgroundColorHover'', ''toolButtonBackgroundColorPressed'',
     ''toolButtonFontColorNormal'', ''toolButtonFontColorDisabled'', ''toolBarBorderColor'', ''glassColor''
    ]"

definition sheet_table :: "style \<Rightarrow> (string \<times> string) list" where
  "sheet_table st =
     [(''fontFamily'', style_get st ''fontFamily''),
      (''currentTheme'', getStyleId st),
      (''viewItemHeight'', px (viewItemHeight st)),
      (''fontSizeTiny'', px (font_size_value FONT_TINY)),
      (''fontSizeSmall'', px (font_size_value FONT_SMALL)),
      (''fontSizeNormal'', px (font_size_value FONT_NORMAL)),
      (''fontSizeExtraNormal'', px (font_size_value FONT_EXTRA_NORMAL)),
      (''fontSizeLarge'', px (font_size_value FONT_LARGE)),
      (''fontSizeExtraLarge'', px (font_size_value FONT_EXTRA_LARGE)),
      (''fontSizeHuge'', px (font_size_value FONT_HUGE))]
     @ map (\<lambda>n. (n, style_get st n)) sheet_names"

definition makeStyleSheet :: "style \<Rightarrow> string \<Rightarrow> string" where
  "makeStyleSheet st template = foldl (\<lambda>s (n, v). replace_all (placeholder n) v s) template (sheet_table st)"


section \<open>The styles of Settings and the change of theme\<close>

text \<open>A QMap lists its entries by their keys, whatever the order they were inserted in.\<close>

definition m_styles :: "(string \<times> style) list" where
  "m_styles = [(getStyleId DarkStyle, DarkStyle), (getStyleId LightStyle, LightStyle)]"

definition getStyleCount :: nat where
  "getStyleCount = length m_styles"

definition getStyle :: "nat \<Rightarrow> style option" where
  "getStyle i = (if i < length m_styles then Some (snd (m_styles ! i)) else None)"

text \<open>None is the null pointer that the source dereferences for a theme it does not know.\<close>

definition Settings_getCurrentStyle :: "cfg \<Rightarrow> style option" where
  "Settings_getCurrentStyle s = getCurrentStyle (map_of m_styles) s"

record style_action =
  sa_name :: string
  sa_data :: string
  sa_checked :: bool

text \<open>The theme menu, filled when the main window is made.\<close>

definition theme_menu :: "cfg \<Rightarrow> style_action list" where
  "theme_menu s = map (\<lambda>i. let st = the (getStyle i) in
     \<lparr>sa_name = getStyleName st, sa_data = getStyleId st, sa_checked = getStyleId st = getCurrentTheme s\<rparr>) [0..<getStyleCount]"

text \<open>The palette of applyCurrentTheme: a role for every state of a widget, or for a disabled one.\<close>

datatype palette_role = Window | WindowText | Base | AlternateBase | TextRole | ToolTipBase | ToolTipText | Button
  | ButtonText | LightRole | Mid | DarkRole | Shadow | BrightText | Link | Highlight | HighlightedText | PlaceholderText
  | Disabled palette_role

definition dark_palette :: "style \<Rightarrow> (palette_role \<times> string) list" where
  "dark_palette st =
     (let base = style_get st ''inputBackgroundColor''; alt = style_get st ''backgroundColorAlternate'';
          ink = style_get st ''primaryTextColor''; window = style_get st ''panelBackgroundColor''
      in [(Window, window), (WindowText, ink), (Base, base), (AlternateBase, alt), (TextRole, ink),
          (ToolTipBase, base), (ToolTipText, ink), (Button, window), (ButtonText, ink),
          (LightRole, style_get st ''borderColor''), (Mid, style_get st ''borderColorDark''),
          (DarkRole, style_get st ''scrollBarBackgroundColor''), (Shadow, ''#080D16''), (BrightText, ''red''),
          (Link, style_get st ''fontColorBlueNormal''), (Highlight, style_get st ''selectionColor''),
          (HighlightedText, style_get st ''selectionTextColor''), (PlaceholderText, ''#AAB6C4''),
          (Disabled Base, ''#162033''), (Disabled Button, ''#24344D''), (Disabled TextRole, ''#8C949E''),
          (Disabled ButtonText, ''#8C949E''), (Disabled WindowText, ''#8C949E'')])"

definition light_palette :: "style \<Rightarrow> (palette_role \<times> string) list" where
  "light_palette st =
     (let base = style_get st ''inputBackgroundColor''; alt = style_get st ''backgroundColorAlternate'';
          ink = ''#2A4268''; window = style_get st ''headerBackgroundColor''
      in [(Window, window), (WindowText, ink), (Base, base), (AlternateBase, alt), (TextRole, ink),
          (ToolTipBase, base), (ToolTipText, ink), (Button, window), (ButtonText, ink),
          (LightRole, ''#ffffff''), (Mid, style_get st ''borderColorDark''), (DarkRole, ''#9e9e9e''),
          (Shadow, ''#777777''), (BrightText, ''red''), (Link, style_get st ''fontColorBlueNormal''),
          (Highlight, style_get st ''selectionColor''), (HighlightedText, style_get st ''selectionTextColor''),
          (PlaceholderText, ''#888888''), (Disabled Base, ''#f4f4f4''), (Disabled Button, ''#edf4fc''),
          (Disabled TextRole, ''#8C949E''), (Disabled ButtonText, ''#8C949E''), (Disabled WindowText, ''#8C949E'')])"

text \<open>What a theme sets in the application: font, palette, colour scheme, style sheet, navigation icons.\<close>

record look =
  lk_font :: string
  lk_palette :: "(palette_role \<times> string) list"
  lk_dark :: bool
  lk_sheet :: string
  lk_nav :: "string list"

definition applyCurrentTheme :: "cfg \<Rightarrow> look \<Rightarrow> look option" where
  "applyCurrentTheme s lk =
     (case Settings_getCurrentStyle s of
        None \<Rightarrow> None
      | Some st \<Rightarrow> (let isDark = (getStyleId st = ''dark'')
          in Some (lk\<lparr>lk_font := ''Open Sans'', lk_palette := (if isDark then dark_palette st else light_palette st),
            lk_dark := isDark\<rparr>)))"

definition updateNavigationIcons :: "cfg \<Rightarrow> look \<Rightarrow> look option" where
  "updateNavigationIcons s lk =
     (case Settings_getCurrentStyle s of
        None \<Rightarrow> None
      | Some st \<Rightarrow> (let themePrefix = (if getStyleId st = ''light'' then '':icons/light/nav/'' else '':icons/dark/nav/'')
          in Some (lk\<lparr>lk_nav := map (\<lambda>n. themePrefix @ n)
            [''overview'', ''send'', ''receive'', ''transactions'', ''address_book'', ''explorer'']\<rparr>)))"

definition themeChanged :: "cfg_env \<Rightarrow> string \<Rightarrow> string \<Rightarrow> cfg \<Rightarrow> look \<Rightarrow> (cfg \<times> look) option" where
  "themeChanged E template action_data s lk =
     (let s' = setCurrentTheme E action_data s
      in case applyCurrentTheme s' lk of
           None \<Rightarrow> None
         | Some lk1 \<Rightarrow> (case Settings_getCurrentStyle s' of
             None \<Rightarrow> None
           | Some st \<Rightarrow> (case updateNavigationIcons s' (lk1\<lparr>lk_sheet := makeStyleSheet st template\<rparr>) of
               None \<Rightarrow> None | Some lk2 \<Rightarrow> Some (s', lk2))))"


section \<open>One substitution\<close>

text \<open>Letters, and the few other characters from 0x40 to 0x7F; no digit, space, colon, semicolon or percent sign.\<close>

definition is_name_char :: "char \<Rightarrow> bool" where
  "is_name_char c \<longleftrightarrow> digit6 c \<and> \<not> digit7 c"

definition plain_text :: "string \<Rightarrow> bool" where
  "plain_text t \<longleftrightarrow> CHR 0x25 \<notin> set t"

text \<open>
  A template is a text and then placeholders, each with the text behind it,
  which holds a character that no name has.
\<close>

definition template_part :: "string \<times> string \<Rightarrow> bool" where
  "template_part p \<longleftrightarrow> list_all is_name_char (fst p) \<and> plain_text (snd p) \<and> list_ex (\<lambda>c. \<not> is_name_char c) (snd p)"

definition sheet_of :: "(string \<Rightarrow> string) \<Rightarrow> string \<Rightarrow> (string \<times> string) list \<Rightarrow> string" where
  "sheet_of \<sigma> t0 ps = t0 @ concat (map (\<lambda>(n, t). \<sigma> n @ t) ps)"

definition lookup_or_keep :: "(string \<times> string) list \<Rightarrow> string \<Rightarrow> string" where
  "lookup_or_keep tab n = (case map_of tab n of Some v \<Rightarrow> v | None \<Rightarrow> placeholder n)"

lemma name_char_percent: "is_name_char c \<Longrightarrow> c \<noteq> CHR 0x25"
  by (auto simp: is_name_char_def)

lemma names_plain: "list_all is_name_char n \<Longrightarrow> plain_text n"
  by (auto simp: plain_text_def list_all_iff dest: name_char_percent)

lemma starts_with_Cons: "starts_with (c # cs) (d # ds) \<longleftrightarrow> c = d \<and> starts_with cs ds"
  by (auto simp: starts_with_def)

lemma starts_with_Nil_iff: "starts_with s [] = True" "starts_with [] (d # ds) = False"
  by (simp_all add: starts_with_def)

lemma replace_plain:
  assumes "plain_text t"
  shows "replace_all (placeholder n) v (t @ s) = t @ replace_all (placeholder n) v s"
  using assms by (induction t) (auto simp: plain_text_def placeholder_def starts_with_Cons)

lemma replace_hit: "replace_all (placeholder n) v (placeholder n @ s) = v @ replace_all (placeholder n) v s"
  by (simp add: placeholder_def starts_with_def)

lemma same_name:
  assumes "plain_text m" "plain_text n" "starts_with (m @ CHR 0x25 # s) (n @ [CHR 0x25])"
  shows "m = n"
  using assms
proof (induction m arbitrary: n)
  case Nil
  then show ?case
    by (cases n) (auto simp: plain_text_def starts_with_Cons)
next
  case (Cons c m)
  then show ?case
    by (cases n) (auto simp: plain_text_def starts_with_Cons)
qed

lemma no_name_in_text:
  assumes "list_all is_name_char n" "plain_text t" "list_ex (\<lambda>c. \<not> is_name_char c) t"
  shows "\<not> starts_with (t @ s) (n @ [CHR 0x25])"
  using assms
proof (induction t arbitrary: n)
  case (Cons c t)
  then show ?case
    by (cases n) (auto simp: plain_text_def starts_with_Cons)
qed simp

lemma replace_miss:
  assumes "list_all is_name_char n" "list_all is_name_char m" "m \<noteq> n"
    and t: "plain_text t" "list_ex (\<lambda>c. \<not> is_name_char c) t"
  shows "replace_all (placeholder n) v (placeholder m @ t @ s) = placeholder m @ t @ replace_all (placeholder n) v s"
proof -
  let ?r = "replace_all (placeholder n) v"
  have "\<not> starts_with (m @ CHR 0x25 # t @ s) (n @ [CHR 0x25])"
    using same_name names_plain assms(1-3) by blast
  then have "?r (placeholder m @ t @ s) = CHR 0x25 # ?r (m @ CHR 0x25 # t @ s)"
    by (simp add: placeholder_def starts_with_Cons)
  also have "?r (m @ CHR 0x25 # t @ s) = m @ ?r (CHR 0x25 # t @ s)"
    using names_plain [OF assms(2)] by (rule replace_plain)
  also have "?r (CHR 0x25 # t @ s) = CHR 0x25 # t @ ?r s"
    using no_name_in_text [OF assms(1) t] replace_plain [OF t(1)] by (simp add: placeholder_def starts_with_Cons)
  finally show ?thesis
    by (simp add: placeholder_def)
qed

lemma replace_in_sheet:
  assumes "list_all is_name_char n" "list_all template_part ps" "plain_text t0" "\<sigma> n = placeholder n"
    and kept: "\<And>m. \<sigma> m = placeholder m \<or> plain_text (\<sigma> m)"
  shows "replace_all (placeholder n) v (sheet_of \<sigma> t0 ps) = sheet_of (\<sigma>(n := v)) t0 ps"
proof -
  let ?r = "replace_all (placeholder n) v"
  have "?r (sheet_of \<sigma> [] ps) = sheet_of (\<sigma>(n := v)) [] ps"
    using assms(2)
  proof (induction ps)
    case (Cons p ps)
    obtain m t where p: "p = (m, t)"
      by (cases p)
    have t: "list_all is_name_char m" "plain_text t" "list_ex (\<lambda>c. \<not> is_name_char c) t"
      using Cons.prems by (simp_all add: p template_part_def)
    have IH: "?r (sheet_of \<sigma> [] ps) = sheet_of (\<sigma>(n := v)) [] ps"
      using Cons.prems by (intro Cons.IH) simp
    have split: "sheet_of \<tau> [] (p # ps) = \<tau> m @ t @ sheet_of \<tau> [] ps" for \<tau>
      by (simp add: sheet_of_def p)
    consider "m = n" | "m \<noteq> n" "\<sigma> m = placeholder m" | "m \<noteq> n" "plain_text (\<sigma> m)"
      using kept by blast
    then show ?case
      using assms(1,4) IH t
      by cases (simp_all only: split replace_hit replace_miss replace_plain fun_upd_same fun_upd_other not_False_eq_True)
  qed (simp add: sheet_of_def)
  then show ?thesis
    using replace_plain [OF assms(3), of n v] by (simp add: sheet_of_def)
qed

lemma replace_table:
  assumes "distinct (map fst tab)" "\<forall>(n, v) \<in> set tab. list_all is_name_char n \<and> plain_text v \<and> \<sigma> n = placeholder n"
    and "list_all template_part ps" "plain_text t0" "\<And>m. \<sigma> m = placeholder m \<or> plain_text (\<sigma> m)"
  shows "foldl (\<lambda>s (n, v). replace_all (placeholder n) v s) (sheet_of \<sigma> t0 ps) tab =
    sheet_of (\<lambda>m. case map_of tab m of Some v \<Rightarrow> v | None \<Rightarrow> \<sigma> m) t0 ps"
  using assms(1,2,5)
proof (induction tab arbitrary: \<sigma>)
  case (Cons p tab)
  obtain n v where p: "p = (n, v)"
    by (cases p)
  have n: "list_all is_name_char n" "plain_text v" "\<sigma> n = placeholder n"
    using Cons.prems(2) by (auto simp: p)
  have "foldl (\<lambda>s (n, v). replace_all (placeholder n) v s) (sheet_of \<sigma> t0 ps) (p # tab) =
    foldl (\<lambda>s (n, v). replace_all (placeholder n) v s) (sheet_of (\<sigma>(n := v)) t0 ps) tab"
    using replace_in_sheet [OF n(1) assms(3,4) n(3) Cons.prems(3)] by (simp add: p)
  also have "\<dots> = sheet_of (\<lambda>m. case map_of tab m of Some w \<Rightarrow> w | None \<Rightarrow> (\<sigma>(n := v)) m) t0 ps"
  proof (rule Cons.IH)
    have "n \<notin> fst ` set tab"
      using Cons.prems(1) by (simp add: p)
    then have "m \<noteq> n" if "(m, w) \<in> set tab" for m w
      using that by force
    then show "\<forall>(m, w)\<in>set tab. list_all is_name_char m \<and> plain_text w \<and> (\<sigma>(n := v)) m = placeholder m"
      using Cons.prems(2) by fastforce
    show "(\<sigma>(n := v)) m = placeholder m \<or> plain_text ((\<sigma>(n := v)) m)" for m
      using Cons.prems(3) n(2) by simp
  qed (use Cons.prems(1) in simp)
  also have "(\<lambda>m. case map_of tab m of Some w \<Rightarrow> w | None \<Rightarrow> (\<sigma>(n := v)) m) =
    (\<lambda>m. case map_of (p # tab) m of Some w \<Rightarrow> w | None \<Rightarrow> \<sigma> m)"
    using Cons.prems(1) by (auto simp: p fun_eq_iff map_of_eq_None_iff [THEN iffD2] split: option.split)
  finally show ?case .
qed simp

lemma sheet_table_names: "map fst (sheet_table st) =
  [''fontFamily'', ''currentTheme'', ''viewItemHeight'', ''fontSizeTiny'', ''fontSizeSmall'', ''fontSizeNormal'',
   ''fontSizeExtraNormal'', ''fontSizeLarge'', ''fontSizeExtraLarge'', ''fontSizeHuge''] @ sheet_names"
  by (simp add: sheet_table_def comp_def)

lemma sheet_names_distinct: "distinct (map fst (sheet_table st))"
  by (simp add: sheet_table_names sheet_names_def)

lemma getter_tables_plain:
  "list_all (\<lambda>(n, v). plain_text v) LightStyle_getters"
  "list_all (\<lambda>(n, v). plain_text v) DarkStyle_getters"
  "list_all (\<lambda>(n, b). case b of Returns v \<Rightarrow> plain_text v | Calls m \<Rightarrow> True) Style_getters"
  by code_simp+

lemma overriding_plain: "list_all (\<lambda>(n, v). plain_text v) (overriding st)"
  by (cases st) (simp_all only: overriding.simps getter_tables_plain)

lemma overriding_value: "map_of (overriding st) n = Some v \<Longrightarrow> plain_text v"
  using overriding_plain [of st] map_of_SomeD [of "overriding st" n v] by (auto simp: list_all_iff)

lemma Style_value: "map_of Style_getters n = Some (Returns v) \<Longrightarrow> plain_text v"
  using getter_tables_plain(3) map_of_SomeD [of Style_getters n "Returns v"] by (auto simp: list_all_iff)

lemma own_get_plain: "own_get st n = Some v \<Longrightarrow> plain_text v"
  by (auto simp: own_get_def split: option.splits getter_body.splits intro: overriding_value Style_value)

lemma style_get_plain: "plain_text (style_get st n)"
proof -
  have "plain_text v" if "virtual_get st n = Some v" for v
    using that by (auto simp: virtual_get_def split: option.splits getter_body.splits
      intro: overriding_value Style_value own_get_plain)
  then show ?thesis
    by (simp add: style_get_def plain_text_def split: option.split)
qed

lemma px_plain: "plain_text (px n)"
  using dec_digits [of "CHR 0x25" n] by (auto simp: px_def plain_text_def is_digit_def)

lemma sheet_table_ok: "list_all (\<lambda>(n, v). list_all is_name_char n \<and> plain_text v) (sheet_table st)"
proof -
  have names: "list_all (list_all is_name_char) (map fst (sheet_table LightStyle))"
    by (simp add: sheet_table_names sheet_names_def is_name_char_def)
  have "plain_text (getStyleId st)"
    by (cases st) (simp_all add: plain_text_def)
  then have "list_all (\<lambda>(n, v). plain_text v) (sheet_table st)"
    by (simp add: sheet_table_def style_get_plain px_plain list_all_iff)
  moreover have "list_all (list_all is_name_char) (map fst (sheet_table st))"
    using names by (simp only: sheet_table_names)
  ultimately show ?thesis
    by (auto simp: list_all_iff)
qed

lemma sheet_plain:
  assumes "list_all template_part ps" "plain_text t0" "\<forall>(n, t) \<in> set ps. plain_text (\<sigma> n)"
  shows "plain_text (sheet_of \<sigma> t0 ps)"
  using assms by (auto simp: sheet_of_def plain_text_def template_part_def list_all_iff)

lemma substitution_of_sheet:
  assumes "list_all template_part ps" "plain_text t0"
  shows "makeStyleSheet st (sheet_of placeholder t0 ps) = sheet_of (lookup_or_keep (sheet_table st)) t0 ps \<and>
    (fst ` set ps \<subseteq> fst ` set (sheet_table st) \<longrightarrow> plain_text (makeStyleSheet st (sheet_of placeholder t0 ps)))"
proof -
  have once: "makeStyleSheet st (sheet_of placeholder t0 ps) = sheet_of (lookup_or_keep (sheet_table st)) t0 ps"
    unfolding makeStyleSheet_def lookup_or_keep_def
    by (rule replace_table [OF sheet_names_distinct _ assms])
      (use sheet_table_ok [of st] in \<open>auto simp: list_all_iff\<close>)
  have known_plain: "plain_text (lookup_or_keep (sheet_table st) n)" if known: "n \<in> fst ` set (sheet_table st)" for n
  proof -
    obtain v where v: "map_of (sheet_table st) n = Some v"
      using known map_of_eq_None_iff [of "sheet_table st" n] by blast
    then show ?thesis
      using map_of_SomeD [OF v] sheet_table_ok [of st] by (auto simp: lookup_or_keep_def list_all_iff)
  qed
  have "plain_text (sheet_of (lookup_or_keep (sheet_table st)) t0 ps)" if "fst ` set ps \<subseteq> fst ` set (sheet_table st)"
  proof (rule sheet_plain [OF assms], clarify)
    fix n t
    assume "(n, t) \<in> set ps"
    then have "n \<in> fst ` set ps"
      by (rule image_eqI [rotated]) simp
    with that have "n \<in> fst ` set (sheet_table st)"
      by (rule subsetD)
    then show "plain_text (lookup_or_keep (sheet_table st) n)"
      by (rule known_plain)
  qed
  then show ?thesis
    by (simp add: once)
qed

text \<open>
  C18. The replacements of makeStyleSheet, one after the other over the whole
  text, are one substitution: every placeholder the style knows becomes its value,
  every other stays as it is, whatever the order, and when the style knows all
  of them no percent sign is left.
\<close>
theorem style_sheet_is_one_substitution:
  assumes "list_all template_part ps" "plain_text t0"
  shows "makeStyleSheet st (sheet_of placeholder t0 ps) = sheet_of (lookup_or_keep (sheet_table st)) t0 ps \<and>
    (fst ` set ps \<subseteq> fst ` set (sheet_table st) \<longrightarrow> plain_text (makeStyleSheet st (sheet_of placeholder t0 ps)))"
  using assms by (rule substitution_of_sheet)

lemma dark_values: "style_get DarkStyle ''fontColorGray'' = ''#AAB6C4''" "dec 10 = ''10''"
  by code_simp+

lemma style_sheet_is_one_substitution_witness:
  "makeStyleSheet DarkStyle ''a { color: %fontColorGray%; font-size: %fontSizeTiny%; x: %other% ; }'' =
    ''a { color: #AAB6C4; font-size: 10px; x: %other% ; }''"
proof -
  have t: "''a { color: %fontColorGray%; font-size: %fontSizeTiny%; x: %other% ; }'' =
    sheet_of placeholder ''a { color: '' [(''fontColorGray'', ''; font-size: ''), (''fontSizeTiny'', ''; x: ''), (''other'', '' ; }'')]"
    by (simp add: sheet_of_def placeholder_def)
  show ?thesis
    unfolding t
    by (subst style_sheet_is_one_substitution [THEN conjunct1])
      (simp_all add: template_part_def plain_text_def is_name_char_def sheet_of_def lookup_or_keep_def placeholder_def
        sheet_table_def sheet_names_def dark_values px_def)
qed


section \<open>The theme menu\<close>

lemma getStyle_cases: "getStyle i = Some st \<longleftrightarrow> i = 0 \<and> st = DarkStyle \<or> i = 1 \<and> st = LightStyle"
  by (cases i; cases "i - 1") (auto simp: getStyle_def m_styles_def)

lemma theme_menu_eq: "theme_menu s =
  [\<lparr>sa_name = ''Dark'', sa_data = ''dark'', sa_checked = ''dark'' = getCurrentTheme s\<rparr>,
   \<lparr>sa_name = ''Light'', sa_data = ''light'', sa_checked = ''light'' = getCurrentTheme s\<rparr>]"
  by (simp add: theme_menu_def getStyleCount_def getStyle_def m_styles_def upt_rec)

lemma current_style_of_id: "getCurrentTheme s = getStyleId st \<Longrightarrow> Settings_getCurrentStyle s = Some st"
  by (cases st) (simp_all add: Settings_getCurrentStyle_def getCurrentStyle_def m_styles_def)

lemma current_theme_known: "Settings_getCurrentStyle s = Some st \<Longrightarrow> getCurrentTheme s = getStyleId st"
  by (auto simp: Settings_getCurrentStyle_def getCurrentStyle_def m_styles_def split: if_splits)

lemma theme_set: "getCurrentTheme (setCurrentTheme E t s) = t"
  by (rule theme.get_put) simp

text \<open>
  An entry of the theme menu changes the look to its style, all parts
  together and without a null style: palette and colour scheme, style sheet and
  navigation icons; the menu made from the settings afterwards has just that entry checked.
\<close>
lemma theme_menu_changes_the_look:
  assumes "a \<in> set (theme_menu s)"
  shows "\<exists>st s' lk'. themeChanged E template (sa_data a) s lk = Some (s', lk') \<and> sa_data a = getStyleId st \<and>
    Settings_getCurrentStyle s' = Some st \<and> lk_sheet lk' = makeStyleSheet st template \<and>
    lk_dark lk' = (st = DarkStyle) \<and> lk_palette lk' = (if st = DarkStyle then dark_palette st else light_palette st) \<and>
    list_all (\<lambda>p. starts_with p ('':icons/'' @ getStyleId st @ ''/nav/'')) (lk_nav lk') \<and>
    [b\<leftarrow>theme_menu s'. sa_checked b] = [a\<lparr>sa_checked := True\<rparr>]"
proof -
  obtain st where st: "sa_data a = getStyleId st"
    using assms by (auto simp: theme_menu_eq intro: that [of DarkStyle] that [of LightStyle])
  let ?s = "setCurrentTheme E (getStyleId st) s"
  have current: "Settings_getCurrentStyle ?s = Some st"
    by (rule current_style_of_id) (rule theme_set)
  have checked: "[b\<leftarrow>theme_menu ?s. sa_checked b] = [a\<lparr>sa_checked := True\<rparr>]"
    using assms st by (cases st) (auto simp: theme_menu_eq theme_set)
  show ?thesis
    using current checked st
    by (cases st) (simp_all add: themeChanged_def applyCurrentTheme_def updateNavigationIcons_def starts_with_def Let_def)
qed

end
