(* ===== verification/Recipient.thy ===== *)
theory Recipient
  imports AddressBook AmountFormat
begin

text \<open>
  One recipient of the send form: TransferFrame
  (src/src/Gui/Send/TransferFrame.cpp). The state is what its fields hold and
  which error each of its labels shows; the input timer and the pending account
  number drive the resolution of aliases and account numbers.
\<close>

section \<open>Letters\<close>

text \<open>QString::toLower and toUpper on ASCII letters; other code units stay.\<close>

definition lower_char :: "char \<Rightarrow> char" where
  "lower_char c =
     (let n = (of_char c :: nat) in if 65 \<le> n \<and> n \<le> 90 then char_of (n + 32) else c)"

definition upper_char :: "char \<Rightarrow> char" where
  "upper_char c =
     (let n = (of_char c :: nat) in if 97 \<le> n \<and> n \<le> 122 then char_of (n - 32) else c)"

definition to_lower :: "string \<Rightarrow> string" where
  "to_lower s = map lower_char s"

definition to_upper :: "string \<Rightarrow> string" where
  "to_upper s = map upper_char s"

text \<open>compare(..., Qt::CaseInsensitive) == 0\<close>

definition same_text :: "string \<Rightarrow> string \<Rightarrow> bool" where
  "same_text a b \<longleftrightarrow> to_lower a = to_lower b"

lemma lower_upper_char: "lower_char (upper_char c) = lower_char c"
  by (auto simp: lower_char_def upper_char_def Let_def of_char_of)

lemma lower_lower_char: "lower_char (lower_char c) = lower_char c"
  by (simp add: lower_char_def Let_def of_char_of)

lemma to_lower_upper [simp]: "to_lower (to_upper s) = to_lower s"
  by (simp add: to_lower_def to_upper_def lower_upper_char)

lemma to_lower_lower [simp]: "to_lower (to_lower s) = to_lower s"
  by (simp add: to_lower_def lower_lower_char)

lemma length_to_lower [simp]: "length (to_lower s) = length s"
  by (simp add: to_lower_def)


section \<open>State\<close>

datatype amount_error = AmountFine | WrongAmount | InsufficientFunds | BigTransaction
datatype label_error = LabelFine | Duplication | LikePaymentId

record recipient =
  te_address :: string
  te_amount :: string
  te_label :: string
  te_addressError :: bool
  te_amountError :: amount_error
  te_labelError :: label_error
  te_removeHidden :: bool
  te_sendAllHidden :: bool
  te_timer :: bool
  te_pending :: string

text \<open>An amount spin box shows zero at first; zero is its text.\<close>

definition te_new :: "string \<Rightarrow> recipient" where
  "te_new zero = \<lparr>te_address = [], te_amount = zero, te_label = [], te_addressError = False,
     te_amountError = AmountFine, te_labelError = LabelFine, te_removeHidden = False,
     te_sendAllHidden = False, te_timer = False, te_pending = []\<rparr>"

text \<open>
  The library's address parser and its account number parser; the completion
  the address book offers for the text is an argument.
\<close>

record te_env =
  te_parseAddress :: "string \<Rightarrow> unit option"
  te_accountNumber :: "string \<Rightarrow> bool"

abbreviation te_valid :: "te_env \<Rightarrow> string \<Rightarrow> bool" where
  "te_valid E \<equiv> isValidAddress (te_parseAddress E)"

definition isAccountNumberString :: "te_env \<Rightarrow> string \<Rightarrow> bool" where
  "isAccountNumberString E t = te_accountNumber E (trimmed t)"


section \<open>Reading the fields\<close>

text \<open>QString::mid; a negative count takes the rest.\<close>

definition mid :: "string \<Rightarrow> int \<Rightarrow> int \<Rightarrow> string" where
  "mid s pos n = (if n < 0 then drop (nat pos) s else take (nat n) (drop (nat pos) s))"

definition address_part :: "string \<Rightarrow> string" where
  "address_part text =
     (let a = trimmed text in
      if CHR ''<'' \<in> set a then
        (let st = index_of (CHR ''<'') a; en = index_of (CHR ''>'') a in mid a (st + 1) (en - st - 1))
      else a)"

definition te_getAddress :: "recipient \<Rightarrow> string" where
  "te_getAddress t = address_part (te_address t)"

definition te_getLabel :: "recipient \<Rightarrow> string" where
  "te_getLabel t = trimmed (te_label t)"

definition te_readyToSend :: "te_env \<Rightarrow> recipient \<Rightarrow> bool" where
  "te_readyToSend E t \<longleftrightarrow> te_getAddress t \<noteq> [] \<and> te_valid E (te_getAddress t)"


section \<open>Changes of the fields\<close>

text \<open>
  The slots of a text change. The address slot also tells the send form, which
  is the caller's part (SendForm).
\<close>

definition te_addressChanged :: "te_env \<Rightarrow> string \<Rightarrow> recipient \<Rightarrow> recipient" where
  "te_addressChanged E completion t =
     (let text = te_address t;
          a = te_getAddress t;
          account = isAccountNumberString E a
      in t\<lparr>te_addressError := completion = [] \<and> text \<noteq> [] \<and> \<not> te_valid E a \<and> \<not> account,
           te_timer := te_timer t \<or>
             (text \<noteq> [] \<and> CHR ''<'' \<notin> set text \<and> (CHR ''.'' \<in> set text \<or> account))\<rparr>)"

definition te_labelOrAddressChanged :: "ab_state \<Rightarrow> recipient \<Rightarrow> recipient" where
  "te_labelOrAddressChanged ab t =
     (let l = trimmed (te_getLabel t);
          a = trimmed (te_getAddress t)
      in if l \<noteq> [] \<and> (findAddressByAddress ab a \<noteq> INVALID_ADDRESS_INDEX \<or> findAddressByLabel ab l \<noteq> INVALID_ADDRESS_INDEX)
         then t\<lparr>te_labelError := Duplication\<rparr>
         else if isValidPaymentId l then t\<lparr>te_labelError := LikePaymentId\<rparr>
         else t\<lparr>te_labelError := LabelFine\<rparr>)"

text \<open>setText emits nothing when the text stays.\<close>

definition te_setAddress :: "te_env \<Rightarrow> ab_state \<Rightarrow> string \<Rightarrow> string \<Rightarrow> recipient \<Rightarrow> recipient" where
  "te_setAddress E ab completion text t =
     (if te_address t = text then t
      else te_addressChanged E completion (te_labelOrAddressChanged ab (t\<lparr>te_address := text\<rparr>)))"

definition te_setLabel :: "ab_state \<Rightarrow> string \<Rightarrow> recipient \<Rightarrow> recipient" where
  "te_setLabel ab text t =
     (if te_label t = text then t else te_labelOrAddressChanged ab (t\<lparr>te_label := text\<rparr>))"

text \<open>
  Each error setter is also the one that clears the error. validateAmount is
  connected once an amount error has been shown; it clears the error when the
  new value is positive.
\<close>

definition te_setAddressError :: "bool \<Rightarrow> recipient \<Rightarrow> recipient" where
  "te_setAddressError e t = t\<lparr>te_addressError := e\<rparr>"

definition te_setAmountError :: "amount_error \<Rightarrow> recipient \<Rightarrow> recipient" where
  "te_setAmountError e t = t\<lparr>te_amountError := e\<rparr>"

definition te_validateAmount :: "bool \<Rightarrow> recipient \<Rightarrow> recipient" where
  "te_validateAmount positive t = (if positive then te_setAmountError AmountFine t else t)"


section \<open>Resolution of aliases and account numbers\<close>

datatype te_request = AskDns string | AskAccount string | NoRequest

definition te_timerEvent :: "te_env \<Rightarrow> recipient \<Rightarrow> recipient \<times> te_request" where
  "te_timerEvent E t =
     (if te_timer t then
        (let t1 = t\<lparr>te_timer := False\<rparr>;
             input = trimmed (te_address t);
             a = te_getAddress t
         in if CHR ''.'' \<in> set input then (t1, AskDns input)
            else if isAccountNumberString E a
            then (t1\<lparr>te_pending := to_upper a\<rparr>, AskAccount (to_upper a))
            else (t1, NoRequest))
      else (t, NoRequest))"

definition resolved_text :: "string \<Rightarrow> string \<Rightarrow> string" where
  "resolved_text name a = name @ '' <'' @ a @ ''>''"

text \<open>The answer to the request for number; failed stands for an error code.\<close>

definition te_accountResolved ::
  "te_env \<Rightarrow> ab_state \<Rightarrow> string \<Rightarrow> string \<Rightarrow> bool \<Rightarrow> string \<Rightarrow> recipient \<Rightarrow> recipient" where
  "te_accountResolved E ab completion number failed address t =
     (if \<not> same_text (te_pending t) number \<or> \<not> same_text (te_getAddress t) number then t
      else
        (let t1 = t\<lparr>te_pending := []\<rparr>;
             a = trimmed address
         in if \<not> failed \<and> te_valid E a
            then te_setAddressError False (te_setAddress E ab completion (resolved_text number a) t1)
            else te_setAddressError True t1))"

definition te_onAliasFound ::
  "te_env \<Rightarrow> ab_state \<Rightarrow> string \<Rightarrow> string \<Rightarrow> string \<Rightarrow> recipient \<Rightarrow> recipient" where
  "te_onAliasFound E ab completion name address t = te_setAddress E ab completion (resolved_text name address) t"


section \<open>What a resolved text reads as\<close>

lemma find_index_append:
  "find_index P (xs @ ys) =
     (case find_index P xs of Some i \<Rightarrow> Some i | None \<Rightarrow> map_option (\<lambda>j. length xs + j) (find_index P ys))"
  by (cases "find_index P ys"; induction xs) (auto split: option.splits)

lemma find_index_absent: "\<forall>x\<in>set xs. \<not> P x \<Longrightarrow> find_index P xs = None"
  by (induction xs) auto

lemma index_of_append:
  assumes "c \<notin> set xs"
  shows "index_of c (xs @ c # ys) = int (length xs)"
proof -
  have "find_index (\<lambda>x. x = c) xs = None"
    using assms by (intro find_index_absent) auto
  then show ?thesis
    by (simp add: index_of_def find_index_append)
qed

lemma angle_not_space [simp]: "\<not> is_space (CHR ''>'')" "\<not> is_space (CHR ''<'')"
  by (simp_all add: is_space_def)

lemma trimmed_framed: "trimmed (p @ CHR ''<'' # a @ ''>'') = dropWhile is_space p @ CHR ''<'' # a @ ''>''"
proof -
  have "dropWhile is_space (p @ CHR ''<'' # a @ ''>'') = dropWhile is_space p @ CHR ''<'' # a @ ''>''"
    by (induction p) auto
  then show ?thesis
    by (simp add: trimmed_def)
qed

lemma address_part_framed:
  assumes "CHR ''<'' \<notin> set p" "CHR ''>'' \<notin> set p" "CHR ''>'' \<notin> set a"
  shows "address_part (p @ CHR ''<'' # a @ ''>'') = a"
proof -
  let ?q = "dropWhile is_space p"
  have q: "CHR ''<'' \<notin> set ?q" "CHR ''>'' \<notin> set ?q"
    using assms by (meson set_dropWhileD)+
  have "index_of (CHR ''<'') (?q @ CHR ''<'' # a @ ''>'') = int (length ?q)"
    by (rule index_of_append) (rule q)
  moreover have "index_of (CHR ''>'') ((?q @ CHR ''<'' # a) @ CHR ''>'' # []) = int (length (?q @ CHR ''<'' # a))"
    using q assms by (intro index_of_append) auto
  then have "index_of (CHR ''>'') (?q @ CHR ''<'' # a @ ''>'') = int (length ?q + length a + 1)"
    by simp
  moreover have "mid (?q @ CHR ''<'' # a @ ''>'') (int (length ?q) + 1) (int (length a)) = a"
    by (simp add: mid_def nat_add_distrib)
  ultimately show ?thesis
    by (simp add: address_part_def Let_def trimmed_framed)
qed

lemma address_part_resolved:
  assumes "CHR ''<'' \<notin> set name" "CHR ''>'' \<notin> set name" "CHR ''>'' \<notin> set a"
  shows "address_part (resolved_text name a) = a"
  using address_part_framed [of "name @ '' ''" a] assms by (simp add: resolved_text_def)

lemma te_fields_setAddress [simp]:
  "te_address (te_addressChanged E c t) = te_address t"
  "te_address (te_labelOrAddressChanged ab t) = te_address t"
  "te_address (te_setAddress E ab c text t) = text"
  "te_pending (te_addressChanged E c t) = te_pending t"
  "te_pending (te_labelOrAddressChanged ab t) = te_pending t"
  "te_pending (te_setAddress E ab c text t) = te_pending t"
  by (auto simp: te_addressChanged_def te_labelOrAddressChanged_def te_setAddress_def Let_def)

lemma te_fields_errors [simp]:
  "te_address (te_setAddressError e t) = te_address t"
  "te_pending (te_setAddressError e t) = te_pending t"
  "te_addressError (te_setAddressError e t) = e"
  by (simp_all add: te_setAddressError_def)

text \<open>
  C4. Resolution of account numbers and aliases. An answer for an account
  number that is no longer the pending one, or no longer what the address field
  holds, changes nothing; an accepted answer makes the field read as exactly the
  answered valid address, without an error; a failed or invalid answer leaves
  the text and shows the error. An alias answer has no such guard: it replaces
  whatever the field holds when it arrives.
\<close>

theorem late_answers_are_ignored:
  assumes "CHR ''<'' \<notin> set number" "CHR ''>'' \<notin> set number"
    and "\<forall>a. te_valid E a \<longrightarrow> CHR ''>'' \<notin> set a"
  shows "let r = te_accountResolved E ab c number failed address t;
             waiting = same_text (te_getAddress t) number \<and> same_text (te_pending t) number
    in (\<not> waiting \<longrightarrow> r = t) \<and>
       (waiting \<longrightarrow> te_pending r = [] \<and>
          (if \<not> failed \<and> te_valid E (trimmed address)
           then te_getAddress r = trimmed address \<and> \<not> te_addressError r
           else te_address r = te_address t \<and> te_addressError r)) \<and>
       te_address (te_onAliasFound E ab c name address t) = resolved_text name address"
  using assms
  by (auto simp: te_accountResolved_def te_onAliasFound_def te_getAddress_def address_part_resolved Let_def)

definition demo_te :: te_env where
  "demo_te = \<lparr>te_parseAddress = (\<lambda>a. if a = ''KaddrA'' then Some () else None), te_accountNumber = (\<lambda>a. a = ''12-ab'' \<or> a = ''12-AB'')\<rparr>"

theorem late_answers_are_ignored_witness:
  "let t = fst (te_timerEvent demo_te (te_addressChanged demo_te [] ((te_new ''0'')\<lparr>te_address := ''12-ab''\<rparr>)));
       r = te_accountResolved demo_te (ab_init []) [] ''12-AB'' False '' KaddrA '' t
   in te_getAddress r = ''KaddrA'' \<and>
      te_accountResolved demo_te (ab_init []) [] ''12-AB'' False '' KaddrA '' (t\<lparr>te_address := ''x''\<rparr>) = t\<lparr>te_address := ''x''\<rparr>"
proof -
  have valid: "te_valid demo_te a \<longleftrightarrow> a = ''KaddrA''" for a
    by (simp add: demo_te_def isValidAddress_def)
  let ?t = "fst (te_timerEvent demo_te (te_addressChanged demo_te [] ((te_new ''0'')\<lparr>te_address := ''12-ab''\<rparr>)))"
  have t: "te_address ?t = ''12-ab''" "te_pending ?t = ''12-AB''"
    by code_simp+
  have same: "same_text ''12-ab'' ''12-AB''" "same_text ''12-AB'' ''12-AB''" "\<not> same_text ''x'' ''12-AB''"
    by code_simp+
  have parts: "address_part ''12-ab'' = ''12-ab''" "address_part ''x'' = ''x''" "trimmed '' KaddrA '' = ''KaddrA''"
    by code_simp+
  have no: "\<forall>a. te_valid demo_te a \<longrightarrow> CHR ''>'' \<notin> set a"
    by (simp add: valid)
  note late = late_answers_are_ignored [of "''12-AB''" demo_te "ab_init []" "[]" False "'' KaddrA ''" _ "''n''", OF _ _ no, simplified Let_def]
  show ?thesis
    unfolding Let_def
    using late [of ?t] late [of "?t\<lparr>te_address := ''x''\<rparr>"]
    by (simp add: t same parts te_getAddress_def valid)
qed

end
