(* ===== verification/SendForm.thy ===== *)
theory SendForm
  imports Recipient AddressListModel WalletStateModel WalletAdapter Transition
begin

text \<open>
  The send form: SendFrame (src/src/Gui/Send/SendFrame.cpp). The state is the
  list of recipients, the node fee, the payment id, the anonymity level, the
  priority, the text of the fee box, the two address selectors and whether the
  send button is enabled. Texts a spin box shows for a double, and the two
  products with a double, are parameters; every integer keeps its width.
\<close>

section \<open>Environment and state\<close>

record send_env =
  sn_te :: te_env
  sn_parser :: "string \<Rightarrow> u64 option"
  sn_minFee :: u64
  sn_percent :: "u64 \<Rightarrow> u64"
  sn_threshold :: "u64 \<Rightarrow> u32 \<Rightarrow> u64"
  sn_feeText :: "u64 \<Rightarrow> string"
  sn_allText :: "u64 \<Rightarrow> u64 \<Rightarrow> string"
  sn_urlText :: "string \<Rightarrow> string"
  sn_zeroText :: string
  sn_parsePaymentId :: "string \<Rightarrow> string option"
  sn_setNonce :: "string \<Rightarrow> string"
  sn_addNonce :: "string \<Rightarrow> string option"

record selector =
  se_items :: "string list"
  se_index :: nat

record sf_state =
  sf_transfers :: "recipient list"
  sf_onRemote :: bool
  sf_feeAddress :: string
  sf_flatRate :: u64
  sf_nodeFee :: u64
  sf_paymentId :: string
  sf_paymentIdError :: bool
  sf_mixin :: nat
  sf_mixinError :: bool
  sf_priority :: nat
  sf_feeText :: string
  sf_total :: u64
  sf_sendEnabled :: bool
  sf_from :: selector
  sf_change :: selector
  sf_current :: string
  sf_glass :: bool

abbreviation sn_valid :: "send_env \<Rightarrow> string \<Rightarrow> bool" where
  "sn_valid E \<equiv> te_valid (sn_te E)"

definition DEFAULT_MIXIN_VALUE :: nat where "DEFAULT_MIXIN_VALUE = 6"
definition MAX_MIXIN_VALUE :: nat where "MAX_MIXIN_VALUE = 19"
definition MAX_NODE_FEE :: u64 where "MAX_NODE_FEE = 1000000000000"
definition MAXIMUM_UNSYNCED_BLOCKS :: u32 where "MAXIMUM_UNSYNCED_BLOCKS = 5"

text \<open>The constructor, with the values of the form's fields in the .ui file.\<close>

definition sf_new :: "bool \<Rightarrow> string \<Rightarrow> sf_state" where
  "sf_new remote feeText = \<lparr>sf_transfers = [], sf_onRemote = remote, sf_feeAddress = [], sf_flatRate = 0,
     sf_nodeFee = 0, sf_paymentId = [], sf_paymentIdError = False, sf_mixin = 7, sf_mixinError = False,
     sf_priority = 2, sf_feeText = feeText, sf_total = 0, sf_sendEnabled = True,
     sf_from = \<lparr>se_items = [], se_index = 0\<rparr>, sf_change = \<lparr>se_items = [], se_index = 0\<rparr>,
     sf_current = [], sf_glass = False\<rparr>"


section \<open>Payment ids and readiness\<close>

text \<open>QByteArray::fromHex(s).toHex(): other characters are skipped, an odd digit gets a leading zero.\<close>

definition hex_text :: "string \<Rightarrow> string" where
  "hex_text s = (let h = to_lower (filter is_hex s) in if odd (length h) then CHR ''0'' # h else h)"

definition sf_isValidPaymentId :: "string \<Rightarrow> bool" where
  "sf_isValidPaymentId p =
     (if trimmed p \<noteq> [] \<and>
         (length (trimmed p) \<noteq> 32 * 2 \<or> fromHex_size p \<noteq> 32 \<or> to_lower (hex_text p) \<noteq> to_lower (trimmed p))
      then False else True)"

definition sf_readyToSend :: "send_env \<Rightarrow> sf_state \<Rightarrow> bool" where
  "sf_readyToSend E s \<longleftrightarrow>
     (\<forall>t\<in>set (sf_transfers s). te_readyToSend (sn_te E) t) \<and> sf_isValidPaymentId (sf_paymentId s)"

definition sf_recheck :: "send_env \<Rightarrow> sf_state \<Rightarrow> sf_state" where
  "sf_recheck E s = s\<lparr>sf_sendEnabled := sf_readyToSend E s\<rparr>"

definition sf_validatePaymentId :: "send_env \<Rightarrow> sf_state \<Rightarrow> sf_state" where
  "sf_validatePaymentId E s =
     (if \<not> sf_isValidPaymentId (sf_paymentId s) then s\<lparr>sf_paymentIdError := True, sf_sendEnabled := False\<rparr>
      else sf_recheck E (s\<lparr>sf_paymentIdError := False\<rparr>))"

definition sf_setPaymentId :: "send_env \<Rightarrow> string \<Rightarrow> sf_state \<Rightarrow> sf_state" where
  "sf_setPaymentId E p s = (if sf_paymentId s = p then s else sf_validatePaymentId E (s\<lparr>sf_paymentId := p\<rparr>))"


section \<open>Fees\<close>

definition clamp_fee :: "send_env \<Rightarrow> u64 \<Rightarrow> u64" where
  "clamp_fee E f =
     (let a = (if f < sn_minFee E then sn_minFee E else f) in if a > MAX_NODE_FEE then MAX_NODE_FEE else a)"

definition show_fee :: "send_env \<Rightarrow> sf_state \<Rightarrow> sf_state" where
  "show_fee E s = s\<lparr>sf_feeText := sn_feeText E (sn_minFee E * of_nat (sf_priority s) + sf_nodeFee s)\<rparr>"

definition sf_priorityValueChanged :: "send_env \<Rightarrow> nat \<Rightarrow> sf_state \<Rightarrow> sf_state" where
  "sf_priorityValueChanged E v s = show_fee E (s\<lparr>sf_priority := v\<rparr>)"

definition sf_amountStringChanged :: "send_env \<Rightarrow> sf_state \<Rightarrow> sf_state" where
  "sf_amountStringChanged E s =
     (let amounts = sum_list (map (\<lambda>t. parseUnsignedAmount (sn_parser E) (te_amount t)) (sf_transfers s));
          s1 = s\<lparr>sf_total := amounts\<rparr>;
          s2 = (if sf_onRemote s1 \<and> sf_feeAddress s1 \<noteq> [] \<and> sf_flatRate s1 = 0
                then s1\<lparr>sf_nodeFee := clamp_fee E (sn_percent E amounts)\<rparr> else s1)
      in show_fee E s2)"

text \<open>address and fee are what the node asks for.\<close>

definition sf_setCryptoNoteAdapter :: "send_env \<Rightarrow> string \<Rightarrow> u64 \<Rightarrow> sf_state \<Rightarrow> sf_state" where
  "sf_setCryptoNoteAdapter E address fee s =
     (let s1 = sf_priorityValueChanged E (sf_priority s) s;
          s2 = (if sf_onRemote s1
                then (let s3 = s1\<lparr>sf_feeAddress := address, sf_flatRate := fee\<rparr> in
                  if address \<noteq> [] \<and> fee \<noteq> 0 then s3\<lparr>sf_nodeFee := clamp_fee E fee\<rparr> else s3)
                else s1)
      in sf_amountStringChanged E s2)"

definition sf_mixinValueChanged :: "nat \<Rightarrow> sf_state \<Rightarrow> sf_state" where
  "sf_mixinValueChanged v s = (if sf_mixin s = v then s else s\<lparr>sf_mixin := v, sf_mixinError := False\<rparr>)"


section \<open>Recipients\<close>

text \<open>te_removeHidden is disableRemoveButton, te_sendAllHidden is disableSendAllButton.\<close>

definition buttons :: "bool \<Rightarrow> bool \<Rightarrow> recipient \<Rightarrow> recipient" where
  "buttons removeHidden sendAllHidden t = t\<lparr>te_removeHidden := removeHidden, te_sendAllHidden := sendAllHidden\<rparr>"

definition sf_addRecipientClicked :: "send_env \<Rightarrow> sf_state \<Rightarrow> sf_state" where
  "sf_addRecipientClicked E s =
     s\<lparr>sf_transfers :=
          (case sf_transfers s of
             [] \<Rightarrow> [buttons True False (te_new (sn_zeroText E))]
           | t # ts \<Rightarrow> buttons False True t # ts @ [buttons False True (te_new (sn_zeroText E))]),
       sf_sendEnabled := False\<rparr>"

text \<open>The remove button deletes the recipient; this is the handler of its destruction.\<close>

definition sf_recipientDestroyed :: "send_env \<Rightarrow> nat \<Rightarrow> sf_state \<Rightarrow> sf_state" where
  "sf_recipientDestroyed E i s =
     (if sf_transfers s = [] then s
      else (let ts = remove_at i (sf_transfers s);
                us = (case ts of [t] \<Rightarrow> [buttons True False t] | _ \<Rightarrow> ts)
            in sf_recheck E (sf_amountStringChanged E (s\<lparr>sf_transfers := us\<rparr>))))"

definition sf_setAddress :: "send_env \<Rightarrow> ab_state \<Rightarrow> string \<Rightarrow> nat \<Rightarrow> string \<Rightarrow> sf_state \<Rightarrow> sf_state" where
  "sf_setAddress E ab completion i text s =
     (if te_address (sf_transfers s ! i) = text then s
      else sf_recheck E (s\<lparr>sf_transfers :=
             (sf_transfers s)[i := te_setAddress (sn_te E) ab completion text (sf_transfers s ! i)]\<rparr>))"

text \<open>positive is whether the new value of the spin box is positive.\<close>

definition sf_setAmount :: "send_env \<Rightarrow> bool \<Rightarrow> nat \<Rightarrow> string \<Rightarrow> sf_state \<Rightarrow> sf_state" where
  "sf_setAmount E positive i text s =
     (if te_amount (sf_transfers s ! i) = text then s
      else sf_amountStringChanged E (s\<lparr>sf_transfers :=
             (sf_transfers s)[i := te_validateAmount positive ((sf_transfers s ! i)\<lparr>te_amount := text\<rparr>)]\<rparr>))"

definition sf_setLabel :: "ab_state \<Rightarrow> nat \<Rightarrow> string \<Rightarrow> sf_state \<Rightarrow> sf_state" where
  "sf_setLabel ab i text s = s\<lparr>sf_transfers := (sf_transfers s)[i := te_setLabel ab text (sf_transfers s ! i)]\<rparr>"

definition sf_addRecipient :: "send_env \<Rightarrow> ab_state \<Rightarrow> string \<Rightarrow> string \<Rightarrow> string \<Rightarrow> sf_state \<Rightarrow> sf_state" where
  "sf_addRecipient E ab completion address paymentId s =
     (let s1 = (if length (sf_transfers s) = 1 \<and> te_getAddress (sf_transfers s ! 0) = []
                then sf_setAddress E ab completion 0 address s
                else (let s2 = sf_addRecipientClicked E s in
                  sf_setAddress E ab completion (length (sf_transfers s2) - 1) address s2))
      in sf_setPaymentId E paymentId s1)"

definition sf_clearAll :: "send_env \<Rightarrow> sf_state \<Rightarrow> sf_state" where
  "sf_clearAll E s =
     sf_amountStringChanged E (sf_mixinValueChanged DEFAULT_MIXIN_VALUE
       (sf_setPaymentId E [] (s\<lparr>sf_transfers := []\<rparr>)))"

record pay_url =
  u_address :: string
  u_amount :: string
  u_paymentId :: string
  u_label :: string

text \<open>None is an invalid URL.\<close>

definition sf_urlReceived :: "send_env \<Rightarrow> ab_state \<Rightarrow> string \<Rightarrow> bool \<Rightarrow> pay_url option \<Rightarrow> sf_state \<Rightarrow> sf_state" where
  "sf_urlReceived E ab completion positive url s =
     (case url of
        None \<Rightarrow> s
      | Some u \<Rightarrow>
          if \<not> sn_valid E (u_address u) then s
          else sf_setPaymentId E (u_paymentId u)
            (sf_setLabel ab 0 (u_label u)
              (sf_setAmount E positive 0 (sn_urlText E (u_amount u))
                (sf_setAddress E ab completion 0 (u_address u)
                  (sf_addRecipientClicked E (sf_clearAll E s))))))"

definition sf_walletOpened :: "send_env \<Rightarrow> ab_state \<Rightarrow> string \<Rightarrow> bool \<Rightarrow> pay_url option \<Rightarrow> sf_state \<Rightarrow> sf_state" where
  "sf_walletOpened E ab completion positive url s =
     sf_urlReceived E ab completion positive url (sf_addRecipientClicked E s)"

definition sf_walletClosed :: "send_env \<Rightarrow> sf_state \<Rightarrow> sf_state" where
  "sf_walletClosed E s = sf_clearAll E (s\<lparr>sf_nodeFee := 0\<rparr>)"

definition sf_synchronizationProgressUpdated :: "u32 \<Rightarrow> u32 \<Rightarrow> sf_state \<Rightarrow> sf_state" where
  "sf_synchronizationProgressUpdated current known s =
     (if known - current > MAXIMUM_UNSYNCED_BLOCKS then s\<lparr>sf_glass := True\<rparr> else s)"

definition sf_synchronizationCompleted :: "sf_state \<Rightarrow> sf_state" where
  "sf_synchronizationCompleted s = s\<lparr>sf_glass := False\<rparr>"


section \<open>Source and change selectors\<close>

text \<open>The data of the selected item; nothing for an empty selector.\<close>

definition current_data :: "selector \<Rightarrow> string" where
  "current_data b = (if se_index b < length (se_items b) then se_items b ! se_index b else [])"

definition findData :: "string \<Rightarrow> string list \<Rightarrow> nat option" where
  "findData d items = find_index (\<lambda>x. x = d) items"

text \<open>addresses are the rows of the address list; the texts of the items are not modelled.\<close>

definition sf_repopulateAddressSelectors :: "string list \<Rightarrow> sf_state \<Rightarrow> sf_state" where
  "sf_repopulateAddressSelectors addresses s =
     (let prevFrom = current_data (sf_from s);
          prevChange = current_data (sf_change s);
          from_items = [] # addresses;
          fromIdx = (case findData prevFrom from_items of
             Some i \<Rightarrow> Some i
           | None \<Rightarrow> (if sf_current s \<noteq> [] then findData (sf_current s) from_items else None));
          changeIdx = findData prevChange addresses
      in s\<lparr>sf_from := \<lparr>se_items = from_items, se_index = (case fromIdx of Some i \<Rightarrow> i | None \<Rightarrow> 0)\<rparr>,
           sf_change := \<lparr>se_items = addresses, se_index = (case changeIdx of Some i \<Rightarrow> i | None \<Rightarrow> 0)\<rparr>\<rparr>)"

definition sf_onCurrentAddressChanged :: "string \<Rightarrow> sf_state \<Rightarrow> sf_state" where
  "sf_onCurrentAddressChanged a s =
     (let s1 = s\<lparr>sf_current := a\<rparr> in
      if a = [] then s1
      else (case findData a (se_items (sf_from s1)) of
          None \<Rightarrow> s1
        | Some i \<Rightarrow> s1\<lparr>sf_from := (sf_from s1)\<lparr>se_index := i\<rparr>\<rparr>))"

definition sf_select :: "bool \<Rightarrow> nat \<Rightarrow> sf_state \<Rightarrow> sf_state" where
  "sf_select change i s =
     (if change then s\<lparr>sf_change := (sf_change s)\<lparr>se_index := i\<rparr>\<rparr> else s\<lparr>sf_from := (sf_from s)\<lparr>se_index := i\<rparr>\<rparr>)"


section \<open>Sending\<close>

text \<open>The balance of the chosen source, or of the wallet when any address may pay.\<close>

definition source_balance :: "entry list \<Rightarrow> ws_state \<Rightarrow> string \<Rightarrow> u64" where
  "source_balance rows ws from =
     (if from \<noteq> [] then
        (case find_index (\<lambda>e. e_address e = from) rows of Some i \<Rightarrow> e_actual (rows ! i) | None \<Rightarrow> 0)
      else ws_actual ws)"

datatype send_outcome =
    AddressRejected nat
  | AmountRejected nat
  | FundsRejected nat
  | FeeRejected
  | MixinDeclined
  | NotConfirmed
  | Submitted tx_params

text \<open>
  The loop over the recipients from number i on. A recipient with a new label is
  entered into the address book on the way, before the later checks.
\<close>

fun send_loop ::
  "send_env \<Rightarrow> codec \<Rightarrow> string \<Rightarrow> u64 \<Rightarrow> u64 \<Rightarrow> u64 \<Rightarrow> recipient list \<Rightarrow> nat \<Rightarrow> u64 \<Rightarrow> tx_order list \<Rightarrow> ab_state
    \<Rightarrow> ab_state \<times> (send_outcome + u64 \<times> tx_order list)" where
  "send_loop E cd pid balance fee nodeFee [] i acc ds ab = (ab, Inr (acc, ds))"
| "send_loop E cd pid balance fee nodeFee (t # ts) i acc ds ab =
     (let a = te_getAddress t; amount = parseAmount (sn_parser E) (te_amount t) in
      if \<not> sn_valid E a then (ab, Inl (AddressRejected i))
      else if sint amount \<le> 0 then (ab, Inl (AmountRejected i))
      else let acc1 = acc + amount in
        if acc1 + fee + nodeFee > balance then (ab, Inl (FundsRejected i))
        else let label = te_getLabel t;
                 ab1 = (if label \<noteq> [] \<and> findAddressByAddress ab a = INVALID_ADDRESS_INDEX
                           \<and> findAddressByLabel ab label = INVALID_ADDRESS_INDEX
                        then addAddress cd label a pid False ab else ab)
          in send_loop E cd pid balance fee nodeFee ts (Suc i) acc1 (ds @ [\<lparr>or_address = a, or_amount = amount\<rparr>]) ab1)"

definition show_rejection :: "send_outcome \<Rightarrow> recipient list \<Rightarrow> recipient list" where
  "show_rejection r ts =
     (case r of
        AddressRejected i \<Rightarrow> ts[i := te_setAddressError True (ts ! i)]
      | AmountRejected i \<Rightarrow> ts[i := te_setAmountError WrongAmount (ts ! i)]
      | FundsRejected i \<Rightarrow> ts[i := te_setAmountError InsufficientFunds (ts ! i)]
      | _ \<Rightarrow> ts)"

text \<open>
  manyMixins and confirmed are the answers to the two questions. The comparison
  of the fee with the minimum is unsigned, as in the source.
\<close>

definition sf_sendClicked ::
  "send_env \<Rightarrow> codec \<Rightarrow> entry list \<Rightarrow> ws_state \<Rightarrow> bool \<Rightarrow> bool \<Rightarrow> ab_state \<Rightarrow> sf_state
    \<Rightarrow> sf_state \<times> ab_state \<times> send_outcome" where
  "sf_sendClicked E cd rows ws manyMixins confirmed ab s =
     (let from = current_data (sf_from s);
          change = (if current_data (sf_change s) = [] then ws_address ws else current_data (sf_change s));
          balance = source_balance rows ws from;
          fee = parseAmount (sn_parser E) (sf_feeText s) - sf_nodeFee s
      in case send_loop E cd (sf_paymentId s) balance fee (sf_nodeFee s) (sf_transfers s) 0 0 [] ab of
           (ab1, Inl r) \<Rightarrow> (s\<lparr>sf_transfers := show_rejection r (sf_transfers s)\<rparr>, ab1, r)
         | (ab1, Inr (acc, ds)) \<Rightarrow>
             let ds1 = (if sf_onRemote s \<and> sf_feeAddress s \<noteq> []
                        then ds @ [\<lparr>or_address = sf_feeAddress s, or_amount = sf_nodeFee s\<rparr>] else ds)
             in if fee < sn_minFee E then (s, ab1, FeeRejected)
                else if sf_mixin s > 50 \<and> \<not> manyMixins then (s, ab1, MixinDeclined)
                else if \<not> confirmed then (s, ab1, NotConfirmed)
                else (s, ab1, Submitted
                  \<lparr>tp_sources = (if from \<noteq> [] then [from] else []), tp_destinations = ds1, tp_fee = fee,
                   tp_mixIn = of_nat (sf_mixin s),
                   tp_extra = convertPaymentToExtra (sn_parsePaymentId E) (sn_setNonce E) (sn_addNonce E) (sf_paymentId s),
                   tp_unlock = 0, tp_change = change,
                   tp_donation =
                     (if isDonationChangeEnabled ab1 \<and> getDonationChangeAddress ab1 \<noteq> []
                      then Some (getDonationChangeAddress ab1, sn_threshold E acc (of_int (getDonationChangeAmount ab1)))
                      else None)\<rparr>))"

definition sf_processTransactionSendStatus :: "send_env \<Rightarrow> send_status \<Rightarrow> sf_state \<Rightarrow> sf_state" where
  "sf_processTransactionSendStatus E st s =
     (case st of
        SEND_SUCCESS \<Rightarrow> sf_addRecipientClicked E (sf_clearAll E s)
      | SEND_BIG_TRANSACTION_SIZE \<Rightarrow> s\<lparr>sf_transfers := map (te_setAmountError BigTransaction) (sf_transfers s)\<rparr>
      | SEND_WRONG_AMOUNT \<Rightarrow> s\<lparr>sf_transfers := map (te_setAmountError WrongAmount) (sf_transfers s)\<rparr>
      | SEND_BIG_MIXIN \<Rightarrow> s\<lparr>sf_mixinError := True\<rparr>
      | _ \<Rightarrow> s\<lparr>sf_transfers := map (te_setAmountError WrongAmount) (sf_transfers s)\<rparr>)"

text \<open>The whole handler of the send button, with the wallet adapter; None is a failed assertion there.\<close>

definition sf_send ::
  "'w green \<Rightarrow> send_env \<Rightarrow> codec \<Rightarrow> entry list \<Rightarrow> ws_state \<Rightarrow> bool \<Rightarrow> bool \<Rightarrow> ab_state \<Rightarrow> 'w wa_state \<Rightarrow> sf_state
    \<Rightarrow> (sf_state \<times> ab_state \<times> 'w wa_state \<times> send_outcome) option" where
  "sf_send G E cd rows ws manyMixins confirmed ab w s =
     (case sf_sendClicked E cd rows ws manyMixins confirmed ab s of
        (s1, ab1, Submitted p) \<Rightarrow>
          map_option (\<lambda>(w1, st). (sf_processTransactionSendStatus E st s1, ab1, w1, Submitted p)) (wa_sendTransaction G p w)
      | (s1, ab1, r) \<Rightarrow> Some (s1, ab1, w, r))"

text \<open>
  The send-all button of a single recipient: the balance of the source less the
  priority fee and the node fee. Its amount is a difference of doubles, whose
  text is the parameter sn_allText.
\<close>

definition sf_sendAllClicked :: "send_env \<Rightarrow> entry list \<Rightarrow> ws_state \<Rightarrow> bool \<Rightarrow> sf_state \<Rightarrow> sf_state" where
  "sf_sendAllClicked E rows ws positive s =
     (let balance = source_balance rows ws (current_data (sf_from s));
          s1 = (if sf_onRemote s \<and> sf_feeAddress s \<noteq> [] \<and> sf_flatRate s = 0
                then s\<lparr>sf_nodeFee := clamp_fee E (sn_percent E balance)\<rparr> else s)
      in sf_setAmount E positive 0
           (sn_allText E balance (sn_minFee E * of_nat (sf_priority s1) + sf_nodeFee s1)) s1)"


section \<open>Events\<close>

text \<open>
  Everything that happens to the form, with what the handlers read from other
  components as arguments. A resolved account number or alias changes the text
  of a recipient like the user does.
\<close>

definition sf_accountResolved ::
  "send_env \<Rightarrow> ab_state \<Rightarrow> string \<Rightarrow> nat \<Rightarrow> string \<Rightarrow> bool \<Rightarrow> string \<Rightarrow> sf_state \<Rightarrow> sf_state" where
  "sf_accountResolved E ab completion i number failed address s =
     (let t = sf_transfers s ! i;
          r = te_accountResolved (sn_te E) ab completion number failed address t;
          s1 = s\<lparr>sf_transfers := (sf_transfers s)[i := r]\<rparr>
      in if r \<noteq> t \<and> (te_address r \<noteq> te_address t \<or> te_addressError r) then sf_recheck E s1 else s1)"

datatype sf_event =
    EAddRecipient ab_state string string string
  | EAddClicked
  | ERemove nat
  | EAddress ab_state string nat string
  | ETimer nat
  | EAccountAnswer ab_state string nat string bool string
  | EAliasAnswer ab_state string nat string string
  | EAmount bool nat string
  | ELabel ab_state nat string
  | EPaymentId string
  | EMixin nat
  | EPriority nat
  | EFee string
  | EOpened ab_state string bool "pay_url option"
  | EClosed
  | EUrl ab_state string bool "pay_url option"
  | EProgress u32 u32
  | ESynchronized
  | ERows "string list"
  | ECurrent string
  | ESelect bool nat
  | ESendAll "entry list" ws_state bool
  | ESend codec "entry list" ws_state bool bool ab_state send_status

fun sf_do :: "send_env \<Rightarrow> sf_event \<Rightarrow> sf_state \<Rightarrow> sf_state" where
  "sf_do E (EAddRecipient ab c a p) s = sf_addRecipient E ab c a p s"
| "sf_do E EAddClicked s = sf_addRecipientClicked E s"
| "sf_do E (ERemove i) s = sf_recipientDestroyed E i s"
| "sf_do E (EAddress ab c i a) s = sf_setAddress E ab c i a s"
| "sf_do E (ETimer i) s =
     s\<lparr>sf_transfers := (sf_transfers s)[i := fst (te_timerEvent (sn_te E) (sf_transfers s ! i))]\<rparr>"
| "sf_do E (EAccountAnswer ab c i n f a) s = sf_accountResolved E ab c i n f a s"
| "sf_do E (EAliasAnswer ab c i n a) s = sf_setAddress E ab c i (resolved_text n a) s"
| "sf_do E (EAmount pos i x) s = sf_setAmount E pos i x s"
| "sf_do E (ELabel ab i l) s = sf_setLabel ab i l s"
| "sf_do E (EPaymentId p) s = sf_setPaymentId E p s"
| "sf_do E (EMixin v) s = sf_mixinValueChanged v s"
| "sf_do E (EPriority v) s = sf_priorityValueChanged E v s"
| "sf_do E (EFee x) s = s\<lparr>sf_feeText := x\<rparr>"
| "sf_do E (EOpened ab c pos u) s = sf_walletOpened E ab c pos u s"
| "sf_do E EClosed s = sf_walletClosed E s"
| "sf_do E (EUrl ab c pos u) s = sf_urlReceived E ab c pos u s"
| "sf_do E (EProgress x y) s = sf_synchronizationProgressUpdated x y s"
| "sf_do E ESynchronized s = sf_synchronizationCompleted s"
| "sf_do E (ERows addresses) s = sf_repopulateAddressSelectors addresses s"
| "sf_do E (ECurrent a) s = sf_onCurrentAddressChanged a s"
| "sf_do E (ESelect change i) s = sf_select change i s"
| "sf_do E (ESendAll rows ws pos) s = sf_sendAllClicked E rows ws pos s"
| "sf_do E (ESend cd rows ws m y ab st) s =
     (case sf_sendClicked E cd rows ws m y ab s of
        (s1, _, Submitted _) \<Rightarrow> sf_processTransactionSendStatus E st s1
      | (s1, _, _) \<Rightarrow> s1)"

text \<open>Rows exist, hidden buttons and a disabled send button are not clicked, sliders stay in their range.\<close>

fun sf_can :: "sf_event \<Rightarrow> sf_state \<Rightarrow> bool" where
  "sf_can (ERemove i) s \<longleftrightarrow> i < length (sf_transfers s) \<and> \<not> te_removeHidden (sf_transfers s ! i)"
| "sf_can (EAddress _ _ i _) s \<longleftrightarrow> i < length (sf_transfers s)"
| "sf_can (ETimer i) s \<longleftrightarrow> i < length (sf_transfers s)"
| "sf_can (EAccountAnswer _ _ i _ _ _) s \<longleftrightarrow> i < length (sf_transfers s)"
| "sf_can (EAliasAnswer _ _ i _ _) s \<longleftrightarrow> i < length (sf_transfers s)"
| "sf_can (EAmount _ i _) s \<longleftrightarrow> i < length (sf_transfers s)"
| "sf_can (ELabel _ i _) s \<longleftrightarrow> i < length (sf_transfers s)"
| "sf_can (EMixin v) s \<longleftrightarrow> v \<le> MAX_MIXIN_VALUE"
| "sf_can (EPriority v) s \<longleftrightarrow> 1 \<le> v \<and> v \<le> 4"
| "sf_can (ESendAll _ _ _) s \<longleftrightarrow> (\<exists>t\<in>set (sf_transfers s). \<not> te_sendAllHidden t)"
| "sf_can (ESend _ _ _ _ _ _ _) s \<longleftrightarrow> sf_sendEnabled s"
| "sf_can _ s \<longleftrightarrow> True"

definition sf_start :: "send_env \<Rightarrow> sf_state \<Rightarrow> bool" where
  "sf_start E s \<longleftrightarrow> (\<exists>remote text address fee. s = sf_setCryptoNoteAdapter E address fee (sf_new remote text))"

definition sf_step :: "send_env \<Rightarrow> sf_state \<Rightarrow> sf_state \<Rightarrow> bool" where
  "sf_step E s t \<longleftrightarrow> (\<exists>ev. sf_can ev s \<and> t = sf_do E ev s)"


section \<open>The invariant of the form\<close>

text \<open>
  A single recipient cannot be removed and only it can take everything; an
  enabled send button means that every address and the payment id are valid; a
  node fee is charged only for a node that asks for one.
\<close>

definition row_buttons :: "(bool \<times> bool) list \<Rightarrow> bool" where
  "row_buttons bs = (case bs of [] \<Rightarrow> True | [b] \<Rightarrow> b = (True, False) | _ \<Rightarrow> \<forall>b\<in>set bs. b = (False, True))"

abbreviation flags :: "recipient \<Rightarrow> bool \<times> bool" where
  "flags t \<equiv> (te_removeHidden t, te_sendAllHidden t)"

definition sf_ok :: "sf_state \<Rightarrow> bool" where
  "sf_ok s \<longleftrightarrow> row_buttons (map flags (sf_transfers s)) \<and> sf_mixin s \<le> MAX_MIXIN_VALUE \<and>
     sf_nodeFee s \<le> MAX_NODE_FEE \<and> (sf_nodeFee s \<noteq> 0 \<longrightarrow> sf_onRemote s \<and> sf_feeAddress s \<noteq> [])"

definition sf_gate :: "send_env \<Rightarrow> sf_state \<Rightarrow> bool" where
  "sf_gate E s \<longleftrightarrow> (sf_sendEnabled s \<longrightarrow> sf_readyToSend E s)"

definition sf_inv :: "send_env \<Rightarrow> sf_state \<Rightarrow> bool" where
  "sf_inv E s \<longleftrightarrow> sf_ok s \<and> sf_gate E s"

lemma te_flags [simp]:
  "flags (te_setAddress E ab c a t) = flags t"
  "flags (te_setLabel ab l t) = flags t"
  "flags (te_setAddressError e t) = flags t"
  "flags (te_setAmountError x t) = flags t"
  "flags (te_validateAmount p t) = flags t"
  "flags (fst (te_timerEvent E t)) = flags t"
  "flags (te_accountResolved E ab c n f a t) = flags t"
  by (auto simp: te_setAddress_def te_addressChanged_def te_labelOrAddressChanged_def te_setLabel_def
      te_setAddressError_def te_setAmountError_def te_validateAmount_def te_timerEvent_def te_accountResolved_def Let_def)

lemma te_same_address [simp]:
  "te_address (te_setLabel ab l t) = te_address t"
  "te_address (te_setAmountError x t) = te_address t"
  "te_address (te_validateAmount p t) = te_address t"
  "te_address (fst (te_timerEvent E t)) = te_address t"
  by (auto simp: te_setLabel_def te_setAmountError_def te_validateAmount_def te_timerEvent_def Let_def)

lemma ok_update:
  assumes "sf_ok s" "flags t = flags (sf_transfers s ! i)"
  shows "sf_ok (s\<lparr>sf_transfers := (sf_transfers s)[i := t]\<rparr>)"
proof -
  have "map flags ((sf_transfers s)[i := t]) = map flags (sf_transfers s)"
    using assms(2) by (metis (mono_tags) list_update_id map_update)
  then show ?thesis
    using assms(1) by (simp add: sf_ok_def)
qed

lemma ready_addresses:
  assumes "map te_address (sf_transfers s) = map te_address (sf_transfers t)" "sf_paymentId s = sf_paymentId t"
  shows "sf_readyToSend E s = sf_readyToSend E t"
proof -
  have eq: "sf_readyToSend E u \<longleftrightarrow>
      list_all (\<lambda>a. address_part a \<noteq> [] \<and> sn_valid E (address_part a)) (map te_address (sf_transfers u)) \<and>
      sf_isValidPaymentId (sf_paymentId u)" for u
    by (simp add: sf_readyToSend_def te_readyToSend_def te_getAddress_def list_all_iff)
  show ?thesis
    unfolding eq assms by (rule refl)
qed

lemma ready_enabled [simp]: "sf_readyToSend E (s\<lparr>sf_sendEnabled := b\<rparr>) = sf_readyToSend E s"
  by (rule ready_addresses) simp_all

lemma gate_cong:
  assumes "sf_gate E s" "map te_address (sf_transfers t) = map te_address (sf_transfers s)"
    "sf_paymentId t = sf_paymentId s" "sf_sendEnabled t = sf_sendEnabled s"
  shows "sf_gate E t"
  using assms ready_addresses [of t s E] by (simp add: sf_gate_def)

lemma gate_update:
  assumes "sf_gate E s" "te_address t = te_address (sf_transfers s ! i)"
  shows "sf_gate E (s\<lparr>sf_transfers := (sf_transfers s)[i := t]\<rparr>)"
proof (rule gate_cong [OF assms(1)])
  show "map te_address (sf_transfers (s\<lparr>sf_transfers := (sf_transfers s)[i := t]\<rparr>)) = map te_address (sf_transfers s)"
    using assms(2) by (simp add: map_update) (metis list_update_id map_update)
qed simp_all

lemma gate_recheck [simp]: "sf_gate E (sf_recheck E s)"
  by (simp add: sf_gate_def sf_recheck_def)

lemma gate_disabled: "\<not> sf_sendEnabled s \<Longrightarrow> sf_gate E s"
  by (simp add: sf_gate_def)

lemma ok_recheck [simp]: "sf_ok (sf_recheck E s) = sf_ok s"
  by (simp add: sf_ok_def sf_recheck_def)


lemma core_amountStringChanged [simp]:
  "sf_transfers (sf_amountStringChanged E s) = sf_transfers s"
  "sf_paymentId (sf_amountStringChanged E s) = sf_paymentId s"
  "sf_sendEnabled (sf_amountStringChanged E s) = sf_sendEnabled s"
  "sf_mixin (sf_amountStringChanged E s) = sf_mixin s"
  "sf_onRemote (sf_amountStringChanged E s) = sf_onRemote s"
  "sf_feeAddress (sf_amountStringChanged E s) = sf_feeAddress s"
  "sf_flatRate (sf_amountStringChanged E s) = sf_flatRate s"
  by (simp_all add: sf_amountStringChanged_def show_fee_def Let_def)

lemma clamp_fee_bound [simp]: "clamp_fee E f \<le> MAX_NODE_FEE"
  by (auto simp: clamp_fee_def Let_def)

lemma ok_amountStringChanged [inv_intros]: "sf_ok s \<Longrightarrow> sf_ok (sf_amountStringChanged E s)"
  by (auto simp: sf_ok_def) (auto simp: sf_amountStringChanged_def show_fee_def Let_def split: if_splits)

lemma gate_amountStringChanged [inv_intros]: "sf_gate E s \<Longrightarrow> sf_gate E (sf_amountStringChanged E s)"
  by (erule gate_cong) simp_all

lemma core_setPaymentId [simp]:
  "sf_transfers (sf_setPaymentId E p s) = sf_transfers s"
  "sf_mixin (sf_setPaymentId E p s) = sf_mixin s"
  "sf_onRemote (sf_setPaymentId E p s) = sf_onRemote s"
  "sf_feeAddress (sf_setPaymentId E p s) = sf_feeAddress s"
  "sf_nodeFee (sf_setPaymentId E p s) = sf_nodeFee s"
  "sf_flatRate (sf_setPaymentId E p s) = sf_flatRate s"
  "sf_paymentId (sf_setPaymentId E p s) = p"
  by (auto simp: sf_setPaymentId_def sf_validatePaymentId_def sf_recheck_def)

lemma ok_setPaymentId [inv_intros]: "sf_ok s \<Longrightarrow> sf_ok (sf_setPaymentId E p s)"
  by (simp add: sf_ok_def)

lemma gate_setPaymentId [inv_intros]: "sf_gate E s \<Longrightarrow> sf_gate E (sf_setPaymentId E p s)"
  by (auto simp: sf_setPaymentId_def sf_validatePaymentId_def intro: gate_disabled)

lemma ok_mixin [inv_intros]: "sf_ok s \<Longrightarrow> v \<le> MAX_MIXIN_VALUE \<Longrightarrow> sf_ok (sf_mixinValueChanged v s)"
  by (simp add: sf_ok_def sf_mixinValueChanged_def)

lemma gate_mixin [inv_intros]: "sf_gate E s \<Longrightarrow> sf_gate E (sf_mixinValueChanged v s)"
  by (erule gate_cong) (simp_all add: sf_mixinValueChanged_def)

lemma flags_buttons [simp]: "flags (buttons a b t) = (a, b)"
  by (simp add: buttons_def)

lemma ok_addRecipientClicked [inv_intros]: "sf_ok s \<Longrightarrow> sf_ok (sf_addRecipientClicked E s)"
  by (auto simp: sf_ok_def sf_addRecipientClicked_def row_buttons_def buttons_def split: list.splits)

lemma gate_addRecipientClicked [inv_intros]: "sf_gate E (sf_addRecipientClicked E s)"
  by (rule gate_disabled) (simp add: sf_addRecipientClicked_def)

lemma length_addRecipientClicked [simp]:
  "length (sf_transfers (sf_addRecipientClicked E s)) = Suc (length (sf_transfers s))"
  by (simp add: sf_addRecipientClicked_def split: list.splits)

lemma ok_setAddress [inv_intros]: "sf_ok s \<Longrightarrow> sf_ok (sf_setAddress E ab c i a s)"
  by (simp add: sf_setAddress_def ok_update)

lemma gate_setAddress [inv_intros]: "sf_gate E s \<Longrightarrow> sf_gate E (sf_setAddress E ab c i a s)"
  by (simp add: sf_setAddress_def)

lemma ok_setAmount [inv_intros]: "sf_ok s \<Longrightarrow> sf_ok (sf_setAmount E p i x s)"
  by (simp add: sf_setAmount_def ok_amountStringChanged ok_update)

lemma gate_setAmount [inv_intros]: "sf_gate E s \<Longrightarrow> sf_gate E (sf_setAmount E p i x s)"
  by (simp add: sf_setAmount_def gate_amountStringChanged gate_update)

lemma ok_setLabel [inv_intros]: "sf_ok s \<Longrightarrow> sf_ok (sf_setLabel ab i l s)"
  by (simp add: sf_setLabel_def ok_update)

lemma gate_setLabel [inv_intros]: "sf_gate E s \<Longrightarrow> sf_gate E (sf_setLabel ab i l s)"
  by (simp add: sf_setLabel_def gate_update)

lemma ok_no_recipients: "sf_ok s \<Longrightarrow> sf_ok (s\<lparr>sf_transfers := []\<rparr>)"
  by (simp add: sf_ok_def row_buttons_def)

lemma gate_no_recipients: "sf_gate E s \<Longrightarrow> sf_gate E (s\<lparr>sf_transfers := []\<rparr>)"
  by (simp add: sf_gate_def sf_readyToSend_def)

lemma inv_clearAll: "sf_inv E s \<Longrightarrow> sf_inv E (sf_clearAll E s)"
  by (auto simp: sf_inv_def sf_clearAll_def DEFAULT_MIXIN_VALUE_def MAX_MIXIN_VALUE_def
      intro!: inv_intros ok_no_recipients gate_no_recipients)

lemma inv_addRecipientClicked: "sf_inv E s \<Longrightarrow> sf_inv E (sf_addRecipientClicked E s)"
  by (simp add: sf_inv_def inv_intros)

lemma inv_simple:
  assumes "sf_inv E s"
  shows "sf_inv E (sf_setAddress E ab c i a s)" "sf_inv E (sf_setAmount E p i x s)"
    "sf_inv E (sf_setLabel ab i l s)" "sf_inv E (sf_setPaymentId E q s)" "sf_inv E (sf_amountStringChanged E s)"
  using assms by (simp_all add: sf_inv_def inv_intros)

lemma inv_addRecipient: "sf_inv E s \<Longrightarrow> sf_inv E (sf_addRecipient E ab c a p s)"
  by (simp add: sf_addRecipient_def Let_def inv_simple inv_addRecipientClicked)

lemma inv_urlReceived: "sf_inv E s \<Longrightarrow> sf_inv E (sf_urlReceived E ab c p u s)"
  by (simp add: sf_urlReceived_def inv_simple inv_addRecipientClicked inv_clearAll split: option.splits)

lemma inv_walletClosed: "sf_inv E s \<Longrightarrow> sf_inv E (sf_walletClosed E s)"
proof -
  assume "sf_inv E s"
  then have "sf_ok (s\<lparr>sf_nodeFee := 0\<rparr>)" "sf_gate E s"
    by (simp_all add: sf_inv_def sf_ok_def)
  moreover have "sf_gate E (s\<lparr>sf_nodeFee := 0\<rparr>)"
    by (rule gate_cong [OF \<open>sf_gate E s\<close>]) simp_all
  ultimately show ?thesis
    using inv_clearAll [of E "s\<lparr>sf_nodeFee := 0\<rparr>"] by (simp add: sf_walletClosed_def sf_inv_def)
qed

lemma inv_same:
  assumes "sf_inv E s" "sf_transfers t = sf_transfers s" "sf_paymentId t = sf_paymentId s"
    "sf_sendEnabled t = sf_sendEnabled s" "sf_mixin t = sf_mixin s" "sf_nodeFee t = sf_nodeFee s"
    "sf_onRemote t = sf_onRemote s" "sf_feeAddress t = sf_feeAddress s"
  shows "sf_inv E t"
proof -
  have "sf_gate E t"
    using assms by - (rule gate_cong [of E s], simp_all add: sf_inv_def)
  then show ?thesis
    using assms by (simp add: sf_inv_def sf_ok_def)
qed

lemma inv_update:
  assumes "sf_inv E s" "flags t = flags (sf_transfers s ! i)" "te_address t = te_address (sf_transfers s ! i)"
  shows "sf_inv E (s\<lparr>sf_transfers := (sf_transfers s)[i := t]\<rparr>)"
  using assms by (simp add: sf_inv_def ok_update gate_update)

lemma row_buttons_several: "row_buttons (b # c # bs) \<longleftrightarrow> (\<forall>x\<in>set (b # c # bs). x = (False, True))"
  by (simp add: row_buttons_def)

definition after_removal :: "(bool \<times> bool) list \<Rightarrow> (bool \<times> bool) list" where
  "after_removal bs = (if length bs = 1 then [(True, False)] else bs)"

lemma row_buttons_after_removal:
  assumes "\<forall>x\<in>set bs. x = (False, True)"
  shows "row_buttons (after_removal bs)"
proof (cases bs)
  case Nil
  then show ?thesis by (simp add: after_removal_def row_buttons_def)
next
  case (Cons x xs)
  show ?thesis
  proof (cases xs)
    case Nil
    then show ?thesis using Cons by (simp add: after_removal_def row_buttons_def)
  next
    case (Cons y ys)
    then have "after_removal bs = x # y # ys"
      using \<open>bs = x # xs\<close> by (simp add: after_removal_def)
    then show ?thesis
      using assms \<open>bs = x # xs\<close> Cons by (simp only: row_buttons_several)
  qed
qed

lemma row_buttons_remove:
  assumes "row_buttons bs" "i < length bs" "bs ! i = (False, b)"
  shows "row_buttons (after_removal (remove_at i bs))"
proof -
  have "\<forall>x\<in>set bs. x = (False, True)"
  proof (cases bs)
    case Nil
    then show ?thesis by simp
  next
    case (Cons x xs)
    show ?thesis
    proof (cases xs)
      case Nil
      then show ?thesis using assms Cons by (simp add: row_buttons_def)
    next
      case (Cons y ys)
      then show ?thesis
        using assms(1) \<open>bs = x # xs\<close> by (simp only: row_buttons_several)
    qed
  qed
  then have "\<forall>x\<in>set (remove_at i bs). x = (False, True)"
    using set_remove_at_subset [of i bs] by (meson subsetD)
  then show ?thesis
    by (rule row_buttons_after_removal)
qed

lemma inv_recipientDestroyed:
  assumes "sf_inv E s" "i < length (sf_transfers s)" "\<not> te_removeHidden (sf_transfers s ! i)"
  shows "sf_inv E (sf_recipientDestroyed E i s)"
proof -
  let ?us = "case remove_at i (sf_transfers s) of [t] \<Rightarrow> [buttons True False t] | _ \<Rightarrow> remove_at i (sf_transfers s)"
  have "map flags ?us = after_removal (map flags (remove_at i (sf_transfers s)))"
    by (simp add: after_removal_def buttons_def split: list.split)
  moreover have "row_buttons (after_removal (remove_at i (map flags (sf_transfers s))))"
    using assms by (intro row_buttons_remove) (simp_all add: sf_inv_def sf_ok_def)
  ultimately have "sf_ok (s\<lparr>sf_transfers := ?us\<rparr>)"
    using assms(1) by (simp add: sf_inv_def sf_ok_def map_remove_at)
  then show ?thesis
    using assms(1) by (simp add: sf_recipientDestroyed_def sf_inv_def ok_amountStringChanged Let_def)
qed

lemma inv_accountResolved: "sf_inv E s \<Longrightarrow> sf_inv E (sf_accountResolved E ab c i n f a s)"
proof -
  assume inv: "sf_inv E s"
  let ?t = "sf_transfers s ! i"
  let ?r = "te_accountResolved (sn_te E) ab c n f a ?t"
  have ok: "sf_ok (s\<lparr>sf_transfers := (sf_transfers s)[i := ?r]\<rparr>)"
    using inv by (intro ok_update) (simp_all add: sf_inv_def)
  show ?thesis
  proof (cases "?r \<noteq> ?t \<and> (te_address ?r \<noteq> te_address ?t \<or> te_addressError ?r)")
    case True
    then show ?thesis
      using ok by (simp add: sf_accountResolved_def Let_def sf_inv_def)
  next
    case False
    then have "te_address ?r = te_address ?t"
      by auto
    then have "sf_gate E (s\<lparr>sf_transfers := (sf_transfers s)[i := ?r]\<rparr>)"
      using inv by (intro gate_update) (simp_all add: sf_inv_def)
    then show ?thesis
      using ok False by (auto simp: sf_accountResolved_def Let_def sf_inv_def)
  qed
qed

lemma inv_recipients:
  assumes "sf_inv E s" "map flags ts = map flags (sf_transfers s)" "map te_address ts = map te_address (sf_transfers s)"
  shows "sf_inv E (s\<lparr>sf_transfers := ts\<rparr>)"
proof -
  have "sf_gate E (s\<lparr>sf_transfers := ts\<rparr>)"
    using assms by - (rule gate_cong [of E s], simp_all add: sf_inv_def)
  then show ?thesis
    using assms by (simp add: sf_inv_def sf_ok_def)
qed

lemma inv_processStatus: "sf_inv E s \<Longrightarrow> sf_inv E (sf_processTransactionSendStatus E st s)"
proof (cases st)
  case SEND_BIG_MIXIN
  assume "sf_inv E s"
  then show ?thesis
    using SEND_BIG_MIXIN by (auto simp: sf_processTransactionSendStatus_def intro: inv_same)
qed (auto simp: sf_processTransactionSendStatus_def inv_clearAll inv_addRecipientClicked comp_def intro!: inv_recipients)

lemma inv_sendClicked: "sf_inv E s \<Longrightarrow> sf_inv E (fst (sf_sendClicked E cd rows ws m y ab s))"
proof -
  assume inv: "sf_inv E s"
  have "sf_inv E (s\<lparr>sf_transfers := show_rejection r (sf_transfers s)\<rparr>)" for r
    using inv by (cases r) (simp_all add: show_rejection_def inv_update)
  then show ?thesis
    using inv by (simp add: sf_sendClicked_def Let_def split: prod.split sum.split)
qed

lemma inv_sendAllClicked: "sf_inv E s \<Longrightarrow> sf_inv E (sf_sendAllClicked E rows ws p s)"
proof -
  assume inv: "sf_inv E s"
  let ?b = "source_balance rows ws (current_data (sf_from s))"
  have "sf_inv E (s\<lparr>sf_nodeFee := clamp_fee E (sn_percent E ?b)\<rparr>)" if "sf_onRemote s" "sf_feeAddress s \<noteq> []"
  proof -
    have "sf_gate E (s\<lparr>sf_nodeFee := clamp_fee E (sn_percent E ?b)\<rparr>)"
      using inv by - (rule gate_cong [of E s], simp_all add: sf_inv_def)
    then show ?thesis
      using inv that by (simp add: sf_inv_def sf_ok_def)
  qed
  then show ?thesis
    using inv by (simp add: sf_sendAllClicked_def Let_def inv_simple)
qed

end
