(* ===== verification/SendSafety.thy ===== *)
theory SendSafety
  imports SendForm
begin

text \<open>
  What the send form guarantees about the transactions it submits. The form's
  invariant (SendForm) holds in every reachable state; the loop over the
  recipients keeps the amounts below the balance as long as the balance and the
  fee are below 2^63 atomic units.
\<close>

section \<open>Reachable forms\<close>

lemma inv_start: "sf_start E s \<Longrightarrow> sf_inv E s"
proof -
  assume "sf_start E s"
  then obtain remote x a f where s: "s = sf_setCryptoNoteAdapter E a f (sf_new remote x)"
    by (auto simp: sf_start_def)
  let ?t = "(let s1 = sf_priorityValueChanged E 2 (sf_new remote x)
      in if sf_onRemote s1
         then (let s3 = s1\<lparr>sf_feeAddress := a, sf_flatRate := f\<rparr> in
            if a \<noteq> [] \<and> f \<noteq> 0 then s3\<lparr>sf_nodeFee := clamp_fee E f\<rparr> else s3)
         else s1)"
  have ready: "sf_transfers ?t = []" "sf_paymentId ?t = []"
    by (simp_all add: Let_def sf_new_def sf_priorityValueChanged_def show_fee_def)
  have "sf_ok ?t"
    by (simp add: Let_def sf_new_def sf_priorityValueChanged_def show_fee_def sf_ok_def row_buttons_def MAX_MIXIN_VALUE_def)
  moreover have "sf_gate E ?t"
    using ready by (simp add: sf_gate_def sf_readyToSend_def sf_isValidPaymentId_def)
  moreover have "s = sf_amountStringChanged E ?t"
    by (simp add: s sf_setCryptoNoteAdapter_def Let_def sf_new_def)
  ultimately show ?thesis
    by (simp only: sf_inv_def ok_amountStringChanged gate_amountStringChanged simp_thms)
qed

lemma inv_do:
  assumes "sf_inv E s" "sf_can ev s"
  shows "sf_inv E (sf_do E ev s)"
proof (cases ev)
  case (EPriority v)
  then show ?thesis
    using assms(1) by (auto simp: sf_priorityValueChanged_def show_fee_def intro: inv_same)
next
  case (EFee x)
  then show ?thesis
    using assms(1) by (auto intro: inv_same)
next
  case (EProgress x y)
  then show ?thesis
    using assms(1) by (auto simp: sf_synchronizationProgressUpdated_def intro: inv_same)
next
  case ESynchronized
  then show ?thesis
    using assms(1) by (auto simp: sf_synchronizationCompleted_def intro: inv_same)
next
  case (ERows a)
  then show ?thesis
    using assms(1) by (auto simp: sf_repopulateAddressSelectors_def Let_def intro: inv_same)
next
  case (ECurrent a)
  then show ?thesis
    using assms(1) by (auto simp: sf_onCurrentAddressChanged_def Let_def intro: inv_same split: option.splits)
next
  case (ESelect c i)
  then show ?thesis
    using assms(1) by (auto simp: sf_select_def intro: inv_same)
next
  case (EMixin v)
  then show ?thesis
    using assms by (simp add: sf_inv_def ok_mixin gate_mixin)
next
  case (ETimer i)
  then show ?thesis
    using assms(1) by (simp add: inv_update)
next
  case (ESend cd rows ws m y ab st)
  have "sf_inv E (fst (sf_sendClicked E cd rows ws m y ab s))"
    using assms(1) by (rule inv_sendClicked)
  then show ?thesis
    using ESend by (auto simp: inv_processStatus split: prod.split send_outcome.split)
next
  case (ERemove i)
  then show ?thesis
    using assms by (simp add: inv_recipientDestroyed)
qed (use assms in \<open>simp_all add: inv_simple inv_addRecipient inv_addRecipientClicked inv_urlReceived inv_walletClosed
  sf_walletOpened_def inv_accountResolved inv_sendAllClicked\<close>)

interpretation form: inductive_invariant "sf_start E" "sf_step E" "sf_inv E" for E
proof
  fix s t
  show "sf_start E s \<Longrightarrow> sf_inv E s"
    by (rule inv_start)
  show "sf_inv E s \<Longrightarrow> sf_step E s t \<Longrightarrow> sf_inv E t"
    by (auto simp: sf_step_def inv_do)
qed


section \<open>The loop over the recipients\<close>

definition total :: "tx_order list \<Rightarrow> nat" where
  "total ds = sum_list (map (\<lambda>d. unat (or_amount d)) ds)"

lemma total_simps [simp]: "total [] = 0" "total (xs @ ys) = total xs + total ys" "total [d] = unat (or_amount d)"
  by (simp_all add: total_def)

lemma unat_positive:
  assumes "0 < sint (x :: u64)"
  shows "unat x < 2 ^ 63" "0 < unat x"
proof -
  have "uint x = sint x"
    using assms sint_range(2) [of x] by (simp add: uint_sint take_bit_int_eq_self)
  then show "0 < unat x" "unat x < 2 ^ 63"
    using assms sint_range(2) [of x] by (simp_all add: unat_eq_nat_uint nat_less_iff)
qed

lemma send_loop_covered:
  assumes "send_loop E cd pid bal fee nf ts i acc ds ab = (ab1, Inr (acc1, ds1))"
    and "unat bal < 2 ^ 63" "unat (fee + nf) < 2 ^ 63"
    and "unat acc + unat (fee + nf) \<le> unat bal \<or> acc = 0" "unat acc = total ds"
  shows "\<exists>es. ds1 = ds @ es \<and> map or_address es = map te_getAddress ts \<and>
      (\<forall>d\<in>set es. sn_valid E (or_address d) \<and> 0 < unat (or_amount d)) \<and>
      unat acc1 = total ds1 \<and> (ts \<noteq> [] \<longrightarrow> unat acc1 + unat (fee + nf) \<le> unat bal)"
  using assms
proof (induction ts arbitrary: i acc ds ab)
  case Nil
  then show ?case by simp
next
  case (Cons t ts)
  let ?amount = "parseAmount (sn_parser E) (te_amount t)"
  let ?d = "\<lparr>or_address = te_getAddress t, or_amount = ?amount\<rparr>"
  have valid: "sn_valid E (te_getAddress t)" and pos: "0 < sint ?amount"
    and funds: "\<not> acc + ?amount + fee + nf > bal"
    using Cons.prems(1) by (simp_all add: Let_def not_le split: if_splits)
  note amount = unat_positive [OF pos]
  have small: "unat acc + unat ?amount + unat (fee + nf) < 2 ^ 64"
    using Cons.prems(2,3,4) amount by auto
  have acc: "unat (acc + ?amount) = unat acc + unat ?amount"
    using small by (simp add: unat_word_ariths)
  have le: "unat (acc + ?amount) + unat (fee + nf) \<le> unat bal"
  proof -
    have "unat (acc + ?amount + (fee + nf)) = unat (acc + ?amount) + unat (fee + nf)"
      using small by (simp add: unat_word_ariths(1) [of "acc + ?amount"] acc)
    moreover have "acc + ?amount + (fee + nf) \<le> bal"
      using funds by (simp add: not_less add.assoc)
    ultimately show ?thesis
      by (simp add: word_le_nat_alt)
  qed
  obtain ab2 where rec: "send_loop E cd pid bal fee nf ts (Suc i) (acc + ?amount) (ds @ [?d]) ab2 = (ab1, Inr (acc1, ds1))"
    using Cons.prems(1) valid pos funds by (simp add: Let_def split: if_splits)
  have "\<exists>es. ds1 = (ds @ [?d]) @ es \<and> map or_address es = map te_getAddress ts \<and>
      (\<forall>d\<in>set es. sn_valid E (or_address d) \<and> 0 < unat (or_amount d)) \<and>
      unat acc1 = total ds1 \<and> (ts \<noteq> [] \<longrightarrow> unat acc1 + unat (fee + nf) \<le> unat bal)"
    using Cons.prems(2,3,5) le acc by (intro Cons.IH [OF rec]) simp_all
  then obtain es where es: "ds1 = ds @ ?d # es" "map or_address es = map te_getAddress ts"
      "\<forall>d\<in>set es. sn_valid E (or_address d) \<and> 0 < unat (or_amount d)"
      "unat acc1 = total ds1" "ts \<noteq> [] \<longrightarrow> unat acc1 + unat (fee + nf) \<le> unat bal"
    by auto
  have "unat acc1 + unat (fee + nf) \<le> unat bal"
  proof (cases "ts = []")
    case True
    then have "acc1 = acc + ?amount"
      using rec by simp
    then show ?thesis using le by simp
  qed (use es in simp)
  then show ?case
    using es valid amount by (intro exI [of _ "?d # es"]) simp
qed


section \<open>Submitted transactions\<close>

abbreviation entered_fee :: "send_env \<Rightarrow> sf_state \<Rightarrow> u64" where
  "entered_fee E s \<equiv> parseAmount (sn_parser E) (sf_feeText s)"

definition fee_orders :: "sf_state \<Rightarrow> tx_order list" where
  "fee_orders s = (if sf_onRemote s \<and> sf_feeAddress s \<noteq> []
     then [\<lparr>or_address = sf_feeAddress s, or_amount = sf_nodeFee s\<rparr>] else [])"

lemma sendClicked_Submitted:
  assumes "sf_sendClicked E cd rows ws m y ab s = (s1, ab1, Submitted p)"
  obtains acc ds where
    "send_loop E cd (sf_paymentId s) (source_balance rows ws (current_data (sf_from s)))
       (entered_fee E s - sf_nodeFee s) (sf_nodeFee s) (sf_transfers s) 0 0 [] ab = (ab1, Inr (acc, ds))"
    "tp_destinations p = ds @ fee_orders s" "tp_fee p = entered_fee E s - sf_nodeFee s"
    "sn_minFee E \<le> tp_fee p" "tp_mixIn p = of_nat (sf_mixin s)" "y"
    "tp_sources p = (if current_data (sf_from s) \<noteq> [] then [current_data (sf_from s)] else [])"
proof -
  obtain ab2 r where loop: "send_loop E cd (sf_paymentId s) (source_balance rows ws (current_data (sf_from s)))
       (entered_fee E s - sf_nodeFee s) (sf_nodeFee s) (sf_transfers s) 0 0 [] ab = (ab2, r)"
    by fastforce
  have no: "r \<noteq> Inl (Submitted q)" for q
  proof -
    have "send_loop E cd pid bal fee nf ts i acc ds ab \<noteq> (ab2, Inl (Submitted q))" for pid bal fee nf ts i acc ds ab
      by (induction ts arbitrary: i acc ds ab) (auto simp: Let_def)
    then show ?thesis using loop by auto
  qed
  show thesis
  proof (cases r)
    case (Inl x)
    then show ?thesis
      using assms loop no by (auto simp: sf_sendClicked_def Let_def)
  next
    case (Inr z)
    obtain acc ds where z: "z = (acc, ds)" by fastforce
    show ?thesis
      using assms Inr loop z
      by (intro that [of acc ds]) (auto simp: sf_sendClicked_def Let_def fee_orders_def not_less split: if_splits)
  qed
qed

text \<open>
  C1. A transaction the form submits is confirmed by the user, has a valid
  payment id or none, and an anonymity level of at most 19. It pays every
  recipient of the form, in order, a positive amount to a valid address, and
  the node fee; amounts and the entered fee together do not exceed the balance
  of the chosen source. When the entered fee covers the node fee, the network
  fee is at least the minimum and all outputs with it stay within the balance;
  when it does not, the signed difference is submitted as an unsigned fee of
  almost 2^64, because the comparison with the minimum is unsigned. Balances
  are below 2^63 and the entered fee is not negative.
\<close>

theorem submitted_payment_is_covered:
  assumes reach: "reach (sf_start E) (sf_step E) s" and "sf_sendEnabled s" "sf_transfers s \<noteq> []"
    and submit: "sf_sendClicked E cd rows ws m y ab s = (s1, ab1, Submitted p)"
    and bal: "unat (source_balance rows ws (current_data (sf_from s))) < 2 ^ 63"
    and fee: "0 \<le> sint (entered_fee E s)"
  shows "y \<and> sf_isValidPaymentId (sf_paymentId s) \<and> unat (tp_mixIn p) \<le> MAX_MIXIN_VALUE \<and>
    tp_sources p = (if current_data (sf_from s) \<noteq> [] then [current_data (sf_from s)] else []) \<and>
    (\<exists>ds. tp_destinations p = ds @ fee_orders s \<and>
       map or_address ds = map te_getAddress (sf_transfers s) \<and>
       (\<forall>d\<in>set ds. sn_valid E (or_address d) \<and> 0 < unat (or_amount d)) \<and>
       total ds + unat (entered_fee E s) \<le> unat (source_balance rows ws (current_data (sf_from s))) \<and>
       (if sf_nodeFee s \<le> entered_fee E s
        then unat (sn_minFee E) \<le> unat (tp_fee p) \<and>
          total (tp_destinations p) + unat (tp_fee p) \<le> unat (source_balance rows ws (current_data (sf_from s)))
        else unat (tp_fee p) + (unat (sf_nodeFee s) - unat (entered_fee E s)) = 2 ^ 64))"
proof -
  let ?e = "entered_fee E s"
  let ?n = "sf_nodeFee s"
  have inv: "sf_inv E s"
    using reach by (rule form.reach_inv)
  then have ready: "sf_isValidPaymentId (sf_paymentId s)" and mixin: "sf_mixin s \<le> MAX_MIXIN_VALUE"
    and remote: "?n \<noteq> 0 \<longrightarrow> sf_onRemote s \<and> sf_feeAddress s \<noteq> []"
    using \<open>sf_sendEnabled s\<close> by (simp_all add: sf_inv_def sf_gate_def sf_readyToSend_def sf_ok_def)
  obtain acc ds where loop: "send_loop E cd (sf_paymentId s) (source_balance rows ws (current_data (sf_from s)))
       (?e - ?n) ?n (sf_transfers s) 0 0 [] ab = (ab1, Inr (acc, ds))"
    and p: "tp_destinations p = ds @ fee_orders s" "tp_fee p = ?e - ?n" "sn_minFee E \<le> tp_fee p"
      "tp_mixIn p = of_nat (sf_mixin s)" "y"
      "tp_sources p = (if current_data (sf_from s) \<noteq> [] then [current_data (sf_from s)] else [])"
    using sendClicked_Submitted [OF submit] by metis
  have e: "unat ?e < 2 ^ 63"
  proof (cases "sint ?e = 0")
    case True
    then have "?e = 0" by (simp only: signed_eq_0_iff)
    then show ?thesis by simp
  next
    case False
    then show ?thesis using fee by (intro unat_positive) simp
  qed
  have ds: "map or_address ds = map te_getAddress (sf_transfers s)"
    "\<forall>d\<in>set ds. sn_valid E (or_address d) \<and> 0 < unat (or_amount d)"
    "total ds + unat ?e \<le> unat (source_balance rows ws (current_data (sf_from s)))"
    using send_loop_covered [OF loop bal] e \<open>sf_transfers s \<noteq> []\<close> by auto
  have mix: "unat (tp_mixIn p) \<le> MAX_MIXIN_VALUE"
    using mixin by (simp add: p(4) MAX_MIXIN_VALUE_def unat_of_nat)
  have fees: "total (fee_orders s) = unat ?n"
    using remote by (auto simp: fee_orders_def)
  have covered: "total (tp_destinations p) + unat (tp_fee p) = total ds + unat ?e" if "?n \<le> ?e"
    using that fees by (simp add: p(1,2) unat_sub word_le_nat_alt)
  have wrap: "unat (tp_fee p) + (unat ?n - unat ?e) = 2 ^ 64" if "\<not> ?n \<le> ?e"
    using that unsigned_less [of ?n, where 'a = nat] by (simp add: p(2) unat_sub_if_size word_size word_le_nat_alt)
  show ?thesis
    using ready mix p(1,3,5,6) ds covered wrap by (auto simp: word_le_nat_alt)
qed


text \<open>A small environment: amounts are the lengths of their texts, addresses start with K.\<close>

definition demo_send :: send_env where
  "demo_send = \<lparr>sn_te = \<lparr>te_parseAddress = (\<lambda>a. if starts_with a ''K'' then Some () else None), te_accountNumber = (\<lambda>_. False)\<rparr>,
     sn_parser = (\<lambda>x. Some (of_nat (length x))), sn_minFee = 2, sn_percent = (\<lambda>x. x div 400),
     sn_threshold = (\<lambda>x n. 0), sn_feeText = (\<lambda>x. replicate (unat x) (CHR ''1'')), sn_allText = (\<lambda>b f. replicate (unat (b - f)) (CHR ''1'')),
     sn_urlText = id, sn_zeroText = [], sn_parsePaymentId = (\<lambda>q. if length q = 64 then Some q else None),
     sn_setNonce = id, sn_addNonce = Some\<rparr>"

definition demo_book :: ab_state where "demo_book = ab_init []"

lemma reach_do: "reach start (sf_step E) s \<Longrightarrow> sf_can ev s \<Longrightarrow> reach start (sf_step E) (sf_do E ev s)"
  by (rule reach_step) (auto simp: sf_step_def)

definition demo_form :: "u64 \<Rightarrow> string \<Rightarrow> sf_state" where
  "demo_form f x = sf_do demo_send (EFee x) (sf_do demo_send (EAmount True 0 ''11111'')
     (sf_do demo_send (EAddress demo_book [] 0 ''Kab'') (sf_do demo_send EAddClicked
       (sf_setCryptoNoteAdapter demo_send ''Knode'' f (sf_new True [])))))"

lemma demo_form_reached: "reach (sf_start demo_send) (sf_step demo_send) (demo_form f x)"
proof -
  let ?s = "sf_setCryptoNoteAdapter demo_send ''Knode'' f (sf_new True [])"
  have "reach (sf_start demo_send) (sf_step demo_send) ?s"
    by (rule reach_start) (auto simp: sf_start_def)
  moreover have "sf_transfers ?s = []"
    by (simp add: sf_setCryptoNoteAdapter_def Let_def sf_priorityValueChanged_def show_fee_def sf_new_def)
  ultimately show ?thesis
    unfolding demo_form_def
    by (intro reach_do) (simp_all add: sf_addRecipientClicked_def sf_setAddress_def sf_recheck_def)
qed

definition demo_wallet_100 :: ws_state where
  "demo_wallet_100 = (ws_new \<lparr>wi_open = True, wi_encrypted = False, wi_address = ''Kme'', wi_actual = 100, wi_pending = 0\<rparr>)\<lparr>ws_actual := 100\<rparr>"



definition submitted_of :: "sf_state \<times> ab_state \<times> send_outcome \<Rightarrow> tx_params option" where
  "submitted_of r = (case r of (_, _, Submitted p) \<Rightarrow> Some p | _ \<Rightarrow> None)"

lemma submitted_ofD: "submitted_of r = Some p \<Longrightarrow> \<exists>s1 ab1. r = (s1, ab1, Submitted p)"
  by (auto simp: submitted_of_def split: prod.splits send_outcome.splits)

definition demo_submit :: "string \<Rightarrow> sf_state \<times> ab_state \<times> send_outcome" where
  "demo_submit x = sf_sendClicked demo_send (one_codec Map.empty) [] demo_wallet_100 True True demo_book (demo_form 7 x)"

definition demo_params :: "u64 \<Rightarrow> tx_params" where
  "demo_params fee = \<lparr>tp_sources = [],
     tp_destinations = [\<lparr>or_address = ''Kab'', or_amount = 5\<rparr>, \<lparr>or_address = ''Knode'', or_amount = 7\<rparr>],
     tp_fee = fee, tp_mixIn = 7, tp_extra = [], tp_unlock = 0, tp_change = ''Kme'', tp_donation = None\<rparr>"

lemma demo_submitted:
  "submitted_of (demo_submit ''1111111111'') = Some (demo_params 3)"
  "submitted_of (demo_submit ''1111'') = Some (demo_params (- 3))"
  by code_simp+

theorem submitted_payment_is_covered_witness:
  "total (tp_destinations (demo_params 3)) + unat (tp_fee (demo_params 3)) \<le> 100 \<and>
   unat (tp_fee (demo_params (- 3))) + 3 = 2 ^ 64"
proof -
  have en: "sf_sendEnabled (demo_form 7 x)" "sf_transfers (demo_form 7 x) \<noteq> []" "current_data (sf_from (demo_form 7 x)) = []"
    "sf_nodeFee (demo_form 7 x) = 7" if "x = ''1111111111'' \<or> x = ''1111''" for x
    using that by (elim disjE; simp; code_simp)+
  have bal: "source_balance [] demo_wallet_100 [] = 100"
    by code_simp
  have fee: "entered_fee demo_send (demo_form 7 ''1111111111'') = 10" "entered_fee demo_send (demo_form 7 ''1111'') = 4"
    by code_simp+
  obtain s1 ab1 s2 ab2 where
    "demo_submit ''1111111111'' = (s1, ab1, Submitted (demo_params 3))"
    "demo_submit ''1111'' = (s2, ab2, Submitted (demo_params (- 3)))"
    using demo_submitted by (meson submitted_ofD)
  note sent = this [unfolded demo_submit_def]
  show ?thesis
    using submitted_payment_is_covered [OF demo_form_reached en(1,2) sent(1)]
      submitted_payment_is_covered [OF demo_form_reached en(1,2) sent(2)]
    by (auto simp: en bal fee)
qed


section \<open>Closing the wallet\<close>

abbreviation fee_terms :: "sf_state \<Rightarrow> bool \<times> string \<times> u64 \<times> u64" where
  "fee_terms s \<equiv> (sf_onRemote s, sf_feeAddress s, sf_flatRate s, sf_nodeFee s)"

lemma flat_amountStringChanged [simp]:
  "sf_flatRate s \<noteq> 0 \<Longrightarrow> sf_nodeFee (sf_amountStringChanged E s) = sf_nodeFee s"
  by (simp add: sf_amountStringChanged_def show_fee_def Let_def)

lemma fee_terms_recheck: "fee_terms (sf_recheck E s) = fee_terms s"
  by (simp add: sf_recheck_def)

lemmas fee_terms_recheck_simps [simp] = fee_terms_recheck [simplified prod.inject]

lemma fee_terms_edits:
  "fee_terms (sf_setAddress E ab c i a s) = fee_terms s"
  "fee_terms (sf_setLabel ab i l s) = fee_terms s"
  "fee_terms (sf_addRecipientClicked E s) = fee_terms s"
  "fee_terms (sf_mixinValueChanged v s) = fee_terms s"
  "fee_terms (sf_accountResolved E ab c i n f a s) = fee_terms s"
  by (simp_all add: sf_setAddress_def sf_setLabel_def sf_addRecipientClicked_def sf_mixinValueChanged_def
      sf_accountResolved_def Let_def)

lemmas fee_terms_edits_simps [simp] = fee_terms_edits [simplified prod.inject]

lemma flat_edits:
  assumes "sf_flatRate s \<noteq> 0"
  shows "fee_terms (sf_setAmount E p i x s) = fee_terms s"
    and "fee_terms (sf_clearAll E s) = fee_terms s"
    and "fee_terms (sf_recipientDestroyed E i s) = fee_terms s"
    and "fee_terms (sf_sendAllClicked E rows ws p s) = fee_terms s"
  using assms by (simp_all add: sf_setAmount_def sf_clearAll_def sf_recipientDestroyed_def sf_sendAllClicked_def Let_def)

lemmas flat_edits_simps [simp] = flat_edits [simplified prod.inject]

lemma fee_terms_urlReceived: "sf_flatRate s \<noteq> 0 \<Longrightarrow> fee_terms (sf_urlReceived E ab c p u s) = fee_terms s"
  by (simp add: sf_urlReceived_def split: option.split)

lemmas fee_terms_urlReceived_simps [simp] = fee_terms_urlReceived [simplified prod.inject]

lemma fee_terms_status: "sf_flatRate s \<noteq> 0 \<Longrightarrow> fee_terms (sf_processTransactionSendStatus E st s) = fee_terms s"
  by (simp add: sf_processTransactionSendStatus_def split: send_status.split)

lemmas fee_terms_status_simps [simp] = fee_terms_status [simplified prod.inject]

lemma fee_terms_sendClicked: "fee_terms (fst (sf_sendClicked E cd rows ws m y ab s)) = fee_terms s"
  by (simp add: sf_sendClicked_def Let_def split: prod.split sum.split)

lemmas fee_terms_sendClicked_simps [simp] = fee_terms_sendClicked [simplified prod.inject]

lemma fee_terms_do:
  assumes "sf_flatRate s \<noteq> 0" "sf_nodeFee s = 0"
  shows "fee_terms (sf_do E ev s) = fee_terms s"
proof (cases ev)
  case (ESend cd rows ws m y ab st)
  obtain s1 ab1 r where sent: "sf_sendClicked E cd rows ws m y ab s = (s1, ab1, r)"
    by (cases "sf_sendClicked E cd rows ws m y ab s")
  then have same: "fee_terms s1 = fee_terms s"
    using fee_terms_sendClicked [of E cd rows ws m y ab s] by (simp only: fst_conv)
  then show ?thesis
    using ESend assms(1) sent by (cases r) simp_all
qed (use assms in \<open>auto simp: sf_addRecipient_def sf_walletOpened_def sf_walletClosed_def sf_priorityValueChanged_def show_fee_def
  sf_synchronizationProgressUpdated_def sf_synchronizationCompleted_def sf_repopulateAddressSelectors_def
  sf_onCurrentAddressChanged_def sf_select_def Let_def split: option.split\<close>)


definition fee_lost :: "string \<Rightarrow> sf_state \<Rightarrow> bool" where
  "fee_lost a s \<longleftrightarrow> sf_onRemote s \<and> sf_feeAddress s = a \<and> sf_flatRate s \<noteq> 0 \<and> sf_nodeFee s = 0"

interpretation lost: inductive_invariant "\<lambda>s. fee_lost a s" "sf_step E" "fee_lost a" for a E
proof
  fix s t
  show "fee_lost a s \<Longrightarrow> fee_lost a s" .
  assume "fee_lost a s" "sf_step E s t"
  then show "fee_lost a t"
    using fee_terms_do by (auto simp: fee_lost_def sf_step_def)
qed

lemma walletClosed_terms:
  assumes "sf_flatRate s \<noteq> 0"
  shows "sf_onRemote (sf_walletClosed E s) = sf_onRemote s" "sf_feeAddress (sf_walletClosed E s) = sf_feeAddress s"
    "sf_flatRate (sf_walletClosed E s) = sf_flatRate s" "sf_nodeFee (sf_walletClosed E s) = 0"
    "sf_transfers (sf_walletClosed E s) = []"
  using assms by (simp_all add: sf_walletClosed_def) (simp add: sf_clearAll_def sf_mixinValueChanged_def)

lemma closed_button:
  assumes "sf_paymentId s \<noteq> []"
  shows "sf_sendEnabled (sf_walletClosed E s)"
  using assms
  by (simp add: sf_walletClosed_def sf_clearAll_def sf_mixinValueChanged_def sf_setPaymentId_def sf_validatePaymentId_def
      sf_isValidPaymentId_def sf_recheck_def sf_readyToSend_def)

text \<open>
  Closing the wallet forgets a flat node fee for good: with a node that asks
  for a flat fee, in every state after a close the node fee is zero, although
  the address and the rate are kept, and every transaction submitted from then
  on pays the node address an amount of zero. Closing also leaves the send
  button enabled, without any recipient, when a payment id was entered.
\<close>

theorem close_forgets_flat_fee:
  assumes "sf_onRemote s" "sf_feeAddress s \<noteq> []" "sf_flatRate s \<noteq> 0"
    and "reach (\<lambda>x. x = sf_walletClosed E s) (sf_step E) u"
  shows "sf_nodeFee u = 0 \<and> sf_flatRate u \<noteq> 0 \<and>
    (sf_sendClicked E cd rows ws m y ab u = (s1, ab1, Submitted p) \<longrightarrow>
       last (tp_destinations p) = \<lparr>or_address = sf_feeAddress s, or_amount = 0\<rparr>) \<and>
    (sf_paymentId s \<noteq> [] \<longrightarrow> sf_sendEnabled (sf_walletClosed E s) \<and> sf_transfers (sf_walletClosed E s) = [])"
proof -
  have start: "fee_lost (sf_feeAddress s) (sf_walletClosed E s)"
    using assms(1,3) by (simp add: fee_lost_def walletClosed_terms)
  have "reach (fee_lost (sf_feeAddress s)) (sf_step E) u"
    using assms(4) by (induction rule: reach.induct) (auto intro: reach.intros start)
  then have lost: "fee_lost (sf_feeAddress s) u"
    by (rule lost.reach_inv)
  have "last (tp_destinations p) = \<lparr>or_address = sf_feeAddress s, or_amount = 0\<rparr>"
    if sent: "sf_sendClicked E cd rows ws m y ab u = (s1, ab1, Submitted p)"
  proof -
    obtain ds where "tp_destinations p = ds @ fee_orders u"
      using sendClicked_Submitted [OF sent] by metis
    then show ?thesis
      using lost assms(2) by (simp add: fee_lost_def fee_orders_def)
  qed
  then show ?thesis
    using lost closed_button walletClosed_terms(5) [OF assms(3)] by (auto simp: fee_lost_def)
qed

definition demo_reopened :: sf_state where
  "demo_reopened = sf_do demo_send (EFee ''1111'') (sf_do demo_send (EAmount True 0 ''11111'')
     (sf_do demo_send (EAddress demo_book [] 0 ''Kab'') (sf_do demo_send EAddClicked
       (sf_walletClosed demo_send (demo_form 7 [])))))"

lemma demo_resubmitted:
  "submitted_of (sf_sendClicked demo_send (one_codec Map.empty) [] demo_wallet_100 True True demo_book demo_reopened)
    = Some \<lparr>tp_sources = [], tp_destinations = [\<lparr>or_address = ''Kab'', or_amount = 5\<rparr>, \<lparr>or_address = ''Knode'', or_amount = 0\<rparr>],
        tp_fee = 4, tp_mixIn = 6, tp_extra = [], tp_unlock = 0, tp_change = ''Kme'', tp_donation = None\<rparr>"
  by code_simp

theorem close_forgets_flat_fee_witness:
  "sf_nodeFee (demo_form 7 []) = 7 \<and> sf_nodeFee demo_reopened = 0 \<and>
   (\<exists>p. submitted_of (sf_sendClicked demo_send (one_codec Map.empty) [] demo_wallet_100 True True demo_book demo_reopened) = Some p \<and>
      last (tp_destinations p) = \<lparr>or_address = ''Knode'', or_amount = 0\<rparr>)"
proof -
  let ?s = "demo_form 7 []"
  have s: "sf_onRemote ?s" "sf_feeAddress ?s = ''Knode''" "sf_flatRate ?s = 7" "sf_nodeFee ?s = 7"
    by code_simp+
  have r: "reach (\<lambda>x. x = sf_walletClosed demo_send ?s) (sf_step demo_send) demo_reopened"
    unfolding demo_reopened_def
    by (intro reach_do reach_start)
      (simp_all add: sf_addRecipientClicked_def sf_setAddress_def sf_recheck_def walletClosed_terms s(3))
  obtain p where p: "submitted_of (sf_sendClicked demo_send (one_codec Map.empty) [] demo_wallet_100 True True demo_book demo_reopened) = Some p"
    using demo_resubmitted by blast
  then obtain s1 ab1 where sent: "sf_sendClicked demo_send (one_codec Map.empty) [] demo_wallet_100 True True demo_book demo_reopened
      = (s1, ab1, Submitted p)"
    using submitted_ofD by blast
  show ?thesis
    using close_forgets_flat_fee [OF s(1) _ _ r, of "one_codec Map.empty" "[]" demo_wallet_100 True True demo_book s1 ab1 p] s sent p
    by simp
qed


section \<open>Payment ids\<close>

lemma length_dropWhile_less: "dropWhile P xs \<noteq> xs \<Longrightarrow> length (dropWhile P xs) < length xs"
  by (cases xs) (auto simp: le_imp_less_Suc length_dropWhile_le split: if_splits)

lemma trimmed_shorter:
  assumes "trimmed s \<noteq> s"
  shows "length (trimmed s) < length s"
proof (cases "dropWhile is_space s = s")
  case True
  then have "dropWhile is_space (rev s) \<noteq> rev s"
    using assms by (auto simp: trimmed_def)
  then show ?thesis
    using length_dropWhile_less [of is_space "rev s"] True by (simp add: trimmed_def)
next
  case False
  then have "length (dropWhile is_space s) < length s"
    by (rule length_dropWhile_less)
  moreover have "length (trimmed s) \<le> length (dropWhile is_space s)"
    using length_dropWhile_le [of is_space "rev (dropWhile is_space s)"] by (simp add: trimmed_def)
  ultimately show ?thesis by simp
qed

lemma is_hex_code:
  "is_hex c \<longleftrightarrow> (let n = (of_char c :: nat) in 48 \<le> n \<and> n \<le> 57 \<or> 65 \<le> n \<and> n \<le> 70 \<or> 97 \<le> n \<and> n \<le> 102)"
proof -
  have eq: "c = d \<longleftrightarrow> (of_char c :: nat) = of_char d" for d
    by simp
  show ?thesis
    unfolding is_hex_def is_digit_def Let_def
    by (simp add: eq [of "CHR ''a''"] eq [of "CHR ''b''"] eq [of "CHR ''c''"] eq [of "CHR ''d''"] eq [of "CHR ''e''"]
        eq [of "CHR ''f''"] eq [of "CHR ''A''"] eq [of "CHR ''B''"] eq [of "CHR ''C''"] eq [of "CHR ''D''"]
        eq [of "CHR ''E''"] eq [of "CHR ''F''"] del: of_char_eq_iff) presburger
qed

lemma is_hex_lower_char [simp]: "is_hex (lower_char c) = is_hex c"
  by (auto simp: is_hex_code lower_char_def Let_def of_char_of)

lemma hex_zero: "is_hex (CHR ''0'')"
  by (simp add: is_hex_def)

lemma space_not_hex: "is_space c \<Longrightarrow> \<not> is_hex c"
  by (auto simp: is_space_def is_hex_def is_digit_def)

lemma filter_dropWhile_space: "(\<And>c. is_space c \<Longrightarrow> \<not> P c) \<Longrightarrow> filter P (dropWhile is_space s) = filter P s"
  by (induction s) auto

lemma filter_hex_trimmed: "filter is_hex (trimmed s) = filter is_hex s"
  by (simp add: trimmed_def rev_filter [symmetric] filter_dropWhile_space space_not_hex)

lemma all_hex_filter: "length (filter is_hex u) = length u \<longleftrightarrow> (\<forall>c\<in>set u. is_hex c)"
  by (metis filter_id_conv length_filter_less less_irrefl)


lemma hex_text_id:
  assumes "length u = 64" "63 \<le> length (filter is_hex u)"
  shows "to_lower (hex_text u) = to_lower u \<longleftrightarrow> (\<forall>c\<in>set u. is_hex c)"
proof
  assume all: "\<forall>c\<in>set u. is_hex c"
  then show "to_lower (hex_text u) = to_lower u"
    using assms(1) by (simp add: hex_text_def Let_def filter_id_conv [THEN iffD2])
next
  assume eq: "to_lower (hex_text u) = to_lower u"
  have "\<forall>c\<in>set (hex_text u). is_hex c"
    by (auto simp: hex_text_def Let_def to_lower_def hex_zero)
  then have "\<forall>c\<in>set (to_lower u). is_hex c"
    by (simp add: eq [symmetric]) (simp add: to_lower_def)
  then show "\<forall>c\<in>set u. is_hex c"
    by (simp add: to_lower_def)
qed

lemma strict_check:
  "sf_isValidPaymentId p \<longleftrightarrow> trimmed p = [] \<or> (length (trimmed p) = 64 \<and> (\<forall>c\<in>set (trimmed p). is_hex c))"
proof (cases "trimmed p = [] \<or> length (trimmed p) \<noteq> 64")
  case True
  then show ?thesis by (auto simp: sf_isValidPaymentId_def)
next
  case False
  let ?u = "trimmed p"
  have u: "length ?u = 64" "?u \<noteq> []" using False by auto
  have same: "filter is_hex p = filter is_hex ?u" "hex_text p = hex_text ?u"
    by (simp_all add: filter_hex_trimmed hex_text_def)
  have size: "fromHex_size p = 32 \<longleftrightarrow> 63 \<le> length (filter is_hex ?u)"
  proof -
    have "length (filter is_hex ?u) \<le> 64"
      using u(1) by (metis length_filter_le)
    then show ?thesis
      unfolding fromHex_size_def same by linarith
  qed
  show ?thesis
  proof (cases "63 \<le> length (filter is_hex ?u)")
    case True
    then show ?thesis
      using hex_text_id [OF u(1) True] size u by (simp add: sf_isValidPaymentId_def same)
  next
    case more: False
    then have "\<not> (\<forall>c\<in>set ?u. is_hex c)"
      using all_hex_filter [of ?u] u(1) by simp
    then show ?thesis
      using size more u by (simp add: sf_isValidPaymentId_def)
  qed
qed

text \<open>
  C2. The send form's payment id check accepts, besides a blank field, exactly
  64 hex digits with white space around them. What it accepts without white
  space is also accepted by the adapter's check; but with white space the id is
  still handed over as it is, so a library parser that insists on 64 characters
  rejects it and the payment goes out without any payment id.
\<close>

theorem payment_id_check:
  assumes "\<forall>q. parse q \<noteq> None \<longrightarrow> length q = 64"
  shows "(sf_isValidPaymentId p \<longleftrightarrow> trimmed p = [] \<or> (length (trimmed p) = 64 \<and> (\<forall>c\<in>set (trimmed p). is_hex c))) \<and>
    (sf_isValidPaymentId p \<and> trimmed p = p \<and> p \<noteq> [] \<longrightarrow> isValidPaymentId p) \<and>
    (sf_isValidPaymentId p \<and> trimmed p \<noteq> p \<and> trimmed p \<noteq> [] \<longrightarrow> convertPaymentToExtra parse nonce add p = [])"
proof -
  have plain: "isValidPaymentId p" if "sf_isValidPaymentId p" "trimmed p = p" "p \<noteq> []"
  proof -
    have "length p = 64" "\<forall>c\<in>set p. is_hex c"
      using that by (auto simp: strict_check)
    then show ?thesis
      using all_hex_filter [of p] by (simp add: isValidPaymentId_def fromHex_size_def)
  qed
  have padded: "convertPaymentToExtra parse nonce add p = []" if "sf_isValidPaymentId p" "trimmed p \<noteq> p" "trimmed p \<noteq> []"
  proof -
    have "length (trimmed p) = 64"
      using that by (simp add: strict_check)
    then have "length p \<noteq> 64"
      using that(2) trimmed_shorter by fastforce
    then have "parse p = None"
      using assms by blast
    then show ?thesis
      by (simp add: convertPaymentToExtra_def)
  qed
  show ?thesis
    using strict_check plain padded by blast
qed

theorem payment_id_check_witness:
  "sf_isValidPaymentId (CHR '' '' # replicate 64 (CHR ''a'')) \<and>
   convertPaymentToExtra (\<lambda>q. if length q = 64 then Some q else None) id Some (CHR '' '' # replicate 64 (CHR ''a'')) = []"
proof -
  let ?p = "CHR '' '' # replicate 64 (CHR ''a'')"
  have valid: "sf_isValidPaymentId ?p" and ne: "trimmed ?p \<noteq> ?p" "trimmed ?p \<noteq> []"
    by code_simp+
  have parse: "\<forall>q. (\<lambda>q. if length q = 64 then Some q else None) q \<noteq> None \<longrightarrow> length q = 64"
    by simp
  show ?thesis
    using payment_id_check [OF parse, of ?p id Some] valid ne by blast
qed


section \<open>The source selector\<close>

lemma findData_cases:
  obtains i where "findData d xs = Some i" "i < length xs" "xs ! i = d" "d \<in> set xs"
  | "findData d xs = None" "d \<notin> set xs"
proof (cases "findData d xs")
  case None
  then show thesis
    using that(2) by (auto simp: findData_def find_index_None)
next
  case (Some i)
  then show thesis
    using that(1) by (auto simp: findData_def find_index_Some)
qed

lemma selected_data:
  "current_data \<lparr>se_items = xs, se_index = (case findData d xs of Some i \<Rightarrow> i | None \<Rightarrow> 0)\<rparr> =
     (if d \<in> set xs then d else if xs = [] then [] else hd xs)"
  by (rule findData_cases [of d xs]) (auto simp: current_data_def hd_conv_nth)

text \<open>
  C3. When the address list changes, the chosen source stays chosen as long as
  its address is still listed. When it is not, the source falls back to the
  wallet's current address if that one is listed, and otherwise silently to any
  address, whose balance is the whole wallet's. Every selected source and
  change address is one of the list.
\<close>

theorem source_selection:
  "let t = sf_repopulateAddressSelectors addresses s;
       from = current_data (sf_from s); change = current_data (sf_change s)
   in current_data (sf_from t) =
        (if from \<in> set addresses then from
         else if from \<noteq> [] \<and> sf_current s \<in> set addresses then sf_current s else []) \<and>
      current_data (sf_change t) = (if change \<in> set addresses then change
         else if addresses = [] then [] else hd addresses)"
proof -
  let ?items = "[] # addresses"
  let ?from = "current_data (sf_from s)"
  have "(case (case findData ?from ?items of Some i \<Rightarrow> Some i
        | None \<Rightarrow> (if sf_current s \<noteq> [] then findData (sf_current s) ?items else None)) of Some i \<Rightarrow> i | None \<Rightarrow> 0)
      = (case findData (if ?from \<in> set ?items then ?from else sf_current s) ?items of Some i \<Rightarrow> i | None \<Rightarrow> 0)"
    by (rule findData_cases [of ?from ?items]) (auto simp: findData_def)
  note index = this
  let ?t = "sf_repopulateAddressSelectors addresses s"
  have "sf_from ?t = \<lparr>se_items = ?items, se_index =
      (case findData (if ?from \<in> set ?items then ?from else sf_current s) ?items of Some i \<Rightarrow> i | None \<Rightarrow> 0)\<rparr>"
    using index by (simp add: sf_repopulateAddressSelectors_def Let_def)
  moreover have "sf_change ?t = \<lparr>se_items = addresses, se_index =
      (case findData (current_data (sf_change s)) addresses of Some i \<Rightarrow> i | None \<Rightarrow> 0)\<rparr>"
    by (simp add: sf_repopulateAddressSelectors_def Let_def)
  ultimately show ?thesis
    using selected_data [of ?items "if ?from \<in> set ?items then ?from else sf_current s"]
      selected_data [of addresses "current_data (sf_change s)"]
    by (simp add: Let_def)
qed

end
