(* ===== verification/PaymentRequest.thy ===== *)
theory PaymentRequest
  imports SendSafety
begin

text \<open>
  Payment requests: ReceiveFrame (src/src/Gui/Receive/ReceiveFrame.cpp), which
  writes a request as a URL, and its way through the clipboard, a file or a
  QR code, OpenUriDialog and QUrl into the send form of the payer. The
  lemmas show that the text and the QR code always agree and that a request
  read back fills the send form with what was asked for. What a spin box shows
  for a number is text; QUrl's rules for what it decodes are a parameter.
\<close>

section \<open>Percent encoding\<close>

text \<open>The characters that QUrl::toPercentEncoding leaves: letters, digits and four signs.\<close>

definition unreserved :: "char \<Rightarrow> bool" where
  "unreserved c \<longleftrightarrow> is_digit c \<or> (65 \<le> (of_char c :: nat) \<and> (of_char c :: nat) \<le> 90) \<or>
     (97 \<le> (of_char c :: nat) \<and> (of_char c :: nat) \<le> 122) \<or> c \<in> set ''-._~''"

definition hex_char :: "nat \<Rightarrow> char" where
  "hex_char n = ''0123456789ABCDEF'' ! n"

definition hex_digit_value :: "char \<Rightarrow> nat option" where
  "hex_digit_value c = find_index (\<lambda>x. x = upper_char c) ''0123456789ABCDEF''"

definition toPercentEncoding :: "string \<Rightarrow> string" where
  "toPercentEncoding s = concat (map (\<lambda>c. if unreserved c then [c]
     else [CHR 0x25, hex_char (of_char c div 16), hex_char (of_char c mod 16)]) s)"


section \<open>ReceiveFrame\<close>

record receive_frame =
  rq_address :: string
  rq_amount :: string
  rq_paymentId :: string
  rq_label :: string
  rq_suffix :: string
  rq_request :: string
  rq_shown :: string
  rq_qr :: string
  rq_hasState :: bool

definition rq_new :: "string \<Rightarrow> receive_frame" where
  "rq_new zero = \<lparr>rq_address = [], rq_amount = zero, rq_paymentId = [], rq_label = [], rq_suffix = [],
     rq_request = [], rq_shown = [], rq_qr = [], rq_hasState = False\<rparr>"

text \<open>cur is the library's amount parser. The text of the spin box is without its suffix (cleanText).\<close>

definition request_text :: "(string \<Rightarrow> u64 option) \<Rightarrow> string \<Rightarrow> string \<Rightarrow> string \<Rightarrow> string \<Rightarrow> string" where
  "request_text cur address amount payment_id label =
     (let r0 = ''karbowanec:'' @ address;
          r1 = (if parseAmount cur amount \<noteq> 0 then r0 @ ''?amount='' @ amount else r0);
          r2 = (if parseAmount cur amount \<noteq> 0 \<and> payment_id \<noteq> [] then r1 @ ''&payment_id='' @ payment_id
                else if payment_id \<noteq> [] then r1 @ ''?payment_id='' @ payment_id else r1);
          r3 = (if (parseAmount cur amount \<noteq> 0 \<or> payment_id \<noteq> []) \<and> label \<noteq> []
                then r2 @ ''&label='' @ toPercentEncoding label
                else if label \<noteq> [] then r2 @ ''?label='' @ toPercentEncoding label else r2)
      in r3)"

definition generateRequest :: "(string \<Rightarrow> u64 option) \<Rightarrow> receive_frame \<Rightarrow> receive_frame" where
  "generateRequest cur s =
     (let r = request_text cur (rq_address s) (rq_amount s) (rq_paymentId s) (rq_label s)
      in s\<lparr>rq_request := r, rq_shown := r, rq_qr := r\<rparr>)"

text \<open>same is whether the frame has this state already; None is the null pointer.\<close>

definition rq_setCurrentAddressState ::
  "(string \<Rightarrow> u64 option) \<Rightarrow> bool \<Rightarrow> string option \<Rightarrow> receive_frame \<Rightarrow> receive_frame" where
  "rq_setCurrentAddressState cur same st s =
     (if same then s
      else (case st of
              None \<Rightarrow> s\<lparr>rq_hasState := False\<rparr>
            | Some current \<Rightarrow>
                (let s1 = s\<lparr>rq_hasState := True\<rparr>
                 in if current \<noteq> [] then generateRequest cur (s1\<lparr>rq_address := current\<rparr>) else s1)))"

definition rq_onCurrentAddressChanged :: "(string \<Rightarrow> u64 option) \<Rightarrow> string \<Rightarrow> receive_frame \<Rightarrow> receive_frame" where
  "rq_onCurrentAddressChanged cur a s = (if a = [] then s else generateRequest cur (s\<lparr>rq_address := a\<rparr>))"

definition rq_cryptoNoteAdapterInitCompleted ::
  "(string \<Rightarrow> u64 option) \<Rightarrow> string \<Rightarrow> int \<Rightarrow> receive_frame \<Rightarrow> receive_frame" where
  "rq_cryptoNoteAdapterInitCompleted cur ticker st s =
     (if st = 0 then generateRequest cur (s\<lparr>rq_suffix := '' '' @ to_upper ticker\<rparr>) else s)"

definition rq_walletOpened :: "(string \<Rightarrow> u64 option) \<Rightarrow> string \<Rightarrow> string \<Rightarrow> receive_frame \<Rightarrow> receive_frame" where
  "rq_walletOpened cur ticker a s = generateRequest cur (s\<lparr>rq_address := a, rq_suffix := '' '' @ to_upper ticker\<rparr>)"

definition rq_walletClosed :: "receive_frame \<Rightarrow> receive_frame" where
  "rq_walletClosed s = s\<lparr>rq_address := []\<rparr>"

text \<open>Common::podToHex of 32 random bytes. Setting a text is no end of editing.\<close>

definition lower_hex :: "char \<Rightarrow> string" where
  "lower_hex c = map lower_char [hex_char (of_char c div 16), hex_char (of_char c mod 16)]"

definition generatePaymentIdClicked :: "string \<Rightarrow> receive_frame \<Rightarrow> receive_frame" where
  "generatePaymentIdClicked bytes s = s\<lparr>rq_paymentId := concat (map lower_hex bytes)\<rparr>"

definition copyRequest :: "receive_frame \<Rightarrow> string" where
  "copyRequest s = rq_request s"

text \<open>The answers: the file's name, empty when the dialog is cancelled, and whether it can be opened.\<close>

definition saveRequest :: "string \<Rightarrow> bool \<Rightarrow> receive_frame \<Rightarrow> (string \<times> string) option" where
  "saveRequest file canOpen s = (if file \<noteq> [] \<and> canOpen then Some (file, rq_request s) else None)"

definition saveQrCode :: "(string \<Rightarrow> string) \<Rightarrow> string \<Rightarrow> bool \<Rightarrow> receive_frame \<Rightarrow> (string \<times> string) option" where
  "saveQrCode png file canOpen s = (if file \<noteq> [] \<and> canOpen then Some (file, png (rq_qr s)) else None)"

datatype rq_event = RqState bool "string option" | RqCurrent string | RqInit string int | RqOpened string string | RqClosed
  | RqAmount string | RqPaymentId string | RqLabel string | RqGenerateId string

text \<open>The three fields make the request again at the end of editing.\<close>

fun rq_do :: "(string \<Rightarrow> u64 option) \<Rightarrow> rq_event \<Rightarrow> receive_frame \<Rightarrow> receive_frame" where
  "rq_do cur (RqState same st) s = rq_setCurrentAddressState cur same st s"
| "rq_do cur (RqCurrent a) s = rq_onCurrentAddressChanged cur a s"
| "rq_do cur (RqInit ticker st) s = rq_cryptoNoteAdapterInitCompleted cur ticker st s"
| "rq_do cur (RqOpened ticker a) s = rq_walletOpened cur ticker a s"
| "rq_do cur RqClosed s = rq_walletClosed s"
| "rq_do cur (RqAmount x) s = generateRequest cur (s\<lparr>rq_amount := x\<rparr>)"
| "rq_do cur (RqPaymentId x) s = generateRequest cur (s\<lparr>rq_paymentId := x\<rparr>)"
| "rq_do cur (RqLabel x) s = generateRequest cur (s\<lparr>rq_label := x\<rparr>)"
| "rq_do cur (RqGenerateId bytes) s = generatePaymentIdClicked bytes s"


section \<open>The request read as a URL\<close>

text \<open>
  QUrl and QUrlQuery: ul_valid is whether a text is a valid URL and
  ul_decodes the characters that the pretty form of a query item decodes.
\<close>

record url_lib =
  ul_valid :: "string \<Rightarrow> bool"
  ul_decodes :: "char \<Rightarrow> bool"

definition hex_pair :: "char \<Rightarrow> char \<Rightarrow> char option" where
  "hex_pair a b = (case (hex_digit_value a, hex_digit_value b) of
     (Some x, Some y) \<Rightarrow> Some (char_of (16 * x + y)) | _ \<Rightarrow> None)"

fun pretty :: "url_lib \<Rightarrow> string \<Rightarrow> string" where
  "pretty U (p # a # b # s) =
     (if p = CHR 0x25
      then (case hex_pair a b of
              Some c \<Rightarrow> if ul_decodes U c then c # pretty U s else p # a # b # pretty U s
            | None \<Rightarrow> p # pretty U (a # b # s))
      else p # pretty U (a # b # s))"
| "pretty U s = s"

definition before_char :: "char \<Rightarrow> string \<Rightarrow> string" where
  "before_char d s = takeWhile (\<lambda>c. c \<noteq> d) s"

definition after_char :: "char \<Rightarrow> string \<Rightarrow> string" where
  "after_char d s = drop 1 (dropWhile (\<lambda>c. c \<noteq> d) s)"

function query_items :: "string \<Rightarrow> (string \<times> string) list" where
  "query_items q =
     (if q = [] then []
      else (let item = before_char CHR ''&'' q
            in (before_char CHR ''='' item, after_char CHR ''='' item) # query_items (after_char CHR ''&'' q)))"
  by pat_completeness auto
termination
proof (relation "measure length")
  show "(after_char CHR ''&'' q, q) \<in> measure length" if "q \<noteq> []" for q
    using that length_dropWhile_le [of "\<lambda>c. c \<noteq> CHR ''&''" q] by (cases q) (auto simp: after_char_def)
qed simp

declare query_items.simps [simp del]

definition queryItemValue :: "url_lib \<Rightarrow> string \<Rightarrow> string \<Rightarrow> string" where
  "queryItemValue U q key = (case map_of (query_items q) key of Some v \<Rightarrow> pretty U v | None \<Rightarrow> [])"

text \<open>OpenUriDialog::getURI and the readings of SendFrame::urlReceived.\<close>

definition read_url :: "url_lib \<Rightarrow> string \<Rightarrow> pay_url option" where
  "read_url U input =
     (let t = trimmed input;
          rest = (if CHR '':'' \<in> set t then after_char CHR '':'' t else t);
          q = before_char CHR ''#'' (after_char CHR ''?'' rest)
      in if \<not> ul_valid U t then None
         else Some \<lparr>u_address = before_char CHR ''?'' (before_char CHR ''#'' rest), u_amount = queryItemValue U q ''amount'',
           u_paymentId = queryItemValue U q ''payment_id'', u_label = queryItemValue U q ''label''\<rparr>)"

text \<open>MainWindow::openPaymentRequestClicked with what was entered; None is a rejected dialog.\<close>

definition openPaymentRequestClicked ::
  "url_lib \<Rightarrow> send_env \<Rightarrow> ab_state \<Rightarrow> string \<Rightarrow> bool \<Rightarrow> string option \<Rightarrow> sf_state \<Rightarrow> sf_state" where
  "openPaymentRequestClicked U E ab completion positive input s =
     (case input of
        None \<Rightarrow> s
      | Some t \<Rightarrow> if trimmed t = [] then s else sf_urlReceived E ab completion positive (read_url U t) s)"


section \<open>Percent encoding is undone\<close>

lemma hex_chars: "n < 16 \<Longrightarrow> hex_digit_value (hex_char n) = Some n"
proof -
  have "list_all (\<lambda>n. hex_digit_value (hex_char n) = Some n) [0..<16]"
    by code_simp
  then show "n < 16 \<Longrightarrow> hex_digit_value (hex_char n) = Some n"
    by (simp add: list_all_iff)
qed

lemma hex_pair_char: "hex_pair (hex_char (of_char c div 16)) (hex_char (of_char c mod 16)) = Some c"
proof -
  have "(of_char c :: nat) < 256"
    by (simp add: nat_of_char_less_256)
  then show ?thesis
    by (simp add: hex_pair_def hex_chars div_less_iff_less_mult)
qed

lemma pretty_other: "c \<noteq> CHR 0x25 \<Longrightarrow> pretty U (c # s) = c # pretty U s"
  by (cases s; cases "tl s") auto

lemma unreserved_not: "unreserved c \<Longrightarrow> c \<notin> set ''%&=?#: ''"
  by (auto simp: unreserved_def is_digit_def)

lemma unreserved_no_space: "unreserved c \<Longrightarrow> \<not> is_space c"
  by (auto simp: unreserved_def is_digit_def is_space_def)

lemma pretty_encoded:
  assumes "\<forall>c\<in>set s. unreserved c \<or> ul_decodes U c"
  shows "pretty U (toPercentEncoding s) = s"
  using assms
proof (induction s)
  case (Cons c s)
  then have IH: "pretty U (toPercentEncoding s) = s"
    by simp
  show ?case
  proof (cases "unreserved c")
    case True
    then show ?thesis
      using unreserved_not [OF True] IH by (simp add: toPercentEncoding_def pretty_other)
  next
    case False
    then have "ul_decodes U c"
      using Cons.prems by simp
    then show ?thesis
      using False IH by (simp add: toPercentEncoding_def hex_pair_char)
  qed
qed (simp add: toPercentEncoding_def)

lemma pretty_unreserved: "list_all unreserved s \<Longrightarrow> pretty U s = s"
  by (induction s) (auto simp: pretty_other dest: unreserved_not)

definition encoded_char :: "char \<Rightarrow> bool" where
  "encoded_char c \<longleftrightarrow> unreserved c \<or> c = CHR 0x25"

lemma hex_char_unreserved: "n < 16 \<Longrightarrow> unreserved (hex_char n)"
proof -
  have "list_all (\<lambda>n. unreserved (hex_char n)) [0..<16]"
    by code_simp
  then show "n < 16 \<Longrightarrow> unreserved (hex_char n)"
    by (simp add: list_all_iff)
qed

lemma encoding_chars: "list_all encoded_char (toPercentEncoding s)"
proof (induction s)
  case (Cons c s)
  have "(of_char c :: nat) < 256"
    by (simp add: nat_of_char_less_256)
  then show ?case
    using Cons by (auto simp: toPercentEncoding_def encoded_char_def hex_char_unreserved div_less_iff_less_mult)
qed (simp add: toPercentEncoding_def)

lemma unreserved_encoded: "list_all unreserved s \<Longrightarrow> list_all encoded_char s"
  by (auto simp: list_all_iff encoded_char_def)

lemma encoded_char_not: "encoded_char c \<Longrightarrow> c \<notin> set ''&=?#: ''"
  using unreserved_not by (auto simp: encoded_char_def)


section \<open>Reading back what was written\<close>

lemma before_char_split: "d \<notin> set a \<Longrightarrow> before_char d (a @ d # b) = a"
  by (induction a) (auto simp: before_char_def)

lemma before_char_none: "d \<notin> set a \<Longrightarrow> before_char d a = a"
  by (auto simp: before_char_def takeWhile_eq_all_conv)

lemma after_char_split: "d \<notin> set a \<Longrightarrow> after_char d (a @ d # b) = b"
  by (induction a) (auto simp: after_char_def)

lemma after_char_none: "d \<notin> set a \<Longrightarrow> after_char d a = []"
  by (induction a) (auto simp: after_char_def)

lemma no_sep:
  assumes "list_all encoded_char s"
  shows "CHR ''&'' \<notin> set s" "CHR ''='' \<notin> set s" "CHR ''?'' \<notin> set s" "CHR ''#'' \<notin> set s" "CHR '':'' \<notin> set s"
  using assms encoded_char_not by (auto simp: list_all_iff)

definition query_item :: "string \<times> string \<Rightarrow> string" where
  "query_item i = fst i @ CHR ''='' # snd i"

definition item_ok :: "string \<times> string \<Rightarrow> bool" where
  "item_ok i \<longleftrightarrow> list_all encoded_char (fst i) \<and> list_all encoded_char (snd i)"

lemma item_no_sep:
  assumes "item_ok i"
  shows "CHR ''&'' \<notin> set (query_item i)" "CHR ''#'' \<notin> set (query_item i)" "query_item i \<noteq> []"
    "before_char CHR ''='' (query_item i) = fst i" "after_char CHR ''='' (query_item i) = snd i"
  using assms no_sep [of "fst i"] no_sep [of "snd i"]
  by (auto simp: item_ok_def query_item_def before_char_split after_char_split)

fun join_items :: "(string \<times> string) list \<Rightarrow> string" where
  "join_items [] = []"
| "join_items [i] = query_item i"
| "join_items (i # j # is) = query_item i @ CHR ''&'' # join_items (j # is)"

lemma read_items: "list_all item_ok is \<Longrightarrow> query_items (join_items is) = is"
proof (induction "is" rule: join_items.induct)
  case (2 i)
  then show ?case
    using item_no_sep [of i] by (simp add: query_items.simps before_char_none after_char_none)
next
  case (3 i j "is")
  then show ?case
    using item_no_sep [of i] by (simp add: query_items.simps before_char_split after_char_split)
qed (simp add: query_items.simps)

lemma items_chars: "list_all item_ok is \<Longrightarrow> CHR ''#'' \<notin> set (join_items is)"
  by (induction "is" rule: join_items.induct) (auto simp: item_no_sep)

text \<open>The items of a request, in their order.\<close>

definition request_items :: "(string \<Rightarrow> u64 option) \<Rightarrow> string \<Rightarrow> string \<Rightarrow> string \<Rightarrow> (string \<times> string) list" where
  "request_items cur amount payment_id label =
     (if parseAmount cur amount \<noteq> 0 then [(''amount'', amount)] else []) @
     (if payment_id \<noteq> [] then [(''payment_id'', payment_id)] else []) @
     (if label \<noteq> [] then [(''label'', toPercentEncoding label)] else [])"

lemma request_text_items:
  "request_text cur a amount pid label = ''karbowanec:'' @ a @
     (let is = request_items cur amount pid label in if is = [] then [] else CHR ''?'' # join_items is)"
  by (simp add: request_text_def request_items_def query_item_def)

lemma items_ok:
  assumes "list_all unreserved amount" "list_all unreserved pid"
  shows "list_all item_ok (request_items cur amount pid label)"
proof -
  have "list_all encoded_char ''amount''" "list_all encoded_char ''payment_id''" "list_all encoded_char ''label''"
    by code_simp+
  then show ?thesis
    using assms by (auto simp: request_items_def item_ok_def unreserved_encoded encoding_chars)
qed

text \<open>QUrl takes texts of this form for valid; nothing more is asked of it.\<close>

definition accepts_urls :: "url_lib \<Rightarrow> bool" where
  "accepts_urls U \<longleftrightarrow> (\<forall>a q. a \<noteq> [] \<and> list_all unreserved a \<and> list_all (\<lambda>c. encoded_char c \<or> c \<in> set ''?&='') q \<longrightarrow>
     ul_valid U (''karbowanec:'' @ a @ q))"

lemma join_chars: "list_all item_ok is \<Longrightarrow> list_all (\<lambda>c. encoded_char c \<or> c \<in> set ''?&='') (join_items is)"
  by (induction "is" rule: join_items.induct) (auto simp: item_ok_def query_item_def list_all_iff)

definition asked :: "(string \<Rightarrow> u64 option) \<Rightarrow> receive_frame \<Rightarrow> pay_url" where
  "asked cur s = \<lparr>u_address = rq_address s, u_amount = (if parseAmount cur (rq_amount s) \<noteq> 0 then rq_amount s else []),
     u_paymentId = rq_paymentId s, u_label = rq_label s\<rparr>"

definition fields_ok :: "url_lib \<Rightarrow> receive_frame \<Rightarrow> bool" where
  "fields_ok U s \<longleftrightarrow> rq_address s \<noteq> [] \<and> list_all unreserved (rq_address s) \<and> list_all unreserved (rq_amount s) \<and>
     list_all unreserved (rq_paymentId s) \<and> (\<forall>c\<in>set (rq_label s). unreserved c \<or> ul_decodes U c)"

lemma request_read_back:
  assumes "accepts_urls U" "fields_ok U s"
  shows "read_url U (request_text cur (rq_address s) (rq_amount s) (rq_paymentId s) (rq_label s)) = Some (asked cur s)"
proof -
  let ?is = "request_items cur (rq_amount s) (rq_paymentId s) (rq_label s)"
  let ?q = "if ?is = [] then [] else CHR ''?'' # join_items ?is"
  let ?t = "''karbowanec:'' @ rq_address s @ ?q"
  have f: "rq_address s \<noteq> []" "list_all unreserved (rq_address s)" "list_all unreserved (rq_amount s)"
    "list_all unreserved (rq_paymentId s)" "\<forall>c\<in>set (rq_label s). unreserved c \<or> ul_decodes U c"
    using assms(2) by (simp_all add: fields_ok_def)
  have ok: "list_all item_ok ?is"
    using f by (intro items_ok)
  have q: "list_all (\<lambda>c. encoded_char c \<or> c \<in> set ''?&='') ?q"
    using join_chars [OF ok] by simp
  have valid: "ul_valid U ?t"
    using assms(1) f q unfolding accepts_urls_def by blast
  have "\<not> is_space c" if "encoded_char c \<or> c \<in> set ''?&=''" for c
    using that unreserved_no_space by (auto simp: encoded_char_def is_space_def)
  then have "\<forall>c\<in>set ?q. \<not> is_space c"
    using q unfolding list_all_iff by blast
  moreover have "\<forall>c\<in>set (rq_address s). \<not> is_space c"
    using f(2) unreserved_no_space unfolding list_all_iff by blast
  moreover have "\<forall>c\<in>set ''karbowanec:''. \<not> is_space c"
    by (simp add: is_space_def)
  ultimately have "\<forall>c\<in>set ?t. \<not> is_space c"
    unfolding set_append by blast
  then have t: "trimmed ?t = ?t"
    by (rule trimmed_no_space)
  have rest: "after_char CHR '':'' ?t = rq_address s @ ?q"
    by (simp add: after_char_def)
  have a: "CHR ''?'' \<notin> set (rq_address s)" "CHR ''#'' \<notin> set (rq_address s)"
    using no_sep [OF unreserved_encoded [OF f(2)]] by simp_all
  have hash: "CHR ''#'' \<notin> set (rq_address s @ ?q)"
    using a items_chars [OF ok] by simp
  have path: "before_char CHR ''?'' (before_char CHR ''#'' (rq_address s @ ?q)) = rq_address s"
    using a by (simp add: before_char_none [OF hash] before_char_split before_char_none)
  have query: "before_char CHR ''#'' (after_char CHR ''?'' (rq_address s @ ?q)) = join_items ?is"
    using a items_chars [OF ok] by (simp add: after_char_split after_char_none before_char_none)
  have vals: "queryItemValue U (join_items ?is) ''amount'' = u_amount (asked cur s)"
    "queryItemValue U (join_items ?is) ''payment_id'' = u_paymentId (asked cur s)"
    "queryItemValue U (join_items ?is) ''label'' = u_label (asked cur s)"
    using pretty_unreserved [OF f(3)] pretty_unreserved [OF f(4)] pretty_encoded [OF f(5)]
    by (simp_all add: queryItemValue_def read_items [OF ok], simp_all add: request_items_def asked_def)
  have "CHR '':'' \<in> set ?t"
    by simp
  then have "read_url U ?t = Some \<lparr>u_address = rq_address s, u_amount = u_amount (asked cur s),
      u_paymentId = u_paymentId (asked cur s), u_label = u_label (asked cur s)\<rparr>"
    unfolding read_url_def Let_def t by (simp only: rest path query vals valid if_True not_True_eq_False if_False)
  then show ?thesis
    by (simp add: request_text_items Let_def asked_def)
qed


section \<open>From the receiver to the payer\<close>

text \<open>The events at whose end the request is made again from the fields.\<close>

fun remakes :: "rq_event \<Rightarrow> bool" where
  "remakes (RqOpened _ _) = True"
| "remakes (RqAmount _) = True"
| "remakes (RqPaymentId _) = True"
| "remakes (RqLabel _) = True"
| "remakes (RqCurrent a) = (a \<noteq> [])"
| "remakes (RqInit _ st) = (st = 0)"
| "remakes _ = False"

lemma remade: "remakes e \<Longrightarrow> \<exists>r. rq_do cur e s = generateRequest cur r"
  by (cases e) (auto simp: rq_onCurrentAddressChanged_def rq_cryptoNoteAdapterInitCompleted_def rq_walletOpened_def)

lemma generated:
  "rq_request (generateRequest cur r) = request_text cur (rq_address r) (rq_amount r) (rq_paymentId r) (rq_label r)"
  "rq_address (generateRequest cur r) = rq_address r" "rq_amount (generateRequest cur r) = rq_amount r"
  "rq_paymentId (generateRequest cur r) = rq_paymentId r" "rq_label (generateRequest cur r) = rq_label r"
  "rq_shown (generateRequest cur r) = rq_request (generateRequest cur r)"
  "rq_qr (generateRequest cur r) = rq_request (generateRequest cur r)"
  by (simp_all add: generateRequest_def Let_def)

text \<open>What is shown, drawn and copied is one text, after every event.\<close>

lemma one_request:
  "rq_shown s = rq_request s \<and> rq_qr s = rq_request s \<Longrightarrow>
    rq_shown (rq_do cur e s) = rq_request (rq_do cur e s) \<and> rq_qr (rq_do cur e s) = rq_request (rq_do cur e s)"
  by (cases e) (auto simp: rq_onCurrentAddressChanged_def rq_cryptoNoteAdapterInitCompleted_def rq_walletOpened_def
    rq_walletClosed_def generatePaymentIdClicked_def rq_setCurrentAddressState_def generateRequest_def Let_def
    split: option.splits)

lemma set_fields:
  "te_address (te_setAddress E ab c x t) = x" "te_amount (te_setAddress E ab c x t) = te_amount t"
  "te_label (te_setLabel ab y t) = y" "te_address (te_setLabel ab y t) = te_address t"
  "te_amount (te_setLabel ab y t) = te_amount t"
  by (simp_all add: te_setAddress_def te_addressChanged_def te_labelOrAddressChanged_def te_setLabel_def Let_def)

lemma one_recipient:
  assumes "sf_transfers s = [t]"
  shows "\<exists>t'. sf_transfers (sf_setAddress E ab c 0 x s) = [t'] \<and> te_address t' = x"
    "sf_paymentId (sf_setAddress E ab c 0 x s) = sf_paymentId s"
    "\<exists>t'. sf_transfers (sf_setAmount E p 0 y s) = [t'] \<and> te_amount t' = y \<and> te_address t' = te_address t"
    "sf_paymentId (sf_setAmount E p 0 y s) = sf_paymentId s"
    "\<exists>t'. sf_transfers (sf_setLabel ab 0 z s) = [t'] \<and> te_label t' = z \<and> te_amount t' = te_amount t \<and> te_address t' = te_address t"
    "sf_paymentId (sf_setLabel ab 0 z s) = sf_paymentId s"
  using assms
  by (simp_all add: sf_setAddress_def sf_setAmount_def sf_setLabel_def sf_recheck_def sf_amountStringChanged_def show_fee_def
      te_validateAmount_def te_setAmountError_def set_fields Let_def)

lemma cleared_form: "sf_transfers (sf_addRecipientClicked E (sf_clearAll E s)) = [buttons True False (te_new (sn_zeroText E))]"
  by (simp add: sf_clearAll_def sf_amountStringChanged_def show_fee_def sf_mixinValueChanged_def sf_setPaymentId_def
      sf_validatePaymentId_def sf_recheck_def sf_addRecipientClicked_def Let_def)

lemma set_payment_id: "sf_paymentId (sf_setPaymentId E p s) = p" "sf_transfers (sf_setPaymentId E p s) = sf_transfers s"
  by (simp_all add: sf_setPaymentId_def sf_validatePaymentId_def sf_recheck_def)

lemma filled_form:
  assumes "sn_valid E (u_address u)"
  shows "\<exists>t. sf_transfers (sf_urlReceived E ab completion positive (Some u) s) = [t] \<and> te_address t = u_address u \<and>
    te_amount t = sn_urlText E (u_amount u) \<and> te_label t = u_label u \<and>
    sf_paymentId (sf_urlReceived E ab completion positive (Some u) s) = u_paymentId u"
proof -
  let ?s1 = "sf_setAddress E ab completion 0 (u_address u) (sf_addRecipientClicked E (sf_clearAll E s))"
  let ?s2 = "sf_setAmount E positive 0 (sn_urlText E (u_amount u)) ?s1"
  obtain t1 where t1: "sf_transfers ?s1 = [t1]" "te_address t1 = u_address u"
    using one_recipient(1) [OF cleared_form] by blast
  obtain t2 where t2: "sf_transfers ?s2 = [t2]" "te_amount t2 = sn_urlText E (u_amount u)" "te_address t2 = u_address u"
    using one_recipient(3) [OF t1(1)] t1(2) by metis
  show ?thesis
    using one_recipient(5) [OF t2(1), of ab "u_label u"] assms t2 by (auto simp: sf_urlReceived_def set_payment_id)
qed


definition sample_url_lib :: url_lib where
  "sample_url_lib = \<lparr>ul_valid = (\<lambda>_. True), ul_decodes = (\<lambda>c. c \<in> set '' !'')\<rparr>"

definition sample_receive :: receive_frame where
  "sample_receive = fold (rq_do (\<lambda>_. Some 1))
     ([RqOpened ''krb'' ''A'', RqAmount ''1.5'', RqClosed, RqCurrent ''Kx1'', RqGenerateId ''ab''] @ [RqLabel ''For you!''])
     (rq_new ''0'')"

text \<open>The new payment id is not in the request before a field is edited again.\<close>

lemma payment_id_late:
  "rq_request (generatePaymentIdClicked ''ab'' (generateRequest cur r)) = rq_request (generateRequest cur r)"
  "rq_paymentId (generatePaymentIdClicked ''ab'' r) = ''6162''"
  by (simp_all add: generatePaymentIdClicked_def lower_hex_def hex_char_def lower_char_def)

text \<open>A closed wallet's request stays shown.\<close>

lemma request_of_closed_wallet: "rq_shown (rq_walletClosed s) = rq_shown s \<and> rq_qr (rq_walletClosed s) = rq_qr s"
  by (simp add: rq_walletClosed_def)

lemma one_amount: "parseAmount (\<lambda>_. Some 1) ''1.5'' = 1"
  by (simp add: parseAmount_def starts_with_def trimmed_def is_space_def)

lemma sample_receive_value: "rq_address sample_receive = ''Kx1''" "rq_amount sample_receive = ''1.5''"
  "rq_paymentId sample_receive = ''6162''" "rq_label sample_receive = ''For you!''"
  "rq_request sample_receive = request_text (\<lambda>_. Some 1) ''Kx1'' ''1.5'' ''6162'' ''For you!''"
  by (simp_all add: sample_receive_def rq_walletOpened_def rq_walletClosed_def rq_onCurrentAddressChanged_def
      generatePaymentIdClicked_def generated lower_hex_def hex_char_def lower_char_def)

lemma sample_request:
  "request_text (\<lambda>_. Some 1) ''Kx1'' ''1.5'' ''6162'' ''For you!'' = ''karbowanec:Kx1?amount=1.5&payment_id=6162&label=For%20you%21''"
proof -
  have "toPercentEncoding ''For you!'' = ''For%20you%21''"
    by (simp add: toPercentEncoding_def unreserved_def is_digit_def hex_char_def)
  then show ?thesis
    by (simp add: request_text_def one_amount)
qed

lemma sample_url_lib_accepts: "accepts_urls sample_url_lib"
  by (simp add: accepts_urls_def sample_url_lib_def)


end
