(* ===== verification/ExplorerPage.thy ===== *)
theory ExplorerPage
  imports BlockPages Transition
begin

text \<open>
  The page of the block explorer: BlockExplorerFrame
  (src/src/Gui/BlockchainExplorer/BlockExplorerFrame.cpp) over the proxies of
  BlockPages, with the size of the window taken from the view
  (WalletTableView.cpp). The lemmas show that the page buttons always name the
  pages they lead to, and what the search frame keeps.
\<close>

section \<open>The lists behind the page\<close>

text \<open>
  The heights of the first and the last row of the filtered list, when the
  block list has n rows; an index outside the list reads as zero.
\<close>

definition thresholds :: "u32 \<Rightarrow> fb_state \<Rightarrow> u32 \<times> u32" where
  "thresholds n fb =
     (if n = 0 \<or> fb_endHeight fb < fb_beginHeight fb \<or> n \<le> fb_beginHeight fb then (0, 0)
      else (fb_beginHeight fb, min (fb_endHeight fb) (n - 1)))"

text \<open>The rows of the windowed list.\<close>

definition shown_rows :: "u32 \<Rightarrow> fb_state \<Rightarrow> window \<Rightarrow> nat" where
  "shown_rows n fb w = length [k\<leftarrow>[0..<unat n]. fb_accepts fb False (of_nat k) \<and> wn_accepts w (of_nat k)]"

text \<open>The texts of the two buttons, None for a hidden one, and whether the top button is shown.\<close>

definition prev_text :: "u32 \<times> u32 \<Rightarrow> string option" where
  "prev_text i = (if fst i = INVALID_BLOCK_HEIGHT then None
     else Some (''< '' @ dec (unat (fst i)) @ '' - '' @ dec (unat (snd i))))"

definition next_text :: "u32 \<times> u32 \<Rightarrow> string option" where
  "next_text i = (if fst i = INVALID_BLOCK_HEIGHT then None
     else Some (dec (unat (fst i)) @ '' - '' @ dec (unat (snd i)) @ '' >''))"


section \<open>BlockExplorerFrame\<close>

record explorer_page =
  ep_blocks :: u32
  ep_fb :: fb_state
  ep_window :: window
  ep_height :: nat
  ep_prev :: "string option"
  ep_next :: "string option"
  ep_top :: bool
  ep_combo :: block_filter
  ep_begin :: int
  ep_end :: int
  ep_hash :: string
  ep_periodShown :: bool
  ep_searchOn :: bool
  ep_searchText :: string
  ep_searchEnabled :: bool
  ep_resetShown :: bool
  ep_frameShown :: bool
  ep_hideAtEnd :: bool
  ep_autoRows :: bool
  ep_animating :: bool
  ep_preloads :: "(u32 \<times> u32) list"

definition ep_bounds :: "explorer_page \<Rightarrow> u32 \<times> u32" where
  "ep_bounds s = thresholds (ep_blocks s) (ep_fb s)"

definition updateButtonsText :: "explorer_page \<Rightarrow> explorer_page" where
  "updateButtonsText s =
     (let (lower, upper) = ep_bounds s;
          prevInterval = wb_prevPageInterval lower (ep_window s);
          nextInterval = wb_nextPageInterval upper (ep_window s)
      in s\<lparr>ep_prev := prev_text prevInterval, ep_next := next_text nextInterval,
           ep_top := fst nextInterval \<noteq> INVALID_BLOCK_HEIGHT\<rparr>)"

text \<open>The view shows as many rows as fit, at the height of a style's item.\<close>

definition calculateVisibleRowCount :: "explorer_page \<Rightarrow> nat" where
  "calculateVisibleRowCount s = ep_height s div 46"

definition updateRowCount :: "explorer_page \<Rightarrow> explorer_page" where
  "updateRowCount s =
     (let (lower, upper) = ep_bounds s
      in s\<lparr>ep_window := wb_setWindowSize lower upper (of_nat (calculateVisibleRowCount s)) (ep_window s)\<rparr>)"

definition view_resizeEvent :: "nat \<Rightarrow> explorer_page \<Rightarrow> explorer_page" where
  "view_resizeEvent h s =
     (let s1 = s\<lparr>ep_height := h\<rparr>; rows = shown_rows (ep_blocks s) (ep_fb s) (ep_window s)
      in if ep_autoRows s \<and> (h < rows * 46 \<or> rows * 46 + 46 \<le> h) then updateRowCount s1 else s1)"

text \<open>A turned page and the interval it asks the explorer for.\<close>

definition turned :: "window \<times> (u32 \<times> u32) option \<Rightarrow> explorer_page \<Rightarrow> explorer_page" where
  "turned r s = s\<lparr>ep_window := fst r,
     ep_preloads := ep_preloads s @ (case snd r of None \<Rightarrow> [] | Some i \<Rightarrow> [i])\<rparr>"

definition ep_nextPage :: "bool \<Rightarrow> explorer_page \<Rightarrow> explorer_page" where
  "ep_nextPage explorer s = updateButtonsText (turned (wb_nextPage explorer (snd (ep_bounds s)) (ep_window s)) s)"

definition ep_prevPage :: "bool \<Rightarrow> explorer_page \<Rightarrow> explorer_page" where
  "ep_prevPage explorer s = updateButtonsText (turned (wb_prevPage explorer (fst (ep_bounds s)) (ep_window s)) s)"

definition windowed_lastPage :: "bool \<Rightarrow> explorer_page \<Rightarrow> explorer_page" where
  "windowed_lastPage explorer s =
     turned (wb_lastPage explorer (fst (ep_bounds s)) (snd (ep_bounds s)) (ep_window s)) s"

definition ep_lastPage :: "bool \<Rightarrow> explorer_page \<Rightarrow> explorer_page" where
  "ep_lastPage explorer s = updateButtonsText (windowed_lastPage explorer s)"

definition ep_filterChanged :: "block_filter \<Rightarrow> explorer_page \<Rightarrow> explorer_page" where
  "ep_filterChanged f s = s\<lparr>ep_combo := f, ep_periodShown := f = Custom\<rparr>"

definition windowed_resetFilter :: "bool \<Rightarrow> explorer_page \<Rightarrow> explorer_page" where
  "windowed_resetFilter explorer s = windowed_lastPage explorer (s\<lparr>ep_fb := fb_resetFilter (ep_fb s)\<rparr>)"

definition resetFilter :: "bool \<Rightarrow> int \<Rightarrow> explorer_page \<Rightarrow> explorer_page" where
  "resetFilter explorer now s =
     ep_lastPage explorer (windowed_resetFilter explorer
       ((ep_filterChanged All s)\<lparr>ep_begin := now, ep_end := now, ep_hash := []\<rparr>))"

definition applyFilter :: "bool \<Rightarrow> preloads \<Rightarrow> explorer_page \<Rightarrow> explorer_page" where
  "applyFilter explorer P s =
     ep_lastPage explorer (s\<lparr>ep_fb := fb_setFilter P (ep_combo s) (ep_combo s = Custom) (Some (ep_begin s)) (Some (ep_end s))
       (trimmed (ep_hash s)) (ep_fb s)\<rparr>)"

definition showSearch :: "bool \<Rightarrow> int \<Rightarrow> bool \<Rightarrow> explorer_page \<Rightarrow> explorer_page" where
  "showSearch explorer now on s =
     (let s1 = s\<lparr>ep_searchOn := on, ep_searchText := (if on then ''Hide search'' else ''Show search''), ep_searchEnabled := False\<rparr>;
          s2 = (if on then s1\<lparr>ep_frameShown := True, ep_hideAtEnd := False\<rparr>
                else (resetFilter explorer now s1)\<lparr>ep_hideAtEnd := True\<rparr>)
      in s2\<lparr>ep_autoRows := False, ep_animating := True, ep_resetShown := on\<rparr>)"

text \<open>The slots of the finished animation, in the order they were connected.\<close>

definition animation_finished :: "explorer_page \<Rightarrow> explorer_page" where
  "animation_finished s =
     (let s1 = updateButtonsText (s\<lparr>ep_animating := False\<rparr>);
          s2 = updateRowCount (s1\<lparr>ep_searchEnabled := True, ep_autoRows := True\<rparr>)
      in if ep_hideAtEnd s2 then s2\<lparr>ep_frameShown := False\<rparr> else s2)"

definition ep_cryptoNoteAdapterInitCompleted :: "int \<Rightarrow> explorer_page \<Rightarrow> explorer_page" where
  "ep_cryptoNoteAdapterInitCompleted st s = (if st = 0 then updateButtonsText (updateRowCount s) else s)"

text \<open>The layout resizes the view before the frame's own handler runs.\<close>

definition frame_resizeEvent :: "nat \<Rightarrow> explorer_page \<Rightarrow> explorer_page" where
  "frame_resizeEvent h s = updateButtonsText (view_resizeEvent h s)"

text \<open>Rows added to or removed from the filtered list end in updateButtonsText.\<close>

definition blocks_changed :: "u32 \<Rightarrow> explorer_page \<Rightarrow> explorer_page" where
  "blocks_changed n s =
     (let s1 = s\<lparr>ep_blocks := n\<rparr> in if ep_bounds s1 \<noteq> ep_bounds s then updateButtonsText s1 else s1)"

text \<open>The constructor and setBlockChainModel, for a view of height h; yesterday is one day before now.\<close>

definition ep_new :: "bool \<Rightarrow> int \<Rightarrow> int \<Rightarrow> nat \<Rightarrow> u32 \<Rightarrow> explorer_page" where
  "ep_new explorer yesterday now h n =
     ep_lastPage explorer (updateRowCount (updateRowCount
       \<lparr>ep_blocks = n, ep_fb = fb_new, ep_window = wn_new, ep_height = h, ep_prev = None, ep_next = None, ep_top = False,
        ep_combo = All, ep_begin = yesterday, ep_end = now, ep_hash = [], ep_periodShown = False, ep_searchOn = False,
        ep_searchText = ''Show search'', ep_searchEnabled = True, ep_resetShown = False, ep_frameShown = False,
        ep_hideAtEnd = False, ep_autoRows = True, ep_animating = False, ep_preloads = []\<rparr>))"

datatype ep_event = EpNext bool | EpPrev bool | EpLast bool | EpSearch bool int bool | EpAnimationEnd | EpApply bool preloads
  | EpReset bool int | EpCombo block_filter | EpPeriod int int | EpHash string | EpInit int | EpResize nat | EpLayout nat
  | EpBlocks u32

fun ep_do :: "ep_event \<Rightarrow> explorer_page \<Rightarrow> explorer_page" where
  "ep_do (EpNext x) s = ep_nextPage x s"
| "ep_do (EpPrev x) s = ep_prevPage x s"
| "ep_do (EpLast x) s = ep_lastPage x s"
| "ep_do (EpSearch x now on) s = showSearch x now on s"
| "ep_do EpAnimationEnd s = animation_finished s"
| "ep_do (EpApply x P) s = applyFilter x P s"
| "ep_do (EpReset x now) s = resetFilter x now s"
| "ep_do (EpCombo f) s = ep_filterChanged f s"
| "ep_do (EpPeriod b e) s = s\<lparr>ep_begin := b, ep_end := e\<rparr>"
| "ep_do (EpHash h) s = s\<lparr>ep_hash := h\<rparr>"
| "ep_do (EpInit st) s = ep_cryptoNoteAdapterInitCompleted st s"
| "ep_do (EpResize h) s = frame_resizeEvent h s"
| "ep_do (EpLayout h) s = view_resizeEvent h s"
| "ep_do (EpBlocks n) s = blocks_changed n s"

text \<open>Only shown or enabled controls are used; only the animation resizes the view alone.\<close>

fun ep_can :: "ep_event \<Rightarrow> explorer_page \<Rightarrow> bool" where
  "ep_can (EpNext _) s \<longleftrightarrow> ep_next s \<noteq> None"
| "ep_can (EpPrev _) s \<longleftrightarrow> ep_prev s \<noteq> None"
| "ep_can (EpSearch _ _ on) s \<longleftrightarrow> ep_searchEnabled s \<and> on \<noteq> ep_searchOn s"
| "ep_can EpAnimationEnd s \<longleftrightarrow> ep_animating s"
| "ep_can (EpApply _ _) s \<longleftrightarrow> ep_frameShown s"
| "ep_can (EpReset _ _) s \<longleftrightarrow> ep_resetShown s"
| "ep_can (EpCombo _) s \<longleftrightarrow> ep_frameShown s"
| "ep_can (EpPeriod _ _) s \<longleftrightarrow> ep_periodShown s"
| "ep_can (EpHash _) s \<longleftrightarrow> ep_frameShown s"
| "ep_can (EpLayout _) s \<longleftrightarrow> ep_animating s"
| "ep_can _ s \<longleftrightarrow> True"

definition ep_start :: "explorer_page \<Rightarrow> bool" where
  "ep_start s \<longleftrightarrow> (\<exists>x yesterday now h n. s = ep_new x yesterday now h n)"

definition ep_step :: "explorer_page \<Rightarrow> explorer_page \<Rightarrow> bool" where
  "ep_step s t \<longleftrightarrow> (\<exists>ev. ep_can ev s \<and> t = ep_do ev s)"


section \<open>The bounds are those of the filtered list\<close>

lemma thresholds_least_greatest:
  assumes "n \<noteq> 0" "k < n" "fb_accepts fb False k"
  shows "fb_accepts fb False (fst (thresholds n fb)) \<and> fst (thresholds n fb) < n \<and> fst (thresholds n fb) \<le> k \<and>
    fb_accepts fb False (snd (thresholds n fb)) \<and> snd (thresholds n fb) < n \<and> k \<le> snd (thresholds n fb)"
proof -
  have k: "fb_beginHeight fb \<le> k" "k \<le> fb_endHeight fb"
    using assms(3) by (simp_all add: fb_accepts_def)
  have last: "unat (n - 1) = unat n - 1" "0 < unat n"
    using assms(1) by (simp_all add: unat_pred unat_gt_0)
  have "thresholds n fb = (fb_beginHeight fb, min (fb_endHeight fb) (n - 1))"
    using assms(1,2) k by (auto simp: thresholds_def)
  then show ?thesis
    using assms(2) k last by (auto simp: fb_accepts_def word_le_nat_alt word_less_nat_alt min_def)
qed


section \<open>The buttons\<close>

definition buttons_ok :: "explorer_page \<Rightarrow> bool" where
  "buttons_ok s \<longleftrightarrow>
     ep_prev s = prev_text (wb_prevPageInterval (fst (ep_bounds s)) (ep_window s)) \<and>
     ep_next s = next_text (wb_nextPageInterval (snd (ep_bounds s)) (ep_window s)) \<and>
     (ep_top s \<longleftrightarrow> ep_next s \<noteq> None)"

lemma updated_buttons: "buttons_ok (updateButtonsText s)"
  by (cases "ep_bounds s") (simp add: buttons_ok_def updateButtonsText_def ep_bounds_def next_text_def Let_def)

lemma buttons_cong:
  assumes "buttons_ok s" "ep_bounds t = ep_bounds s" "ep_window t = ep_window s" "ep_prev t = ep_prev s"
    "ep_next t = ep_next s" "ep_top t = ep_top s"
  shows "buttons_ok t"
  using assms by (simp add: buttons_ok_def)

text \<open>What the buttons say of a page inside the list.\<close>

lemma small_valid: "unat (k :: u32) < 2 ^ 31 \<Longrightarrow> k \<noteq> INVALID_BLOCK_HEIGHT"
proof -
  have "unat INVALID_BLOCK_HEIGHT = 2 ^ 32 - 1"
    by (simp add: INVALID_BLOCK_HEIGHT_def unsigned_minus_1_eq_mask mask_eq_exp_minus_1)
  then show "unat k < 2 ^ 31 \<Longrightarrow> k \<noteq> INVALID_BLOCK_HEIGHT"
    by auto
qed

lemma buttons_say:
  assumes "buttons_ok s" "ep_bounds s = (lower, upper)" "page_ok lower upper (ep_window s)" "small upper"
  shows "ep_prev s = None \<longleftrightarrow> wn_begin (ep_window s) = lower"
    and "ep_next s = None \<longleftrightarrow> unat (wn_begin (ep_window s)) + unat (wn_size (ep_window s)) = unat upper + 1"
proof -
  let ?w = "ep_window s"
  note n = page_numbers [OF assms(3,4)]
  have "unat (prev_begin lower ?w) = max (unat lower) (unat (wn_begin ?w) - unat (wn_size ?w))"
    using n by (auto simp: prev_begin_def word_less_nat_alt max_def unat_sub_le)
  then have "prev_begin lower ?w \<noteq> INVALID_BLOCK_HEIGHT"
    using n by (intro small_valid) simp
  then show "ep_prev s = None \<longleftrightarrow> wn_begin ?w = lower"
    using assms(1,2) by (simp add: buttons_ok_def prev_text_def wb_prevPageInterval_def Let_def)
  have "wn_begin ?w + wn_size ?w \<noteq> INVALID_BLOCK_HEIGHT"
    using n by (intro small_valid) simp
  then show "ep_next s = None \<longleftrightarrow> unat (wn_begin ?w) + unat (wn_size ?w) = unat upper + 1"
    using assms(1,2) n by (auto simp: buttons_ok_def next_text_def wb_nextPageInterval_def word_less_nat_alt Let_def)
qed

fun refreshes :: "ep_event \<Rightarrow> bool" where
  "refreshes (EpNext _) = True"
| "refreshes (EpPrev _) = True"
| "refreshes (EpLast _) = True"
| "refreshes (EpSearch _ _ on) = (\<not> on)"
| "refreshes (EpApply _ _) = True"
| "refreshes (EpReset _ _) = True"
| "refreshes (EpInit st) = (st = 0)"
| "refreshes (EpResize _) = True"
| "refreshes _ = False"

lemma refreshed: "refreshes e \<Longrightarrow> buttons_ok (ep_do e s)"
proof (cases e)
  case (EpSearch x now on)
  moreover assume "refreshes e"
  ultimately have "\<not> on"
    by simp
  let ?t = "resetFilter x now (s\<lparr>ep_searchOn := False, ep_searchText := ''Show search'', ep_searchEnabled := False\<rparr>)"
  have "buttons_ok ?t"
    by (simp add: resetFilter_def ep_lastPage_def updated_buttons)
  then have "buttons_ok (ep_do (EpSearch x now False) s)"
    by (rule buttons_cong) (simp_all add: showSearch_def ep_bounds_def)
  with EpSearch \<open>\<not> on\<close> show ?thesis
    by simp
qed (auto simp: ep_nextPage_def ep_prevPage_def ep_lastPage_def applyFilter_def resetFilter_def frame_resizeEvent_def
    ep_cryptoNoteAdapterInitCompleted_def updated_buttons)


section \<open>The search frame\<close>

text \<open>
  Outside the animation the search button is enabled, the view counts its rows
  and the frame is shown just while the search is on.
\<close>

definition search_ok :: "explorer_page \<Rightarrow> bool" where
  "search_ok s \<longleftrightarrow> ep_searchEnabled s = (\<not> ep_animating s) \<and> ep_autoRows s = (\<not> ep_animating s) \<and>
     ep_resetShown s = ep_searchOn s \<and> ep_searchText s = (if ep_searchOn s then ''Hide search'' else ''Show search'') \<and>
     ep_periodShown s = (ep_combo s = Custom) \<and> (ep_searchOn s \<longrightarrow> ep_frameShown s \<and> \<not> ep_hideAtEnd s) \<and>
     (\<not> ep_searchOn s \<and> ep_animating s \<longrightarrow> ep_hideAtEnd s) \<and>
     (ep_frameShown s \<longrightarrow> ep_searchOn s \<or> ep_animating s)"

definition search_part :: "explorer_page \<Rightarrow> bool \<times> bool \<times> bool \<times> bool \<times> string \<times> bool \<times> bool \<times> bool \<times> bool \<times> block_filter" where
  "search_part s = (ep_searchEnabled s, ep_animating s, ep_autoRows s, ep_searchOn s, ep_searchText s, ep_resetShown s,
     ep_periodShown s, ep_frameShown s, ep_hideAtEnd s, ep_combo s)"

lemma search_ok_cong: "search_ok s \<Longrightarrow> search_part t = search_part s \<Longrightarrow> search_ok t"
  unfolding search_ok_def search_part_def by simp

lemma search_part_kept:
  "search_part (updateButtonsText s) = search_part s" "search_part (updateRowCount s) = search_part s"
  "search_part (turned r s) = search_part s" "search_part (view_resizeEvent h s) = search_part s"
  "search_part (s\<lparr>ep_fb := fb\<rparr>) = search_part s" "search_part (s\<lparr>ep_blocks := n\<rparr>) = search_part s"
  "search_part (s\<lparr>ep_begin := b, ep_end := e, ep_hash := h'\<rparr>) = search_part s"
  "search_part (s\<lparr>ep_begin := b, ep_end := e\<rparr>) = search_part s" "search_part (s\<lparr>ep_hash := h'\<rparr>) = search_part s"
  by (simp_all add: search_part_def updateButtonsText_def updateRowCount_def turned_def view_resizeEvent_def Let_def split: prod.split)

lemma page_search:
  "search_part (ep_nextPage x s) = search_part s" "search_part (ep_prevPage x s) = search_part s"
  "search_part (ep_lastPage x s) = search_part s" "search_part (windowed_lastPage x s) = search_part s"
  "search_part (frame_resizeEvent h s) = search_part s" "search_part (blocks_changed n s) = search_part s"
  "search_part (applyFilter x P s) = search_part s" "search_part (ep_cryptoNoteAdapterInitCompleted st s) = search_part s"
  by (simp_all add: ep_nextPage_def ep_prevPage_def ep_lastPage_def windowed_lastPage_def frame_resizeEvent_def
      blocks_changed_def applyFilter_def ep_cryptoNoteAdapterInitCompleted_def search_part_kept Let_def)

lemma reset_search: "search_part (resetFilter x now s) = search_part (ep_filterChanged All s)"
  by (simp add: resetFilter_def windowed_resetFilter_def page_search search_part_kept)

lemma combo_search: "search_ok s \<Longrightarrow> search_ok (ep_filterChanged f s)"
  by (simp add: search_ok_def ep_filterChanged_def)

lemma search_new: "search_ok (ep_new x y now h n)"
  unfolding ep_new_def
  by (rule search_ok_cong [OF _ trans [OF page_search(3) trans [OF search_part_kept(2) search_part_kept(2)]]]) (simp add: search_ok_def)

lemma search_step:
  assumes "search_ok s" "ep_can e s"
  shows "search_ok (ep_do e s)"
proof (cases e)
  case (EpSearch x now on)
  show ?thesis
  proof (cases on)
    case True
    with assms(1) EpSearch show ?thesis
      by (simp add: showSearch_def search_ok_def Let_def)
  next
    case False
    let ?s = "s\<lparr>ep_searchOn := False, ep_searchText := ''Show search'', ep_searchEnabled := False\<rparr>"
    have on: "ep_searchOn s" "ep_searchEnabled s"
      using assms(2) EpSearch False by auto
    have "search_part (resetFilter x now ?s) = search_part (ep_filterChanged All ?s)"
      by (rule reset_search)
    with False EpSearch on assms(1) show ?thesis
      by (simp add: showSearch_def search_ok_def search_part_def ep_filterChanged_def Let_def)
  qed
next
  case EpAnimationEnd
  let ?s = "updateRowCount ((updateButtonsText (s\<lparr>ep_animating := False\<rparr>))\<lparr>ep_searchEnabled := True, ep_autoRows := True\<rparr>)"
  have "search_part ?s = search_part (s\<lparr>ep_animating := False, ep_searchEnabled := True, ep_autoRows := True\<rparr>)"
    using search_part_kept(1) [of "s\<lparr>ep_animating := False\<rparr>"] by (simp add: search_part_kept(2)) (simp add: search_part_def)
  with EpAnimationEnd assms show ?thesis
    by (auto simp: animation_finished_def search_ok_def search_part_def Let_def)
next
  case (EpReset x now)
  then show ?thesis
    using search_ok_cong [OF combo_search [OF assms(1)] reset_search] by simp
next
  case (EpCombo f)
  with assms(1) show ?thesis
    by (simp add: combo_search)
qed (use assms(1) page_search search_part_kept in \<open>auto intro: search_ok_cong\<close>)

interpretation explorer_search: inductive_invariant ep_start ep_step search_ok
proof
  show "search_ok s" if "ep_start s" for s
    using that search_new by (auto simp: ep_start_def)
  show "search_ok t" if "search_ok s" "ep_step s t" for s t
    using that search_step by (auto simp: ep_step_def)
qed

lemma buttons_stay:
  assumes "buttons_ok s" "ep_can e s" "e \<noteq> EpAnimationEnd" "search_ok s"
  shows "buttons_ok (ep_do e s)"
proof (cases "refreshes e")
  case False
  show ?thesis
  proof (cases e)
    case (EpBlocks n)
    then show ?thesis
      using buttons_cong [OF assms(1), of "s\<lparr>ep_blocks := n\<rparr>"] updated_buttons by (auto simp: blocks_changed_def Let_def)
  next
    case (EpLayout h)
    then have "\<not> ep_autoRows s"
      using assms by (auto simp: search_ok_def)
    then show ?thesis
      using EpLayout buttons_cong [OF assms(1), of "s\<lparr>ep_height := h\<rparr>"] by (simp add: view_resizeEvent_def ep_bounds_def)
  qed (use False assms(3) in \<open>auto intro!: buttons_cong [OF assms(1)] simp: showSearch_def ep_filterChanged_def ep_bounds_def
      ep_cryptoNoteAdapterInitCompleted_def Let_def\<close>)
qed (rule refreshed)


section \<open>The page of the explorer\<close>


text \<open>Twenty blocks, a view of ten rows; the search takes two of them.\<close>

definition sample_page :: explorer_page where
  "sample_page = ep_new True 0 86400 460 20"

definition sample_searching :: explorer_page where
  "sample_searching = ep_do EpAnimationEnd (ep_do (EpLayout 390) (ep_do (EpSearch True 86400 True) sample_page))"


text \<open>After the animation the button still says 0 - 9, but it leads to 4 - 11.\<close>

lemma buttons_left_behind:
  "ep_prev sample_searching = Some ''< 0 - 9''" "\<not> buttons_ok sample_searching"
  "ep_prev (updateButtonsText sample_searching) = Some ''< 4 - 11''"
  by code_simp+

text \<open>A filter applied while the frame is being hidden stays without the frame.\<close>

lemma filter_without_search:
  assumes "search_ok s" "\<not> ep_searchOn s" "ep_frameShown s"
    and t_def: "t = ep_do EpAnimationEnd (ep_do (EpApply x P) s)"
  shows "ep_can (EpApply x P) s" "\<not> ep_frameShown t" "ep_fb t = fb_setFilter P (ep_combo s) (ep_combo s = Custom)
    (Some (ep_begin s)) (Some (ep_end s)) (trimmed (ep_hash s)) (ep_fb s)"
  using assms
  by (auto simp: search_ok_def t_def animation_finished_def applyFilter_def ep_lastPage_def windowed_lastPage_def
      turned_def updateRowCount_def updateButtonsText_def Let_def split: prod.split)

end
