(* ===== verification/TransferLists.thy ===== *)
theory TransferLists
  imports TransactionsModel Styles
begin

text \<open>
  The transfers drawn inside a row of the history: DrawableTransfersModel over
  TransfersModel, TransactionTransfersRenderer and the sizes and columns of
  TransactionsDelegate (src/src/Gui/Transactions). Colours are their texts, an
  invalid index is None. The lemmas show that the rows that are drawn fit the
  height of the history row, and what the line that stands for all transfers
  adds up.
\<close>

section \<open>DrawableTransfersModel\<close>

record drawable =
  dw_details :: bool
  dw_source :: "wallet_transfer list"
  dw_address :: string

text \<open>The adapter's two amount formats, the address parser, the transaction's key and the current style.\<close>

record draw_env =
  de_amount :: "i64 \<Rightarrow> string"
  de_short :: "i64 \<Rightarrow> string"
  de_readable :: "string \<Rightarrow> bool"
  de_txKey :: skey
  de_style :: style

definition dw_new :: "string \<Rightarrow> drawable" where
  "dw_new address = \<lparr>dw_details = False, dw_source = [], dw_address = address\<rparr>"

definition dw_showDetails :: "bool \<Rightarrow> drawable \<Rightarrow> drawable" where
  "dw_showDetails on d = d\<lparr>dw_details := on\<rparr>"

definition dw_setSourceModel :: "wallet_transfer list \<Rightarrow> drawable \<Rightarrow> drawable" where
  "dw_setSourceModel ts d =
     (let d1 = d\<lparr>dw_source := ts\<rparr> in if tf_rowCount ts = 1 then d1\<lparr>dw_details := True\<rparr> else d1)"

definition dw_rowCount :: "drawable \<Rightarrow> nat" where
  "dw_rowCount d = (if \<not> dw_details d then 1 else tf_rowCount (dw_source d))"

definition dw_index :: "drawable \<Rightarrow> nat \<Rightarrow> tf_column \<Rightarrow> (nat \<times> tf_column) option" where
  "dw_index d row col = (if row < dw_rowCount d then Some (row, col) else None)"

definition mapToSource :: "drawable \<Rightarrow> (nat \<times> tf_column) option \<Rightarrow> (nat \<times> tf_column) option" where
  "mapToSource d i = (if dw_details d then i else None)"

definition mapFromSource :: "drawable \<Rightarrow> (nat \<times> tf_column) option \<Rightarrow> (nat \<times> tf_column) option" where
  "mapFromSource d i =
     (case i of
        Some (row, col) \<Rightarrow> if dw_details d then dw_index d row col else Some (0, TF_ADDRESS)
      | None \<Rightarrow> if \<not> dw_details d then Some (0, TF_ADDRESS) else None)"

text \<open>QAbstractProxyModel::data: the source's data at the mapped index; None is an access past the transfers.\<close>

definition proxied :: "draw_env \<Rightarrow> drawable \<Rightarrow> (nat \<times> tf_column) option \<Rightarrow> role \<Rightarrow> qvariant option" where
  "proxied E d i role =
     (case mapToSource d i of
        None \<Rightarrow> Some QNull
      | Some (row, col) \<Rightarrow> tf_data (de_amount E) (de_readable E) (de_txKey E) (dw_source d) row col role)"

definition user_role :: "tf_role \<Rightarrow> role" where
  "user_role r = UserRole (case r of TFR_ADDRESS \<Rightarrow> 0 | TFR_AMOUNT \<Rightarrow> 1 | TFR_PROOF \<Rightarrow> 2 | TFR_TYPE \<Rightarrow> 3 | TFR_ICON \<Rightarrow> 4 | TFR_IS_DONATION \<Rightarrow> 5)"

definition dw_getDisplayRole :: "draw_env \<Rightarrow> drawable \<Rightarrow> (nat \<times> tf_column) option \<Rightarrow> qvariant option" where
  "dw_getDisplayRole E d i =
     (case map_option snd i of
        Some TF_ADDRESS \<Rightarrow>
          (case proxied E d i (user_role TFR_TYPE) of
             None \<Rightarrow> None
           | Some t \<Rightarrow> if t = QInt 2 then Some (QStr ''Change'')
               else (case proxied E d i DisplayRole of
                   None \<Rightarrow> None
                 | Some (QStr address) \<Rightarrow> if address = [] then Some (QStr ''Unknown'') else Some (QStr address)
                 | Some _ \<Rightarrow> Some (QStr ''Unknown'')))
      | Some TF_PROOF \<Rightarrow> Some (QStr [])
      | _ \<Rightarrow> proxied E d i DisplayRole)"

definition dw_getDecorationRole :: "draw_env \<Rightarrow> drawable \<Rightarrow> (nat \<times> tf_column) option \<Rightarrow> qvariant option" where
  "dw_getDecorationRole E d i =
     (case map_option snd i of
        Some TF_ADDRESS \<Rightarrow>
          (case proxied E d i (user_role TFR_IS_DONATION) of
             None \<Rightarrow> None
           | Some b \<Rightarrow> if b = QBool True then Some (QPixmap '':icons/donation_small'') else proxied E d i DecorationRole)
      | _ \<Rightarrow> Some QNull)"

definition amount_color :: "draw_env \<Rightarrow> int \<Rightarrow> qvariant" where
  "amount_color E a =
     (if a < 0 then QStr (style_get (de_style E) ''fontColorRed'')
      else if a > 0 then QStr (style_get (de_style E) ''fontColorGreen'') else QNull)"

definition dw_getTextColorRole :: "draw_env \<Rightarrow> drawable \<Rightarrow> (nat \<times> tf_column) option \<Rightarrow> qvariant option" where
  "dw_getTextColorRole E d i =
     (case map_option snd i of
        Some TF_AMOUNT \<Rightarrow> map_option (\<lambda>v. case v of QInt a \<Rightarrow> amount_color E a | _ \<Rightarrow> QNull) (proxied E d i (user_role TFR_AMOUNT))
      | _ \<Rightarrow> Some QNull)"

text \<open>The loop over the source's rows; the sum is a signed 64-bit number.\<close>

fun amount_sum :: "string \<Rightarrow> wallet_transfer list \<Rightarrow> i64 \<Rightarrow> i64" where
  "amount_sum address [] result = result"
| "amount_sum address (f # ts) result = amount_sum address ts (if address = tf_address f then result + tf_amount f else result)"

definition getAmountSum :: "drawable \<Rightarrow> i64" where
  "getAmountSum d = amount_sum (dw_address d) (dw_source d) 0"

definition getAggregatedDisplayRole :: "draw_env \<Rightarrow> drawable \<Rightarrow> (nat \<times> tf_column) option \<Rightarrow> qvariant" where
  "getAggregatedDisplayRole E d i =
     (case map_option snd i of
        Some TF_ADDRESS \<Rightarrow> QStr (''Transaction contains '' @ dec (tf_rowCount (dw_source d)) @ '' transfers'')
      | Some TF_AMOUNT \<Rightarrow> QStr (de_short E (getAmountSum d))
      | _ \<Rightarrow> QNull)"

definition getAggregateTextAlignmentRole :: "(nat \<times> tf_column) option \<Rightarrow> qvariant" where
  "getAggregateTextAlignmentRole i = (case i of Some (_, col) \<Rightarrow> tf_headerData col TextAlignmentRole | None \<Rightarrow> QNull)"

definition getAggregateTextColorRole :: "draw_env \<Rightarrow> drawable \<Rightarrow> (nat \<times> tf_column) option \<Rightarrow> qvariant" where
  "getAggregateTextColorRole E d i =
     (case map_option snd i of
        Some TF_AMOUNT \<Rightarrow> amount_color E (sint (getAmountSum d))
      | Some TF_ADDRESS \<Rightarrow> QStr (style_get (de_style E) ''fontColorGray'')
      | _ \<Rightarrow> QNull)"

definition dw_data :: "draw_env \<Rightarrow> drawable \<Rightarrow> (nat \<times> tf_column) option \<Rightarrow> role \<Rightarrow> qvariant option" where
  "dw_data E d i role =
     (if dw_details d
      then (case role of
              DisplayRole \<Rightarrow> dw_getDisplayRole E d i
            | DecorationRole \<Rightarrow> dw_getDecorationRole E d i
            | ForegroundRole \<Rightarrow> dw_getTextColorRole E d i
            | _ \<Rightarrow> proxied E d i role)
      else Some (case role of
              DisplayRole \<Rightarrow> getAggregatedDisplayRole E d i
            | TextAlignmentRole \<Rightarrow> getAggregateTextAlignmentRole i
            | ForegroundRole \<Rightarrow> getAggregateTextColorRole E d i
            | _ \<Rightarrow> QNull))"


section \<open>The renderer and the delegate\<close>

definition TREE_VIEW_ITEM_HEIGHT :: nat where "TREE_VIEW_ITEM_HEIGHT = 18"

text \<open>shown is the transaction's role of showing its transfers.\<close>

definition renderer_model :: "string \<Rightarrow> bool \<Rightarrow> wallet_transfer list \<Rightarrow> drawable" where
  "renderer_model address shown ts =
     dw_setSourceModel ts (dw_showDetails (tf_rowCount ts \<le> 1 \<or> shown) (dw_new address))"

definition renderer_height :: "drawable \<Rightarrow> nat" where
  "renderer_height d = dw_rowCount d * TREE_VIEW_ITEM_HEIGHT"

definition calculateItemHeight :: "nat \<Rightarrow> nat" where
  "calculateItemHeight n = n * TREE_VIEW_ITEM_HEIGHT + 10"

definition getTransfersColumnSize :: "style \<Rightarrow> bool \<Rightarrow> nat \<Rightarrow> nat" where
  "getTransfersColumnSize st shown n =
     (if shown then max (calculateItemHeight n) (viewItemHeight st) else viewItemHeight st)"

definition delegate_sizeHint :: "style \<Rightarrow> bool \<Rightarrow> bool \<Rightarrow> nat \<Rightarrow> nat" where
  "delegate_sizeHint st transfers_column shown n =
     (if transfers_column then getTransfersColumnSize st shown n else viewItemHeight st)"

text \<open>The pixmap of the button that shows the transfers; None when nothing is drawn.\<close>

definition drawShowTransfersButton :: "bool \<Rightarrow> nat \<Rightarrow> string option" where
  "drawShowTransfersButton shown n =
     (let pixmapFile = (if shown then '':icons/big-up-arrow'' else '':icons/big-down-arrow'')
      in if n < 2 then None else Some pixmapFile)"


section \<open>What is drawn\<close>

lemma renderer_rows: "dw_rowCount (renderer_model address shown ts) = (if length ts \<le> 1 \<or> shown then length ts else 1)"
  by (auto simp: renderer_model_def dw_setSourceModel_def dw_showDetails_def dw_new_def dw_rowCount_def tf_rowCount_def Let_def)

text \<open>The drawn transfers fit the height of their row, whether they are shown or summed up.\<close>

lemma drawn_rows_fit: "renderer_height (renderer_model address shown ts) \<le> getTransfersColumnSize st shown (length ts)"
proof (cases shown)
  case False
  then have "dw_rowCount (renderer_model address shown ts) \<le> 1"
    by (simp add: renderer_rows)
  then show ?thesis
    using False by (simp add: renderer_height_def getTransfersColumnSize_def viewItemHeight_def TREE_VIEW_ITEM_HEIGHT_def)
qed (simp add: renderer_height_def renderer_rows getTransfersColumnSize_def calculateItemHeight_def)

lemma renderer_source: "dw_source (renderer_model address shown ts) = ts" "dw_address (renderer_model address shown ts) = address"
  by (simp_all add: renderer_model_def dw_setSourceModel_def dw_showDetails_def dw_new_def Let_def)

lemma renderer_details: "dw_details (renderer_model address shown ts) \<longleftrightarrow> length ts \<le> 1 \<or> shown"
  by (auto simp: renderer_model_def dw_setSourceModel_def dw_showDetails_def dw_new_def tf_rowCount_def Let_def)

text \<open>Every row that is drawn has its data, and a shown transfer never has an empty address.\<close>

lemma drawn_row_has_data:
  assumes "row < dw_rowCount d"
  shows "\<exists>v. dw_data E d (dw_index d row col) role = Some v"
proof (cases "dw_details d")
  case True
  then have row: "row < length (dw_source d)"
    using assms by (simp add: dw_rowCount_def tf_rowCount_def)
  have p: "\<exists>v. proxied E d (Some (row, col)) r = Some v" for r
    using True row
    by (simp add: proxied_def mapToSource_def tf_data_def tf_getDisplayRole_def tf_getDecorationRole_def tf_getUserRole_def
        tf_at_def split: role.split tf_column.split)
  have "\<exists>v. dw_getDisplayRole E d (Some (row, col)) = Some v"
    using p [of DisplayRole] p [of "user_role TFR_TYPE"]
    by (auto simp: dw_getDisplayRole_def split: tf_column.split qvariant.split)
  moreover have "\<exists>v. dw_getDecorationRole E d (Some (row, col)) = Some v"
    using p [of DecorationRole] p [of "user_role TFR_IS_DONATION"]
    by (auto simp: dw_getDecorationRole_def split: tf_column.split)
  moreover have "\<exists>v. dw_getTextColorRole E d (Some (row, col)) = Some v"
    using p [of "user_role TFR_AMOUNT"] by (auto simp: dw_getTextColorRole_def split: tf_column.split)
  ultimately show ?thesis
    using True assms p by (simp add: dw_data_def dw_index_def split: role.split)
qed (simp add: dw_data_def)

lemma shown_address_not_empty:
  assumes "dw_details d" "row < length (dw_source d)"
  shows "\<exists>t. dw_getDisplayRole E d (Some (row, TF_ADDRESS)) = Some (QStr t) \<and> t \<noteq> [] \<and>
    (tf_type (dw_source d ! row) \<noteq> TF_CHANGE \<and> tf_address (dw_source d ! row) \<noteq> [] \<longrightarrow> t = tf_address (dw_source d ! row))"
  using assms
  by (cases "tf_type (dw_source d ! row)") (simp_all add: dw_getDisplayRole_def proxied_def mapToSource_def user_role_def tf_data_def
      tf_getDisplayRole_def tf_getUserRole_def tf_at_def)


section \<open>The sum\<close>

lemma amount_sum_list: "amount_sum address ts r = r + sum_list (map tf_amount [f\<leftarrow>ts. tf_address f = address])"
  by (induction ts arbitrary: r) (auto simp: algebra_simps)

text \<open>The summed line adds up the transfers of the wallet's first address only.\<close>

lemma summed_line:
  "getAmountSum (renderer_model address shown ts) = sum_list (map tf_amount [f\<leftarrow>ts. tf_address f = address])"
  by (simp add: getAmountSum_def renderer_source amount_sum_list)

text \<open>Two transfers to another address of the wallet sum up to nothing.\<close>

lemma other_addresses_not_summed:
  "getAmountSum (renderer_model ''K1'' False
     [\<lparr>tf_type = TF_USUAL, tf_address = ''K2'', tf_amount = 5\<rparr>, \<lparr>tf_type = TF_USUAL, tf_address = ''K2'', tf_amount = 7\<rparr>]) = 0"
  by (simp add: summed_line)

end
