(* ===== verification/Housekeeping.thy ===== *)
theory Housekeeping
  imports AmountFormat
begin

text \<open>
  What the program keeps on the side: its log (WalletLogger.cpp) with the file it
  writes and the thread that writes it, the watcher of the library's log
  (LogFileWatcher.cpp), the check for a newer version (WalletUpdate.cpp) and the
  frame for news (NewsFrame.cpp). Files are lists of lines or texts; whether a text
  fits a label is a parameter.
\<close>

section \<open>WalletLogger\<close>

datatype log_type = QtDebugMsg | QtInfoMsg | QtWarningMsg | QtCriticalMsg | QtFatalMsg

definition OLD_LOG_FILE_NAME :: string where "OLD_LOG_FILE_NAME = ''karbowalletgui.log''"
definition LOG_FILE_NAME :: string where "LOG_FILE_NAME = ''walletgui.log''"

record logger =
  lg_instance :: bool
  lg_running :: bool
  lg_debug :: bool
  lg_queue :: "(log_type \<times> string) list"
  lg_open :: bool
  lg_files :: "string \<rightharpoonup> string list"
  lg_stderr :: "string list"

text \<open>The directory before the program starts.\<close>

definition lg_start :: "(string \<rightharpoonup> string list) \<Rightarrow> logger" where
  "lg_start files = \<lparr>lg_instance = False, lg_running = False, lg_debug = False, lg_queue = [], lg_open = False,
     lg_files = files, lg_stderr = []\<rparr>"

text \<open>QFile::rename, which does not replace a file.\<close>

definition rename_file :: "string \<Rightarrow> string \<Rightarrow> (string \<rightharpoonup> string list) \<Rightarrow> (string \<rightharpoonup> string list)" where
  "rename_file a b fs = (if fs a \<noteq> None \<and> fs b = None then (fs(b := fs a))(a := None) else fs)"

text \<open>canOpen: whether the system lets the file be opened; it is opened for appending. None is the assertion.\<close>

definition lg_init :: "bool \<Rightarrow> bool \<Rightarrow> logger \<Rightarrow> logger option" where
  "lg_init canOpen debug s =
     (if lg_instance s then None
      else (let fs = (if lg_files s OLD_LOG_FILE_NAME \<noteq> None then rename_file OLD_LOG_FILE_NAME LOG_FILE_NAME (lg_files s)
                      else lg_files s);
                s1 = s\<lparr>lg_instance := True, lg_debug := debug, lg_running := True, lg_files := fs\<rparr>
            in Some (if canOpen
                     then s1\<lparr>lg_open := True, lg_files := fs(LOG_FILE_NAME := Some (case fs LOG_FILE_NAME of None \<Rightarrow> [] | Some ls \<Rightarrow> ls))\<rparr>
                     else s1\<lparr>lg_stderr := lg_stderr s1 @ [''[Logger] Can'' @ [CHR 0x27] @ ''t open log file'']\<rparr>)))"

text \<open>debug, info, warning and critical queue a call to the logger's thread.\<close>

definition lg_log :: "log_type \<Rightarrow> string \<Rightarrow> logger \<Rightarrow> logger option" where
  "lg_log t m s = (if \<not> lg_instance s then None else Some (s\<lparr>lg_queue := lg_queue s @ [(t, m)]\<rparr>))"

text \<open>The filter rules: only debugging of the category can be off.\<close>

definition log_enabled :: "logger \<Rightarrow> log_type \<Rightarrow> bool" where
  "log_enabled s t \<longleftrightarrow> t \<noteq> QtDebugMsg \<or> lg_debug s"

fun type_string :: "log_type \<Rightarrow> string" where
  "type_string QtDebugMsg = ''debug''"
| "type_string QtInfoMsg = ''info''"
| "type_string QtWarningMsg = ''warning''"
| "type_string QtCriticalMsg = ''critical''"
| "type_string QtFatalMsg = ''fatal''"

definition log_line :: "string \<Rightarrow> log_type \<Rightarrow> string \<Rightarrow> string" where
  "log_line time t m = time @ '' ['' @ type_string t @ ''] '' @ m"

text \<open>time is the printed clock, verbose whether the default category prints; None is abort.\<close>

definition messageHandler :: "string \<Rightarrow> bool \<Rightarrow> log_type \<Rightarrow> string \<Rightarrow> logger \<Rightarrow> logger option" where
  "messageHandler time verbose t m s =
     (if \<not> log_enabled s t then Some s
      else if t = QtFatalMsg then None
      else (let line = log_line time t m;
                s1 = (if lg_open s
                      then s\<lparr>lg_files := (lg_files s)(LOG_FILE_NAME := Some (case lg_files s LOG_FILE_NAME of
                        None \<Rightarrow> [line] | Some ls \<Rightarrow> ls @ [line]))\<rparr> else s)
            in Some (if verbose then s1\<lparr>lg_stderr := lg_stderr s1 @ [line]\<rparr> else s1)))"

text \<open>The thread takes one call.\<close>

definition lg_handle :: "string \<Rightarrow> bool \<Rightarrow> logger \<Rightarrow> logger option" where
  "lg_handle time verbose s =
     (case lg_queue s of
        [] \<Rightarrow> Some s
      | (t, m) # q \<Rightarrow> if lg_running s then messageHandler time verbose t m (s\<lparr>lg_queue := q\<rparr>) else Some s)"

definition lg_deinit :: "logger \<Rightarrow> logger" where
  "lg_deinit s = s\<lparr>lg_running := False\<rparr>"

fun lg_handle_all :: "string list \<Rightarrow> bool \<Rightarrow> logger \<Rightarrow> logger option" where
  "lg_handle_all [] verbose s = Some s"
| "lg_handle_all (t # ts) verbose s = (case lg_handle t verbose s of None \<Rightarrow> None | Some s' \<Rightarrow> lg_handle_all ts verbose s')"

lemma handle_queue:
  assumes "lg_running s" "lg_open s" "lg_files s LOG_FILE_NAME = Some old" "lg_queue s = (t, m) # q" "t \<noteq> QtFatalMsg"
  shows "\<exists>s'. lg_handle time verbose s = Some s' \<and> lg_running s' \<and> lg_open s' \<and> lg_debug s' = lg_debug s \<and> lg_queue s' = q \<and>
    lg_files s' LOG_FILE_NAME = Some (old @ (if log_enabled s t then [log_line time t m] else []))"
  using assms by (auto simp: lg_handle_def messageHandler_def log_enabled_def Let_def)

text \<open>
  The file holds what it held before and then a line for each handled message
  that is not filtered, in the order of the calls.
\<close>

lemma log_in_order:
  assumes "lg_running s" "lg_open s" "lg_files s LOG_FILE_NAME = Some old" "QtFatalMsg \<notin> fst ` set (lg_queue s)"
    and "length clocks \<le> length (lg_queue s)"
  shows "\<exists>s'. lg_handle_all clocks verbose s = Some s' \<and> lg_queue s' = drop (length clocks) (lg_queue s) \<and>
    lg_files s' LOG_FILE_NAME = Some (old @ concat (map (\<lambda>(time, t, m). if log_enabled s t then [log_line time t m] else [])
      (zip clocks (lg_queue s))))"
  using assms
proof (induction clocks arbitrary: s old)
  case (Cons time clocks)
  obtain t m q where q: "lg_queue s = (t, m) # q"
    using Cons.prems(5) by (cases "lg_queue s") auto
  have not_fatal: "t \<noteq> QtFatalMsg"
    using Cons.prems(4) q by auto
  obtain s1 where s1: "lg_handle time verbose s = Some s1" "lg_running s1" "lg_open s1" "lg_debug s1 = lg_debug s" "lg_queue s1 = q"
    "lg_files s1 LOG_FILE_NAME = Some (old @ (if log_enabled s t then [log_line time t m] else []))"
    using handle_queue [OF Cons.prems(1-3) q, of time verbose] not_fatal by blast
  then show ?case
    using Cons.IH [OF s1(2,3,6)] Cons.prems(4,5) q by (auto simp: log_enabled_def)
qed simp

text \<open>What is queued when the thread is told to quit is not written.\<close>

lemma queued_messages_lost: "lg_handle time verbose (lg_deinit s) = Some (lg_deinit s)"
  by (simp add: lg_handle_def lg_deinit_def split: list.split)


section \<open>LogFileWatcher\<close>

record log_watcher =
  lw_pos :: nat
  lw_timer :: bool
  lw_emitted :: "string list"

text \<open>content is the text of the file; None a file that cannot be opened.\<close>

definition lw_new :: "string option \<Rightarrow> log_watcher" where
  "lw_new content = (case content of
     None \<Rightarrow> \<lparr>lw_pos = 0, lw_timer = False, lw_emitted = []\<rparr>
   | Some t \<Rightarrow> \<lparr>lw_pos = length t, lw_timer = True, lw_emitted = []\<rparr>)"

text \<open>QTextStream::readLine up to the end; the last line needs no newline.\<close>

function read_lines :: "string \<Rightarrow> string list" where
  "read_lines t =
     (if t = [] then []
      else takeWhile (\<lambda>c. c \<noteq> CHR 0x0A) t # read_lines (drop 1 (dropWhile (\<lambda>c. c \<noteq> CHR 0x0A) t)))"
  by pat_completeness auto
termination
proof (relation "measure length")
  show "(drop 1 (dropWhile (\<lambda>c. c \<noteq> CHR 0x0A) t), t) \<in> measure length" if "t \<noteq> []" for t
    using that length_dropWhile_le [of "\<lambda>c. c \<noteq> CHR 0x0A" t] by (cases t) auto
qed simp

declare read_lines.simps [simp del]

definition lw_timerEvent :: "string \<Rightarrow> log_watcher \<Rightarrow> log_watcher" where
  "lw_timerEvent content w =
     (if lw_timer w \<and> lw_pos w < length content
      then w\<lparr>lw_pos := length content, lw_emitted := lw_emitted w @ read_lines (drop (lw_pos w) content)\<rparr> else w)"

lemma read_lines_first:
  assumes "CHR 0x0A \<notin> set x"
  shows "read_lines (x @ CHR 0x0A # z) = x # read_lines z"
proof -
  have "takeWhile (\<lambda>c. c \<noteq> CHR 0x0A) (x @ CHR 0x0A # z) = x" "dropWhile (\<lambda>c. c \<noteq> CHR 0x0A) (x @ CHR 0x0A # z) = CHR 0x0A # z"
    using assms by (induction x) auto
  then show ?thesis
    by (subst read_lines.simps) simp
qed

lemma read_lines_cut: "read_lines (a @ CHR 0x0A # b) = read_lines (a @ [CHR 0x0A]) @ read_lines b"
proof (induction a rule: length_induct)
  case (1 a)
  show ?case
  proof (cases "CHR 0x0A \<in> set a")
    case False
    then show ?thesis
      by (simp add: read_lines_first) (simp add: read_lines.simps)
  next
    case True
    then obtain x y where a: "a = x @ CHR 0x0A # y" "CHR 0x0A \<notin> set x"
      using split_list_first by metis
    with 1 have "read_lines (y @ CHR 0x0A # b) = read_lines (y @ [CHR 0x0A]) @ read_lines b"
      by simp
    then show ?thesis
      by (simp add: a read_lines_first)
  qed
qed

text \<open>When whole lines were written between two timer events, cutting at the event changes nothing.\<close>

lemma watched_lines:
  assumes "lw_timer w" "lw_pos w \<le> length c" "drop (lw_pos w) c = a @ [CHR 0x0A]"
  shows "lw_emitted (lw_timerEvent (c @ b) (lw_timerEvent c w)) = lw_emitted (lw_timerEvent (c @ b) w)"
proof -
  have pos: "lw_pos w < length c"
    using assms(3) by (cases "lw_pos w < length c") auto
  note cut = read_lines_cut [of a b]
  show ?thesis
    using assms pos cut by (cases b) (auto simp: lw_timerEvent_def read_lines.simps [of "[]"])
qed

text \<open>A line that is still being written is delivered in two pieces.\<close>

lemma line_in_pieces:
  "lw_emitted (lw_timerEvent ''ab'' (lw_timerEvent ''a'' (lw_new (Some [])))) = [''a'', ''b'']"
  by (simp add: lw_timerEvent_def lw_new_def read_lines.simps)


section \<open>Updater\<close>

definition strip_version :: "string \<Rightarrow> string" where
  "strip_version v = (if starts_with v ''v.'' then drop 2 v else if starts_with v ''v'' then drop 1 v else v)"

text \<open>QVersionNumber::fromString: numbers with dots between them; anything else ends it, so does a number past an int.\<close>

function version_segments :: "string \<Rightarrow> nat list" where
  "version_segments v =
     (let d = takeWhile is_digit v; rest = dropWhile is_digit v
      in if d = [] \<or> 2 ^ 31 \<le> undec d then []
         else undec d # (if rest \<noteq> [] \<and> hd rest = CHR ''.'' then version_segments (drop 1 rest) else []))"
  by pat_completeness auto
termination
proof (relation "measure length")
  show "(drop 1 y, v) \<in> measure length" if "x = takeWhile is_digit v" "y = dropWhile is_digit v" "\<not> (x = [] \<or> 2 ^ 31 \<le> undec x)" for v x y
    using that length_dropWhile_le [of is_digit v] by (cases v) auto
qed simp

declare version_segments.simps [simp del]

text \<open>QVersionNumber::compare: segment by segment, the longer one greater.\<close>

fun version_compare :: "nat list \<Rightarrow> nat list \<Rightarrow> int" where
  "version_compare [] [] = 0"
| "version_compare (a # as) [] = (if a \<noteq> 0 then int a else 1)"
| "version_compare [] (b # bs) = (if b \<noteq> 0 then - int b else - 1)"
| "version_compare (a # as) (b # bs) = (if a \<noteq> b then int a - int b else version_compare as bs)"

text \<open>
  replyFinished: version is the program's own, reply the names in the array that
  was loaded (nothing for an error), accepted the answer to the question. The
  result is whether the question is asked and whether the page is opened.
\<close>

definition before_dash :: "string \<Rightarrow> string" where
  "before_dash v = takeWhile (\<lambda>c. c \<noteq> CHR ''-'') v"

definition replyFinished :: "string \<Rightarrow> string list option \<Rightarrow> bool \<Rightarrow> bool \<times> bool" where
  "replyFinished version reply accepted =
     (case reply of
        None \<Rightarrow> (False, False)
      | Some names \<Rightarrow>
          (let ourVersion = version_segments (strip_version (before_dash version));
               remoteVersion = version_segments (strip_version (case names of [] \<Rightarrow> [] | n # _ \<Rightarrow> n));
               r = version_compare ourVersion remoteVersion < 0
           in (r, r \<and> accepted)))"

lemma version_compare_lexord:
  "version_compare v w < 0 \<longleftrightarrow> (v, w) \<in> lexord {(a, b). a < b}"
  by (induction v w rule: version_compare.induct) auto

lemma version_compare_zero: "version_compare v w = 0 \<longleftrightarrow> v = w"
  by (induction v w rule: version_compare.induct) auto

text \<open>An update is offered just for a version that is later in the order of version numbers, never for an empty reply.\<close>

lemma update_offered:
  "fst (replyFinished version (Some names) accepted) \<longleftrightarrow>
     (version_segments (strip_version (before_dash version)), version_segments (strip_version (case names of [] \<Rightarrow> [] | n # _ \<Rightarrow> n)))
       \<in> lexord {(a, b). a < b}"
  "\<not> fst (replyFinished version (Some []) accepted)" "\<not> fst (replyFinished version None accepted)"
proof -
  show "fst (replyFinished version (Some names) accepted) \<longleftrightarrow>
     (version_segments (strip_version (before_dash version)), version_segments (strip_version (case names of [] \<Rightarrow> [] | n # _ \<Rightarrow> n)))
       \<in> lexord {(a, b). a < b}" for names
    by (simp add: replyFinished_def version_compare_lexord Let_def)
  from this [of "[]"] show "\<not> fst (replyFinished version (Some []) accepted)"
    by (simp add: strip_version_def starts_with_def version_segments.simps [of "[]"])
qed (simp add: replyFinished_def)


section \<open>NewsFrame\<close>

record news_reader =
  nr_last :: string
  nr_next :: "string \<Rightarrow> string"
  nr_prev :: "string \<Rightarrow> string"
  nr_text :: "string \<Rightarrow> string"
  nr_header :: "string \<Rightarrow> string"
  nr_time :: "string \<Rightarrow> string"

record news_frame =
  nf_current :: string
  nf_scroll :: bool
  nf_up :: bool
  nf_down :: bool
  nf_shown :: string
  nf_link :: string

text \<open>QRegularExpression searches for white space: any character forward, starts of runs backward; -1 is none.\<close>

definition ws_at :: "string \<Rightarrow> nat \<Rightarrow> bool" where
  "ws_at t i \<longleftrightarrow> i < length t \<and> is_space (t ! i)"

definition ws_indexOf :: "string \<Rightarrow> nat \<Rightarrow> nat option" where
  "ws_indexOf t pos = map_option ((+) pos) (find_index (ws_at t) [pos..<length t])"

definition ws_lastIndexOf :: "string \<Rightarrow> int \<Rightarrow> int" where
  "ws_lastIndexOf t pos =
     (let starts = [j\<leftarrow>[0..<length t]. int j \<le> pos \<and> ws_at t j \<and> (j = 0 \<or> \<not> ws_at t (j - 1))]
      in if starts = [] then - 1 else int (last starts))"

definition left_of :: "string \<Rightarrow> int \<Rightarrow> string" where
  "left_of t n = (if n < 0 then t else take (nat n) t)"

text \<open>html puts a text into the template, fits is whether the document fits the label.\<close>

function elide_from :: "(string \<Rightarrow> string) \<Rightarrow> (string \<Rightarrow> bool) \<Rightarrow> string \<Rightarrow> nat \<Rightarrow> string" where
  "elide_from html fits t pos =
     (case ws_indexOf t pos of
        None \<Rightarrow> []
      | Some i \<Rightarrow>
          if \<not> fits (html (take i t))
          then (let i1 = ws_lastIndexOf t (max 0 (int i - 1)); i2 = ws_lastIndexOf t (max 0 (i1 - 1))
                in html (left_of t i2 @ ''...''))
          else elide_from html fits t (i + 1))"
  by pat_completeness auto
termination
proof (relation "measure (\<lambda>(_, _, t, pos). length t - pos)")
  show "((html, fits, t, i + 1), html, fits, t, pos) \<in> measure (\<lambda>(_, _, t, pos). length t - pos)"
    if "ws_indexOf t pos = Some i" "\<not> \<not> fits (html (take i t))" for html fits t pos i
    using that(1) by (auto simp: ws_indexOf_def find_index_Some)
qed simp

declare elide_from.simps [simp del]

definition getElidedText :: "(string \<Rightarrow> string) \<Rightarrow> (string \<Rightarrow> bool) \<Rightarrow> string \<Rightarrow> string" where
  "getElidedText html fits t = (if fits (html t) then html t else elide_from html fits t 0)"

text \<open>html, fits and the elided header are those of the label's present size.\<close>

definition nf_updateText ::
  "news_reader \<Rightarrow> (string \<Rightarrow> string \<Rightarrow> string) \<Rightarrow> (string \<Rightarrow> bool) \<Rightarrow> (string \<Rightarrow> string) \<Rightarrow> news_frame \<Rightarrow> news_frame" where
  "nf_updateText R html fits elided s =
     (if nf_current s = [] then s
      else s\<lparr>nf_link := elided (nr_header R (nf_current s)),
             nf_shown := getElidedText (html (nr_time R (nf_current s))) fits (nr_text R (nf_current s))\<rparr>)"

definition updateScrollButtons :: "news_reader \<Rightarrow> news_frame \<Rightarrow> news_frame" where
  "updateScrollButtons R s =
     (if nf_current s = [] then s\<lparr>nf_up := False, nf_down := False\<rparr>
      else (let nextMessageId = nr_next R (nf_current s); prevMessageId = nr_prev R (nf_current s)
            in if nextMessageId = [] \<and> prevMessageId = [] then s\<lparr>nf_scroll := False\<rparr>
               else s\<lparr>nf_scroll := True, nf_up := nextMessageId \<noteq> [], nf_down := prevMessageId \<noteq> []\<rparr>))"

definition nf_show ::
  "news_reader \<Rightarrow> (string \<Rightarrow> string \<Rightarrow> string) \<Rightarrow> (string \<Rightarrow> bool) \<Rightarrow> (string \<Rightarrow> string) \<Rightarrow> string \<Rightarrow> news_frame \<Rightarrow> news_frame" where
  "nf_show R html fits elided i s = updateScrollButtons R (nf_updateText R html fits elided (s\<lparr>nf_current := i\<rparr>))"

text \<open>setNewsReader and newMessage show the last message, the buttons its neighbours.\<close>

definition nf_newMessage where "nf_newMessage R html fits elided s = nf_show R html fits elided (nr_last R) s"
definition nf_upClicked where "nf_upClicked R html fits elided s = nf_show R html fits elided (nr_next R (nf_current s)) s"
definition nf_downClicked where "nf_downClicked R html fits elided s = nf_show R html fits elided (nr_prev R (nf_current s)) s"

lemma scroll_buttons:
  assumes "nf_scroll (nf_show R html fits elided i s)" "i \<noteq> []"
  shows "nf_up (nf_show R html fits elided i s) \<longleftrightarrow> nr_next R i \<noteq> []" "nf_down (nf_show R html fits elided i s) \<longleftrightarrow> nr_prev R i \<noteq> []"
  using assms by (auto simp: nf_show_def updateScrollButtons_def nf_updateText_def Let_def split: if_splits)

text \<open>A text that does not fit although each of its beginnings before white space does is shown as nothing.\<close>

lemma elided_to_nothing:
  assumes "\<not> fits (html t)" "\<forall>i. ws_at t i \<longrightarrow> fits (html (take i t))"
  shows "getElidedText html fits t = []"
proof -
  have "elide_from html fits t pos = []" for pos
  proof (induction "length t - pos" arbitrary: pos rule: less_induct)
    case less
    have "fits (html (take i t))" "i < length t" "pos \<le> i" if "ws_indexOf t pos = Some i" for i
      using that assms(2) by (auto simp: ws_indexOf_def find_index_Some)
    with less show ?case
      by (subst elide_from.simps) (auto split: option.split)
  qed
  with assms(1) show ?thesis
    by (simp add: getElidedText_def)
qed

end
