(* ===== verification/AddressCards.thy ===== *)
theory AddressCards
  imports AddressListModel AmountFormat Transition
begin

text \<open>
  The list of address cards beside the pages (src/src/Gui/AddressList/AddressSidebar.cpp)
  and a card (src/src/Gui/AddressList/AddressCard.cpp).

  The list follows the announcements of the address list model and asks the node
  for the account number of each address; answers come later, from another
  thread, and are queued. Layout, fonts and elision are not modelled.
\<close>

section \<open>A card\<close>

record card =
  cd_id :: nat
  cd_row :: nat
  cd_address :: string
  cd_label :: string
  cd_labelText :: string
  cd_number :: string
  cd_numberShown :: bool
  cd_canRegister :: bool
  cd_pending :: bool
  cd_registerShown :: bool
  cd_primary :: bool
  cd_deletable :: bool
  cd_selected :: bool
  cd_total :: string
  cd_available :: string
  cd_locked :: string
  cd_hasLocked :: bool

definition new_card :: "nat \<Rightarrow> nat \<Rightarrow> card" where
  "new_card n row = \<lparr>cd_id = n, cd_row = row, cd_address = [], cd_label = [], cd_labelText = [], cd_number = [],
     cd_numberShown = False, cd_canRegister = False, cd_pending = False, cd_registerShown = False,
     cd_primary = False, cd_deletable = True, cd_selected = False, cd_total = [], cd_available = [],
     cd_locked = [], cd_hasLocked = False\<rparr>"

definition refreshAccountNumberRow :: "card \<Rightarrow> card" where
  "refreshAccountNumberRow c =
     (let has = cd_number c \<noteq> [];
          c1 = (if has \<and> cd_pending c then c\<lparr>cd_pending := False\<rparr> else c)
      in c1\<lparr>cd_numberShown := has, cd_registerShown := \<not> has \<and> cd_canRegister c1 \<and> \<not> cd_pending c1\<rparr>)"

definition refreshLabelDisplay :: "card \<Rightarrow> card" where
  "refreshLabelDisplay c =
     c\<lparr>cd_labelText := if cd_label c \<noteq> [] then cd_label c
        else if cd_primary c then ''Primary address'' else ''Unnamed address''\<rparr>"

definition setAddress :: "string \<Rightarrow> card \<Rightarrow> card" where
  "setAddress a c = c\<lparr>cd_address := a\<rparr>"

definition setLabel :: "string \<Rightarrow> card \<Rightarrow> card" where
  "setLabel l c = refreshLabelDisplay (c\<lparr>cd_label := l\<rparr>)"

definition setAccountNumber :: "string \<Rightarrow> card \<Rightarrow> card" where
  "setAccountNumber n c = (if cd_number c = n then c else refreshAccountNumberRow (c\<lparr>cd_number := n\<rparr>))"

definition setCanRegisterAccountNumber :: "bool \<Rightarrow> card \<Rightarrow> card" where
  "setCanRegisterAccountNumber b c =
     (if cd_canRegister c = b then c else refreshAccountNumberRow (c\<lparr>cd_canRegister := b\<rparr>))"

definition setRegistrationPending :: "bool \<Rightarrow> card \<Rightarrow> card" where
  "setRegistrationPending b c =
     (if cd_pending c = b then c else refreshAccountNumberRow (c\<lparr>cd_pending := b\<rparr>))"

definition setBalances :: "string \<Rightarrow> u64 \<Rightarrow> string \<Rightarrow> u64 \<Rightarrow> string \<Rightarrow> card \<Rightarrow> card" where
  "setBalances unlockedText unlocked totalText full lockedText c =
     c\<lparr>cd_total := totalText, cd_available := unlockedText, cd_locked := lockedText, cd_hasLocked := (unlocked < full)\<rparr>"

definition setIsPrimary :: "bool \<Rightarrow> card \<Rightarrow> card" where
  "setIsPrimary b c = refreshLabelDisplay (c\<lparr>cd_primary := b, cd_deletable := \<not> b\<rparr>)"

definition setSelected :: "bool \<Rightarrow> card \<Rightarrow> card" where
  "setSelected b c = c\<lparr>cd_selected := b\<rparr>"


section \<open>The list of cards\<close>

text \<open>
  The lookups are the questions to the node that are not answered, each with the
  card and the address it is for. None as the current address is no address state.
\<close>

record sidebar =
  sb_cards :: "card list"
  sb_lookups :: "(nat \<times> string) list"
  sb_next :: nat
  sb_current :: "string option"

text \<open>The amount format is None without an adapter; the wallet is whether it is open and whether it only tracks.\<close>

record card_env =
  ce_format :: "(u64 \<Rightarrow> string) option"
  ce_node :: bool
  ce_wallet :: "(bool \<times> bool) option"
  ce_labels :: "ab_state option"

definition card_text :: "card_env \<Rightarrow> u64 \<Rightarrow> string" where
  "card_text E v = (case ce_format E of Some f \<Rightarrow> f v | None \<Rightarrow> dec (unat v))"

definition can_register :: "card_env \<Rightarrow> bool" where
  "can_register E \<longleftrightarrow> ce_format E \<noteq> None \<and> ce_node E \<and>
     (case ce_wallet E of Some (isOpen, tracking) \<Rightarrow> isOpen \<and> \<not> tracking | None \<Rightarrow> False)"

fun q_toString :: "qvariant \<Rightarrow> string" where
  "q_toString (QStr s) = s"
| "q_toString _ = []"

fun q_toULongLong :: "qvariant \<Rightarrow> u64" where
  "q_toULongLong (QU64 v) = v"
| "q_toULongLong _ = 0"

definition row_cell :: "card_env \<Rightarrow> alm_state \<Rightarrow> nat \<Rightarrow> int \<Rightarrow> nat \<Rightarrow> qvariant" where
  "row_cell E rows i col r = alm_data (card_text E) (ce_labels E) rows (int i) col (UserRole r)"

text \<open>What updateCardAt makes of the card at a row, before the balances.\<close>

definition card_from_row :: "card_env \<Rightarrow> alm_state \<Rightarrow> nat \<Rightarrow> card \<Rightarrow> card" where
  "card_from_row E rows i c =
     (let a = q_toString (row_cell E rows i ALM_COLUMN_ADDRESS 0);
          l = q_toString (row_cell E rows i ALM_COLUMN_LABEL 1);
          c1 = setCanRegisterAccountNumber (can_register E) (setIsPrimary (i = 0) (setLabel l (setAddress a c)))
      in if cd_address c \<noteq> a then setAccountNumber [] c1 else c1)"

definition card_balances :: "card_env \<Rightarrow> alm_state \<Rightarrow> nat \<Rightarrow> card \<Rightarrow> card" where
  "card_balances E rows i c =
     (let unlocked = q_toULongLong (row_cell E rows i ALM_COLUMN_ADDRESS 2);
          total = q_toULongLong (row_cell E rows i ALM_COLUMN_ADDRESS 4);
          locked = (if unlocked < total then total - unlocked else 0)
      in setBalances (card_text E unlocked) unlocked (card_text E total) total (card_text E locked) c)"

definition fetchAccountNumberFor :: "card_env \<Rightarrow> nat \<Rightarrow> sidebar \<Rightarrow> sidebar" where
  "fetchAccountNumberFor E i s =
     (if ce_format E = None \<or> i \<ge> length (sb_cards s) \<or> \<not> ce_node E then s
      else let c = sb_cards s ! i in
        if cd_address c = [] then s else s\<lparr>sb_lookups := sb_lookups s @ [(cd_id c, cd_address c)]\<rparr>)"

definition updateCardAt :: "card_env \<Rightarrow> alm_state \<Rightarrow> nat \<Rightarrow> sidebar \<Rightarrow> sidebar" where
  "updateCardAt E rows i s =
     (if i \<ge> length (sb_cards s) then s
      else
        let s1 = fetchAccountNumberFor E i (s\<lparr>sb_cards := (sb_cards s)[i := card_from_row E rows i (sb_cards s ! i)]\<rparr>)
        in s1\<lparr>sb_cards := (sb_cards s1)[i := card_balances E rows i (sb_cards s1 ! i)]\<rparr>)"

text \<open>The card is made first, and the row that is updated is that of the list without it.\<close>

definition makeCard :: "card_env \<Rightarrow> alm_state \<Rightarrow> nat \<Rightarrow> sidebar \<Rightarrow> card \<times> sidebar" where
  "makeCard E rows row s = (new_card (sb_next s) row, updateCardAt E rows row (s\<lparr>sb_next := Suc (sb_next s)\<rparr>))"

definition bindCardSignals :: "nat \<Rightarrow> sidebar \<Rightarrow> sidebar" where
  "bindCardSignals i s = s\<lparr>sb_cards := (sb_cards s)[i := (sb_cards s ! i)\<lparr>cd_row := i\<rparr>]\<rparr>"

definition applySelection :: "sidebar \<Rightarrow> sidebar" where
  "applySelection s = s\<lparr>sb_cards := map (\<lambda>c. setSelected
     (case sb_current s of None \<Rightarrow> False | Some cur \<Rightarrow> cur \<noteq> [] \<and> cd_address c = cur) c) (sb_cards s)\<rparr>"

definition insert_card :: "card_env \<Rightarrow> alm_state \<Rightarrow> nat \<Rightarrow> sidebar \<Rightarrow> sidebar" where
  "insert_card E rows row s =
     (case makeCard E rows row s of (c, s1) \<Rightarrow>
        bindCardSignals row (s1\<lparr>sb_cards := insert_at row c (sb_cards s1)\<rparr>))"

definition onRowsInserted :: "card_env \<Rightarrow> alm_state \<Rightarrow> nat \<Rightarrow> nat \<Rightarrow> sidebar \<Rightarrow> sidebar" where
  "onRowsInserted E rows f l s = applySelection (fold (insert_card E rows) [f..<Suc l] s)"

definition take_card :: "nat \<Rightarrow> sidebar \<Rightarrow> sidebar" where
  "take_card row s = (if row \<ge> length (sb_cards s) then s else s\<lparr>sb_cards := remove_at row (sb_cards s)\<rparr>)"

definition onRowsRemoved :: "card_env \<Rightarrow> alm_state \<Rightarrow> nat \<Rightarrow> nat \<Rightarrow> sidebar \<Rightarrow> sidebar" where
  "onRowsRemoved E rows f l s =
     (let s1 = fold take_card (rev [f..<Suc l]) s in
      applySelection (fold (\<lambda>i. updateCardAt E rows i \<circ> bindCardSignals i) [0..<length (sb_cards s1)] s1))"

definition onDataChanged :: "card_env \<Rightarrow> alm_state \<Rightarrow> nat \<Rightarrow> nat \<Rightarrow> sidebar \<Rightarrow> sidebar" where
  "onDataChanged E rows f l s = fold (updateCardAt E rows) [f..<min (Suc l) (length (sb_cards s))] s"

definition rebuildCards :: "card_env \<Rightarrow> alm_state \<Rightarrow> sidebar \<Rightarrow> sidebar" where
  "rebuildCards E rows s =
     applySelection (fold (insert_card E rows) [0..<length rows] (s\<lparr>sb_cards := []\<rparr>))"

definition onCurrentChanged :: "string \<Rightarrow> sidebar \<Rightarrow> sidebar" where
  "onCurrentChanged a s = applySelection (s\<lparr>sb_current := map_option (\<lambda>_. a) (sb_current s)\<rparr>)"

definition setCryptoNoteAdapter :: "card_env \<Rightarrow> alm_state \<Rightarrow> sidebar \<Rightarrow> sidebar" where
  "setCryptoNoteAdapter E rows s = fold (updateCardAt E rows) [0..<length (sb_cards s)] s"

definition refreshAccountNumbers :: "card_env \<Rightarrow> sidebar \<Rightarrow> sidebar" where
  "refreshAccountNumbers E s = fold (fetchAccountNumberFor E) [0..<length (sb_cards s)] s"

definition markRegistrationSent :: "u64 \<Rightarrow> sidebar \<Rightarrow> sidebar" where
  "markRegistrationSent ix s =
     (let row = to_int32 ix in
      if row < 0 \<or> row \<ge> int (length (sb_cards s)) then s
      else s\<lparr>sb_cards := (sb_cards s)[nat row := setRegistrationPending True (sb_cards s ! nat row)]\<rparr>)"

definition clearRegistrationPending :: "sidebar \<Rightarrow> sidebar" where
  "clearRegistrationPending s = s\<lparr>sb_cards := map (setRegistrationPending False) (sb_cards s)\<rparr>"

text \<open>The answer to a lookup, None for an error; a card that is gone or shows another address ignores it.\<close>

definition account_number_found :: "nat \<times> string \<Rightarrow> string option \<Rightarrow> sidebar \<Rightarrow> sidebar" where
  "account_number_found q result s =
     s\<lparr>sb_lookups := remove1 q (sb_lookups s),
       sb_cards := map (\<lambda>c. if cd_id c = fst q \<and> cd_address c = snd q
         then setAccountNumber (case result of None \<Rightarrow> [] | Some n \<Rightarrow> n) c else c) (sb_cards s)\<rparr>"

text \<open>The index and the address that the signals of a card carry: those of the row it is bound to.\<close>

definition card_signal :: "nat \<Rightarrow> sidebar \<Rightarrow> (nat \<times> string) option" where
  "card_signal i s =
     (let row = cd_row (sb_cards s ! i) in
      if row < length (sb_cards s) then Some (row, cd_address (sb_cards s ! row)) else None)"

fun sb_notice :: "card_env \<Rightarrow> alm_state \<Rightarrow> notice \<Rightarrow> sidebar \<Rightarrow> sidebar" where
  "sb_notice E rows (RowsInserted f l) s = onRowsInserted E rows f l s"
| "sb_notice E rows (RowsRemoved f l) s = onRowsRemoved E rows f l s"
| "sb_notice E rows (DataChanged f l) s = onDataChanged E rows f l s"
| "sb_notice E rows (ModelReset n) s = rebuildCards E rows s"
| "sb_notice E rows (SignalSent g) s = s"



section \<open>What an update leaves\<close>

lemma card_setters [simp]:
  "cd_id (refreshAccountNumberRow c) = cd_id c" "cd_row (refreshAccountNumberRow c) = cd_row c"
  "cd_address (refreshAccountNumberRow c) = cd_address c" "cd_label (refreshAccountNumberRow c) = cd_label c"
  "cd_labelText (refreshAccountNumberRow c) = cd_labelText c" "cd_primary (refreshAccountNumberRow c) = cd_primary c"
  "cd_number (refreshAccountNumberRow c) = cd_number c" "cd_canRegister (refreshAccountNumberRow c) = cd_canRegister c"
  "cd_selected (refreshAccountNumberRow c) = cd_selected c" "cd_deletable (refreshAccountNumberRow c) = cd_deletable c"
  "cd_address (refreshLabelDisplay c) = cd_address c" "cd_label (refreshLabelDisplay c) = cd_label c"
  "cd_id (refreshLabelDisplay c) = cd_id c" "cd_row (refreshLabelDisplay c) = cd_row c"
  "cd_primary (refreshLabelDisplay c) = cd_primary c" "cd_number (refreshLabelDisplay c) = cd_number c"
  "cd_canRegister (refreshLabelDisplay c) = cd_canRegister c" "cd_deletable (refreshLabelDisplay c) = cd_deletable c"
  "cd_address (setAccountNumber n c) = cd_address c" "cd_label (setAccountNumber n c) = cd_label c"
  "cd_id (setAccountNumber n c) = cd_id c" "cd_row (setAccountNumber n c) = cd_row c"
  "cd_primary (setAccountNumber n c) = cd_primary c" "cd_number (setAccountNumber n c) = n"
  "cd_canRegister (setAccountNumber n c) = cd_canRegister c" "cd_labelText (setAccountNumber n c) = cd_labelText c"
  "cd_deletable (setAccountNumber n c) = cd_deletable c"
  by (simp_all add: refreshAccountNumberRow_def refreshLabelDisplay_def setAccountNumber_def Let_def)

lemma card_setters2 [simp]:
  "cd_address (setAddress a c) = a" "cd_id (setAddress a c) = cd_id c" "cd_row (setAddress a c) = cd_row c"
  "cd_number (setAddress a c) = cd_number c" "cd_canRegister (setAddress a c) = cd_canRegister c"
  "cd_address (setLabel l c) = cd_address c" "cd_label (setLabel l c) = l" "cd_id (setLabel l c) = cd_id c"
  "cd_row (setLabel l c) = cd_row c" "cd_number (setLabel l c) = cd_number c" "cd_primary (setLabel l c) = cd_primary c"
  "cd_canRegister (setLabel l c) = cd_canRegister c"
  "cd_address (setCanRegisterAccountNumber b c) = cd_address c" "cd_label (setCanRegisterAccountNumber b c) = cd_label c"
  "cd_id (setCanRegisterAccountNumber b c) = cd_id c" "cd_row (setCanRegisterAccountNumber b c) = cd_row c"
  "cd_primary (setCanRegisterAccountNumber b c) = cd_primary c" "cd_canRegister (setCanRegisterAccountNumber b c) = b"
  "cd_number (setCanRegisterAccountNumber b c) = cd_number c" "cd_labelText (setCanRegisterAccountNumber b c) = cd_labelText c"
  "cd_deletable (setCanRegisterAccountNumber b c) = cd_deletable c"
  "cd_address (setIsPrimary b c) = cd_address c" "cd_label (setIsPrimary b c) = cd_label c" "cd_id (setIsPrimary b c) = cd_id c"
  "cd_row (setIsPrimary b c) = cd_row c" "cd_primary (setIsPrimary b c) = b" "cd_number (setIsPrimary b c) = cd_number c"
  "cd_canRegister (setIsPrimary b c) = cd_canRegister c" "cd_deletable (setIsPrimary b c) \<longleftrightarrow> \<not> b"
  "cd_address (setRegistrationPending b c) = cd_address c" "cd_id (setRegistrationPending b c) = cd_id c"
  "cd_number (setRegistrationPending b c) = cd_number c" "cd_row (setRegistrationPending b c) = cd_row c"
  "cd_address (setSelected b c) = cd_address c" "cd_number (setSelected b c) = cd_number c" "cd_id (setSelected b c) = cd_id c"
  "cd_row (setSelected b c) = cd_row c"
  by (simp_all add: setAddress_def setLabel_def setCanRegisterAccountNumber_def setIsPrimary_def
      setRegistrationPending_def setSelected_def refreshAccountNumberRow_def refreshLabelDisplay_def Let_def)

lemma card_balances_fields [simp]:
  "cd_address (card_balances E rows i c) = cd_address c" "cd_id (card_balances E rows i c) = cd_id c"
  "cd_row (card_balances E rows i c) = cd_row c" "cd_number (card_balances E rows i c) = cd_number c"
  "cd_label (card_balances E rows i c) = cd_label c" "cd_primary (card_balances E rows i c) = cd_primary c"
  "cd_canRegister (card_balances E rows i c) = cd_canRegister c" "cd_labelText (card_balances E rows i c) = cd_labelText c"
  "cd_deletable (card_balances E rows i c) = cd_deletable c"
  by (simp_all add: card_balances_def setBalances_def Let_def)

definition updated_card :: "card_env \<Rightarrow> alm_state \<Rightarrow> nat \<Rightarrow> card \<Rightarrow> card" where
  "updated_card E rows i c = card_balances E rows i (card_from_row E rows i c)"

lemma updated_id [simp]: "cd_id (updated_card E rows i c) = cd_id c" "cd_row (updated_card E rows i c) = cd_row c"
  by (simp_all add: updated_card_def card_from_row_def Let_def)

lemma fetch_fields [simp]:
  "sb_cards (fetchAccountNumberFor E i s) = sb_cards s" "sb_next (fetchAccountNumberFor E i s) = sb_next s"
  "sb_current (fetchAccountNumberFor E i s) = sb_current s"
  by (simp_all add: fetchAccountNumberFor_def Let_def)

lemma update_fields [simp]:
  "sb_cards (updateCardAt E rows i s) = (if i < length (sb_cards s)
     then (sb_cards s)[i := updated_card E rows i (sb_cards s ! i)] else sb_cards s)"
  "sb_next (updateCardAt E rows i s) = sb_next s" "sb_current (updateCardAt E rows i s) = sb_current s"
  by (simp_all add: updateCardAt_def updated_card_def Let_def)

lemma bind_fields [simp]:
  "length (sb_cards (bindCardSignals i s)) = length (sb_cards s)" "sb_next (bindCardSignals i s) = sb_next s"
  "sb_current (bindCardSignals i s) = sb_current s" "sb_lookups (bindCardSignals i s) = sb_lookups s"
  by (simp_all add: bindCardSignals_def)

lemma selection_fields [simp]:
  "length (sb_cards (applySelection s)) = length (sb_cards s)" "sb_next (applySelection s) = sb_next s"
  "sb_current (applySelection s) = sb_current s" "sb_lookups (applySelection s) = sb_lookups s"
  by (simp_all add: applySelection_def)

text \<open>Loops over the rows: each card is treated once, by its own step.\<close>

lemma fold_over_cards:
  assumes "\<And>i s. sb_cards (step i s) = (if i < length (sb_cards s) then (sb_cards s)[i := g i (sb_cards s ! i)] else sb_cards s)"
    and "b \<le> length (sb_cards s)"
  shows "sb_cards (fold step [a..<b] s) =
    map (\<lambda>j. if a \<le> j \<and> j < b then g j (sb_cards s ! j) else sb_cards s ! j) [0..<length (sb_cards s)]"
  using assms(2)
proof (induction b)
  case 0
  then show ?case
    by (simp add: map_nth)
next
  case (Suc b)
  let ?C = "map (\<lambda>j. if a \<le> j \<and> j < b then g j (sb_cards s ! j) else sb_cards s ! j) [0..<length (sb_cards s)]"
  have IH: "sb_cards (fold step [a..<b] s) = ?C"
    using Suc by simp
  show ?case
  proof (cases "a \<le> b")
    case True
    then have "sb_cards (fold step [a..<Suc b] s) = ?C[b := g b (?C ! b)]"
      using Suc.prems by (simp add: assms(1) IH)
    also have "\<dots> = map (\<lambda>j. if a \<le> j \<and> j < Suc b then g j (sb_cards s ! j) else sb_cards s ! j) [0..<length (sb_cards s)]"
      using Suc.prems True by (intro nth_equalityI) (auto simp: nth_list_update less_Suc_eq)
    finally show ?thesis .
  next
    case False
    then have empty: "[a..<Suc b] = []" and "(a \<le> j \<and> j < Suc b) = False" for j
      by auto
    then show ?thesis
      by (simp only: empty fold.simps id_apply if_False map_nth)
  qed
qed

lemma update_loop:
  "b \<le> length (sb_cards s) \<Longrightarrow> sb_cards (fold (updateCardAt E rows) [a..<b] s) =
     map (\<lambda>j. if a \<le> j \<and> j < b then updated_card E rows j (sb_cards s ! j) else sb_cards s ! j) [0..<length (sb_cards s)]"
  by (rule fold_over_cards) simp_all

lemma rebind_loop:
  "sb_cards (fold (\<lambda>i. updateCardAt E rows i \<circ> bindCardSignals i) [0..<length (sb_cards s)] s) =
     map (\<lambda>j. updated_card E rows j ((sb_cards s ! j)\<lparr>cd_row := j\<rparr>)) [0..<length (sb_cards s)]"
proof -
  have "sb_cards (fold (\<lambda>i. updateCardAt E rows i \<circ> bindCardSignals i) [0..<length (sb_cards s)] s) =
      map (\<lambda>j. if 0 \<le> j \<and> j < length (sb_cards s) then updated_card E rows j ((sb_cards s ! j)\<lparr>cd_row := j\<rparr>)
        else sb_cards s ! j) [0..<length (sb_cards s)]"
    by (rule fold_over_cards) (simp_all add: bindCardSignals_def list_update_beyond)
  then show ?thesis
    by (auto cong: map_cong)
qed

lemma take_loop:
  "l < length (sb_cards s) \<Longrightarrow> f \<le> l \<Longrightarrow>
   sb_cards (fold take_card (rev [f..<Suc l]) s) = take f (sb_cards s) @ drop (Suc l) (sb_cards s)"
proof (induction l arbitrary: s)
  case 0
  then show ?case
    by (simp add: take_card_def remove_at_def)
next
  case (Suc l)
  let ?s = "take_card (Suc l) s"
  have t: "sb_cards ?s = take (Suc l) (sb_cards s) @ drop (Suc (Suc l)) (sb_cards s)"
    using Suc.prems(1) by (simp add: take_card_def remove_at_def)
  show ?case
  proof (cases "f = Suc l")
    case True
    then show ?thesis
      using t by simp
  next
    case False
    then have "f \<le> l" "rev [f..<Suc (Suc l)] = Suc l # rev [f..<Suc l]"
      using Suc.prems(2) by simp_all
    then show ?thesis
      using Suc.IH [of ?s] Suc.prems(1) t by (simp add: min_def)
  qed
qed


section \<open>The cards and the rows\<close>

lemma insert_card_fields [simp]:
  "row \<le> length (sb_cards s) \<Longrightarrow> length (sb_cards (insert_card E rows row s)) = Suc (length (sb_cards s))"
  "sb_next (insert_card E rows row s) = Suc (sb_next s)" "sb_current (insert_card E rows row s) = sb_current s"
  by (simp_all add: insert_card_def makeCard_def)

lemma insert_at_end: "insert_at (length xs) x xs = xs @ [x]"
  by (simp add: insert_at_def)

text \<open>A card made for the end of the list is not updated: it stays blank.\<close>

lemma insert_card_end:
  "row = length (sb_cards s) \<Longrightarrow> sb_cards (insert_card E rows row s) = sb_cards s @ [new_card (sb_next s) row]"
  by (simp add: insert_card_def makeCard_def insert_at_end bindCardSignals_def new_card_def list_update_append)

lemma insert_loop_length:
  "f \<le> length (sb_cards s) \<Longrightarrow> f \<le> b \<Longrightarrow>
   length (sb_cards (fold (insert_card E rows) [f..<b] s)) = length (sb_cards s) + (b - f)"
proof (induction b)
  case (Suc b)
  then show ?case
    by (cases "f = Suc b") (simp_all add: Suc_diff_le)
qed simp

lemma rebuild_loop:
  "sb_cards s = [] \<Longrightarrow> sb_cards (fold (insert_card E rows) [0..<n] s) = map (\<lambda>i. new_card (sb_next s + i) i) [0..<n]
     \<and> sb_next (fold (insert_card E rows) [0..<n] s) = sb_next s + n"
  by (induction n) (simp_all add: insert_card_end)

lemma update_loop_length [simp]:
  "b \<le> length (sb_cards s) \<Longrightarrow> length (sb_cards (fold (updateCardAt E rows) [a..<b] s)) = length (sb_cards s)"
  by (simp add: update_loop)

lemma rebind_loop_length [simp]:
  "length (sb_cards (fold (\<lambda>i. updateCardAt E rows i \<circ> bindCardSignals i) [0..<length (sb_cards s)] s)) = length (sb_cards s)"
  by (simp add: rebind_loop)

text \<open>One card for each row, as the announcements count them.\<close>

lemma notice_counts:
  "apply_note x (length (sb_cards s)) = Some m \<Longrightarrow> (\<forall>k. x = ModelReset k \<longrightarrow> k = length rows) \<Longrightarrow>
   length (sb_cards (sb_notice E rows x s)) = m"
  by (cases x) (auto simp: onRowsInserted_def onRowsRemoved_def onDataChanged_def rebuildCards_def insert_loop_length
      rebuild_loop take_loop Let_def simp del: upt_Suc split: if_splits)

definition shows_row :: "card_env \<Rightarrow> alm_state \<Rightarrow> nat \<Rightarrow> card \<Rightarrow> bool" where
  "shows_row E rows i c \<longleftrightarrow>
     (let e = rows ! i; l = alm_labelForAddress (ce_labels E) (e_address e); full = e_actual e + e_pending e in
      cd_address c = e_address e \<and> cd_label c = l \<and>
      cd_labelText c = (if l \<noteq> [] then l else if i = 0 then ''Primary address'' else ''Unnamed address'') \<and>
      cd_primary c = (i = 0) \<and> cd_deletable c = (i \<noteq> 0) \<and> cd_canRegister c = can_register E \<and>
      cd_total c = card_text E full \<and> cd_available c = card_text E (e_actual e) \<and>
      cd_hasLocked c = (e_actual e < full) \<and>
      cd_locked c = card_text E (if e_actual e < full then full - e_actual e else 0))"

lemma row_cells [simp]:
  "i < length rows \<Longrightarrow> row_cell E rows i col 0 = QStr (e_address (rows ! i))"
  "i < length rows \<Longrightarrow> row_cell E rows i col (Suc 0) = QStr (alm_labelForAddress (ce_labels E) (e_address (rows ! i)))"
  "i < length rows \<Longrightarrow> row_cell E rows i col 2 = QU64 (e_actual (rows ! i))"
  "i < length rows \<Longrightarrow> row_cell E rows i col 4 = QU64 (e_actual (rows ! i) + e_pending (rows ! i))"
  by (simp_all add: row_cell_def alm_data_def Let_def)

lemma updated_shows: "i < length rows \<Longrightarrow> shows_row E rows i (updated_card E rows i c)"
  by (simp add: shows_row_def updated_card_def card_from_row_def card_balances_def setBalances_def Let_def)
    (simp add: setIsPrimary_def setLabel_def setAddress_def refreshLabelDisplay_def)


section \<open>Cards in step with the list of addresses\<close>

definition deliver_notices :: "card_env \<Rightarrow> alm_state \<Rightarrow> notice list \<Rightarrow> sidebar \<Rightarrow> sidebar" where
  "deliver_notices E rows ns s = fold (sb_notice E rows) ns s"

text \<open>The list and the model after some of the model's events.\<close>

fun follow :: "card_env \<Rightarrow> (wallet_view option \<times> alm_event) list \<Rightarrow> alm_state \<times> sidebar \<Rightarrow> alm_state \<times> sidebar" where
  "follow E [] rs = rs"
| "follow E (e # es) rs = (case alm_step e (fst rs) of (rows, ns) \<Rightarrow> follow E es (rows, deliver_notices E rows ns (snd rs)))"

lemma notices_count:
  "replay ns (length (sb_cards s)) = Some m \<Longrightarrow> (\<forall>k. ModelReset k \<in> set ns \<longrightarrow> k = length rows) \<Longrightarrow>
   length (sb_cards (deliver_notices E rows ns s)) = m"
proof (induction ns arbitrary: s)
  case (Cons x ns)
  then obtain k where k: "apply_note x (length (sb_cards s)) = Some k" "replay ns k = Some m"
    by (auto split: option.splits)
  then have "length (sb_cards (sb_notice E rows x s)) = k"
    using Cons.prems(2) by (intro notice_counts) auto
  then show ?case
    using Cons.IH [of "sb_notice E rows x s"] k(2) Cons.prems(2) by (simp add: deliver_notices_def)
qed (simp add: deliver_notices_def)

lemma alm_resets: "ModelReset k \<in> set (snd (alm_step e s)) \<Longrightarrow> k = length (fst (alm_step e s))"
proof -
  obtain wo ev where "e = (wo, ev)"
    by fastforce
  then show "ModelReset k \<in> set (snd (alm_step e s)) \<Longrightarrow> k = length (fst (alm_step e s))"
    by (cases ev) (auto simp: alm_repopulate_def alm_walletClosed_def alm_refreshBalances_def alm_addressCreated_def
        alm_addressDeleted_def alm_ownAddressLabelChanged_def listChanged_def Let_def split: option.splits if_splits)
qed

lemma follow_counts:
  "length (sb_cards s) = length rows \<Longrightarrow> length (sb_cards (snd (follow E es (rows, s)))) = length (fst (follow E es (rows, s)))"
proof (induction es arbitrary: rows s)
  case (Cons e es)
  obtain rows1 ns where e: "alm_step e rows = (rows1, ns)"
    by fastforce
  have "length (sb_cards (deliver_notices E rows1 ns s)) = length rows1"
    using alm.announced [where s = rows and e = e] alm_resets [of _ e rows] Cons.prems e by (intro notices_count) auto
  then show ?case
    using Cons.IH [of "deliver_notices E rows1 ns s" rows1] e by simp
qed simp

lemma shows_selected [simp]: "shows_row E rows i (setSelected b c) = shows_row E rows i c"
  by (simp add: shows_row_def setSelected_def Let_def)

lemma change_shows:
  assumes "length (sb_cards s) = length rows" "rows \<noteq> []"
  shows "\<forall>i<length rows. shows_row E rows i (sb_cards (onDataChanged E rows 0 (length rows - 1) s) ! i)"
  using assms by (simp add: onDataChanged_def update_loop updated_shows)

lemma removal_shows:
  assumes "length (sb_cards s) = Suc (length rows)" "i < Suc (length rows)"
  shows "\<forall>j<length rows. shows_row E rows j (sb_cards (onRowsRemoved E rows i i s) ! j) \<and>
    cd_row (sb_cards (onRowsRemoved E rows i i s) ! j) = j"
proof -
  let ?s = "fold take_card (rev [i..<Suc i]) s"
  have "length (sb_cards ?s) = length rows"
    using assms take_loop [of i s i] by simp
  then show ?thesis
    by (simp add: onRowsRemoved_def applySelection_def rebind_loop updated_shows Let_def del: upt_Suc)
qed

lemma rebuilt_cards:
  "sb_cards (rebuildCards E rows s) = map (\<lambda>i. setSelected False (new_card (sb_next s + i) i)) [0..<length rows]"
  using rebuild_loop [of "s\<lparr>sb_cards := []\<rparr>" E rows "length rows"]
  by (auto simp: rebuildCards_def applySelection_def new_card_def setSelected_def split: option.split)



definition demo_card_env :: card_env where
  "demo_card_env = \<lparr>ce_format = Some (\<lambda>v. dec (unat v)), ce_node = True, ce_wallet = Some (True, False), ce_labels = None\<rparr>"

definition demo_wallet_view :: wallet_view where
  "demo_wallet_view = \<lparr>wv_isOpen = True, wv_addresses = [''K1'', ''K2''], wv_actual = (\<lambda>_. 5), wv_pending = (\<lambda>_. 2)\<rparr>"

definition no_cards :: sidebar where
  "no_cards = \<lparr>sb_cards = [], sb_lookups = [], sb_next = 0, sb_current = Some ''K1''\<rparr>"



section \<open>Account numbers\<close>

text \<open>Events that reach the list, in any environment.\<close>

datatype card_event =
    SbNotice notice
  | SbCurrent string
  | SbAdapter
  | SbRefresh
  | SbSent u64
  | SbClearSent
  | SbFound "nat \<times> string" "string option"

fun sb_do :: "card_env \<Rightarrow> alm_state \<Rightarrow> card_event \<Rightarrow> sidebar \<Rightarrow> sidebar" where
  "sb_do E rows (SbNotice x) s = sb_notice E rows x s"
| "sb_do E rows (SbCurrent a) s = onCurrentChanged a s"
| "sb_do E rows SbAdapter s = setCryptoNoteAdapter E rows s"
| "sb_do E rows SbRefresh s = refreshAccountNumbers E s"
| "sb_do E rows (SbSent ix) s = markRegistrationSent ix s"
| "sb_do E rows SbClearSent s = clearRegistrationPending s"
| "sb_do E rows (SbFound q r) s = account_number_found q r s"

text \<open>registered says which numbers the node may answer for an address; only questions that were asked are answered.\<close>

inductive sb_step :: "(string \<Rightarrow> string \<Rightarrow> bool) \<Rightarrow> sidebar \<Rightarrow> sidebar \<Rightarrow> bool" for registered where
  event: "\<forall>q r. ev \<noteq> SbFound q r \<Longrightarrow> sb_step registered s (sb_do E rows ev s)"
| answer: "(n, a) \<in> set (sb_lookups s) \<Longrightarrow> (\<forall>m. r = Some m \<longrightarrow> registered a m) \<Longrightarrow>
    sb_step registered s (sb_do E rows (SbFound (n, a) r) s)"

text \<open>
  The number of a card belongs to its address, and registration is offered
  exactly when there is no number, registering is possible and none is pending.
\<close>

definition card_sound :: "(string \<Rightarrow> string \<Rightarrow> bool) \<Rightarrow> card \<Rightarrow> bool" where
  "card_sound registered c \<longleftrightarrow> (cd_number c \<noteq> [] \<longrightarrow> registered (cd_address c) (cd_number c)) \<and>
     cd_numberShown c = (cd_number c \<noteq> []) \<and>
     cd_registerShown c = (cd_number c = [] \<and> cd_canRegister c \<and> \<not> cd_pending c)"

definition cards_sound :: "(string \<Rightarrow> string \<Rightarrow> bool) \<Rightarrow> sidebar \<Rightarrow> bool" where
  "cards_sound registered s \<longleftrightarrow> (\<forall>c\<in>set (sb_cards s). card_sound registered c)"

lemma new_card_sound: "card_sound R (new_card n i)"
  by (simp add: card_sound_def new_card_def)

lemma setter_sound:
  "card_sound R c \<Longrightarrow> card_sound R (setCanRegisterAccountNumber b c)"
  "card_sound R c \<Longrightarrow> card_sound R (setRegistrationPending b c)"
  "card_sound R c \<Longrightarrow> card_sound R (setSelected b c)" "card_sound R c \<Longrightarrow> card_sound R (card_balances E rows i c)"
  "card_sound R c \<Longrightarrow> (n \<noteq> [] \<longrightarrow> R (cd_address c) n) \<Longrightarrow> card_sound R (setAccountNumber n c)"
  "card_sound R c \<Longrightarrow> card_sound R (c\<lparr>cd_row := i\<rparr>)"
  by (auto simp: card_sound_def setCanRegisterAccountNumber_def setRegistrationPending_def setSelected_def
      setAccountNumber_def refreshAccountNumberRow_def card_balances_def setBalances_def Let_def)

lemma from_row_sound:
  assumes "card_sound R c"
  shows "card_sound R (card_from_row E rows i c)"
proof -
  let ?f = "\<lambda>a l d. setIsPrimary (i = 0) (setLabel l (setAddress a d))"
  have same: "card_sound R (?f (cd_address c) l c)" for l
    using assms by (simp add: card_sound_def setIsPrimary_def setLabel_def setAddress_def refreshLabelDisplay_def)
  have cleared: "card_sound R (setAccountNumber [] (setCanRegisterAccountNumber b (?f a l c)))" for a l b
    using assms by (auto simp: card_sound_def setAccountNumber_def setCanRegisterAccountNumber_def refreshAccountNumberRow_def
        setIsPrimary_def setLabel_def setAddress_def refreshLabelDisplay_def Let_def)
  show ?thesis
    using same cleared by (auto simp: card_from_row_def Let_def intro: setter_sound(1))
qed

lemma updated_sound: "card_sound R c \<Longrightarrow> card_sound R (updated_card E rows i c)"
  unfolding updated_card_def by (intro setter_sound(4) from_row_sound)

lemma in_updated: "c \<in> set (xs[i := x]) \<Longrightarrow> c \<in> set xs \<or> i < length xs \<and> c = x"
  by (cases "i < length xs") (auto dest: set_update_subset_insert [THEN subsetD] simp: list_update_beyond)

lemma same_cards:
  "cards_sound R (s\<lparr>sb_current := a\<rparr>) = cards_sound R s" "cards_sound R (fetchAccountNumberFor E i s) = cards_sound R s"
  by (simp_all add: cards_sound_def)

lemma update_sound: "cards_sound R s \<Longrightarrow> cards_sound R (updateCardAt E rows i s)"
  unfolding cards_sound_def by (auto dest!: in_updated intro: updated_sound)

lemma bind_sound: "cards_sound R s \<Longrightarrow> cards_sound R (bindCardSignals i s)"
  unfolding cards_sound_def bindCardSignals_def by (auto dest!: in_updated intro: setter_sound(6))

lemma selection_sound: "cards_sound R s \<Longrightarrow> cards_sound R (applySelection s)"
  by (auto simp: cards_sound_def applySelection_def intro: setter_sound(3))

lemma insert_sound:
  assumes "cards_sound R s"
  shows "cards_sound R (insert_card E rows row s)"
proof -
  let ?u = "updateCardAt E rows row (s\<lparr>sb_next := Suc (sb_next s)\<rparr>)"
  have "cards_sound R ?u"
    using assms by (intro update_sound) (simp add: cards_sound_def)
  then have "cards_sound R (?u\<lparr>sb_cards := insert_at row (new_card (sb_next s) row) (sb_cards ?u)\<rparr>)"
    unfolding cards_sound_def insert_at_def
    by (auto simp: new_card_sound simp del: update_fields dest: in_set_takeD in_set_dropD)
  then show ?thesis
    unfolding insert_card_def makeCard_def prod.case by (rule bind_sound)
qed

lemma take_sound: "cards_sound R s \<Longrightarrow> cards_sound R (take_card i s)"
  using set_remove_at_subset by (fastforce simp: cards_sound_def take_card_def)

lemma fold_sound: "(\<And>i s. cards_sound R s \<Longrightarrow> cards_sound R (f i s)) \<Longrightarrow> cards_sound R s \<Longrightarrow> cards_sound R (fold f xs s)"
  by (induction xs arbitrary: s) auto

lemma notice_sound: "cards_sound R s \<Longrightarrow> cards_sound R (sb_notice E rows x s)"
proof (cases x)
  case (RowsRemoved f l)
  assume s: "cards_sound R s"
  then have "cards_sound R (fold take_card (rev [f..<Suc l]) s)"
    by (rule fold_sound [rotated]) (rule take_sound)
  then show ?thesis
    unfolding RowsRemoved sb_notice.simps onRowsRemoved_def Let_def
    by (intro selection_sound fold_sound [of R "\<lambda>i. updateCardAt E rows i \<circ> bindCardSignals i" for E rows])
      (simp_all del: update_fields upt_Suc add: update_sound bind_sound)
next
  case (ModelReset n)
  have "cards_sound R (s\<lparr>sb_cards := []\<rparr>)"
    by (simp add: cards_sound_def)
  then show ?thesis
    unfolding ModelReset sb_notice.simps rebuildCards_def by (intro selection_sound fold_sound insert_sound)
qed (auto simp: onRowsInserted_def onDataChanged_def simp del: update_fields upt_Suc
    intro!: selection_sound fold_sound insert_sound update_sound)

lemma found_sound: "cards_sound R s \<Longrightarrow> (\<forall>m. r = Some m \<longrightarrow> R a m) \<Longrightarrow> cards_sound R (account_number_found (n, a) r s)"
  by (auto simp: cards_sound_def account_number_found_def intro!: setter_sound(5) split: option.split)

lemma sb_step_sound:
  assumes "cards_sound R s" "sb_step R s t"
  shows "cards_sound R t"
  using assms(2)
proof cases
  case (event ev E rows)
  show ?thesis
  proof (cases ev)
    case (SbSent ix)
    then show ?thesis
      using event assms(1)
      by (auto simp: markRegistrationSent_def cards_sound_def Let_def dest!: in_updated intro: setter_sound(2))
  next
    case SbClearSent
    then show ?thesis
      using event assms(1) by (auto simp: clearRegistrationPending_def cards_sound_def intro: setter_sound(2))
  qed (use event assms(1) in \<open>auto simp: notice_sound onCurrentChanged_def setCryptoNoteAdapter_def
        refreshAccountNumbers_def same_cards simp del: update_fields intro!: selection_sound fold_sound update_sound\<close>)
qed (use assms(1) in \<open>auto intro: found_sound\<close>)

interpretation card_numbers: inductive_invariant "\<lambda>s. sb_cards s = []" "sb_step registered" "cards_sound registered"
  for registered
  by unfold_locales (simp add: cards_sound_def, rule sb_step_sound)

text \<open>
  C39. Whenever the answers to account number lookups arrive, and whatever rows were
  inserted, removed or changed in between, a card shows a number only if it is
  one the node gave for the address on that card, and offers a registration
  exactly when it shows no number, the wallet can register and no registration of
  it is under way.
\<close>
theorem account_numbers_belong:
  assumes "reach (\<lambda>s. sb_cards s = []) (sb_step registered) s" "c \<in> set (sb_cards s)"
  shows "(cd_numberShown c \<longrightarrow> registered (cd_address c) (cd_number c)) \<and>
    (cd_registerShown c \<longleftrightarrow> \<not> cd_numberShown c \<and> cd_canRegister c \<and> \<not> cd_pending c)"
  using card_numbers.reach_inv [OF assms(1)] assms(2) by (auto simp: cards_sound_def card_sound_def)


definition demo_registered :: "string \<Rightarrow> string \<Rightarrow> bool" where
  "demo_registered a m \<longleftrightarrow> a = ''K1'' \<and> m = ''7''"

definition demo_rows :: alm_state where
  "demo_rows = [\<lparr>e_address = ''K1'', e_actual = 5, e_pending = 2\<rparr>]"

definition demo_listed :: sidebar where
  "demo_listed = sb_do demo_card_env demo_rows (SbNotice (DataChanged 0 0))
     (sb_do demo_card_env demo_rows (SbNotice (ModelReset 1)) no_cards)"

lemma demo_asked: "sb_lookups demo_listed = [(0, ''K1'')]"
  "map cd_number (sb_cards (account_number_found (0, ''K1'') (Some ''7'') demo_listed)) = [''7'']"
  "map cd_numberShown (sb_cards (account_number_found (0, ''K1'') (Some ''7'') demo_listed)) = [True]"
  by code_simp+

lemma account_numbers_belong_witness:
  "\<exists>c\<in>set (sb_cards (account_number_found (0, ''K1'') (Some ''7'') demo_listed)).
     demo_registered (cd_address c) (cd_number c) \<and> \<not> cd_registerShown c"
proof -
  let ?s = "account_number_found (0, ''K1'') (Some ''7'') demo_listed"
  have "sb_cards no_cards = []"
    by (simp add: no_cards_def)
  from reach_start [of "\<lambda>s. sb_cards s = []", OF this, of "sb_step demo_registered"]
  have "reach (\<lambda>s. sb_cards s = []) (sb_step demo_registered) demo_listed"
    unfolding demo_listed_def by (blast intro: reach_step sb_step.event)
  moreover have "sb_step demo_registered demo_listed ?s"
    using answer [of 0 "''K1''" demo_listed "Some ''7''" demo_registered demo_card_env demo_rows]
    by (simp add: demo_asked(1) demo_registered_def)
  ultimately have r: "reach (\<lambda>s. sb_cards s = []) (sb_step demo_registered) ?s"
    by (rule reach_step)
  obtain c where c: "c \<in> set (sb_cards ?s)" "cd_numberShown c"
    using demo_asked(3) by (cases "sb_cards ?s") auto
  show ?thesis
    using account_numbers_belong [OF r c(1)] c by blast
qed

end
