(* ===== verification/WindowParts.thy ===== *)
theory WindowParts
  imports PaymentRequest AddressCards Styles WalletSession
begin

text \<open>
  Smaller parts of the window: the texts of the send form's fields
  (SendFrame.cpp, TransferFrame.cpp), when it fills its address selectors, the
  progress over a form that waits (SendGlassFrame.cpp), the menus and small
  dialogs of MainWindow.cpp, the menu of an address card (AddressCard.cpp).
  Dialogs are their answers; a menu is the list of its entries' names, a
  separator an entry without one.
\<close>

section \<open>Texts of the send form\<close>

definition address_label :: "bool \<Rightarrow> string" where
  "address_label err = (if err then ''INVALID ADDRESS'' else ''PAY TO'')"

fun amount_label :: "amount_error \<Rightarrow> string" where
  "amount_label AmountFine = ''AMOUNT''"
| "amount_label WrongAmount = ''WRONG AMOUNT''"
| "amount_label InsufficientFunds = ''INSUFFICIENT FUNDS''"
| "amount_label BigTransaction = ''TRANSACTION IS TOO BIG''"

fun label_label :: "label_error \<Rightarrow> string" where
  "label_label LabelFine = ''LABEL''"
| "label_label Duplication = ''ADDRESS OR LABEL ALREADY EXISTS IN THE ADDRESS BOOK AND WILL NOT BE ADDED''"
| "label_label LikePaymentId = ''NOTE: THIS IS NOT A PAYMENT ID FIELD''"

text \<open>The three labels of a recipient, each with its error state.\<close>

definition recipient_labels :: "recipient \<Rightarrow> (string \<times> bool) list" where
  "recipient_labels t =
     [(address_label (te_addressError t), te_addressError t),
      (amount_label (te_amountError t), te_amountError t \<noteq> AmountFine),
      (label_label (te_labelError t), te_labelError t \<noteq> LabelFine)]"

definition payment_id_label :: "bool \<Rightarrow> string" where
  "payment_id_label err = (if err then ''INVALID FORMAT'' else ''PAYMENT ID'')"

definition mixin_label :: "bool \<Rightarrow> string" where
  "mixin_label err = (if err then ''MIXIN IS TOO BIG'' else ''ANONYMITY LEVEL'')"

definition SLIDER_CRITICAL_COLOR :: string where "SLIDER_CRITICAL_COLOR = ''#ea161f''"
definition SLIDER_NORMAL_COLOR :: string where "SLIDER_NORMAL_COLOR = ''#fdce00''"
definition SLIDER_GOOD_COLOR :: string where "SLIDER_GOOD_COLOR = ''#6ca025''"

definition mixin_color :: "nat \<Rightarrow> string" where
  "mixin_color v = (if v < 3 then SLIDER_CRITICAL_COLOR else if v < 6 then SLIDER_NORMAL_COLOR else SLIDER_GOOD_COLOR)"

definition priority_color :: "nat \<Rightarrow> string" where
  "priority_color v = (if v < 2 then SLIDER_CRITICAL_COLOR else if v < 3 then SLIDER_NORMAL_COLOR else SLIDER_GOOD_COLOR)"

text \<open>The slider's template with its own placeholder.\<close>

definition slider_sheet :: "string \<Rightarrow> string \<Rightarrow> string" where
  "slider_sheet template color = replace_all ''%COLOR%'' color template"

definition sf_generatePaymentIdClicked :: "send_env \<Rightarrow> string \<Rightarrow> sf_state \<Rightarrow> sf_state" where
  "sf_generatePaymentIdClicked E bytes s = sf_setPaymentId E (concat (map lower_hex bytes)) s"

definition sf_insertPaymentIdReceived :: "send_env \<Rightarrow> string \<Rightarrow> sf_state \<Rightarrow> sf_state" where
  "sf_insertPaymentIdReceived E p s = sf_setPaymentId E p s"

text \<open>The address book dialog: None is rejected, else its address and payment id.\<close>

definition te_addressBookClicked ::
  "send_env \<Rightarrow> ab_state \<Rightarrow> string \<Rightarrow> nat \<Rightarrow> (string \<times> string) option \<Rightarrow> sf_state \<Rightarrow> sf_state" where
  "te_addressBookClicked E ab completion i answer s =
     (case answer of
        None \<Rightarrow> s
      | Some (a, p) \<Rightarrow> (let s1 = sf_setAddress E ab completion i a s
          in if p \<noteq> [] then sf_insertPaymentIdReceived E p s1 else s1))"

definition te_pasteClicked :: "send_env \<Rightarrow> ab_state \<Rightarrow> string \<Rightarrow> nat \<Rightarrow> string \<Rightarrow> sf_state \<Rightarrow> sf_state" where
  "te_pasteClicked E ab completion i clipboard s = sf_setAddress E ab completion i clipboard s"

text \<open>The wheel moves an amount only when its field has the focus; True is an event that is taken away.\<close>

definition te_eventFilter :: "bool \<Rightarrow> bool \<Rightarrow> bool \<Rightarrow> bool" where
  "te_eventFilter on_amount wheel focus \<longleftrightarrow> on_amount \<and> wheel \<and> \<not> focus"


section \<open>When the selectors are filled\<close>

text \<open>What the address list announces, with the first and last column of changed data.\<close>

datatype list_signal = ListInserted | ListRemoved | ListReset | ListChanged int int

fun repopulates :: "list_signal \<Rightarrow> bool" where
  "repopulates (ListChanged l r) = (l \<le> ALM_COLUMN_LABEL \<and> ALM_COLUMN_LABEL \<le> r)"
| "repopulates _ = True"

definition sf_listSignal :: "string list \<Rightarrow> list_signal \<Rightarrow> sf_state \<Rightarrow> sf_state" where
  "sf_listSignal addresses sig s = (if repopulates sig then sf_repopulateAddressSelectors addresses s else s)"

text \<open>same: the model is the one the form has already.\<close>

definition sf_setAddressListModel :: "bool \<Rightarrow> string list \<Rightarrow> sf_state \<Rightarrow> sf_state" where
  "sf_setAddressListModel same addresses s = (if same then s else sf_repopulateAddressSelectors addresses s)"

definition sf_setCurrentAddressState :: "bool \<Rightarrow> string option \<Rightarrow> sf_state \<Rightarrow> sf_state" where
  "sf_setCurrentAddressState same st s =
     (if same then s
      else (case st of None \<Rightarrow> s | Some current \<Rightarrow> if current \<noteq> [] then sf_onCurrentAddressChanged current s else s))"


section \<open>SendGlassFrame\<close>

definition MAX_QUINT32 :: u32 where "MAX_QUINT32 = - 1"

text \<open>What the buffer was painted for: the two heights and the theme.\<close>

record send_glass =
  sg_current :: u32
  sg_full :: u32
  sg_theme :: string
  sg_painted :: "(u32 \<times> u32 \<times> string) option"

definition sg_new :: "string \<Rightarrow> send_glass" where
  "sg_new t = \<lparr>sg_current = MAX_QUINT32, sg_full = MAX_QUINT32, sg_theme = t, sg_painted = None\<rparr>"

definition sg_paintInBuffer :: "string \<Rightarrow> send_glass \<Rightarrow> send_glass" where
  "sg_paintInBuffer t g = g\<lparr>sg_painted := Some (sg_current g, sg_full g, t)\<rparr>"

definition updateSynchronizationState :: "string \<Rightarrow> u32 \<Rightarrow> u32 \<Rightarrow> send_glass \<Rightarrow> send_glass" where
  "updateSynchronizationState t c n g =
     (if sg_current g \<noteq> c \<or> sg_full g \<noteq> n then sg_paintInBuffer t (g\<lparr>sg_current := c, sg_full := n\<rparr>) else g)"

definition sg_paintEvent :: "string \<Rightarrow> send_glass \<Rightarrow> send_glass" where
  "sg_paintEvent t g = (if sg_theme g \<noteq> t then (sg_paintInBuffer t g)\<lparr>sg_theme := t\<rparr> else g)"

definition sg_updateStyle :: "string \<Rightarrow> send_glass \<Rightarrow> send_glass" where
  "sg_updateStyle t g = sg_paintInBuffer t g"

text \<open>The end angle in sixteenths of a degree; the quotient of doubles taken exactly.\<close>

definition progress_angle :: "u32 \<Rightarrow> u32 \<Rightarrow> int" where
  "progress_angle c n = - (5760 * int (unat c) div int (unat n))"

definition progress_text :: "u32 \<Rightarrow> u32 \<Rightarrow> string" where
  "progress_text c n = ''Synchronizing '' @ dec (unat c) @ ''/'' @ dec (unat n)"


section \<open>The menus of the main window\<close>

type_synonym menu = "string list"

text \<open>QWidget::insertAction: before the anchor, or at the end without one. An action in the menu is moved.\<close>

definition insertAction :: "string option \<Rightarrow> string \<Rightarrow> menu \<Rightarrow> menu" where
  "insertAction anchor a m =
     (let m1 = (if a = [] then m else removeAll a m)
      in case anchor of
           Some x \<Rightarrow> if x \<in> set m1 then takeWhile (\<lambda>y. y \<noteq> x) m1 @ a # dropWhile (\<lambda>y. y \<noteq> x) m1 else m1 @ [a]
         | None \<Rightarrow> m1 @ [a])"

text \<open>menuFile and menuWallet as the form has them.\<close>

definition menuFile :: menu where
  "menuFile = [''m_createWalletAction'', ''m_createNondeterministicWalletAction'', ''m_openWalletAction'',
     ''m_closeWalletAction'', ''m_recentWalletsAction'', [], ''m_signMessageAction'', ''m_verifyMessageAction'', [], ''m_exitAction'']"

definition menuWallet :: menu where
  "menuWallet = [''m_encryptWalletAction'', ''m_changePasswordAction'', [], ''m_backupWalletAction'', ''m_saveKeysAction'',
     ''m_importKeyAction'', ''m_exportKeyAction'', ''m_exportTrackingKeyAction'', [], ''m_showSeedAction'', ''m_importSeedAction'', [],
     ''m_getBalanceProofAction'', [], ''m_resetAction'']"

definition rearrangeWalletMenu :: "menu \<times> menu \<Rightarrow> menu \<times> menu" where
  "rearrangeWalletMenu ms =
     (let (walletMenu, fileMenu) = ms;
          moved = [''m_importKeyAction'', ''m_importSeedAction'', ''m_exportKeyAction'', ''m_exportTrackingKeyAction'',
            ''m_getBalanceProofAction'', ''m_showSeedAction''];
          w1 = fold removeAll moved walletMenu;
          fileAnchor = Some ''m_signMessageAction'';
          f1 = insertAction fileAnchor ''m_importKeyAction'' fileMenu;
          f2 = insertAction fileAnchor ''m_importSeedAction'' f1;
          f3 = insertAction fileAnchor [] f2;
          walletAnchor = (case w1 of [] \<Rightarrow> None | a # _ \<Rightarrow> Some a);
          w2 = insertAction walletAnchor ''m_createAddressAction'' w1;
          w3 = insertAction walletAnchor ''m_importAddressAction'' w2;
          w4 = insertAction walletAnchor [] w3
      in (w4, f3))"

text \<open>The navigation bar: actions with their captions and icons.\<close>

definition nav_specs :: "(page \<times> string \<times> string) list" where
  "nav_specs = [(Overview, ''Overview'', ''overview''), (Send, ''Send'', ''send''), (Receive, ''Receive'', ''receive''),
     (History, ''History'', ''transactions''), (Contacts, ''Contacts'', ''address_book''), (Explorer, ''Explorer'', ''explorer'')]"

text \<open>The settings menu; the explorer's entry also tells that a restart is needed.\<close>

definition mw_setMinimizeToTrayEnabled :: "cfg_env \<Rightarrow> bool \<Rightarrow> cfg \<Rightarrow> cfg" where
  "mw_setMinimizeToTrayEnabled E b s = setMinimizeToTrayEnabled E b s"

definition mw_setCloseToTrayEnabled :: "cfg_env \<Rightarrow> bool \<Rightarrow> cfg \<Rightarrow> cfg" where
  "mw_setCloseToTrayEnabled E b s = setCloseToTrayEnabled E b s"

definition mw_setBlockchainExplorerEnabled :: "cfg_env \<Rightarrow> bool \<Rightarrow> cfg \<Rightarrow> cfg \<times> string" where
  "mw_setBlockchainExplorerEnabled E b s =
     (setBlockchainExplorerEnabled E b s, ''Changes will take effect after wallet restart.'')"


section \<open>Small dialogs\<close>

text \<open>A spin box holds a number in its range; the answers are what the user enters, None is cancel.\<close>

definition getWalletInt :: "int \<Rightarrow> int \<Rightarrow> int \<Rightarrow> int option \<Rightarrow> int option" where
  "getWalletInt initial lo hi answer = map_option (\<lambda>v. if v < lo then lo else if hi < v then hi else v) answer"

definition getWalletText :: "string \<Rightarrow> (string \<Rightarrow> string option) \<Rightarrow> string option" where
  "getWalletText initial edit = edit initial"

definition renameAddressFromCard ::
  "codec \<Rightarrow> (u64 \<Rightarrow> string) \<Rightarrow> alm_state \<Rightarrow> nat \<Rightarrow> string \<Rightarrow> (string \<Rightarrow> string option) \<Rightarrow> ab_state option \<Rightarrow> ab_state option" where
  "renameAddressFromCard c fmt rows i a edit labels =
     (if a = [] then labels
      else (let existing = (if i < length rows then q_toString (alm_data fmt labels rows (int i) ALM_COLUMN_LABEL (UserRole 1)) else [])
            in case getWalletText existing edit of
                 None \<Rightarrow> labels
               | Some l \<Rightarrow> alm_setLabelForAddress c a (trimmed l) labels))"

text \<open>Whether a URL asks for a donation: has the item and what it reads.\<close>

definition isDonationUrl :: "url_lib \<Rightarrow> string \<Rightarrow> bool" where
  "isDonationUrl U q =
     (if map_of (query_items q) ''donation'' = None then False
      else same_text (queryItemValue U q ''donation'') ''true'')"


section \<open>The menu of an address card\<close>

text \<open>The entries in their order, each with whether it is shown and whether it is enabled.\<close>

definition card_menu :: "card \<Rightarrow> (string \<times> bool \<times> bool) list" where
  "card_menu c =
     [(''Copy address'', True, True), (''Show QR code'', True, True), (''Copy account number'', cd_numberShown c, True),
      ([], True, True),
      (''Rename...'', True, True), (''Show keys...'', True, True), (''Export tracking key...'', True, True),
      (''Show mnemonic seed...'', True, True), ([], True, True),
      (''Send from this address'', True, True), (''Prove balance...'', True, True),
      (''Register account number...'', cd_registerShown c, True), ([], True, True),
      (''Delete address'', True, cd_deletable c)]"

text \<open>The address as it fits the label; elided is QFontMetrics::elidedText in the middle.\<close>

definition updateElidedAddress :: "(string \<Rightarrow> int \<Rightarrow> string) \<Rightarrow> int \<Rightarrow> card \<Rightarrow> string" where
  "updateElidedAddress elided available c =
     (if cd_address c = [] then [] else if available \<le> 0 then cd_address c else elided (cd_address c) available)"

definition advanced_button_x :: "int \<Rightarrow> int" where
  "advanced_button_x w = max 0 (w - 24 - 4)"


section \<open>What the parts do\<close>

text \<open>A payment id made for the payer is accepted.\<close>

lemma generated_payment_id:
  assumes "length bytes = 32"
  shows "sf_isValidPaymentId (concat (map lower_hex bytes))"
proof -
  have hex: "is_hex (lower_char (hex_char n))" if "n < 16" for n
  proof -
    have lower: "map lower_char ''0123456789ABCDEF'' = ''0123456789abcdef''"
      by code_simp
    have "list_all is_hex (map lower_char ''0123456789ABCDEF'')"
      unfolding lower by (simp add: is_hex_def is_digit_def)
    moreover have "lower_char (hex_char n) \<in> set (map lower_char ''0123456789ABCDEF'')"
      using that by (simp only: hex_char_def set_map) (rule imageI, rule nth_mem, simp)
    ultimately show ?thesis
      unfolding list_all_iff by (rule bspec)
  qed
  have "list_all is_hex (lower_hex c)" for c
    using hex [of "of_char c div 16"] hex [of "of_char c mod 16"] nat_of_char_less_256 [of c]
    by (simp add: lower_hex_def div_less_iff_less_mult)
  then have all: "\<forall>x\<in>set (concat (map lower_hex bytes)). is_hex x"
    by (auto simp: list_all_iff)
  have "\<not> is_space x" if "is_hex x" for x
    using that by (auto simp: is_hex_def is_digit_def is_space_def)
  with all have "trimmed (concat (map lower_hex bytes)) = concat (map lower_hex bytes)"
    by (intro trimmed_no_space) blast
  moreover have "length (concat (map lower_hex bytes)) = 2 * length bytes"
    by (induction bytes) (simp_all add: lower_hex_def)
  ultimately show ?thesis
    using all assms by (simp add: strict_check)
qed

text \<open>What moves in the menus: the imports to the file menu, the actions of one address out of both.\<close>

lemma rearranged_menus:
  "rearrangeWalletMenu (menuWallet, menuFile) =
    ([''m_createAddressAction'', ''m_importAddressAction'', [], ''m_encryptWalletAction'', ''m_changePasswordAction'', [],
      ''m_backupWalletAction'', ''m_saveKeysAction'', [], [], [], ''m_resetAction''],
     [''m_createWalletAction'', ''m_createNondeterministicWalletAction'', ''m_openWalletAction'', ''m_closeWalletAction'',
      ''m_recentWalletsAction'', [], ''m_importKeyAction'', ''m_importSeedAction'', [], ''m_signMessageAction'',
      ''m_verifyMessageAction'', [], ''m_exitAction''])"
  by (simp add: rearrangeWalletMenu_def menuWallet_def menuFile_def insertAction_def)

text \<open>A renamed address offers its new label, trimmed, when it is renamed again.\<close>

lemma rename_offers_new_label:
  assumes "i < length rows" "e_address (rows ! i) = a" "a \<noteq> []" "edit (getOwnAddressLabel m a) = Some l"
  shows "renameAddressFromCard c fmt rows i a edit (Some m) = Some (setOwnAddressLabel c a (trimmed l) m)"
    "renameAddressFromCard c fmt rows i a edit' (Some (setOwnAddressLabel c a (trimmed l) m)) =
      (case edit' (trimmed l) of None \<Rightarrow> Some (setOwnAddressLabel c a (trimmed l) m)
       | Some k \<Rightarrow> Some (setOwnAddressLabel c a (trimmed k) (setOwnAddressLabel c a (trimmed l) m)))"
  using assms own_label_roundtrip
  by (simp_all add: renameAddressFromCard_def getWalletText_def alm_setLabelForAddress_def alm_data_def
      alm_labelForAddress_def Let_def split: option.split)

lemma chosen_number_in_range: "lo \<le> hi \<Longrightarrow> getWalletInt initial lo hi answer = Some v \<Longrightarrow> lo \<le> v \<and> v \<le> hi"
  by (auto simp: getWalletInt_def split: if_splits)

text \<open>A card never offers to register a number it shows, and only shows a number it can copy.\<close>

lemma card_menu_account_number:
  "(''Register account number...'', True, True) \<in> set (card_menu (refreshAccountNumberRow c)) \<Longrightarrow>
     (''Copy account number'', True, True) \<notin> set (card_menu (refreshAccountNumberRow c))"
  by (auto simp: card_menu_def refreshAccountNumberRow_def Let_def)

text \<open>The progress that is painted is the last one reported, also after a change of theme.\<close>

lemma painted_progress:
  "sg_painted g = Some (sg_current g, sg_full g, t) \<Longrightarrow>
     sg_painted (updateSynchronizationState u c n g) = Some (c, n, if sg_current g \<noteq> c \<or> sg_full g \<noteq> n then u else t)"
  "sg_painted (sg_paintEvent u g) = (if sg_theme g \<noteq> u then Some (sg_current g, sg_full g, u) else sg_painted g)"
  by (simp_all add: updateSynchronizationState_def sg_paintInBuffer_def sg_paintEvent_def)

lemma progress_angle_bounds:
  assumes "c \<le> n" "n \<noteq> 0"
  shows "- 5760 \<le> progress_angle c n \<and> progress_angle c n \<le> 0"
proof -
  have "uint n \<noteq> 0"
    using assms(2) by (simp add: uint_0_iff)
  moreover have "0 \<le> uint n"
    by (rule uint_ge_0)
  ultimately have "0 < uint n"
    by linarith
  moreover have "uint c \<le> uint n"
    using assms(1) by (simp add: word_le_def)
  moreover note n = calculation
  ultimately have "5760 * uint c div uint n \<le> 5760 * uint n div uint n"
    by (intro zdiv_mono1) simp_all
  with n show ?thesis
    by (simp add: progress_angle_def pos_imp_zdiv_nonneg_iff)
qed

end
