(* ===== verification/DetailViews.thy ===== *)
theory DetailViews
  imports TransactionFilters TransferLists TransactionPoolModel BlockPages BlockchainModel
begin

text \<open>
  The views of lists and what opens from them: WalletTableView (WalletTreeView is
  the same code over QTreeView), the delegates that change the text of a cell
  (TransactionsAmountDelegate, TransactionsTimeDelegate), the context menu of the
  history (TransactionsFrame.cpp), the dialogs with the details of a transaction,
  a pool transaction or a block (TransactionDetailsDialog.cpp,
  PoolTransactionDetailsDialog.cpp, BlockDetailsDialog.cpp with
  TransactionsBlockModel.cpp), the recent transactions of the overview, the QR
  code as pixels (QRLabel.cpp) and the small dialogs for seeds and ports. A label
  filled by a QDataWidgetMapper shows the edit role of its column.
\<close>

section \<open>WalletTableView\<close>

text \<open>
  tv_linkDelegates are the columns that were given the delegate for links, None
  before there is one. The model of the view is none, one that shows all of its
  rows, or a window on n rows.
\<close>

record table_view =
  tv_links :: "int list"
  tv_copyable :: "int list"
  tv_linkDelegates :: "int list option"
  tv_hover :: bool
  tv_autoUpdate :: bool
  tv_border :: bool
  tv_scrollBarOff :: bool

datatype view_model = NoModel | PlainModel nat | WindowedModel window nat

definition tv_new :: "bool \<Rightarrow> table_view" where
  "tv_new scrollBarOff = \<lparr>tv_links = [], tv_copyable = [], tv_linkDelegates = None, tv_hover = False,
     tv_autoUpdate = True, tv_border = False, tv_scrollBarOff = scrollBarOff\<rparr>"

definition setLinkLikeColumnSet :: "int list \<Rightarrow> table_view \<Rightarrow> table_view" where
  "setLinkLikeColumnSet columns v =
     (let v1 = v\<lparr>tv_links := columns\<rparr>
      in if columns \<noteq> [] \<and> tv_linkDelegates v1 = None then v1\<lparr>tv_linkDelegates := Some columns\<rparr> else v1)"

definition setCopyableColumnSet :: "int list \<Rightarrow> table_view \<Rightarrow> table_view" where
  "setCopyableColumnSet columns v = v\<lparr>tv_copyable := columns\<rparr>"

definition setHoverIsVisible :: "bool \<Rightarrow> table_view \<Rightarrow> table_view" where
  "setHoverIsVisible b v = v\<lparr>tv_hover := b\<rparr>"

definition setAutoUpdateRowCount :: "bool \<Rightarrow> table_view \<Rightarrow> table_view" where
  "setAutoUpdateRowCount b v = v\<lparr>tv_autoUpdate := b\<rparr>"

text \<open>The column under the mouse, None when there is no cell: is the cursor a pointing hand?\<close>

definition tv_mouseMoveEvent :: "table_view \<Rightarrow> int option \<Rightarrow> bool" where
  "tv_mouseMoveEvent v cell =
     (case cell of None \<Rightarrow> False | Some c \<Rightarrow> c \<in> set (tv_links v) \<or> c \<in> set (tv_copyable v))"

datatype view_signal = DoubleClicked | CopyableItemClicked

definition tv_itemClicked :: "table_view \<Rightarrow> int option \<Rightarrow> view_signal option" where
  "tv_itemClicked v cell =
     (case cell of
        None \<Rightarrow> None
      | Some c \<Rightarrow>
          (if c \<in> set (tv_links v) then Some DoubleClicked
           else if c \<in> set (tv_copyable v) then Some CopyableItemClicked else None))"

definition tv_paintEvent :: "bool \<Rightarrow> table_view \<Rightarrow> table_view" where
  "tv_paintEvent scrollBarVisible v =
     (if \<not> tv_border v \<and> scrollBarVisible then v\<lparr>tv_border := True\<rparr>
      else if tv_border v \<and> \<not> scrollBarVisible then v\<lparr>tv_border := False\<rparr> else v)"

text \<open>The rows the model shows; without a filter role a window counts rows.\<close>

definition vm_rowCount :: "view_model \<Rightarrow> nat" where
  "vm_rowCount m =
     (case m of
        NoModel \<Rightarrow> 0
      | PlainModel n \<Rightarrow> n
      | WindowedModel w n \<Rightarrow> length (filter (\<lambda>r. wn_accepts w (of_nat r)) [0..<n]))"

definition tv_calculateVisibleRowCount :: "nat \<Rightarrow> nat \<Rightarrow> view_model \<Rightarrow> nat" where
  "tv_calculateVisibleRowCount itemHeight h m = (if m = NoModel then 0 else h div itemHeight)"

definition tv_updateRowCount :: "nat \<Rightarrow> nat \<Rightarrow> table_view \<Rightarrow> view_model \<Rightarrow> view_model" where
  "tv_updateRowCount itemHeight h v m =
     (if tv_scrollBarOff v then
        (case m of
           WindowedModel w n \<Rightarrow> WindowedModel (fst (wn_setSize (of_nat (tv_calculateVisibleRowCount itemHeight h m)) w)) n
         | _ \<Rightarrow> m)
      else m)"

definition tv_resizeEvent :: "nat \<Rightarrow> nat \<Rightarrow> table_view \<Rightarrow> view_model \<Rightarrow> view_model" where
  "tv_resizeEvent itemHeight h v m =
     (if \<not> tv_autoUpdate v then m
      else if m \<noteq> NoModel \<and> (h < vm_rowCount m * itemHeight \<or> vm_rowCount m * itemHeight + itemHeight \<le> h)
      then tv_updateRowCount itemHeight h v m else m)"


section \<open>Texts of cells\<close>

definition AMOUNT_DECIMAL_COUNT :: int where "AMOUNT_DECIMAL_COUNT = 3"

text \<open>The text that is painted for an amount, and whether it was cut and fades out.\<close>

definition painted_amount :: "bool \<Rightarrow> bool \<Rightarrow> string \<Rightarrow> string \<times> bool" where
  "painted_amount hideLong mouseOver s =
     (if \<not> hideLong then (s, False)
      else
        (let dotPos = index_of (CHR ''.'') s;
             n = int (length s) - 1 - dotPos;
             s1 = (if n < AMOUNT_DECIMAL_COUNT then s @ replicate (nat (AMOUNT_DECIMAL_COUNT - n)) (CHR ''0'') else s)
         in if n > AMOUNT_DECIMAL_COUNT \<and> \<not> mouseOver
            then (take (nat (int (length s1) - n + AMOUNT_DECIMAL_COUNT)) s1, True) else (s1, False)))"

text \<open>The colour of an amount and the one its end fades to; given is the model's colour.\<close>

definition getAmountTextColor :: "style \<Rightarrow> bool \<Rightarrow> string option \<Rightarrow> string" where
  "getAmountTextColor st selected given =
     (if selected then style_get st ''selectionTextColor''
      else case given of Some c \<Rightarrow> c | None \<Rightarrow> style_get st ''primaryTextColor'')"

definition getAmountFadeColor :: "style \<Rightarrow> bool \<Rightarrow> bool \<Rightarrow> bool \<Rightarrow> string" where
  "getAmountFadeColor st selected mouseOver alternate =
     (if selected then style_get st ''selectionColor''
      else if mouseOver then style_get st ''hoverBackgroundColor''
      else if alternate then style_get st ''panelBackgroundColor'' else style_get st ''backgroundColorAlternate'')"

text \<open>cell is the text of the model.\<close>

definition painted_time :: "tx_state \<Rightarrow> string \<Rightarrow> string" where
  "painted_time st cell =
     (if st = TX_SUCCEEDED then cell
      else case st of TX_FAILED \<Rightarrow> ''Failed'' | TX_CANCELLED \<Rightarrow> ''Cancelled'' | _ \<Rightarrow> ''-'')"


section \<open>The history view\<close>

text \<open>The text of a cell in the row of an index of the view; the view's columns are those the proxy keeps.\<close>

definition cell_text :: "tm_env \<Rightarrow> tm_state \<Rightarrow> nat \<Rightarrow> int \<Rightarrow> string" where
  "cell_text E s row viewColumn =
     (if 0 \<le> viewColumn \<and> nat viewColumn < length shown_columns
      then case tm_data E s row (tm_columns ! nat (shown_columns ! nat viewColumn)) DisplayRole of
             Some (QStr t) \<Rightarrow> t | Some (QBytes t) \<Rightarrow> t | _ \<Rightarrow> []
      else [])"

text \<open>The index of the menu is a source row, or None for a click outside the rows. Each slot gives the clipboard.\<close>

definition history_menu :: "tm_env \<Rightarrow> tm_state \<Rightarrow> nat option \<Rightarrow> string list" where
  "history_menu E s index =
     [''Copy transaction &hash''] @
     (if (case index of None \<Rightarrow> [] | Some row \<Rightarrow> row_paymentId E s row) = [] then [] else [''Copy Payment &ID'']) @
     [''Copy &amount'', ''Show &details'']"

definition copyTxHash :: "tm_env \<Rightarrow> tm_state \<Rightarrow> nat option \<Rightarrow> string" where
  "copyTxHash E s index = (case index of None \<Rightarrow> [] | Some row \<Rightarrow> cell_text E s row (tm_section TM_HASH))"

definition copyAmount :: "tm_env \<Rightarrow> tm_state \<Rightarrow> nat option \<Rightarrow> string" where
  "copyAmount E s index = (case index of None \<Rightarrow> [] | Some row \<Rightarrow> cell_text E s row (tm_section TM_AMOUNT))"

definition copyPaymentID :: "tm_env \<Rightarrow> tm_state \<Rightarrow> nat option \<Rightarrow> string" where
  "copyPaymentID E s index = (case index of None \<Rightarrow> [] | Some row \<Rightarrow> row_paymentId E s row)"

text \<open>The transaction whose details open, with a double click on a column or from the menu.\<close>

definition transactionDoubleClicked :: "(nat \<times> tm_column) option \<Rightarrow> nat option" where
  "transactionDoubleClicked index =
     (case index of None \<Rightarrow> None | Some (row, c) \<Rightarrow> if c \<noteq> TM_SHOW_TRANSFERS then Some row else None)"

definition showTxDetails :: "nat option \<Rightarrow> nat option" where
  "showTxDetails index = (case index of None \<Rightarrow> None | Some row \<Rightarrow> Some row)"

definition history_links :: "int list" where
  "history_links = [findProxyColumn shown_columns (tm_section TM_HASH), findProxyColumn shown_columns (tm_section TM_SHOW_TRANSFERS)]"


section \<open>TransactionDetailsDialog\<close>

definition transaction_fields :: "(string \<times> tm_column) list" where
  "transaction_fields =
     [(''m_hashLabel'', TM_HASH), (''m_statusLabel'', TM_STATE), (''m_timeLabel'', TM_TIME), (''m_heightLabel'', TM_HEIGHT),
      (''m_toLabel'', TM_TRANSFERS), (''m_amountLabel'', TM_AMOUNT), (''m_feeLabel'', TM_FEE),
      (''m_paymentIdLabel'', TM_PAYMENT_ID)]"

definition transaction_labels :: "tm_env \<Rightarrow> tm_state \<Rightarrow> nat \<Rightarrow> (string \<times> qvariant option) list" where
  "transaction_labels E s row = map (\<lambda>(l, c). (l, tm_data E s row c EditRole)) transaction_fields"

definition tx_key_text :: "skey \<Rightarrow> string" where
  "tx_key_text key = (if key \<noteq> NULL_KEY then toHex key else ''(n/a)'')"

text \<open>A release of a mouse button over the label with the hash fills the clipboard and starts the label Copied.\<close>

definition details_eventFilter :: "bool \<Rightarrow> bool \<Rightarrow> string \<Rightarrow> string option" where
  "details_eventFilter onHashLabel released hash = (if onHashLabel \<and> released then Some hash else None)"

text \<open>parse reads an address, proof asks the wallet; the row is one of the transfers.\<close>

definition getTxProof ::
  "(string \<Rightarrow> 'a option) \<Rightarrow> (string \<Rightarrow> 'a \<Rightarrow> string) \<Rightarrow> full_tx \<Rightarrow> nat \<Rightarrow> string" where
  "getTxProof parse proof x row =
     (let transfer = ft_transfers x ! row
      in case parse (tf_address transfer) of
           Some a \<Rightarrow> if sint (tf_amount transfer) > 0 then proof (wt_hash (ft_transaction x)) a else []
         | None \<Rightarrow> [])"

definition copyableItemClicked ::
  "(string \<Rightarrow> 'a option) \<Rightarrow> (string \<Rightarrow> 'a \<Rightarrow> string) \<Rightarrow> (i64 \<Rightarrow> string) \<Rightarrow> full_tx \<Rightarrow> nat \<Rightarrow> tf_column \<Rightarrow> string" where
  "copyableItemClicked parse proof amount x row column =
     (if column = TF_PROOF then getTxProof parse proof x row
      else case tf_getDisplayRole amount (ft_transfers x) row column of Some (QStr t) \<Rightarrow> t | _ \<Rightarrow> [])"


section \<open>BlockDetailsDialog and PoolTransactionDetailsDialog\<close>

definition block_fields :: "(string \<times> bm_column) list" where
  "block_fields =
     [(''m_blockHashLabel'', COLUMN_BLOCK_HASH), (''m_heightLabel'', COLUMN_BLOCK_HEIGHT),
      (''m_timestampLabel'', COLUMN_BLOCK_TIME), (''m_difficultyLabel'', COLUMN_BLOCK_DIFFICULTY),
      (''m_orphanLabel'', COLUMN_BLOCK_IS_ORPHANED), (''m_transactionCountLabel'', COLUMN_BLOCK_TRANSACTION_COUNT),
      (''m_transactionsSizeLabel'', COLUMN_BLOCK_TRANSACTIONS_SIZE), (''m_blockSizeLabel'', COLUMN_BLOCK_SIZE),
      (''m_penaltyLabel'', COLUMN_BLOCK_REWARD_PENALTY), (''m_baseRewardLabel'', COLUMN_BLOCK_BASE_REWARD),
      (''m_feeLabel'', COLUMN_BLOCK_FEE), (''m_rewardLabel'', COLUMN_BLOCK_REWARD),
      (''m_totalCoinsLabel'', COLUMN_BLOCK_TOTAL_COIN_COUNT),
      (''m_totalTransactionsLabel'', COLUMN_BLOCK_TOTAL_TRANSACTION_COUNT)]"

definition block_labels ::
  "formats \<Rightarrow> (u32 \<Rightarrow> block_details option) \<Rightarrow> tx_details \<Rightarrow> int \<Rightarrow> (string \<times> qvariant option) list" where
  "block_labels F get blank row =
     map (\<lambda>(l, c). (l, bm_data F get blank (Some \<lparr>ix_row = row, ix_column = c, ix_id = INVALID_BLOCK_INDEX\<rparr>) Display))
       block_fields"

text \<open>
  TransactionsBlockModel. A source index is its row, with the row of its parent
  for a transaction; the model keeps the row of its block.
\<close>

definition tb_accepts_row :: "int option \<Rightarrow> int option \<Rightarrow> int \<Rightarrow> bool" where
  "tb_accepts_row blockRow parent row =
     (case blockRow of
        None \<Rightarrow> False
      | Some b \<Rightarrow> (case parent of Some p \<Rightarrow> p = b | None \<Rightarrow> row = b))"

definition tb_accepts_column :: "int \<Rightarrow> bool" where
  "tb_accepts_column c \<longleftrightarrow>
     c = bm_section COLUMN_TRANSACTION_HASH \<or> c = bm_section COLUMN_TRANSACTION_PAYMENT_ID \<or>
     c = bm_section COLUMN_TRANSACTION_FEE \<or> c = bm_section COLUMN_TRANSACTION_SIZE \<or>
     c = bm_section COLUMN_TRANSACTION_OUTPUT_AMOUNT"

definition tb_columns :: "int list" where
  "tb_columns = filter tb_accepts_column (map bm_section bm_columns)"

text \<open>sort() takes a column of the proxy itself; one that it does not have leaves the order of the source.\<close>

definition tb_sorted_by :: "int option" where
  "tb_sorted_by =
     (let c = bm_section COLUMN_TRANSACTION_TIME in if nat c < length tb_columns then Some (tb_columns ! nat c) else None)"

text \<open>The rows below the shown block, which is the first row of the proxy, and their cells.\<close>

definition tb_transactions :: "int option \<Rightarrow> u32 \<Rightarrow> (int \<Rightarrow> nat) \<Rightarrow> (int \<times> nat) list" where
  "tb_transactions blockRow n count =
     (case filter (\<lambda>r. tb_accepts_row blockRow None (int r)) [0..<unat n] of
        [] \<Rightarrow> []
      | r # _ \<Rightarrow> map (Pair (int r)) (filter (\<lambda>k. tb_accepts_row blockRow (Some (int r)) (int k)) [0..<count (int r)]))"

definition tb_data ::
  "formats \<Rightarrow> (u32 \<Rightarrow> block_details option) \<Rightarrow> tx_details \<Rightarrow> bm_index option \<Rightarrow> bm_data_role \<Rightarrow> qvariant option" where
  "tb_data F get blank idx role =
     (case idx of
        None \<Rightarrow> Some QNull
      | Some i \<Rightarrow>
          (if role = Display \<and> ix_column i = COLUMN_TRANSACTION_HASH
           then map_option (\<lambda>v. QBytes (f_hex F (to_bytes v))) (bm_data F get blank idx (User ROLE_TRANSACTION_HASH))
           else if role = Display \<and> ix_column i = COLUMN_TRANSACTION_PAYMENT_ID
           then map_option (\<lambda>v. case v of QStr t \<Rightarrow> QStr t | _ \<Rightarrow> QStr (to_bytes v)) (bm_data F get blank idx role)
           else if role = Alignment then Some (bm_headerData (ix_column i) True role)
           else bm_data F get blank idx role))"

definition pool_fields :: "(string \<times> int) list" where
  "pool_fields =
     [(''m_hashLabel'', COL_HASH), (''m_amountLabel'', COL_AMOUNT), (''m_feeLabel'', COL_FEE), (''m_sizeLabel'', COL_SIZE),
      (''m_mixinLabel'', COL_MIXIN), (''m_paymentIdLabel'', COL_PAYMENT_ID)]"

definition pool_labels :: "formats \<Rightarrow> tx_details \<Rightarrow> tp_state \<Rightarrow> int \<Rightarrow> (string \<times> qvariant option) list" where
  "pool_labels F blank s row = map (\<lambda>(l, c). (l, tp_data F blank s row c EditRole)) pool_fields"


section \<open>The overview\<close>

definition recent_accepts_column :: "int \<Rightarrow> bool" where
  "recent_accepts_column c \<longleftrightarrow> c = tm_section TM_NEW_TRANSACTION \<or> c = tm_section TM_TIME \<or>
     c = tm_section TM_AMOUNT \<or> c = tm_section TM_HASH"

definition recent_columns :: "int list" where
  "recent_columns = filter recent_accepts_column (map tm_section tm_columns)"

text \<open>The newest transactions, as many as the window holds.\<close>

definition recent_rows :: "tm_env \<Rightarrow> tm_state \<Rightarrow> window \<Rightarrow> nat list" where
  "recent_rows E s w =
     map (\<lambda>r. sorted_rows E s ! r) (filter (\<lambda>r. wn_accepts w (of_nat r)) [0..<length (sorted_rows E s)])"

text \<open>A new row gets the fading mark when it comes alone and has no confirmation.\<close>

definition overview_rowsInserted :: "(nat \<Rightarrow> u32) \<Rightarrow> nat \<Rightarrow> nat \<Rightarrow> nat option" where
  "overview_rowsInserted confirmations f l = (if f \<noteq> l then None else if confirmations f = 0 then Some f else None)"

definition overview_showTransactionDetails :: "nat option \<Rightarrow> nat option" where
  "overview_showTransactionDetails index = index"


section \<open>QR codes and small dialogs\<close>

text \<open>The code is a square of modules of which the lowest bit says black; the loop walks through them row by row.\<close>

definition WHITE :: u32 where "WHITE = 0xffffff"

fun qr_row :: "nat \<Rightarrow> nat \<Rightarrow> nat \<Rightarrow> 8 word list \<Rightarrow> (nat \<times> nat \<Rightarrow> u32) \<Rightarrow> (nat \<times> nat \<Rightarrow> u32) \<times> 8 word list" where
  "qr_row y x 0 p img = (img, p)"
| "qr_row y x (Suc k) p img = qr_row y (Suc x) k (tl p) (img((x + 4, y + 4) := (if odd (unat (hd p)) then 0 else WHITE)))"

fun qr_rows :: "nat \<Rightarrow> nat \<Rightarrow> nat \<Rightarrow> 8 word list \<Rightarrow> (nat \<times> nat \<Rightarrow> u32) \<Rightarrow> (nat \<times> nat \<Rightarrow> u32)" where
  "qr_rows width y 0 p img = img"
| "qr_rows width y (Suc k) p img = (let (img1, p1) = qr_row y 0 width p img in qr_rows width (Suc y) k p1 img1)"

definition showQRCode :: "(nat \<times> 8 word list) option \<Rightarrow> (nat \<times> (nat \<times> nat \<Rightarrow> u32)) option" where
  "showQRCode code =
     (case code of None \<Rightarrow> None
      | Some (width, p) \<Rightarrow> Some (width + 8, qr_rows width 0 width p (\<lambda>_. WHITE)))"

fun word_count :: "bool \<Rightarrow> string \<Rightarrow> nat" where
  "word_count inWord [] = 0"
| "word_count inWord (c # s) = (if is_space c then word_count False s else (if inWord then 0 else 1) + word_count True s)"

definition getSeedString :: "string \<Rightarrow> string" where
  "getSeedString entered = trimmed entered"

text \<open>The state of the OK button and the text under the field.\<close>

definition seed_onTextChanged :: "string \<Rightarrow> bool \<times> string" where
  "seed_onTextChanged entered = (let n = word_count False entered in if n \<noteq> 25 then (False, dec n) else (True, ''OK''))"

text \<open>The languages of the library and its words for a key.\<close>

definition shown_mnemonic :: "(string \<Rightarrow> skey \<Rightarrow> string) \<Rightarrow> account_keys \<Rightarrow> string \<Rightarrow> string" where
  "shown_mnemonic bytes_to_words keys language = bytes_to_words language (spendSecret keys)"

definition mnemonic_new :: "(string \<Rightarrow> skey \<Rightarrow> string) \<Rightarrow> string list \<Rightarrow> account_keys \<Rightarrow> int \<times> string" where
  "mnemonic_new bytes_to_words languages keys =
     ((case find_index (\<lambda>l. l = ''English'') languages of None \<Rightarrow> - 1 | Some i \<Rightarrow> int i), shown_mnemonic bytes_to_words keys ''English'')"

text \<open>P2pBindPortErrorDialog: the port for a new start, None when the user gives up.\<close>

definition port_dialog :: "16 word \<Rightarrow> bool \<Rightarrow> 16 word option" where
  "port_dialog spin acceptRadio = (if acceptRadio then Some spin else None)"


section \<open>What the views show\<close>

text \<open>The pointing hand is shown exactly over the cells that answer to a click.\<close>

lemma hand_over_what_answers: "tv_mouseMoveEvent v cell \<longleftrightarrow> tv_itemClicked v cell \<noteq> None"
  by (auto simp: tv_mouseMoveEvent_def tv_itemClicked_def split: option.splits)

text \<open>A view that is told a second set of links answers to them, but paints the first set as links.\<close>

lemma later_links_keep_the_delegate:
  assumes "cs \<noteq> []" "tv_linkDelegates v = None" "c \<in> set ds"
  shows "tv_linkDelegates (setLinkLikeColumnSet ds (setLinkLikeColumnSet cs v)) = Some cs \<and>
    tv_itemClicked (setLinkLikeColumnSet ds (setLinkLikeColumnSet cs v)) (Some c) = Some DoubleClicked"
  using assms by (simp add: setLinkLikeColumnSet_def tv_itemClicked_def Let_def)

text \<open>A window at the top of n rows shows as many as it holds.\<close>

lemma rows_of_top_window:
  assumes "n < 2 ^ 32"
  shows "vm_rowCount (WindowedModel \<lparr>wn_size = k, wn_begin = 0\<rparr> n) = min n (unat k)"
proof -
  have small: "unat (of_nat r :: u32) = r" if "r < n" for r
    using that assms by (simp add: unat_of_nat)
  have "filter (\<lambda>r. wn_accepts \<lparr>wn_size = k, wn_begin = 0\<rparr> (of_nat r)) [0..<n] = filter (\<lambda>r. r < unat k) [0..<n]"
    by (intro filter_cong refl) (auto simp: wn_accepts_def word_less_nat_alt small unat_eq_0)
  moreover have "length (filter (\<lambda>r. r < m) [0..<n]) = min n m" for m
    by (induction n) auto
  ultimately show ?thesis
    by (simp add: vm_rowCount_def)
qed

text \<open>
  Resizing leaves the count alone when the rows shown already fill the height, so
  the rows shown after it are those that fit, or all there are.
\<close>

lemma resized_rows_fit:
  assumes "0 < ih" "n < 2 ^ 32" "h div ih < 2 ^ 32" "tv_autoUpdate v" "tv_scrollBarOff v"
  shows "vm_rowCount (tv_resizeEvent ih h v (WindowedModel \<lparr>wn_size = k, wn_begin = 0\<rparr> n)) = min n (h div ih)"
proof -
  let ?m = "WindowedModel \<lparr>wn_size = k, wn_begin = 0\<rparr> n"
  let ?r = "vm_rowCount ?m"
  show ?thesis
  proof (cases "h < ?r * ih \<or> ?r * ih + ih \<le> h")
    case True
    have "unat (of_nat (h div ih) :: u32) = h div ih"
      using assms(3) by (simp add: unat_of_nat)
    then show ?thesis
      using True assms rows_of_top_window [of n "of_nat (h div ih)"]
      by (simp add: tv_resizeEvent_def tv_updateRowCount_def tv_calculateVisibleRowCount_def wn_setSize_def)
  next
    case False
    then have "h div ih = ?r"
      using assms(1) by (intro div_nat_eqI) (simp_all add: algebra_simps)
    moreover have "?r \<le> n"
      unfolding rows_of_top_window [OF assms(2)] by simp
    ultimately show ?thesis
      using False assms(4) by (simp add: tv_resizeEvent_def)
  qed
qed

text \<open>
  The size of the window itself stays, though: shrunk around the three
  transactions there are, a view made for ten shows the fourth too, below its edge.
\<close>

lemma shrunk_view_keeps_large_window:
  "tv_resizeEvent 40 120 (tv_new True) (WindowedModel \<lparr>wn_size = 10, wn_begin = 0\<rparr> 3) =
     WindowedModel \<lparr>wn_size = 10, wn_begin = 0\<rparr> 3 \<and>
   vm_rowCount (WindowedModel \<lparr>wn_size = 10, wn_begin = 0\<rparr> 4) = 4 \<and> 4 * 40 > (120 :: nat)"
  using rows_of_top_window [of 3 10] rows_of_top_window [of 4 10] by (simp add: tv_resizeEvent_def tv_new_def)

text \<open>The amounts of the views keep three decimals, filled up with zeros; all of them under the mouse.\<close>

lemma index_of_dot: "CHR ''.'' \<notin> set i \<Longrightarrow> index_of (CHR ''.'') (i @ CHR ''.'' # f) = int (length i)"
proof (induction i)
  case (Cons c i)
  then show ?case
    by (auto simp: index_of_def split: option.splits)
qed (simp add: index_of_def)

lemma painted_amount_decimals:
  assumes "CHR ''.'' \<notin> set i"
  shows "painted_amount True False (i @ CHR ''.'' # f) =
      (i @ CHR ''.'' # take 3 (f @ ''000''), 3 < length f)"
    and "painted_amount True True (i @ CHR ''.'' # f) =
      (i @ CHR ''.'' # f @ replicate (3 - length f) (CHR ''0''), False)"
    and "painted_amount False m s = (s, False)"
proof -
  have z: "take 3 (f @ ''000'') = f @ replicate (3 - length f) (CHR ''0'')" if "length f \<le> 3"
    using that by (cases f; cases "tl f"; cases "tl (tl f)") (auto simp: numeral_3_eq_3)
  show "painted_amount True False (i @ CHR ''.'' # f) = (i @ CHR ''.'' # take 3 (f @ ''000''), 3 < length f)"
  proof (cases "length f \<le> 3")
    case True
    then show ?thesis
      using z by (simp add: painted_amount_def Let_def index_of_dot [OF assms] AMOUNT_DECIMAL_COUNT_def nat_diff_distrib)
  next
    case False
    then show ?thesis
      by (simp add: painted_amount_def Let_def index_of_dot [OF assms] AMOUNT_DECIMAL_COUNT_def nat_add_distrib)
  qed
  show "painted_amount True True (i @ CHR ''.'' # f) =
      (i @ CHR ''.'' # f @ replicate (3 - length f) (CHR ''0''), False)"
    by (simp add: painted_amount_def Let_def index_of_dot [OF assms] AMOUNT_DECIMAL_COUNT_def nat_diff_distrib)
  show "painted_amount False m s = (s, False)"
    by (simp add: painted_amount_def)
qed

text \<open>The first five columns of the view have the numbers of the source, which is what the menu relies on.\<close>

lemma shown_columns_value: "shown_columns = [0, 1, 2, 3, 4, 10]"
  by code_simp

lemma tm_section_values: "tm_section TM_HASH = 2" "tm_section TM_AMOUNT = 3" "tm_section TM_SHOW_TRANSFERS = 10"
  by code_simp+

lemma menu_copies_its_row:
  "copyTxHash E s (Some row) = te_hex E (wt_hash (ft_transaction (tm_transaction E s row))) \<and>
   copyAmount E s (Some row) = te_amount E (wt_totalAmount (ft_transaction (tm_transaction E s row)))"
  by (simp add: copyTxHash_def copyAmount_def cell_text_def shown_columns_value tm_section_values tm_columns_def
      tm_data_def tm_getDisplayRoleData_def)

lemma history_links_value: "history_links = [2, 5]"
  by (simp add: history_links_def shown_columns_value tm_section_values findProxyColumn_def)

lemma recent_columns_value: "recent_columns = [0, 1, 2, 3]"
  by code_simp


section \<open>The details of a block and of a transaction\<close>

lemma tb_columns_value: "tb_columns = [15, 16, 17, 18, 19]"
  by code_simp

text \<open>The column that the constructor sorts by is none of the proxy's five, so the order stays the block's.\<close>

lemma block_transactions_unsorted: "tb_sorted_by = None"
  by code_simp

text \<open>The dialog lists the transactions of its block, each once and no other; without a block it lists none.\<close>

lemma dialog_lists_its_block:
  assumes "0 \<le> b" "nat b < unat n"
  shows "tb_transactions (Some b) n count = map (Pair b) [0..<count b]" and "tb_transactions None n count = []"
proof -
  have split: "[0..<unat n] = [0..<nat b] @ nat b # [Suc (nat b)..<unat n]"
    using assms(2) by (metis le_add_same_cancel1 less_imp_le_nat upt_add_eq_append upt_conv_Cons zero_le le_add_diff_inverse)
  have "filter (\<lambda>r. int r = b) [0..<nat b] = []"
    by (auto simp: filter_empty_conv)
  then have "filter (\<lambda>r. tb_accepts_row (Some b) None (int r)) [0..<unat n] =
      nat b # filter (\<lambda>r. int r = b) [Suc (nat b)..<unat n]"
    unfolding split using assms(1) by (simp add: tb_accepts_row_def)
  then show "tb_transactions (Some b) n count = map (Pair b) [0..<count b]"
    using assms(1) by (simp add: tb_transactions_def tb_accepts_row_def)
  show "tb_transactions None n count = []"
    by (simp add: tb_transactions_def tb_accepts_row_def)
qed

text \<open>
  A transfer to an unreadable address, or one that does not pay, has no proof. A
  click on its cell still fills the clipboard, with nothing.
\<close>

lemma click_without_proof_empties_clipboard:
  assumes "row < length (ft_transfers x)" "parse (tf_address (ft_transfers x ! row)) = None \<or> sint (tf_amount (ft_transfers x ! row)) \<le> 0"
  shows "copyableItemClicked parse proof amount x row TF_PROOF = [] \<and>
    tf_getDecorationRole (\<lambda>a. parse a \<noteq> None) key (ft_transfers x) row TF_PROOF = Some (QPixmap [])"
  using assms by (auto simp: copyableItemClicked_def getTxProof_def tf_getDecorationRole_def tf_at_def Let_def split: option.splits)


section \<open>The pixels of a QR code\<close>

text \<open>Row by row with a moving pointer: the pixel at column x and row y shows the module at y * width + x.\<close>

lemma qr_row_result:
  assumes "x0 + k \<le> width" "k \<le> length p"
  shows "qr_row y x0 k p img =
    ((\<lambda>(u, v). if v = y + 4 \<and> x0 + 4 \<le> u \<and> u < x0 + k + 4
               then (if odd (unat (p ! (u - 4 - x0))) then 0 else WHITE) else img (u, v)), drop k p)"
  using assms
proof (induction k arbitrary: x0 p img)
  case (Suc k)
  then obtain m q where p: "p = m # q"
    by (cases p) auto
  show ?case
    using Suc by (auto simp: p fun_eq_iff nth_Cons' Suc_diff_le)
next
  case 0
  have "img = (\<lambda>(u, v). if v = y + 4 \<and> x0 + 4 \<le> u \<and> u < x0 + 0 + 4
      then (if odd (unat (p ! (u - 4 - x0))) then 0 else WHITE) else img (u, v))"
    by (auto simp: fun_eq_iff)
  then show ?case
    by simp
qed

lemma qr_rows_result:
  assumes "k * width \<le> length p"
  shows "qr_rows width y0 k p img (u, v) =
    (if 4 \<le> u \<and> u < width + 4 \<and> y0 + 4 \<le> v \<and> v < y0 + k + 4
     then (if odd (unat (p ! ((v - 4 - y0) * width + (u - 4)))) then 0 else WHITE) else img (u, v))"
  using assms
proof (induction k arbitrary: y0 p img)
  case (Suc k)
  have "width \<le> length p" "k * width \<le> length (drop width p)"
    using Suc.prems by simp_all
  let ?img = "\<lambda>(u, v). if v = y0 + 4 \<and> 4 \<le> u \<and> u < width + 4
      then (if odd (unat (p ! (u - 4))) then 0 else WHITE) else img (u, v)"
  have row: "qr_row y0 0 width p img = (?img, drop width p)"
    using qr_row_result [of 0 width width p y0 img] \<open>width \<le> length p\<close> by (simp only: add_0 diff_zero order_refl)
  have step: "qr_rows width y0 (Suc k) p img (u, v) = qr_rows width (Suc y0) k (drop width p) ?img (u, v)"
    unfolding qr_rows.simps row by (simp only: Let_def prod.case)
  note IH = Suc.IH [OF \<open>k * width \<le> length (drop width p)\<close>]
  show ?case
  proof (cases "Suc y0 + 4 \<le> v")
    case True
    then have "v - 4 - y0 = Suc (v - 4 - Suc y0)"
      by simp
    then have "drop width p ! ((v - 4 - Suc y0) * width + (u - 4)) = p ! ((v - 4 - y0) * width + (u - 4))"
      using \<open>width \<le> length p\<close> by (simp add: add.assoc)
    then show ?thesis
      unfolding step IH using True by auto
  next
    case False
    then show ?thesis
      unfolding step IH by auto
  qed
qed auto

text \<open>The picture: a white margin of four pixels around the modules of the code.\<close>

lemma qr_code_pixels:
  assumes "length p = width * width"
  shows "\<exists>img. showQRCode (Some (width, p)) = Some (width + 8, img) \<and>
    (\<forall>x < width. \<forall>y < width. img (x + 4, y + 4) = (if odd (unat (p ! (y * width + x))) then 0 else WHITE)) \<and>
    (\<forall>u v. u < 4 \<or> v < 4 \<or> width + 4 \<le> u \<or> width + 4 \<le> v \<longrightarrow> img (u, v) = WHITE)"
  using assms by (auto simp: showQRCode_def qr_rows_result)


section \<open>The words of a seed\<close>

lemma word_count_app:
  assumes "w \<noteq> []" "list_all (\<lambda>c. \<not> is_space c) w"
  shows "word_count b (w @ s) = (if b then 0 else 1) + word_count True s"
  using assms by (induction w arbitrary: b) (auto, (case_tac w; simp)+)

text \<open>White space between and around the words does not matter.\<close>

lemma word_count_spaces: "list_all is_space t \<Longrightarrow> word_count b (t @ s) = (if t = [] then word_count b s else word_count False s)"
  by (induction t arbitrary: b) auto

lemma word_count_words:
  assumes "list_all (\<lambda>(w, t). w \<noteq> [] \<and> list_all (\<lambda>c. \<not> is_space c) w \<and> t \<noteq> [] \<and> list_all is_space t) ws"
  shows "word_count False (concat (map (\<lambda>(w, t). w @ t) ws)) = length ws"
  using assms by (induction ws) (auto simp: word_count_app word_count_spaces)

text \<open>So the button is enabled exactly for twenty-five words.\<close>

lemma seed_of_25_words:
  assumes "list_all (\<lambda>(w, t). w \<noteq> [] \<and> list_all (\<lambda>c. \<not> is_space c) w \<and> t \<noteq> [] \<and> list_all is_space t) ws"
  shows "fst (seed_onTextChanged (concat (map (\<lambda>(w, t). w @ t) ws))) \<longleftrightarrow> length ws = 25"
  by (simp add: seed_onTextChanged_def word_count_words [OF assms] Let_def)

end
