(* ===== verification/Wiring.thy ===== *)
theory Wiring
  imports Prelude
begin

text \<open>
  How the parts of the program are connected. An object has observers: addObserver
  connects each of its signals to a slot of the observer, removeObserver cuts the
  connections again (WalletGreenAdapter.cpp, CryptoNoteAdapter.cpp,
  BlockChainExplorerAdapter.cpp, AddressBookManager.cpp); the adapters relay what
  their workers send. The locale states what the two tables of a class have to
  agree on; it is interpreted for the tables of every class. The rest are the
  actions of an address card on their way to the main window (AddressCard.cpp,
  AddressSidebar.cpp, MainWindow.cpp) and the order in which the window sets up
  its pages.
\<close>

section \<open>Connections\<close>

text \<open>
  A connection joins a signal and a slot of an observer. disconnect() names a
  signal and a slot, or a signal with any slot. A signal runs the slots in the
  order of their connections.
\<close>

type_synonym wire = "string \<times> string"

type_synonym links = "(nat \<times> wire) list"

datatype cut = CutSlot string string | CutSignal string

fun cuts :: "cut \<Rightarrow> wire \<Rightarrow> bool" where
  "cuts (CutSlot g t) w \<longleftrightarrow> w = (g, t)"
| "cuts (CutSignal g) w \<longleftrightarrow> fst w = g"

definition connect_all :: "wire list \<Rightarrow> nat \<Rightarrow> links \<Rightarrow> links" where
  "connect_all ws ob L = L @ map (Pair ob) ws"

definition disconnect_all :: "cut list \<Rightarrow> nat \<Rightarrow> links \<Rightarrow> links" where
  "disconnect_all ks ob L = filter (\<lambda>(p, w). \<not> (p = ob \<and> list_ex (\<lambda>k. cuts k w) ks)) L"

definition heard :: "string \<Rightarrow> links \<Rightarrow> (nat \<times> string) list" where
  "heard g L = map (\<lambda>(p, w). (p, snd w)) (filter (\<lambda>(p, w). fst w = g) L)"

text \<open>The calls of addObserver and removeObserver, in their order.\<close>

datatype observer_call = AddObserver nat | RemoveObserver nat

primrec run_call :: "wire list \<Rightarrow> cut list \<Rightarrow> observer_call \<Rightarrow> links \<Rightarrow> links" where
  "run_call ws ks (AddObserver ob) L = connect_all ws ob L"
| "run_call ws ks (RemoveObserver ob) L = disconnect_all ks ob L"

text \<open>How often an observer was added since it was removed last.\<close>

fun times_added :: "nat \<Rightarrow> observer_call list \<Rightarrow> nat \<Rightarrow> nat" where
  "times_added ob [] n = n"
| "times_added ob (AddObserver p # cs) n = times_added ob cs (if p = ob then Suc n else n)"
| "times_added ob (RemoveObserver p # cs) n = times_added ob cs (if p = ob then 0 else n)"

lemma heard_connect: "heard g (connect_all ws ob L) = heard g L @ map (\<lambda>w. (ob, snd w)) (filter (\<lambda>w. fst w = g) ws)"
  by (simp add: heard_def connect_all_def filter_map comp_def)

lemma filter_one: "distinct (map fst ws) \<Longrightarrow> (g, t) \<in> set ws \<Longrightarrow> filter (\<lambda>w. fst w = g) ws = [(g, t)]"
  by (induction ws) (auto simp: filter_empty_conv rev_image_eqI)

locale wiring =
  fixes ws :: "wire list" and ks :: "cut list"
  assumes each_cut: "w \<in> set ws \<Longrightarrow> list_ex (\<lambda>k. cuts k w) ks"
    and one_slot: "distinct (map fst ws)"
begin

lemma added_last: "(g, t) \<in> set ws \<Longrightarrow> heard g (connect_all ws ob L) = heard g L @ [(ob, t)]"
  by (simp add: heard_connect filter_one [OF one_slot])

lemma others_undisturbed:
  "filter (\<lambda>c. fst c \<noteq> ob) (heard g (disconnect_all ks ob L)) = filter (\<lambda>c. fst c \<noteq> ob) (heard g L)"
  by (induction L) (auto simp: heard_def disconnect_all_def)

lemma added_and_removed: "ob \<notin> fst ` set L \<Longrightarrow> disconnect_all ks ob (connect_all ws ob L) = L"
  using each_cut by (auto simp: disconnect_all_def connect_all_def filter_id_conv filter_empty_conv rev_image_eqI)

lemma only_wires:
  "snd ` set L \<subseteq> set ws \<Longrightarrow> snd ` set (run_call ws ks c L) \<subseteq> set ws"
  by (cases c) (auto simp: connect_all_def disconnect_all_def)

lemma cut_off_hears_nothing: "snd ` set L \<subseteq> set ws \<Longrightarrow> ob \<notin> fst ` set (disconnect_all ks ob L)"
  using each_cut by (force simp: disconnect_all_def)

lemma count_after:
  assumes "(g, t) \<in> set ws"
  shows "snd ` set L \<subseteq> set ws \<Longrightarrow>
    count_list (heard g (fold (run_call ws ks) cs L)) (ob, t) = times_added ob cs (count_list (heard g L) (ob, t))"
proof (induction cs arbitrary: L)
  case (Cons c cs)
  have step: "count_list (heard g (fold (run_call ws ks) (c # cs) L)) (ob, t) =
      times_added ob cs (count_list (heard g (run_call ws ks c L)) (ob, t))"
    using Cons.IH [OF only_wires [OF Cons.prems]] by simp
  show ?case
  proof (cases c)
    case (AddObserver p)
    then show ?thesis
      using step added_last [OF assms, of p L] by simp
  next
    case (RemoveObserver p)
    show ?thesis
    proof (cases "p = ob")
      case True
      then have "(ob, t) \<notin> set (heard g (disconnect_all ks p L))"
        using cut_off_hears_nothing [OF Cons.prems, of p] by (force simp: heard_def)
      then show ?thesis
        using step True RemoveObserver by (simp add: count_list_0_iff)
    next
      case False
      have "count_list xs (ob, t) = count_list (filter (\<lambda>c. fst c \<noteq> p) xs) (ob, t)" for xs :: "(nat \<times> string) list"
        using False by (induction xs) auto
      then have "count_list (heard g (disconnect_all ks p L)) (ob, t) = count_list (heard g L) (ob, t)"
        using others_undisturbed [of p g L] by metis
      then show ?thesis
        using step False RemoveObserver by simp
    qed
  qed
qed simp

text \<open>An observer that is removed and added again is told last.\<close>

lemma readded_is_last:
  assumes "(g, t) \<in> set ws" "snd ` set L \<subseteq> set ws"
  shows "heard g (run_call ws ks (AddObserver ob) (run_call ws ks (RemoveObserver ob) L)) =
    filter (\<lambda>c. fst c \<noteq> ob) (heard g L) @ [(ob, t)]"
proof -
  have "filter (\<lambda>c. fst c \<noteq> ob) (heard g (disconnect_all ks ob L)) = heard g (disconnect_all ks ob L)"
    using cut_off_hears_nothing [OF assms(2), of ob] by (force simp: filter_id_conv heard_def)
  then show ?thesis
    using others_undisturbed [of ob g L] added_last [OF assms(1)] by simp
qed

text \<open>An observer is told of a signal as often as it was added since it was removed last.\<close>

lemma told_as_often_as_added:
  "(g, t) \<in> set ws \<Longrightarrow> count_list (heard g (fold (run_call ws ks) cs [])) (ob, t) = times_added ob cs 0"
  using count_after [of g t "[]" cs ob] by (simp add: heard_def)

end


text \<open>The contract, as it is checked on a table.\<close>

lemma wiringI:
  assumes "list_all (\<lambda>w. list_ex (\<lambda>k. cuts k w) ks) ws" "distinct (map fst ws)"
  shows "wiring ws ks"
  using assms by unfold_locales (auto simp: list_all_iff)


section \<open>The tables of the classes\<close>

text \<open>
  WalletGreenAdapter: the connections of its observers, how they are cut, the
  connections of its worker (WalletGreenWorker.cpp) and what each slot of the
  adapter emits.
\<close>

definition wallet_wires :: "wire list" where
  "wallet_wires =
    [(''walletOpenedSignal'', ''walletOpened''),
     (''walletOpenErrorSignal'', ''walletOpenError''),
     (''walletClosedSignal'', ''walletClosed''),
     (''passwordChangedSignal'', ''passwordChanged''),
     (''synchronizationProgressUpdatedSignal'', ''synchronizationProgressUpdated''),
     (''synchronizationCompletedSignal'', ''synchronizationCompleted''),
     (''balanceUpdatedSignal'', ''balanceUpdated''),
     (''externalTransactionCreatedSignal'', ''externalTransactionCreated''),
     (''transactionUpdatedSignal'', ''transactionUpdated''),
     (''addressCreatedSignal'', ''addressCreated''),
     (''addressDeletedSignal'', ''addressDeleted'')]"

definition wallet_cuts :: "cut list" where
  "wallet_cuts =
    [CutSlot ''walletOpenedSignal'' ''walletOpened'',
     CutSlot ''walletOpenErrorSignal'' ''walletOpenError'',
     CutSlot ''walletClosedSignal'' ''walletClosed'',
     CutSlot ''passwordChangedSignal'' ''passwordChanged'',
     CutSlot ''synchronizationProgressUpdatedSignal'' ''synchronizationProgressUpdated'',
     CutSlot ''synchronizationCompletedSignal'' ''synchronizationCompleted'',
     CutSlot ''balanceUpdatedSignal'' ''balanceUpdated'',
     CutSlot ''externalTransactionCreatedSignal'' ''externalTransactionCreated'',
     CutSlot ''transactionUpdatedSignal'' ''transactionUpdated'',
     CutSignal ''addressCreatedSignal'',
     CutSignal ''addressDeletedSignal'']"

definition wallet_worker_wires :: "wire list" where
  "wallet_worker_wires =
    [(''walletOpenedSignal'', ''walletOpened''),
     (''walletOpenErrorSignal'', ''walletOpenError''),
     (''walletClosedSignal'', ''walletClosed''),
     (''passwordChangedSignal'', ''passwordChanged''),
     (''synchronizationProgressUpdatedSignal'', ''synchronizationProgressUpdated''),
     (''synchronizationCompletedSignal'', ''synchronizationCompleted''),
     (''balanceUpdatedSignal'', ''balanceUpdated''),
     (''externalTransactionCreatedSignal'', ''externalTransactionCreated''),
     (''transactionUpdatedSignal'', ''transactionUpdated''),
     (''addressCreatedSignal'', ''addressCreated''),
     (''addressDeletedSignal'', ''addressDeleted'')]"

definition wallet_relays :: "(string \<times> string) list" where
  "wallet_relays =
    [(''walletOpened'', ''walletOpenedSignal''),
     (''walletOpenError'', ''walletOpenErrorSignal''),
     (''walletClosed'', ''walletClosedSignal''),
     (''passwordChanged'', ''passwordChangedSignal''),
     (''synchronizationProgressUpdated'', ''synchronizationProgressUpdatedSignal''),
     (''synchronizationCompleted'', ''synchronizationCompletedSignal''),
     (''balanceUpdated'', ''balanceUpdatedSignal''),
     (''externalTransactionCreated'', ''externalTransactionCreatedSignal''),
     (''transactionUpdated'', ''transactionUpdatedSignal''),
     (''addressCreated'', ''addressCreatedSignal''),
     (''addressDeleted'', ''addressDeletedSignal'')]"

text \<open>BlockChainExplorerAdapter.\<close>

definition explorer_wires :: "wire list" where
  "explorer_wires =
    [(''blockChainUpdatedSignal'', ''blockChainUpdated''),
     (''poolUpdatedSignal'', ''poolUpdated''),
     (''blockchainSynchronizedSignal'', ''blockchainSynchronized'')]"

definition explorer_cuts :: "cut list" where
  "explorer_cuts =
    [CutSlot ''blockChainUpdatedSignal'' ''blockChainUpdated'',
     CutSlot ''poolUpdatedSignal'' ''poolUpdated'',
     CutSlot ''blockchainSynchronizedSignal'' ''blockchainSynchronized'']"

definition explorer_relays :: "(string \<times> string) list" where
  "explorer_relays =
    [(''blockChainUpdated'', ''blockChainUpdatedSignal''),
     (''poolUpdated'', ''poolUpdatedSignal''),
     (''blockchainSynchronized'', ''blockchainSynchronizedSignal'')]"

text \<open>CryptoNoteAdapter.\<close>

definition node_adapter_wires :: "wire list" where
  "node_adapter_wires =
    [(''initCompletedSignal'', ''cryptoNoteAdapterInitCompleted''),
     (''deinitCompletedSignal'', ''cryptoNoteAdapterDeinitCompleted'')]"

definition node_adapter_cuts :: "cut list" where
  "node_adapter_cuts =
    [CutSlot ''initCompletedSignal'' ''cryptoNoteAdapterInitCompleted'',
     CutSlot ''deinitCompletedSignal'' ''cryptoNoteAdapterDeinitCompleted'']"

text \<open>AddressBookManager: observers of the contacts, of the donations and of the own labels.\<close>

definition contact_wires :: "wire list" where
  "contact_wires =
    [(''addressBookOpenedSignal'', ''addressBookOpened''),
     (''addressBookClosedSignal'', ''addressBookClosed''),
     (''addressAddedSignal'', ''addressAdded''),
     (''addressEditedSignal'', ''addressEdited''),
     (''addressRemovedSignal'', ''addressRemoved'')]"

definition contact_cuts :: "cut list" where
  "contact_cuts =
    [CutSlot ''addressBookOpenedSignal'' ''addressBookOpened'',
     CutSlot ''addressBookClosedSignal'' ''addressBookClosed'',
     CutSlot ''addressAddedSignal'' ''addressAdded'',
     CutSlot ''addressEditedSignal'' ''addressEdited'',
     CutSlot ''addressRemovedSignal'' ''addressRemoved'']"

definition donation_wires :: "wire list" where
  "donation_wires =
    [(''donationManagerOpenedSignal'', ''donationManagerOpened''),
     (''donationManagerClosedSignal'', ''donationManagerClosed''),
     (''donationMiningEnabledSignal'', ''donationMiningEnabled''),
     (''donationMiningAddressChangedSignal'', ''donationMiningAddressChanged''),
     (''donationMiningAmountChangedSignal'', ''donationMiningAmountChanged''),
     (''donationChangeEnabledSignal'', ''donationChangeEnabled''),
     (''donationChangeAddressChangedSignal'', ''donationChangeAddressChanged''),
     (''donationChangeAmountChangedSignal'', ''donationChangeAmountChanged'')]"

definition donation_cuts :: "cut list" where
  "donation_cuts =
    [CutSlot ''donationManagerOpenedSignal'' ''donationManagerOpened'',
     CutSlot ''donationManagerClosedSignal'' ''donationManagerClosed'',
     CutSlot ''donationMiningEnabledSignal'' ''donationMiningEnabled'',
     CutSlot ''donationMiningAddressChangedSignal'' ''donationMiningAddressChanged'',
     CutSlot ''donationMiningAmountChangedSignal'' ''donationMiningAmountChanged'',
     CutSlot ''donationChangeEnabledSignal'' ''donationChangeEnabled'',
     CutSlot ''donationChangeAddressChangedSignal'' ''donationChangeAddressChanged'',
     CutSlot ''donationChangeAmountChangedSignal'' ''donationChangeAmountChanged'']"

definition label_wires :: "wire list" where
  "label_wires =
    [(''ownAddressLabelChangedSignal'', ''ownAddressLabelChanged'')]"

definition label_cuts :: "cut list" where
  "label_cuts =
    [CutSignal ''ownAddressLabelChangedSignal'']"


interpretation wallet_observers: wiring wallet_wires wallet_cuts
  by (rule wiringI) code_simp+

interpretation explorer_observers: wiring explorer_wires explorer_cuts
  by (rule wiringI) code_simp+

interpretation node_adapter_observers: wiring node_adapter_wires node_adapter_cuts
  by (rule wiringI) code_simp+

interpretation contact_observers: wiring contact_wires contact_cuts
  by (rule wiringI) code_simp+

interpretation donation_observers: wiring donation_wires donation_cuts
  by (rule wiringI) code_simp+

interpretation label_observers: wiring label_wires label_cuts
  by (rule wiringI) code_simp+

text \<open>The way of a signal of the wallet's worker: the adapter's slot, the adapter's signal, the observer's slot.\<close>

definition wallet_path :: "string \<Rightarrow> string option" where
  "wallet_path g = Option.bind (map_of wallet_worker_wires g) (\<lambda>t. Option.bind (map_of wallet_relays t) (map_of wallet_wires))"

lemma wallet_paths_straight: "map (\<lambda>w. wallet_path (fst w)) wallet_worker_wires = map (\<lambda>w. Some (snd w)) wallet_wires"
  by code_simp

definition explorer_path :: "string \<Rightarrow> string option" where
  "explorer_path t = Option.bind (map_of explorer_relays t) (map_of explorer_wires)"

lemma explorer_paths_straight: "map explorer_path (map snd explorer_wires) = map (\<lambda>w. Some (snd w)) explorer_wires"
  by code_simp

text \<open>
  The main window takes itself off the wallet adapter and puts itself back when
  it opens or creates a wallet: from then on it hears of the wallet after the
  models and pages that were connected before.
\<close>

lemma window_hears_last:
  "heard ''walletOpenedSignal'' (fold (run_call wallet_wires wallet_cuts)
     [AddObserver 0, AddObserver 1, AddObserver 2, RemoveObserver 0, AddObserver 0] []) =
     [(1, ''walletOpened''), (2, ''walletOpened''), (0, ''walletOpened'')]"
  by code_simp


section \<open>The actions of an address card\<close>

text \<open>
  The card's actions and signals, the sidebar's signals with what they carry from
  the card of the row besides its number, and the slots of the main window.
\<close>

definition card_wires :: "wire list" where
  "card_wires =
    [(''copyAddressAction'', ''copyAddressRequestedSignal''),
     (''showQrAction'', ''showQrRequestedSignal''),
     (''copyAccountNumberAction'', ''copyAccountNumberRequestedSignal''),
     (''renameAction'', ''renameRequestedSignal''),
     (''showKeysAction'', ''showKeysRequestedSignal''),
     (''exportTrackingKeyAction'', ''exportTrackingKeyRequestedSignal''),
     (''showSeedAction'', ''showSeedRequestedSignal''),
     (''sendFromAction'', ''sendFromRequestedSignal''),
     (''balanceProofAction'', ''balanceProofRequestedSignal''),
     (''registerAccountNumberAction'', ''registerAccountNumberRequestedSignal''),
     (''deleteAction'', ''deleteRequestedSignal'')]"

definition sidebar_forwards :: "(string \<times> string \<times> string) list" where
  "sidebar_forwards =
    [(''copyAddressRequestedSignal'', ''copyAddressRequestedSignal'', ''address''),
     (''copyAccountNumberRequestedSignal'', ''copyAccountNumberRequestedSignal'', ''accountNumber''),
     (''registerAccountNumberRequestedSignal'', ''registerAccountNumberRequestedSignal'', ''address''),
     (''showQrRequestedSignal'', ''showQrRequestedSignal'', ''address''),
     (''showKeysRequestedSignal'', ''showKeysRequestedSignal'', ''address''),
     (''exportTrackingKeyRequestedSignal'', ''exportTrackingKeyRequestedSignal'', ''address''),
     (''showSeedRequestedSignal'', ''showSeedRequestedSignal'', ''address''),
     (''renameRequestedSignal'', ''renameRequestedSignal'', ''address''),
     (''sendFromRequestedSignal'', ''sendFromRequestedSignal'', ''address''),
     (''balanceProofRequestedSignal'', ''balanceProofRequestedSignal'', ''address''),
     (''deleteRequestedSignal'', ''deleteRequestedSignal'', ''address'')]"

definition window_wires :: "wire list" where
  "window_wires =
    [(''addAddressRequestedSignal'', ''createAddressRequested''),
     (''copyAddressRequestedSignal'', ''copyAddressFromCard''),
     (''copyAccountNumberRequestedSignal'', ''copyAccountNumberFromCard''),
     (''registerAccountNumberRequestedSignal'', ''registerAccountNumberFromCard''),
     (''showQrRequestedSignal'', ''showQrFromCard''),
     (''showKeysRequestedSignal'', ''showKeysFromCard''),
     (''exportTrackingKeyRequestedSignal'', ''exportTrackingKeyFromCard''),
     (''showSeedRequestedSignal'', ''showSeedFromCard''),
     (''renameRequestedSignal'', ''renameAddressFromCard''),
     (''sendFromRequestedSignal'', ''sendFromCard''),
     (''balanceProofRequestedSignal'', ''balanceProofFromCard''),
     (''deleteRequestedSignal'', ''deleteAddressFromCard'')]"

definition card_action :: "string \<Rightarrow> (string \<times> string) option" where
  "card_action a =
     Option.bind (map_of card_wires a) (\<lambda>g.
       Option.bind (map_of sidebar_forwards g) (\<lambda>(h, carried). map_option (\<lambda>t. (t, carried)) (map_of window_wires h)))"

text \<open>Every action ends in the slot of its own, with the address; only copying the account number carries that.\<close>

lemma card_actions_arrive:
  "map (\<lambda>w. card_action (fst w)) card_wires = map Some
     [(''copyAddressFromCard'', ''address''), (''showQrFromCard'', ''address''),
      (''copyAccountNumberFromCard'', ''accountNumber''), (''renameAddressFromCard'', ''address''),
      (''showKeysFromCard'', ''address''), (''exportTrackingKeyFromCard'', ''address''), (''showSeedFromCard'', ''address''),
      (''sendFromCard'', ''address''), (''balanceProofFromCard'', ''address''),
      (''registerAccountNumberFromCard'', ''address''), (''deleteAddressFromCard'', ''address'')]"
  by code_simp


section \<open>The pages of the main window\<close>

definition ui_items :: "string list" where
  "ui_items = [''m_noWalletFrame'', ''m_overviewFrame'', ''m_sendFrame'', ''m_transactionsFrame'', ''m_receiveFrame'',
     ''m_addressBookFrame'', ''m_blockExplorerFrame'', ''statusBar'']"

definition ui_setters :: "string list" where
  "ui_setters = [''setCryptoNoteAdapter'', ''setAddressBookManager'', ''setDonationManager'',
     ''setApplicationEventHandler'', ''setMainWindow'', ''setNodeStateModel'', ''setWalletStateModel'',
     ''setTransactionsModel'', ''setSortedTransactionsModel'', ''setAddressBookModel'', ''setSortedAddressBookModel'',
     ''setBlockChainModel'', ''setTransactionPoolModel'', ''setAddressListModel'', ''setCurrentAddressState'']"

definition ui_setup :: "(string \<times> string) list" where
  "ui_setup = concat (map (\<lambda>i. map (Pair i) ui_setters) ui_items)"

text \<open>Setters that hand on what other setters gave: the history's delegate and filters, the explorer's list.\<close>

definition history_needs :: "string \<times> string list" where
  "history_needs = (''setSortedTransactionsModel'',
     [''setCryptoNoteAdapter'', ''setAddressBookManager'', ''setTransactionsModel'', ''setWalletStateModel''])"

definition explorer_needs :: "string \<times> string list" where
  "explorer_needs = (''setBlockChainModel'', [''setCryptoNoteAdapter''])"

definition given_before :: "string \<Rightarrow> string \<times> string list \<Rightarrow> bool" where
  "given_before item n \<longleftrightarrow>
     list_all (\<lambda>m. (item, m) \<in> set (takeWhile (\<lambda>c. c \<noteq> (item, fst n)) ui_setup)) (snd n)"

lemma pages_set_up_in_order:
  "given_before ''m_transactionsFrame'' history_needs" "given_before ''m_blockExplorerFrame'' explorer_needs"
  by code_simp+

end
