(* ===== verification/Autostart.thy ===== *)
theory Autostart
  imports Prelude
begin

text \<open>
  Starting the wallet at login: setStartOnLoginEnabled and isStartOnLoginEnabled
  of Settings (src/src/Settings/Settings.cpp), on the three platforms. The
  directories, the registry key and the application's path are the environment's.
\<close>

section \<open>State\<close>

datatype platform = MacOS | LinuxOS | WindowsOS

record login_env =
  le_os :: platform
  le_agents :: bool
  le_config :: string
  le_mkdir :: bool
  le_writable :: bool
  le_app :: string

text \<open>The keys of karbowallet.plist that the program writes.\<close>

record plist =
  pl_label :: string
  pl_arguments :: "string list"
  pl_runAtLoad :: bool
  pl_processType :: string

text \<open>The autostart directory, the desktop file, the value in the registry's Run key, and the plist file.\<close>

record login =
  li_dir :: bool
  li_desktop :: "string option"
  li_run :: "string option"
  li_plist :: "plist option"


section \<open>Operations\<close>

text \<open>QDir::toNativeSeparators and fromNativeSeparators, as they are on Windows.\<close>

definition backslash :: char where
  "backslash = CHR 0x5C"

definition toNative :: "string \<Rightarrow> string" where
  "toNative p = map (\<lambda>ch. if ch = CHR ''/'' then backslash else ch) p"

definition fromNative :: "string \<Rightarrow> string" where
  "fromNative p = map (\<lambda>ch. if ch = backslash then CHR ''/'' else ch) p"

text \<open>split(' ')[0].\<close>

definition first_word :: "string \<Rightarrow> string" where
  "first_word s = takeWhile (\<lambda>ch. ch \<noteq> CHR '' '') s"

definition isStartOnLoginEnabled :: "login_env \<Rightarrow> login \<Rightarrow> bool" where
  "isStartOnLoginEnabled L s =
     (case le_os L of
        MacOS \<Rightarrow>
          if \<not> le_agents L then False
          else (case li_plist s of None \<Rightarrow> False | Some p \<Rightarrow> pl_runAtLoad p)
      | LinuxOS \<Rightarrow>
          if le_config L = [] then False
          else if \<not> li_dir s then False
          else li_desktop s \<noteq> None
      | WindowsOS \<Rightarrow>
          (case li_run s of None \<Rightarrow> False | Some v \<Rightarrow> fromNative (first_word v) = le_app L))"

definition newline :: string where
  "newline = [char_of (10 :: nat)]"

definition desktop_text :: "string \<Rightarrow> string" where
  "desktop_text app = ''[Desktop Entry]'' @ newline @ ''Type=Application'' @ newline @ ''Name=Karbo Wallet'' @ newline @
     ''Exec='' @ app @ '' --minimized'' @ newline @ ''Terminal=false'' @ newline @ ''Hidden=false'' @ newline"

text \<open>The new state, and whether the observers were notified: the early returns skip that.\<close>

definition setStartOnLoginEnabled :: "login_env \<Rightarrow> bool \<Rightarrow> login \<Rightarrow> login \<times> bool" where
  "setStartOnLoginEnabled L b s =
     (case le_os L of
        MacOS \<Rightarrow>
          if \<not> le_agents L then (s, False)
          else (s\<lparr>li_plist := Some \<lparr>pl_label = ''org.karbovanets.karbowallet'',
                  pl_arguments = [le_app L, ''--minimized''], pl_runAtLoad = b, pl_processType = ''InterActive''\<rparr>\<rparr>, True)
      | LinuxOS \<Rightarrow>
          if le_config L = [] then (s, False)
          else
            let s1 = (if \<not> li_dir s \<and> le_mkdir L then s\<lparr>li_dir := True\<rparr> else s) in
            if \<not> li_dir s1 then (s1, False)
            else if \<not> le_writable L then (s1, False)
            else if b then (s1\<lparr>li_desktop := Some (desktop_text (le_app L))\<rparr>, True)
            else (s1\<lparr>li_desktop := None\<rparr>, True)
      | WindowsOS \<Rightarrow>
          if b then (s\<lparr>li_run := Some (toNative (le_app L) @ '' --minimized'')\<rparr>, True)
          else (s\<lparr>li_run := None\<rparr>, True))"


section \<open>What is switched on stays on\<close>

lemma first_word_app:
  "CHR '' '' \<notin> set p \<Longrightarrow> first_word (p @ '' --minimized'') = p"
  by (induction p) (auto simp: first_word_def)

lemma first_word_cut:
  "CHR '' '' \<in> set p \<Longrightarrow> length (first_word (p @ r)) < length p"
  by (induction p) (auto simp: first_word_def)

lemma native_space: "CHR '' '' \<in> set (toNative p) \<longleftrightarrow> CHR '' '' \<in> set p"
  by (induction p) (auto simp: toNative_def backslash_def)

lemma native_back: "backslash \<notin> set p \<Longrightarrow> fromNative (toNative p) = p"
  by (induction p) (auto simp: toNative_def fromNative_def)

lemma native_length [simp]: "length (fromNative p) = length p" "length (toNative p) = length p"
  by (simp_all add: toNative_def fromNative_def)

lemma run_value_cut:
  assumes "CHR '' '' \<in> set app"
  shows "fromNative (first_word (toNative app @ r)) \<noteq> app"
proof
  assume eq: "fromNative (first_word (toNative app @ r)) = app"
  have "length (fromNative (first_word (toNative app @ r))) < length app"
    using first_word_cut [of "toNative app" r] assms by (simp add: native_space)
  with eq show False
    by simp
qed

text \<open>Where the setting can be stored.\<close>

definition login_stores :: "login_env \<Rightarrow> login \<Rightarrow> bool" where
  "login_stores L s \<longleftrightarrow>
     (case le_os L of
        MacOS \<Rightarrow> le_agents L
      | LinuxOS \<Rightarrow> le_config L \<noteq> [] \<and> (li_dir s \<or> le_mkdir L) \<and> le_writable L
      | WindowsOS \<Rightarrow> True)"

text \<open>
  Where the platform can store it, starting at login reads back as it was
  set and the observers hear of it; where it cannot, the stored entries stay as
  they are and nobody is told. On Windows reading back needs an application path
  without a space: the registry value is cut at its first space, so for any other
  path the setting always reads as off, although the value has been written.
\<close>
theorem start_on_login:
  assumes "backslash \<notin> set (le_app L)"
  shows "(login_stores L s \<and> (le_os L = WindowsOS \<longrightarrow> CHR '' '' \<notin> set (le_app L)) \<longrightarrow>
      isStartOnLoginEnabled L (fst (setStartOnLoginEnabled L b s)) = b \<and> snd (setStartOnLoginEnabled L b s)) \<and>
    (\<not> login_stores L s \<longrightarrow>
      li_desktop (fst (setStartOnLoginEnabled L b s)) = li_desktop s \<and>
      li_run (fst (setStartOnLoginEnabled L b s)) = li_run s \<and>
      li_plist (fst (setStartOnLoginEnabled L b s)) = li_plist s \<and> \<not> snd (setStartOnLoginEnabled L b s)) \<and>
    (le_os L = WindowsOS \<and> CHR '' '' \<in> set (le_app L) \<longrightarrow>
      \<not> isStartOnLoginEnabled L (fst (setStartOnLoginEnabled L b s)) \<and>
      (b \<longrightarrow> li_run (fst (setStartOnLoginEnabled L b s)) \<noteq> None))"
proof (intro conjI impI; (elim conjE)?)
  show "isStartOnLoginEnabled L (fst (setStartOnLoginEnabled L b s)) = b" "snd (setStartOnLoginEnabled L b s)"
    if "login_stores L s" "le_os L = WindowsOS \<longrightarrow> CHR '' '' \<notin> set (le_app L)"
    using that first_word_app [of "toNative (le_app L)"] native_back [OF assms] native_space [of "le_app L"]
    by (cases "le_os L"; auto simp: login_stores_def setStartOnLoginEnabled_def isStartOnLoginEnabled_def Let_def)+
next
  assume "\<not> login_stores L s"
  then show "li_desktop (fst (setStartOnLoginEnabled L b s)) = li_desktop s"
    "li_run (fst (setStartOnLoginEnabled L b s)) = li_run s"
    "li_plist (fst (setStartOnLoginEnabled L b s)) = li_plist s" "\<not> snd (setStartOnLoginEnabled L b s)"
    by (cases "le_os L"; auto simp: login_stores_def setStartOnLoginEnabled_def Let_def)+
next
  assume "le_os L = WindowsOS" "CHR '' '' \<in> set (le_app L)"
  then show "\<not> isStartOnLoginEnabled L (fst (setStartOnLoginEnabled L b s))"
    "b \<Longrightarrow> li_run (fst (setStartOnLoginEnabled L b s)) \<noteq> None"
    using run_value_cut [of "le_app L" "'' --minimized''"]
    by (simp_all add: setStartOnLoginEnabled_def isStartOnLoginEnabled_def)
qed

definition sample_login_env :: "platform \<Rightarrow> string \<Rightarrow> login_env" where
  "sample_login_env os app = \<lparr>le_os = os, le_agents = True, le_config = ''/c'', le_mkdir = True, le_writable = True,
     le_app = app\<rparr>"

definition sample_login :: login where
  "sample_login = \<lparr>li_dir = False, li_desktop = None, li_run = None, li_plist = None\<rparr>"

lemma start_on_login_witness:
  "isStartOnLoginEnabled (sample_login_env LinuxOS ''/k'')
     (fst (setStartOnLoginEnabled (sample_login_env LinuxOS ''/k'') True sample_login)) \<and>
   \<not> isStartOnLoginEnabled (sample_login_env WindowsOS ''/my k'')
     (fst (setStartOnLoginEnabled (sample_login_env WindowsOS ''/my k'') True sample_login)) \<and>
   li_plist (fst (setStartOnLoginEnabled ((sample_login_env MacOS ''/k'')\<lparr>le_agents := False\<rparr>) True sample_login)) = None"
proof (intro conjI)
  show "isStartOnLoginEnabled (sample_login_env LinuxOS ''/k'')
      (fst (setStartOnLoginEnabled (sample_login_env LinuxOS ''/k'') True sample_login))"
    using start_on_login [of "sample_login_env LinuxOS ''/k''" sample_login True]
    by (simp add: login_stores_def sample_login_env_def backslash_def)
  show "\<not> isStartOnLoginEnabled (sample_login_env WindowsOS ''/my k'')
      (fst (setStartOnLoginEnabled (sample_login_env WindowsOS ''/my k'') True sample_login))"
    using start_on_login [of "sample_login_env WindowsOS ''/my k''" sample_login True]
    by (simp add: sample_login_env_def backslash_def)
  show "li_plist (fst (setStartOnLoginEnabled ((sample_login_env MacOS ''/k'')\<lparr>le_agents := False\<rparr>) True sample_login)) = None"
    using start_on_login [of "(sample_login_env MacOS ''/k'')\<lparr>le_agents := False\<rparr>" sample_login True]
    by (simp add: login_stores_def sample_login_env_def sample_login_def backslash_def)
qed

end
