(* ===== verification/StartOptions.thy ===== *)
theory StartOptions
  imports Autostart AppSettings
begin

text \<open>
  The options of the command line as the parser knows them and as Settings passes
  them on (src/src/Application/CommandLineParser.cpp, src/src/Settings/
  Settings.cpp), the test for a system tray, and the loggers that
  CryptoNoteAdapter.cpp sets up. The lemmas show that every option the program
  asks for is one the parser knows, with a value where it asks for one.
\<close>

section \<open>The parser's options\<close>

text \<open>The name of an option, of its value when it takes one, and the default value.\<close>

record cl_option =
  op_name :: string
  op_value :: "string option"
  op_default :: string

definition flag_option :: "string \<Rightarrow> cl_option" where
  "flag_option name = \<lparr>op_name = name, op_value = None, op_default = []\<rparr>"

definition value_option :: "string \<Rightarrow> string \<Rightarrow> string \<Rightarrow> cl_option" where
  "value_option name v d = \<lparr>op_name = name, op_value = Some v, op_default = d\<rparr>"

text \<open>The library gives the default port and the default directory; the first two options are the parser's own.\<close>

definition parser_options :: "nat \<Rightarrow> string \<Rightarrow> cl_option list" where
  "parser_options p2pPort dataDir =
     [flag_option ''help'', flag_option ''version'',
      flag_option ''debug'', flag_option ''testnet'', value_option ''p2p-bind-ip'' ''ip'' ''0.0.0.0'',
      value_option ''p2p-bind-port'' ''port'' (dec p2pPort), value_option ''p2p-external-port'' ''port'' [],
      flag_option ''allow-local-ip'', value_option ''add-peer'' ''peer'' [],
      value_option ''add-priority-node'' ''node'' [], value_option ''add-exclusive-node'' ''node'' [],
      value_option ''seed-node'' ''node'' [], flag_option ''hide-my-port'',
      value_option ''data-dir'' ''directory'' dataDir, flag_option ''minimized'']"

definition hasHelpOption :: "command_line \<Rightarrow> bool" where
  "hasHelpOption c = cl_isSet c ''help''"

definition hasVersionOption :: "command_line \<Rightarrow> bool" where
  "hasVersionOption c = cl_isSet c ''version''"

text \<open>Windows reads the line and reports an error; elsewhere the parser ends the program itself.\<close>

definition cl_process :: "platform \<Rightarrow> bool \<Rightarrow> bool" where
  "cl_process os parsed = (if os = WindowsOS then parsed else True)"

text \<open>
  A parsed line: the given options with their values, in their order. A value is
  the last one given or the default.
\<close>

definition find_option :: "cl_option list \<Rightarrow> string \<Rightarrow> cl_option option" where
  "find_option known name = find (\<lambda>x. op_name x = name) known"

definition parsed_line :: "cl_option list \<Rightarrow> (string \<times> string) list \<Rightarrow> command_line" where
  "parsed_line known given =
     \<lparr>cl_isSet = (\<lambda>n. n \<in> fst ` set given),
      cl_value = (\<lambda>n. case map snd (filter (\<lambda>g. fst g = n) given) of
          [] \<Rightarrow> (case find_option known n of None \<Rightarrow> [] | Some x \<Rightarrow> op_default x)
        | vs \<Rightarrow> last vs),
      cl_values = (\<lambda>n. case map snd (filter (\<lambda>g. fst g = n) given) of
          [] \<Rightarrow> (case find_option known n of None \<Rightarrow> [] | Some x \<Rightarrow> if op_default x = [] then [] else [op_default x])
        | vs \<Rightarrow> vs)\<rparr>"


section \<open>Settings\<close>

text \<open>Without a parser the getters fail their assertion.\<close>

definition setCommandLineParser :: "command_line option \<Rightarrow> command_line option" where
  "setCommandLineParser p = p"

definition st_hasDebugOption :: "command_line option \<Rightarrow> bool option" where
  "st_hasDebugOption = map_option hasDebugOption"

definition st_isTestnet :: "command_line option \<Rightarrow> bool option" where
  "st_isTestnet = map_option hasTestnetOption"

definition st_hasAllowLocalIpOption :: "command_line option \<Rightarrow> bool option" where
  "st_hasAllowLocalIpOption = map_option hasAllowLocalIpOption"

definition st_hasHideMyPortOption :: "command_line option \<Rightarrow> bool option" where
  "st_hasHideMyPortOption = map_option hasHideMyPortOption"

definition st_getP2pBindIp :: "command_line option \<Rightarrow> string option" where
  "st_getP2pBindIp = map_option cl_getP2pBindIp"

definition st_getP2pExternalPort :: "command_line option \<Rightarrow> 16 word option" where
  "st_getP2pExternalPort = map_option cl_getP2pExternalPort"

definition st_getPeers :: "command_line option \<Rightarrow> string list option" where
  "st_getPeers = map_option getPeers"

definition st_getPriorityNodes :: "command_line option \<Rightarrow> string list option" where
  "st_getPriorityNodes = map_option getPriorityNodes"

definition st_getExclusiveNodes :: "command_line option \<Rightarrow> string list option" where
  "st_getExclusiveNodes = map_option getExclusiveNodes"

definition st_getSeedNodes :: "command_line option \<Rightarrow> string list option" where
  "st_getSeedNodes = map_option getSeedNodes"

definition st_getDataDir :: "command_line option \<Rightarrow> string option" where
  "st_getDataDir = map_option cl_getDataDir"

definition st_isRunMinimizedEnabled :: "command_line option \<Rightarrow> bool option" where
  "st_isRunMinimizedEnabled = map_option hasMinimizedOption"

definition st_isOnRemote :: "cfg \<Rightarrow> bool" where
  "st_isOnRemote s = cf_onRemote s"

text \<open>The comparison of strings is by code units; the version is that of the running Qt.\<close>

fun text_less :: "string \<Rightarrow> string \<Rightarrow> bool" where
  "text_less s [] \<longleftrightarrow> False"
| "text_less [] (d # t) \<longleftrightarrow> True"
| "text_less (c # s) (d # t) \<longleftrightarrow>
     (of_char c :: nat) < of_char d \<or> (c = d \<and> text_less s t)"

definition isSystemTrayAvailable :: "platform \<Rightarrow> string \<Rightarrow> bool" where
  "isSystemTrayAvailable os qtVersion =
     (if os = MacOS then False
      else if os = LinuxOS \<and> text_less qtVersion ''5.5.0'' then False else True)"

text \<open>The two actions of the tray menu: None when they are removed, else their check marks (MainWindow).\<close>

definition tray_actions :: "bool \<Rightarrow> bool \<Rightarrow> cfg_env \<Rightarrow> cfg \<Rightarrow> (bool \<times> bool) option" where
  "tray_actions available qtAvailable E s =
     (if \<not> available \<and> qtAvailable then None else Some (isMinimizeToTrayEnabled E s, isCloseToTrayEnabled E s))"


section \<open>Loggers\<close>

definition OLD_CORE_LOG_FILE_NAME :: string where "OLD_CORE_LOG_FILE_NAME = ''karbowallet.log''"
definition CORE_LOG_FILE_NAME :: string where "CORE_LOG_FILE_NAME = ''core.log''"
definition WALLET_LOG_FILE_NAME :: string where "WALLET_LOG_FILE_NAME = ''wallet.log''"

text \<open>What a logger is configured with; the levels are numbers of the library.\<close>

record log_config =
  lc_globalLevel :: int
  lc_loggers :: "(string \<times> string \<times> int) list"

definition configureLogger :: "int \<Rightarrow> int \<Rightarrow> string \<Rightarrow> bool \<Rightarrow> log_config" where
  "configureLogger DEBUGGING INFO path debug =
     (let level = (if debug then DEBUGGING else INFO)
      in \<lparr>lc_globalLevel = level, lc_loggers = [(''file'', path, level)]\<rparr>)"

text \<open>The files of the directory by name, with their content. QFile::rename does not replace a file.\<close>

definition rename_file :: "string \<Rightarrow> string \<Rightarrow> (string \<rightharpoonup> string) \<Rightarrow> (string \<rightharpoonup> string)" where
  "rename_file a b fs = (case fs a of None \<Rightarrow> fs | Some x \<Rightarrow> if fs b = None then fs(a := None, b \<mapsto> x) else fs)"

definition initCoreLogger ::
  "int \<Rightarrow> int \<Rightarrow> (string \<Rightarrow> string) \<Rightarrow> bool \<Rightarrow> (string \<rightharpoonup> string) \<Rightarrow> (string \<rightharpoonup> string) \<times> log_config" where
  "initCoreLogger DEBUGGING INFO absolute debug fs =
     ((if fs (absolute OLD_CORE_LOG_FILE_NAME) \<noteq> None
       then rename_file (absolute OLD_CORE_LOG_FILE_NAME) (absolute CORE_LOG_FILE_NAME) fs else fs),
      configureLogger DEBUGGING INFO (absolute CORE_LOG_FILE_NAME) debug)"

definition initWalletLogger :: "int \<Rightarrow> int \<Rightarrow> (string \<Rightarrow> string) \<Rightarrow> bool \<Rightarrow> log_config" where
  "initWalletLogger DEBUGGING INFO absolute debug = configureLogger DEBUGGING INFO (absolute WALLET_LOG_FILE_NAME) debug"

text \<open>The data directory is made when it is missing.\<close>

definition makeDataDir :: "string set \<Rightarrow> command_line option \<Rightarrow> string set option" where
  "makeDataDir dirs p = map_option (\<lambda>d. insert d dirs) (st_getDataDir p)"


section \<open>The options agree\<close>

text \<open>Every flag the program asks for is a flag of the parser, every value and every list one of its options with a value.\<close>

definition known_as :: "bool \<Rightarrow> cl_option list \<Rightarrow> string \<Rightarrow> bool" where
  "known_as takesValue known name \<longleftrightarrow>
     (case find_option known name of None \<Rightarrow> False | Some x \<Rightarrow> (op_value x \<noteq> None) = takesValue)"

lemma flags_are_known:
  "list_all (known_as False (parser_options n d)) [''minimized'', ''testnet'', ''debug'', ''allow-local-ip'', ''hide-my-port'',
     ''help'', ''version'']"
  by (simp add: known_as_def find_option_def parser_options_def flag_option_def value_option_def)

lemma values_are_known:
  "list_all (known_as True (parser_options n d)) [''p2p-bind-ip'', ''p2p-bind-port'', ''p2p-external-port'', ''add-peer'',
     ''add-priority-node'', ''add-exclusive-node'', ''seed-node'', ''data-dir'']"
  by (simp add: known_as_def find_option_def parser_options_def flag_option_def value_option_def)

lemma trimmed_dec: "trimmed (dec n) = dec n"
  using dec_digits digit_plain by (intro trimmed_no_space) blast

lemma dec_no_plus: "\<not> starts_with (dec n) ''+''"
proof
  assume "starts_with (dec n) ''+''"
  then have "CHR ''+'' \<in> set (dec n)"
    by (cases "dec n") (auto simp: starts_with_def)
  then have "is_digit (CHR ''+'')"
    by (rule dec_digits)
  then show False
    by (simp add: is_digit_def)
qed

lemma to_ushort_dec: "n < 2 ^ 16 \<Longrightarrow> to_ushort (dec n) = of_nat n"
  using dec_digits by (auto simp: to_ushort_def read_unsigned_def trimmed_dec dec_no_plus list_all_iff)

text \<open>Without options: the default port, all interfaces, the library's directory, no peers and no flag.\<close>

lemma nothing_given:
  fixes n :: nat
  assumes "n < 2 ^ 16" "d \<noteq> []"
  defines "c \<equiv> parsed_line (parser_options n d) []"
  shows "cl_getP2pBindPort c = of_nat n" and "cl_getP2pBindIp c = ''0.0.0.0''" and "cl_getDataDir c = d"
    and "getPeers c = []" and "cl_getP2pExternalPort c = 0" and "\<not> hasTestnetOption c"
proof -
  have v: "cl_value c k = (case find_option (parser_options n d) k of None \<Rightarrow> [] | Some x \<Rightarrow> op_default x)" for k
    by (simp add: c_def parsed_line_def)
  note facts = find_option_def parser_options_def flag_option_def value_option_def
  show "cl_getP2pBindPort c = of_nat n"
    by (simp add: cl_getP2pBindPort_def v facts to_ushort_dec [OF assms(1)])
  show "cl_getP2pBindIp c = ''0.0.0.0''" "cl_getDataDir c = d"
    by (simp_all add: cl_getP2pBindIp_def cl_getDataDir_def v facts)
  show "cl_getP2pExternalPort c = 0"
    by (simp add: cl_getP2pExternalPort_def v facts to_ushort_def read_unsigned_def trimmed_def)
  show "getPeers c = []" "\<not> hasTestnetOption c"
    by (simp_all add: c_def parsed_line_def getPeers_def hasTestnetOption_def facts)
qed

text \<open>Peers are collected in the order of the line; of a single value the last counts.\<close>

lemma given_values:
  assumes "map snd (filter (\<lambda>g. fst g = k) given) = vs" "vs \<noteq> []"
  shows "cl_values (parsed_line known given) k = vs" "cl_value (parsed_line known given) k = last vs"
    and "cl_isSet (parsed_line known given) k"
proof -
  show "cl_values (parsed_line known given) k = vs" "cl_value (parsed_line known given) k = last vs"
    using assms by (simp_all add: parsed_line_def split: list.splits)
  show "cl_isSet (parsed_line known given) k"
    using assms by (force simp: parsed_line_def filter_empty_conv)
qed

text \<open>Versions are compared as texts: the tenth minor or major version counts as older than 5.5.0.\<close>

lemma versions_as_text:
  "\<not> isSystemTrayAvailable LinuxOS ''5.15.2''" "\<not> isSystemTrayAvailable LinuxOS ''10.0.0''"
  "isSystemTrayAvailable LinuxOS ''5.6.0''" "isSystemTrayAvailable LinuxOS ''6.5.0''"
  by code_simp+

text \<open>The renaming of an old log never loses a file: an existing log of the new name stays as it is.\<close>

lemma old_log_is_kept:
  assumes "fs (absolute OLD_CORE_LOG_FILE_NAME) = Some x" "fs1 = fst (initCoreLogger D I absolute debug fs)"
  shows "fs1 (absolute CORE_LOG_FILE_NAME) = Some x \<or>
    (fs1 (absolute OLD_CORE_LOG_FILE_NAME) = Some x \<and> fs1 (absolute CORE_LOG_FILE_NAME) = fs (absolute CORE_LOG_FILE_NAME))"
  using assms by (auto simp: initCoreLogger_def rename_file_def)

end
