(* ===== verification/StyleSheets.thy ===== *)
theory StyleSheets
  imports Styles
begin

text \<open>
  The style sheet templates of the program's widgets, frames and dialogs, each as
  the text before its first placeholder and its placeholders with the text behind
  each. The lemma at the end shows for every one of them that the style knows all
  of its placeholders: what the widget is given is the template with their values,
  and no placeholder is left.
\<close>

type_synonym sheet = "string \<times> (string \<times> string) list"

text \<open>The characters of a template.\<close>

definition sheet_text :: "sheet \<Rightarrow> string" where
  "sheet_text t = sheet_of placeholder (fst t) (snd t)"

section \<open>The templates\<close>

definition HIDE_BUTTON_STYLE_SHEET_TEMPLATE :: sheet where
  "HIDE_BUTTON_STYLE_SHEET_TEMPLATE =
    (''* {font-family: '',
     [(''fontFamily'', '';}QPushButton {border: none;font-size: ''),
      (''fontSizeLarge'', '';min-width: 5px;min-height: 5px;color: #ffffff;background-color: #0e073f;}QPushButton:hover {'' @
       ''color: #26BBFF;}'')])"

definition BLOCK_DETAILS_DIALOG_STYLE_SHEET_TEMPLATE :: sheet where
  "BLOCK_DETAILS_DIALOG_STYLE_SHEET_TEMPLATE =
    (''#BlockDetailsDialog {min-height: 700px;max-height: 700px;background-color: '',
     [(''backgroundColorGray'', '';}#BlockDetailsDialog > #m_blockDetailsTabBar {border: none;}'' @
       ''#BlockDetailsDialog > #m_blockDetailsTabBar::pane {border: none;border-top: 1px solid ''),
      (''borderColorDark'', '';top: -1px;}#BlockDetailsDialog > #m_blockDetailsTabBar::tab-bar {alignment: center;}'' @
       ''#BlockDetailsDialog > #m_blockDetailsTabBar QTabBar::tab {font-size: ''),
      (''fontSizeLarge'', '';font-weight: bold;min-width: 380px;max-width: 380px;min-height: 30px;max-height: 30px;'' @
       ''border: 1px solid ''),
      (''borderColorDark'', '';margin-left: 2px;margin-right: 2px;border-top-left-radius: 2px;border-top-right-radius: 2px;}'' @
       ''#BlockDetailsDialog > #m_blockDetailsTabBar QTabBar::tab:selected {background: ''),
      (''tabBackgroundColor'', '';border: 1px solid ''),
      (''borderColorDark'', '';border-bottom: 1px solid ''),
      (''tabBackgroundColor'', '';}#BlockDetailsDialog > #m_blockDetailsTabBar QTabBar::tab:!selected {background: ''),
      (''backgroundColorGray'', '';border: 1px solid ''),
      (''borderColorDark'', '';}#m_generalTab {background-color: ''),
      (''panelBackgroundColor'', '';border: none;}#m_generalTab > WalletGui--WalletNormalGrayTextLabel,'' @
       '' #m_generalTab >WalletGui--WalletNormalBlackTextLabel {min-height: 41px;max-height: 41px;'' @
       ''padding-left: 30px;padding-right: 30px;border: none;}#m_generalTab > #m_blockTextLabel,'' @
       ''#m_generalTab > #m_blockHashLabel {padding-left: 0px;padding-right: 0px;}#m_generalTab,'' @
       '' #m_transactionsTab {background-color: ''),
      (''panelBackgroundColor'', '';}#m_generalTab > #m_heightTextLabel,#m_generalTab > #m_heightLabel,'' @
       ''#m_generalTab > #m_difficultyTextLabel,#m_generalTab > #m_difficultyLabel,'' @
       ''#m_generalTab > #m_transactionCountTextLabel,#m_generalTab > #m_transactionCountLabel,'' @
       ''#m_generalTab > #m_blockSizeTextLabel,#m_generalTab > #m_blockSizeLabel,'' @
       ''#m_generalTab > #m_baseRewardTextLabel,#m_generalTab > #m_baseRewardLabel,'' @
       ''#m_generalTab > #m_rewardTextLabel,#m_generalTab > #m_rewardLabel,'' @
       ''#m_generalTab > #m_totalTransactionsTextLabel,#m_generalTab > #m_totalTransactionsLabel {'' @
       ''border: none;background-color: ''),
      (''backgroundColorAlternate'', '';}'')])"

definition CLEAR_BUTTON_STYLE_SHEET_TEMPLATE :: sheet where
  "CLEAR_BUTTON_STYLE_SHEET_TEMPLATE =
    (''* {font-family: '',
     [(''fontFamily'', '';}QPushButton {border: none;font-size: ''),
      (''fontSizeTiny'', '';min-width: 5px;min-height: 5px;color: ''),
      (''fontColorGray'', '';}QPushButton:hover {color: ''),
      (''fontColorBlueHover'', '';}'')])"

definition COPY_MAGIC_LABEL_STYLE_SHEET_TEMPLATE :: sheet where
  "COPY_MAGIC_LABEL_STYLE_SHEET_TEMPLATE =
    (''* {font-family: '',
     [(''fontFamily'', '';}WalletGui--CopyMagicLabel {color: ''),
      (''fontColorGreen'', '';font-size: ''),
      (''fontSizeSmall'', '';}'')])"

definition KEY_DIALOG_STYLE_SHEET_TEMPLATE :: sheet where
  "KEY_DIALOG_STYLE_SHEET_TEMPLATE =
    (''* {font-family: '',
     [(''fontFamily'', '';}WalletGui--KeyDialog #m_keyEdit {font-size: ''),
      (''fontSizeNormal'', '';border-radius: 2px;border: 1px solid ''),
      (''borderColorDark'', '';}'')])"

definition POOL_TRANSACTION_DETAILS_DIALOG_STYLE_SHEET_TEMPLATE :: sheet where
  "POOL_TRANSACTION_DETAILS_DIALOG_STYLE_SHEET_TEMPLATE =
    (''* {font-family: '',
     [(''fontFamily'', '';}WalletGui--PoolTransactionDetailsDialog {background-color: ''),
      (''panelBackgroundColor'', '';}WalletGui--PoolTransactionDetailsDialog WalletGui--WalletNormalGrayTextLabel,'' @
       '' WalletGui--PoolTransactionDetailsDialog WalletGui--WalletNormalBlackTextLabel {min-height: 41px;'' @
       ''max-height: 41px;padding-left: 30px;padding-right: 30px;border: none;}'' @
       ''WalletGui--PoolTransactionDetailsDialog #m_textLabel,'' @
       ''WalletGui--PoolTransactionDetailsDialog #m_hashLabel {padding-left: 0px;padding-right: 0px;}'' @
       ''WalletGui--PoolTransactionDetailsDialog #m_amountTextLabel,'' @
       ''WalletGui--PoolTransactionDetailsDialog #m_amountLabel,'' @
       ''WalletGui--PoolTransactionDetailsDialog #m_sizeTextLabel,'' @
       ''WalletGui--PoolTransactionDetailsDialog #m_sizeLabel,'' @
       ''WalletGui--PoolTransactionDetailsDialog #m_paymentIdTextLabel,'' @
       ''WalletGui--PoolTransactionDetailsDialog #m_paymentIdLabel {background-color: ''),
      (''backgroundColorAlternate'', '';}'')])"

definition SIGN_MESSAGE_DIALOG_STYLE_SHEET_TEMPLATE :: sheet where
  "SIGN_MESSAGE_DIALOG_STYLE_SHEET_TEMPLATE =
    (''* {font-family: '',
     [(''fontFamily'', '';}WalletGui--SignMessageDialog {background-color: ''),
      (''backgroundColorGray'', '';}WalletGui--SignMessageDialog #m_signTab,WalletGui--SignMessageDialog #m_verifyTab {'' @
       ''background-color: ''),
      (''panelBackgroundColor'', '';}WalletGui--SignMessageDialog QTextEdit,WalletGui--SignMessageDialog QLineEdit {background-color: ''),
      (''inputBackgroundColor'', '';color: ''),
      (''primaryTextColor'', '';border: 1px solid ''),
      (''borderColorDark'', '';}'')])"

definition TRANSACTION_DETAILS_DIALOG_STYLE_SHEET_TEMPLATE :: sheet where
  "TRANSACTION_DETAILS_DIALOG_STYLE_SHEET_TEMPLATE =
    (''* {font-family: '',
     [(''fontFamily'', '';}WalletGui--TransactionDetailsDialog {min-height: 430px;max-height: 430px;background-color: ''),
      (''backgroundColorGray'', '';}WalletGui--TransactionDetailsDialog WalletGui--WalletNormalGrayTextLabel,'' @
       '' WalletGui--TransactionDetailsDialog WalletGui--WalletNormalBlackTextLabel {min-height: 41px;'' @
       ''max-height: 41px;padding-left: 30px;padding-right: 30px;border: none;}'' @
       ''WalletGui--TransactionDetailsDialog #m_textLabel,WalletGui--TransactionDetailsDialog #m_hashLabel {'' @
       ''padding-left: 0px;padding-right: 0px;}WalletGui--TransactionDetailsDialog #m_statusTextLabel,'' @
       ''WalletGui--TransactionDetailsDialog #m_statusLabel,'' @
       ''WalletGui--TransactionDetailsDialog #m_heightTextLabel,'' @
       ''WalletGui--TransactionDetailsDialog #m_heightLabel,'' @
       ''WalletGui--TransactionDetailsDialog #m_amountTextLabel,'' @
       ''WalletGui--TransactionDetailsDialog #m_amountLabel,'' @
       ''WalletGui--TransactionDetailsDialog #m_paymentIdTextLabel,'' @
       ''WalletGui--TransactionDetailsDialog #m_paymentIdLabel {background-color: ''),
      (''backgroundColorAlternate'', '';}WalletGui--TransactionDetailsDialog > #m_transactionDetailsTabBar {border: none;}'' @
       ''WalletGui--TransactionDetailsDialog > #m_transactionDetailsTabBar::pane {border: none;'' @
       ''border-top: 1px solid ''),
      (''borderColorDark'', '';top: -1px;}WalletGui--TransactionDetailsDialog > #m_transactionDetailsTabBar::tab-bar {'' @
       ''alignment: center;}WalletGui--TransactionDetailsDialog > #m_transactionDetailsTabBar QTabBar::tab {'' @
       ''font-size: ''),
      (''fontSizeLarge'', '';font-weight: bold;min-width: 300px;max-width: 300px;min-height: 30px;max-height: 30px;'' @
       ''border: 1px solid ''),
      (''borderColorDark'', '';margin-left: 2px;margin-right: 2px;border-top-left-radius: 2px;border-top-right-radius: 2px;}'' @
       ''WalletGui--TransactionDetailsDialog > #m_transactionDetailsTabBar QTabBar::tab:selected {'' @
       ''background: ''),
      (''tabBackgroundColor'', '';border: 1px solid ''),
      (''borderColorDark'', '';border-bottom: 1px solid ''),
      (''tabBackgroundColor'', '';}WalletGui--TransactionDetailsDialog > #m_transactionDetailsTabBar QTabBar::tab:!selected {'' @
       ''background: ''),
      (''backgroundColorGray'', '';border: 1px solid ''),
      (''borderColorDark'', '';}WalletGui--TransactionDetailsDialog #m_transactionTab,'' @
       ''WalletGui--TransactionDetailsDialog #m_transfersTab {background-color: ''),
      (''panelBackgroundColor'', '';border: none;}WalletGui--TransactionDetailsDialog #m_transfersView::item {padding-right: 0px;}'')])"

definition WALLET_BLUE_BUTTON_STYLE_SHEET_TEMPLATE :: sheet where
  "WALLET_BLUE_BUTTON_STYLE_SHEET_TEMPLATE =
    (''* {font-family: '',
     [(''fontFamily'', '';}WalletGui--WalletBlueButton {font-size: ''),
      (''fontSizeNormal'', '';color: ''),
      (''selectionTextColor'', '';background-color: ''),
      (''backgroundColorBlueNormal'', '';border: 1px solid ''),
      (''backgroundColorBlueNormal'', '';}WalletGui--WalletBlueButton:disabled {background-color: ''),
      (''backgroundColorBlueDisabled'', '';border: 1px solid ''),
      (''backgroundColorBlueDisabled'', '';}WalletGui--WalletBlueButton:hover {background-color: ''),
      (''backgroundColorBlueHover'', '';border: 1px solid ''),
      (''backgroundColorBlueHover'', '';}WalletGui--WalletBlueButton:pressed {background-color: ''),
      (''backgroundColorBluePressed'', '';border: 1px solid ''),
      (''backgroundColorBluePressed'', '';}WalletGui--WalletNormalBlueButton {min-height: 30px;max-height: 30px;font-size: ''),
      (''fontSizeNormal'', '';}WalletGui--WalletLargeBlueButton {min-height: 40px;max-height: 40px;font-size: ''),
      (''fontSizeLarge'', '';}'')])"

definition WALLET_CANCEL_BUTTON_STYLE_SHEET_TEMPLATE :: sheet where
  "WALLET_CANCEL_BUTTON_STYLE_SHEET_TEMPLATE =
    (''* {font-family: '',
     [(''fontFamily'', '';}WalletGui--WalletCancelButton {min-width: 80px;max-width: 80px;min-height: 30px;max-height: 30px;'' @
       ''font-size: ''),
      (''fontSizeNormal'', '';color: ''),
      (''fontColorBlueNormal'', '';background-color: ''),
      (''inputBackgroundColor'', '';border: 1px solid ''),
      (''borderColorDark'', '';}WalletGui--WalletCancelButton:hover {color: ''),
      (''fontColorBlueHover'', '';background-color: ''),
      (''hoverBackgroundColor'', '';border-color: ''),
      (''fontColorBlueHover'', '';}WalletGui--WalletCancelButton:pressed {color: ''),
      (''selectionTextColor'', '';background-color: ''),
      (''selectionColor'', '';border-color: ''),
      (''selectionColor'', '';}'')])"

definition WALLET_DESCRIPTION_LABEL_STYLE_SHEET_TEMPLATE :: sheet where
  "WALLET_DESCRIPTION_LABEL_STYLE_SHEET_TEMPLATE =
    (''* {font-family: '',
     [(''fontFamily'', '';}WalletGui--WalletDescriptionLabel {color: ''),
      (''fontColorGray'', '';font-size: ''),
      (''fontSizeSmall'', '';padding-top: 0px;}'')])"

definition GRAY_CHECK_STYLE_SHEET_TEMPLATE :: sheet where
  "GRAY_CHECK_STYLE_SHEET_TEMPLATE =
    (''* {font-family: '',
     [(''fontFamily'', '';}WalletGui--WalletGrayCheckBox {color: ''),
      (''fontColorGray'', '';font-size: ''),
      (''fontSizeNormal'', '';border: none;}'')])"

definition WALLET_LINK_LIKE_BUTTON_STYLE_SHEET_TEMPLATE :: sheet where
  "WALLET_LINK_LIKE_BUTTON_STYLE_SHEET_TEMPLATE =
    (''* {font-family: '',
     [(''fontFamily'', '';}WalletGui--WalletLinkLikeButton {border: 1px solid transparent;background-color: transparent;'' @
       ''color: ''),
      (''fontColorBlueNormal'', '';}WalletGui--WalletLinkLikeButton:hover {color: ''),
      (''fontColorBlueHover'', '';}WalletGui--WalletLinkLikeButton:pressed {color: ''),
      (''fontColorBluePressed'', '';}WalletGui--WalletTinyLinkLikeButton {font-size: ''),
      (''fontSizeTiny'', '';min-height: 12px;}WalletGui--WalletNormalLinkLikeButton {font-size: ''),
      (''fontSizeNormal'', '';min-height: ''),
      (''fontSizeNormal'', '';}'')])"

definition WALLET_NAVIGATION_BUTTON_STYLE_SHEET_TEMPLATE :: sheet where
  "WALLET_NAVIGATION_BUTTON_STYLE_SHEET_TEMPLATE =
    (''* {font-family: '',
     [(''fontFamily'', '';}WalletGui--WalletNavigationButton {min-width: 136px;max-width: 136px;min-height: 30px;'' @
       ''max-height: 30px;font-size: ''),
      (''fontSizeSmall'', '';border-radius: 2px;border: 1px solid ''),
      (''borderColor'', '';background-color: ''),
      (''backgroundColorGray'', '';color: ''),
      (''fontColorBlueNormal'', '';}WalletGui--WalletNavigationButton:hover {background-color: ''),
      (''panelBackgroundColor'', '';color: ''),
      (''fontColorBlueHover'', '';}WalletGui--WalletNavigationButton:pressed {background-color: ''),
      (''backgroundColorGray'', '';color: ''),
      (''fontColorBluePressed'', '';}'')])"

definition WALLET_OK_BUTTON_STYLE_SHEET_TEMPLATE :: sheet where
  "WALLET_OK_BUTTON_STYLE_SHEET_TEMPLATE =
    (''* {font-family: '',
     [(''fontFamily'', '';}WalletGui--WalletOkButton {min-width: 80px;max-width: 80px;min-height: 30px;max-height: 30px;'' @
       ''font-size: ''),
      (''fontSizeNormal'', '';color: ''),
      (''selectionTextColor'', '';background-color: ''),
      (''backgroundColorBlueNormal'', '';border: 1px solid ''),
      (''backgroundColorBlueNormal'', '';}WalletGui--WalletOkButton:disabled {background-color: ''),
      (''backgroundColorBlueDisabled'', '';border: 1px solid ''),
      (''backgroundColorBlueDisabled'', '';}WalletGui--WalletOkButton:hover {background-color: ''),
      (''backgroundColorBlueHover'', '';border: 1px solid ''),
      (''backgroundColorBlueHover'', '';}WalletGui--WalletOkButton:pressed {background-color: ''),
      (''backgroundColorBluePressed'', '';border: 1px solid ''),
      (''backgroundColorBluePressed'', '';}'')])"

definition WALLET_VIEW_STYLE_SHEET_TEMPLATE_WalletTableView :: sheet where
  "WALLET_VIEW_STYLE_SHEET_TEMPLATE_WalletTableView =
    (''* {font-family: '',
     [(''fontFamily'', '';}WalletGui--WalletTableView {border: none;font-size: ''),
      (''fontSizeNormal'', '';background-color: ''),
      (''panelBackgroundColor'', '';color: ''),
      (''primaryTextColor'', '';border-bottom: 1px solid transparent;}WalletGui--WalletTableView[showBottomBorder=\"true\"] {'' @
       ''border: none;border-bottom: 1px solid ''),
      (''borderColor'', '';}WalletGui--WalletTableView > QHeaderView {background-color: ''),
      (''panelBackgroundColor'', '';border: none;border-bottom: 1px solid ''),
      (''borderColor'', '';}WalletGui--WalletTableView > QHeaderView::section:horizontal {height: 20px;font-size: ''),
      (''fontSizeSmall'', '';color: ''),
      (''fontColorGray'', '';background-color: ''),
      (''panelBackgroundColor'', '';border: none;border-left: 23px solid transparent;border-right: 20px solid transparent;}'' @
       ''WalletGui--WalletTableView::item {background: ''),
      (''backgroundColorAlternate'', '';border: none;border-left: 20px solid transparent;border-right: 20px solid transparent;}'' @
       ''WalletGui--WalletTableView::item:alternate {background: ''),
      (''panelBackgroundColor'', '';}WalletGui--WalletTableView::item:selected {color: ''),
      (''selectionTextColor'', '';background: ''),
      (''selectionColor'', '';}WalletGui--WalletTableView[hoverIsVisible=\"true\"]::item:hover {background: ''),
      (''hoverBackgroundColor'', '';alternate-background-color: ''),
      (''hoverBackgroundColor'', '';}'')])"

definition WALLET_TEXT_LABEL_STYLE_SHEET_TEMPLATE :: sheet where
  "WALLET_TEXT_LABEL_STYLE_SHEET_TEMPLATE =
    (''WalletGui--WalletTextLabel {border: 1px solid transparent;}'' @
       ''WalletGui--WalletTextLabel[errorState=\"true\"] {color: '',
     [(''fontColorRed'', '';}WalletGui--WalletTinyGrayTextLabel {color: ''),
      (''fontColorGray'', '';font-size: ''),
      (''fontSizeTiny'', '';}WalletGui--WalletSmallGrayTextLabel {color: ''),
      (''fontColorGray'', '';font-size: ''),
      (''fontSizeSmall'', '';}WalletGui--WalletSmallGreenBoldTextLabel {color: ''),
      (''fontColorGreen'', '';font-size: ''),
      (''fontSizeSmall'', '';font-weight: bold;}WalletGui--WalletSmallBlackTextLabel {color: ''),
      (''primaryTextColor'', '';font-size: ''),
      (''fontSizeSmall'', '';}WalletGui--WalletNormalGrayTextLabel {color: ''),
      (''fontColorGray'', '';font-size: ''),
      (''fontSizeNormal'', '';}WalletGui--WalletNormalGreenBoldTextLabel {color: ''),
      (''fontColorGreen'', '';font-size: ''),
      (''fontSizeNormal'', '';font-weight: bold;}WalletGui--WalletExtraNormalGrayTextLabel {color: ''),
      (''fontColorGray'', '';font-size: ''),
      (''fontSizeExtraNormal'', '';}WalletGui--WalletNormalBlackTextLabel {color: ''),
      (''primaryTextColor'', '';font-size: ''),
      (''fontSizeNormal'', '';}WalletGui--WalletExtraNormalBlackTextLabel {color: ''),
      (''primaryTextColor'', '';font-size: ''),
      (''fontSizeExtraNormal'', '';}WalletGui--WalletLargeBlackTextLabel {color: ''),
      (''primaryTextColor'', '';font-size: ''),
      (''fontSizeLarge'', '';}WalletGui--WalletExtraLargeBlackTextLabel {color: ''),
      (''primaryTextColor'', '';font-size: ''),
      (''fontSizeExtraLarge'', '';}WalletGui--WalletHeaderLabel {min-height: 17;font-size: ''),
      (''fontSizeLarge'', '';font-weight: bold;}'')])"

definition WALLET_VIEW_STYLE_SHEET_TEMPLATE_WalletTreeView :: sheet where
  "WALLET_VIEW_STYLE_SHEET_TEMPLATE_WalletTreeView =
    (''* {font-family: '',
     [(''fontFamily'', '';}WalletGui--WalletTreeView {border: none;font-size: ''),
      (''fontSizeNormal'', '';background-color: ''),
      (''panelBackgroundColor'', '';color: ''),
      (''primaryTextColor'', '';border-bottom: 1px solid transparent;}WalletGui--WalletTreeView[showBottomBorder=\"true\"] {'' @
       ''border: none;border-bottom: 1px solid ''),
      (''borderColor'', '';}WalletGui--WalletTreeView > QHeaderView {min-height: 20px;max-height: 20px;background-color: ''),
      (''panelBackgroundColor'', '';border: none;border-bottom: 1px solid ''),
      (''borderColor'', '';}WalletGui--WalletTreeView > QHeaderView::section {font-size: ''),
      (''fontSizeSmall'', '';color: ''),
      (''fontColorGray'', '';background-color: ''),
      (''panelBackgroundColor'', '';border: none;border-left: 23px solid transparent;border-right: 20px solid transparent;}'' @
       ''WalletGui--WalletTreeView::item {background: ''),
      (''backgroundColorAlternate'', '';min-height: ''),
      (''viewItemHeight'', '';max-height: ''),
      (''viewItemHeight'', '';border: none;border-left: 20px solid transparent;border-right: 20px solid transparent;}'' @
       ''WalletGui--WalletTreeView::item:alternate {background: ''),
      (''panelBackgroundColor'', '';}WalletGui--WalletTreeView::item:selected {color: ''),
      (''selectionTextColor'', '';background: ''),
      (''selectionColor'', '';}WalletGui--WalletTreeView::item:hover[hoverIsVisible=\"true\"] {background: ''),
      (''hoverBackgroundColor'', '';alternate-background-color: ''),
      (''hoverBackgroundColor'', '';}'')])"

definition STATUS_BAR_STYLE_SHEET_TEMPLATE :: sheet where
  "STATUS_BAR_STYLE_SHEET_TEMPLATE =
    (''WalletGui--WalletStatusBar, WalletGui--WalletStatusBar QLabel {background-color: '',
     [(''statusBarBackgroundColor'', '';color: ''),
      (''statusBarFontColor'', '';font-size: ''),
      (''fontSizeTiny'', '';}WalletGui--WalletStatusBar QLabel#m_hdWalletLabel {font-size: ''),
      (''fontSizeSmall'', '';font-weight: bold;}'')])"

definition CONNECTION_OPTIONS_STYLE_SHEET_TEMPLATE :: sheet where
  "CONNECTION_OPTIONS_STYLE_SHEET_TEMPLATE =
    (''WalletGui--ConnectionOptionsFrame {background: '',
     [(''panelBackgroundColor'', '';}WalletGui--ConnectionOptionsFrame QRadioButton {spacing: 20px;}'' @
       ''WalletGui--ConnectionOptionsFrame QRadioButton,WalletGui--ConnectionOptionsFrame QLineEdit,'' @
       ''WalletGui--ConnectionOptionsFrame QSpinBox {min-height: 25px;max-height: 25px;}'')])"

definition DONATION_OPTIONS_STYLE_SHEET_TEMPLATE :: sheet where
  "DONATION_OPTIONS_STYLE_SHEET_TEMPLATE =
    (''WalletGui--DonationOptionsFrame {background: '',
     [(''panelBackgroundColor'', '';}WalletGui--DonationOptionsFrame QSpinBox,WalletGui--DonationOptionsFrame QDoubleSpinBox,'' @
       ''WalletGui--DonationOptionsFrame QComboBox {min-height: 25px;max-height: 25px;}'' @
       ''WalletGui--DonationOptionsFrame QSpinBox,WalletGui--DonationOptionsFrame QDoubleSpinBox {'' @
       ''min-width: 40px;}WalletGui--DonationOptionsFrame #m_enableDonationChangeCheck {font-size: ''),
      (''fontSizeLarge'', '';font-weight: bold;}WalletGui--DonationOptionsFrame #m_enableDonationChangeCheck::indicator {'' @
       ''width: 20px;height: 20px;}'')])"

definition OPTIONS_DIALOG_STYLE_SHEET_TEMPLATE :: sheet where
  "OPTIONS_DIALOG_STYLE_SHEET_TEMPLATE =
    (''WalletGui--OptionsDialog {min-height: 563px;max-height: 563px;background-color: '',
     [(''backgroundColorGray'', '';}WalletGui--OptionsDialog > #m_buttonFrame {background: ''),
      (''panelBackgroundColor'', '';}WalletGui--OptionsDialog > #m_buttonFrame > #m_warningLabel {font-size: ''),
      (''fontSizeLarge'', '';font-weight: bold;}WalletGui--OptionsDialog > #m_optionsTabWidget {border: none;}'' @
       ''WalletGui--OptionsDialog > #m_optionsTabWidget::pane {border: none;border-top: 1px solid ''),
      (''borderColorDark'', '';top: -1px;}WalletGui--OptionsDialog > #m_optionsTabWidget::tab-bar {alignment: center;}'' @
       ''WalletGui--OptionsDialog > #m_optionsTabWidget QTabBar::tab {font-size: ''),
      (''fontSizeLarge'', '';font-weight: bold;min-width: 165px;max-width: 165px;min-height: 30px;max-height: 30px;'' @
       ''border: 1px solid ''),
      (''borderColorDark'', '';margin-left: 2px;margin-right: 2px;border-top-left-radius: 2px;border-top-right-radius: 2px;}'' @
       ''WalletGui--OptionsDialog > #m_optionsTabWidget QTabBar::tab:selected {background: ''),
      (''tabBackgroundColor'', '';border: 1px solid ''),
      (''borderColorDark'', '';border-bottom: 1px solid ''),
      (''tabBackgroundColor'', '';}WalletGui--OptionsDialog > #m_optionsTabWidget QTabBar::tab:!selected {background: ''),
      (''backgroundColorGray'', '';border: 1px solid ''),
      (''borderColorDark'', '';}'')])"

definition PRIVACY_FRAME_STYLE_SHEET_TEMPLATE :: sheet where
  "PRIVACY_FRAME_STYLE_SHEET_TEMPLATE =
    (''WalletGui--PrivacyFrame {border: none;background-color: '',
     [(''panelBackgroundColor'', '';}WalletGui--PrivacyFrame QCheckBox {spacing: 20px;min-height: 25px;max-height: 25px;}'')])"

definition OVERVIEW_STYLE_SHEET_TEMPLATE :: sheet where
  "OVERVIEW_STYLE_SHEET_TEMPLATE =
    (''* {font-family: '',
     [(''fontFamily'', '';}WalletGui--OverviewFrame {background-color: ''),
      (''panelBackgroundColor'', '';border: none;}WalletGui--OverviewFrame #m_allTransactionsButton {margin-top: 2px;}'' @
       ''WalletGui--OverviewFrame #m_newsFrame {min-height: 100px;max-height: 100px;border: none;'' @
       ''border-top: 1px solid ''),
      (''borderColor'', '';background-color: ''),
      (''backgroundColorGray'', '';}'')])"

definition OVERVIEW_HEADER_STYLE_SHEET_TEMPLATE :: sheet where
  "OVERVIEW_HEADER_STYLE_SHEET_TEMPLATE =
    (''* {font-family: '',
     [(''fontFamily'', '';}WalletGui--OverviewHeaderFrame {border: none;border-bottom: 1px solid ''),
      (''borderColor'', '';background-color: ''),
      (''panelBackgroundColor'', '';min-height: 155px;max-height: 170px;}WalletGui--OverviewHeaderFrame #m_overviewNetworkColumn,'' @
       ''WalletGui--OverviewHeaderFrame #m_overviewChainColumn {border: none;border-right: 1px solid ''),
      (''borderColor'', '';}WalletGui--OverviewHeaderFrame QLabel[role=\"caption\"] {color: ''),
      (''fontColorGray'', '';font-size: ''),
      (''fontSizeTiny'', '';}WalletGui--OverviewHeaderFrame QLabel[role=\"value\"] {color: ''),
      (''primaryTextColor'', '';}'')])"

definition BALANCES_GLASS_FRAME_STYLE_SHEET_TEMPLATE :: sheet where
  "BALANCES_GLASS_FRAME_STYLE_SHEET_TEMPLATE =
    (''WalletGui--OverviewHeaderGlassFrame {border: none;background-color: '',
     [(''glassColor'', '';border-right: 1px solid ''),
      (''borderColor'', '';}'')])"

definition SEND_FRAME_STYLE_SHEET :: sheet where
  "SEND_FRAME_STYLE_SHEET =
    (''WalletGui--SendFrame {background-color: '',
     [(''panelBackgroundColor'', '';border: none;}WalletGui--SendFrame #m_sendScrollarea {background-color: ''),
      (''backgroundColorGray'', '';border: none;border-bottom: 1px solid ''),
      (''borderColor'', '';}WalletGui--SendFrame #m_sendScrollarea QScrollBar:vertical {margin-top: 0px;border-top: none;}'' @
       ''WalletGui--SendFrame #scrollAreaWidgetContents {background-color: ''),
      (''panelBackgroundColor'', '';border: none;}WalletGui--SendFrame #m_sendFeeFrame {border: none;border-top: 1px solid ''),
      (''borderColor'', '';border-bottom: 1px solid ''),
      (''borderColor'', '';WalletGui--SendFrame--WalletTinyGrayTextLabel {padding: 0;margin: 0;}}'')])"

definition SEND_GLASS_FRAME_STYLE_SHEET_TEMPLATE :: sheet where
  "SEND_GLASS_FRAME_STYLE_SHEET_TEMPLATE =
    (''WalletGui--SendGlassFrame {border: none;background-color: '',
     [(''glassColor'', '';}'')])"

definition TRANSFER_FRAME_STYLE_SHEET_TEMPLATE :: sheet where
  "TRANSFER_FRAME_STYLE_SHEET_TEMPLATE =
    (''WalletGui--TransferFrame {background-color: '',
     [(''backgroundColorGray'', '';border: none;border-top: 1px solid ''),
      (''borderColor'', '';}WalletGui--TransferFrame[hideTopBorder=\"true\"] {border-top: none}'' @
       ''WalletGui--TransferFrame #m_addressBookButton {margin-top: 1px;}'' @
       ''WalletGui--TransferFrame #m_sendAmountSpin {min-width: 230px;max-width: 230px;}'')])"

definition SHOW_TRANSFERS_BUTTON_STYLE_SHEET :: sheet where
  "SHOW_TRANSFERS_BUTTON_STYLE_SHEET =
    (''QPushButton {border: none;min-width: 30px;max-width: 30px;min-height: 30px;max-height: 30px;'' @
       ''image: url(:icons/big-down-arrow);}QPushButton:hover {image: url(:icons/big-down-arrow);}'' @
       ''QPushButton:checked {image: url(:icons/big-up-arrow);}QPushButton:checked:hover {'' @
       ''image: url(:icons/big-up-arrow);}'',
     [])"

definition TRANSACTIONS_FRAME_STYLE_SHEET_TEMPLATE :: sheet where
  "TRANSACTIONS_FRAME_STYLE_SHEET_TEMPLATE =
    (''WalletGui--TransactionsFrame {background-color: '',
     [(''panelBackgroundColor'', '';border: none;}WalletGui--TransactionsFrame #m_resetFilterButton,'' @
       ''WalletGui--TransactionsFrame #m_filterButton {margin-top: 2px;}'' @
       ''WalletGui--TransactionsFrame > #m_filterFrame > #m_filterPeriodComboFrame > #m_filterCombo {'' @
       ''min-width: 100px;max-width: 100px;}'' @
       ''WalletGui--TransactionsFrame > #m_filterFrame > #m_filterHashFrame > QLineEdit,'' @
       ''WalletGui--TransactionsFrame > #m_filterFrame > #m_filterAddressFrame > QLineEdit {font-size: ''),
      (''fontSizeNormal'', '';}WalletGui--TransactionsFrame #m_scopeStatusLabel {color: ''),
      (''fontColorGray'', '';font-size: ''),
      (''fontSizeTiny'', '';margin-left: 10px;margin-top: 6px;}WalletGui--TransactionsFrame #m_scopeToggleButton {'' @
       ''background: transparent;border: none;color: ''),
      (''fontColorBlueNormal'', '';font-size: ''),
      (''fontSizeSmall'', '';margin-top: 2px;padding: 0 6px;}WalletGui--TransactionsFrame #m_scopeToggleButton:hover {color: ''),
      (''fontColorBlueHover'', '';}WalletGui--TransactionsFrame #m_scopeToggleButton:pressed,'' @
       ''WalletGui--TransactionsFrame #m_scopeToggleButton:checked {color: ''),
      (''fontColorBluePressed'', '';}'')])"


text \<open>All of them, with the class they belong to.\<close>

definition program_sheets :: "(string \<times> sheet) list" where
  "program_sheets =
    [(''WalletSplashScreen'', HIDE_BUTTON_STYLE_SHEET_TEMPLATE),
     (''BlockDetailsDialog'', BLOCK_DETAILS_DIALOG_STYLE_SHEET_TEMPLATE),
     (''ClearableLineEdit'', CLEAR_BUTTON_STYLE_SHEET_TEMPLATE),
     (''CopyMagicLabel'', COPY_MAGIC_LABEL_STYLE_SHEET_TEMPLATE),
     (''KeyDialog'', KEY_DIALOG_STYLE_SHEET_TEMPLATE),
     (''PoolTransactionDetailsDialog'', POOL_TRANSACTION_DETAILS_DIALOG_STYLE_SHEET_TEMPLATE),
     (''SignMessageDialog'', SIGN_MESSAGE_DIALOG_STYLE_SHEET_TEMPLATE),
     (''TransactionDetailsDialog'', TRANSACTION_DETAILS_DIALOG_STYLE_SHEET_TEMPLATE),
     (''WalletBlueButton'', WALLET_BLUE_BUTTON_STYLE_SHEET_TEMPLATE),
     (''WalletCancelButton'', WALLET_CANCEL_BUTTON_STYLE_SHEET_TEMPLATE),
     (''WalletDescriptionLabel'', WALLET_DESCRIPTION_LABEL_STYLE_SHEET_TEMPLATE),
     (''WalletGrayCheckBox'', GRAY_CHECK_STYLE_SHEET_TEMPLATE),
     (''WalletLinkLikeButton'', WALLET_LINK_LIKE_BUTTON_STYLE_SHEET_TEMPLATE),
     (''WalletNavigationButton'', WALLET_NAVIGATION_BUTTON_STYLE_SHEET_TEMPLATE),
     (''WalletOkButton'', WALLET_OK_BUTTON_STYLE_SHEET_TEMPLATE),
     (''WalletTableView'', WALLET_VIEW_STYLE_SHEET_TEMPLATE_WalletTableView),
     (''WalletTextLabel'', WALLET_TEXT_LABEL_STYLE_SHEET_TEMPLATE),
     (''WalletTreeView'', WALLET_VIEW_STYLE_SHEET_TEMPLATE_WalletTreeView),
     (''WalletStatusBar'', STATUS_BAR_STYLE_SHEET_TEMPLATE),
     (''ConnectionOptionsFrame'', CONNECTION_OPTIONS_STYLE_SHEET_TEMPLATE),
     (''DonationOptionsFrame'', DONATION_OPTIONS_STYLE_SHEET_TEMPLATE),
     (''OptionsDialog'', OPTIONS_DIALOG_STYLE_SHEET_TEMPLATE),
     (''PrivacyFrame'', PRIVACY_FRAME_STYLE_SHEET_TEMPLATE),
     (''OverviewFrame'', OVERVIEW_STYLE_SHEET_TEMPLATE),
     (''OverviewHeaderFrame'', OVERVIEW_HEADER_STYLE_SHEET_TEMPLATE),
     (''OverviewHeaderGlassFrame'', BALANCES_GLASS_FRAME_STYLE_SHEET_TEMPLATE),
     (''SendFrame'', SEND_FRAME_STYLE_SHEET),
     (''SendGlassFrame'', SEND_GLASS_FRAME_STYLE_SHEET_TEMPLATE),
     (''TransferFrame'', TRANSFER_FRAME_STYLE_SHEET_TEMPLATE),
     (''TransactionsDelegate'', SHOW_TRANSFERS_BUTTON_STYLE_SHEET),
     (''TransactionsFrame'', TRANSACTIONS_FRAME_STYLE_SHEET_TEMPLATE)]"


section \<open>Every placeholder is known\<close>

text \<open>The names makeStyleSheet replaces, which are the same in both styles.\<close>

definition known_names :: "string list" where
  "known_names =
     [''fontFamily'', ''currentTheme'', ''viewItemHeight'', ''fontSizeTiny'', ''fontSizeSmall'', ''fontSizeNormal'',
      ''fontSizeExtraNormal'', ''fontSizeLarge'', ''fontSizeExtraLarge'', ''fontSizeHuge''] @ sheet_names"

lemma known_names_table: "map fst (sheet_table st) = known_names"
  by (simp only: known_names_def sheet_table_names)

definition sheet_ok :: "sheet \<Rightarrow> bool" where
  "sheet_ok t \<longleftrightarrow> plain_text (fst t) \<and> list_all template_part (snd t) \<and> list_all (\<lambda>p. fst p \<in> set known_names) (snd t)"

lemma sheets_ok1:
  "sheet_ok HIDE_BUTTON_STYLE_SHEET_TEMPLATE"
  "sheet_ok BLOCK_DETAILS_DIALOG_STYLE_SHEET_TEMPLATE"
  "sheet_ok CLEAR_BUTTON_STYLE_SHEET_TEMPLATE"
  "sheet_ok COPY_MAGIC_LABEL_STYLE_SHEET_TEMPLATE"
  "sheet_ok KEY_DIALOG_STYLE_SHEET_TEMPLATE"
  "sheet_ok POOL_TRANSACTION_DETAILS_DIALOG_STYLE_SHEET_TEMPLATE"
  by code_simp+

lemma sheets_ok2:
  "sheet_ok SIGN_MESSAGE_DIALOG_STYLE_SHEET_TEMPLATE"
  "sheet_ok TRANSACTION_DETAILS_DIALOG_STYLE_SHEET_TEMPLATE"
  "sheet_ok WALLET_BLUE_BUTTON_STYLE_SHEET_TEMPLATE"
  "sheet_ok WALLET_CANCEL_BUTTON_STYLE_SHEET_TEMPLATE"
  "sheet_ok WALLET_DESCRIPTION_LABEL_STYLE_SHEET_TEMPLATE"
  "sheet_ok GRAY_CHECK_STYLE_SHEET_TEMPLATE"
  by code_simp+

lemma sheets_ok3:
  "sheet_ok WALLET_LINK_LIKE_BUTTON_STYLE_SHEET_TEMPLATE"
  "sheet_ok WALLET_NAVIGATION_BUTTON_STYLE_SHEET_TEMPLATE"
  "sheet_ok WALLET_OK_BUTTON_STYLE_SHEET_TEMPLATE"
  "sheet_ok WALLET_VIEW_STYLE_SHEET_TEMPLATE_WalletTableView"
  "sheet_ok WALLET_TEXT_LABEL_STYLE_SHEET_TEMPLATE"
  "sheet_ok WALLET_VIEW_STYLE_SHEET_TEMPLATE_WalletTreeView"
  by code_simp+

lemma sheets_ok4:
  "sheet_ok STATUS_BAR_STYLE_SHEET_TEMPLATE"
  "sheet_ok CONNECTION_OPTIONS_STYLE_SHEET_TEMPLATE"
  "sheet_ok DONATION_OPTIONS_STYLE_SHEET_TEMPLATE"
  "sheet_ok OPTIONS_DIALOG_STYLE_SHEET_TEMPLATE"
  "sheet_ok PRIVACY_FRAME_STYLE_SHEET_TEMPLATE"
  "sheet_ok OVERVIEW_STYLE_SHEET_TEMPLATE"
  by code_simp+

lemma sheets_ok5:
  "sheet_ok OVERVIEW_HEADER_STYLE_SHEET_TEMPLATE"
  "sheet_ok BALANCES_GLASS_FRAME_STYLE_SHEET_TEMPLATE"
  "sheet_ok SEND_FRAME_STYLE_SHEET"
  "sheet_ok SEND_GLASS_FRAME_STYLE_SHEET_TEMPLATE"
  "sheet_ok TRANSFER_FRAME_STYLE_SHEET_TEMPLATE"
  "sheet_ok SHOW_TRANSFERS_BUTTON_STYLE_SHEET"
  by code_simp+

lemma sheets_ok6:
  "sheet_ok TRANSACTIONS_FRAME_STYLE_SHEET_TEMPLATE"
  by code_simp+

lemmas sheets_ok = sheets_ok1 sheets_ok2 sheets_ok3 sheets_ok4 sheets_ok5 sheets_ok6

lemma program_sheets_ok: "list_all (\<lambda>(c, t). sheet_ok t) program_sheets"
  by (simp add: program_sheets_def sheets_ok)

lemma sheet_filled:
  assumes "sheet_ok t"
  shows "makeStyleSheet st (sheet_text t) = sheet_of (lookup_or_keep (sheet_table st)) (fst t) (snd t)"
    and "plain_text (makeStyleSheet st (sheet_text t))"
proof -
  have parts: "list_all template_part (snd t)" "plain_text (fst t)"
    using assms by (simp_all add: sheet_ok_def)
  have "fst ` set (sheet_table st) = set known_names"
    using known_names_table [of st] by (metis list.set_map)
  then have "fst ` set (snd t) \<subseteq> fst ` set (sheet_table st)"
    using assms by (auto simp: sheet_ok_def list_all_iff)
  then show "makeStyleSheet st (sheet_text t) = sheet_of (lookup_or_keep (sheet_table st)) (fst t) (snd t)"
    and "plain_text (makeStyleSheet st (sheet_text t))"
    using substitution_of_sheet [OF parts, of st] unfolding sheet_text_def by blast+
qed

text \<open>So every template of the program is filled completely, in both styles.\<close>

lemma program_sheets_are_filled:
  assumes "(c, t) \<in> set program_sheets"
  shows "makeStyleSheet st (sheet_text t) = sheet_of (lookup_or_keep (sheet_table st)) (fst t) (snd t) \<and>
    plain_text (makeStyleSheet st (sheet_text t))"
proof -
  have "sheet_ok t"
    using program_sheets_ok assms by (auto simp: list_all_iff)
  then show ?thesis
    using sheet_filled by blast
qed

end
