(* ===== verification/EventHandlers.thy ===== *)
theory EventHandlers
  imports Wiring Autostart
begin

text \<open>
  ApplicationEventHandler on the three platforms (src/Platform/Linux, src/Platform/
  Windows, src/Platform/OSX): payment links that a second start of the program
  hands to the running one over a local socket, and the locking of the screen.
  The link that was received last is asked for when a wallet is opened
  (MainWindow.cpp, SendFrame.cpp). QUrl::fromUserInput and QUrl::toString are
  parameters; an invalid link is None.
\<close>

section \<open>The handler\<close>

datatype desktop_signal = UrlReceivedSignal string | ScreenLockedSignal | ScreenUnlockedSignal

record handler =
  eh_receivedUrl :: "string option"
  eh_listening :: bool
  eh_out :: "desktop_signal list"

definition eh_new :: handler where
  "eh_new = \<lparr>eh_receivedUrl = None, eh_listening = False, eh_out = []\<rparr>"

definition eh_emit :: "desktop_signal \<Rightarrow> handler \<Rightarrow> handler" where
  "eh_emit g h = h\<lparr>eh_out := eh_out h @ [g]\<rparr>"

text \<open>The answer of listen(); on Linux a server left over is removed first, and a failure is logged.\<close>

definition eh_init :: "platform \<Rightarrow> bool \<Rightarrow> handler \<Rightarrow> handler" where
  "eh_init os listens h = (case os of MacOS \<Rightarrow> h | _ \<Rightarrow> h\<lparr>eh_listening := listens\<rparr>)"

text \<open>
  Sending a link: what the handler keeps, and what is written to the socket. The
  Linux handler makes the data and waits for the bytes to be written, but writes
  none.
\<close>

definition eh_sendUrl :: "platform \<Rightarrow> (string \<Rightarrow> string) \<Rightarrow> bool \<Rightarrow> string \<Rightarrow> handler \<Rightarrow> handler \<times> string option" where
  "eh_sendUrl os toText reached u h =
     (case os of
        MacOS \<Rightarrow> (h, None)
      | LinuxOS \<Rightarrow> (h\<lparr>eh_receivedUrl := Some u\<rparr>, None)
      | WindowsOS \<Rightarrow> (h\<lparr>eh_receivedUrl := Some u\<rparr>, if reached then Some (toText u) else None))"

definition eh_readyRead :: "(string \<Rightarrow> string option) \<Rightarrow> string \<Rightarrow> handler \<Rightarrow> handler" where
  "eh_readyRead fromUserInput rawData h =
     (case fromUserInput rawData of None \<Rightarrow> h | Some u \<Rightarrow> eh_emit (UrlReceivedSignal u) h)"

text \<open>Linux: the screen saver's ActiveChanged.\<close>

definition screenStateChanged :: "bool \<Rightarrow> handler \<Rightarrow> handler" where
  "screenStateChanged isLocked h = eh_emit (if isLocked then ScreenLockedSignal else ScreenUnlockedSignal) h"

text \<open>Windows: a change of the session, by its number; the filter lets every message pass.\<close>

definition WTS_SESSION_LOCK :: nat where "WTS_SESSION_LOCK = 7"
definition WTS_SESSION_UNLOCK :: nat where "WTS_SESSION_UNLOCK = 8"

definition nativeEventFilter :: "bool \<Rightarrow> nat \<Rightarrow> handler \<Rightarrow> handler \<times> bool" where
  "nativeEventFilter sessionChange wParam h =
     ((if sessionChange then
         (if wParam = WTS_SESSION_LOCK then eh_emit ScreenLockedSignal h
          else if wParam = WTS_SESSION_UNLOCK then eh_emit ScreenUnlockedSignal h else h)
       else h), False)"

text \<open>macOS: notifications by name, and files or links that the application is asked to open.\<close>

definition SCREEN_LOCKED_NOTIFICATION_NAME :: string where
  "SCREEN_LOCKED_NOTIFICATION_NAME = ''com.apple.screenIsLocked''"
definition SCREEN_UNLOCKED_NOTIFICATION_NAME :: string where
  "SCREEN_UNLOCKED_NOTIFICATION_NAME = ''com.apple.screenIsUnlocked''"

definition eh_notify :: "string \<Rightarrow> handler \<Rightarrow> handler" where
  "eh_notify name h =
     (if name = SCREEN_LOCKED_NOTIFICATION_NAME then eh_emit ScreenLockedSignal h
      else if name = SCREEN_UNLOCKED_NOTIFICATION_NAME then eh_emit ScreenUnlockedSignal h else h)"

definition eh_fileOpen :: "string option \<Rightarrow> handler \<Rightarrow> handler" where
  "eh_fileOpen url h =
     (case url of
        Some u \<Rightarrow> if u \<noteq> [] then eh_emit (UrlReceivedSignal u) (h\<lparr>eh_receivedUrl := Some u\<rparr>) else h
      | None \<Rightarrow> h)"

definition getLastReceivedUrl :: "handler \<Rightarrow> string option" where
  "getLastReceivedUrl h = eh_receivedUrl h"

text \<open>The connections of its observers.\<close>

definition desktop_wires :: "wire list" where
  "desktop_wires = [(''urlReceivedSignal'', ''urlReceived''), (''screenLockedSignal'', ''screenLocked''),
     (''screenUnlockedSignal'', ''screenUnlocked'')]"

definition desktop_cuts :: "cut list" where
  "desktop_cuts = [CutSlot ''urlReceivedSignal'' ''urlReceived'', CutSlot ''screenLockedSignal'' ''screenLocked'',
     CutSlot ''screenUnlockedSignal'' ''screenUnlocked'']"

interpretation desktop_observers: wiring desktop_wires desktop_cuts
  by (rule wiringI) code_simp+

text \<open>Windows registers the program for links: keys, names of values and values, the first argument being its path. Separators are written as slashes.\<close>

definition setUrlHandler :: "string \<Rightarrow> (string \<times> string \<times> string) list" where
  "setUrlHandler path =
     (let q = [CHR 0x22]; key = ''HKEY_CURRENT_USER/Software/Classes/Karbovanets'' in
      [(key, ''.'', ''URL:karbowanec''), (key, ''URL Protocol'', []), (key @ ''/DefaultIcon'', ''.'', path),
       (key @ ''/shell/open/command'', ''.'', q @ path @ q @ '' '' @ q @ ''%1'' @ q)])"


section \<open>Two programs and the openings of a wallet\<close>

text \<open>
  What the user and the system do: the program was started with a link, a second
  program sends one, the system opens one, the screen is locked, or a wallet is
  opened. The last records the link the window and the send form are given.
\<close>

datatype desktop_event =
    StartedWith string | OtherStartedWith string | OpenedBySystem "string option" | ScreenChanged bool | WalletOpening

record desktop =
  dk_handler :: handler
  dk_given :: "string option list"

definition dk_step ::
  "platform \<Rightarrow> (string \<Rightarrow> string) \<Rightarrow> (string \<Rightarrow> string option) \<Rightarrow> desktop_event \<Rightarrow> desktop \<Rightarrow> desktop" where
  "dk_step os toText fromUserInput e d =
     (let h = dk_handler d in
      case e of
        StartedWith u \<Rightarrow> d\<lparr>dk_handler := fst (eh_sendUrl os toText False u h)\<rparr>
      | OtherStartedWith u \<Rightarrow>
          (case snd (eh_sendUrl os toText (eh_listening h) u eh_new) of
             None \<Rightarrow> d
           | Some data \<Rightarrow> d\<lparr>dk_handler := eh_readyRead fromUserInput data h\<rparr>)
      | OpenedBySystem u \<Rightarrow> if os = MacOS then d\<lparr>dk_handler := eh_fileOpen u h\<rparr> else d
      | ScreenChanged b \<Rightarrow> d\<lparr>dk_handler := screenStateChanged b h\<rparr>
      | WalletOpening \<Rightarrow> d\<lparr>dk_given := dk_given d @ [getLastReceivedUrl h]\<rparr>)"

text \<open>A second program's link reaches the running one on Windows, and on Linux never.\<close>

lemma link_of_second_program:
  assumes "eh_listening (dk_handler d)" "fromUserInput (toText u) = Some u"
  shows "eh_out (dk_handler (dk_step WindowsOS toText fromUserInput (OtherStartedWith u) d)) =
      eh_out (dk_handler d) @ [UrlReceivedSignal u]"
    and "dk_step LinuxOS toText fromUserInput (OtherStartedWith u) d = d"
  using assms by (simp_all add: dk_step_def eh_sendUrl_def eh_readyRead_def eh_emit_def Let_def)

text \<open>One that arrives is told to the observers, but not kept for a wallet that is opened later; macOS keeps it.\<close>

lemma link_of_second_program_not_kept:
  "getLastReceivedUrl (dk_handler (dk_step WindowsOS toText fromUserInput (OtherStartedWith u) d)) =
     getLastReceivedUrl (dk_handler d)"
  "u \<noteq> [] \<Longrightarrow> getLastReceivedUrl (dk_handler (dk_step MacOS toText fromUserInput (OpenedBySystem (Some u)) d)) = Some u"
  by (auto simp: dk_step_def eh_sendUrl_def eh_readyRead_def eh_emit_def eh_fileOpen_def getLastReceivedUrl_def
      Let_def split: option.splits)

text \<open>
  The link kept is never forgotten: after any events, every opening of a wallet
  is given some link again.
\<close>

lemma kept_link_stays:
  "eh_receivedUrl (dk_handler d) \<noteq> None \<Longrightarrow>
   eh_receivedUrl (dk_handler (fold (dk_step os toText fromUserInput) es d)) \<noteq> None"
proof (induction es arbitrary: d)
  case (Cons e es)
  have "eh_receivedUrl (dk_handler (dk_step os toText fromUserInput e d)) \<noteq> None"
    using Cons.prems
    by (cases e; cases os)
      (auto simp: dk_step_def eh_sendUrl_def eh_readyRead_def eh_emit_def eh_fileOpen_def screenStateChanged_def Let_def
        split: option.splits)
  then show ?case
    using Cons.IH by simp
qed simp

lemma link_given_again:
  assumes "os \<noteq> MacOS"
  shows "dk_given (fold (dk_step os toText fromUserInput)
      [StartedWith u, WalletOpening, ScreenChanged True, ScreenChanged False, WalletOpening]
      \<lparr>dk_handler = eh_new, dk_given = []\<rparr>) = [Some u, Some u]"
  using assms by (cases os) 
    (simp_all add: dk_step_def eh_sendUrl_def getLastReceivedUrl_def screenStateChanged_def eh_emit_def Let_def)

text \<open>Locking and unlocking are told alike on every platform.\<close>

lemma screen_told_alike:
  "screenStateChanged True h = fst (nativeEventFilter True WTS_SESSION_LOCK h)"
  "screenStateChanged True h = eh_notify SCREEN_LOCKED_NOTIFICATION_NAME h"
  "screenStateChanged False h = fst (nativeEventFilter True WTS_SESSION_UNLOCK h)"
  "screenStateChanged False h = eh_notify SCREEN_UNLOCKED_NOTIFICATION_NAME h"
  by (simp_all add: screenStateChanged_def nativeEventFilter_def eh_notify_def WTS_SESSION_LOCK_def WTS_SESSION_UNLOCK_def
      SCREEN_LOCKED_NOTIFICATION_NAME_def SCREEN_UNLOCKED_NOTIFICATION_NAME_def)

end
