(* ===== verification/Dialogs.thy ===== *)
theory Dialogs
  imports WalletSession WalletStateModel AddressBook WalletWorker
begin

text \<open>
  Dialogs and small widgets of the main window: the two password dialogs
  (src/src/Gui/Common/NewPasswordDialog.cpp, ChangePasswordDialog.cpp), the
  balance proof (BalanceProofDialog.cpp), signing and verifying of messages
  (SignMessageDialog.cpp), the balance labels of the tool bar and the
  development donation (src/src/Gui/MainWindow/MainWindow.cpp). A text field
  runs its slot when its text changes.
\<close>

section \<open>A new password\<close>

record new_password =
  np_password :: string
  np_confirmation :: string
  np_editError :: bool
  np_confirmationEditError :: bool
  np_emptyError :: bool
  np_confirmError :: bool
  np_caption :: string
  np_confirmCaption :: string
  np_ok :: bool

definition new_password_dialog :: new_password where
  "new_password_dialog = \<lparr>np_password = [], np_confirmation = [], np_editError = False, np_confirmationEditError = False,
     np_emptyError = False, np_confirmError = False, np_caption = ''PASSWORD'', np_confirmCaption = ''CONFIRM'', np_ok = False\<rparr>"

definition np_setConfirmPasswordError :: "bool \<Rightarrow> new_password \<Rightarrow> new_password" where
  "np_setConfirmPasswordError e d = d\<lparr>np_confirmationEditError := e, np_confirmError := e,
     np_confirmCaption := if e then ''PASSWORDS DO NOT MATCH'' else ''CONFIRM''\<rparr>"

definition np_setEmptyPasswordError :: "bool \<Rightarrow> new_password \<Rightarrow> new_password" where
  "np_setEmptyPasswordError e d = d\<lparr>np_editError := e, np_confirmationEditError := e, np_emptyError := e,
     np_caption := if e then ''EMPTY PASSWORD'' else ''PASSWORD''\<rparr>"

definition np_checkPassword :: "new_password \<Rightarrow> new_password" where
  "np_checkPassword d =
     (let blank = (trimmed (np_password d) = [] \<and> trimmed (np_confirmation d) = []);
          d1 = np_setEmptyPasswordError blank d;
          confirmed = (np_password d1 = np_confirmation d1);
          d2 = np_setConfirmPasswordError (\<not> confirmed) d1
      in d2\<lparr>np_ok := \<not> blank \<and> confirmed\<rparr>)"

text \<open>The field that is typed into: the password (True) or its confirmation.\<close>

definition np_type :: "bool \<times> string \<Rightarrow> new_password \<Rightarrow> new_password" where
  "np_type e d =
     (case e of
        (True, t) \<Rightarrow> if np_password d = t then d else np_checkPassword (d\<lparr>np_password := t\<rparr>)
      | (False, t) \<Rightarrow> if np_confirmation d = t then d else np_checkPassword (d\<lparr>np_confirmation := t\<rparr>))"


section \<open>A changed password\<close>

record change_password_form =
  cp_old :: string
  cp_new :: string
  cp_confirmation :: string
  cp_oldError :: bool
  cp_editsError :: bool
  cp_emptyError :: bool
  cp_confirmError :: bool
  cp_oldCaption :: string
  cp_newCaption :: string
  cp_confirmCaption :: string
  cp_ok :: bool

definition cp_setOldPasswordError :: "bool \<Rightarrow> change_password_form \<Rightarrow> change_password_form" where
  "cp_setOldPasswordError e d = d\<lparr>cp_oldError := e, cp_oldCaption := if e then ''INCORRECT PASSWORD'' else ''OLD PASSWORD''\<rparr>"

definition cp_setEmptyPasswordError :: "bool \<Rightarrow> change_password_form \<Rightarrow> change_password_form" where
  "cp_setEmptyPasswordError e d = d\<lparr>cp_editsError := e, cp_emptyError := e,
     cp_newCaption := if e then ''EMPTY PASSWORD'' else ''NEW PASSWORD''\<rparr>"

definition cp_setConfirmPasswordError :: "bool \<Rightarrow> change_password_form \<Rightarrow> change_password_form" where
  "cp_setConfirmPasswordError e d = d\<lparr>cp_editsError := e, cp_confirmError := e,
     cp_confirmCaption := if e then ''PASSWORDS DO NOT MATCH'' else ''CONFIRM''\<rparr>"

definition change_password_dialog :: "bool \<Rightarrow> change_password_form" where
  "change_password_dialog oldError = cp_setOldPasswordError oldError
     \<lparr>cp_old = [], cp_new = [], cp_confirmation = [], cp_oldError = False, cp_editsError = False, cp_emptyError = False,
      cp_confirmError = False, cp_oldCaption = ''OLD PASSWORD'', cp_newCaption = ''NEW PASSWORD'',
      cp_confirmCaption = ''CONFIRM'', cp_ok = False\<rparr>"

definition cp_checkPassword :: "change_password_form \<Rightarrow> change_password_form" where
  "cp_checkPassword d =
     (let blank = (trimmed (cp_new d) = [] \<and> trimmed (cp_confirmation d) = []);
          d1 = cp_setEmptyPasswordError blank d;
          confirmed = (cp_new d1 = cp_confirmation d1);
          d2 = cp_setConfirmPasswordError (\<not> confirmed) d1
      in d2\<lparr>cp_ok := \<not> blank \<and> confirmed\<rparr>)"

definition cp_passwordChanged :: "change_password_form \<Rightarrow> change_password_form" where
  "cp_passwordChanged d = cp_setOldPasswordError False d"

datatype password_field = OldField | NewField | ConfirmField

definition cp_type :: "password_field \<times> string \<Rightarrow> change_password_form \<Rightarrow> change_password_form" where
  "cp_type e d =
     (case e of
        (OldField, t) \<Rightarrow> if cp_old d = t then d else cp_passwordChanged (d\<lparr>cp_old := t\<rparr>)
      | (NewField, t) \<Rightarrow> if cp_new d = t then d else cp_checkPassword (d\<lparr>cp_new := t\<rparr>)
      | (ConfirmField, t) \<Rightarrow> if cp_confirmation d = t then d else cp_checkPassword (d\<lparr>cp_confirmation := t\<rparr>))"

text \<open>
  What the main window is given: the typing in each dialog, and the texts of
  the dialog when its button can be pressed. The first dialog of a wallet
  without password is the one for a new password.
\<close>

definition np_result :: "(bool \<times> string) list \<Rightarrow> (string \<times> string) option" where
  "np_result es = (let d = fold np_type es new_password_dialog in if np_ok d then Some ([], np_password d) else None)"

definition cp_result :: "bool \<Rightarrow> (password_field \<times> string) list \<Rightarrow> (string \<times> string) option" where
  "cp_result oldError es =
     (let d = fold cp_type es (change_password_dialog oldError) in if cp_ok d then Some (cp_old d, cp_new d) else None)"


section \<open>The balance proof\<close>

text \<open>
  The spin box holds an amount in atomic units. spin is the rounding that a
  value set by the program undergoes (its decimal text is read as a double),
  prove the proof made by the wallet adapter.
\<close>

record proof_dialog =
  bp_message :: string
  bp_spin :: u64
  bp_amount :: u64
  bp_proof :: string
  bp_shown :: string

text \<open>
  genProof is entered again when it changes the spin box; the number bounds how
  deep, None is a depth not reached. Inl is an exception that leaves the slot:
  nothing catches it.
\<close>

fun genProof ::
  "nat \<Rightarrow> (u64 \<Rightarrow> u64) \<Rightarrow> u64 \<Rightarrow> (u64 \<Rightarrow> string \<Rightarrow> proof_error + string) \<Rightarrow> proof_dialog \<Rightarrow> (proof_error + proof_dialog) option" where
  "genProof 0 spin balance prove d = None"
| "genProof (Suc k) spin balance prove d =
     (let a = (if balance \<noteq> 0 \<and> (bp_spin d > balance \<or> bp_spin d = 0) then balance else bp_spin d);
          d1 = d\<lparr>bp_amount := a\<rparr>
      in if a > 0 then
           (case (if spin a = bp_spin d1 then Some (Inr d1) else genProof k spin balance prove (d1\<lparr>bp_spin := spin a\<rparr>)) of
              None \<Rightarrow> None
            | Some (Inl e) \<Rightarrow> Some (Inl e)
            | Some (Inr d2) \<Rightarrow>
                Some (case prove (bp_amount d2) (bp_message d2) of
                    Inl e \<Rightarrow> Inl e
                  | Inr p \<Rightarrow> Inr (d2\<lparr>bp_proof := p, bp_shown := p\<rparr>)))
         else Some (Inr (d1\<lparr>bp_shown := []\<rparr>)))"

definition bp_balanceUpdated ::
  "(u64 \<Rightarrow> u64) \<Rightarrow> u64 \<Rightarrow> (u64 \<Rightarrow> string \<Rightarrow> proof_error + string) \<Rightarrow> proof_dialog \<Rightarrow> (proof_error + proof_dialog) option" where
  "bp_balanceUpdated spin actual prove d =
     genProof 3 spin actual prove (if actual = 0 then d\<lparr>bp_amount := 0\<rparr> else d)"

definition bp_saved :: "string \<Rightarrow> bool \<Rightarrow> proof_dialog \<Rightarrow> (string \<times> string) option" where
  "bp_saved path writable d = (if path \<noteq> [] \<and> writable then Some (path, bp_proof d) else None)"


section \<open>Signing and verifying\<close>

datatype verification = Unchecked | SignatureValid | SignatureInvalid | AddressInvalid

record sign_dialog =
  sg_tab :: nat
  sg_title :: string
  sg_address :: string
  sg_message :: string
  sg_signature :: string
  sg_addressEdit :: string
  sg_verifyMessage :: string
  sg_verifySignature :: string
  sg_result :: verification

definition new_sign_dialog :: "string \<Rightarrow> sign_dialog" where
  "new_sign_dialog address = \<lparr>sg_tab = 0, sg_title = ''Sign message'', sg_address = address, sg_message = [], sg_signature = [],
     sg_addressEdit = address, sg_verifyMessage = [], sg_verifySignature = [], sg_result = Unchecked\<rparr>"

definition sg_changeTitle :: "nat \<Rightarrow> sign_dialog \<Rightarrow> sign_dialog" where
  "sg_changeTitle v d = d\<lparr>sg_title := if v = 0 then ''Sign message'' else ''Verify signed message''\<rparr>"

definition sg_sign :: "sign_dialog \<Rightarrow> sign_dialog" where
  "sg_sign d = sg_changeTitle 0 (d\<lparr>sg_tab := 0\<rparr>)"

definition sg_verify :: "sign_dialog \<Rightarrow> sign_dialog" where
  "sg_verify d = sg_changeTitle 1 (d\<lparr>sg_tab := 1\<rparr>)"

text \<open>signer and verifier are the wallet adapter's; parse gives the prefix of an address, own_prefix is the network's.\<close>

definition sg_messageChanged :: "(string \<Rightarrow> string \<Rightarrow> proof_error + string) \<Rightarrow> sign_dialog \<Rightarrow> proof_error + sign_dialog" where
  "sg_messageChanged signer d =
     (if sg_tab d \<noteq> 0 then Inr d
      else (case signer (sg_message d) (sg_address d) of Inl e \<Rightarrow> Inl e | Inr s \<Rightarrow> Inr (d\<lparr>sg_signature := s\<rparr>)))"

definition sg_verifyMessageSlot ::
  "(string \<Rightarrow> u64 option) \<Rightarrow> u64 \<Rightarrow> (string \<Rightarrow> string \<Rightarrow> string \<Rightarrow> bool) \<Rightarrow> sign_dialog \<Rightarrow> sign_dialog" where
  "sg_verifyMessageSlot parse own_prefix verifier d =
     (let d1 = d\<lparr>sg_result := Unchecked\<rparr>; a = trimmed (sg_addressEdit d); m = sg_verifyMessage d; s = sg_verifySignature d
      in if a = [] \<or> m = [] \<or> s = [] then d1
         else if parse a = Some own_prefix then
           d1\<lparr>sg_result := if verifier m a s then SignatureValid else SignatureInvalid\<rparr>
         else d1\<lparr>sg_result := AddressInvalid\<rparr>)"


section \<open>The balance labels of the tool bar\<close>

record amount_label =
  fl_text :: string
  fl_short :: string
  fl_full :: string
  fl_truncated :: bool
  fl_hovered :: bool
  fl_selectableWhenExpanded :: bool
  fl_menu :: bool
  fl_selectable :: bool

definition fl_updateTextInteraction :: "amount_label \<Rightarrow> amount_label" where
  "fl_updateTextInteraction l = l\<lparr>fl_selectable := fl_selectableWhenExpanded l \<and> fl_hovered l\<rparr>"

definition new_amount_label :: "bool \<Rightarrow> amount_label" where
  "new_amount_label selectable = fl_updateTextInteraction
     \<lparr>fl_text = [], fl_short = [], fl_full = [], fl_truncated = False, fl_hovered = False,
      fl_selectableWhenExpanded = selectable, fl_menu = False, fl_selectable = False\<rparr>"

definition fl_setAmount :: "string \<Rightarrow> string \<Rightarrow> amount_label \<Rightarrow> amount_label" where
  "fl_setAmount short full l =
     fl_updateTextInteraction (l\<lparr>fl_short := short, fl_full := full, fl_truncated := (short \<noteq> full),
       fl_text := if fl_hovered l then full else short\<rparr>)"

definition fl_enterEvent :: "amount_label \<Rightarrow> amount_label" where
  "fl_enterEvent l = fl_updateTextInteraction (l\<lparr>fl_hovered := True, fl_text := if fl_full l \<noteq> [] then fl_full l else fl_text l\<rparr>)"

definition fl_unhover :: "amount_label \<Rightarrow> amount_label" where
  "fl_unhover l = fl_updateTextInteraction (l\<lparr>fl_hovered := False, fl_text := if fl_short l \<noteq> [] then fl_short l else fl_text l\<rparr>)"

definition fl_leaveEvent :: "amount_label \<Rightarrow> amount_label" where
  "fl_leaveEvent l = (if fl_menu l then l else fl_unhover l)"

text \<open>The menu of a label: opening it, and closing it with the choice and the place of the mouse.\<close>

definition fl_openMenu :: "amount_label \<Rightarrow> amount_label" where
  "fl_openMenu l =
     (if \<not> fl_selectableWhenExpanded l then l
      else (fl_updateTextInteraction (l\<lparr>fl_hovered := True, fl_text := if fl_full l \<noteq> [] then fl_full l else fl_text l\<rparr>))\<lparr>fl_menu := True\<rparr>)"

definition fl_closeMenu :: "bool \<Rightarrow> bool \<Rightarrow> amount_label \<Rightarrow> amount_label" where
  "fl_closeMenu selectAll over l =
     (if \<not> fl_menu l then l
      else let l1 = l\<lparr>fl_menu := False\<rparr> in if \<not> over \<and> \<not> selectAll then fl_unhover l1 else l1)"

text \<open>What paintEvent does: the faded text or the plain one.\<close>

definition fl_faded :: "amount_label \<Rightarrow> bool" where
  "fl_faded l \<longleftrightarrow> \<not> (fl_hovered l \<or> \<not> fl_truncated l)"

definition balance_texts :: "nat \<Rightarrow> ws_state \<Rightarrow> (string \<times> string) \<times> string \<times> string" where
  "balance_texts ndp s =
     (let actual = ws_actual s; pending = ws_pending s; all = ws_total s;
          locked = (if all \<ge> actual then all - actual else pending)
      in ((formatAmountToShort ndp all, formatUnsignedAmount ndp all),
          (formatAmountToShort ndp locked, formatUnsignedAmount ndp locked)))"

definition updateBalance :: "nat \<Rightarrow> ws_state \<Rightarrow> amount_label \<times> amount_label \<Rightarrow> amount_label \<times> amount_label" where
  "updateBalance ndp s ls =
     (let (t, l) = balance_texts ndp s in (fl_setAmount (fst t) (snd t) (fst ls), fl_setAmount (fst l) (snd l) (snd ls)))"


section \<open>The main window\<close>

definition DONATION_ADDRESS :: string where
  "DONATION_ADDRESS = ''Kdev1L9V5ow3cdKNqDpLcFFxZCqu5W2GE9xMKewsB2pUXWxcXvJaUWHcSrHuZw91eYfQFzRtGfTemReSSMN4kE445i6Etb3''"

definition setDevDonation :: "codec \<Rightarrow> ab_state \<Rightarrow> ab_state" where
  "setDevDonation c b =
     (if findAddressByAddress b DONATION_ADDRESS = INVALID_ADDRESS_INDEX then
        setDonationChangeAmount c 1 (setDonationChangeEnabled c True (setDonationChangeAddress c DONATION_ADDRESS
          (addAddress c ''Development Fund'' DONATION_ADDRESS [] True b)))
      else b)"

definition mw_cryptoNoteAdapterInitCompleted ::
  "'a wallet_if \<Rightarrow> mw_env \<Rightarrow> (string \<Rightarrow> bool) \<Rightarrow> int \<Rightarrow> 'a session \<Rightarrow> 'a session" where
  "mw_cryptoNoteAdapterInitCompleted W E exists status s =
     (if status = 0 \<and> exists (walletFile E s) then nw_openWallet (walletFile E s) [] s else s)"

text \<open>Whether a change of the window's state hides it, and whether closing it quits (not on macOS).\<close>

definition changeEvent_hides :: "cfg_env \<Rightarrow> cfg \<Rightarrow> bool \<Rightarrow> bool" where
  "changeEvent_hides E s minimized \<longleftrightarrow> minimized \<and> isMinimizeToTrayEnabled E s"

definition closeEvent_quits :: "cfg_env \<Rightarrow> cfg \<Rightarrow> bool" where
  "closeEvent_quits E s \<longleftrightarrow> \<not> isCloseToTrayEnabled E s"

definition copyAccountNumberFromCard :: "string \<Rightarrow> string \<Rightarrow> string" where
  "copyAccountNumberFromCard number clipboard = (if number = [] then clipboard else number)"


section \<open>What the password dialogs let through\<close>

lemma np_type_fields:
  "np_password (np_checkPassword d) = np_password d" "np_confirmation (np_checkPassword d) = np_confirmation d"
  "np_ok (np_checkPassword d) \<longleftrightarrow>
     np_password d = np_confirmation d \<and> trimmed (np_password d) \<noteq> []"
  by (auto simp: np_checkPassword_def np_setEmptyPasswordError_def np_setConfirmPasswordError_def Let_def)

definition np_inv :: "new_password \<Rightarrow> bool" where
  "np_inv d \<longleftrightarrow> (np_ok d \<longleftrightarrow> np_password d = np_confirmation d \<and> trimmed (np_password d) \<noteq> [])"

lemma np_run: "np_inv d \<Longrightarrow> np_inv (fold np_type es d)"
  by (induction es arbitrary: d) (auto simp: np_type_def np_inv_def np_type_fields split: prod.split bool.split)

lemma cp_type_fields:
  "cp_new (cp_checkPassword d) = cp_new d" "cp_confirmation (cp_checkPassword d) = cp_confirmation d"
  "cp_ok (cp_checkPassword d) \<longleftrightarrow> cp_new d = cp_confirmation d \<and> trimmed (cp_new d) \<noteq> []"
  "cp_new (cp_passwordChanged d) = cp_new d" "cp_confirmation (cp_passwordChanged d) = cp_confirmation d"
  "cp_ok (cp_passwordChanged d) = cp_ok d"
  by (auto simp: cp_checkPassword_def cp_setEmptyPasswordError_def cp_setConfirmPasswordError_def cp_passwordChanged_def
      cp_setOldPasswordError_def Let_def)

definition cp_inv :: "change_password_form \<Rightarrow> bool" where
  "cp_inv d \<longleftrightarrow> (cp_ok d \<longleftrightarrow> cp_new d = cp_confirmation d \<and> trimmed (cp_new d) \<noteq> [])"

lemma cp_run: "cp_inv d \<Longrightarrow> cp_inv (fold cp_type es d)"
  by (induction es arbitrary: d) (auto simp: cp_type_def cp_inv_def cp_type_fields split: prod.split password_field.split)

text \<open>A password that a dialog hands on was typed twice and is not blank.\<close>

lemma dialog_passwords:
  "np_result es = Some (old, new) \<Longrightarrow> old = [] \<and> new = np_confirmation (fold np_type es new_password_dialog) \<and> trimmed new \<noteq> []"
  "cp_result b fs = Some (old, new) \<Longrightarrow> new = cp_confirmation (fold cp_type fs (change_password_dialog b)) \<and> trimmed new \<noteq> []"
proof -
  have "np_inv new_password_dialog" by (simp add: np_inv_def new_password_dialog_def)
  then show "np_result es = Some (old, new) \<Longrightarrow>
      old = [] \<and> new = np_confirmation (fold np_type es new_password_dialog) \<and> trimmed new \<noteq> []"
    using np_run [of new_password_dialog es] by (auto simp: np_result_def np_inv_def Let_def split: if_splits)
  have "cp_inv (change_password_dialog b)" by (simp add: cp_inv_def change_password_dialog_def cp_setOldPasswordError_def)
  then show "cp_result b fs = Some (old, new) \<Longrightarrow>
      new = cp_confirmation (fold cp_type fs (change_password_dialog b)) \<and> trimmed new \<noteq> []"
    using cp_run [of "change_password_dialog b" fs] by (auto simp: cp_result_def cp_inv_def Let_def split: if_splits)
qed


section \<open>Labels\<close>

lemma locked_is_pending: "ws_total s = ws_actual s + ws_pending s \<Longrightarrow>
   snd (balance_texts ndp s) = (formatAmountToShort ndp (ws_pending s), formatUnsignedAmount ndp (ws_pending s))"
  by (simp add: balance_texts_def Let_def)

datatype label_event = SetAmount string string | Enter | Leave | OpenMenu | CloseMenu bool bool

fun fl_do :: "label_event \<Rightarrow> amount_label \<Rightarrow> amount_label" where
  "fl_do (SetAmount a b) l = (if a = [] \<or> b = [] then l else fl_setAmount a b l)"
| "fl_do Enter l = fl_enterEvent l"
| "fl_do Leave l = fl_leaveEvent l"
| "fl_do OpenMenu l = fl_openMenu l"
| "fl_do (CloseMenu s u) l = fl_closeMenu s u l"

definition fl_inv :: "amount_label \<Rightarrow> bool" where
  "fl_inv l \<longleftrightarrow> fl_text l = (if fl_hovered l then fl_full l else fl_short l) \<and> (fl_short l = [] \<longleftrightarrow> fl_full l = []) \<and>
     (fl_selectable l \<longleftrightarrow> fl_selectableWhenExpanded l \<and> fl_hovered l) \<and> (fl_truncated l \<longleftrightarrow> fl_short l \<noteq> fl_full l) \<and>
     (fl_menu l \<longrightarrow> fl_hovered l)"

text \<open>The label shows the full amount exactly while it is hovered, also through its menu, and can be selected only then.\<close>

lemma label_run: "fl_inv l \<Longrightarrow> fl_inv (fold fl_do es l)"
proof (induction es arbitrary: l)
  case (Cons e es)
  have "fl_inv (fl_do e l)"
    using Cons.prems by (cases e) (auto simp: fl_inv_def fl_setAmount_def fl_enterEvent_def fl_leaveEvent_def fl_unhover_def
        fl_openMenu_def fl_closeMenu_def fl_updateTextInteraction_def Let_def)
  then show ?case using Cons.IH by simp
qed simp

lemma label_shows: "fl_inv (fold fl_do es (new_amount_label b))"
  by (rule label_run) (simp add: fl_inv_def new_amount_label_def fl_updateTextInteraction_def)



section \<open>The balance proof settles\<close>

definition capped :: "u64 \<Rightarrow> u64 \<Rightarrow> u64" where
  "capped balance v = (if balance \<noteq> 0 \<and> (v > balance \<or> v = 0) then balance else v)"

text \<open>The last round: what is proved, and with which amount.\<close>

definition proof_round :: "(u64 \<Rightarrow> string \<Rightarrow> proof_error + string) \<Rightarrow> u64 \<Rightarrow> proof_dialog \<Rightarrow> proof_error + proof_dialog" where
  "proof_round prove a d =
     (case prove a (bp_message d) of Inl e \<Rightarrow> Inl e | Inr p \<Rightarrow> Inr (d\<lparr>bp_amount := a, bp_proof := p, bp_shown := p\<rparr>))"

lemma gen_stable:
  "capped bal (bp_spin d) > 0 \<Longrightarrow> spin (capped bal (bp_spin d)) = bp_spin d \<Longrightarrow>
   genProof (Suc k) spin bal prove d = Some (proof_round prove (capped bal (bp_spin d)) d)"
  by (auto simp: capped_def proof_round_def Let_def split: sum.split)

lemma gen_again:
  assumes "capped bal (bp_spin d) > 0" "spin (capped bal (bp_spin d)) \<noteq> bp_spin d"
    "genProof k spin bal prove (d\<lparr>bp_amount := capped bal (bp_spin d), bp_spin := spin (capped bal (bp_spin d))\<rparr>) =
       Some (proof_round prove a d')" "bp_message d' = bp_message d"
  shows "genProof (Suc k) spin bal prove d = Some (proof_round prove a d')"
  using assms by (simp add: capped_def [symmetric] Let_def) (auto simp: proof_round_def split: sum.splits)

lemma gen_settles:
  assumes idem: "\<And>a. spin (spin a) = spin a" and bal: "bal \<noteq> 0"
  shows "\<exists>a d'. 0 < a \<and> a \<le> bal \<and> bp_message d' = bp_message d \<and> genProof 3 spin bal prove d = Some (proof_round prove a d')"
proof -
  have cap: "0 < capped bal v" "capped bal v \<le> bal" "capped bal v = bal \<or> capped bal v = v" for v
    using bal by (auto simp: capped_def word_gt_0)
  have two: "\<exists>a d'. 0 < a \<and> a \<le> bal \<and> bp_message d' = bp_message e \<and> genProof (Suc (Suc k)) spin bal prove e = Some (proof_round prove a d')"
    if "spin (bp_spin e) = bp_spin e" for e k
  proof (cases "spin (capped bal (bp_spin e)) = bp_spin e")
    case True
    show ?thesis
      by (rule exI [of _ "capped bal (bp_spin e)"], rule exI [of _ e]) (simp only: gen_stable [where d = e and bal = bal and spin = spin and prove = prove, OF cap(1) True] cap simp_thms)
  next
    case False
    then have c: "capped bal (bp_spin e) = bal" using cap(3) [of "bp_spin e"] that by auto
    let ?e = "e\<lparr>bp_amount := capped bal (bp_spin e), bp_spin := spin (capped bal (bp_spin e))\<rparr>"
    have "spin (capped bal (bp_spin ?e)) = bp_spin ?e"
      using cap(3) [of "spin bal"] by (auto simp: c idem)
    moreover have m: "bp_message ?e = bp_message e" by simp
    ultimately have "genProof (Suc (Suc k)) spin bal prove e = Some (proof_round prove (capped bal (bp_spin ?e)) ?e)"
      by (intro gen_again [where d = e and bal = bal and spin = spin and prove = prove, OF cap(1) False]
          gen_stable [where d = ?e and bal = bal and spin = spin and prove = prove, OF cap(1)])
    then show ?thesis using cap(1,2) m by blast
  qed
  show ?thesis
  proof (cases "spin (capped bal (bp_spin d)) = bp_spin d")
    case True
    show ?thesis
      by (rule exI [of _ "capped bal (bp_spin d)"], rule exI [of _ d])
        (simp only: numeral_3_eq_3 gen_stable [where d = d and bal = bal and spin = spin and prove = prove, OF cap(1) True] cap simp_thms)
  next
    case False
    let ?d = "d\<lparr>bp_amount := capped bal (bp_spin d), bp_spin := spin (capped bal (bp_spin d))\<rparr>"
    have "spin (bp_spin ?d) = bp_spin ?d" by (simp add: idem)
    from two [OF this, of 0] obtain a d' where
      r: "0 < a" "a \<le> bal" "bp_message d' = bp_message d" "genProof (Suc (Suc 0)) spin bal prove ?d = Some (proof_round prove a d')"
      by auto
    from gen_again [where d = d and bal = bal and spin = spin and prove = prove, OF cap(1) False r(4,3)] r show ?thesis
      unfolding numeral_3_eq_3 by blast
  qed
qed


lemma gen_without_balance:
  assumes "\<And>a m. prove a m = Inl e"
  shows "bp_spin d = 0 \<Longrightarrow> genProof (Suc k) spin 0 prove d = Some (Inr (d\<lparr>bp_amount := 0, bp_shown := []\<rparr>))"
    and "bp_spin d \<noteq> 0 \<Longrightarrow> \<forall>a. spin (spin a) = spin a \<Longrightarrow> genProof (Suc (Suc k)) spin 0 prove d = Some (Inl e)"
proof -
  show "bp_spin d = 0 \<Longrightarrow> genProof (Suc k) spin 0 prove d = Some (Inr (d\<lparr>bp_amount := 0, bp_shown := []\<rparr>))"
    by simp
  show "genProof (Suc (Suc k)) spin 0 prove d = Some (Inl e)" if "bp_spin d \<noteq> 0" "\<forall>a. spin (spin a) = spin a"
  proof (cases "spin (bp_spin d) = 0")
    case True
    then show ?thesis using that assms by (auto simp: Let_def word_gt_0)
  next
    case False
    then show ?thesis using that assms by (auto simp: Let_def word_gt_0)
  qed
qed

text \<open>What the worker answers, for a wallet with this balance.\<close>

lemma worker_proof:
  assumes "ww_wallet s = Some w" "ww_getActualBalance G s = Some bal" "ww_isTrackingWallet G s = Some tracking"
  shows "ww_getBalanceProof G a m s = Some
    (if tracking then Inl TrackingWallet else if bal = 0 then Inl ZeroBalance else if bal < a then Inl NotEnoughBalance
     else (case g_address G w 0 of Inl e \<Rightarrow> Inl (LibError e) | Inr b \<Rightarrow> lib_result (g_reserveProof G w a b m)))"
  using assms by (simp add: ww_getBalanceProof_def)

text \<open>
  C27. The balance proof dialog over the wallet worker, for any rounding of the
  spin box that is stable: making the proof always settles, although it enters
  itself again. With a balance and a full wallet the amount proved is between
  1 and the balance, so that the worker's balance checks never fail and what is
  shown is the library's proof for that amount. For a tracking wallet with a
  balance, and for any wallet whose balance has gone while an amount is
  entered, an exception leaves the slot; nothing in the program catches it.
\<close>

theorem balance_proof_dialog:
  assumes stable: "\<forall>a. spin (spin a) = spin a"
    and wallet: "ww_wallet s = Some w" "ww_getActualBalance G s = Some bal" "ww_isTrackingWallet G s = Some tracking"
  shows "\<exists>r. genProof 3 spin bal (\<lambda>a m. the (ww_getBalanceProof G a m s)) d = Some r \<and>
    (bal \<noteq> 0 \<and> \<not> tracking \<longrightarrow>
       (\<exists>a d'. 0 < a \<and> a \<le> bal \<and>
          r = (case g_address G w 0 of
                 Inl e \<Rightarrow> Inl (LibError e)
               | Inr b \<Rightarrow> (case g_reserveProof G w a b (bp_message d) of
                     Inl e \<Rightarrow> Inl (LibError e)
                   | Inr p \<Rightarrow> Inr (d'\<lparr>bp_message := bp_message d, bp_amount := a, bp_proof := p, bp_shown := p\<rparr>))))) \<and>
    (tracking \<and> bal \<noteq> 0 \<longrightarrow> r = Inl TrackingWallet) \<and>
    (bal = 0 \<and> bp_spin d = 0 \<longrightarrow> r = Inr (d\<lparr>bp_amount := 0, bp_shown := []\<rparr>)) \<and>
    (bal = 0 \<and> bp_spin d \<noteq> 0 \<longrightarrow> r = Inl (if tracking then TrackingWallet else ZeroBalance))"
proof (cases "bal = 0")
  case True
  have e: "the (ww_getBalanceProof G a m s) = Inl (if tracking then TrackingWallet else ZeroBalance)" for a m
    by (simp add: worker_proof [OF wallet] True)
  show ?thesis
    using gen_without_balance [of "\<lambda>a m. the (ww_getBalanceProof G a m s)", OF e, where d = d and spin = spin] stable True
    by (cases "bp_spin d = 0") (auto simp: numeral_3_eq_3)
next
  case False
  let ?p = "\<lambda>a m. the (ww_getBalanceProof G a m s)"
  obtain a d' where r: "0 < a" "a \<le> bal" "bp_message d' = bp_message d" "genProof 3 spin bal ?p d = Some (proof_round ?p a d')"
    using gen_settles [of spin bal d ?p] stable False by blast
  have p: "?p a m = (if tracking then Inl TrackingWallet
     else (case g_address G w 0 of Inl e \<Rightarrow> Inl (LibError e) | Inr b \<Rightarrow> lib_result (g_reserveProof G w a b m)))" for m
    using leD [OF r(2)] False by (simp add: worker_proof [OF wallet])
  have "proof_round ?p a d' = (case g_address G w 0 of
                 Inl e \<Rightarrow> Inl (LibError e)
               | Inr b \<Rightarrow> (case g_reserveProof G w a b (bp_message d) of
                     Inl e \<Rightarrow> Inl (LibError e)
                   | Inr p \<Rightarrow> Inr (d'\<lparr>bp_message := bp_message d, bp_amount := a, bp_proof := p, bp_shown := p\<rparr>)))" if "\<not> tracking"
    using that r(3) by (auto simp: proof_round_def p lib_result_def split: sum.split)
  moreover have "proof_round ?p a d' = Inl TrackingWallet" if tracking
    using that by (simp add: proof_round_def p)
  ultimately show ?thesis
    using r False by blast
qed


lemma balance_proof_dialog_witness:
  "\<exists>d'. genProof 3 (\<lambda>a. a) 10 (\<lambda>a m. the (ww_getBalanceProof (demo_green True) a m demo_open))
     \<lparr>bp_message = ''m'', bp_spin = 70, bp_amount = 0, bp_proof = [], bp_shown = []\<rparr> = Some (Inr d') \<and>
     0 < bp_amount d' \<and> bp_amount d' \<le> 10 \<and> bp_shown d' = ''p''"
proof -
  have b: "ww_getActualBalance (demo_green True) demo_open = Some 10" by code_simp
  have t: "ww_isTrackingWallet (demo_green True) demo_open = Some False" by code_simp
  from balance_proof_dialog [of "\<lambda>a. a", OF _ demo_open_simps(1) b t,
      where d = "\<lparr>bp_message = ''m'', bp_spin = 70, bp_amount = 0, bp_proof = [], bp_shown = []\<rparr>"]
  show ?thesis
    by (auto simp: demo_green_def simp del: genProof.simps)
qed

text \<open>A message signed in one tab is found valid in the other, if the wallet's own verification accepts its signatures.\<close>

lemma signed_message_verifies:
  assumes "signer (sg_message d) (sg_address d) = Inr sig" "sg_tab d = 0" "sg_message d \<noteq> []" "sig \<noteq> []"
    "trimmed (sg_address d) = sg_address d" "sg_address d \<noteq> []" "parse (sg_address d) = Some prefix"
    "verifier (sg_message d) (sg_address d) sig"
  shows "\<exists>d'. sg_messageChanged signer d = Inr d' \<and> sg_signature d' = sig \<and>
    sg_result (sg_verifyMessageSlot parse prefix verifier (sg_verify (d'\<lparr>sg_addressEdit := sg_address d,
      sg_verifyMessage := sg_message d, sg_verifySignature := sg_signature d'\<rparr>))) = SignatureValid"
  using assms by (simp add: sg_messageChanged_def sg_verifyMessageSlot_def sg_verify_def sg_changeTitle_def Let_def)

lemma tracking_wallet_signing_raises:
  assumes "ww_wallet s = Some w" "ww_isTrackingWallet G s = Some True" "sg_tab d = 0"
  shows "sg_messageChanged (\<lambda>m a. the (ww_signMessage G m a s)) d = Inl TrackingWallet"
  using assms by (simp add: sg_messageChanged_def ww_signMessage_def)


section \<open>The development donation\<close>

lemma own_address_trimmed: "trimmed DONATION_ADDRESS = DONATION_ADDRESS" "trimmed ''Development Fund'' = ''Development Fund''"
  by code_simp+

lemma add_changeObject: "changeObject (addAddress c l a p d b) = changeObject b"
  by (simp add: addAddress_def Let_def)

text \<open>
  The donation that every opening of a wallet sets up: when the development
  address is not in the book, the donation is switched on and points to it
  whatever was set before; its entry is appended unless another contact has its
  label, and then every later opening does the same again. The amount 1 that
  is asked for is read as 10 when no amount was stored before.
\<close>

lemma dev_donation:
  fixes b :: ab_state and c :: codec
  assumes "findAddressByAddress b DONATION_ADDRESS = INVALID_ADDRESS_INDEX"
  defines "b' \<equiv> setDevDonation c b"
  shows "isDonationChangeEnabled b'" "getDonationChangeAddress b' = DONATION_ADDRESS"
    "getDonationChangeAmount b' =
       (if json_toInt 1 (jvalue (changeObject b) T_CHANGE_AMOUNT) \<noteq> json_toInt 10 (jvalue (changeObject b) T_CHANGE_AMOUNT)
        then 10 else 1)"
    "addressArray b' = addressArray b @
       (if findAddressByLabel b ''Development Fund'' = INVALID_ADDRESS_INDEX
        then [put_item Map.empty ''Development Fund'' DONATION_ADDRESS [] True] else [])"
    "findAddressByLabel b ''Development Fund'' \<noteq> INVALID_ADDRESS_INDEX \<Longrightarrow>
       findAddressByAddress b' DONATION_ADDRESS = INVALID_ADDRESS_INDEX"
proof -
  let ?b1 = "addAddress c ''Development Fund'' DONATION_ADDRESS [] True b"
  let ?b3 = "setDonationChangeEnabled c True (setDonationChangeAddress c DONATION_ADDRESS ?b1)"
  have b': "b' = setDonationChangeAmount c 1 ?b3"
    by (simp add: b'_def setDevDonation_def assms(1))
  have am: "isDonationChangeEnabled (setDonationChangeAmount c n x) = isDonationChangeEnabled x"
    "getDonationChangeAddress (setDonationChangeAmount c n x) = getDonationChangeAddress x" for n x
    by (simp_all add: isDonationChangeEnabled_def getDonationChangeAddress_def setDonationChangeAmount_def)
  show "isDonationChangeEnabled b'"
    by (simp add: b' am) (simp add: isDonationChangeEnabled_def changeObject_enabled)
  show "getDonationChangeAddress b' = DONATION_ADDRESS"
    by (simp add: b' am) (simp add: getDonationChangeAddress_def changeObject_enabled changeObject_address)
  have v: "jvalue (changeObject ?b3) T_CHANGE_AMOUNT = jvalue (changeObject b) T_CHANGE_AMOUNT"
    by (simp add: changeObject_enabled changeObject_address add_changeObject)
  show "getDonationChangeAmount b' =
       (if json_toInt 1 (jvalue (changeObject b) T_CHANGE_AMOUNT) \<noteq> json_toInt 10 (jvalue (changeObject b) T_CHANGE_AMOUNT)
        then 10 else 1)"
    unfolding b' by (subst donation_amount_roundtrip) (simp_all add: int_range_def v del: json_toInt.simps)
  show "addressArray b' = addressArray b @
       (if findAddressByLabel b ''Development Fund'' = INVALID_ADDRESS_INDEX
        then [put_item Map.empty ''Development Fund'' DONATION_ADDRESS [] True] else [])"
    by (simp add: b' addAddress_def Let_def own_address_trimmed assms(1))
  show "findAddressByAddress b' DONATION_ADDRESS = INVALID_ADDRESS_INDEX"
    if "findAddressByLabel b ''Development Fund'' \<noteq> INVALID_ADDRESS_INDEX"
    using that assms(1) by (simp add: b' findAddressByAddress_def addAddress_def own_address_trimmed)
qed

end
