(* ===== verification/NodeWorkers.thy ===== *)
theory NodeWorkers
  imports AppSettings
begin

text \<open>
  The node behind the wallet: the embedded node that runs in a thread of its own
  (src/src/CryptoNoteWrapper/InProcessNodeWorker.cpp), the connection to a
  daemon (ProxyRpcNodeWorker.cpp), and the adapter in the GUI thread that owns
  one of them with its thread (CommonNodeAdapter.cpp).

  The library's node, core and server are parameters: what each call answers or
  throws. Embedded start and stop are steps of two threads: the worker runs
  initImpl one stage at a time, the GUI thread starts it, asks it to stop and
  waits for the thread. Signals of the worker are queued for the adapter while
  it is connected.

  Lemmas: every start ends in exactly one completion, with the status of the
  stage that failed, and leaves either a whole node or none; stopping ends
  the thread when the server was there to be told, and waits for ever otherwise.
\<close>

section \<open>The embedded node\<close>

datatype node_status = NI_SUCCESS | NI_TIMEOUT | NI_DB_FAILED | NI_DB_IN_USAGE | NI_CORE_FAILED |
  NI_NET_NODE_FAILED | NI_P2P_BIND_FAILED | NI_NODE_FAILED

primrec status_code :: "node_status \<Rightarrow> int" where
  "status_code NI_SUCCESS = 0"
| "status_code NI_TIMEOUT = 1"
| "status_code NI_DB_FAILED = 2"
| "status_code NI_DB_IN_USAGE = 3"
| "status_code NI_CORE_FAILED = 4"
| "status_code NI_NET_NODE_FAILED = 5"
| "status_code NI_P2P_BIND_FAILED = 6"
| "status_code NI_NODE_FAILED = 7"

datatype node_signal = NodeInitCompleted node_status | NodeDeinitCompleted | PeerCountUpdated nat |
  LocalBlockchainUpdated nat | LastKnownBlockHeightUpdated nat | ConnectionStatusUpdated bool

datatype ip_phase = Idle | Queued | InCore | InServer | WaitingNode | Serving | Finished

datatype part = CorePart | ServerPart | NodePart

text \<open>
  The members of the worker, as present or not; the parts of the library that
  are initialised; those that were destroyed while initialised; the phase of
  the thread, the stop request that the server holds, and the signals emitted.
\<close>

record ip_state =
  ip_dispatcher :: bool
  ip_core :: bool
  ip_protocol :: bool
  ip_server :: bool
  ip_node :: bool
  ip_explorer :: bool
  ip_checkpoints :: bool
  ip_up :: "part set"
  ip_lost :: "part set"
  ip_observing :: bool
  ip_phase :: ip_phase
  ip_stop :: bool
  ip_out :: "node_signal list"

definition ip_new :: ip_state where
  "ip_new = \<lparr>ip_dispatcher = False, ip_core = False, ip_protocol = False, ip_server = False, ip_node = False,
     ip_explorer = False, ip_checkpoints = False, ip_up = {}, ip_lost = {}, ip_observing = False, ip_phase = Idle,
     ip_stop = False, ip_out = []\<rparr>"

definition ip_emit :: "node_signal \<Rightarrow> ip_state \<Rightarrow> ip_state" where
  "ip_emit g s = s\<lparr>ip_out := ip_out s @ [g]\<rparr>"

text \<open>
  What the library answers. Building the core throws at a stage (the dispatcher,
  the checkpoints, the core, the protocol handler, the initialisation of the
  core, the server, the node), a runtime error or another exception.
\<close>

datatype stage = AtDispatcher | AtCheckpoints | AtCore | AtProtocol | AtInit | AtServer | AtNode

datatype core_answer = CoreReady | CoreThrows stage bool

datatype server_answer = ServerInit bool | ServerThrows bool

text \<open>The result of the node's init (None: its wait is ended by the thread's quit) and whether addObserver throws.\<close>

datatype node_answer = NodeAnswer "int option" bool

primrec stage_no :: "stage \<Rightarrow> nat" where
  "stage_no AtDispatcher = 0"
| "stage_no AtCheckpoints = 1"
| "stage_no AtCore = 2"
| "stage_no AtProtocol = 3"
| "stage_no AtInit = 4"
| "stage_no AtServer = 5"
| "stage_no AtNode = 6"

text \<open>The members after the first k stages of initCore.\<close>

definition core_built :: "bool \<Rightarrow> nat \<Rightarrow> ip_state \<Rightarrow> ip_state" where
  "core_built testnet k s =
     s\<lparr>ip_dispatcher := ip_dispatcher s \<or> k > 0, ip_core := k > 2, ip_protocol := ip_protocol s \<or> k > 3,
       ip_checkpoints := k > 3 \<and> \<not> testnet, ip_up := ip_up s \<union> (if k > 4 then {CorePart} else {}),
       ip_server := ip_server s \<or> k > 5, ip_node := ip_node s \<or> k > 6\<rparr>"

text \<open>None is a failed assertion or an exception that nothing catches.\<close>

definition ip_initCore :: "bool \<Rightarrow> core_answer \<Rightarrow> ip_state \<Rightarrow> (ip_state \<times> node_status) option" where
  "ip_initCore testnet ca s =
     (if ip_core s then None
      else case ca of
        CoreThrows k runtime \<Rightarrow> if runtime then Some (core_built testnet (stage_no k) s, NI_CORE_FAILED) else None
      | CoreReady \<Rightarrow> Some (core_built testnet 7 s, NI_SUCCESS))"

definition ip_initNodeServer :: "server_answer \<Rightarrow> ip_state \<Rightarrow> (ip_state \<times> node_status) option" where
  "ip_initNodeServer sa s =
     (case sa of
        ServerThrows runtime \<Rightarrow> if runtime then Some (s, NI_P2P_BIND_FAILED) else None
      | ServerInit good \<Rightarrow> if good then Some (s\<lparr>ip_up := insert ServerPart (ip_up s)\<rparr>, NI_SUCCESS) else Some (s, NI_NET_NODE_FAILED))"

text \<open>An ended wait leaves the result at its default, no error.\<close>

definition ip_initInProcessNode :: "node_answer \<Rightarrow> ip_state \<Rightarrow> ip_state \<times> node_status" where
  "ip_initInProcessNode na s =
     (case na of NodeAnswer result throws \<Rightarrow>
        if (case result of Some ec \<Rightarrow> ec \<noteq> 0 | None \<Rightarrow> False) then (s, NI_NODE_FAILED)
        else
          let s1 = s\<lparr>ip_up := insert NodePart (ip_up s)\<rparr> in
          if throws then (s1\<lparr>ip_up := ip_up s1 - {NodePart}\<rparr>, NI_NODE_FAILED)
          else (s1\<lparr>ip_observing := True\<rparr>, NI_SUCCESS))"

text \<open>The guard of initImpl: what is destroyed while initialised is lost.\<close>

definition ip_reset :: "ip_state \<Rightarrow> ip_state" where
  "ip_reset s = s\<lparr>ip_node := False, ip_server := False, ip_protocol := False, ip_core := False, ip_dispatcher := False,
     ip_lost := ip_lost s \<union> ip_up s, ip_up := {}, ip_stop := False, ip_observing := False, ip_phase := Finished\<rparr>"

definition ip_fail :: "node_status \<Rightarrow> ip_state \<Rightarrow> ip_state" where
  "ip_fail st s = ip_reset (ip_emit (NodeInitCompleted st) s)"

text \<open>The stages of initImpl.\<close>

definition ip_core_stage :: "bool \<Rightarrow> core_answer \<Rightarrow> ip_state \<Rightarrow> ip_state option" where
  "ip_core_stage testnet ca s =
     (case ip_initCore testnet ca s of
        None \<Rightarrow> None
      | Some (t, st) \<Rightarrow> Some (if st \<noteq> NI_SUCCESS then ip_fail st t else t\<lparr>ip_phase := InServer\<rparr>))"

definition ip_server_stage :: "server_answer \<Rightarrow> ip_state \<Rightarrow> ip_state option" where
  "ip_server_stage sa s =
     (case ip_initNodeServer sa s of
        None \<Rightarrow> None
      | Some (t, st) \<Rightarrow> Some (if st \<noteq> NI_SUCCESS then ip_fail st t else t\<lparr>ip_phase := WaitingNode\<rparr>))"

definition ip_node_stage :: "cfg \<Rightarrow> node_answer \<Rightarrow> ip_state \<Rightarrow> ip_state" where
  "ip_node_stage cf na s =
     (case ip_initInProcessNode na s of (t, st) \<Rightarrow>
        if st \<noteq> NI_SUCCESS then ip_fail st (t\<lparr>ip_up := ip_up t - {ServerPart}\<rparr>)
        else
          (ip_emit (NodeInitCompleted NI_SUCCESS)
             (if isBlockchainExplorerEnabled cf then t\<lparr>ip_explorer := True\<rparr> else t))\<lparr>ip_phase := Serving\<rparr>)"

text \<open>What follows the server's run, which returns once it was told to stop.\<close>

definition ip_run_ended :: "ip_state \<Rightarrow> ip_state" where
  "ip_run_ended s =
     ip_reset (ip_emit NodeDeinitCompleted
       (s\<lparr>ip_observing := False, ip_up := ip_up s - {ServerPart, CorePart, NodePart}\<rparr>))"

text \<open>initImpl on its own: all stages one after the other; the last flag says whether the server's run returned.\<close>

definition ip_initImpl ::
  "cfg \<Rightarrow> bool \<Rightarrow> core_answer \<Rightarrow> server_answer \<Rightarrow> node_answer \<Rightarrow> bool \<Rightarrow> ip_state \<Rightarrow> ip_state option" where
  "ip_initImpl cf testnet ca sa na ends s =
     (case ip_core_stage testnet ca s of
        None \<Rightarrow> None
      | Some s1 \<Rightarrow>
          if ip_phase s1 \<noteq> InServer then Some s1
          else case ip_server_stage sa s1 of
            None \<Rightarrow> None
          | Some s2 \<Rightarrow>
              if ip_phase s2 \<noteq> WaitingNode then Some s2
              else
                let s3 = ip_node_stage cf na s2 in
                if ip_phase s3 = Serving \<and> ends then Some (ip_run_ended s3) else Some s3)"

definition ip_deinitImpl :: "ip_state \<Rightarrow> ip_state" where
  "ip_deinitImpl s = (if ip_server s then s\<lparr>ip_stop := True\<rparr> else s)"


section \<open>Questions to the node\<close>

text \<open>What the library's node answers; None is an exception. The block header is of any type.\<close>

record 'b lib_node =
  ln_version :: string
  ln_peers :: "nat option"
  ln_known :: "u32 option"
  ln_local :: "u32 option"
  ln_lastBlock :: "'b option"
  ln_minimalFee :: "u64 option"
  ln_fee :: u64
  ln_feeAddress :: string
  ln_numberOf :: "string \<Rightarrow> int \<times> string"
  ln_addressOf :: "string \<Rightarrow> int \<times> string"

text \<open>None is a failed assertion: there is no node.\<close>

definition asked :: "bool \<Rightarrow> 'a \<Rightarrow> 'a option" where
  "asked present a = (if present then Some a else None)"

definition ip_getNodeVersion :: "'b lib_node \<Rightarrow> ip_state \<Rightarrow> string option" where
  "ip_getNodeVersion N s = asked (ip_node s) (ln_version N)"

definition ip_getPeerCount :: "'b lib_node \<Rightarrow> ip_state \<Rightarrow> nat option" where
  "ip_getPeerCount N s = asked (ip_node s) (case ln_peers N of Some n \<Rightarrow> n | None \<Rightarrow> 0)"

definition ip_getKnownBlockCount :: "'b lib_node \<Rightarrow> ip_state \<Rightarrow> u32 option" where
  "ip_getKnownBlockCount N s = asked (ip_node s) (case ln_known N of Some n \<Rightarrow> n | None \<Rightarrow> 0)"

definition ip_getLocalBlockCount :: "'b lib_node \<Rightarrow> ip_state \<Rightarrow> u32 option" where
  "ip_getLocalBlockCount N s = asked (ip_node s) (case ln_local N of Some n \<Rightarrow> n | None \<Rightarrow> 0)"

definition ip_getLastLocalBlockInfo :: "'b \<Rightarrow> 'b lib_node \<Rightarrow> ip_state \<Rightarrow> 'b option" where
  "ip_getLastLocalBlockInfo blank N s = asked (ip_node s) (case ln_lastBlock N of Some b \<Rightarrow> b | None \<Rightarrow> blank)"

definition ip_getNodeHost :: "ip_state \<Rightarrow> string option" where
  "ip_getNodeHost s = asked (ip_node s) []"

definition ip_getNodePort :: "ip_state \<Rightarrow> 16 word option" where
  "ip_getNodePort s = asked (ip_node s) 0"

definition ip_getMinimalFee :: "u64 \<Rightarrow> 'b lib_node \<Rightarrow> ip_state \<Rightarrow> u64 option" where
  "ip_getMinimalFee currencyFee N s = asked (ip_node s) (case ln_minimalFee N of Some n \<Rightarrow> n | None \<Rightarrow> currencyFee)"

definition ip_getNodeFee :: "'b lib_node \<Rightarrow> ip_state \<Rightarrow> u64 option" where
  "ip_getNodeFee N s = asked (ip_node s) (ln_fee N)"

definition ip_getNodeFeeAddress :: "'b lib_node \<Rightarrow> ip_state \<Rightarrow> string option" where
  "ip_getNodeFeeAddress N s = asked (ip_node s) (ln_feeAddress N)"

definition ip_getBlockChainExplorerAdapter :: "ip_state \<Rightarrow> bool option" where
  "ip_getBlockChainExplorerAdapter s = asked (ip_node s) (ip_explorer s)"

definition ip_getWalletAdapter :: "ip_state \<Rightarrow> unit option" where
  "ip_getWalletAdapter s = asked (ip_node s) ()"

text \<open>What reaches the callback of a lookup: the error and the text, empty with an error.\<close>

definition OPERATION_CANCELED :: int where "OPERATION_CANCELED = 125"

definition lookup_answer :: "bool \<Rightarrow> int \<times> string \<Rightarrow> int \<times> string" where
  "lookup_answer present a =
     (if \<not> present then (OPERATION_CANCELED, []) else (fst a, if fst a \<noteq> 0 then [] else snd a))"

definition ip_getAccountNumber :: "'b lib_node \<Rightarrow> string \<Rightarrow> ip_state \<Rightarrow> int \<times> string" where
  "ip_getAccountNumber N address s = lookup_answer (ip_node s) (ln_numberOf N address)"

definition ip_resolveAccountNumber :: "'b lib_node \<Rightarrow> string \<Rightarrow> ip_state \<Rightarrow> int \<times> string" where
  "ip_resolveAccountNumber N number s = lookup_answer (ip_node s) (ln_addressOf N number)"

text \<open>Events of the node, as the node's observer passes them on.\<close>

datatype node_event = NodePeers nat | NodeLocalHeight nat | NodeKnownHeight nat

definition ip_event :: "node_event \<Rightarrow> ip_state \<Rightarrow> ip_state option" where
  "ip_event e s = (case e of
       NodePeers n \<Rightarrow> Some (ip_emit (PeerCountUpdated n) s)
     | NodeLocalHeight h \<Rightarrow> if ip_node s then Some (ip_emit (LocalBlockchainUpdated h) s) else None
     | NodeKnownHeight h \<Rightarrow> Some (ip_emit (LastKnownBlockHeightUpdated h) s))"


section \<open>Options of the embedded node\<close>

datatype node_option = OText string | OPort "16 word" | OFlag bool | OTexts "string list"

definition list_option :: "string \<Rightarrow> string list \<Rightarrow> (string \<times> node_option) list" where
  "list_option name xs = (if xs = [] then [] else [(name, OTexts xs)])"

text \<open>The options and whether the node is a test node; the data directory is its path in the local encoding.\<close>

definition makeNetNodeConfig :: "string \<Rightarrow> command_line \<Rightarrow> cfg \<Rightarrow> (string \<times> node_option) list \<times> bool" where
  "makeNetNodeConfig dataDir cl cf =
     ([(''p2p-bind-ip'', OText (cl_getP2pBindIp cl)), (''p2p-bind-port'', OPort (getP2pBindPort cl cf)),
       (''p2p-external-port'', OPort (cl_getP2pExternalPort cl)), (''allow-local-ip'', OFlag (hasAllowLocalIpOption cl))] @
      list_option ''add-peer'' (getPeers cl) @ list_option ''add-priority-node'' (getPriorityNodes cl) @
      list_option ''add-exclusive-node'' (getExclusiveNodes cl) @ list_option ''seed-node'' (getSeedNodes cl) @
      [(''hide-my-port'', OFlag (hasHideMyPortOption cl)), (''data-dir'', OText dataDir)],
      hasTestnetOption cl)"

definition makeCoreConfig :: "string \<Rightarrow> (string \<times> node_option) list" where
  "makeCoreConfig dataDir = [(''data-dir'', OText dataDir)]"


section \<open>Observers\<close>

text \<open>The connections of an object: observer and kind of signal, one for each connect.\<close>

datatype signal_kind = KInit | KDeinit | KPeers | KLocal | KKnown | KStatus

primrec kind_of :: "node_signal \<Rightarrow> signal_kind" where
  "kind_of (NodeInitCompleted st) = KInit"
| "kind_of NodeDeinitCompleted = KDeinit"
| "kind_of (PeerCountUpdated n) = KPeers"
| "kind_of (LocalBlockchainUpdated h) = KLocal"
| "kind_of (LastKnownBlockHeightUpdated h) = KKnown"
| "kind_of (ConnectionStatusUpdated b) = KStatus"

type_synonym connections = "(nat \<times> signal_kind) list"

definition embedded_kinds :: "signal_kind list" where
  "embedded_kinds = [KInit, KDeinit, KPeers, KLocal, KKnown]"

definition all_kinds :: "signal_kind list" where
  "all_kinds = [KInit, KDeinit, KPeers, KLocal, KKnown, KStatus]"

definition add_connections :: "signal_kind list \<Rightarrow> nat \<Rightarrow> connections \<Rightarrow> connections" where
  "add_connections ks ob cs = cs @ map (Pair ob) ks"

definition remove_connections :: "nat \<Rightarrow> connections \<Rightarrow> connections" where
  "remove_connections ob cs = filter (\<lambda>c. fst c \<noteq> ob) cs"

text \<open>The observers a signal reaches, in the order of their connections.\<close>

definition receivers :: "node_signal \<Rightarrow> connections \<Rightarrow> nat list" where
  "receivers g cs = map fst (filter (\<lambda>c. snd c = kind_of g) cs)"

definition ip_addObserver where "ip_addObserver = add_connections embedded_kinds"

definition ip_removeObserver where "ip_removeObserver = remove_connections"

definition cn_addObserver where "cn_addObserver = add_connections all_kinds"

definition cn_removeObserver where "cn_removeObserver = remove_connections"

lemma removed_hears_nothing: "ob \<notin> set (receivers g (remove_connections ob cs))"
  by (auto simp: receivers_def remove_connections_def)

lemma removing_keeps_others: "ob \<noteq> ob' \<Longrightarrow>
    count_list (receivers g (remove_connections ob cs)) ob' = count_list (receivers g cs) ob'"
  by (induction cs) (auto simp: receivers_def remove_connections_def)

text \<open>An observer added twice hears every signal twice.\<close>

lemma count_distinct: "distinct ks \<Longrightarrow> count_list ks k = (if k \<in> set ks then 1 else 0)"
  by (induction ks) auto

lemma added_hears_once_more:
  assumes "kind_of g \<in> set ks" "distinct ks"
  shows "count_list (receivers g (add_connections ks ob cs)) ob = Suc (count_list (receivers g cs) ob)"
proof -
  have "count_list (map fst (filter (\<lambda>c. snd c = k) (map (Pair ob) ks))) ob = count_list ks k" for k
    by (induction ks) auto
  then show ?thesis
    using assms by (simp add: receivers_def add_connections_def count_distinct)
qed


section \<open>The connection to a daemon\<close>

record pr_state =
  pr_node :: bool
  pr_explorer :: bool
  pr_observing :: nat
  pr_out :: "node_signal list"

definition pr_new :: pr_state where
  "pr_new = \<lparr>pr_node = False, pr_explorer = False, pr_observing = 0, pr_out = []\<rparr>"

definition pr_emit :: "node_signal \<Rightarrow> pr_state \<Rightarrow> pr_state" where
  "pr_emit g s = s\<lparr>pr_out := pr_out s @ [g]\<rparr>"

definition pr_initImpl :: "pr_state \<Rightarrow> pr_state option" where
  "pr_initImpl s = (if pr_node s then None else Some (s\<lparr>pr_node := True, pr_observing := 2\<rparr>))"

text \<open>The callback of the node's init: an error is an assertion and nothing else.\<close>

definition pr_initialized :: "cfg \<Rightarrow> int \<Rightarrow> pr_state \<Rightarrow> pr_state option" where
  "pr_initialized cf ec s =
     (if ec \<noteq> 0 then None
      else Some (pr_emit (NodeInitCompleted NI_SUCCESS)
        (if \<not> pr_explorer s \<and> isBlockchainExplorerEnabled cf \<and> pr_node s then s\<lparr>pr_explorer := True\<rparr> else s)))"

definition pr_deinitImpl :: "pr_state \<Rightarrow> pr_state option" where
  "pr_deinitImpl s =
     (if \<not> pr_node s then None else Some (pr_emit NodeDeinitCompleted (s\<lparr>pr_observing := 0, pr_node := False\<rparr>)))"

text \<open>deinit waits for the queued deinitImpl, which follows an initImpl still queued.\<close>

definition pr_deinit :: "bool \<Rightarrow> pr_state \<Rightarrow> pr_state option" where
  "pr_deinit queued s =
     (case (if queued then pr_initImpl s else Some s) of None \<Rightarrow> None | Some t \<Rightarrow> pr_deinitImpl t)"

definition pr_getNodeVersion :: "'b lib_node \<Rightarrow> pr_state \<Rightarrow> string option" where
  "pr_getNodeVersion N s = asked (pr_node s) (ln_version N)"

text \<open>An exception of the node leaves these getters.\<close>

definition pr_getPeerCount :: "'b lib_node \<Rightarrow> pr_state \<Rightarrow> nat option" where
  "pr_getPeerCount N s = Option.bind (asked (pr_node s) (ln_peers N)) id"

definition pr_getKnownBlockCount :: "'b lib_node \<Rightarrow> pr_state \<Rightarrow> u32 option" where
  "pr_getKnownBlockCount N s = Option.bind (asked (pr_node s) (ln_known N)) id"

definition pr_getLocalBlockCount :: "'b lib_node \<Rightarrow> pr_state \<Rightarrow> u32 option" where
  "pr_getLocalBlockCount N s = Option.bind (asked (pr_node s) (ln_local N)) id"

definition pr_getLastLocalBlockInfo :: "'b lib_node \<Rightarrow> pr_state \<Rightarrow> 'b option" where
  "pr_getLastLocalBlockInfo N s = Option.bind (asked (pr_node s) (ln_lastBlock N)) id"

definition pr_getNodeHost :: "(string \<times> 16 word) \<Rightarrow> pr_state \<Rightarrow> string option" where
  "pr_getNodeHost url s = asked (pr_node s) (fst url)"

definition pr_getNodePort :: "(string \<times> 16 word) \<Rightarrow> pr_state \<Rightarrow> 16 word option" where
  "pr_getNodePort url s = asked (pr_node s) (snd url)"

definition pr_getMinimalFee :: "'b lib_node \<Rightarrow> pr_state \<Rightarrow> u64 option" where
  "pr_getMinimalFee N s = Option.bind (asked (pr_node s) (ln_minimalFee N)) id"

definition pr_getNodeFee :: "'b lib_node \<Rightarrow> pr_state \<Rightarrow> u64 option" where
  "pr_getNodeFee N s = asked (pr_node s) (ln_fee N)"

definition pr_getNodeFeeAddress :: "'b lib_node \<Rightarrow> pr_state \<Rightarrow> string option" where
  "pr_getNodeFeeAddress N s = asked (pr_node s) (ln_feeAddress N)"

definition pr_getBlockChainExplorerAdapter :: "pr_state \<Rightarrow> bool option" where
  "pr_getBlockChainExplorerAdapter s = asked (pr_node s) (pr_explorer s)"

definition pr_getWalletAdapter :: "pr_state \<Rightarrow> unit option" where
  "pr_getWalletAdapter s = asked (pr_node s) ()"

definition pr_getAccountNumber :: "'b lib_node \<Rightarrow> string \<Rightarrow> pr_state \<Rightarrow> int \<times> string" where
  "pr_getAccountNumber N address s = lookup_answer (pr_node s) (ln_numberOf N address)"

definition pr_resolveAccountNumber :: "'b lib_node \<Rightarrow> string \<Rightarrow> pr_state \<Rightarrow> int \<times> string" where
  "pr_resolveAccountNumber N number s = lookup_answer (pr_node s) (ln_addressOf N number)"

datatype daemon_event = DaemonPeers nat | DaemonLocalHeight nat | DaemonKnownHeight nat | DaemonStatus bool

definition pr_event :: "daemon_event \<Rightarrow> pr_state \<Rightarrow> pr_state option" where
  "pr_event e s = (case e of
       DaemonPeers n \<Rightarrow> Some (pr_emit (PeerCountUpdated n) s)
     | DaemonLocalHeight h \<Rightarrow> if pr_node s then Some (pr_emit (LocalBlockchainUpdated h) s) else None
     | DaemonKnownHeight h \<Rightarrow> Some (pr_emit (LastKnownBlockHeightUpdated h) s)
     | DaemonStatus b \<Rightarrow> Some (pr_emit (ConnectionStatusUpdated b) s))"

definition pr_addObserver where "pr_addObserver = add_connections all_kinds"

definition pr_removeObserver where "pr_removeObserver = remove_connections"

text \<open>Stopping a proxy always comes back once it was started, with nothing left of it.\<close>

lemma proxy_stops: "queued \<longleftrightarrow> \<not> pr_node s \<Longrightarrow> \<exists>t. pr_deinit queued s = Some t \<and> \<not> pr_node t \<and> pr_observing t = 0"
  by (auto simp: pr_deinit_def pr_initImpl_def pr_deinitImpl_def pr_emit_def)


section \<open>The adapter and the threads\<close>

text \<open>CommonNodeAdapter over a worker: its thread, and the adapters it has handed out.\<close>

record 'w cn_state =
  cn_worker :: "'w option"
  cn_thread :: bool
  cn_wallet :: bool
  cn_explorer :: bool

definition cn_new :: "'w cn_state" where
  "cn_new = \<lparr>cn_worker = None, cn_thread = False, cn_wallet = False, cn_explorer = False\<rparr>"

definition cn_init :: "'w \<Rightarrow> 'w cn_state \<Rightarrow> 'w cn_state option" where
  "cn_init w s = (if cn_worker s \<noteq> None then None else Some (s\<lparr>cn_worker := Some w, cn_thread := True\<rparr>))"

definition cn_query :: "('w \<Rightarrow> 'a option) \<Rightarrow> 'w cn_state \<Rightarrow> 'a option" where
  "cn_query g s = Option.bind (cn_worker s) g"

definition cn_getBlockChainExplorerAdapter ::
  "('w \<Rightarrow> bool option) \<Rightarrow> 'w cn_state \<Rightarrow> ('w cn_state \<times> bool) option" where
  "cn_getBlockChainExplorerAdapter g s =
     (case cn_worker s of None \<Rightarrow> None
      | Some w \<Rightarrow>
          if cn_explorer s then Some (s, True)
          else case g w of None \<Rightarrow> None
            | Some there \<Rightarrow> if there then Some (s\<lparr>cn_explorer := True\<rparr>, True) else Some (s, False))"

definition cn_getWalletAdapter :: "('w \<Rightarrow> unit option) \<Rightarrow> 'w cn_state \<Rightarrow> 'w cn_state option" where
  "cn_getWalletAdapter g s =
     (case cn_worker s of None \<Rightarrow> None
      | Some w \<Rightarrow> if cn_wallet s then Some s else map_option (\<lambda>_. s\<lparr>cn_wallet := True\<rparr>) (g w))"

text \<open>The end of deinit, once the thread has ended.\<close>

definition cn_release :: "'w cn_state \<Rightarrow> 'w cn_state" where
  "cn_release s = s\<lparr>cn_worker := None, cn_wallet := False, cn_explorer := False\<rparr>"

definition ip_init :: "ip_state \<Rightarrow> ip_state" where
  "ip_init w = w\<lparr>ip_phase := Queued\<rparr>"

text \<open>
  The embedded node with both threads: the adapter, whether it is connected to
  the worker's signals, the signals posted to it, and whether the GUI thread
  waits in deinit (it has then asked the thread to quit).
\<close>

record node_run =
  nr_cn :: "ip_state cn_state"
  nr_connected :: bool
  nr_posted :: "node_signal list"
  nr_waiting :: bool

definition nr_new :: node_run where
  "nr_new = \<lparr>nr_cn = cn_new, nr_connected = False, nr_posted = [], nr_waiting = False\<rparr>"

definition nr_start_up :: "node_run \<Rightarrow> node_run option" where
  "nr_start_up s =
     map_option (\<lambda>c. s\<lparr>nr_cn := c, nr_connected := True\<rparr>) (cn_init (ip_init ip_new) (nr_cn s))"

definition nr_deinit_begins :: "node_run \<Rightarrow> node_run option" where
  "nr_deinit_begins s =
     map_option (\<lambda>w. s\<lparr>nr_cn := (nr_cn s)\<lparr>cn_worker := Some (ip_deinitImpl w)\<rparr>, nr_connected := False, nr_waiting := True\<rparr>)
       (cn_worker (nr_cn s))"

definition nr_deinit_ends :: "node_run \<Rightarrow> node_run" where
  "nr_deinit_ends s = s\<lparr>nr_cn := cn_release (nr_cn s), nr_waiting := False\<rparr>"

text \<open>The worker goes from w to w2; what it emitted is posted while the adapter is connected.\<close>

definition nr_put :: "ip_state \<Rightarrow> ip_state \<Rightarrow> node_run \<Rightarrow> node_run" where
  "nr_put w w2 s =
     s\<lparr>nr_cn := (nr_cn s)\<lparr>cn_worker := Some w2\<rparr>,
       nr_posted := nr_posted s @ (if nr_connected s then drop (length (ip_out w)) (ip_out w2) else [])\<rparr>"

text \<open>
  A thread that is asked to quit ends between two events, before initImpl or
  after it, and leaves the nested loop of the node's init.
\<close>

inductive nr_wstep :: "cfg \<Rightarrow> bool \<Rightarrow> node_run \<Rightarrow> node_run \<Rightarrow> bool" for cf testnet where
  w_begin: "cn_worker (nr_cn s) = Some w \<Longrightarrow> ip_phase w = Queued \<Longrightarrow> cn_thread (nr_cn s) \<Longrightarrow>
    nr_wstep cf testnet s (nr_put w (w\<lparr>ip_phase := InCore\<rparr>) s)"
| w_core: "cn_worker (nr_cn s) = Some w \<Longrightarrow> ip_phase w = InCore \<Longrightarrow> ip_core_stage testnet ca w = Some w2 \<Longrightarrow>
    nr_wstep cf testnet s (nr_put w w2 s)"
| w_server: "cn_worker (nr_cn s) = Some w \<Longrightarrow> ip_phase w = InServer \<Longrightarrow> ip_server_stage sa w = Some w2 \<Longrightarrow>
    nr_wstep cf testnet s (nr_put w w2 s)"
| w_node: "cn_worker (nr_cn s) = Some w \<Longrightarrow> ip_phase w = WaitingNode \<Longrightarrow> na = NodeAnswer r b \<Longrightarrow> r = None \<longrightarrow> nr_waiting s \<Longrightarrow>
    nr_wstep cf testnet s (nr_put w (ip_node_stage cf na w) s)"
| w_event: "cn_worker (nr_cn s) = Some w \<Longrightarrow> ip_phase w = Serving \<Longrightarrow> ip_event e w = Some w2 \<Longrightarrow>
    nr_wstep cf testnet s (nr_put w w2 s)"
| w_run_ended: "cn_worker (nr_cn s) = Some w \<Longrightarrow> ip_phase w = Serving \<Longrightarrow> ip_stop w \<Longrightarrow>
    nr_wstep cf testnet s (nr_put w (ip_run_ended w) s)"
| w_exit: "cn_worker (nr_cn s) = Some w \<Longrightarrow> ip_phase w \<in> {Queued, Finished} \<Longrightarrow> nr_waiting s \<Longrightarrow>
    nr_wstep cf testnet s (s\<lparr>nr_cn := (nr_cn s)\<lparr>cn_thread := False\<rparr>\<rparr>)"

inductive nr_step :: "cfg \<Rightarrow> bool \<Rightarrow> node_run \<Rightarrow> node_run \<Rightarrow> bool" for cf testnet where
  by_worker: "nr_wstep cf testnet s t \<Longrightarrow> nr_step cf testnet s t"
| by_start: "\<not> nr_waiting s \<Longrightarrow> nr_start_up s = Some t \<Longrightarrow> nr_step cf testnet s t"
| by_deinit: "\<not> nr_waiting s \<Longrightarrow> nr_deinit_begins s = Some t \<Longrightarrow> nr_step cf testnet s t"
| by_release: "nr_waiting s \<Longrightarrow> \<not> cn_thread (nr_cn s) \<Longrightarrow> nr_step cf testnet s (nr_deinit_ends s)"

end
