(* ===== verification/NodeLifecycle.thy ===== *)
theory NodeLifecycle
  imports NodeWorkers Transition
begin

text \<open>
  What the two threads of the embedded node (theory NodeWorkers) reach: each
  start completes once, a node is there as a whole or not at all, and the GUI
  thread comes back from stopping it when the server was there to be told.
\<close>

section \<open>What a worker looks like in each phase\<close>

definition completed :: "node_signal list \<Rightarrow> node_status list" where
  "completed gs = concat (map (\<lambda>g. case g of NodeInitCompleted st \<Rightarrow> [st] | _ \<Rightarrow> []) gs)"

lemma completed_simps [simp]:
  "completed [] = []" "completed (gs @ hs) = completed gs @ completed hs"
  "completed [NodeInitCompleted st] = [st]" "completed [NodeDeinitCompleted] = []"
  "completed [PeerCountUpdated n] = []" "completed [LocalBlockchainUpdated n] = []"
  "completed [LastKnownBlockHeightUpdated n] = []"
  by (simp_all add: completed_def)

definition whole :: "ip_state \<Rightarrow> bool" where
  "whole w \<longleftrightarrow> ip_dispatcher w \<and> ip_core w \<and> ip_protocol w \<and> ip_server w \<and> ip_node w"

definition gone :: "ip_state \<Rightarrow> bool" where
  "gone w \<longleftrightarrow> \<not> ip_dispatcher w \<and> \<not> ip_core w \<and> \<not> ip_protocol w \<and> \<not> ip_server w \<and> \<not> ip_node w \<and> ip_up w = {}"

definition FAILURES :: "node_status set" where
  "FAILURES = {NI_CORE_FAILED, NI_NET_NODE_FAILED, NI_P2P_BIND_FAILED, NI_NODE_FAILED}"

definition worker_fits :: "ip_state \<Rightarrow> bool" where
  "worker_fits w \<longleftrightarrow>
     (case ip_phase w of
        Idle \<Rightarrow> False
      | Queued \<Rightarrow> gone w \<and> ip_out w = [] \<and> ip_lost w = {} \<and> \<not> ip_stop w \<and> \<not> ip_explorer w
      | InCore \<Rightarrow> gone w \<and> ip_out w = [] \<and> ip_lost w = {} \<and> \<not> ip_stop w \<and> \<not> ip_explorer w
      | InServer \<Rightarrow> whole w \<and> ip_up w = {CorePart} \<and> ip_out w = [] \<and> ip_lost w = {} \<and> \<not> ip_explorer w
      | WaitingNode \<Rightarrow> whole w \<and> ip_up w = {CorePart, ServerPart} \<and> ip_out w = [] \<and> ip_lost w = {} \<and> \<not> ip_explorer w
      | Serving \<Rightarrow> whole w \<and> ip_up w = {CorePart, ServerPart, NodePart} \<and> completed (ip_out w) = [NI_SUCCESS] \<and>
          NodeDeinitCompleted \<notin> set (ip_out w) \<and> ip_lost w = {}
      | Finished \<Rightarrow> gone w \<and> \<not> ip_stop w \<and>
          (completed (ip_out w) = [NI_SUCCESS] \<and> last (ip_out w) = NodeDeinitCompleted \<and> ip_lost w = {} \<or>
           (\<exists>st\<in>FAILURES. ip_out w = [NodeInitCompleted st]) \<and> ip_lost w \<subseteq> {CorePart} \<and> \<not> ip_explorer w))"

lemmas stage_defs = ip_fail_def ip_reset_def ip_emit_def worker_fits_def whole_def gone_def FAILURES_def

lemma new_fits: "worker_fits (ip_init ip_new)"
  by (simp add: ip_init_def ip_new_def stage_defs)

lemma begin_fits: "worker_fits w \<Longrightarrow> ip_phase w = Queued \<Longrightarrow> worker_fits (w\<lparr>ip_phase := InCore\<rparr>)"
  by (simp add: stage_defs)

lemma core_fits:
  assumes "worker_fits w" "ip_phase w = InCore" "ip_core_stage testnet ca w = Some w2"
  shows "worker_fits w2 \<and> ip_phase w2 \<in> {InServer, Finished}"
proof (cases ca)
  case CoreReady
  then show ?thesis
    using assms by (auto simp: ip_core_stage_def ip_initCore_def core_built_def stage_defs)
next
  case (CoreThrows k runtime)
  then show ?thesis
    using assms by (cases k) (auto simp: ip_core_stage_def ip_initCore_def core_built_def stage_defs split: if_splits)
qed

lemma server_fits:
  assumes "worker_fits w" "ip_phase w = InServer" "ip_server_stage sa w = Some w2"
  shows "worker_fits w2 \<and> ip_phase w2 \<in> {WaitingNode, Finished}"
  using assms
  by (cases sa) (auto simp: ip_server_stage_def ip_initNodeServer_def stage_defs insert_commute split: if_splits)

lemma node_fits:
  assumes "worker_fits w" "ip_phase w = WaitingNode"
  shows "worker_fits (ip_node_stage cf na w) \<and> ip_phase (ip_node_stage cf na w) \<in> {Serving, Finished}"
proof (cases na)
  case (NodeAnswer r b)
  then show ?thesis
    using assms
    by (cases r) (auto simp: ip_node_stage_def ip_initInProcessNode_def stage_defs Let_def)
qed

lemma event_fits:
  assumes "worker_fits w" "ip_phase w = Serving" "ip_event e w = Some w2"
  shows "worker_fits w2 \<and> ip_phase w2 = Serving \<and> ip_stop w2 = ip_stop w"
  using assms by (cases e) (auto simp: ip_event_def stage_defs split: if_splits)

lemma ended_fits:
  "worker_fits w \<Longrightarrow> ip_phase w = Serving \<Longrightarrow> worker_fits (ip_run_ended w) \<and> ip_phase (ip_run_ended w) = Finished"
  by (auto simp: ip_run_ended_def stage_defs)

lemma deinitImpl_fits: "worker_fits w \<Longrightarrow> worker_fits (ip_deinitImpl w)"
  by (cases "ip_phase w") (auto simp: ip_deinitImpl_def stage_defs)

text \<open>initImpl as a whole: it reports once, and ends unless the server goes on.\<close>

lemma initImpl_completes:
  assumes "worker_fits w" "ip_phase w = InCore" "ip_initImpl cf testnet ca sa na ends w = Some t"
  shows "worker_fits t \<and> length (completed (ip_out t)) = 1 \<and> (ip_phase t = Finished \<or> ip_phase t = Serving \<and> \<not> ends)"
proof -
  have one: "length (completed (ip_out v)) = 1" if "worker_fits v" "ip_phase v \<in> {Finished, Serving}" for v
    using that by (auto simp: worker_fits_def)
  obtain w1 where w1: "ip_core_stage testnet ca w = Some w1"
    using assms(3) by (auto simp: ip_initImpl_def split: option.splits)
  note f1 = core_fits [OF assms(1,2) w1]
  show ?thesis
  proof (cases "ip_phase w1 = InServer")
    case True
    then obtain w2 where w2: "ip_server_stage sa w1 = Some w2"
      using assms(3) w1 by (auto simp: ip_initImpl_def split: option.splits)
    note f2 = server_fits [OF conjunct1 [OF f1] True w2]
    show ?thesis
      using assms(3) w1 w2 True f2 node_fits [of w2 cf na] ended_fits [of "ip_node_stage cf na w2"] one
      by (auto simp: ip_initImpl_def Let_def split: if_splits)
  next
    case False
    then show ?thesis
      using assms(3) w1 f1 one by (auto simp: ip_initImpl_def split: if_splits)
  qed
qed

text \<open>Only the last step emits the end of the node.\<close>

lemma stages_emit:
  "ip_core_stage testnet ca w = Some w2 \<Longrightarrow> NodeDeinitCompleted \<notin> set (drop (length (ip_out w)) (ip_out w2))"
  "ip_server_stage sa w = Some w3 \<Longrightarrow> NodeDeinitCompleted \<notin> set (drop (length (ip_out w)) (ip_out w3))"
  "NodeDeinitCompleted \<notin> set (drop (length (ip_out w)) (ip_out (ip_node_stage cf na w)))"
  "ip_event e w = Some w4 \<Longrightarrow> NodeDeinitCompleted \<notin> set (drop (length (ip_out w)) (ip_out w4))"
proof -
  show "ip_core_stage testnet ca w = Some w2 \<Longrightarrow> NodeDeinitCompleted \<notin> set (drop (length (ip_out w)) (ip_out w2))"
    by (auto simp: ip_core_stage_def ip_initCore_def core_built_def ip_fail_def ip_reset_def ip_emit_def
        split: core_answer.splits if_splits)
  show "ip_server_stage sa w = Some w3 \<Longrightarrow> NodeDeinitCompleted \<notin> set (drop (length (ip_out w)) (ip_out w3))"
    by (auto simp: ip_server_stage_def ip_initNodeServer_def ip_fail_def ip_reset_def ip_emit_def
        split: server_answer.splits if_splits)
  show "NodeDeinitCompleted \<notin> set (drop (length (ip_out w)) (ip_out (ip_node_stage cf na w)))"
    by (auto simp: ip_node_stage_def ip_initInProcessNode_def ip_fail_def ip_reset_def ip_emit_def Let_def
        split: node_answer.splits option.splits)
  show "ip_event e w = Some w4 \<Longrightarrow> NodeDeinitCompleted \<notin> set (drop (length (ip_out w)) (ip_out w4))"
    by (auto simp: ip_event_def ip_emit_def split: node_event.splits if_splits)
qed


section \<open>Both threads\<close>

definition run_fits :: "node_run \<Rightarrow> bool" where
  "run_fits s \<longleftrightarrow>
     (case cn_worker (nr_cn s) of
        None \<Rightarrow> \<not> nr_waiting s
      | Some w \<Rightarrow> worker_fits w \<and> (ip_stop w \<longrightarrow> nr_waiting s) \<and>
          (cn_thread (nr_cn s) \<or> nr_waiting s \<and> ip_phase w \<in> {Queued, Finished})) \<and>
     (nr_waiting s \<longrightarrow> \<not> nr_connected s) \<and> NodeDeinitCompleted \<notin> set (nr_posted s)"

lemma put_fits:
  assumes "run_fits s" "cn_worker (nr_cn s) = Some w" "worker_fits w2" "ip_stop w2 \<longrightarrow> ip_stop w" "cn_thread (nr_cn s)"
    "nr_connected s \<longrightarrow> NodeDeinitCompleted \<notin> set (drop (length (ip_out w)) (ip_out w2))"
  shows "run_fits (nr_put w w2 s)"
  using assms by (auto simp: run_fits_def nr_put_def split: option.splits)

lemma stage_stop:
  "ip_core_stage testnet ca w = Some w2 \<Longrightarrow> ip_stop w2 \<longrightarrow> ip_stop w"
  "ip_server_stage sa w = Some w2 \<Longrightarrow> ip_stop w2 \<longrightarrow> ip_stop w"
  "ip_stop (ip_node_stage cf na w) \<longrightarrow> ip_stop w"
  by (auto simp: ip_core_stage_def ip_initCore_def core_built_def ip_server_stage_def ip_initNodeServer_def
      ip_node_stage_def ip_initInProcessNode_def ip_fail_def ip_reset_def ip_emit_def Let_def
      split: core_answer.splits server_answer.splits node_answer.splits option.splits if_splits)

lemma run_parts:
  assumes "run_fits s" "cn_worker (nr_cn s) = Some w"
  shows "worker_fits w" "ip_stop w \<Longrightarrow> \<not> nr_connected s"
    "ip_phase w \<notin> {Queued, Finished} \<Longrightarrow> cn_thread (nr_cn s)"
  using assms by (auto simp: run_fits_def)

lemma wstep_fits:
  assumes "nr_wstep cf testnet s t" "run_fits s"
  shows "run_fits t"
  using assms(1)
proof (cases rule: nr_wstep.cases)
  case (w_begin w)
  note w = run_parts [OF assms(2) w_begin(2)]
  show ?thesis
    unfolding w_begin(1) by (rule put_fits [OF assms(2) w_begin(2) begin_fits [OF w(1) w_begin(3)]]) (use w_begin in simp_all)
next
  case (w_core w ca w2)
  note w = run_parts [OF assms(2) w_core(2)]
  show ?thesis
    unfolding w_core(1)
    by (rule put_fits [OF assms(2) w_core(2)]) (use w w_core core_fits [OF w(1) w_core(3,4)] stage_stop(1) stages_emit(1) in auto)
next
  case (w_server w sa w2)
  note w = run_parts [OF assms(2) w_server(2)]
  show ?thesis
    unfolding w_server(1)
    by (rule put_fits [OF assms(2) w_server(2)]) (use w w_server server_fits [OF w(1) w_server(3,4)] stage_stop(2) stages_emit(2) in auto)
next
  case (w_node w na r b)
  note w = run_parts [OF assms(2) w_node(2)]
  show ?thesis
    unfolding w_node(1)
    by (rule put_fits [OF assms(2) w_node(2)]) (use w w_node node_fits [OF w(1) w_node(3)] stage_stop(3) stages_emit(3) in auto)
next
  case (w_event w e w2)
  note w = run_parts [OF assms(2) w_event(2)]
  show ?thesis
    unfolding w_event(1)
    by (rule put_fits [OF assms(2) w_event(2)]) (use w w_event event_fits [OF w(1) w_event(3,4)] stages_emit(4) in auto)
next
  case (w_run_ended w)
  note w = run_parts [OF assms(2) w_run_ended(2)]
  show ?thesis
    unfolding w_run_ended(1)
    by (rule put_fits [OF assms(2) w_run_ended(2)])
      (use w w_run_ended ended_fits [OF w(1) w_run_ended(3)] in \<open>auto simp: ip_run_ended_def ip_reset_def ip_emit_def\<close>)
next
  case (w_exit w)
  with assms(2) show ?thesis
    by (simp add: run_fits_def)
qed

lemma step_fits: "nr_step cf testnet s t \<Longrightarrow> run_fits s \<Longrightarrow> run_fits t"
proof (induction rule: nr_step.induct)
  case (by_start s t)
  then show ?case
    using new_fits by (auto simp: nr_start_up_def cn_init_def run_fits_def ip_init_def ip_new_def split: if_splits)
next
  case (by_deinit s t)
  then show ?case
    using deinitImpl_fits by (auto simp: nr_deinit_begins_def run_fits_def split: option.splits)
next
  case (by_release s)
  then show ?case
    by (auto simp: nr_deinit_ends_def cn_release_def run_fits_def split: option.splits)
qed (rule wstep_fits)

interpretation embedded: inductive_invariant "\<lambda>s. s = nr_new" "nr_step cf testnet" run_fits
  by unfold_locales (simp add: run_fits_def nr_new_def cn_new_def, rule step_fits)



section \<open>Stopping\<close>

abbreviation (input) wsteps :: "cfg \<Rightarrow> bool \<Rightarrow> node_run \<Rightarrow> node_run \<Rightarrow> bool" where
  "wsteps cf testnet \<equiv> (nr_wstep cf testnet)\<^sup>*\<^sup>*"

lemma put_simps [simp]:
  "cn_worker (nr_cn (nr_put w w2 s)) = Some w2" "nr_waiting (nr_put w w2 s) = nr_waiting s"
  "cn_thread (nr_cn (nr_put w w2 s)) = cn_thread (nr_cn s)"
  by (simp_all add: nr_put_def)

lemma finished_exits:
  assumes "cn_worker (nr_cn s) = Some w" "ip_phase w \<in> {Queued, Finished}" "nr_waiting s"
  shows "\<exists>t. wsteps cf testnet s t \<and> \<not> cn_thread (nr_cn t)"
  by (rule exI [of _ "s\<lparr>nr_cn := (nr_cn s)\<lparr>cn_thread := False\<rparr>\<rparr>"])
    (use w_exit [OF assms, of cf testnet] in \<open>auto\<close>)

lemma one_more:
  assumes "nr_wstep cf testnet s u" "\<exists>t. wsteps cf testnet u t \<and> \<not> cn_thread (nr_cn t)"
  shows "\<exists>t. wsteps cf testnet s t \<and> \<not> cn_thread (nr_cn t)"
  using assms converse_rtranclp_into_rtranclp [of "nr_wstep cf testnet" s u] by blast

lemma serving_exits:
  assumes "cn_worker (nr_cn s) = Some w" "ip_phase w = Serving" "ip_stop w" "nr_waiting s"
  shows "\<exists>t. wsteps cf testnet s t \<and> \<not> cn_thread (nr_cn t)"
proof (rule one_more [OF w_run_ended [OF assms(1-3)]])
  show "\<exists>t. wsteps cf testnet (nr_put w (ip_run_ended w) s) t \<and> \<not> cn_thread (nr_cn t)"
    by (rule finished_exits [where w = "ip_run_ended w"])
      (simp_all add: assms ip_run_ended_def ip_reset_def)
qed

definition nothing_came :: node_answer where
  "nothing_came = NodeAnswer None False"

lemma waiting_exits:
  assumes "cn_worker (nr_cn s) = Some w" "ip_phase w = WaitingNode" "ip_stop w" "nr_waiting s"
  shows "\<exists>t. wsteps cf testnet s t \<and> \<not> cn_thread (nr_cn t)"
proof (rule one_more [OF w_node [where na = nothing_came and r = None and b = False, OF assms(1,2)]])
  let ?w = "ip_node_stage cf nothing_came w"
  have "ip_phase ?w = Serving \<and> ip_stop ?w"
    using assms(3) by (simp add: ip_node_stage_def ip_initInProcessNode_def nothing_came_def ip_emit_def Let_def)
  then show "\<exists>t. wsteps cf testnet (nr_put w ?w s) t \<and> \<not> cn_thread (nr_cn t)"
    by (intro serving_exits [where w = ?w]) (simp_all add: assms)
qed (simp_all add: nothing_came_def assms)

lemma server_exits:
  assumes "cn_worker (nr_cn s) = Some w" "ip_phase w = InServer" "ip_stop w" "nr_waiting s"
  shows "\<exists>t. wsteps cf testnet s t \<and> \<not> cn_thread (nr_cn t)"
proof -
  let ?w = "w\<lparr>ip_up := insert ServerPart (ip_up w), ip_phase := WaitingNode\<rparr>"
  have "ip_server_stage (ServerInit True) w = Some ?w"
    by (simp add: ip_server_stage_def ip_initNodeServer_def)
  from one_more [OF w_server [OF assms(1,2) this]] show ?thesis
    using waiting_exits [of "nr_put w ?w s" ?w cf testnet] assms by simp
qed

text \<open>A stop that came before the server: no stop request, and a thread that still runs unless the start failed.\<close>

definition unstoppable :: "node_run \<Rightarrow> bool" where
  "unstoppable s \<longleftrightarrow> nr_waiting s \<and> (\<exists>w. cn_worker (nr_cn s) = Some w \<and> worker_fits w \<and> \<not> ip_stop w \<and>
     (ip_phase w \<in> {InCore, InServer, WaitingNode, Serving} \<and> cn_thread (nr_cn s) \<or>
      ip_phase w = Finished \<and> (\<exists>st\<in>FAILURES. ip_out w = [NodeInitCompleted st])))"

lemma failed_out:
  "ip_core_stage testnet ca w = Some w2 \<Longrightarrow> ip_phase w2 = Finished \<Longrightarrow> ip_out w = [] \<Longrightarrow> worker_fits w2 \<Longrightarrow> \<exists>st\<in>FAILURES. ip_out w2 = [NodeInitCompleted st]"
  "ip_server_stage sa w = Some w2 \<Longrightarrow> ip_phase w2 = Finished \<Longrightarrow> ip_out w = [] \<Longrightarrow> worker_fits w2 \<Longrightarrow> \<exists>st\<in>FAILURES. ip_out w2 = [NodeInitCompleted st]"
  "ip_phase (ip_node_stage cf na w) = Finished \<Longrightarrow> ip_out w = [] \<Longrightarrow> \<exists>st\<in>FAILURES. ip_out (ip_node_stage cf na w) = [NodeInitCompleted st]"
    apply (auto simp: ip_core_stage_def ip_initCore_def core_built_def stage_defs split: core_answer.splits if_splits)[1]
   apply (auto simp: ip_server_stage_def ip_initNodeServer_def stage_defs split: server_answer.splits if_splits)[1]
  apply (auto simp: ip_node_stage_def ip_initInProcessNode_def stage_defs Let_def split: node_answer.splits option.splits if_splits)[1]
  done

lemma unstoppable_step:
  assumes "unstoppable s" "nr_wstep cf testnet s t"
  shows "unstoppable t"
proof -
  obtain w where w: "cn_worker (nr_cn s) = Some w" "worker_fits w" "\<not> ip_stop w" "nr_waiting s" and
    c: "ip_phase w \<in> {InCore, InServer, WaitingNode, Serving} \<and> cn_thread (nr_cn s) \<or>
      ip_phase w = Finished \<and> (\<exists>st\<in>FAILURES. ip_out w = [NodeInitCompleted st])"
    using assms(1) by (auto simp: unstoppable_def)
  have quiet: "ip_out w = []" if "ip_phase w \<in> {InCore, InServer, WaitingNode}"
    using w(2) that by (auto simp: worker_fits_def)
  have moved: "unstoppable (nr_put w w2 s)"
    if "worker_fits w2" "\<not> ip_stop w2" "cn_thread (nr_cn s)"
      "ip_phase w2 \<in> {InServer, WaitingNode, Serving} \<or> ip_phase w2 = Finished \<and> (\<exists>st\<in>FAILURES. ip_out w2 = [NodeInitCompleted st])" for w2
    using that w(4) by (auto simp: unstoppable_def)
  show ?thesis
    using assms(2)
  proof (cases rule: nr_wstep.cases)
    case (w_core w' ca w2)
    then have "unstoppable (nr_put w w2 s)"
      using w c quiet core_fits [of w testnet ca w2] stage_stop(1) [of testnet ca w w2] failed_out(1) [of testnet ca w w2]
      by (intro moved) auto
    with w_core w(1) show ?thesis by simp
  next
    case (w_server w' sa w2)
    then have "unstoppable (nr_put w w2 s)"
      using w c quiet server_fits [of w sa w2] stage_stop(2) [of sa w w2] failed_out(2) [of sa w w2]
      by (intro moved) auto
    with w_server w(1) show ?thesis by simp
  next
    case (w_node w' na r b)
    then have "unstoppable (nr_put w (ip_node_stage cf na w) s)"
      using w c quiet node_fits [of w cf na] stage_stop(3) [of cf na w] failed_out(3) [of cf na w]
      by (intro moved) auto
    with w_node w(1) show ?thesis by simp
  next
    case (w_event w' e w2)
    then have "unstoppable (nr_put w w2 s)"
      using w c event_fits [of w e w2] by (intro moved) auto
    with w_event w(1) show ?thesis by simp
  next
    case (w_exit w')
    with w c show ?thesis by (auto simp: unstoppable_def)
  qed (use w c in auto)
qed

lemma unstoppable_steps: "wsteps cf testnet s t \<Longrightarrow> unstoppable s \<Longrightarrow> unstoppable t"
  by (induction rule: rtranclp_induct) (auto intro: unstoppable_step)

lemma serves_for_ever:
  assumes "wsteps cf testnet s t" "cn_worker (nr_cn s) = Some w" "ip_phase w = Serving" "\<not> ip_stop w" "cn_thread (nr_cn s)"
  shows "cn_thread (nr_cn t) \<and> (\<exists>v. cn_worker (nr_cn t) = Some v \<and> ip_phase v = Serving \<and> \<not> ip_stop v)"
  using assms
proof (induction rule: rtranclp_induct)
  case (step t u)
  then obtain v where v: "cn_thread (nr_cn t)" "cn_worker (nr_cn t) = Some v" "ip_phase v = Serving" "\<not> ip_stop v" by blast
  from step.hyps(2) show ?case
  proof cases
    case (w_event w' e w2)
    with v show ?thesis
      by (cases e) (auto simp: ip_event_def ip_emit_def split: if_splits)
  qed (use v in auto)
qed auto

lemma stop_ends_or_is_lost:
  assumes "reach (\<lambda>s. s = nr_new) (nr_step cf testnet) s" "nr_waiting s" "cn_worker (nr_cn s) = Some w"
  shows "(ip_stop w \<or> ip_phase w \<in> {Queued, Finished} \<longrightarrow> (\<exists>t. (nr_wstep cf testnet)\<^sup>*\<^sup>* s t \<and> \<not> cn_thread (nr_cn t))) \<and>
    (\<not> ip_stop w \<and> ip_phase w = InCore \<longrightarrow>
      (\<forall>t v. (nr_wstep cf testnet)\<^sup>*\<^sup>* s t \<and> cn_worker (nr_cn t) = Some v \<and> \<not> cn_thread (nr_cn t) \<longrightarrow>
         (\<exists>st. st \<noteq> NI_SUCCESS \<and> ip_out v = [NodeInitCompleted st])) \<and>
      (\<exists>t. (nr_wstep cf testnet)\<^sup>*\<^sup>* s t \<and> (\<forall>u. (nr_wstep cf testnet)\<^sup>*\<^sup>* t u \<longrightarrow> cn_thread (nr_cn u))))"
proof -
  have f: "run_fits s" and fw: "worker_fits w"
    using embedded.reach_inv [OF assms(1)] assms(3) by (auto simp: run_fits_def)
  have stops: "\<exists>t. wsteps cf testnet s t \<and> \<not> cn_thread (nr_cn t)" if "ip_stop w \<or> ip_phase w \<in> {Queued, Finished}"
  proof (cases "ip_phase w \<in> {Queued, Finished}")
    case True
    then show ?thesis by (rule finished_exits [OF assms(3) _ assms(2)])
  next
    case False
    then have "ip_stop w" "ip_phase w \<in> {InServer, WaitingNode, Serving}"
      using that fw by (cases "ip_phase w"; auto simp: worker_fits_def)+
    then show ?thesis
      using server_exits waiting_exits serving_exits assms(2,3) by blast
  qed
  have lost: "unstoppable s" if "\<not> ip_stop w" "ip_phase w = InCore"
    using that f fw assms by (auto simp: unstoppable_def run_fits_def)
  have failed: "\<exists>st. st \<noteq> NI_SUCCESS \<and> ip_out v = [NodeInitCompleted st]"
    if "unstoppable s" "wsteps cf testnet s t" "cn_worker (nr_cn t) = Some v" "\<not> cn_thread (nr_cn t)" for t v
    using unstoppable_steps [OF that(2,1)] that(3,4) by (auto simp: unstoppable_def FAILURES_def)
  have hangs: "\<exists>t. wsteps cf testnet s t \<and> (\<forall>u. wsteps cf testnet t u \<longrightarrow> cn_thread (nr_cn u))"
    if "\<not> ip_stop w" "ip_phase w = InCore"
  proof -
    let ?w1 = "(core_built testnet 7 w)\<lparr>ip_phase := InServer\<rparr>"
    let ?w2 = "?w1\<lparr>ip_up := insert ServerPart (ip_up ?w1), ip_phase := WaitingNode\<rparr>"
    let ?w3 = "ip_node_stage cf nothing_came ?w2"
    let ?s1 = "nr_put w ?w1 s" let ?s2 = "nr_put ?w1 ?w2 ?s1" let ?s3 = "nr_put ?w2 ?w3 ?s2"
    have "\<not> ip_core w" using fw that(2) by (simp add: worker_fits_def gone_def)
    then have 1: "nr_wstep cf testnet s ?s1"
      by (intro w_core [where ca = CoreReady]) (simp_all add: assms that ip_core_stage_def ip_initCore_def)
    have 2: "nr_wstep cf testnet ?s1 ?s2"
      by (rule w_server [where sa = "ServerInit True"]) (simp_all add: ip_server_stage_def ip_initNodeServer_def)
    have 3: "nr_wstep cf testnet ?s2 ?s3"
      by (rule w_node [where r = None and b = False]) (simp_all add: nothing_came_def assms)
    have "ip_phase ?w3 = Serving \<and> \<not> ip_stop ?w3" "cn_thread (nr_cn ?s3)"
      using that f assms
      by (simp_all add: ip_node_stage_def ip_initInProcessNode_def nothing_came_def ip_emit_def core_built_def Let_def run_fits_def)
    then have "cn_thread (nr_cn u)" if "wsteps cf testnet ?s3 u" for u
      using serves_for_ever [OF that, of ?w3] by simp
    moreover have "wsteps cf testnet s ?s3"
      using 1 2 3 by (blast intro: converse_rtranclp_into_rtranclp)
    ultimately show ?thesis by blast
  qed
  show ?thesis
    using stops lost failed hangs by blast
qed

text \<open>
  C9. Stopping the embedded node once its server exists always can end: some
  run of the worker ends the thread that the GUI thread waits for. But a stop
  that comes while the core is still being built is lost: the thread ends
  only if the start fails, and when the start succeeds the GUI thread
  waits for ever.
\<close>
theorem stopping_needs_server:
  assumes "reach (\<lambda>s. s = nr_new) (nr_step cf testnet) s" "\<not> nr_waiting s" "cn_worker (nr_cn s) = Some w"
    "nr_deinit_begins s = Some s'"
  shows "(ip_server w \<or> ip_phase w \<in> {Queued, Finished} \<longrightarrow> (\<exists>t. (nr_wstep cf testnet)\<^sup>*\<^sup>* s' t \<and> \<not> cn_thread (nr_cn t))) \<and>
    (ip_phase w = InCore \<longrightarrow>
      (\<forall>t v. (nr_wstep cf testnet)\<^sup>*\<^sup>* s' t \<and> cn_worker (nr_cn t) = Some v \<and> \<not> cn_thread (nr_cn t) \<longrightarrow>
         (\<exists>st. st \<noteq> NI_SUCCESS \<and> ip_out v = [NodeInitCompleted st])) \<and>
      (\<exists>t. (nr_wstep cf testnet)\<^sup>*\<^sup>* s' t \<and> (\<forall>u. (nr_wstep cf testnet)\<^sup>*\<^sup>* t u \<longrightarrow> cn_thread (nr_cn u))))"
proof -
  have r: "reach (\<lambda>s. s = nr_new) (nr_step cf testnet) s'"
    by (rule reach_step [OF assms(1) by_deinit [OF assms(2,4)]])
  have w: "nr_waiting s'" "cn_worker (nr_cn s') = Some (ip_deinitImpl w)"
    using assms(3,4) by (auto simp: nr_deinit_begins_def)
  have "\<not> ip_server w \<and> \<not> ip_stop w" if "ip_phase w = InCore"
    using embedded.reach_inv [OF assms(1)] assms(3) that by (auto simp: run_fits_def worker_fits_def gone_def)
  moreover have "ip_phase (ip_deinitImpl w) = ip_phase w" "ip_server w \<longrightarrow> ip_stop (ip_deinitImpl w)"
    by (simp_all add: ip_deinitImpl_def)
  ultimately show ?thesis
    using stop_ends_or_is_lost [OF r w] by (simp add: ip_deinitImpl_def)
qed

definition demo_begun :: node_run where
  "demo_begun = nr_new\<lparr>nr_cn := cn_new\<lparr>cn_worker := Some (ip_new\<lparr>ip_phase := InCore\<rparr>), cn_thread := True\<rparr>, nr_connected := True\<rparr>"

lemma demo_reached: "reach (\<lambda>s. s = nr_new) (nr_step cf testnet) demo_begun"
proof -
  let ?s = "nr_new\<lparr>nr_cn := cn_new\<lparr>cn_worker := Some (ip_init ip_new), cn_thread := True\<rparr>, nr_connected := True\<rparr>"
  have 1: "nr_step cf testnet nr_new ?s"
    by (rule by_start) (simp_all add: nr_new_def nr_start_up_def cn_init_def cn_new_def)
  have "nr_wstep cf testnet ?s (nr_put (ip_init ip_new) ((ip_init ip_new)\<lparr>ip_phase := InCore\<rparr>) ?s)"
    by (rule w_begin) (simp_all add: nr_new_def ip_init_def cn_new_def)
  moreover have "nr_put (ip_init ip_new) ((ip_init ip_new)\<lparr>ip_phase := InCore\<rparr>) ?s = demo_begun"
    by (simp add: nr_put_def demo_begun_def ip_init_def ip_new_def nr_new_def)
  ultimately have "nr_step cf testnet ?s demo_begun" by (simp add: by_worker)
  with 1 show ?thesis
    using reach_step [OF reach_step [OF reach_start [of "\<lambda>s. s = nr_new"]]] by blast
qed


lemma stopping_needs_server_witness:
  "\<exists>s' t. nr_deinit_begins demo_begun = Some s' \<and> (nr_wstep (cf_new None) False)\<^sup>*\<^sup>* s' t \<and>
     (\<forall>u. (nr_wstep (cf_new None) False)\<^sup>*\<^sup>* t u \<longrightarrow> cn_thread (nr_cn u))"
proof -
  let ?w = "ip_new\<lparr>ip_phase := InCore\<rparr>"
  have "\<not> nr_waiting demo_begun" "cn_worker (nr_cn demo_begun) = Some ?w" "ip_phase ?w = InCore"
    by (simp_all add: demo_begun_def nr_new_def)
  moreover obtain s' where "nr_deinit_begins demo_begun = Some s'"
    by (simp add: demo_begun_def nr_deinit_begins_def)
  ultimately show ?thesis
    using stopping_needs_server [OF demo_reached, of ?w s' "cf_new None" False] by blast
qed

end
