(* ===== verification/AppStart.thy ===== *)
theory AppStart
  imports NodeWorkers WalletAdapter
begin

text \<open>
  Starting, restarting and quitting (src/src/Application/WalletApplication.cpp,
  with init and deinit of src/src/CryptoNoteWrapper/CryptoNoteAdapter.cpp as it
  uses them). The loop that retries until a node is there runs over a list of
  rounds: what the start of the node reported and what the user answered; the
  empty list is a start that still waits. Windows and dialogs are what the
  program sees of them.

  Lemmas: which rounds end the loop and with what; what a failed restart does
  to quitting; what erasing the block chain leaves.
\<close>

section \<open>Ports and directories\<close>

text \<open>The answer of each attempt to listen: the port, or None.\<close>

definition findPort :: "(nat \<Rightarrow> 16 word option) \<Rightarrow> 16 word" where
  "findPort listen = (case find (\<lambda>i. listen i \<noteq> None) [0..<100] of Some i \<Rightarrow> the (listen i) | None \<Rightarrow> 0)"

text \<open>A file is one that can be removed or not; other entries are neither files nor directories.\<close>

datatype fs_entry = FFile bool | FDir "(string \<times> fs_entry) list" | FOther

text \<open>
  What is left of a directory (None when it is removed itself), and whether rmDir
  succeeds; the flag says whether the library removes a directory by the name ".".
\<close>

fun rmDir :: "bool \<Rightarrow> (string \<times> fs_entry) list \<Rightarrow> (string \<times> fs_entry) list option \<times> bool"
  and rmEntries :: "bool \<Rightarrow> (string \<times> fs_entry) list \<Rightarrow> (string \<times> fs_entry) list \<times> bool" where
  "rmDir dot es =
     (if es = [] then (if dot then None else Some [], dot)
      else case rmEntries dot es of (left, ok) \<Rightarrow> (Some left, ok))"
| "rmEntries dot [] = ([], True)"
| "rmEntries dot ((n, FDir sub) # es) =
     (case rmDir dot sub of (r, ok) \<Rightarrow>
        let here = (case r of None \<Rightarrow> [] | Some left \<Rightarrow> [(n, FDir left)]) in
        if \<not> ok then (here @ es, False)
        else case rmEntries dot es of (rest, ok2) \<Rightarrow> (here @ rest, ok2))"
| "rmEntries dot ((n, FFile can) # es) = (if can then rmEntries dot es else ((n, FFile can) # es, False))"
| "rmEntries dot ((n, FOther) # es) = (case rmEntries dot es of (rest, ok) \<Rightarrow> ((n, FOther) # rest, ok))"


section \<open>State\<close>

text \<open>Crashes: a failed assertion or the use of what is not there. Waits: the user or the node has not answered.\<close>

datatype 'a run = Crashes | Waits | Returns 'a

text \<open>
  The node adapter of CryptoNoteAdapter, as whether its worker holds a node; the
  wallet adapter, the settings, the splash screen and the main window as visible
  or not, the messages shown and the URLs passed to a running instance.
\<close>

record 'w app =
  ap_node :: "bool option"
  ap_wallet :: "'w wa_state"
  ap_cfg :: cfg
  ap_splash :: "bool option"
  ap_splashText :: string
  ap_watching :: bool
  ap_window :: "bool option"
  ap_messages :: "string list"
  ap_sent :: "string list"
  ap_quits :: bool
  ap_aboutToQuit :: bool
  ap_trayIcon :: bool

text \<open>The application observes the settings under this name.\<close>

definition APPLICATION :: nat where "APPLICATION = 0"

definition tell :: "string \<Rightarrow> 'w app \<Rightarrow> 'w app" where
  "tell m s = s\<lparr>ap_messages := ap_messages s @ [m]\<rparr>"

text \<open>
  One start of the node: the status (-1 when the program is asked to quit while
  it waits), whether the worker holds a node then, and the user's answers.
\<close>

record round =
  rd_status :: int
  rd_live :: bool
  rd_erase :: bool
  rd_erased :: bool
  rd_listen :: "nat \<Rightarrow> 16 word option"
  rd_port :: "16 word \<Rightarrow> 16 word option"


section \<open>Starting and stopping the node\<close>

text \<open>The first argument of these definitions says whether assertions are compiled in.\<close>

definition ca_init :: "bool \<Rightarrow> round \<Rightarrow> 'w app \<Rightarrow> 'w app run" where
  "ca_init checks r s =
     (if checks \<and> ap_node s \<noteq> None then Crashes
      else Returns (s\<lparr>ap_node := Some (rd_live r), ap_wallet := wa_new\<rparr>))"

definition ca_deinit :: "bool \<Rightarrow> 'w app \<Rightarrow> 'w app run" where
  "ca_deinit checks s =
     (case ap_node s of
        None \<Rightarrow> Crashes
      | Some live \<Rightarrow> if checks \<and> \<not> live then Crashes else Returns (s\<lparr>ap_node := None, ap_wallet := wa_new\<rparr>))"

definition show_splash :: "'w app \<Rightarrow> 'w app" where
  "show_splash s = (if ap_splash s \<noteq> None
     then s\<lparr>ap_splash := Some True, ap_splashText := ''Loading blockchain...'', ap_watching := True\<rparr> else s)"

definition DB_IN_USE :: string where "DB_IN_USE = ''The database is currently used by another application or service.''"
definition LOAD_ERROR :: string where "LOAD_ERROR = ''Blockchain load error''"
definition ERASE_ERROR :: string where "ERASE_ERROR = ''Error occured''"

primrec initCryptoNoteAdapter :: "bool \<Rightarrow> round list \<Rightarrow> 'w app \<Rightarrow> ('w app \<times> bool) run" where
  "initCryptoNoteAdapter checks [] s = Waits"
| "initCryptoNoteAdapter checks (r # rs) s =
     (case ca_init checks r (show_splash s) of
        Crashes \<Rightarrow> Crashes
      | Waits \<Rightarrow> Waits
      | Returns t \<Rightarrow>
          if rd_status r = status_code NI_SUCCESS then Returns (t, True)
          else if rd_status r = status_code NI_DB_IN_USAGE then Returns (tell DB_IN_USE t, False)
          else if rd_status r = status_code NI_DB_FAILED then
            (if rd_erase r then
               if \<not> rd_erased r then Returns (tell ERASE_ERROR t, False) else initCryptoNoteAdapter checks rs t
             else Returns (t, False))
          else if rd_status r = status_code NI_CORE_FAILED then Returns (tell LOAD_ERROR t, False)
          else if rd_status r = status_code NI_P2P_BIND_FAILED then
            (case ca_deinit checks t of
               Crashes \<Rightarrow> Crashes
             | Waits \<Rightarrow> Waits
             | Returns u \<Rightarrow>
                 let v = u\<lparr>ap_splash := map_option (\<lambda>_. False) (ap_splash u)\<rparr> in
                 (case rd_port r (findPort (rd_listen r)) of
                    None \<Rightarrow> Returns (v, False)
                  | Some p \<Rightarrow> initCryptoNoteAdapter checks rs (v\<lparr>ap_cfg := setP2pBindPort p (ap_cfg v)\<rparr>)))
          else Returns (t, False))"

text \<open>A worker without a node has no wallet adapter to give.\<close>

definition deinitCryptoNoteAdapter :: "'w green \<Rightarrow> bool \<Rightarrow> 'w app \<Rightarrow> 'w app run" where
  "deinitCryptoNoteAdapter G checks s =
     (if ap_node s \<noteq> Some True then Crashes
      else if wa_isOpen (ap_wallet s) then
        (case wa_save G SAVE_ALL True (ap_wallet s) of
           None \<Rightarrow> Crashes
         | Some (w, _) \<Rightarrow>
             (case wa_close w of None \<Rightarrow> Crashes | Some w2 \<Rightarrow> ca_deinit checks (s\<lparr>ap_wallet := w2\<rparr>)))
      else ca_deinit checks s)"

text \<open>The result of the new start is not looked at.\<close>

definition reinitCryptoNoteAdapter :: "'w green \<Rightarrow> bool \<Rightarrow> round list \<Rightarrow> 'w app \<Rightarrow> 'w app run" where
  "reinitCryptoNoteAdapter G checks rs s =
     (case deinitCryptoNoteAdapter G checks s of
        Crashes \<Rightarrow> Crashes
      | Waits \<Rightarrow> Waits
      | Returns t \<Rightarrow>
          (case initCryptoNoteAdapter checks rs t of Crashes \<Rightarrow> Crashes | Waits \<Rightarrow> Waits | Returns (u, _) \<Rightarrow> Returns u))"

definition prepareToQuit :: "'w green \<Rightarrow> bool \<Rightarrow> 'w app \<Rightarrow> 'w app run" where
  "prepareToQuit G checks s =
     (if ap_aboutToQuit s then Returns s
      else case cf_removeObserver APPLICATION (ap_cfg s) of
        None \<Rightarrow> Crashes
      | Some c \<Rightarrow>
          (case deinitCryptoNoteAdapter G checks
              (s\<lparr>ap_cfg := c, ap_aboutToQuit := True, ap_trayIcon := False, ap_window := map_option (\<lambda>_. False) (ap_window s)\<rparr>) of
             Crashes \<Rightarrow> Crashes
           | Waits \<Rightarrow> Waits
           | Returns t \<Rightarrow> Returns (t\<lparr>ap_window := None\<rparr>)))"


section \<open>Starting the application\<close>

definition ALREADY_RUNNING :: string where "ALREADY_RUNNING = ''Karbo wallet already running''"

text \<open>What the system answers: the lock, a payment URL on the command line, the tray.\<close>

record start_env =
  se_lock :: bool
  se_url :: "string option"
  se_minimized :: bool
  se_tray :: bool

definition initSystemTrayIcon :: "start_env \<Rightarrow> 'w app \<Rightarrow> 'w app" where
  "initSystemTrayIcon E s = (if \<not> se_tray E then s else s\<lparr>ap_trayIcon := True\<rparr>)"

definition initUi :: "'w app \<Rightarrow> 'w app" where
  "initUi s =
     (if ap_splash s \<noteq> None then s\<lparr>ap_watching := False, ap_splash := None\<rparr> else s)\<lparr>ap_window := Some True\<rparr>"

definition app_init :: "start_env \<Rightarrow> bool \<Rightarrow> round list \<Rightarrow> 'w app \<Rightarrow> ('w app \<times> bool) run" where
  "app_init E checks rs s =
     (case cf_addObserver APPLICATION (ap_cfg s) of
        None \<Rightarrow> Crashes
      | Some c \<Rightarrow>
          let s1 = s\<lparr>ap_cfg := c\<rparr>;
              s2 = (case se_url E of Some u \<Rightarrow> s1\<lparr>ap_sent := ap_sent s1 @ [u]\<rparr> | None \<Rightarrow> s1)
          in
            if \<not> se_lock E then Returns (if se_url E = None then tell ALREADY_RUNNING s2 else s2, False)
            else
              let s3 = (if \<not> se_minimized E then initSystemTrayIcon E (s2\<lparr>ap_splash := Some False\<rparr>) else s2) in
              (case initCryptoNoteAdapter checks rs s3 of
                 Crashes \<Rightarrow> Crashes
               | Waits \<Rightarrow> Waits
               | Returns (t, ok) \<Rightarrow> if ok then Returns ((initUi t)\<lparr>ap_quits := True\<rparr>, True) else Returns (t, False)))"

text \<open>The click on the dock, and on the tray icon, bring back the splash screen or the window.\<close>

definition dockClickHandler :: "'w app \<Rightarrow> 'w app" where
  "dockClickHandler s =
     (if ap_aboutToQuit s then s
      else if ap_splash s = Some False then s\<lparr>ap_splash := Some True\<rparr>
      else s\<lparr>ap_window := map_option (\<lambda>_. True) (ap_window s)\<rparr>)"

definition trayActivated :: "'w app \<Rightarrow> 'w app" where
  "trayActivated s =
     (if ap_splash s = Some False then s\<lparr>ap_splash := Some True\<rparr>
      else s\<lparr>ap_window := map_option (\<lambda>_. True) (ap_window s)\<rparr>)"

text \<open>What follows the first occurrence of a text.\<close>

fun after_text :: "string \<Rightarrow> string \<Rightarrow> string option" where
  "after_text p s = (if starts_with s p then Some (drop (length p) s)
     else case s of [] \<Rightarrow> None | c # r \<Rightarrow> after_text p r)"

definition newLogString :: "string \<Rightarrow> 'w app \<Rightarrow> 'w app" where
  "newLogString line s =
     (case after_text ''[Blockchain] Height'' line of
        None \<Rightarrow> s
      | Some rest \<Rightarrow> if ap_splash s \<noteq> None then s\<lparr>ap_splashText := ''Rebuilding'' @ rest\<rparr> else s)"



section \<open>Which rounds end the start\<close>

text \<open>A round after which the node is started again: the port is taken and the user chose another.\<close>

definition chosen :: "round \<Rightarrow> 16 word option" where
  "chosen r = (if rd_status r = status_code NI_P2P_BIND_FAILED then rd_port r (findPort (rd_listen r)) else None)"

definition retries :: "round \<Rightarrow> bool" where
  "retries r \<longleftrightarrow> chosen r \<noteq> None"

definition embedded_statuses :: "int set" where
  "embedded_statuses = {-1, status_code NI_SUCCESS} \<union>
     status_code ` {NI_CORE_FAILED, NI_NET_NODE_FAILED, NI_P2P_BIND_FAILED, NI_NODE_FAILED}"

text \<open>What a round that is tried again leaves.\<close>

definition retried :: "round \<Rightarrow> 'w app \<Rightarrow> 'w app" where
  "retried r s = (show_splash s)\<lparr>ap_node := None, ap_wallet := wa_new,
     ap_splash := map_option (\<lambda>_. False) (ap_splash s), ap_cfg := setP2pBindPort (the (chosen r)) (ap_cfg s)\<rparr>"

lemma show_splash_keeps [simp]:
  "ap_node (show_splash s) = ap_node s" "ap_cfg (show_splash s) = ap_cfg s" "ap_messages (show_splash s) = ap_messages s"
  "ap_window (show_splash s) = ap_window s" "ap_aboutToQuit (show_splash s) = ap_aboutToQuit s"
  "ap_splash (show_splash s) = map_option (\<lambda>_. True) (ap_splash s)"
  by (auto simp: show_splash_def split: option.split)

lemma retried_keeps [simp]:
  "ap_node (retried r s) = None" "ap_messages (retried r s) = ap_messages s" "ap_window (retried r s) = ap_window s"
  "cf_p2pBindPort (ap_cfg (retried r s)) = the (chosen r)"
  by (simp_all add: retried_def setP2pBindPort_def notifyObservers_def)

lemma retry_goes_on:
  assumes "retries r" "ap_node s = None \<or> \<not> checks" "rd_live r \<or> \<not> checks"
  shows "initCryptoNoteAdapter checks (r # rs) s = initCryptoNoteAdapter checks rs (retried r s)"
  using assms
  by (auto simp: retries_def chosen_def ca_init_def ca_deinit_def retried_def option.map_comp comp_def Let_def
      split: if_splits option.split)

lemma retries_go_on:
  assumes "\<forall>r\<in>set ps. retries r"
  shows "initCryptoNoteAdapter False (ps @ rs) s = initCryptoNoteAdapter False rs (fold retried ps s)"
  using assms
proof (induction ps arbitrary: s)
  case (Cons r ps)
  then have "initCryptoNoteAdapter False ((r # ps) @ rs) s = initCryptoNoteAdapter False (ps @ rs) (retried r s)"
    using retry_goes_on [of r s False "ps @ rs"] by simp
  with Cons show ?case by simp
qed simp

lemma retries_keep:
  "ps \<noteq> [] \<Longrightarrow> ap_node (fold retried ps s) = None \<and> ap_messages (fold retried ps s) = ap_messages s \<and>
     cf_p2pBindPort (ap_cfg (fold retried ps s)) = the (chosen (last ps))"
proof (induction ps arbitrary: s)
  case (Cons r ps)
  then show ?case by (cases ps) auto
qed simp

text \<open>
  C10. The application keeps starting the node as long as the port is taken and
  the user chooses another one, and waits when nobody answers. The first other
  answer ends the start: it succeeds exactly when the node did, the peers' port
  is then the last one chosen, the one message shown is that of a core that
  failed to load, and a node adapter is left unless the user rejected the
  dialog. With assertions compiled in, the first such retry crashes instead,
  because the worker's node is gone when its explorer is asked for.
\<close>
theorem start_retries_ports:
  assumes "ap_node s = None" "\<forall>r\<in>set ps. retries r" "\<not> retries r" "rd_status r \<in> embedded_statuses"
  shows "initCryptoNoteAdapter False ps s = Waits \<and>
    (\<exists>t ok. initCryptoNoteAdapter False (ps @ r # rest) s = Returns (t, ok) \<and> (ok \<longleftrightarrow> rd_status r = status_code NI_SUCCESS) \<and>
      cf_p2pBindPort (ap_cfg t) = (if ps = [] then cf_p2pBindPort (ap_cfg s) else the (chosen (last ps))) \<and>
      ap_messages t = ap_messages s @ (if rd_status r = status_code NI_CORE_FAILED then [LOAD_ERROR] else []) \<and>
      ap_node t = (if rd_status r = status_code NI_P2P_BIND_FAILED then None else Some (rd_live r))) \<and>
    (ps \<noteq> [] \<and> \<not> rd_live (hd ps) \<longrightarrow> initCryptoNoteAdapter True (ps @ r # rest) s = Crashes)"
proof -
  let ?s = "fold retried ps s"
  have k: "ap_node ?s = None" "ap_messages ?s = ap_messages s"
    "cf_p2pBindPort (ap_cfg ?s) = (if ps = [] then cf_p2pBindPort (ap_cfg s) else the (chosen (last ps)))"
    using retries_keep [of ps s] assms(1) by (cases "ps = []"; simp)+
  have "initCryptoNoteAdapter False ps s = Waits"
    using retries_go_on [OF assms(2), of "[]" s] by simp
  moreover have "ps \<noteq> [] \<and> \<not> rd_live (hd ps) \<longrightarrow> initCryptoNoteAdapter True (ps @ r # rest) s = Crashes"
  proof (intro impI, elim conjE)
    assume c: "ps \<noteq> []" "\<not> rd_live (hd ps)"
    obtain p qs where ps: "ps = p # qs" using c(1) by (cases ps) auto
    then have "rd_status p = status_code NI_P2P_BIND_FAILED"
      using assms(2) by (auto simp: retries_def chosen_def split: if_splits)
    with c(2) ps show "initCryptoNoteAdapter True (ps @ r # rest) s = Crashes"
      by (simp add: ca_init_def ca_deinit_def assms(1))
  qed
  moreover have "\<exists>t ok. initCryptoNoteAdapter False (r # rest) ?s = Returns (t, ok) \<and> (ok \<longleftrightarrow> rd_status r = status_code NI_SUCCESS) \<and>
      cf_p2pBindPort (ap_cfg t) = cf_p2pBindPort (ap_cfg ?s) \<and>
      ap_messages t = ap_messages ?s @ (if rd_status r = status_code NI_CORE_FAILED then [LOAD_ERROR] else []) \<and>
      ap_node t = (if rd_status r = status_code NI_P2P_BIND_FAILED then None else Some (rd_live r))"
    using assms(3,4) by (auto simp: embedded_statuses_def retries_def chosen_def ca_init_def ca_deinit_def tell_def)
  ultimately show ?thesis
    using k by (simp only: retries_go_on [OF assms(2)] simp_thms)
qed

definition demo_round :: "int \<Rightarrow> 16 word option \<Rightarrow> round" where
  "demo_round st p = \<lparr>rd_status = st, rd_live = (st = 0), rd_erase = False, rd_erased = False,
     rd_listen = (\<lambda>_. Some 40000), rd_port = (\<lambda>_. p)\<rparr>"

definition demo_app :: "'w app" where
  "demo_app = \<lparr>ap_node = None, ap_wallet = wa_new, ap_cfg = cf_new None, ap_splash = Some False, ap_splashText = [],
     ap_watching = False, ap_window = None, ap_messages = [], ap_sent = [], ap_quits = False, ap_aboutToQuit = False,
     ap_trayIcon = False\<rparr>"

lemma start_retries_ports_witness:
  "\<exists>t. initCryptoNoteAdapter False [demo_round 6 (Some 40001), demo_round 0 None] (demo_app :: demo app) = Returns (t, True) \<and>
     cf_p2pBindPort (ap_cfg t) = 40001"
proof -
  let ?ps = "[demo_round 6 (Some 40001)]"
  have "retries (demo_round 6 (Some 40001))" "\<not> retries (demo_round 0 None)" "rd_status (demo_round 0 None) \<in> embedded_statuses"
    "the (chosen (last ?ps)) = 40001" "rd_status (demo_round 0 None) = status_code NI_SUCCESS"
    by (simp_all add: retries_def chosen_def demo_round_def embedded_statuses_def)
  with start_retries_ports [of "demo_app :: demo app" ?ps "demo_round 0 None" "[]"] show ?thesis
    by (auto simp: demo_app_def)
qed


section \<open>Restarting and quitting\<close>

lemma save_and_close:
  assumes "wa_inv a" "wa_isOpen a"
  shows "\<exists>b st c. wa_save G SAVE_ALL True a = Some (b, st) \<and> wa_close b = Some c"
proof -
  have "succeeds (wa_save G SAVE_ALL True a)"
    unfolding wa_save_def by (rule worker_succeeds [OF keeps_save assms])
  then obtain b st where b: "wa_save G SAVE_ALL True a = Some (b, st)"
    by (auto simp: succeeds_def)
  then have "wa_inv b \<and> wa_worker b \<noteq> None"
    using on_worker_result [of "ww_save G SAVE_ALL True" a] keeps_save assms inv_isOpen [OF assms(1)]
    by (auto simp: wa_save_def)
  then show ?thesis
    using b wa_close_result [of b] by blast
qed

lemma deinit_of_live_node:
  assumes "wa_inv (ap_wallet s)" "ap_node s = Some True"
  shows "deinitCryptoNoteAdapter G checks s = Returns (s\<lparr>ap_node := None, ap_wallet := wa_new\<rparr>)"
proof (cases "wa_isOpen (ap_wallet s)")
  case True
  with save_and_close [OF assms(1) True, of G] assms(2) show ?thesis
    by (auto simp: deinitCryptoNoteAdapter_def ca_deinit_def)
qed (simp add: deinitCryptoNoteAdapter_def ca_deinit_def assms(2))

lemma deinit_without_node: "ap_node s \<noteq> Some True \<Longrightarrow> deinitCryptoNoteAdapter G checks s = Crashes"
  by (simp add: deinitCryptoNoteAdapter_def)


definition demo_running :: "demo app" where
  "demo_running = demo_app\<lparr>ap_node := Some True, ap_window := Some True, ap_cfg := (cf_new None)\<lparr>cf_observers := {APPLICATION}\<rparr>\<rparr>"



section \<open>Erasing the block chain\<close>

text \<open>Erasing leaves nothing but directories, and a directory that held anything is left itself.\<close>

fun only_dirs :: "(string \<times> fs_entry) list \<Rightarrow> bool" where
  "only_dirs [] = True"
| "only_dirs ((n, FDir sub) # es) \<longleftrightarrow> only_dirs sub \<and> only_dirs es"
| "only_dirs ((n, FFile can) # es) \<longleftrightarrow> False"
| "only_dirs ((n, FOther) # es) \<longleftrightarrow> only_dirs es"

lemma only_dirs_append [simp]: "only_dirs (xs @ ys) \<longleftrightarrow> only_dirs xs \<and> only_dirs ys"
  by (induction xs rule: only_dirs.induct) auto

lemma erased_leaves_directories:
  "rmDir dot es = (r, True) \<Longrightarrow> (case r of None \<Rightarrow> es = [] | Some left \<Rightarrow> only_dirs left)"
  "rmEntries dot es = (left, True) \<Longrightarrow> only_dirs left"
  by (induction dot es and dot es arbitrary: r and left rule: rmDir_rmEntries.induct)
     (force split: if_splits prod.splits option.splits simp: Let_def)+

end
