(* ===== verification/SessionSafety.thy ===== *)
theory SessionSafety
  imports WalletSession Transition
begin

text \<open>
  The main window over a wallet that keeps its contract: what it offers agrees
  with the wallet it has, one page is shown, and no call fails; and the places
  where the source leaves the window and the wallet apart.

  The contract of the wallet adapter is a locale; it is interpreted on
  WalletGreenAdapter over any library wallet.
\<close>

section \<open>Actions of the user\<close>

datatype 'a mw_event =
    EvCreateNonDet "string \<Rightarrow> bool" string
  | EvCreate "string \<Rightarrow> bool" string
  | EvImportKey "string \<Rightarrow> bool" key_import string
  | EvRestore "string \<Rightarrow> bool" string "u32 option" string
  | EvOpen "string \<Rightarrow> bool" string
  | EvRecent nat
  | EvPassword string
  | EvReset bool
  | EvClose
  | EvCommit
  | EvBackup "string \<Rightarrow> bool" string
  | EvSaveKeys "string \<Rightarrow> bool" string
  | EvEncrypt "(string \<times> string) list"
  | EvSign
  | EvShowSeed
  | EvKeysOfCard nat
  | EvTrackingKeyOfCard nat
  | EvSeedOfCard nat
  | EvNewAddress
  | EvImportAddress string "'a \<Rightarrow> string list"
  | EvRegister nat bool
  | EvDelete nat bool
  | EvSendFrom u64 string
  | EvPage page
  | EvCreatePaymentRequest
  | EvOpenPaymentRequest
  | EvUrl url_kind
  | EvProgress u32 u32
  | EvSynchronized
  | EvBalance u64
  | EvAboutToSync bool

fun mw_do :: "'a wallet_if \<Rightarrow> mw_env \<Rightarrow> bool \<Rightarrow> 'a mw_event \<Rightarrow> 'a session \<Rightarrow> 'a session option" where
  "mw_do W E c (EvCreateNonDet ex p) s = createNonDeterministicWallet W E c ex p s"
| "mw_do W E c (EvCreate ex p) s = createWallet W E c ex p s"
| "mw_do W E c (EvImportKey ex k p) s = importKey W E c ex k p s"
| "mw_do W E c (EvRestore ex seed n p) s = restoreFromMnemonicSeed W E c ex seed n p s"
| "mw_do W E c (EvOpen ex p) s = openWallet W ex p s"
| "mw_do W E c (EvRecent i) s = openRecentWallet W i s"
| "mw_do W E c (EvPassword p) s = nw_okClicked W E c p s"
| "mw_do W E c (EvReset b) s = resetWallet W E b s"
| "mw_do W E c EvClose s = closeWallet W s"
| "mw_do W E c EvCommit s = commitData W s"
| "mw_do W E c (EvBackup ex p) s = backupWallet W ex p s"
| "mw_do W E c (EvSaveKeys ex p) s = saveWalletKeys W ex p s"
| "mw_do W E c (EvEncrypt ds) s = encryptWallet W E ds s"
| "mw_do W E c EvSign s = map_option (\<lambda>_. s) (signMessage W s)"
| "mw_do W E c EvShowSeed s = map_option (\<lambda>_. s) (showMnemonicSeed W E s)"
| "mw_do W E c (EvKeysOfCard i) s = map_option (\<lambda>_. s) (showKeysFromCard W E i s)"
| "mw_do W E c (EvTrackingKeyOfCard i) s = map_option (\<lambda>_. s) (exportTrackingKeyFromCard W E i s)"
| "mw_do W E c (EvSeedOfCard i) s = map_option (\<lambda>_. s) (showSeedFromCard W E i s)"
| "mw_do W E c EvNewAddress s = createAddressRequested W s"
| "mw_do W E c (EvImportAddress t rows) s = importAddressRequested W E t rows s"
| "mw_do W E c (EvRegister i b) s = map_option fst (registerAccountNumberFromCard W i b s)"
| "mw_do W E c (EvDelete i b) s = deleteAddressFromCard W i b s"
| "mw_do W E c (EvSendFrom i a) s = Some (sendFromCard i a s)"
| "mw_do W E c (EvPage p) s = Some (check_page p s)"
| "mw_do W E c EvCreatePaymentRequest s = Some (check_page Receive s)"
| "mw_do W E c EvOpenPaymentRequest s = Some (check_page Send s)"
| "mw_do W E c (EvUrl u) s = Some (urlReceived W u s)"
| "mw_do W E c (EvProgress a b) s = Some (synchronizationProgressUpdated a b s)"
| "mw_do W E c EvSynchronized s = synchronizationCompleted W s"
| "mw_do W E c (EvBalance b) s = Some (balanceUpdated b s)"
| "mw_do W E c (EvAboutToSync b) s = Some (aboutToBeSynchronized b s)"

text \<open>
  What is offered: menu actions while they are enabled, the entries of the menu
  of recent wallets that are visible, the password field while its frame is
  shown; a seed is shown for the cards of an open wallet.
\<close>

fun mw_offered :: "'a wallet_if \<Rightarrow> 'a mw_event \<Rightarrow> 'a session \<Rightarrow> bool" where
  "mw_offered W (EvRecent i) s \<longleftrightarrow> i < length (mw_menu s) \<and> snd (mw_menu s ! i)"
| "mw_offered W (EvPassword p) s \<longleftrightarrow> nw_password s \<and> NoWallet \<in> mw_visible s"
| "mw_offered W (EvReset b) s \<longleftrightarrow> ResetWallet \<in> mw_enabled s"
| "mw_offered W EvClose s \<longleftrightarrow> CloseWallet \<in> mw_enabled s"
| "mw_offered W (EvBackup ex p) s \<longleftrightarrow> BackupWallet \<in> mw_enabled s"
| "mw_offered W (EvSaveKeys ex p) s \<longleftrightarrow> SaveKeys \<in> mw_enabled s"
| "mw_offered W (EvEncrypt ds) s \<longleftrightarrow> EncryptWallet \<in> mw_enabled s \<or> ChangePassword \<in> mw_enabled s"
| "mw_offered W EvSign s \<longleftrightarrow> SignMessage \<in> mw_enabled s"
| "mw_offered W EvShowSeed s \<longleftrightarrow> ShowSeed \<in> mw_enabled s"
| "mw_offered W (EvSeedOfCard i) s \<longleftrightarrow> wi_isOpen W (mw_wallet s)"
| "mw_offered W (EvPage p) s \<longleftrightarrow> Nav p \<in> mw_enabled s"
| "mw_offered W EvCreatePaymentRequest s \<longleftrightarrow> CreatePaymentRequest \<in> mw_enabled s"
| "mw_offered W EvOpenPaymentRequest s \<longleftrightarrow> OpenPaymentRequest \<in> mw_enabled s"
| "mw_offered W EvSynchronized s \<longleftrightarrow> wi_isOpen W (mw_wallet s)"
| "mw_offered W _ s \<longleftrightarrow> True"

fun makes_wallet :: "'a mw_event \<Rightarrow> bool" where
  "makes_wallet (EvCreateNonDet _ _) = True"
| "makes_wallet (EvCreate _ _) = True"
| "makes_wallet (EvImportKey _ _ _) = True"
| "makes_wallet (EvRestore _ _ _ _) = True"
| "makes_wallet _ = False"

definition ui_open :: "'a session \<Rightarrow> bool" where
  "ui_open s \<longleftrightarrow> CloseWallet \<in> mw_enabled s"

text \<open>
  One step: a queued call, or an offered action once the queue is empty. A wallet
  made in place of an open one has to be made successfully.
\<close>

inductive mw_step :: "'a wallet_if \<Rightarrow> mw_env \<Rightarrow> 'a session \<Rightarrow> 'a session \<Rightarrow> bool" for W E where
  queued: "mw_queue s \<noteq> [] \<Longrightarrow> deliver W E c url s = Some t \<Longrightarrow> mw_step W E s t"
| action: "mw_queue s = [] \<Longrightarrow> mw_offered W ev s \<Longrightarrow> mw_do W E c ev s = Some t \<Longrightarrow>
    (makes_wallet ev \<and> ui_open s \<longrightarrow> wi_isOpen W (mw_wallet t)) \<Longrightarrow> mw_step W E s t"


section \<open>The contract of the wallet adapter\<close>

definition answers :: "'a wallet_if \<Rightarrow> ('a \<Rightarrow> bool) \<Rightarrow> ('a \<Rightarrow> 'b option) \<Rightarrow> bool" where
  "answers W ok q \<longleftrightarrow> (\<forall>a. ok a \<and> wi_isOpen W a \<longrightarrow> q a \<noteq> None)"

definition passes :: "'a wallet_if \<Rightarrow> ('a \<Rightarrow> bool) \<Rightarrow> ('a \<Rightarrow> ('a \<times> 'b) option) \<Rightarrow> bool" where
  "passes W ok op \<longleftrightarrow> (\<forall>a. ok a \<and> wi_isOpen W a \<longrightarrow> (\<exists>b r. op a = Some (b, r) \<and> ok b \<and> wi_isOpen W b))"

definition starts :: "'a wallet_if \<Rightarrow> ('a \<Rightarrow> bool) \<Rightarrow> ('a \<Rightarrow> ('a \<times> init_status) option) \<Rightarrow> bool" where
  "starts W ok op \<longleftrightarrow> (\<forall>a. ok a \<and> \<not> wi_isOpen W a \<longrightarrow>
     (\<exists>b st. op a = Some (b, st) \<and> ok b \<and> (st = INIT_SUCCESS \<longleftrightarrow> wi_isOpen W b)))"

text \<open>What a queue of calls leads to: u is whether the window shows a wallet, o whether one is open.\<close>

fun settles :: "mw_call list \<Rightarrow> bool \<Rightarrow> bool \<Rightarrow> bool" where
  "settles [] u o' \<longleftrightarrow> u = o'"
| "settles (CallLoad # q) u o' \<longleftrightarrow> \<not> o' \<and> q = []"
| "settles (CallLoadKeys # q) u o' \<longleftrightarrow> \<not> o' \<and> q = []"
| "settles (SigOpened # q) u o' \<longleftrightarrow> o' \<and> settles q True o'"
| "settles (SigOpenError st # q) u o' \<longleftrightarrow> \<not> o' \<and> st \<noteq> INIT_SUCCESS \<and> settles q False o'"
| "settles (SigClosed # q) u o' \<longleftrightarrow> \<not> o' \<and> settles q False o'"
| "settles (SigPasswordChanged # q) u o' \<longleftrightarrow> o' \<and> u \<and> settles q u o'"

definition shows_page :: "'a session \<Rightarrow> bool" where
  "shows_page s \<longleftrightarrow>
     (if ui_open s then \<exists>p. mw_checked s = Some p \<and> mw_visible s = {PageFrame p}
      else mw_visible s = {NoWallet} \<and> mw_enabled s \<subseteq> {BalanceProof})"

text \<open>The fields a flow leaves alone when it does not touch the window.\<close>

definition same_window :: "'a session \<Rightarrow> 'a session \<Rightarrow> bool" where
  "same_window s t \<longleftrightarrow> mw_enabled t = mw_enabled s \<and> mw_checked t = mw_checked s \<and> mw_visible t = mw_visible s"

lemma same_window_shows: "same_window s t \<Longrightarrow> shows_page t = shows_page s \<and> ui_open t = ui_open s"
  by (simp add: same_window_def shows_page_def ui_open_def)

lemma same_window_trans: "same_window s t \<Longrightarrow> same_window t u \<Longrightarrow> same_window s u"
  by (simp add: same_window_def)

lemma same_window_fields [simp]:
  "same_window s s"
  "same_window s (s\<lparr>mw_wallet := w\<rparr>) " "same_window s (putWalletFile E f s)"
  "same_window s (s\<lparr>mw_wallet := w, mw_queue := q\<rparr>)" "same_window s (s\<lparr>mw_wallet := w, mw_written := l\<rparr>)"
  "same_window s (s\<lparr>mw_wallet := w, mw_queue := q, mw_written := l\<rparr>)" "same_window s (nw_openWallet f kf s)"
  "same_window s (setCurrent i a s)" "same_window s (nw_walletOpened s)" "same_window s (clearCurrent s)"
  "same_window s (remember_wallet E s)"
  by (simp_all add: same_window_def putWalletFile_def nw_openWallet_def setCurrent_def clearCurrent_def
      nw_walletOpened_def remember_wallet_def updateRecentWalletActions_def Let_def)

lemma wallet_fields [simp]:
  "mw_wallet (putWalletFile E f s) = mw_wallet s" "mw_queue (putWalletFile E f s) = mw_queue s"
  "mw_wallet (nw_openWallet f kf s) = mw_wallet s"
  "mw_queue (nw_openWallet f kf s) = mw_queue s @ [if kf = [] then CallLoad else CallLoadKeys]"
  "mw_wallet (setCurrent i a s) = mw_wallet s" "mw_queue (setCurrent i a s) = mw_queue s"
  "mw_wallet (check_page p s) = mw_wallet s" "mw_queue (check_page p s) = mw_queue s"
  "mw_wallet (uncheck_page p s) = mw_wallet s" "mw_queue (uncheck_page p s) = mw_queue s"
  "mw_wallet (enable A s) = mw_wallet s" "mw_queue (enable A s) = mw_queue s"
  "mw_wallet (disable A s) = mw_wallet s" "mw_queue (disable A s) = mw_queue s"
  "mw_wallet (set_enabled act b s) = mw_wallet s" "mw_queue (set_enabled act b s) = mw_queue s"
  "mw_wallet (setClosedState s) = mw_wallet s" "mw_queue (setClosedState s) = mw_queue s"
  "mw_wallet (clearCurrent s) = mw_wallet s" "mw_queue (clearCurrent s) = mw_queue s"
  "mw_wallet (nw_walletOpened s) = mw_wallet s" "mw_queue (nw_walletOpened s) = mw_queue s"
  "mw_wallet (remember_wallet E s) = mw_wallet s" "mw_queue (remember_wallet E s) = mw_queue s"
  "mw_wallet (urlReceived W u s) = mw_wallet s" "mw_queue (urlReceived W u s) = mw_queue s"
  "mw_wallet (limit_actions tr seedless s) = mw_wallet s" "mw_queue (limit_actions tr seedless s) = mw_queue s"
  by (simp_all add: putWalletFile_def nw_openWallet_def setCurrent_def check_page_def uncheck_page_def enable_def
      disable_def set_enabled_def setClosedState_def clearCurrent_def nw_walletOpened_def remember_wallet_def
      updateRecentWalletActions_def urlReceived_def limit_actions_def Let_def split: url_kind.split)

lemma frame_of_page: "PageFrame p \<in> page_frames"
  by (cases p) (simp_all add: page_frames_def)

lemma all_frames: "f = NoWallet \<or> f \<in> page_frames"
  by (cases f) (simp_all add: frame_of_page)

lemma nav_action: "Nav p \<in> wallet_actions"
  by (cases p) (simp_all add: wallet_actions_def opened_actions_def)

lemma all_actions: "a \<in> wallet_actions"
  by (cases a) (simp_all add: nav_action, simp_all add: wallet_actions_def opened_actions_def)

lemma closed_shows: "shows_page (setClosedState s)" "\<not> ui_open (setClosedState s)"
  using all_frames all_actions
  by (auto simp: shows_page_def ui_open_def setClosedState_def disable_def Let_def)


lemma toggle_fields [simp]:
  "mw_visible (enable A s) = mw_visible s" "mw_checked (enable A s) = mw_checked s"
  "mw_visible (disable A s) = mw_visible s" "mw_checked (disable A s) = mw_checked s"
  "mw_visible (set_enabled act b s) = mw_visible s" "mw_checked (set_enabled act b s) = mw_checked s"
  "mw_enabled (enable A s) = mw_enabled s \<union> A" "mw_enabled (disable A s) = mw_enabled s - A"
  "mw_enabled (set_enabled act b s) = (if b then insert act (mw_enabled s) else mw_enabled s - {act})"
  by (simp_all add: enable_def disable_def set_enabled_def)

lemma check_page_shows:
  assumes "mw_visible s \<subseteq> insert (PageFrame p) (case mw_checked s of None \<Rightarrow> {} | Some q \<Rightarrow> {PageFrame q})"
    and "PageFrame p \<in> mw_visible s"
  shows "mw_checked (check_page p s) = Some p \<and> mw_visible (check_page p s) = {PageFrame p}"
proof (cases "mw_checked s")
  case None
  then have "mw_visible s = {PageFrame p}"
    using assms by auto
  then show ?thesis
    by (simp add: check_page_def None)
next
  case (Some q)
  then have "mw_visible s \<subseteq> {PageFrame p, PageFrame q}"
    using assms(1) by simp
  then have "insert (PageFrame p) (mw_visible s - {PageFrame q}) = {PageFrame p}"
    using assms(2) by blast
  moreover have "mw_visible s = {PageFrame p}" if "q = p"
    using \<open>mw_visible s \<subseteq> {PageFrame p, PageFrame q}\<close> assms(2) that by blast
  ultimately show ?thesis
    by (simp add: check_page_def Some)
qed

lemma check_page_open:
  assumes "shows_page s" "ui_open s"
  shows "shows_page (check_page p s) \<and> ui_open (check_page p s)"
proof -
  obtain q where "mw_checked s = Some q" "mw_visible s = {PageFrame q}"
    using assms by (auto simp: shows_page_def)
  then show ?thesis
    using assms(2) by (simp add: shows_page_def ui_open_def check_page_def)
qed

lemma enabled_check_page [simp]: "mw_enabled (check_page p s) = mw_enabled s"
  by (simp add: check_page_def)

lemma opened_shows:
  assumes "shows_page s" "setOpenedState W E s = Some t"
  shows "shows_page t \<and> ui_open t \<and> mw_wallet t = mw_wallet s \<and> mw_queue t = mw_queue s"
proof -
  obtain u where t: "t = check_page Overview u" and u: "mw_checked u = mw_checked s"
    "mw_visible u = insert (PageFrame Overview) (mw_visible s - {NoWallet})" "CloseWallet \<in> mw_enabled u"
    "mw_wallet u = mw_wallet s" "mw_queue u = mw_queue s"
    using assms(2)
    by (auto simp: setOpenedState_def Let_def bind_eq_Some_conv opened_actions_def split: if_splits)
  have "mw_checked t = Some Overview \<and> mw_visible t = {PageFrame Overview}"
  proof (unfold t, rule check_page_shows)
    show "mw_visible u \<subseteq> insert (PageFrame Overview) (case mw_checked u of None \<Rightarrow> {} | Some q \<Rightarrow> {PageFrame q})"
      using assms(1) u(1,2) by (cases "ui_open s") (auto simp: shows_page_def)
  qed (simp add: u)
  then show ?thesis
    using u(3-) by (simp add: shows_page_def ui_open_def t)
qed

text \<open>An action other than closing may go on and off while a wallet is shown.\<close>

lemma toggle_shows:
  assumes "shows_page s" "CloseWallet \<notin> A" "ui_open s \<or> A \<subseteq> {BalanceProof}"
  shows "shows_page (enable A s) \<and> ui_open (enable A s) = ui_open s"
    "shows_page (disable A s) \<and> ui_open (disable A s) = ui_open s"
  using assms by (auto simp: shows_page_def ui_open_def split: if_splits)

lemma set_enabled_shows:
  assumes "shows_page s" "a \<noteq> CloseWallet" "ui_open s \<or> a = BalanceProof"
  shows "shows_page (set_enabled a b s) \<and> ui_open (set_enabled a b s) = ui_open s"
  using toggle_shows [OF assms(1), of "{a}"] assms(2,3) by (simp add: set_enabled_def)


locale wallet_contract =
  fixes W :: "'a wallet_if"
    and ok :: "'a \<Rightarrow> bool"
  assumes queries: "answers W ok (wi_isEncrypted W)" "answers W ok (wi_isTracking W)" "answers W ok (wi_mode W)"
      "answers W ok (wi_addressCount W)" "answers W ok (wi_address W i)" "answers W ok (wi_keys W i)"
      "answers W ok (wi_balance W)"
    and calls: "passes W ok (wi_save W l u)" "passes W ok (wi_export W p e l u)" "passes W ok (wi_password W old new)"
      "passes W ok (wi_createAddress W)" "passes W ok (wi_createAddressKeys W ks)" "passes W ok (wi_deleteAddress W i)"
      "passes W ok (wi_register W i)"
    and openings: "starts W ok (wi_create W p pw)" "starts W ok (wi_createHd W p pw ks n b)"
      "starts W ok (wi_createWithKeys W p ks)" "starts W ok (wi_load W p pw)" "starts W ok (wi_loadLegacy W kf p pw)"
    and closing: "ok a \<Longrightarrow> wi_isOpen W a \<Longrightarrow> \<exists>b. wi_close W a = Some b \<and> ok b \<and> \<not> wi_isOpen W b"
begin

definition opn :: "'a session \<Rightarrow> bool" where
  "opn s \<longleftrightarrow> wi_isOpen W (mw_wallet s)"

definition sound :: "'a session \<Rightarrow> bool" where
  "sound s \<longleftrightarrow> ok (mw_wallet s) \<and> shows_page s \<and> settles (mw_queue s) (ui_open s) (opn s)"

text \<open>What a flow leaves: a sound wallet, the window as it was, and a queue.\<close>

definition leaves :: "'a session \<Rightarrow> bool \<Rightarrow> mw_call list \<Rightarrow> 'a session \<Rightarrow> bool" where
  "leaves s o' q t \<longleftrightarrow> ok (mw_wallet t) \<and> same_window s t \<and> opn t = o' \<and> mw_queue t = q"

lemma leaves_self: "ok (mw_wallet s) \<Longrightarrow> leaves s (opn s) (mw_queue s) s"
  by (simp add: leaves_def)

lemma leaves_trans: "leaves s o1 q1 t \<Longrightarrow> leaves t o2 q2 u \<Longrightarrow> leaves s o2 q2 u"
  using same_window_trans by (auto simp: leaves_def)

lemma leaves_sound: "sound s \<Longrightarrow> leaves s o' q t \<Longrightarrow> settles q (ui_open s) o' \<Longrightarrow> sound t"
  using same_window_shows [of s t] by (auto simp: leaves_def sound_def)

lemma query_answer: "answers W ok q \<Longrightarrow> ok (mw_wallet s) \<Longrightarrow> opn s \<Longrightarrow> \<exists>r. q (mw_wallet s) = Some r"
  by (auto simp: answers_def opn_def)

lemma call_result:
  "passes W ok op \<Longrightarrow> ok (mw_wallet s) \<Longrightarrow> opn s \<Longrightarrow> \<exists>b r. op (mw_wallet s) = Some (b, r) \<and> ok b \<and> wi_isOpen W b"
  by (auto simp: passes_def opn_def)

lemma saved_leaves: "ok (mw_wallet s) \<Longrightarrow> opn s \<Longrightarrow> \<exists>t. saved W l s = Some t \<and> leaves s True (mw_queue s) t"
  using call_result [OF calls(1), of s l True] by (auto simp: saved_def leaves_def opn_def)

lemma exported_leaves:
  "ok (mw_wallet s) \<Longrightarrow> opn s \<Longrightarrow> \<exists>t. exported W p e l u s = Some t \<and> leaves s True (mw_queue s) t"
  using call_result [OF calls(2), of s p e l u] by (auto simp: exported_def leaves_def opn_def)

lemma close_quietly_leaves: "ok (mw_wallet s) \<Longrightarrow> \<exists>t. close_quietly W s = Some t \<and> leaves s False (mw_queue s) t"
  using closing [of "mw_wallet s"] by (auto simp: close_quietly_def leaves_def opn_def)

lemma save_and_close_leaves: "ok (mw_wallet s) \<Longrightarrow> \<exists>t. save_and_close W s = Some t \<and> leaves s False (mw_queue s) t"
proof (cases "opn s")
  case True
  assume ok: "ok (mw_wallet s)"
  obtain t where t: "saved W SAVE_ALL s = Some t" "leaves s True (mw_queue s) t"
    using saved_leaves [OF ok True] by blast
  then obtain u where "close_quietly W t = Some u" "leaves t False (mw_queue t) u"
    using close_quietly_leaves [of t] by (auto simp: leaves_def)
  then show ?thesis
    using t True leaves_trans [OF t(2)] by (auto simp: save_and_close_def opn_def leaves_def)
qed (auto simp: save_and_close_def leaves_def opn_def)

lemma put_leaves: "ok (mw_wallet s) \<Longrightarrow> leaves s (opn s) (mw_queue s) (putWalletFile E f s)"
  by (simp add: leaves_def opn_def)

lemma attempt_leaves:
  assumes "ok (mw_wallet s)" "\<not> opn s" "starts W ok op" "mw_queue s = []"
  shows "\<exists>t b q. attempt W E c path op s = Some (t, b) \<and> leaves s b q t \<and>
    (if b then q = [SigOpened] else q = [] \<or> c \<and> q = [SigClosed])"
proof -
  let ?s1 = "putWalletFile E path s"
  obtain w st where w: "op (mw_wallet ?s1) = Some (w, st)" "ok w" "st = INIT_SUCCESS \<longleftrightarrow> wi_isOpen W w"
    using assms(1-3) by (auto simp: starts_def opn_def)
  let ?s2 = "?s1\<lparr>mw_wallet := w, mw_queue := mw_queue ?s1 @ reports False c st, mw_written := mw_written ?s1 @ [path]\<rparr>"
  have s2: "leaves s (st = INIT_SUCCESS) (reports False c st) ?s2"
    using w(2,3) assms(4) by (simp add: leaves_def opn_def same_window_def putWalletFile_def)
  show ?thesis
  proof (cases "st = INIT_SUCCESS")
    case True
    then obtain t where t: "saved W SAVE_ALL ?s2 = Some t" "leaves ?s2 True [SigOpened] t"
      using saved_leaves [of ?s2 SAVE_ALL] w(2,3) assms(4) by (auto simp: opn_def reports_def)
    have "attempt W E c path op s = Some (t, True)"
      using w(1) True t(1) by (simp add: attempt_def Let_def)
    then show ?thesis
      using leaves_trans [OF s2 t(2)] by auto
  next
    case False
    have s2_facts: "ok (mw_wallet ?s2)" "opn ?s2 = False" "mw_queue ?s2 = reports False c st"
      using s2 False unfolding leaves_def by blast+
    have "leaves s False (reports False c st) (putWalletFile E (walletFile E s) ?s2)"
      using leaves_trans [OF s2 put_leaves [OF s2_facts(1)]] by (simp only: s2_facts)
    moreover have "attempt W E c path op s = Some (putWalletFile E (walletFile E s) ?s2, False)"
      using w(1) False by (simp add: attempt_def Let_def)
    moreover have "reports False c st = [] \<or> c \<and> reports False c st = [SigClosed]"
      using False by (simp add: reports_def)
    ultimately show ?thesis
      by auto
  qed
qed

text \<open>The result of making a wallet: nothing happened, or what the attempt leaves.\<close>

definition after_making :: "bool \<Rightarrow> bool \<Rightarrow> bool \<Rightarrow> mw_call list \<Rightarrow> bool" where
  "after_making c o1 o2 q \<longleftrightarrow> o2 = o1 \<and> q = [] \<or> (if o2 then q = [SigOpened] else q = [] \<or> c \<and> q = [SigClosed])"

lemma after_making_settles: "after_making c u o' q \<Longrightarrow> u \<longrightarrow> o' \<Longrightarrow> settles q u o'"
  by (auto simp: after_making_def split: if_splits)

definition made :: "bool \<Rightarrow> 'a session \<Rightarrow> 'a session option \<Rightarrow> bool" where
  "made c s r \<longleftrightarrow> (\<exists>t o' q. r = Some t \<and> leaves s o' q t \<and> after_making c (opn s) o' q)"

lemma made_self:
  assumes "ok (mw_wallet s)" "mw_queue s = []"
  shows "made c s (Some s)"
  unfolding made_def using leaves_self [OF assms(1)] assms(2)
  by (intro exI [of _ s] exI [of _ "opn s"] exI [of _ "[]"]) (simp add: after_making_def)

lemma madeI:
  assumes "leaves s o' q t" "if o' then q = [SigOpened] else q = [] \<or> c \<and> q = [SigClosed]"
  shows "made c s (Some t)"
  unfolding made_def using assms
  by (intro exI [of _ t] exI [of _ o'] exI [of _ q]) (simp add: after_making_def)

lemma made_after:
  assumes "leaves s False [] u" "starts W ok op"
  shows "made c s (do { (s2, b) \<leftarrow> attempt W E c path op u; Some s2 })"
proof -
  have u: "ok (mw_wallet u)" "\<not> opn u" "mw_queue u = []"
    using assms(1) by (simp_all add: leaves_def)
  obtain t b q where t: "attempt W E c path op u = Some (t, b)" "leaves u b q t"
    "if b then q = [SigOpened] else q = [] \<or> c \<and> q = [SigClosed]"
    using attempt_leaves [OF u(1,2) assms(2) u(3)] by blast
  have "made c s (Some t)"
    using leaves_trans [OF assms(1) t(2)] t(3) by (rule madeI)
  then show ?thesis
    using t(1) by simp
qed

lemma made_sound:
  assumes "sound s" "mw_queue s = []" "made c s r"
  shows "\<exists>t. r = Some t \<and> (ui_open s \<and> \<not> opn t \<or> sound t)"
proof -
  obtain t o' q where t: "r = Some t" "leaves s o' q t" "after_making c (opn s) o' q"
    using assms(3) unfolding made_def by blast
  have "opn s = ui_open s"
    using assms(1,2) by (simp add: sound_def)
  then have "settles q (ui_open s) o'" if "ui_open s \<longrightarrow> o'"
    using t(3) that after_making_settles by simp
  moreover have "opn t = o'"
    using t(2) by (simp add: leaves_def)
  ultimately show ?thesis
    using t(1) leaves_sound [OF assms(1) t(2)] by blast
qed

lemma nonDet_made:
  assumes "ok (mw_wallet s)" "mw_queue s = []"
  shows "made c s (createNonDeterministicWallet W E c ex p s)"
proof -
  obtain u where u: "save_and_close W s = Some u" "leaves s False [] u"
    using save_and_close_leaves [OF assms(1)] assms(2) by auto
  show ?thesis
    using made_after [OF u(2) openings(1)] made_self [OF assms] u(1)
    by (simp add: createNonDeterministicWallet_def Let_def)
qed

lemma importKey_made:
  assumes "ok (mw_wallet s)" "mw_queue s = []"
  shows "made c s (importKey W E c ex k p s)"
proof -
  obtain u where u: "close_quietly W s = Some u" "leaves s False [] u"
    using close_quietly_leaves [OF assms(1)] assms(2) by auto
  have "made c s (Some u)"
    using u(2) by (rule madeI) simp
  then show ?thesis
    using made_after [OF u(2) openings(3)] made_self [OF assms] u(1)
    by (simp add: importKey_def Let_def split: option.split)
qed

lemma restore_made:
  assumes "ok (mw_wallet s)" "mw_queue s = []"
  shows "made c s (restoreFromMnemonicSeed W E c ex seed n p s)"
proof -
  obtain u where u: "close_quietly W s = Some u" "leaves s False [] u"
    using close_quietly_leaves [OF assms(1)] assms(2) by auto
  then show ?thesis
    using made_after [OF u(2) openings(2)] made_self [OF assms]
    by (simp add: restoreFromMnemonicSeed_def Let_def split: option.split)
qed

lemma seed_total: "ok (mw_wallet s) \<Longrightarrow> opn s \<Longrightarrow> \<exists>r. showMnemonicSeed W E s = Some r"
  using query_answer [OF queries(2), of s] query_answer [OF queries(6), of s 0] by (auto simp: showMnemonicSeed_def)

lemma createWallet_made:
  assumes "ok (mw_wallet s)" "mw_queue s = []"
  shows "made c s (createWallet W E c ex p s)"
proof -
  obtain u where u: "save_and_close W s = Some u" "leaves s False [] u"
    using save_and_close_leaves [OF assms(1)] assms(2) by auto
  then have u': "ok (mw_wallet u)" "\<not> opn u" "mw_queue u = []"
    by (simp_all add: leaves_def)
  obtain v b q where v: "attempt W E c (with_suffix p) (wi_createHd W (with_suffix p) [] (me_generated E) 1 False) u = Some (v, b)"
    "leaves u b q v" "if b then q = [SigOpened] else q = [] \<or> c \<and> q = [SigClosed]"
    using attempt_leaves [OF u'(1,2) openings(2) u'(3)] by blast
  have sv: "leaves s b q v"
    using leaves_trans [OF u(2) v(2)] .
  show ?thesis
  proof (cases b)
    case True
    then have v': "ok (mw_wallet v)" "opn v" "mw_queue v = [SigOpened]"
      using sv v(3) by (simp_all add: leaves_def)
    obtain w where w: "exported W (walletFile E v @ ''.backup'') False SAVE_KEYS_ONLY True v = Some w"
      "leaves v True [SigOpened] w"
      using exported_leaves [OF v'(1,2)] v'(3) by metis
    then obtain r where "showMnemonicSeed W E w = Some r"
      using seed_total [of w] by (auto simp: leaves_def)
    moreover have "made c s (Some w)"
      using leaves_trans [OF sv w(2)] by (rule madeI) simp
    ultimately show ?thesis
      using u(1) v(1) w(1) True v'(2) made_self [OF assms] by (simp add: createWallet_def Let_def opn_def)
  next
    case False
    have "made c s (Some v)"
      using sv v(3) by (rule madeI)
    then show ?thesis
      using u(1) v(1) False made_self [OF assms] by (simp add: createWallet_def Let_def)
  qed
qed

text \<open>A flow that does not make a wallet and leaves the window as it is.\<close>

definition stays :: "'a session \<Rightarrow> 'a session option \<Rightarrow> bool" where
  "stays s r \<longleftrightarrow> (\<exists>t o' q. r = Some t \<and> leaves s o' q t \<and> settles q (ui_open s) o')"

lemma staysI: "leaves s o' q t \<Longrightarrow> settles q (ui_open s) o' \<Longrightarrow> stays s (Some t)"
  unfolding stays_def by blast

lemma stays_sound: "sound s \<Longrightarrow> stays s r \<Longrightarrow> \<exists>t. r = Some t \<and> sound t"
  unfolding stays_def using leaves_sound by blast

lemma stays_self: "sound s \<Longrightarrow> stays s (Some s)"
  by (rule staysI [OF leaves_self]) (simp_all add: sound_def)

lemma idle_open: "sound s \<Longrightarrow> mw_queue s = [] \<Longrightarrow> ui_open s = opn s"
  by (simp add: sound_def)

lemma open_leaves: "leaves s False [] u \<Longrightarrow> stays s (Some (nw_openWallet f kf u))"
  using same_window_trans [of s u "nw_openWallet f kf u"]
  by (intro staysI [of _ False "[if kf = [] then CallLoad else CallLoadKeys]"]) (simp_all add: leaves_def opn_def)

lemma openWallet_stays:
  assumes "sound s" "mw_queue s = []"
  shows "stays s (openWallet W ex p s)"
proof -
  obtain u where u: "save_and_close W s = Some u" "leaves s False [] u"
    using save_and_close_leaves [of s] assms by (auto simp: sound_def)
  then show ?thesis
    using open_leaves [OF u(2)] stays_self [OF assms(1)] by (simp add: openWallet_def Let_def)
qed

lemma openRecent_stays:
  assumes "sound s" "mw_queue s = []"
  shows "stays s (openRecentWallet W i s)"
proof -
  obtain u where u: "save_and_close W s = Some u" "leaves s False [] u"
    using save_and_close_leaves [of s] assms by (auto simp: sound_def)
  then show ?thesis
    using open_leaves [OF u(2)] stays_self [OF assms(1)] by (simp add: openRecentWallet_def Let_def)
qed

lemma load_result:
  assumes "ok (mw_wallet s)" "\<not> opn s"
  shows "\<exists>w st. wi_load W f p (mw_wallet s) = Some (w, st) \<and> ok w \<and> (st = INIT_SUCCESS \<longleftrightarrow> wi_isOpen W w)"
    "\<exists>w st. wi_loadLegacy W kf f p (mw_wallet s) = Some (w, st) \<and> ok w \<and> (st = INIT_SUCCESS \<longleftrightarrow> wi_isOpen W w)"
  using openings(4,5) assms by (simp_all add: starts_def opn_def)

text \<open>A failed load while the window shows a wallet is followed by the error signal, which closes the window's state.\<close>

lemma load_sound:
  assumes "ok (mw_wallet s)" "\<not> opn s" "shows_page s" "mw_queue s = []"
  shows "\<exists>t. nw_loadWallet W E c p s = Some t \<and> sound t" "\<exists>t. nw_loadLegacyKeys W E c p s = Some t \<and> sound t"
proof -
  have fine: "sound (nw_loaded E c (w, st) s)" if "ok w" "st = INIT_SUCCESS \<longleftrightarrow> wi_isOpen W w" for w st
  proof -
    let ?t = "nw_loaded E c (w, st) s"
    have t: "mw_wallet ?t = w" "same_window s ?t" "mw_queue ?t = reports True c st"
      using assms(4) by (auto simp: nw_loaded_def Let_def same_window_def putWalletFile_def split: init_status.split)
    then show ?thesis
      using same_window_shows [OF t(2)] assms(3) that by (auto simp: sound_def reports_def opn_def)
  qed
  show "\<exists>t. nw_loadWallet W E c p s = Some t \<and> sound t"
    using load_result(1) [OF assms(1,2), of "nw_walletFile s" p] fine by (auto simp: nw_loadWallet_def)
  show "\<exists>t. nw_loadLegacyKeys W E c p s = Some t \<and> sound t"
    using load_result(2) [OF assms(1,2), of "nw_keysFile s" "nw_walletFile s" p] fine by (auto simp: nw_loadLegacyKeys_def)
qed

lemma commit_stays: "sound s \<Longrightarrow> mw_queue s = [] \<Longrightarrow> stays s (commitData W s)"
proof (cases "opn s")
  case True
  assume s: "sound s" "mw_queue s = []"
  then obtain t where "saved W SAVE_ALL s = Some t" "leaves s True [] t"
    using saved_leaves [OF _ True] by (metis sound_def)
  then show ?thesis
    using True s idle_open staysI [of s True "[]" t] by (simp add: commitData_def opn_def)
qed (simp add: commitData_def opn_def stays_self)

lemma export_stays: "sound s \<Longrightarrow> mw_queue s = [] \<Longrightarrow> opn s \<Longrightarrow> stays s (export_to W enc l ex p s)"
proof -
  assume s: "sound s" "mw_queue s = []" "opn s"
  then obtain t where "exported W (with_suffix p) enc l False s = Some t" "leaves s True [] t"
    using exported_leaves [of s "with_suffix p" enc l False] by (auto simp: sound_def)
  then show ?thesis
    using s idle_open staysI [of s True "[]" t] stays_self [OF s(1)] by (simp add: export_to_def Let_def)
qed

lemma saved_closed:
  assumes "ok (mw_wallet s)" "opn s"
  shows "\<exists>t u. saved W l s = Some t \<and> close_quietly W t = Some u \<and> leaves s False (mw_queue s) u"
proof -
  obtain t where t: "saved W l s = Some t" "leaves s True (mw_queue s) t"
    using saved_leaves [OF assms] by blast
  moreover obtain u where "close_quietly W t = Some u" "leaves t False (mw_queue t) u"
    using close_quietly_leaves [of t] t(2) by (auto simp: leaves_def)
  ultimately show ?thesis
    using leaves_trans [OF t(2)] by (auto simp: leaves_def)
qed

lemma reset_stays: "sound s \<Longrightarrow> mw_queue s = [] \<Longrightarrow> opn s \<Longrightarrow> stays s (resetWallet W E b s)"
proof -
  assume s: "sound s" "mw_queue s = []" "opn s"
  then obtain t u where "saved W SAVE_KEYS_ONLY s = Some t" "close_quietly W t = Some u" "leaves s False [] u"
    using saved_closed [of s SAVE_KEYS_ONLY] by (auto simp: sound_def)
  then show ?thesis
    using s open_leaves [of s u] stays_self [OF s(1)] by (simp add: resetWallet_def opn_def)
qed

lemma closed_sound: "ok (mw_wallet s) \<Longrightarrow> \<not> opn s \<Longrightarrow> settles (mw_queue s) False False \<Longrightarrow> sound (setClosedState s)"
  using closed_shows [of s] by (simp add: sound_def opn_def)

lemma clear_sound: "sound s \<Longrightarrow> sound (clearCurrent s)"
  using same_window_shows [of s "clearCurrent s"] by (simp add: sound_def opn_def)

lemma closeWallet_sound: "sound s \<Longrightarrow> mw_queue s = [] \<Longrightarrow> opn s \<Longrightarrow> \<exists>t. closeWallet W s = Some t \<and> sound t"
proof -
  assume s: "sound s" "mw_queue s = []" "opn s"
  then obtain t u where "saved W SAVE_ALL s = Some t" "close_quietly W t = Some u" "leaves s False [] u"
    using saved_closed [of s SAVE_ALL] by (auto simp: sound_def)
  then show ?thesis
    using s clear_sound [OF closed_sound [of u]] by (simp add: closeWallet_def walletClosed_def leaves_def opn_def)
qed

lemma change_password_leaves:
  assumes "ok (mw_wallet s)" "opn s" "mw_queue s = []"
  shows "\<exists>t st. change_password W old new s = Some (t, st) \<and>
    leaves s True (if st = PASSWORD_SUCCESS then [SigPasswordChanged] else []) t"
proof -
  obtain b r where b: "wi_password W old new (mw_wallet s) = Some (b, r)" "ok b" "wi_isOpen W b"
    using call_result [OF calls(3) assms(1,2)] by blast
  let ?t = "s\<lparr>mw_wallet := b, mw_queue := mw_queue s @ (if r = PASSWORD_SUCCESS then [SigPasswordChanged] else [])\<rparr>"
  have "change_password W old new s = Some (?t, r)"
    using b(1) by (simp add: change_password_def)
  moreover have "leaves s True (if r = PASSWORD_SUCCESS then [SigPasswordChanged] else []) ?t"
    using b(2,3) assms(3) by (simp add: leaves_def opn_def)
  ultimately show ?thesis
    by blast
qed

lemma password_dialogs_leaves:
  assumes "ok (mw_wallet s)" "opn s" "mw_queue s = []"
  shows "\<exists>t b q. password_dialogs W ds s = Some (t, b) \<and> leaves s True q t \<and> q \<in> {[], [SigPasswordChanged]}"
  using assms
proof (induction ds arbitrary: s)
  case Nil
  then show ?case
    using leaves_self [of s] by auto
next
  case (Cons d ds)
  obtain t st where t: "change_password W (fst d) (snd d) s = Some (t, st)"
    "leaves s True (if st = PASSWORD_SUCCESS then [SigPasswordChanged] else []) t"
    using change_password_leaves [OF Cons.prems] by blast
  show ?case
  proof (cases "st = PASSWORD_SUCCESS")
    case True
    then show ?thesis
      using t by (cases d) auto
  next
    case False
    then have t': "leaves s True [] t" "ok (mw_wallet t)" "opn t" "mw_queue t = []"
      using t(2) by (simp_all add: leaves_def)
    then obtain u b q where "password_dialogs W ds t = Some (u, b)" "leaves t True q u" "q \<in> {[], [SigPasswordChanged]}"
      using Cons.IH [of t] by blast
    then show ?thesis
      using t(1) False leaves_trans [OF t'(1)] by (cases d) auto
  qed
qed

lemma encrypt_stays:
  assumes "sound s" "mw_queue s = []" "opn s"
  shows "stays s (encryptWallet W E ds s)"
proof -
  have ok: "ok (mw_wallet s)" and ui: "ui_open s"
    using assms idle_open by (simp_all add: sound_def)
  have finish: "stays s (exported W f False SAVE_KEYS_ONLY True t)" "stays s (Some t)"
    if t: "leaves s True q t" and q: "q \<in> {[], [SigPasswordChanged]}" for f q t
  proof -
    have "settles q (ui_open s) True"
      using q ui by auto
    then show "stays s (Some t)"
      by (rule staysI [OF t])
    have "ok (mw_wallet t)" "opn t" "mw_queue t = q"
      using t by (simp_all add: leaves_def)
    then obtain u where u: "exported W f False SAVE_KEYS_ONLY True t = Some u" "leaves t True q u"
      using exported_leaves [of t] by blast
    show "stays s (exported W f False SAVE_KEYS_ONLY True t)"
      unfolding u(1) by (rule staysI [OF leaves_trans [OF t u(2)] \<open>settles q (ui_open s) True\<close>])
  qed
  obtain enc where enc: "wi_isEncrypted W (mw_wallet s) = Some enc"
    using query_answer [OF queries(1) ok assms(3)] by blast
  have self: "leaves s True [] s"
    using leaves_self [OF ok] assms(2,3) by simp
  show ?thesis
  proof (cases enc)
    case True
    obtain t b q where "password_dialogs W ds s = Some (t, b)" "leaves s True q t" "q \<in> {[], [SigPasswordChanged]}"
      using password_dialogs_leaves [OF ok assms(3,2)] by blast
    then show ?thesis
      using enc True finish by (simp add: encryptWallet_def)
  next
    case False
    show ?thesis
    proof (cases ds)
      case Nil
      then show ?thesis
        using enc False finish(1) [OF self] by (simp add: encryptWallet_def)
    next
      case (Cons d rest)
      obtain t st where t: "change_password W [] (snd d) s = Some (t, st)"
        "leaves s True (if st = PASSWORD_SUCCESS then [SigPasswordChanged] else []) t"
        using change_password_leaves [OF ok assms(3,2)] by blast
      show ?thesis
        using enc False Cons t(1) finish(1) [OF t(2)] finish(2) [OF self]
        by (cases d) (auto simp: encryptWallet_def)
    qed
  qed
qed

lemma call_stays:
  assumes "sound s" "mw_queue s = []" "opn s" "passes W ok op"
  shows "\<exists>w r. op (mw_wallet s) = Some (w, r) \<and> stays s (Some (s\<lparr>mw_wallet := w\<rparr>)) \<and> ok w \<and> wi_isOpen W w"
proof -
  obtain w r where w: "op (mw_wallet s) = Some (w, r)" "ok w" "wi_isOpen W w"
    using call_result [OF assms(4) _ assms(3)] assms(1) unfolding sound_def by blast
  have "stays s (Some (s\<lparr>mw_wallet := w\<rparr>))"
    using w(2,3) assms idle_open by (intro staysI [of s True "[]"]) (simp_all add: leaves_def opn_def)
  then show ?thesis
    using w by blast
qed

lemma setCurrent_stays: "stays s (Some t) \<Longrightarrow> stays s (Some (setCurrent i a t))"
  using same_window_trans [of s t "setCurrent i a t"] by (auto simp: stays_def leaves_def opn_def)

lemma newAddress_stays:
  assumes "sound s" "mw_queue s = []"
  shows "stays s (createAddressRequested W s)"
proof (cases "opn s")
  case True
  then show ?thesis
    using call_stays [OF assms True calls(4)] by (auto simp: createAddressRequested_def opn_def)
qed (simp add: createAddressRequested_def opn_def stays_self assms)

lemma importAddress_stays:
  assumes "sound s" "mw_queue s = []"
  shows "stays s (importAddressRequested W E input rows s)"
proof (cases "opn s")
  case True
  have ok: "ok (mw_wallet s)"
    using assms(1) by (simp add: sound_def)
  obtain primary where primary: "wi_keys W 0 (mw_wallet s) = Some primary"
    using query_answer [OF queries(6) ok True] by blast
  have create: "stays s (do {
      (w, created) \<leftarrow> wi_createAddressKeys W ks (mw_wallet s);
      let s1 = s\<lparr>mw_wallet := w\<rparr>;
      if created = [] then Some s1
      else do {
        s2 \<leftarrow> saved W SAVE_ALL s1;
        Some (case find_index (\<lambda>a. a = created) (rows (mw_wallet s2)) of None \<Rightarrow> s2 | Some i \<Rightarrow> setCurrent (of_nat i) created s2)
      }})" for ks
  proof -
    obtain w a where w: "wi_createAddressKeys W ks (mw_wallet s) = Some (w, a)"
      "stays s (Some (s\<lparr>mw_wallet := w\<rparr>))" "ok w" "wi_isOpen W w"
      using call_stays [OF assms True calls(5)] by blast
    let ?s1 = "s\<lparr>mw_wallet := w\<rparr>"
    obtain u where u: "saved W SAVE_ALL ?s1 = Some u" "leaves ?s1 True [] u"
      using saved_leaves [of ?s1 SAVE_ALL] w(3,4) assms(2) by (auto simp: opn_def)
    have "leaves s True [] ?s1"
      using w(3,4) assms(2) by (simp add: leaves_def opn_def)
    then have "stays s (Some u)"
      using idle_open [OF assms] True by (intro staysI [OF leaves_trans [OF _ u(2)]]) simp_all
    then show ?thesis
      using w(1,2) u(1) setCurrent_stays by (auto simp: Let_def split: option.split)
  qed
  show ?thesis
    using True primary create stays_self [OF assms(1)]
    by (auto simp: importAddressRequested_def opn_def split: option.split)
qed (simp add: importAddressRequested_def opn_def stays_self assms)

lemma register_stays:
  assumes "sound s" "mw_queue s = []"
  shows "stays s (map_option fst (registerAccountNumberFromCard W i b s))"
proof (cases "opn s")
  case True
  have ok: "ok (mw_wallet s)"
    using assms(1) by (simp add: sound_def)
  obtain tr n where "wi_isTracking W (mw_wallet s) = Some tr" "wi_addressCount W (mw_wallet s) = Some n"
    using query_answer [OF queries(2) ok True] query_answer [OF queries(4) ok True] by blast
  then show ?thesis
    using True call_stays [OF assms True calls(7), of i] stays_self [OF assms(1)]
    by (auto simp: registerAccountNumberFromCard_def opn_def)
qed (simp add: registerAccountNumberFromCard_def opn_def stays_self assms)

lemma delete_stays:
  assumes "sound s" "mw_queue s = []"
  shows "stays s (deleteAddressFromCard W i b s)"
proof (cases "opn s")
  case True
  obtain w where w: "wi_deleteAddress W i (mw_wallet s) = Some (w, ())" "stays s (Some (s\<lparr>mw_wallet := w\<rparr>))"
    "ok w" "wi_isOpen W w"
    using call_stays [OF assms True calls(6), of i] by auto
  let ?s1 = "s\<lparr>mw_wallet := w\<rparr>"
  obtain n a where "wi_addressCount W w = Some n" "wi_address W 0 w = Some a"
    using query_answer [OF queries(4), of ?s1] query_answer [OF queries(5), of ?s1 0] w(3,4) by (auto simp: opn_def)
  then show ?thesis
    using True w(1,2) setCurrent_stays [OF w(2)] stays_self [OF assms(1)] by (simp add: deleteAddressFromCard_def opn_def Let_def)
qed (simp add: deleteAddressFromCard_def opn_def stays_self assms)

lemma queries_total:
  assumes "ok (mw_wallet s)"
  shows "opn s \<Longrightarrow> signMessage W s \<noteq> None" "opn s \<Longrightarrow> showMnemonicSeed W E s \<noteq> None"
    "showKeysFromCard W E i s \<noteq> None" "exportTrackingKeyFromCard W E i s \<noteq> None"
    "opn s \<Longrightarrow> showSeedFromCard W E i s \<noteq> None"
proof -
  show sign: "signMessage W s \<noteq> None" if op: "opn s"
  proof -
    obtain n where n: "wi_addressCount W (mw_wallet s) = Some n"
      using query_answer [OF queries(4) assms op] by blast
    obtain ks a where "wi_keys W (if n \<le> unat (ca_index (mw_current s)) then 0 else unat (ca_index (mw_current s))) (mw_wallet s) = Some ks"
      "wi_address W (if n \<le> unat (ca_index (mw_current s)) then 0 else unat (ca_index (mw_current s))) (mw_wallet s) = Some a"
      using query_answer [OF queries(5) assms op] query_answer [OF queries(6) assms op] by blast
    then show ?thesis
      using n by (simp add: signMessage_def message_index_def Let_def)
  qed
  show "showMnemonicSeed W E s \<noteq> None" if "opn s"
    using seed_total [OF assms that, of E] by auto
  show "showKeysFromCard W E i s \<noteq> None" "exportTrackingKeyFromCard W E i s \<noteq> None"
    using query_answer [OF queries(6) assms, of i] by (auto simp: showKeysFromCard_def exportTrackingKeyFromCard_def opn_def)
  show "showSeedFromCard W E i s \<noteq> None" if "opn s"
    using query_answer [OF queries(3) assms that] seed_total [OF assms that, of E] that
    by (auto simp: showSeedFromCard_def opn_def)
qed

lemma passwordChanged_sound:
  assumes "ok (mw_wallet s)" "opn s" "shows_page s" "ui_open s" "settles (mw_queue s) True True"
  shows "\<exists>t. passwordChanged W s = Some t \<and> sound t"
proof -
  obtain enc where enc: "wi_isEncrypted W (mw_wallet s) = Some enc"
    using query_answer [OF queries(1) assms(1,2)] by blast
  let ?u = "set_enabled EncryptWallet (\<not> enc) (set_enabled ChangePassword enc s)"
  have "shows_page (set_enabled ChangePassword enc s) \<and> ui_open (set_enabled ChangePassword enc s)"
    using set_enabled_shows [OF assms(3), of ChangePassword enc] assms(4) by simp
  then have u: "shows_page ?u" "ui_open ?u"
    using set_enabled_shows [of "set_enabled ChangePassword enc s" EncryptWallet "\<not> enc"] by simp_all
  then obtain t where "saved W SAVE_ALL ?u = Some t" "leaves ?u True (mw_queue s) t"
    using saved_leaves [of ?u SAVE_ALL] assms(1,2) by (auto simp: opn_def)
  then show ?thesis
    using enc u assms(5) same_window_shows [of ?u t]
    by (auto simp: passwordChanged_def saved_def sound_def leaves_def)
qed

lemma url_sound: "sound s \<Longrightarrow> ui_open s \<Longrightarrow> sound (urlReceived W u s)"
  using check_page_open [of s Send] by (auto simp: sound_def urlReceived_def opn_def split: url_kind.split)

lemma limit_shows: "shows_page s \<Longrightarrow> ui_open s \<Longrightarrow> shows_page (limit_actions tr seedless s) \<and> ui_open (limit_actions tr seedless s)"
  unfolding limit_actions_def by (drule toggle_shows(2)) auto

lemma walletOpened_sound:
  assumes "ok (mw_wallet s)" "opn s" "shows_page s" "settles (mw_queue s) True True"
  shows "\<exists>t. walletOpened W E u s = Some t \<and> sound t"
proof -
  obtain s1 where s1: "setOpenedState W E s = Some s1"
    using query_answer [OF queries(1) assms(1,2)] by (auto simp: setOpenedState_def Let_def)
  note o1 = opened_shows [OF assms(3) s1]
  let ?s2 = "remember_wallet E s1"
  obtain tr ks m a where q: "wi_isTracking W (mw_wallet s) = Some tr" "wi_keys W 0 (mw_wallet s) = Some ks"
    "wi_mode W (mw_wallet s) = Some m" "wi_address W 0 (mw_wallet s) = Some a"
    using query_answer [OF queries(2) assms(1,2)] query_answer [OF queries(6) assms(1,2)]
      query_answer [OF queries(3) assms(1,2)] query_answer [OF queries(5) assms(1,2)] by metis
  let ?s3 = "limit_actions tr (m \<noteq> HD_DETERMINISTIC \<and> \<not> me_deterministic E ks) ?s2"
  let ?s4 = "urlReceived W u ?s3"
  have "shows_page ?s3" "ui_open ?s3"
    using o1 same_window_shows [of s1 ?s2] limit_shows [of ?s2] by simp_all
  then have "sound ?s4"
    using url_sound [of ?s3 u] o1 assms by (simp add: sound_def opn_def)
  then have "sound (first_address a ?s4)"
    using same_window_shows [of ?s4 "setCurrent 0 a ?s4"] by (simp add: first_address_def sound_def opn_def)
  moreover have "walletOpened W E u s = Some (first_address a ?s4)"
    using s1 q o1 by (simp add: walletOpened_def Let_def)
  ultimately show ?thesis
    by blast
qed

lemma queue_pop: "sound s \<Longrightarrow> mw_queue s = c # q \<Longrightarrow> ok (mw_wallet (s\<lparr>mw_queue := q\<rparr>)) \<and>
    opn (s\<lparr>mw_queue := q\<rparr>) = opn s \<and> shows_page (s\<lparr>mw_queue := q\<rparr>) \<and> ui_open (s\<lparr>mw_queue := q\<rparr>) = ui_open s \<and>
    mw_queue (s\<lparr>mw_queue := q\<rparr>) = q \<and> settles (c # q) (ui_open s) (opn s)"
  by (simp add: sound_def opn_def shows_page_def ui_open_def)

lemma deliver_sound:
  assumes "sound s" "mw_queue s \<noteq> []"
  shows "\<exists>t. deliver W E c url s = Some t \<and> sound t"
proof -
  obtain g q where g: "mw_queue s = g # q"
    using assms(2) by (cases "mw_queue s") auto
  let ?s = "s\<lparr>mw_queue := q\<rparr>"
  note pop = queue_pop [OF assms(1) g]
  show ?thesis
  proof (cases g)
    case CallLoad
    then show ?thesis
      using g pop load_sound(1) [of ?s E c "[]"] by (auto simp: deliver_def)
  next
    case CallLoadKeys
    then show ?thesis
      using g pop load_sound(2) [of ?s E c "[]"] by (auto simp: deliver_def)
  next
    case SigOpened
    then obtain t where "walletOpened W E url ?s = Some t" "sound t"
      using pop walletOpened_sound [of ?s E url] by auto
    then show ?thesis
      using g SigOpened same_window_shows [of t "nw_walletOpened t"] by (simp add: deliver_def sound_def opn_def)
  next
    case (SigOpenError st)
    then show ?thesis
      using g pop closed_sound [of ?s] by (auto simp: deliver_def walletOpenError_def)
  next
    case SigClosed
    then show ?thesis
      using g pop clear_sound [OF closed_sound [of ?s]] by (auto simp: deliver_def walletClosed_def)
  next
    case SigPasswordChanged
    then show ?thesis
      using g pop passwordChanged_sound [of ?s] by (auto simp: deliver_def)
  qed
qed

lemma action_sound:
  assumes s: "sound s" "mw_queue s = []" and offered: "mw_offered W ev s"
  shows "\<exists>t. mw_do W E c ev s = Some t \<and> (makes_wallet ev \<and> ui_open s \<and> \<not> opn t \<or> sound t)"
proof -
  have ok: "ok (mw_wallet s)" and pg: "shows_page s" and u: "ui_open s = opn s"
    using s by (simp_all add: sound_def)
  have enabled_open: "opn s" if "a \<in> mw_enabled s" "a \<noteq> BalanceProof" for a
    using pg that u by (auto simp: shows_page_def split: if_splits)
  have page_sound: "sound (check_page p s)" if "opn s" for p
    using s check_page_open [OF pg, of p] u that by (simp add: sound_def opn_def)
  have toggled: "sound (set_enabled BalanceProof b s)" for b
    using s set_enabled_shows [OF pg, of BalanceProof b] by (simp add: sound_def opn_def)
  have disabled: "sound (disable {BalanceProof} s)" and enabled: "sound (enable {BalanceProof} s)"
    using toggled [of False] toggled [of True] by (simp_all add: set_enabled_def)
  show ?thesis
  proof (cases ev)
    case (EvCreateNonDet ex p)
    then show ?thesis
      using made_sound [OF s nonDet_made [OF ok s(2)]] by auto
  next
    case (EvCreate ex p)
    then show ?thesis
      using made_sound [OF s createWallet_made [OF ok s(2)]] by auto
  next
    case (EvImportKey ex k p)
    then show ?thesis
      using made_sound [OF s importKey_made [OF ok s(2)]] by auto
  next
    case (EvRestore ex seed n p)
    then show ?thesis
      using made_sound [OF s restore_made [OF ok s(2)]] by auto
  next
    case (EvOpen ex p)
    then show ?thesis
      using stays_sound [OF s(1) openWallet_stays [OF s]] by auto
  next
    case (EvRecent i)
    then show ?thesis
      using stays_sound [OF s(1) openRecent_stays [OF s]] by auto
  next
    case (EvPassword p)
    then have "\<not> opn s"
      using offered pg u by (auto simp: shows_page_def split: if_splits)
    then show ?thesis
      using EvPassword load_sound [OF ok _ pg s(2), of E c p] by (simp add: nw_okClicked_def)
  next
    case (EvReset b)
    then show ?thesis
      using stays_sound [OF s(1) reset_stays [OF s], of E b] enabled_open [of ResetWallet] offered by auto
  next
    case EvClose
    then show ?thesis
      using closeWallet_sound [OF s] enabled_open [of CloseWallet] offered by auto
  next
    case EvCommit
    then show ?thesis
      using stays_sound [OF s(1) commit_stays [OF s]] by auto
  next
    case (EvBackup ex p)
    then show ?thesis
      using stays_sound [OF s(1) export_stays [OF s]] enabled_open [of BackupWallet] offered by (auto simp: backupWallet_def)
  next
    case (EvSaveKeys ex p)
    then show ?thesis
      using stays_sound [OF s(1) export_stays [OF s]] enabled_open [of SaveKeys] offered by (auto simp: saveWalletKeys_def)
  next
    case (EvEncrypt ds)
    then show ?thesis
      using stays_sound [OF s(1) encrypt_stays [OF s], of E ds] enabled_open [of EncryptWallet]
        enabled_open [of ChangePassword] offered by auto
  next
    case EvNewAddress
    then show ?thesis
      using stays_sound [OF s(1) newAddress_stays [OF s]] by auto
  next
    case (EvImportAddress t rows)
    then show ?thesis
      using stays_sound [OF s(1) importAddress_stays [OF s]] by auto
  next
    case (EvRegister i b)
    then show ?thesis
      using stays_sound [OF s(1) register_stays [OF s]] by auto
  next
    case (EvDelete i b)
    then show ?thesis
      using stays_sound [OF s(1) delete_stays [OF s]] by auto
  next
    case (EvSendFrom i a)
    have "sound (setCurrent i a s)"
      using s same_window_shows [of s "setCurrent i a s"] by (simp add: sound_def opn_def)
    moreover have "sound (check_page Send t)" if "sound t" "Nav Send \<in> mw_enabled t" for t
    proof -
      have "shows_page t" "ui_open t"
        using that by (auto simp: sound_def shows_page_def split: if_splits)
      then show ?thesis
        using that(1) check_page_open [of t Send] by (simp add: sound_def opn_def)
    qed
    ultimately show ?thesis
      using EvSendFrom s(1) by (auto simp: sendFromCard_def Let_def)
  next
    case (EvPage p)
    then show ?thesis
      using page_sound [OF enabled_open [of "Nav p"]] offered by simp
  next
    case EvCreatePaymentRequest
    then show ?thesis
      using page_sound [OF enabled_open [of CreatePaymentRequest]] offered by simp
  next
    case EvOpenPaymentRequest
    then show ?thesis
      using page_sound [OF enabled_open [of OpenPaymentRequest]] offered by simp
  next
    case (EvUrl url)
    then show ?thesis
      using s page_sound by (auto simp: urlReceived_def opn_def split: url_kind.split)
  next
    case (EvProgress a b)
    then show ?thesis
      using s(1) disabled by (simp add: synchronizationProgressUpdated_def)
  next
    case EvSynchronized
    then obtain b where "wi_balance W (mw_wallet s) = Some b"
      using query_answer [OF queries(7) ok] offered by (auto simp: opn_def)
    then show ?thesis
      using EvSynchronized s(1) enabled by (simp add: synchronizationCompleted_def)
  next
    case (EvBalance b)
    then show ?thesis
      using s(1) disabled by (simp add: balanceUpdated_def)
  next
    case (EvAboutToSync b)
    then show ?thesis
      using toggled by (simp add: aboutToBeSynchronized_def)
  qed (use queries_total [OF ok] enabled_open [of SignMessage] enabled_open [of ShowSeed] offered s(1) in
      \<open>auto simp: opn_def\<close>)
qed

lemma step_sound: "sound s \<Longrightarrow> mw_step W E s t \<Longrightarrow> sound t"
proof (erule mw_step.cases; hypsubst)
  fix s t c url
  assume "sound s" "mw_queue s \<noteq> []" "deliver W E c url s = Some t"
  then show "sound t"
    using deliver_sound [of s E c url] by auto
next
  fix s t c ev
  assume "sound s" "mw_queue s = []" "mw_offered W ev s" "mw_do W E c ev s = Some t"
    "makes_wallet ev \<and> ui_open s \<longrightarrow> wi_isOpen W (mw_wallet t)"
  then show "sound t"
    using action_sound [of s ev E c] by (auto simp: opn_def)
qed

end


section \<open>WalletGreenAdapter keeps the contract\<close>

definition green_if :: "'w green \<Rightarrow> 'w wa_state wallet_if" where
  "green_if G = \<lparr>wi_isOpen = wa_isOpen, wi_isEncrypted = wa_isEncrypted,
     wi_isTracking = wa_query (ww_isTrackingWallet G), wi_mode = wa_query (ww_getAddressGenerationMode G),
     wi_addressCount = wa_query (ww_getAddressCount G), wi_address = (\<lambda>i. wa_query (ww_getAddress G i)),
     wi_keys = (\<lambda>i. wa_query (ww_getAccountKeys G i)), wi_balance = wa_query (ww_getActualBalance G),
     wi_save = wa_save G, wi_export = wa_exportWallet G, wi_password = wa_changePassword G,
     wi_createAddress = wa_createAddress G, wi_createAddressKeys = wa_createAddressKeys G,
     wi_deleteAddress = wa_deleteAddress G, wi_register = wa_registerAccountNumber G, wi_close = wa_close,
     wi_create = wa_create G, wi_createHd = wa_createHd G, wi_createWithKeys = wa_createWithKeys G,
     wi_load = wa_load G, wi_loadLegacy = wa_loadLegacyKeys G\<rparr>"

lemma green_isOpen [simp]: "wi_isOpen (green_if G) = wa_isOpen"
  by (simp add: green_if_def)

lemma green_calls:
  "wi_isTracking (green_if G) = wa_query (ww_isTrackingWallet G)"
  "wi_mode (green_if G) = wa_query (ww_getAddressGenerationMode G)"
  "wi_addressCount (green_if G) = wa_query (ww_getAddressCount G)"
  "wi_address (green_if G) i = wa_query (ww_getAddress G i)" "wi_keys (green_if G) i = wa_query (ww_getAccountKeys G i)"
  "wi_balance (green_if G) = wa_query (ww_getActualBalance G)" "wi_save (green_if G) = wa_save G"
  "wi_export (green_if G) = wa_exportWallet G" "wi_password (green_if G) = wa_changePassword G"
  "wi_createAddress (green_if G) = wa_createAddress G" "wi_createAddressKeys (green_if G) = wa_createAddressKeys G"
  "wi_deleteAddress (green_if G) = wa_deleteAddress G" "wi_register (green_if G) = wa_registerAccountNumber G"
  "wi_close (green_if G) = wa_close" "wi_create (green_if G) = wa_create G" "wi_createHd (green_if G) = wa_createHd G"
  "wi_createWithKeys (green_if G) = wa_createWithKeys G" "wi_load (green_if G) = wa_load G"
  "wi_loadLegacy (green_if G) = wa_loadLegacyKeys G"
  by (simp_all add: green_if_def)

lemma green_starts: "opens op \<Longrightarrow> starts (green_if G) wa_inv (wa_open op)"
  unfolding starts_def using open_succeeds open_inv by (metis green_isOpen)

lemma green_passes: "keeps op \<Longrightarrow> passes (green_if G) wa_inv (on_worker op)"
  unfolding passes_def green_isOpen using on_worker_result inv_isOpen by metis

lemma green_answers: "(\<And>s. worker_ok s \<Longrightarrow> q s \<noteq> None) \<Longrightarrow> answers (green_if G) wa_inv (wa_query q)"
  by (auto simp: answers_def wa_query_def wa_inv_def wa_isOpen_def split: option.splits)

lemma ask_total: "worker_ok s \<Longrightarrow> ask q d s \<noteq> None"
  using ask_Some [of s q d] by auto

interpretation green: wallet_contract "green_if G" wa_inv for G :: "'w green"
proof
  show "answers (green_if G) wa_inv (wi_isEncrypted (green_if G))"
    by (auto simp: answers_def green_if_def wa_isEncrypted_def wa_isOpen_def split: option.splits)
next
  show "\<exists>b. wi_close (green_if G) a = Some b \<and> wa_inv b \<and> \<not> wi_isOpen (green_if G) b"
    if "wa_inv a" "wi_isOpen (green_if G) a" for a
    using wa_close_result [OF that(1)] inv_isOpen [OF that(1)] that(2)
    by (auto simp: green_calls wa_inv_def wa_isOpen_def)
qed (unfold green_calls wa_call_defs,
     (rule green_passes green_starts green_answers, (rule all_keep all_open)?,
      (simp add: ask_total ww_isTrackingWallet_def ww_getAddressGenerationMode_def ww_getAddressCount_def
        ww_getAddress_def ww_getAccountKeys_def ww_getActualBalance_def)?)+)

end
