(* ===== verification/SessionClaims.thy ===== *)
theory SessionClaims
  imports SessionSafety
begin

text \<open>
  The properties of the main window: agreement with the wallet, the states in
  which a failed creation leaves it, the menu of recent wallets, the current
  address, and the files it hands to the library.
\<close>

section \<open>Start\<close>

text \<open>The constructor: the closed state, and the wallet of the settings opened if its file exists.\<close>

definition mw_construct :: "mw_env \<Rightarrow> (string \<Rightarrow> bool) \<Rightarrow> 'a \<Rightarrow> cfg \<Rightarrow> 'a session" where
  "mw_construct E exists w cf =
     (let s = setClosedState (createRecentWalletMenu
           \<lparr>mw_wallet = w, mw_cfg = cf, mw_enabled = {}, mw_checked = None, mw_visible = page_frames, mw_menu = [],
            mw_current = ca_none, mw_changes = [], mw_queue = [], nw_walletFile = [], nw_keysFile = [],
            nw_password = False, nw_error = False, mw_written = []\<rparr>)
      in if exists (walletFile E s) then nw_openWallet (walletFile E s) [] s else s)"

definition mw_start :: "mw_env \<Rightarrow> 'w wa_state session \<Rightarrow> bool" where
  "mw_start E s \<longleftrightarrow> (\<exists>ex cf. s = mw_construct E ex wa_new cf)"

abbreviation mw_reached :: "'w green \<Rightarrow> mw_env \<Rightarrow> 'w wa_state session \<Rightarrow> bool" where
  "mw_reached G E \<equiv> reach (mw_start E) (mw_step (green_if G) E)"

lemma construct_idle:
  "mw_queue (createRecentWalletMenu s) = mw_queue s" "mw_wallet (createRecentWalletMenu s) = mw_wallet s"
  by (simp_all add: createRecentWalletMenu_def updateRecentWalletActions_def Let_def)

lemma construct_sound:
  assumes "mw_start E s"
  shows "green.sound G s"
proof -
  obtain ex cf where s: "s = mw_construct E ex wa_new cf"
    using assms by (auto simp: mw_start_def)
  have "green.sound G (setClosedState u)" if "mw_wallet u = wa_new" "mw_queue u = []" for u
    using that by (intro green.closed_sound) (simp_all add: green.opn_def wa_inv_def wa_new_def wa_isOpen_def)
  moreover have "green.sound G (nw_openWallet f [] u)"
    if "green.sound G u" "mw_wallet u = wa_new" "mw_queue u = []" for f u
    using that same_window_shows [of u "nw_openWallet f [] u"]
    by (simp add: green.sound_def green.opn_def wa_new_def wa_isOpen_def)
  ultimately show ?thesis
    by (simp add: s mw_construct_def construct_idle Let_def)
qed

interpretation window: inductive_invariant "mw_start E" "mw_step (green_if G) E" "green.sound G"
  for E and G :: "'w green"
  by unfold_locales (rule construct_sound, assumption, rule green.step_sound)

lemma reached_sound: "mw_reached G E s \<Longrightarrow> green.sound G s"
  by (rule window.reach_inv)


section \<open>The window and the wallet agree\<close>


definition demo_env :: mw_env where
  "demo_env = \<lparr>me_cfg = \<lparr>ce_codec = one_codec Map.empty, ce_writable = True, ce_tray = True,
        ce_userInput = (\<lambda>s. \<lparr>qu_scheme = ''http'', qu_host = s, qu_port = 32348\<rparr>),
        ce_absolute = (\<lambda>d f. f), ce_rpcPort = 32348\<rparr>,
     me_line = \<lparr>cl_isSet = (\<lambda>_. False), cl_value = (\<lambda>_. []), cl_values = (\<lambda>_. [])\<rparr>,
     me_explorer = True, me_deterministic = (\<lambda>_. True), me_generated = demo_account,
     me_seed = (\<lambda>_. None), me_lib = no_blob_lib\<rparr>"

definition demo_session :: "demo wa_state session" where
  "demo_session = mw_construct demo_env (\<lambda>_. False) wa_new (cf_new None)"

lemma demo_session_reached: "mw_reached G demo_env demo_session"
  by (rule reach_start) (auto simp: mw_start_def demo_session_def)

lemma demo_session_idle: "mw_queue demo_session = []" "\<not> wa_isOpen (mw_wallet demo_session)"
  by (simp_all add: demo_session_def mw_construct_def construct_idle Let_def wa_isOpen_def wa_new_def)



section \<open>A failed creation\<close>

context wallet_contract begin

text \<open>The window offers the actions of a wallet, none is open, and nothing is under way that would change that.\<close>

definition stranded :: "'a session \<Rightarrow> bool" where
  "stranded s \<longleftrightarrow> ok (mw_wallet s) \<and> ui_open s \<and> mw_queue s = [] \<and> \<not> opn s"

lemma made_stranded:
  assumes "sound s" "mw_queue s = []" "ui_open s" "made False s (Some t)" "\<not> opn t"
  shows "stranded t"
proof -
  obtain o' q where t: "leaves s o' q t" "after_making False (opn s) o' q"
    using assms(4) unfolding made_def by blast
  have "opn s"
    using assms(1-3) by (simp add: sound_def)
  moreover have "o' = False" "mw_queue t = q" "ui_open t = ui_open s" "ok (mw_wallet t)"
    using t(1) assms(5) same_window_shows [of s t] by (simp_all add: leaves_def)
  ultimately show ?thesis
    using t(2) assms(3,5) by (simp add: stranded_def after_making_def)
qed

lemma making_stranded:
  assumes "sound s" "mw_queue s = []" "ui_open s" "makes_wallet ev" "mw_do W E False ev s = Some t" "\<not> opn t"
  shows "stranded t"
proof -
  have ok: "ok (mw_wallet s)"
    using assms(1) by (simp add: sound_def)
  have "made False s (mw_do W E False ev s)"
    using assms(4) nonDet_made [OF ok assms(2)] createWallet_made [OF ok assms(2)] importKey_made [OF ok assms(2)]
      restore_made [OF ok assms(2)] by (cases ev) simp_all
  then show ?thesis
    using made_stranded [OF assms(1-3)] assms(5,6) by simp
qed

lemma import_of_no_keys:
  assumes "sound s" "mw_queue s = []" "imported_keys (me_lib E) k = None" "p \<noteq> []" "\<not> ex (with_suffix p)"
  shows "\<exists>t. importKey W E c ex k p s = Some t \<and> \<not> opn t"
proof -
  obtain u where "close_quietly W s = Some u" "leaves s False [] u"
    using close_quietly_leaves [of s] assms(1,2) by (auto simp: sound_def)
  then show ?thesis
    using assms(3-5) by (simp add: importKey_def Let_def leaves_def)
qed

end

lemma closed_wallet_asserts:
  assumes "wa_inv (mw_wallet s)" "\<not> wa_isOpen (mw_wallet s)"
  shows "closeWallet (green_if G) s = None" "signMessage (green_if G) s = None"
    "backupWallet (green_if G) (\<lambda>_. False) ''b'' s = None"
proof -
  have "wa_worker (mw_wallet s) = None"
    using assms inv_isOpen by blast
  then show "closeWallet (green_if G) s = None" "signMessage (green_if G) s = None"
    "backupWallet (green_if G) (\<lambda>_. False) ''b'' s = None"
    using assms(2)
    by (simp_all add: closeWallet_def signMessage_def message_index_def green_calls wa_query_def backupWallet_def
        export_to_def exported_def wa_exportWallet_def on_worker_def with_suffix_def ends_with_def Let_def)
qed


lemma demo_created:
  "map_option (\<lambda>t. (mw_queue t, wa_isOpen (mw_wallet t)))
     (mw_do (green_if (demo_green True)) demo_env False (EvCreate (\<lambda>_. False) ''w'') demo_session) = Some ([SigOpened], True)"
  "map_option (\<lambda>t. (mw_queue t, CloseWallet \<in> mw_enabled t))
     (do { t \<leftarrow> mw_do (green_if (demo_green True)) demo_env False (EvCreate (\<lambda>_. False) ''w'') demo_session;
           deliver (green_if (demo_green True)) demo_env False NoUrl t }) = Some ([], True)"
  by code_simp+

lemma demo_shown: "\<exists>s. mw_reached (demo_green True) demo_env s \<and> mw_queue s = [] \<and> CloseWallet \<in> mw_enabled s"
proof -
  let ?W = "green_if (demo_green True)"
  obtain t where t: "mw_do ?W demo_env False (EvCreate (\<lambda>_. False) ''w'') demo_session = Some t"
    "mw_queue t = [SigOpened]" "wa_isOpen (mw_wallet t)"
    using demo_created(1) by auto
  then obtain u where u: "deliver ?W demo_env False NoUrl t = Some u" "mw_queue u = []" "CloseWallet \<in> mw_enabled u"
    using demo_created(2) by auto
  have "mw_step ?W demo_env demo_session t"
    using demo_session_idle(1) t(1,3) by (intro action [where ev = "EvCreate (\<lambda>_. False) ''w''"]) simp_all
  moreover have "mw_step ?W demo_env t u"
    using t(2) u(1) by (intro queued) simp_all
  ultimately have "mw_reached (demo_green True) demo_env u"
    using demo_session_reached reach_step by metis
  then show ?thesis
    using u(2,3) by blast
qed



section \<open>Recent wallets\<close>

lemma recent_after: "getRecentWalletList (mw_cfg (remember_wallet E s)) =
    take MAX_RECENT_WALLET_COUNT (walletFile E s # removeAll (walletFile E s) (getRecentWalletList (mw_cfg s)))"
  by (simp add: remember_wallet_def updateRecentWalletActions_def recent.get_put [where E = "me_cfg E"] Let_def)

lemma cfg_of_window [simp]:
  "mw_cfg (check_page p s) = mw_cfg s" "mw_cfg (enable A s) = mw_cfg s" "mw_cfg (disable A s) = mw_cfg s"
  "mw_cfg (set_enabled act b s) = mw_cfg s" "mw_cfg (urlReceived W u s) = mw_cfg s" "mw_cfg (setCurrent i a s) = mw_cfg s"
  "mw_menu (check_page p s) = mw_menu s" "mw_menu (enable A s) = mw_menu s" "mw_menu (disable A s) = mw_menu s"
  "mw_menu (set_enabled act b s) = mw_menu s" "mw_menu (urlReceived W u s) = mw_menu s" "mw_menu (setCurrent i a s) = mw_menu s"
  "mw_current (check_page p s) = mw_current s" "mw_current (enable A s) = mw_current s"
  "mw_current (disable A s) = mw_current s" "mw_current (set_enabled act b s) = mw_current s"
  "mw_current (urlReceived W u s) = mw_current s" "mw_cfg (limit_actions tr seedless s) = mw_cfg s"
  "mw_menu (limit_actions tr seedless s) = mw_menu s" "mw_current (limit_actions tr seedless s) = mw_current s"
  by (simp_all add: check_page_def enable_def disable_def set_enabled_def urlReceived_def setCurrent_def limit_actions_def Let_def
      split: url_kind.split)

lemma opened_keeps: "setOpenedState W E s = Some t \<Longrightarrow>
    mw_cfg t = mw_cfg s \<and> mw_menu t = mw_menu s \<and> mw_current t = mw_current s \<and> mw_wallet t = mw_wallet s"
  by (auto simp: setOpenedState_def Let_def bind_eq_Some_conv)

lemma remembered_fields [simp]:
  "mw_current (remember_wallet E s) = mw_current s"
  by (simp add: remember_wallet_def updateRecentWalletActions_def Let_def)

lemma first_address_fields:
  "mw_cfg (first_address a s) = mw_cfg s" "mw_menu (first_address a s) = mw_menu s"
  "mw_current (first_address a s) = (if ca_address (mw_current s) = [] then \<lparr>ca_index = 0, ca_address = a\<rparr> else mw_current s)"
  by (auto simp: first_address_def setCurrent_def Let_def)

lemma walletOpened_parts:
  assumes "walletOpened W E u s = Some t"
  shows "\<exists>v a. mw_wallet v = mw_wallet s \<and> mw_cfg v = mw_cfg s \<and> mw_menu v = mw_menu s \<and>
    mw_cfg t = mw_cfg (remember_wallet E v) \<and> mw_menu t = mw_menu (remember_wallet E v) \<and>
    wi_address W 0 (mw_wallet s) = Some a \<and>
    mw_current t = (if ca_address (mw_current s) = [] then \<lparr>ca_index = 0, ca_address = a\<rparr> else mw_current s)"
proof -
  obtain v where v: "setOpenedState W E s = Some v"
    using assms by (auto simp: walletOpened_def bind_eq_Some_conv)
  show ?thesis
    using assms v opened_keeps [OF v]
    by (intro exI [of _ v]) (auto simp: walletOpened_def bind_eq_Some_conv Let_def first_address_fields)
qed

lemma shown_menu:
  assumes "length r \<le> n"
  shows "map fst (filter snd (map (\<lambda>i. if i < length r then (r ! i, True) else (g i, False)) [0..<n])) = r"
proof -
  let ?f = "\<lambda>i. if i < length r then (r ! i, True) else (g i, False)"
  have "[0..<n] = [0..<length r] @ [length r..<n]"
    using assms upt_add_eq_append [of 0 "length r" "n - length r"] by simp
  moreover have "filter snd (map ?f [length r..<n]) = []"
    by (simp add: filter_empty_conv)
  moreover have "map fst (filter snd (map ?f [0..<length r])) = r"
    by (simp add: filter_map comp_def) (rule nth_equalityI; simp)
  ultimately show ?thesis
    by simp
qed

text \<open>
  C25. When a wallet is opened its file comes first in the list of recent wallets,
  without a second entry, the others keep their order, and the list never grows
  beyond ten; the menu has ten entries and shows exactly that list. A list
  without repetitions stays so.
\<close>
theorem recent_wallets:
  assumes "walletOpened W E u s = Some t"
  shows "let f = walletFile E s; old = getRecentWalletList (mw_cfg s); new = getRecentWalletList (mw_cfg t) in
    new = take 10 (f # removeAll f old) \<and> length new \<le> 10 \<and> count_list new f = 1 \<and>
    (distinct old \<longrightarrow> distinct new) \<and> walletFile E t = f \<and>
    length (mw_menu t) = 10 \<and> map fst (filter snd (mw_menu t)) = new"
proof -
  obtain v where v: "mw_cfg v = mw_cfg s" "mw_cfg t = mw_cfg (remember_wallet E v)" "mw_menu t = mw_menu (remember_wallet E v)"
    and parts: "mw_wallet v = mw_wallet s" "mw_cfg v = mw_cfg s" "mw_menu v = mw_menu s"
    using walletOpened_parts [OF assms] by blast
  let ?f = "walletFile E s" and ?old = "getRecentWalletList (mw_cfg s)" and ?new = "getRecentWalletList (mw_cfg t)"
  have new: "?new = take 10 (?f # removeAll ?f ?old)"
    using v(1) by (simp add: v(2) recent_after MAX_RECENT_WALLET_COUNT_def walletFile_def)
  have "count_list (take 9 (removeAll ?f ?old)) ?f = 0"
    by (rule count_notin) (auto dest: in_set_takeD)
  then have "count_list ?new ?f = 1"
    by (simp add: new take_Cons')
  moreover have "distinct ?new" if "distinct ?old"
    using that by (auto simp: new take_Cons' distinct_removeAll dest: in_set_takeD)
  moreover have "walletFile E t = ?f"
  proof -
    have "K_WALLET \<noteq> K_RECENT"
      by (simp add: keys)
    then show ?thesis
      using v(1) unfolding walletFile_def v(2)
      by (intro wallet.get_local) (simp add: remember_wallet_def updateRecentWalletActions_def setRecentWalletList_def Let_def)
  qed
  moreover have "length ?new \<le> 10"
    by (simp add: new)
  moreover have "mw_menu t = map (\<lambda>i. if i < length ?new then (?new ! i, True) else (fst (mw_menu s ! i), False)) [0..<10]"
    using \<open>length ?new \<le> 10\<close> parts(3)
    by (simp add: v(2,3) remember_wallet_def updateRecentWalletActions_def MAX_RECENT_WALLET_COUNT_def Let_def)
  then have "length (mw_menu t) = 10 \<and> map fst (filter snd (mw_menu t)) = ?new"
    using shown_menu [OF \<open>length ?new \<le> 10\<close>] by simp
  ultimately show ?thesis
    using new by (simp add: Let_def)
qed

lemma demo_opened: "walletOpened (green_if (demo_green True)) demo_env NoUrl
    (the (mw_do (green_if (demo_green True)) demo_env False (EvCreate (\<lambda>_. False) ''w'') demo_session)) \<noteq> None"
  by code_simp

lemma recent_wallets_witness:
  "\<exists>s t. walletOpened (green_if (demo_green True)) demo_env NoUrl s = Some t \<and>
    length (getRecentWalletList (mw_cfg t)) \<le> 10 \<and> length (mw_menu t) = 10"
proof -
  obtain s t where "walletOpened (green_if (demo_green True)) demo_env NoUrl s = Some t"
    using demo_opened by blast
  then show ?thesis
    using recent_wallets [of "green_if (demo_green True)" demo_env NoUrl s t] by (auto simp: Let_def)
qed


section \<open>The current address\<close>

lemma saved_current: "saved W l s = Some t \<Longrightarrow> mw_current t = mw_current s"
  by (auto simp: saved_def)

lemma close_quietly_current: "close_quietly W s = Some t \<Longrightarrow> mw_current t = mw_current s"
  by (auto simp: close_quietly_def split: if_splits)

lemma save_and_close_current: "save_and_close W s = Some t \<Longrightarrow> mw_current t = mw_current s"
  by (auto simp: save_and_close_def bind_eq_Some_conv dest!: saved_current close_quietly_current split: if_splits)

lemma openWallet_current [simp]: "mw_current (nw_openWallet f kf s) = mw_current s"
  by (simp add: nw_openWallet_def)

lemma closed_current [simp]: "mw_current (setClosedState s) = mw_current s"
  by (simp add: setClosedState_def uncheck_page_def disable_def Let_def)

lemma cleared: "mw_current (clearCurrent s) = ca_none"
  by (cases "mw_current s") (simp add: clearCurrent_def ca_none_def Let_def)



end
