(* ===== verification/Spec2Isabelle.thy ===== *)
theory Spec2Isabelle
  imports AddressBookModel AddressListModel WalletAdapter SemaphoreProtocol NodeConnection JsonRpc
    BlockchainModel TransactionPoolModel TransactionsModel NodeStateModel WalletStateModel BlockPages MappedFile ContactForms OptionsForms StatusBar OverviewHeader Styles PaymentRequest ExplorerPage TransferLists Housekeeping WindowParts DetailViews Wiring StartOptions StyleSheets EventHandlers Dialogs NodeLifecycle AppStart AddressCards TransactionFilters SendSafety SettingsRuns Autostart SessionClaims
begin

text \<open>
  Karbo-GUI: verification development of the wallet's application logic.

  The program is a Qt application around the CryptoNote library: it keeps a
  node and a wallet of that library, each behind an adapter with a worker in a
  thread of its own, shows them through Qt item models, and drives them from
  the frames and dialogs of one main window. This development models the code
  under src/src (C++), one theory per component. The sources are cited by
  their paths under src/.

  \<^bold>\<open>How the code is modelled.\<close> An object's members are a record, a member
  function is a function on that record, enums are datatypes. A failed
  assertion (Q_ASSERT), or an exception that nothing catches, is None; errors the
  program handles are values. Unsigned integers are words of their width and
  wrap as in C++; signed ones are integers, converted where the code casts. A
  signal is an entry in a list in the order of emission, a slot is a function,
  a queued call is an entry of a queue. Dialogs are their answers. Code that is
  not under src/ (the CryptoNote library, Qt's text codecs, the operating
  system) enters as functions or answers that are parameters, and what is needed
  of it is a named hypothesis that a witness instantiates.

  \<^bold>\<open>Foundations.\<close>
  Prelude: strings (lists of 8-bit code units), JSON values, hashes, words,
  lists by index. Transition: reachable states and the interface of inductive
  invariants. HashIndex: the QHash members that find a row from a key, as a
  locale over lookup, insert and remove. ItemModel: the contract of an item
  model, that its announcements replay to its row count, as a locale. SessionSafety
  holds the contract of the wallet adapter as a locale, Wiring that of an object
  with observers. Every locale
  is interpreted on the definitions of the code.

  \<^bold>\<open>Wallet.\<close>
  WalletWorker: WalletGreenWorker, the library's wallet with its user data and
  its flags, each operation on success and on every exception. SemaphoreProtocol:
  how callers and their tasks share one semaphore, over all interleavings.
  WalletAdapter: WalletGreenAdapter, which creates and deletes the worker.
  KeyExchange: keys as bytes and text, the parsing of imported keys and
  addresses. AddressBook: AddressBookManager, the address book, the donation
  settings and the labels of own addresses in one JSON object.

  \<^bold>\<open>Node.\<close>
  NodeConnection: CryptoNoteAdapter's choice of a node and the fallback to the
  embedded one. NodeWorkers and NodeLifecycle: InProcessNodeWorker,
  ProxyRpcNodeWorker and CommonNodeAdapter, with start and stop as steps of two
  threads. AppStart: WalletApplication, which starts, restarts and quits.
  ExplorerWorker: BlockChainExplorerWorker with its cache. AmountFormat: amounts,
  payment ids. ChainData: the library's block and transaction data.

  \<^bold>\<open>Item models.\<close>
  AddressBookModel, AddressListModel, BlockchainModel, TransactionPoolModel,
  TransactionsModel (with TransfersModel), NodeStateModel, WalletStateModel: rows,
  cells and announcements, the first five against the contract of ItemModel.
  BlockPages: the filter, window and paging proxies of the block list.
  TransactionFilters: the sorted and filtered history and TransactionsFrame.
  AddressCards: AddressSidebar and AddressCard, which follow the address list.

  \<^bold>\<open>Forms and windows.\<close>
  Recipient: TransferFrame, with the resolution of aliases and account numbers.
  SendForm and SendSafety: SendFrame, up to the transaction it submits.
  WalletSession, SessionSafety and SessionClaims: MainWindow, NoWalletFrame and
  CurrentAddressState, which wallet is open and what is offered for it.
  ContactForms: NewAddressDialog, AddressBookFrame, SortedAddressBookModel and
  AddressBookDialog over the address book. OptionsForms: OptionsDialog and its
  pages over the settings. StatusBar: WalletStatusBar and the times it shows.
  OverviewHeader: OverviewHeaderFrame and the balances it copies. Dialogs: the
  dialogs for passwords, signatures, proofs, keys and their checks.
  PaymentRequest: the payment link of ReceiveFrame and its reading by
  OpenUriDialog, MainWindow and SendFrame. ExplorerPage: BlockExplorerFrame, its
  page and search over the models of the explorer. TransferLists: the transfers
  of a transaction as the renderers of the history show them.
  WindowParts: the texts and menus of the forms and the main window that no other
  theory needs (error labels, selectors, progress, menus). Styles: Style and
  its themes, a style sheet as one substitution of names. StyleSheets: the
  templates of all widgets, none of which names a placeholder the style lacks.
  DetailViews: the list views (WalletTableView, WalletTreeView), the texts their
  delegates paint, the dialogs with the details of a transaction or a block, QR
  codes as pixels. Wiring: which signal of which object reaches which slot, from
  the tables of addObserver and removeObserver, and the set-up of the pages.

  \<^bold>\<open>Settings and the rest.\<close>
  AppSettings, SettingsRuns and Autostart: Settings and CommandLineParser over
  karbowallet.cfg. StartOptions: the options of the command line, their defaults
  and what Settings passes on, and the loggers of the library. JsonRpc: the JSON-RPC objects, factory and server.
  MappedFile: the memory-mapped file of the Posix platform.
  Housekeeping: WalletLogger, LogFileWatcher, Updater and NewsFrame, from the
  lines of the log and the answers of the network to what is shown.
  EventHandlers: ApplicationEventHandler on Linux, Windows and macOS: payment links
  between two programs and the lock of the screen.

  \<^bold>\<open>What the lemmas show.\<close>
  Invariants over every sequence of calls and events: of the semaphore protocol,
  the node's start, the mapped file, the main window, the item models. Agreement
  with a specification: an index hash with a search of the list, a format
  with the number it denotes, a filter chain with what the fields say, the list
  of cards with the addresses. Round trips: keys and bytes, amounts, settings
  and the options dialog over a restart, the address book over a save. Errors:
  what a failed creation,
  a failed mapping, a failed restart leave. Progress: a node's stop, the
  answering of a connection's lines.

  \<^bold>\<open>Bounds.\<close> There is no fuel: every recursion ends by its data. Loops that
  wait for the user or a thread are lists of answers (an empty list is still
  waiting) or step relations.

  \<^bold>\<open>Limits.\<close> Strings are 8-bit and letters compare without case as ASCII. Each
  slot runs to its end before the next; nested event loops are modelled where
  the code depends on them (WalletSession, AppStart, NodeWorkers). Locks are left
  out where a class takes one for each call. Doubles are parameters; so are
  calendar arithmetic and the sorting of equal keys by the library is
  taken as stable. Chains of QString::arg are taken for texts without a percent
  sign. Filters by time are evaluated at one moment of the clock.

  \<^bold>\<open>Not modelled.\<close> The vendored QR encoder (src/libqrencode), a C library that
  the program only calls, and the code generated from forms (ui_*.h), which
  builds widgets. Layout, painting, fonts and icons: delegates, buttons, labels,
  glass frames, tree and table views, where the effect is on the screen only. The
  network and the file system themselves: what they answer is an argument.
  Objective-C glue of macOS, and signals of the operating system. The manifest lists each with its reason.
\<close>

end
